(* ===== verification/Omp_Prelude.thy ===== *)
theory Omp_Prelude
  imports Main "HOL-Library.Monad_Syntax"
begin

text \<open>
  Shared vocabulary of the development: what the TypeScript sources use of the language and
  its standard library (\<^verbatim>\<open>String.prototype.trim\<close>, \<^verbatim>\<open>Array.prototype.findLast\<close>,
  \<^verbatim>\<open>Number.isSafeInteger\<close>, regular expressions over hexadecimal digits), the contents of a
  JSON file as the decoders see it, the theorem collections of the development, and two
  interfaces that several components implement: idempotent schemas and append-only logs with
  dense sequence numbers.
\<close>

named_theorems schema_simps \<open>characteristic equations of the schema parsers\<close>
named_theorems reducer_simps \<open>unfolding equations of the run reducers\<close>
named_theorems ledger_simps \<open>unfolding equations of the ledgers\<close>

section \<open>Strings, numbers and arrays\<close>

text \<open>
  A JavaScript string is modelled by a list of characters (code units up to U+00FF).
  \<^verbatim>\<open>trim\<close> removes white space and line terminators at both ends.
\<close>

definition js_space :: "char \<Rightarrow> bool" where
  "js_space c \<longleftrightarrow>
     c \<in> set [CHR 0x09, CHR 0x0A, CHR 0x0B, CHR 0x0C, CHR 0x0D, CHR 0x20, CHR 0xA0]"

definition js_trim :: "string \<Rightarrow> string" where
  "js_trim s = rev (dropWhile js_space (rev (dropWhile js_space s)))"

lemma dropWhile_idem [simp]: "dropWhile P (dropWhile P xs) = dropWhile P xs"
  by (induction xs) auto

lemma dropWhile_rev_dropWhile:
  "dropWhile P (rev (dropWhile P (rev (dropWhile P xs)))) = rev (dropWhile P (rev (dropWhile P xs)))"
proof (cases "dropWhile P xs")
  case Nil
  show ?thesis unfolding Nil by simp
next
  case (Cons y ys)
  then have "\<not> P y" by (metis hd_dropWhile list.sel(1) list.distinct(1))
  then have "dropWhile P (rev (y # ys)) = dropWhile P (rev ys) @ [y]"
    by (induction ys rule: rev_induct) (auto simp: dropWhile_append3)
  with Cons \<open>\<not> P y\<close> show ?thesis by simp
qed

lemma js_trim_idem [simp]: "js_trim (js_trim s) = js_trim s"
  by (simp add: js_trim_def dropWhile_rev_dropWhile)

lemma trim_ends: "s \<noteq> [] \<Longrightarrow> \<not> js_space (hd s) \<Longrightarrow> \<not> js_space (last s) \<Longrightarrow> js_trim s = s"
  by (simp add: js_trim_def dropWhile_eq_self_iff [THEN iffD2] hd_rev)

lemma js_trim_iff: "js_trim s = s \<longleftrightarrow> s = [] \<or> (\<not> js_space (hd s) \<and> \<not> js_space (last s))"
proof
  assume trimmed: "js_trim s = s"
  show "s = [] \<or> (\<not> js_space (hd s) \<and> \<not> js_space (last s))"
  proof (rule disjCI)
    assume "\<not> (\<not> js_space (hd s) \<and> \<not> js_space (last s))"
    moreover have "js_space (hd s) \<Longrightarrow> s \<noteq> [] \<Longrightarrow> length (js_trim s) < length s"
      using length_dropWhile_le [of js_space "tl s"] length_dropWhile_le [of js_space "rev (dropWhile js_space s)"]
      by (cases s) (auto simp: js_trim_def)
    moreover have "js_space (last s) \<Longrightarrow> s \<noteq> [] \<Longrightarrow> \<not> js_space (hd s) \<Longrightarrow> length (js_trim s) < length s"
      using length_dropWhile_le [of js_space "tl (rev s)"]
      by (cases s rule: rev_cases) (auto simp: js_trim_def dropWhile_eq_self_iff [THEN iffD2])
    ultimately show "s = []" using trimmed by force
  qed
next
  assume "s = [] \<or> (\<not> js_space (hd s) \<and> \<not> js_space (last s))"
  then show "js_trim s = s" using trim_ends by (cases "s = []") (simp_all add: js_trim_def)
qed

text \<open>Integers that \<^verbatim>\<open>Number.isSafeInteger\<close> accepts; every persisted counter is one.\<close>

definition max_safe_integer :: nat where
  "max_safe_integer = 9007199254740991"

definition is_hex_lower :: "char \<Rightarrow> bool" where
  "is_hex_lower c \<longleftrightarrow> c \<in> set ''0123456789abcdef''"

definition hex_string :: "nat \<Rightarrow> string \<Rightarrow> bool" where
  "hex_string n s \<longleftrightarrow> length s = n \<and> list_all is_hex_lower s"

text \<open>\<^verbatim>\<open>toString\<close> of a non-negative integer, and its inverse on digit strings.\<close>

definition digit :: "nat \<Rightarrow> char" where
  "digit n = ''0123456789'' ! (n mod 10)"

fun decimal :: "nat \<Rightarrow> string" where
  "decimal n = (if n < 10 then [digit n] else decimal (n div 10) @ [digit (n mod 10)])"

declare decimal.simps [simp del]

definition digit_value :: "char \<Rightarrow> nat" where
  "digit_value c = of_char c - 48"

definition is_digit :: "char \<Rightarrow> bool" where
  "is_digit c \<longleftrightarrow> c \<in> set ''0123456789''"

definition number_of :: "string \<Rightarrow> nat" where
  "number_of s = foldl (\<lambda>n c. 10 * n + digit_value c) 0 s"

lemma digit_cases: "(n::nat) < 10 \<Longrightarrow> n \<in> {0,1,2,3,4,5,6,7,8,9}"
  by auto

lemma digit_value_digit [simp]: "n < 10 \<Longrightarrow> digit_value (digit n) = n"
  by (drule digit_cases) (auto simp: digit_def digit_value_def)

lemma is_digit_digit [simp]: "is_digit (digit n)"
  unfolding digit_def is_digit_def by (rule nth_mem) simp

lemma digit_mod [simp]: "digit (n mod 10) = digit n"
  by (simp add: digit_def)

lemma number_of_snoc: "number_of (s @ [c]) = 10 * number_of s + digit_value c"
  by (simp add: number_of_def)

lemma number_of_decimal [simp]: "number_of (decimal n) = n"
proof (induction n rule: decimal.induct)
  case (1 n)
  show ?case
  proof (cases "n < 10")
    case True
    then show ?thesis by (simp add: decimal.simps [of n] number_of_def)
  next
    case False
    moreover have "digit_value (digit n) = n mod 10"
      using digit_value_digit [of "n mod 10"] by simp
    ultimately show ?thesis
      using 1 by (simp add: decimal.simps [of n] number_of_snoc)
  qed
qed

lemma decimal_inject [simp]: "decimal m = decimal n \<longleftrightarrow> m = n"
  by (metis number_of_decimal)

lemma decimal_digits: "list_all is_digit (decimal n)"
  by (induction n rule: decimal.induct) (subst decimal.simps, simp)

lemma decimal_length: "n < 10 ^ k \<Longrightarrow> 0 < k \<Longrightarrow> length (decimal n) \<le> k"
proof (induction n arbitrary: k rule: decimal.induct)
  case (1 n)
  show ?case
  proof (cases "n < 10")
    case True
    with 1 show ?thesis by (simp add: decimal.simps [of n])
  next
    case False
    with "1.prems" obtain j where j: "k = Suc j" "0 < j"
      by (cases k; cases "k - 1") auto
    with "1.prems" have "n div 10 < 10 ^ j" by auto
    from "1.IH" [OF False this j(2)] False j(1) show ?thesis
      by (simp add: decimal.simps [of n])
  qed
qed

definition padStart :: "nat \<Rightarrow> char \<Rightarrow> string \<Rightarrow> string" where
  "padStart n c s = replicate (n - length s) c @ s"

lemma number_of_zeros: "number_of (replicate k (CHR ''0'') @ s) = number_of s"
  by (induction k) (simp_all add: number_of_def digit_value_def)

definition find_last :: "('a \<Rightarrow> bool) \<Rightarrow> 'a list \<Rightarrow> 'a option" where
  "find_last P xs = List.find P (rev xs)"

lemma find_SomeD: "List.find P xs = Some x \<Longrightarrow> x \<in> set xs \<and> P x"
  by (auto simp: find_Some_iff)

lemma find_eq_NoneD: "List.find P xs = None \<Longrightarrow> x \<in> set xs \<Longrightarrow> \<not> P x"
  by (auto simp: find_None_iff)

lemma find_last_SomeD: "find_last P xs = Some x \<Longrightarrow> x \<in> set xs \<and> P x"
  unfolding find_last_def by (drule find_SomeD) simp

lemma find_last_None_iff: "find_last P xs = None \<longleftrightarrow> (\<forall>x\<in>set xs. \<not> P x)"
  by (auto simp: find_last_def find_None_iff)

lemma find_last_snoc [simp]: "find_last P (xs @ [x]) = (if P x then Some x else find_last P xs)"
  by (simp add: find_last_def)

lemma find_last_Nil [simp]: "find_last P [] = None"
  by (simp add: find_last_def)

lemma find_append: "List.find P (xs @ ys) = (case List.find P xs of None \<Rightarrow> List.find P ys | Some x \<Rightarrow> Some x)"
  by (induction xs) auto

lemma find_map_unchanged:
  "(\<And>x. x \<in> set xs \<Longrightarrow> P (f x) = P x) \<Longrightarrow> List.find P (map f xs) = map_option f (List.find P xs)"
  by (induction xs) auto

lemma distinct_map_unique:
  "distinct (map f xs) \<Longrightarrow> x \<in> set xs \<Longrightarrow> y \<in> set xs \<Longrightarrow> f x = f y \<Longrightarrow> x = y"
  by (auto simp: distinct_map inj_on_def)

lemma bind_SomeE:
  assumes "Option.bind m f = Some y"
  obtains x where "m = Some x" "f x = Some y"
  using assms by (cases m) auto

lemma guard_SomeE:
  assumes "(if b then Some x else None) = Some y"
  obtains "b" "y = x"
  using assms by (cases b) auto

section \<open>Contents of a JSON file\<close>

text \<open>
  What a decoder can find in a file: text that \<^verbatim>\<open>JSON.parse\<close> rejects, a JSON value that lacks
  the structure of the expected record (a missing or an extra key, a value of another type, a
  negative or fractional counter), or a value with that structure, to which the schema's own
  constraints are still to be applied. \<^verbatim>\<open>JSON.stringify\<close> of a record yields the third form.
\<close>

datatype 'a file_bytes = NotJson | OtherJson | Json 'a

abbreviation stringify :: "'a \<Rightarrow> 'a file_bytes" where
  "stringify \<equiv> Json"

section \<open>Interface: schemas whose output is already normalised\<close>

text \<open>
  A schema maps a structurally typed value to its normalised form (strings trimmed) or rejects
  it. Every schema of the sources is idempotent: what it returns, it accepts unchanged. That is
  the law under which writing a decoded value and decoding it again gives the value back.
\<close>

locale idem_schema =
  fixes parse :: "'a \<Rightarrow> 'a option"
  assumes parse_idem: "parse x = Some y \<Longrightarrow> parse y = Some y"
begin

definition normal :: "'a \<Rightarrow> bool" where
  "normal x \<longleftrightarrow> parse x = Some x"

lemma normal_parsed: "parse x = Some y \<Longrightarrow> normal y"
  by (simp add: normal_def parse_idem)

lemma parse_twice: "parse x = Some y \<Longrightarrow> Option.bind (parse x) parse = parse x"
  by (simp add: parse_idem)

end

definition nullable :: "('a \<Rightarrow> 'a option) \<Rightarrow> 'a option \<Rightarrow> 'a option option" where
  "nullable p v = (case v of None \<Rightarrow> Some None | Some x \<Rightarrow> map_option Some (p x))"

definition array_of :: "('a \<Rightarrow> 'a option) \<Rightarrow> 'a list \<Rightarrow> 'a list option" where
  "array_of p xs = those (map p xs)"

lemma nullable_simps [schema_simps, simp]:
  "nullable p None = Some None"
  "nullable p (Some x) = map_option Some (p x)"
  by (simp_all add: nullable_def)

lemma those_eq_Some_iff: "those os = Some xs \<longleftrightarrow> os = map Some xs"
proof (induction os arbitrary: xs)
  case Nil
  then show ?case by auto
next
  case (Cons o' os)
  then show ?case by (cases o'; cases xs) auto
qed

lemma array_of_Some_iff: "array_of p xs = Some ys \<longleftrightarrow> list_all2 (\<lambda>x y. p x = Some y) xs ys"
  by (auto simp: array_of_def those_eq_Some_iff list_all2_conv_all_nth list_eq_iff_nth_eq)

lemma array_of_simps [schema_simps, simp]:
  "array_of p [] = Some []"
  "array_of p (x # xs) =
     (case p x of None \<Rightarrow> None | Some y \<Rightarrow> map_option (Cons y) (array_of p xs))"
  by (simp_all add: array_of_def split: option.splits)

lemma array_of_normal: "array_of p xs = Some xs \<longleftrightarrow> list_all (\<lambda>x. p x = Some x) xs"
  by (auto simp: array_of_Some_iff list_all2_conv_all_nth list_all_length)

lemma array_of_append:
  "array_of p (xs @ ys) =
     (case array_of p xs of None \<Rightarrow> None | Some us \<Rightarrow> map_option (\<lambda>vs. us @ vs) (array_of p ys))"
  by (induction xs) (auto simp: map_option_case split: option.splits)

context idem_schema
begin

lemma nullable_idem: "nullable parse v = Some w \<Longrightarrow> nullable parse w = Some w"
  by (cases v) (auto dest: parse_idem)

lemma array_idem: "array_of parse xs = Some ys \<Longrightarrow> array_of parse ys = Some ys"
  by (auto simp: array_of_Some_iff list_all2_conv_all_nth dest: parse_idem)

end

section \<open>Interface: append-only logs with dense sequence numbers\<close>

text \<open>
  The event store, the task ledger and the acceptance ledger number their entries
  \<open>1, 2, 3, \<dots>\<close> and only ever append. What they promise is stated once here.
\<close>

definition dense :: "nat list \<Rightarrow> bool" where
  "dense ns \<longleftrightarrow> ns = [1..<Suc (length ns)]"

lemma dense_Nil [simp]: "dense []"
  by (simp add: dense_def)

lemma dense_nth: "dense ns \<Longrightarrow> i < length ns \<Longrightarrow> ns ! i = Suc i"
  unfolding dense_def by (metis One_nat_def add_Suc_right add.commute nth_upt plus_1_eq_Suc add_less_cancel_left)

lemma dense_append_iff:
  "dense (ns @ ms) \<longleftrightarrow> dense ns \<and> ms = [Suc (length ns)..<Suc (length ns + length ms)]"
proof -
  have "[1..<Suc (length (ns @ ms))] = [1..<Suc (length ns)] @ [Suc (length ns)..<Suc (length ns + length ms)]"
    using upt_add_eq_append [of 1 "Suc (length ns)" "length ms"] by simp
  then show ?thesis
    by (auto simp: dense_def simp del: upt_Suc)
qed

lemma dense_snoc: "dense (ns @ [n]) \<longleftrightarrow> dense ns \<and> n = Suc (length ns)"
  by (simp add: dense_append_iff)

lemma dense_distinct: "dense ns \<Longrightarrow> distinct ns"
  by (metis dense_def distinct_upt)

lemma dense_iff_nth: "dense ns \<longleftrightarrow> (\<forall>i<length ns. ns ! i = Suc i)"
proof
  assume "\<forall>i<length ns. ns ! i = Suc i"
  then show "dense ns"
    unfolding dense_def by (intro nth_equalityI) (auto simp del: upt_Suc)
qed (auto simp: dense_nth)

locale append_only_log =
  fixes inv :: "'s \<Rightarrow> bool"
    and log :: "'s \<Rightarrow> 'e list"
    and seq_of :: "'e \<Rightarrow> nat"
    and valid :: "'op \<Rightarrow> bool"
    and step :: "'s \<Rightarrow> 'op \<Rightarrow> 's"
  assumes inv_dense: "inv s \<Longrightarrow> dense (map seq_of (log s))"
    and step_inv: "inv s \<Longrightarrow> valid op \<Longrightarrow> inv (step s op)"
    and step_appends: "inv s \<Longrightarrow> valid op \<Longrightarrow> \<exists>new. log (step s op) = log s @ new"
begin

lemma run_inv: "inv s \<Longrightarrow> list_all valid ops \<Longrightarrow> inv (foldl step s ops)"
  by (induction ops arbitrary: s) (auto simp: step_inv)

lemma run_appends:
  "inv s \<Longrightarrow> list_all valid ops \<Longrightarrow>
     \<exists>new. log (foldl step s ops) = log s @ new \<and> dense (map seq_of (log s @ new))"
proof (induction ops arbitrary: s)
  case Nil
  then show ?case by (simp add: inv_dense)
next
  case (Cons op ops)
  then have "inv (step s op)" by (simp add: step_inv)
  moreover obtain new where "log (step s op) = log s @ new"
    using step_appends Cons.prems by fastforce
  moreover obtain more where "log (foldl step (step s op) ops) = log (step s op) @ more"
    "dense (map seq_of (log (step s op) @ more))"
    using Cons.IH [OF \<open>inv (step s op)\<close>] Cons.prems(2) by auto
  ultimately show ?case by auto
qed

lemma run_keeps_entry:
  assumes "inv s" "list_all valid ops"
    and "e \<in> set (log s)" "e' \<in> set (log (foldl step s ops))" "seq_of e' = seq_of e"
  shows "e' = e"
proof -
  obtain new where new: "log (foldl step s ops) = log s @ new" "dense (map seq_of (log s @ new))"
    using run_appends [OF assms(1,2)] by blast
  then have "distinct (map seq_of (log s @ new))" by (simp only: dense_distinct)
  with new assms(3-5) show ?thesis by (metis Un_iff distinct_map_unique set_append)
qed

end

end
