(* ===== verification/State_Domain.thy ===== *)
theory State_Domain
  imports Omp_Prelude
begin

text \<open>
  The persisted state of the extension (\<^verbatim>\<open>src/state/domain.ts\<close>): the index of active runs, the
  run envelope with its two payloads (a start-work plan, a ULW loop of goals and criteria), and
  the events whose mutations change a run. Records follow the TypeScript object types; a union
  discriminated by \<^verbatim>\<open>schemaVersion\<close> is a version field that carries the members only one of the
  versions has.
\<close>

type_synonym uuid = string
type_synonym timestamp = string

record canonical_root =
  root_canonicalPath :: string
  root_displayPath :: string

datatype workflow_kind = StartWork | UlwLoop

datatype status_hint = HintActive | HintPaused | HintStuck | HintBlocked

section \<open>The index of active runs\<close>

record active_index_entry =
  ent_workflow :: workflow_kind
  ent_sessionId :: string
  ent_runId :: uuid
  ent_ownerEpoch :: nat
  ent_runRevision :: nat
  ent_transactionRevision :: nat
  ent_statusHint :: status_hint

datatype index_version = IndexV1 | IndexV2 (migrationRevision: nat)

record active_index =
  idx_version :: index_version
  idx_revision :: nat
  idx_entries :: "active_index_entry list"

section \<open>Runs\<close>

datatype run_version =
    RunV1
  | RunV2 (packetHash: "string option") (runExpectedHead: "string option")

text \<open>
  The status of a run. \<^verbatim>\<open>abandoned\<close> occurs in start-work payloads only; the schema of the ULW
  loop rejects it.
\<close>

datatype run_status =
    Active | Paused | Blocked | NeedsUserDecision | ReviewBlocked | Stuck
  | Completed | Cancelled | Failed | Abandoned

record plan_ref =
  plan_planId :: uuid
  plan_canonicalPath :: string
  plan_displayPath :: string
  plan_allowedRoot :: string
  plan_allowedRootDisplay :: string
  plan_taskFingerprint :: string
  plan_taskIds :: "string list"

record start_work_payload =
  sw_status :: run_status
  sw_plan :: plan_ref

datatype criterion_status = CritPending | CritPass | CritFail | CritBlocked

record criterion =
  crit_id :: string
  crit_scenario :: "string option"
  crit_observable :: "string option"
  crit_evidenceLogicalId :: "string option"
  crit_status :: criterion_status
  crit_identicalFailureFingerprint :: "string option"
  crit_identicalFailureCount :: nat
  crit_evidenceRef :: "string option"
  crit_captureRevision :: "nat option"
  crit_captureCommit :: "string option"

datatype goal_status =
    GoalPending | GoalInProgress | GoalComplete | GoalFailed | GoalBlocked
  | GoalNeedsUserDecision | GoalReviewBlocked

record goal =
  goal_id :: string
  goal_status :: goal_status
  goal_cycleCount :: nat
  goal_criteria :: "criterion list"

record ulw_loop_payload =
  ul_objective :: "string option"
  ul_annotation :: "string option"
  ul_status :: run_status
  ul_activeGoalId :: "string option"
  ul_goals :: "goal list"

datatype payload = StartPayload start_work_payload | UlwPayload ulw_loop_payload

record owner_ref =
  own_sessionId :: string
  own_epoch :: nat

record continuation_state =
  cont_lastProcessedLeafId :: "string option"
  cont_progressRevisionSeen :: nat
  cont_noProgressAttempts :: nat
  cont_stuck :: bool

record run =
  run_version :: run_version
  run_runId :: uuid
  run_revision :: nat
  run_transactionRevision :: nat
  run_owner :: owner_ref
  run_progressRevision :: nat
  run_continuation :: continuation_state
  run_createdAt :: timestamp
  run_updatedAt :: timestamp
  run_payload :: payload

text \<open>
  The \<^verbatim>\<open>workflow\<close> member of an envelope is the \<^verbatim>\<open>kind\<close> of its payload, by type and by schema.
\<close>

fun payload_kind :: "payload \<Rightarrow> workflow_kind" where
  "payload_kind (StartPayload _) = StartWork"
| "payload_kind (UlwPayload _) = UlwLoop"

definition run_workflow :: "run \<Rightarrow> workflow_kind" where
  "run_workflow r = payload_kind (run_payload r)"

fun payload_status :: "payload \<Rightarrow> run_status" where
  "payload_status (StartPayload p) = sw_status p"
| "payload_status (UlwPayload p) = ul_status p"

definition run_status_of :: "run \<Rightarrow> run_status" where
  "run_status_of r = payload_status (run_payload r)"

definition run_expectedHead :: "run \<Rightarrow> string option" where
  "run_expectedHead r = (case run_version r of RunV1 \<Rightarrow> None | RunV2 _ h \<Rightarrow> h)"

definition run_is_v2 :: "run \<Rightarrow> bool" where
  "run_is_v2 r = (case run_version r of RunV1 \<Rightarrow> False | RunV2 _ _ \<Rightarrow> True)"

section \<open>Mutations and events\<close>

datatype control_kind = CtlPause | CtlResume | CtlCancel

record steered_criterion =
  sc_id :: string
  sc_scenario :: string
  sc_observable :: string
  sc_evidenceLogicalId :: string

datatype terminal_status = TermCompleted | TermFailed

datatype mutation =
    RunCreated run
  | WorkflowControlled control_kind
  | OwnerAdopted string
  | PlanReconciled "string list" "string list option" string
      \<comment> \<open>taskIds, remainingTaskIds, taskFingerprint\<close>
  | WorkflowSteered "steered_criterion list" "string option"
      \<comment> \<open>criteria, annotation\<close>
  | CriterionSettled string string "string option" string nat string
      \<comment> \<open>goalId, criterionId, acceptanceId, evidenceRef, captureRevision, captureCommit\<close>
  | TaskEvidenceAccepted string string
      \<comment> \<open>taskId, acceptanceId\<close>
  | WorkflowTerminal terminal_status "string list option" "string option"
      \<comment> \<open>status, acceptanceIds, taskId\<close>
  | ContinuationAttempted string nat
      \<comment> \<open>leafId, progressRevision\<close>
  | ContinuationStuck string
  | GoalCycleStarted string
  | CriterionFailureRecorded string string string
      \<comment> \<open>goalId, criterionId, fingerprint\<close>

datatype mutation_kind =
    KRunCreated | KWorkflowControlled | KOwnerAdopted | KPlanReconciled | KWorkflowSteered
  | KCriterionSettled | KTaskEvidenceAccepted | KWorkflowTerminal | KContinuationAttempted
  | KContinuationStuck | KGoalCycleStarted | KCriterionFailureRecorded

fun kind_of_mutation :: "mutation \<Rightarrow> mutation_kind" where
  "kind_of_mutation (RunCreated _) = KRunCreated"
| "kind_of_mutation (WorkflowControlled _) = KWorkflowControlled"
| "kind_of_mutation (OwnerAdopted _) = KOwnerAdopted"
| "kind_of_mutation (PlanReconciled _ _ _) = KPlanReconciled"
| "kind_of_mutation (WorkflowSteered _ _) = KWorkflowSteered"
| "kind_of_mutation (CriterionSettled _ _ _ _ _ _) = KCriterionSettled"
| "kind_of_mutation (TaskEvidenceAccepted _ _) = KTaskEvidenceAccepted"
| "kind_of_mutation (WorkflowTerminal _ _ _) = KWorkflowTerminal"
| "kind_of_mutation (ContinuationAttempted _ _) = KContinuationAttempted"
| "kind_of_mutation (ContinuationStuck _) = KContinuationStuck"
| "kind_of_mutation (GoalCycleStarted _) = KGoalCycleStarted"
| "kind_of_mutation (CriterionFailureRecorded _ _ _) = KCriterionFailureRecorded"

record expectation =
  exp_indexRevision :: nat
  exp_runRevision :: "nat option"
  exp_ownerSessionId :: "string option"
  exp_ownerEpoch :: "nat option"

text \<open>
  A version 2 event also carries the expected Git head, the task generation and the flag that
  marks an event migrated from version 1.
\<close>

datatype event_version =
    EventV1
  | EventV2 (expectedHead: "string option") (taskGen: "nat option") (legacyHeadUnbound: bool)

record state_event =
  ev_version :: event_version
  ev_eventId :: uuid
  ev_sequence :: nat
  ev_runId :: uuid
  ev_workflow :: workflow_kind
  ev_kind :: mutation_kind
  ev_expected :: expectation
  ev_mutation :: mutation
  ev_at :: timestamp

definition ev_is_v2 :: "state_event \<Rightarrow> bool" where
  "ev_is_v2 e = (case ev_version e of EventV1 \<Rightarrow> False | EventV2 _ _ _ \<Rightarrow> True)"

definition ev_taskGeneration :: "state_event \<Rightarrow> nat option" where
  "ev_taskGeneration e = (case ev_version e of EventV1 \<Rightarrow> None | EventV2 _ g _ \<Rightarrow> g)"

definition ev_expectedHead :: "state_event \<Rightarrow> string option" where
  "ev_expectedHead e = (case ev_version e of EventV1 \<Rightarrow> None | EventV2 h _ _ \<Rightarrow> h)"

definition ev_legacy :: "state_event \<Rightarrow> bool" where
  "ev_legacy e = (case ev_version e of EventV1 \<Rightarrow> False | EventV2 _ _ l \<Rightarrow> l)"

section \<open>Tiers of a task\<close>

text \<open>The tiers of \<^verbatim>\<open>src/contracts/task-packet.ts\<close>, which the ledger of a task names too.\<close>

datatype task_tier = FAST | STANDARD | DEEP

section \<open>Statuses from which a run cannot be continued\<close>

fun is_terminal_status :: "run_status \<Rightarrow> bool" where
  "is_terminal_status Completed = True"
| "is_terminal_status Cancelled = True"
| "is_terminal_status Failed = True"
| "is_terminal_status Abandoned = True"
| "is_terminal_status _ = False"

definition terminal_run :: "run \<Rightarrow> bool" where
  "terminal_run r = is_terminal_status (run_status_of r)"

lemma is_terminal_status_iff:
  "is_terminal_status s \<longleftrightarrow> s \<in> {Completed, Cancelled, Failed, Abandoned}"
  by (cases s) auto

lemmas run_view_defs =
  run_workflow_def run_status_of_def run_expectedHead_def run_is_v2_def terminal_run_def

lemmas event_view_defs =
  ev_is_v2_def ev_taskGeneration_def ev_expectedHead_def ev_legacy_def

end
