(* ===== verification/State_Codec.thy ===== *)
theory State_Codec
  imports State_Domain
begin

text \<open>
  The schemas and decoders of persisted state (\<^verbatim>\<open>src/state/codec-schemas.ts\<close>,
  \<^verbatim>\<open>src/state/codec.ts\<close>). A schema takes a structurally typed value to its normalised form or
  rejects it; the refinements are those of the sources. The validators of the \<^verbatim>\<open>zod\<close> package
  for UUIDs and ISO timestamps, whether its \<^verbatim>\<open>extend\<close> keeps the refinements of the schema it
  extends, and the platform test are parameters, gathered in \<open>host_env\<close>.
\<close>

record host_env =
  is_uuid :: "string \<Rightarrow> bool"
  is_datetime :: "string \<Rightarrow> bool"
  is_win32 :: bool
  extend_keeps_checks :: bool

section \<open>Primitive schemas\<close>

definition counter :: "nat \<Rightarrow> nat option" where
  "counter n = (if n \<le> max_safe_integer then Some n else None)"

definition counter_max :: "nat \<Rightarrow> nat \<Rightarrow> nat option" where
  "counter_max m n = do { k \<leftarrow> counter n; if k \<le> m then Some k else None }"

definition counter_positive :: "nat \<Rightarrow> nat option" where
  "counter_positive n = do { k \<leftarrow> counter n; if 0 < k then Some k else None }"

definition nonempty :: "string \<Rightarrow> string option" where
  "nonempty s = (let t = js_trim s in if t = [] then None else Some t)"

definition timestamp_schema :: "host_env \<Rightarrow> string \<Rightarrow> string option" where
  "timestamp_schema E s = (if is_datetime E s then Some s else None)"

definition uuid_schema :: "host_env \<Rightarrow> string \<Rightarrow> string option" where
  "uuid_schema E s = (if is_uuid E s then Some s else None)"

definition hash_schema :: "string \<Rightarrow> string option" where
  "hash_schema s = (if hex_string 64 s then Some s else None)"

definition string_max :: "nat \<Rightarrow> string \<Rightarrow> string option" where
  "string_max m s = (if length s \<le> m then Some s else None)"

definition uniqueStrings :: "string list \<Rightarrow> string list option" where
  "uniqueStrings xs = do { ys \<leftarrow> array_of nonempty xs; if distinct ys then Some ys else None }"

lemma max_safe_integer_int: "n \<le> max_safe_integer \<longleftrightarrow> int n \<le> 9007199254740991"
  unfolding max_safe_integer_def by linarith

lemma counter_code [code]: "counter n = (if int n \<le> 9007199254740991 then Some n else None)"
  by (simp add: counter_def max_safe_integer_int)

lemma counter_eq [schema_simps]: "counter n = Some k \<longleftrightarrow> k = n \<and> n \<le> max_safe_integer"
  by (auto simp: counter_def)

lemma counter_max_eq [schema_simps]: "counter_max m n = Some k \<longleftrightarrow> k = n \<and> n \<le> max_safe_integer \<and> n \<le> m"
  by (auto simp: counter_max_def counter_def)

lemma counter_positive_eq [schema_simps]:
  "counter_positive n = Some k \<longleftrightarrow> k = n \<and> n \<le> max_safe_integer \<and> 0 < n"
  by (auto simp: counter_positive_def counter_def)

lemma nonempty_eq [schema_simps]: "nonempty s = Some t \<longleftrightarrow> t = js_trim s \<and> t \<noteq> []"
  by (auto simp: nonempty_def Let_def)

lemma timestamp_schema_eq [schema_simps]: "timestamp_schema E s = Some t \<longleftrightarrow> t = s \<and> is_datetime E s"
  by (auto simp: timestamp_schema_def)

lemma uuid_schema_eq [schema_simps]: "uuid_schema E s = Some t \<longleftrightarrow> t = s \<and> is_uuid E s"
  by (auto simp: uuid_schema_def)

lemma hash_schema_eq [schema_simps]: "hash_schema s = Some t \<longleftrightarrow> t = s \<and> hex_string 64 s"
  by (auto simp: hash_schema_def)

lemma string_max_eq [schema_simps]: "string_max m s = Some t \<longleftrightarrow> t = s \<and> length s \<le> m"
  by (auto simp: string_max_def)

interpretation nonempty_schema: idem_schema nonempty
  by unfold_locales (auto simp: schema_simps)

interpretation counter_schema: idem_schema counter
  by unfold_locales (auto simp: schema_simps)

interpretation counter_max_schema: idem_schema "counter_max m" for m
  by unfold_locales (auto simp: schema_simps)

interpretation counter_positive_schema: idem_schema counter_positive
  by unfold_locales (auto simp: schema_simps)

interpretation timestamp_schema: idem_schema "timestamp_schema E" for E
  by unfold_locales (auto simp: schema_simps)

interpretation uuid_schema: idem_schema "uuid_schema E" for E
  by unfold_locales (auto simp: schema_simps)

interpretation hash_schema: idem_schema hash_schema
  by unfold_locales (auto simp: schema_simps)

interpretation annotation_schema: idem_schema "string_max m" for m
  by unfold_locales (auto simp: schema_simps)

interpretation unique_schema: idem_schema uniqueStrings
  by unfold_locales
    (auto simp: uniqueStrings_def elim!: bind_SomeE guard_SomeE simp: nonempty_schema.array_idem)

text \<open>The facts with which the idempotence of a composite schema follows from its parts.\<close>

lemmas primitive_idem =
  nonempty_schema.parse_idem counter_schema.parse_idem counter_max_schema.parse_idem
  counter_positive_schema.parse_idem timestamp_schema.parse_idem uuid_schema.parse_idem
  hash_schema.parse_idem unique_schema.parse_idem

lemmas nullable_idem =
  nonempty_schema.nullable_idem counter_schema.nullable_idem hash_schema.nullable_idem
  annotation_schema.nullable_idem unique_schema.nullable_idem counter_positive_schema.nullable_idem

lemmas schema_idem = primitive_idem nullable_idem nonempty_schema.array_idem

section \<open>Runs\<close>

definition continuationSchema :: "continuation_state \<Rightarrow> continuation_state option" where
  "continuationSchema c = do {
     leaf \<leftarrow> nullable nonempty (cont_lastProcessedLeafId c);
     seen \<leftarrow> counter (cont_progressRevisionSeen c);
     attempts \<leftarrow> counter (cont_noProgressAttempts c);
     Some \<lparr>cont_lastProcessedLeafId = leaf, cont_progressRevisionSeen = seen,
           cont_noProgressAttempts = attempts, cont_stuck = cont_stuck c\<rparr> }"

definition ownerSchema :: "owner_ref \<Rightarrow> owner_ref option" where
  "ownerSchema w = do {
     s \<leftarrow> nonempty (own_sessionId w);
     e \<leftarrow> counter (own_epoch w);
     Some \<lparr>own_sessionId = s, own_epoch = e\<rparr> }"

definition planSchema :: "host_env \<Rightarrow> plan_ref \<Rightarrow> plan_ref option" where
  "planSchema E p = do {
     pid \<leftarrow> uuid_schema E (plan_planId p);
     cp \<leftarrow> nonempty (plan_canonicalPath p);
     dp \<leftarrow> nonempty (plan_displayPath p);
     ar \<leftarrow> nonempty (plan_allowedRoot p);
     ard \<leftarrow> nonempty (plan_allowedRootDisplay p);
     fp \<leftarrow> hash_schema (plan_taskFingerprint p);
     ts \<leftarrow> uniqueStrings (plan_taskIds p);
     Some \<lparr>plan_planId = pid, plan_canonicalPath = cp, plan_displayPath = dp,
           plan_allowedRoot = ar, plan_allowedRootDisplay = ard,
           plan_taskFingerprint = fp, plan_taskIds = ts\<rparr> }"

definition criterionSchema :: "criterion \<Rightarrow> criterion option" where
  "criterionSchema c = do {
     i \<leftarrow> nonempty (crit_id c);
     sc \<leftarrow> nullable nonempty (crit_scenario c);
     ob \<leftarrow> nullable nonempty (crit_observable c);
     el \<leftarrow> nullable nonempty (crit_evidenceLogicalId c);
     fp \<leftarrow> nullable nonempty (crit_identicalFailureFingerprint c);
     fc \<leftarrow> counter_max 3 (crit_identicalFailureCount c);
     er \<leftarrow> nullable nonempty (crit_evidenceRef c);
     cr \<leftarrow> nullable counter (crit_captureRevision c);
     cc \<leftarrow> nullable nonempty (crit_captureCommit c);
     Some \<lparr>crit_id = i, crit_scenario = sc, crit_observable = ob, crit_evidenceLogicalId = el,
           crit_status = crit_status c, crit_identicalFailureFingerprint = fp,
           crit_identicalFailureCount = fc, crit_evidenceRef = er,
           crit_captureRevision = cr, crit_captureCommit = cc\<rparr> }"

definition goalSchema :: "goal \<Rightarrow> goal option" where
  "goalSchema g = do {
     i \<leftarrow> nonempty (goal_id g);
     n \<leftarrow> counter_max 5 (goal_cycleCount g);
     cs \<leftarrow> array_of criterionSchema (goal_criteria g);
     if distinct (map crit_id cs)
     then Some \<lparr>goal_id = i, goal_status = goal_status g, goal_cycleCount = n, goal_criteria = cs\<rparr>
     else None }"

definition startPayloadSchema :: "host_env \<Rightarrow> start_work_payload \<Rightarrow> start_work_payload option" where
  "startPayloadSchema E p = do {
     pl \<leftarrow> planSchema E (sw_plan p);
     Some \<lparr>sw_status = sw_status p, sw_plan = pl\<rparr> }"

text \<open>The refinement of a ULW loop payload: unique goals, unique criteria, one active goal.\<close>

definition all_criterion_ids :: "goal list \<Rightarrow> string list" where
  "all_criterion_ids gs = concat (map (\<lambda>g. map crit_id (goal_criteria g)) gs)"

definition in_progress_goals :: "goal list \<Rightarrow> goal list" where
  "in_progress_goals gs = filter (\<lambda>g. goal_status g = GoalInProgress) gs"

definition active_goal_matches :: "string option \<Rightarrow> goal list \<Rightarrow> bool" where
  "active_goal_matches active gs = (case active of
     None \<Rightarrow> in_progress_goals gs = []
   | Some a \<Rightarrow> map goal_id (in_progress_goals gs) = [a])"

definition refineUlwLoop :: "ulw_loop_payload \<Rightarrow> bool" where
  "refineUlwLoop p \<longleftrightarrow>
     distinct (map goal_id (ul_goals p)) \<and>
     distinct (all_criterion_ids (ul_goals p)) \<and>
     active_goal_matches (ul_activeGoalId p) (ul_goals p)"

definition ulwPayloadSchema :: "ulw_loop_payload \<Rightarrow> ulw_loop_payload option" where
  "ulwPayloadSchema p = do {
     ob \<leftarrow> nullable nonempty (ul_objective p);
     an \<leftarrow> nullable (string_max 512) (ul_annotation p);
     ag \<leftarrow> nullable nonempty (ul_activeGoalId p);
     gs \<leftarrow> array_of goalSchema (ul_goals p);
     let q = \<lparr>ul_objective = ob, ul_annotation = an, ul_status = ul_status p,
              ul_activeGoalId = ag, ul_goals = gs\<rparr>;
     if ul_status p \<noteq> Abandoned \<and> refineUlwLoop q then Some q else None }"

fun payloadSchema :: "host_env \<Rightarrow> payload \<Rightarrow> payload option" where
  "payloadSchema E (StartPayload p) = map_option StartPayload (startPayloadSchema E p)"
| "payloadSchema E (UlwPayload p) = map_option UlwPayload (ulwPayloadSchema p)"

fun runVersionSchema :: "run_version \<Rightarrow> run_version option" where
  "runVersionSchema RunV1 = Some RunV1"
| "runVersionSchema (RunV2 ph eh) = do {
     h \<leftarrow> nullable hash_schema ph;
     e \<leftarrow> nullable nonempty eh;
     Some (RunV2 h e) }"

definition runSchema :: "host_env \<Rightarrow> run \<Rightarrow> run option" where
  "runSchema E r = do {
     v \<leftarrow> runVersionSchema (run_version r);
     i \<leftarrow> uuid_schema E (run_runId r);
     rv \<leftarrow> counter (run_revision r);
     tr \<leftarrow> counter (run_transactionRevision r);
     ow \<leftarrow> ownerSchema (run_owner r);
     pr \<leftarrow> counter (run_progressRevision r);
     co \<leftarrow> continuationSchema (run_continuation r);
     ca \<leftarrow> timestamp_schema E (run_createdAt r);
     ua \<leftarrow> timestamp_schema E (run_updatedAt r);
     pl \<leftarrow> payloadSchema E (run_payload r);
     Some \<lparr>run_version = v, run_runId = i, run_revision = rv, run_transactionRevision = tr,
           run_owner = ow, run_progressRevision = pr, run_continuation = co,
           run_createdAt = ca, run_updatedAt = ua, run_payload = pl\<rparr> }"

subsection \<open>Every schema of a run is idempotent\<close>

lemma continuationSchema_idem: "continuationSchema c = Some c' \<Longrightarrow> continuationSchema c' = Some c'"
  by (auto simp: continuationSchema_def elim!: bind_SomeE simp: schema_idem)

lemma ownerSchema_idem: "ownerSchema w = Some w' \<Longrightarrow> ownerSchema w' = Some w'"
  by (auto simp: ownerSchema_def elim!: bind_SomeE simp: schema_idem)

lemma planSchema_idem: "planSchema E p = Some p' \<Longrightarrow> planSchema E p' = Some p'"
  by (auto simp: planSchema_def elim!: bind_SomeE simp: schema_idem)

interpretation criterion_schema: idem_schema criterionSchema
  by unfold_locales (auto simp: criterionSchema_def elim!: bind_SomeE simp: schema_idem)

interpretation goal_schema: idem_schema goalSchema
  by unfold_locales
    (auto simp: goalSchema_def elim!: bind_SomeE guard_SomeE simp: schema_idem criterion_schema.array_idem)

lemma ulwPayloadSchema_idem: "ulwPayloadSchema p = Some p' \<Longrightarrow> ulwPayloadSchema p' = Some p'"
  by (auto simp: ulwPayloadSchema_def Let_def elim!: bind_SomeE guard_SomeE
           simp: schema_idem goal_schema.array_idem)

lemma payloadSchema_idem: "payloadSchema E p = Some p' \<Longrightarrow> payloadSchema E p' = Some p'"
  by (cases p) (auto simp: startPayloadSchema_def elim!: bind_SomeE
                     simp: ulwPayloadSchema_idem planSchema_idem)

lemma runVersionSchema_idem: "runVersionSchema v = Some v' \<Longrightarrow> runVersionSchema v' = Some v'"
  by (cases v) (auto elim!: bind_SomeE simp: schema_idem)

interpretation run_schema: idem_schema "runSchema E" for E
  by unfold_locales
    (auto simp: runSchema_def elim!: bind_SomeE
          simp: schema_idem runVersionSchema_idem ownerSchema_idem continuationSchema_idem payloadSchema_idem)

subsection \<open>What it means that a value is already normalised\<close>

lemma criterionSchema_normal_iff:
  "criterionSchema c = Some c \<longleftrightarrow>
     nonempty (crit_id c) = Some (crit_id c) \<and>
     nullable nonempty (crit_scenario c) = Some (crit_scenario c) \<and>
     nullable nonempty (crit_observable c) = Some (crit_observable c) \<and>
     nullable nonempty (crit_evidenceLogicalId c) = Some (crit_evidenceLogicalId c) \<and>
     nullable nonempty (crit_identicalFailureFingerprint c) = Some (crit_identicalFailureFingerprint c) \<and>
     crit_identicalFailureCount c \<le> 3 \<and>
     nullable nonempty (crit_evidenceRef c) = Some (crit_evidenceRef c) \<and>
     nullable counter (crit_captureRevision c) = Some (crit_captureRevision c) \<and>
     nullable nonempty (crit_captureCommit c) = Some (crit_captureCommit c)"
  by (cases c) (auto simp: criterionSchema_def counter_max_def counter_def max_safe_integer_def
                     elim!: bind_SomeE guard_SomeE)

lemma goalSchema_normal_iff:
  "goalSchema g = Some g \<longleftrightarrow>
     nonempty (goal_id g) = Some (goal_id g) \<and> goal_cycleCount g \<le> 5 \<and>
     list_all (\<lambda>c. criterionSchema c = Some c) (goal_criteria g) \<and>
     distinct (map crit_id (goal_criteria g))"
  by (cases g) (auto simp: goalSchema_def counter_max_def counter_def max_safe_integer_def
                       array_of_normal [symmetric] elim!: bind_SomeE guard_SomeE)

lemma ulwPayloadSchema_normal_iff:
  "ulwPayloadSchema p = Some p \<longleftrightarrow>
     nullable nonempty (ul_objective p) = Some (ul_objective p) \<and>
     nullable (string_max 512) (ul_annotation p) = Some (ul_annotation p) \<and>
     nullable nonempty (ul_activeGoalId p) = Some (ul_activeGoalId p) \<and>
     list_all (\<lambda>g. goalSchema g = Some g) (ul_goals p) \<and>
     ul_status p \<noteq> Abandoned \<and> refineUlwLoop p"
  by (cases p) (auto simp: ulwPayloadSchema_def Let_def array_of_normal [symmetric]
                     elim!: bind_SomeE guard_SomeE)

lemma continuationSchema_normal_iff:
  "continuationSchema c = Some c \<longleftrightarrow>
     nullable nonempty (cont_lastProcessedLeafId c) = Some (cont_lastProcessedLeafId c) \<and>
     cont_progressRevisionSeen c \<le> max_safe_integer \<and>
     cont_noProgressAttempts c \<le> max_safe_integer"
  by (cases c) (auto simp: continuationSchema_def counter_def elim!: bind_SomeE)

lemma ownerSchema_normal_iff:
  "ownerSchema w = Some w \<longleftrightarrow>
     nonempty (own_sessionId w) = Some (own_sessionId w) \<and> own_epoch w \<le> max_safe_integer"
  by (cases w) (auto simp: ownerSchema_def counter_def elim!: bind_SomeE)

lemma runSchema_normal_iff:
  "runSchema E r = Some r \<longleftrightarrow>
     runVersionSchema (run_version r) = Some (run_version r) \<and> is_uuid E (run_runId r) \<and>
     run_revision r \<le> max_safe_integer \<and> run_transactionRevision r \<le> max_safe_integer \<and>
     ownerSchema (run_owner r) = Some (run_owner r) \<and>
     run_progressRevision r \<le> max_safe_integer \<and>
     continuationSchema (run_continuation r) = Some (run_continuation r) \<and>
     is_datetime E (run_createdAt r) \<and> is_datetime E (run_updatedAt r) \<and>
     payloadSchema E (run_payload r) = Some (run_payload r)"
  by (cases r) (auto simp: runSchema_def counter_def uuid_schema_def timestamp_schema_def elim!: bind_SomeE
                     split: if_splits)

section \<open>The active index\<close>

definition entrySchema :: "host_env \<Rightarrow> active_index_entry \<Rightarrow> active_index_entry option" where
  "entrySchema E e = do {
     s \<leftarrow> nonempty (ent_sessionId e);
     i \<leftarrow> uuid_schema E (ent_runId e);
     oe \<leftarrow> counter (ent_ownerEpoch e);
     rr \<leftarrow> counter (ent_runRevision e);
     tr \<leftarrow> counter (ent_transactionRevision e);
     Some \<lparr>ent_workflow = ent_workflow e, ent_sessionId = s, ent_runId = i, ent_ownerEpoch = oe,
           ent_runRevision = rr, ent_transactionRevision = tr,
           ent_statusHint = ent_statusHint e\<rparr> }"

fun indexVersionSchema :: "index_version \<Rightarrow> index_version option" where
  "indexVersionSchema IndexV1 = Some IndexV1"
| "indexVersionSchema (IndexV2 m) = map_option IndexV2 (counter_positive m)"

definition activeIndexSchema :: "host_env \<Rightarrow> active_index \<Rightarrow> active_index option" where
  "activeIndexSchema E i = do {
     v \<leftarrow> indexVersionSchema (idx_version i);
     r \<leftarrow> counter (idx_revision i);
     es \<leftarrow> array_of (entrySchema E) (idx_entries i);
     Some \<lparr>idx_version = v, idx_revision = r, idx_entries = es\<rparr> }"

interpretation entry_schema: idem_schema "entrySchema E" for E
  by unfold_locales (auto simp: entrySchema_def elim!: bind_SomeE simp: schema_idem)

lemma indexVersionSchema_idem: "indexVersionSchema v = Some v' \<Longrightarrow> indexVersionSchema v' = Some v'"
  by (cases v) (auto simp: schema_simps)

interpretation index_schema: idem_schema "activeIndexSchema E" for E
  by unfold_locales
    (auto simp: activeIndexSchema_def elim!: bind_SomeE
          simp: schema_idem indexVersionSchema_idem entry_schema.array_idem)

section \<open>Mutations and events\<close>

definition steeredCriterionSchema :: "steered_criterion \<Rightarrow> steered_criterion option" where
  "steeredCriterionSchema c = do {
     i \<leftarrow> nonempty (sc_id c);
     s \<leftarrow> nonempty (sc_scenario c);
     ob \<leftarrow> nonempty (sc_observable c);
     l \<leftarrow> nonempty (sc_evidenceLogicalId c);
     Some \<lparr>sc_id = i, sc_scenario = s, sc_observable = ob, sc_evidenceLogicalId = l\<rparr> }"

text \<open>
  A completed terminal mutation carries the acceptance ids and no task id, a failed one the
  task id and no acceptance ids.
\<close>

definition terminal_authority_ok :: "terminal_status \<Rightarrow> 'a option \<Rightarrow> 'b option \<Rightarrow> bool" where
  "terminal_authority_ok st ids task \<longleftrightarrow>
     (st = TermCompleted) = (ids \<noteq> None) \<and> (st = TermCompleted) \<noteq> (task \<noteq> None)"

fun mutationSchema :: "host_env \<Rightarrow> mutation \<Rightarrow> mutation option" where
  "mutationSchema E (RunCreated r) = map_option RunCreated (runSchema E r)"
| "mutationSchema E (WorkflowControlled c) = Some (WorkflowControlled c)"
| "mutationSchema E (OwnerAdopted s) = map_option OwnerAdopted (nonempty s)"
| "mutationSchema E (PlanReconciled ts rs fp) = do {
     ts' \<leftarrow> uniqueStrings ts;
     rs' \<leftarrow> nullable uniqueStrings rs;
     fp' \<leftarrow> hash_schema fp;
     Some (PlanReconciled ts' rs' fp') }"
| "mutationSchema E (WorkflowSteered cs an) = do {
     cs' \<leftarrow> array_of steeredCriterionSchema cs;
     an' \<leftarrow> nullable (string_max 512) an;
     if cs' \<noteq> [] then Some (WorkflowSteered cs' an') else None }"
| "mutationSchema E (CriterionSettled g c a er rv cc) = do {
     g' \<leftarrow> nonempty g;
     c' \<leftarrow> nonempty c;
     a' \<leftarrow> nullable nonempty a;
     er' \<leftarrow> nonempty er;
     rv' \<leftarrow> counter rv;
     cc' \<leftarrow> nonempty cc;
     Some (CriterionSettled g' c' a' er' rv' cc') }"
| "mutationSchema E (TaskEvidenceAccepted t a) = do {
     t' \<leftarrow> nonempty t;
     a' \<leftarrow> nonempty a;
     Some (TaskEvidenceAccepted t' a') }"
| "mutationSchema E (WorkflowTerminal st ids t) = do {
     ids' \<leftarrow> nullable uniqueStrings ids;
     t' \<leftarrow> nullable nonempty t;
     if terminal_authority_ok st ids' t' then Some (WorkflowTerminal st ids' t') else None }"
| "mutationSchema E (ContinuationAttempted l p) = do {
     l' \<leftarrow> nonempty l;
     p' \<leftarrow> counter p;
     Some (ContinuationAttempted l' p') }"
| "mutationSchema E (ContinuationStuck l) = map_option ContinuationStuck (nonempty l)"
| "mutationSchema E (GoalCycleStarted g) = map_option GoalCycleStarted (nonempty g)"
| "mutationSchema E (CriterionFailureRecorded g c f) = do {
     g' \<leftarrow> nonempty g;
     c' \<leftarrow> nonempty c;
     f' \<leftarrow> nonempty f;
     Some (CriterionFailureRecorded g' c' f') }"

definition expectedSchema :: "expectation \<Rightarrow> expectation option" where
  "expectedSchema x = do {
     ir \<leftarrow> counter (exp_indexRevision x);
     rr \<leftarrow> nullable counter (exp_runRevision x);
     os \<leftarrow> nullable nonempty (exp_ownerSessionId x);
     oe \<leftarrow> nullable counter (exp_ownerEpoch x);
     Some \<lparr>exp_indexRevision = ir, exp_runRevision = rr, exp_ownerSessionId = os,
           exp_ownerEpoch = oe\<rparr> }"

text \<open>The version 2 members, with the refinement that a legacy event cannot bind a head.\<close>

fun eventVersionSchema :: "event_version \<Rightarrow> event_version option" where
  "eventVersionSchema EventV1 = Some EventV1"
| "eventVersionSchema (EventV2 h g l) = do {
     h' \<leftarrow> nullable nonempty h;
     g' \<leftarrow> nullable counter_positive g;
     if l \<and> h' \<noteq> None then None else Some (EventV2 h' g' l) }"

definition stateEventSchema :: "host_env \<Rightarrow> state_event \<Rightarrow> state_event option" where
  "stateEventSchema E e = do {
     v \<leftarrow> eventVersionSchema (ev_version e);
     i \<leftarrow> uuid_schema E (ev_eventId e);
     s \<leftarrow> counter (ev_sequence e);
     r \<leftarrow> uuid_schema E (ev_runId e);
     x \<leftarrow> expectedSchema (ev_expected e);
     m \<leftarrow> mutationSchema E (ev_mutation e);
     a \<leftarrow> timestamp_schema E (ev_at e);
     if ev_kind e = kind_of_mutation m
     then Some \<lparr>ev_version = v, ev_eventId = i, ev_sequence = s, ev_runId = r,
                ev_workflow = ev_workflow e, ev_kind = ev_kind e, ev_expected = x,
                ev_mutation = m, ev_at = a\<rparr>
     else None }"

interpretation steered_schema: idem_schema steeredCriterionSchema
  by unfold_locales (auto simp: steeredCriterionSchema_def elim!: bind_SomeE simp: schema_idem)

lemma mutationSchema_idem: "mutationSchema E m = Some m' \<Longrightarrow> mutationSchema E m' = Some m'"
  by (cases m)
    (auto elim!: bind_SomeE guard_SomeE
       simp: schema_idem run_schema.parse_idem steered_schema.array_idem)

lemma expectedSchema_idem: "expectedSchema x = Some x' \<Longrightarrow> expectedSchema x' = Some x'"
  by (auto simp: expectedSchema_def elim!: bind_SomeE simp: schema_idem)

lemma eventVersionSchema_idem: "eventVersionSchema v = Some v' \<Longrightarrow> eventVersionSchema v' = Some v'"
  by (cases v) (auto elim!: bind_SomeE simp: schema_idem split: if_splits)

interpretation event_schema: idem_schema "stateEventSchema E" for E
  by unfold_locales
    (auto simp: stateEventSchema_def elim!: bind_SomeE guard_SomeE
          simp: schema_idem eventVersionSchema_idem expectedSchema_idem mutationSchema_idem)

end
