(* ===== verification/State_Decode.thy ===== *)
theory State_Decode
  imports State_Codec
begin

text \<open>
  Lexical path containment (\<^verbatim>\<open>src/state/paths.ts\<close>), the uniqueness check and the lookup of the
  active index (\<^verbatim>\<open>src/state/active-index.ts\<close>), and the decoders of the three kinds of state
  file (\<^verbatim>\<open>src/state/codec.ts\<close>), with their round trips.
\<close>

section \<open>Lexical path containment\<close>

text \<open>
  \<^verbatim>\<open>toLowerCase\<close> on code units up to U+00FF.
\<close>

definition js_lower :: "char \<Rightarrow> char" where
  "js_lower c = (let n = (of_char c :: nat)
     in if (65 \<le> n \<and> n \<le> 90) \<or> (192 \<le> n \<and> n \<le> 222 \<and> n \<noteq> 215) then char_of (n + 32) else c)"

definition strip_trailing_slash :: "string \<Rightarrow> string" where
  "strip_trailing_slash s = (if s \<noteq> [] \<and> last s = CHR ''/'' then butlast s else s)"

definition canonicalComparisonPath :: "host_env \<Rightarrow> string \<Rightarrow> string" where
  "canonicalComparisonPath E path =
     (let normalized = strip_trailing_slash (map (\<lambda>c. if c = CHR 0x5C then CHR ''/'' else c) path)
      in if is_win32 E then map js_lower normalized else normalized)"

definition startsWith :: "string \<Rightarrow> string \<Rightarrow> bool" where
  "startsWith s p \<longleftrightarrow> take (length p) s = p"

definition isCanonicalPathContained :: "host_env \<Rightarrow> string \<Rightarrow> string \<Rightarrow> bool" where
  "isCanonicalPathContained E root candidate =
     (let canonicalRoot = canonicalComparisonPath E root;
          canonicalCandidate = canonicalComparisonPath E candidate
      in canonicalCandidate = canonicalRoot \<or> startsWith canonicalCandidate (canonicalRoot @ ''/''))"

lemma startsWith_iff: "startsWith s p \<longleftrightarrow> (\<exists>t. s = p @ t)"
  by (metis append_eq_conv_conj append_take_drop_id startsWith_def)

lemma isCanonicalPathContained_iff:
  "isCanonicalPathContained E root candidate \<longleftrightarrow>
     canonicalComparisonPath E candidate = canonicalComparisonPath E root \<or>
     (\<exists>rest. canonicalComparisonPath E candidate = canonicalComparisonPath E root @ ''/'' @ rest)"
  by (auto simp: isCanonicalPathContained_def Let_def startsWith_iff)

section \<open>The active index\<close>

datatype index_error = DuplicateActiveKey | DuplicateRun

fun workflow_name :: "workflow_kind \<Rightarrow> string" where
  "workflow_name StartWork = ''start_work''"
| "workflow_name UlwLoop = ''ulw_loop''"

definition entry_key :: "active_index_entry \<Rightarrow> string" where
  "entry_key e = workflow_name (ent_workflow e) @ [CHR 0x00] @ ent_sessionId e"

lemma entry_key_eq_iff:
  "entry_key e = entry_key e' \<longleftrightarrow>
     ent_workflow e = ent_workflow e' \<and> ent_sessionId e = ent_sessionId e'"
  by (cases "ent_workflow e"; cases "ent_workflow e'") (auto simp: entry_key_def)

fun validate_entries ::
    "string list \<Rightarrow> uuid list \<Rightarrow> active_index_entry list \<Rightarrow> index_error + unit" where
  "validate_entries keys runIds [] = Inr ()"
| "validate_entries keys runIds (e # es) =
     (if entry_key e \<in> set keys then Inl DuplicateActiveKey
      else if ent_runId e \<in> set runIds then Inl DuplicateRun
      else validate_entries (entry_key e # keys) (ent_runId e # runIds) es)"

definition validateActiveIndex :: "active_index \<Rightarrow> index_error + unit" where
  "validateActiveIndex i = validate_entries [] [] (idx_entries i)"

text \<open>What the check establishes, as a predicate on the entries.\<close>

definition index_unique :: "active_index_entry list \<Rightarrow> bool" where
  "index_unique es \<longleftrightarrow> distinct (map entry_key es) \<and> distinct (map ent_runId es)"

lemma validate_entries_ok_iff:
  "validate_entries keys runIds es = Inr () \<longleftrightarrow>
     index_unique es \<and> set keys \<inter> set (map entry_key es) = {} \<and>
     set runIds \<inter> set (map ent_runId es) = {}"
  by (induction keys runIds es rule: validate_entries.induct) (auto simp: index_unique_def)

lemma validateActiveIndex_ok_iff: "validateActiveIndex i = Inr () \<longleftrightarrow> index_unique (idx_entries i)"
  by (simp add: validateActiveIndex_def validate_entries_ok_iff)

lemma index_unique_key:
  assumes "index_unique es" "e \<in> set es" "e' \<in> set es"
    and "ent_workflow e = ent_workflow e'" "ent_sessionId e = ent_sessionId e'"
  shows "e = e'"
  using assms unfolding index_unique_def by (metis distinct_map_unique entry_key_eq_iff)

lemma index_unique_runId:
  "index_unique es \<Longrightarrow> e \<in> set es \<Longrightarrow> e' \<in> set es \<Longrightarrow> ent_runId e = ent_runId e' \<Longrightarrow> e = e'"
  unfolding index_unique_def by (metis distinct_map_unique)

lemma index_unique_filter: "index_unique es \<Longrightarrow> index_unique (filter P es)"
  by (simp add: index_unique_def distinct_map_filter)

text \<open>The hint an index entry must carry for a run of a given status.\<close>

fun hint_of_status :: "run_status \<Rightarrow> status_hint option" where
  "hint_of_status Active = Some HintActive"
| "hint_of_status Paused = Some HintPaused"
| "hint_of_status Stuck = Some HintStuck"
| "hint_of_status Blocked = Some HintBlocked"
| "hint_of_status NeedsUserDecision = Some HintBlocked"
| "hint_of_status ReviewBlocked = Some HintBlocked"
| "hint_of_status Completed = None"
| "hint_of_status Cancelled = None"
| "hint_of_status Failed = None"
| "hint_of_status Abandoned = None"

lemma hint_of_status_None_iff: "hint_of_status s = None \<longleftrightarrow> is_terminal_status s"
  by (cases s) auto

definition hintMatches :: "active_index_entry \<Rightarrow> run \<Rightarrow> bool" where
  "hintMatches e r \<longleftrightarrow> hint_of_status (run_status_of r) = Some (ent_statusHint e)"

datatype resolve_error = ForeignOwner | MissingTarget | RevisionMismatch | StateConflict

definition resolveActiveRun ::
    "active_index \<Rightarrow> run list \<Rightarrow> workflow_kind \<Rightarrow> string \<Rightarrow> resolve_error + run" where
  "resolveActiveRun i runs w s =
     (if validateActiveIndex i \<noteq> Inr () then Inl StateConflict
      else case List.find (\<lambda>e. ent_workflow e = w \<and> ent_sessionId e = s) (idx_entries i) of
        None \<Rightarrow> Inl ForeignOwner
      | Some e \<Rightarrow>
        (case List.find (\<lambda>r. run_runId r = ent_runId e) runs of
           None \<Rightarrow> Inl MissingTarget
         | Some r \<Rightarrow>
           (if run_revision r \<noteq> ent_runRevision e \<or>
               run_transactionRevision r \<noteq> ent_transactionRevision e \<or>
               ent_transactionRevision e \<noteq> idx_revision i
            then Inl RevisionMismatch
            else if run_workflow r \<noteq> ent_workflow e \<or>
               own_sessionId (run_owner r) \<noteq> ent_sessionId e \<or>
               own_epoch (run_owner r) \<noteq> ent_ownerEpoch e
            then Inl StateConflict
            else if \<not> hintMatches e r then Inl StateConflict
            else Inr r)))"

section \<open>Decoders\<close>

datatype decode_error =
    MalformedJson | MalformedRun | PathMismatch | MalformedIndex | MalformedEvent
  | IndexInvariant index_error

definition decodeRun :: "host_env \<Rightarrow> canonical_root \<Rightarrow> run file_bytes \<Rightarrow> decode_error + run" where
  "decodeRun E root bytes = (case bytes of
     NotJson \<Rightarrow> Inl MalformedJson
   | OtherJson \<Rightarrow> Inl MalformedRun
   | Json v \<Rightarrow>
     (case runSchema E v of
        None \<Rightarrow> Inl MalformedRun
      | Some r \<Rightarrow>
        (case run_payload r of
           UlwPayload _ \<Rightarrow> Inr r
         | StartPayload p \<Rightarrow>
           (if plan_allowedRoot (sw_plan p) \<noteq> root_canonicalPath root \<or>
               \<not> isCanonicalPathContained E (plan_allowedRoot (sw_plan p))
                    (plan_canonicalPath (sw_plan p))
            then Inl PathMismatch else Inr r))))"

definition decodeActiveIndex ::
    "host_env \<Rightarrow> active_index file_bytes \<Rightarrow> decode_error + active_index" where
  "decodeActiveIndex E bytes = (case bytes of
     NotJson \<Rightarrow> Inl MalformedJson
   | OtherJson \<Rightarrow> Inl MalformedIndex
   | Json v \<Rightarrow>
     (case activeIndexSchema E v of
        None \<Rightarrow> Inl MalformedIndex
      | Some i \<Rightarrow>
        (case validateActiveIndex i of Inl c \<Rightarrow> Inl (IndexInvariant c) | Inr _ \<Rightarrow> Inr i)))"

definition decodeStateEvent ::
    "host_env \<Rightarrow> state_event file_bytes \<Rightarrow> decode_error + state_event" where
  "decodeStateEvent E bytes = (case bytes of
     NotJson \<Rightarrow> Inl MalformedJson
   | OtherJson \<Rightarrow> Inl MalformedEvent
   | Json v \<Rightarrow> (case stateEventSchema E v of None \<Rightarrow> Inl MalformedEvent | Some e \<Rightarrow> Inr e))"

lemma decodeRun_schema: "decodeRun E root b = Inr r \<Longrightarrow> runSchema E r = Some r"
  by (auto simp: decodeRun_def simp: run_schema.parse_idem
      split: file_bytes.splits option.splits payload.splits if_splits)

lemma decodeActiveIndexD:
  "decodeActiveIndex E b = Inr i \<Longrightarrow> activeIndexSchema E i = Some i \<and> index_unique (idx_entries i)"
  by (auto simp: decodeActiveIndex_def validateActiveIndex_ok_iff [symmetric] index_schema.parse_idem
      split: file_bytes.splits option.splits sum.splits)

lemma decodeActiveIndex_stringify:
  "activeIndexSchema E i = Some i \<Longrightarrow> index_unique (idx_entries i) \<Longrightarrow>
     decodeActiveIndex E (stringify i) = Inr i"
  by (simp add: decodeActiveIndex_def validateActiveIndex_ok_iff [symmetric])

lemma decodeStateEvent_schema: "decodeStateEvent E b = Inr e \<Longrightarrow> stateEventSchema E e = Some e"
  by (auto simp: decodeStateEvent_def simp: event_schema.parse_idem
      split: file_bytes.splits option.splits)

lemma decodeStateEvent_stringify:
  "stateEventSchema E e = Some e \<Longrightarrow> decodeStateEvent E (stringify e) = Inr e"
  by (simp add: decodeStateEvent_def)

end
