(* ===== verification/Workflow_Reducers.thy ===== *)
theory Workflow_Reducers
  imports State_Codec
begin

text \<open>
  The pure reducers on runs: workflow control (\<^verbatim>\<open>src/workflows/workflow-control.ts\<close>), the ULW
  loop contract with its cycle and identical-failure budgets
  (\<^verbatim>\<open>src/workflows/ulw-loop-contract.ts\<close>) and the start-work eligibility check
  (\<^verbatim>\<open>src/workflows/start-work-contract.ts\<close>).
\<close>

record plan_snapshot =
  snap_taskIds :: "string list"
  snap_remainingTaskIds :: "string list"
  snap_fingerprint :: string

section \<open>Workflow control\<close>

datatype command_kind = CmdPause | CmdResume | CmdCancel | CmdAdopt | CmdReconcilePlan plan_snapshot

record control_command =
  cmd_kind :: command_kind
  cmd_sessionId :: string
  cmd_expectedEpoch :: nat

datatype control_error = OwnerMismatch | EpochMismatch | TerminalRun | InvalidTransition

definition precheck :: "run \<Rightarrow> control_command \<Rightarrow> control_error option" where
  "precheck r c =
     (if cmd_kind c \<noteq> CmdAdopt \<and> own_sessionId (run_owner r) \<noteq> cmd_sessionId c
      then Some OwnerMismatch
      else if own_epoch (run_owner r) = cmd_expectedEpoch c then None else Some EpochMismatch)"

definition resetContinuation :: "run \<Rightarrow> continuation_state" where
  "resetContinuation r = (run_continuation r)\<lparr>cont_noProgressAttempts := 0,
     cont_progressRevisionSeen := run_progressRevision r, cont_stuck := False\<rparr>"

fun adoptable_status :: "run_status \<Rightarrow> bool" where
  "adoptable_status Paused = True"
| "adoptable_status Stuck = True"
| "adoptable_status Blocked = True"
| "adoptable_status NeedsUserDecision = True"
| "adoptable_status ReviewBlocked = True"
| "adoptable_status _ = False"

definition reduceStart ::
    "run \<Rightarrow> start_work_payload \<Rightarrow> control_command \<Rightarrow> control_error + run" where
  "reduceStart r p c =
     (let terminal = sw_status p \<in> {Completed, Cancelled, Failed, Abandoned}
      in case cmd_kind c of
        CmdPause \<Rightarrow>
          (if sw_status p = Active
           then Inr (r\<lparr>run_revision := run_revision r + 1,
                       run_payload := StartPayload (p\<lparr>sw_status := Paused\<rparr>)\<rparr>)
           else Inl InvalidTransition)
      | CmdCancel \<Rightarrow>
          (if terminal then Inl TerminalRun
           else Inr (r\<lparr>run_revision := run_revision r + 1,
                       run_payload := StartPayload (p\<lparr>sw_status := Cancelled\<rparr>)\<rparr>))
      | CmdResume \<Rightarrow>
          (if terminal then Inl TerminalRun
           else if sw_status p \<noteq> Paused \<and> sw_status p \<noteq> Stuck then Inl InvalidTransition
           else Inr (r\<lparr>run_revision := run_revision r + 1,
                       run_continuation := resetContinuation r,
                       run_payload := StartPayload (p\<lparr>sw_status := Active\<rparr>)\<rparr>))
      | CmdAdopt \<Rightarrow>
          (if terminal then Inl TerminalRun
           else if \<not> adoptable_status (sw_status p) then Inl InvalidTransition
           else Inr (r\<lparr>run_revision := run_revision r + 1,
                       run_owner := \<lparr>own_sessionId = cmd_sessionId c,
                                     own_epoch = own_epoch (run_owner r) + 1\<rparr>,
                       run_continuation := resetContinuation r,
                       run_payload := StartPayload (p\<lparr>sw_status := Active\<rparr>)\<rparr>))
      | CmdReconcilePlan snap \<Rightarrow>
          (if terminal then Inl TerminalRun
           else Inr (r\<lparr>run_revision := run_revision r + 1,
                       run_payload := StartPayload (p\<lparr>sw_status := Active,
                         sw_plan := (sw_plan p)\<lparr>plan_taskIds := snap_taskIds snap,
                           plan_taskFingerprint := snap_fingerprint snap\<rparr>\<rparr>)\<rparr>)))"

definition reduceUlw ::
    "run \<Rightarrow> ulw_loop_payload \<Rightarrow> control_command \<Rightarrow> control_error + run" where
  "reduceUlw r p c =
     (let terminal = ul_status p \<in> {Completed, Cancelled, Failed}
      in case cmd_kind c of
        CmdPause \<Rightarrow>
          (if ul_status p = Active
           then Inr (r\<lparr>run_revision := run_revision r + 1,
                       run_payload := UlwPayload (p\<lparr>ul_status := Paused\<rparr>)\<rparr>)
           else Inl InvalidTransition)
      | CmdCancel \<Rightarrow>
          (if terminal then Inl TerminalRun
           else Inr (r\<lparr>run_revision := run_revision r + 1,
                       run_payload := UlwPayload (p\<lparr>ul_status := Cancelled\<rparr>)\<rparr>))
      | CmdResume \<Rightarrow>
          (if terminal then Inl TerminalRun
           else if ul_status p \<noteq> Paused \<and> ul_status p \<noteq> Stuck then Inl InvalidTransition
           else Inr (r\<lparr>run_revision := run_revision r + 1,
                       run_continuation := resetContinuation r,
                       run_payload := UlwPayload (p\<lparr>ul_status := Active\<rparr>)\<rparr>))
      | CmdAdopt \<Rightarrow>
          (if terminal then Inl TerminalRun
           else if \<not> adoptable_status (ul_status p) then Inl InvalidTransition
           else Inr (r\<lparr>run_revision := run_revision r + 1,
                       run_owner := \<lparr>own_sessionId = cmd_sessionId c,
                                     own_epoch = own_epoch (run_owner r) + 1\<rparr>,
                       run_continuation := resetContinuation r,
                       run_payload := UlwPayload (p\<lparr>ul_status := Active\<rparr>)\<rparr>))
      | CmdReconcilePlan _ \<Rightarrow> Inl InvalidTransition)"

definition reduceWorkflowControl :: "run \<Rightarrow> control_command \<Rightarrow> control_error + run" where
  "reduceWorkflowControl r c = (case precheck r c of
     Some e \<Rightarrow> Inl e
   | None \<Rightarrow> (case run_payload r of
       StartPayload p \<Rightarrow> reduceStart r p c
     | UlwPayload p \<Rightarrow> reduceUlw r p c))"

section \<open>The ULW loop contract\<close>

definition goal_of :: "ulw_loop_payload \<Rightarrow> string \<Rightarrow> goal option" where
  "goal_of p i = List.find (\<lambda>g. goal_id g = i) (ul_goals p)"

definition criterion_of :: "goal \<Rightarrow> string \<Rightarrow> criterion option" where
  "criterion_of g i = List.find (\<lambda>c. crit_id c = i) (goal_criteria g)"

definition all_criteria_pass :: "goal list \<Rightarrow> bool" where
  "all_criteria_pass gs = list_all (\<lambda>g. list_all (\<lambda>c. crit_status c = CritPass) (goal_criteria g)) gs"

datatype ulw_refusal = NotActive | UnmetCriteria | NoActiveGoal | BudgetExhausted

definition evaluateUlwContinuation :: "ulw_loop_payload \<Rightarrow> ulw_refusal + string" where
  "evaluateUlwContinuation p =
     (if ul_status p = Completed \<and> \<not> all_criteria_pass (ul_goals p) then Inl UnmetCriteria
      else if ul_status p \<noteq> Active then Inl NotActive
      else case Option.bind (ul_activeGoalId p) (goal_of p) of
        None \<Rightarrow> Inl NoActiveGoal
      | Some g \<Rightarrow>
          (if goal_cycleCount g \<ge> 5 \<or>
              list_ex (\<lambda>c. crit_identicalFailureCount c \<ge> 3) (goal_criteria g)
           then Inl BudgetExhausted else Inr (goal_id g)))"

datatype ulw_step_error = CycleLimit | GoalMissing | CriterionMissing | IdenticalFailureLimit

definition set_goals :: "run \<Rightarrow> ulw_loop_payload \<Rightarrow> goal list \<Rightarrow> run" where
  "set_goals r p gs = r\<lparr>run_revision := run_revision r + 1,
                        run_payload := UlwPayload (p\<lparr>ul_goals := gs\<rparr>)\<rparr>"

definition startGoalCycle ::
    "run \<Rightarrow> ulw_loop_payload \<Rightarrow> string \<Rightarrow> ulw_step_error + run" where
  "startGoalCycle r p goalId = (case goal_of p goalId of
     None \<Rightarrow> Inl GoalMissing
   | Some g \<Rightarrow>
     (if goal_cycleCount g \<ge> 5 then Inl CycleLimit
      else Inr (set_goals r p (map (\<lambda>candidate.
        if goal_id candidate = goalId
        then candidate\<lparr>goal_cycleCount := goal_cycleCount candidate + 1\<rparr>
        else candidate) (ul_goals p)))))"

definition recordCriterionFailure ::
    "run \<Rightarrow> ulw_loop_payload \<Rightarrow> string \<Rightarrow> string \<Rightarrow> string \<Rightarrow> ulw_step_error + run" where
  "recordCriterionFailure r p goalId criterionId fingerprint = (case goal_of p goalId of
     None \<Rightarrow> Inl GoalMissing
   | Some g \<Rightarrow>
     (case criterion_of g criterionId of
        None \<Rightarrow> Inl CriterionMissing
      | Some c \<Rightarrow>
        (let repeated = (crit_identicalFailureFingerprint c = Some fingerprint)
         in if repeated \<and> crit_identicalFailureCount c \<ge> 3 then Inl IdenticalFailureLimit
            else let criteria = map (\<lambda>candidate.
                   if crit_id candidate = criterionId
                   then candidate\<lparr>crit_status := CritFail,
                          crit_identicalFailureFingerprint := Some fingerprint,
                          crit_identicalFailureCount :=
                            (if repeated then crit_identicalFailureCount candidate + 1 else 1)\<rparr>
                   else candidate) (goal_criteria g)
                 in Inr (set_goals r p (map (\<lambda>candidate.
                      if goal_id candidate = goalId then candidate\<lparr>goal_criteria := criteria\<rparr>
                      else candidate) (ul_goals p))))))"

section \<open>Start-work eligibility\<close>

datatype start_refusal = StartNotActive | PlanIdentityMismatch | PlanComplete

definition evaluateStartWorkContinuation ::
    "start_work_payload \<Rightarrow> plan_snapshot \<Rightarrow> start_refusal + string" where
  "evaluateStartWorkContinuation p obs =
     (if sw_status p \<noteq> Active then Inl StartNotActive
      else if plan_taskFingerprint (sw_plan p) \<noteq> snap_fingerprint obs \<or>
              plan_taskIds (sw_plan p) \<noteq> snap_taskIds obs
      then Inl PlanIdentityMismatch
      else case snap_remainingTaskIds obs of [] \<Rightarrow> Inl PlanComplete | t # _ \<Rightarrow> Inr t)"

section \<open>Facts about workflow control\<close>

lemmas control_defs = reduceWorkflowControl_def precheck_def reduceStart_def reduceUlw_def Let_def

text \<open>Every accepted command is a step of exactly one revision and touches neither identity nor progress.\<close>

lemma reduceWorkflowControl_frame:
  assumes "reduceWorkflowControl r c = Inr r'"
  shows "run_revision r' = run_revision r + 1" and "run_runId r' = run_runId r"
    and "run_workflow r' = run_workflow r" and "run_progressRevision r' = run_progressRevision r"
    and "run_version r' = run_version r" and "run_transactionRevision r' = run_transactionRevision r"
  using assms
  by (auto simp: control_defs run_view_defs split: if_splits option.splits payload.splits command_kind.splits)

lemma reduceWorkflowControl_owner:
  assumes "reduceWorkflowControl r c = Inr r'"
  shows "run_owner r' =
    (if cmd_kind c = CmdAdopt
     then \<lparr>own_sessionId = cmd_sessionId c, own_epoch = own_epoch (run_owner r) + 1\<rparr>
     else run_owner r)"
  using assms
  by (auto simp: control_defs split: if_splits option.splits payload.splits command_kind.splits)

text \<open>
  No control command is accepted on a terminal run. (A ULW payload never has the status
  \<open>Abandoned\<close>: its schema rejects it.)
\<close>

definition status_in_schema :: "payload \<Rightarrow> bool" where
  "status_in_schema p = (case p of StartPayload _ \<Rightarrow> True | UlwPayload q \<Rightarrow> ul_status q \<noteq> Abandoned)"

lemma control_terminal:
  assumes "terminal_run r" "status_in_schema (run_payload r)"
  shows "\<exists>e. reduceWorkflowControl r c = Inl e"
proof (cases "run_payload r")
  case (StartPayload p)
  with assms show ?thesis
    by (auto simp: control_defs run_view_defs is_terminal_status_iff split: option.splits command_kind.splits)
next
  case (UlwPayload p)
  with assms show ?thesis
    by (auto simp: control_defs run_view_defs is_terminal_status_iff status_in_schema_def
        split: option.splits command_kind.splits)
qed

section \<open>The ULW loop keeps its schema\<close>

lemma goal_of_SomeD: "goal_of p i = Some g \<Longrightarrow> g \<in> set (ul_goals p) \<and> goal_id g = i"
  unfolding goal_of_def by (drule find_SomeD) simp

lemma criterion_of_SomeD: "criterion_of g i = Some c \<Longrightarrow> c \<in> set (goal_criteria g) \<and> crit_id c = i"
  unfolding criterion_of_def by (drule find_SomeD) simp

lemma all_criterion_ids_cong:
  "map (\<lambda>g. map crit_id (goal_criteria g)) gs' = map (\<lambda>g. map crit_id (goal_criteria g)) gs \<Longrightarrow>
     all_criterion_ids gs' = all_criterion_ids gs"
  by (simp add: all_criterion_ids_def)

lemma in_progress_ids_map:
  assumes "\<And>g. g \<in> set gs \<Longrightarrow> goal_id (f g) = goal_id g \<and> goal_status (f g) = goal_status g"
  shows "map goal_id (in_progress_goals (map f gs)) = map goal_id (in_progress_goals gs)"
  using assms by (induction gs) (auto simp: in_progress_goals_def)

text \<open>
  An update of the goals that keeps every goal id, every goal status and every criterion id
  keeps the payload's refinement.
\<close>

lemma refineUlwLoop_map:
  assumes "refineUlwLoop p"
    and keep: "\<And>g. g \<in> set (ul_goals p) \<Longrightarrow> goal_id (f g) = goal_id g \<and> goal_status (f g) = goal_status g \<and>
      map crit_id (goal_criteria (f g)) = map crit_id (goal_criteria g)"
  shows "refineUlwLoop (p\<lparr>ul_goals := map f (ul_goals p)\<rparr>)"
proof -
  have ids: "map goal_id (map f (ul_goals p)) = map goal_id (ul_goals p)"
    using keep by simp
  have crits: "all_criterion_ids (map f (ul_goals p)) = all_criterion_ids (ul_goals p)"
    by (rule all_criterion_ids_cong) (use keep in simp)
  have prog: "map goal_id (in_progress_goals (map f (ul_goals p))) = map goal_id (in_progress_goals (ul_goals p))"
    by (rule in_progress_ids_map) (use keep in blast)
  then have "in_progress_goals (map f (ul_goals p)) = [] \<longleftrightarrow> in_progress_goals (ul_goals p) = []"
    by (metis map_is_Nil_conv)
  with assms(1) ids crits prog show ?thesis
    by (simp add: refineUlwLoop_def active_goal_matches_def del: map_map split: option.splits)
qed

lemma ulwPayloadSchema_map_goals:
  assumes "ulwPayloadSchema p = Some p"
    and keep: "\<And>g. g \<in> set (ul_goals p) \<Longrightarrow> goal_id (f g) = goal_id g \<and> goal_status (f g) = goal_status g \<and>
      map crit_id (goal_criteria (f g)) = map crit_id (goal_criteria g)"
    and normal: "\<And>g. g \<in> set (ul_goals p) \<Longrightarrow> goalSchema g = Some g \<Longrightarrow> goalSchema (f g) = Some (f g)"
  shows "ulwPayloadSchema (p\<lparr>ul_goals := map f (ul_goals p)\<rparr>) = Some (p\<lparr>ul_goals := map f (ul_goals p)\<rparr>)"
  using assms refineUlwLoop_map [of p f]
  by (simp add: ulwPayloadSchema_normal_iff list_all_iff)

lemma startGoalCycle_schema:
  assumes schema: "ulwPayloadSchema p = Some p" and step: "startGoalCycle r p i = Inr r'"
  obtains p' where "r' = r\<lparr>run_revision := run_revision r + 1, run_payload := UlwPayload p'\<rparr>"
    "ulwPayloadSchema p' = Some p'"
proof -
  obtain g where g: "goal_of p i = Some g" "goal_cycleCount g < 5"
    using step by (auto simp: startGoalCycle_def split: option.splits if_splits)
  define f :: "goal \<Rightarrow> goal" where "f = (\<lambda>candidate. if goal_id candidate = i
     then candidate\<lparr>goal_cycleCount := goal_cycleCount candidate + 1\<rparr> else candidate)"
  have "distinct (map goal_id (ul_goals p))"
    using schema by (simp add: ulwPayloadSchema_normal_iff refineUlwLoop_def)
  then have only: "candidate = g" if "candidate \<in> set (ul_goals p)" "goal_id candidate = i" for candidate
    using that goal_of_SomeD [OF g(1)] by (metis distinct_map_unique)
  have "goalSchema (f h) = Some (f h)" if "h \<in> set (ul_goals p)" "goalSchema h = Some h" for h
    using that only [of h] g(2) by (auto simp: f_def goalSchema_normal_iff)
  then have "ulwPayloadSchema (p\<lparr>ul_goals := map f (ul_goals p)\<rparr>) = Some (p\<lparr>ul_goals := map f (ul_goals p)\<rparr>)"
    by (intro ulwPayloadSchema_map_goals [OF schema]) (auto simp: f_def)
  moreover have "r' = set_goals r p (map f (ul_goals p))"
    using step g by (auto simp: startGoalCycle_def f_def)
  ultimately show thesis using that by (simp add: set_goals_def)
qed

lemma recordCriterionFailure_schema:
  assumes schema: "ulwPayloadSchema p = Some p"
    and fp: "nonempty fp = Some fp"
    and step: "recordCriterionFailure r p i j fp = Inr r'"
  obtains p' where "r' = r\<lparr>run_revision := run_revision r + 1, run_payload := UlwPayload p'\<rparr>"
    "ulwPayloadSchema p' = Some p'"
proof -
  obtain g c where g: "goal_of p i = Some g" and c: "criterion_of g j = Some c"
    and limit: "\<not> (crit_identicalFailureFingerprint c = Some fp \<and> 3 \<le> crit_identicalFailureCount c)"
    using step by (auto simp: recordCriterionFailure_def Let_def split: option.splits if_splits)
  define h :: "criterion \<Rightarrow> criterion" where "h = (\<lambda>candidate. if crit_id candidate = j
     then candidate\<lparr>crit_status := CritFail, crit_identicalFailureFingerprint := Some fp,
       crit_identicalFailureCount := (if crit_identicalFailureFingerprint c = Some fp
         then crit_identicalFailureCount candidate + 1 else 1)\<rparr> else candidate)"
  define f :: "goal \<Rightarrow> goal" where "f = (\<lambda>candidate. if goal_id candidate = i
     then candidate\<lparr>goal_criteria := map h (goal_criteria g)\<rparr> else candidate)"
  have ids: "map crit_id (map h cs) = map crit_id cs" for cs
    by (simp add: h_def)
  have "distinct (map goal_id (ul_goals p))"
    using schema by (simp add: ulwPayloadSchema_normal_iff refineUlwLoop_def)
  then have only: "candidate = g" if "candidate \<in> set (ul_goals p)" "goal_id candidate = i" for candidate
    using that goal_of_SomeD [OF g] by (metis distinct_map_unique)
  have gn: "goalSchema g = Some g"
    using schema goal_of_SomeD [OF g] by (simp add: ulwPayloadSchema_normal_iff list_all_iff)
  then have onlyc: "candidate = c" if "candidate \<in> set (goal_criteria g)" "crit_id candidate = j" for candidate
    using that criterion_of_SomeD [OF c] unfolding goalSchema_normal_iff by (metis distinct_map_unique)
  have "criterionSchema (h d) = Some (h d)" if "d \<in> set (goal_criteria g)" for d
    using that gn onlyc [of d] limit fp
    by (auto simp: h_def goalSchema_normal_iff list_all_iff criterionSchema_normal_iff)
  then have "goalSchema (f g) = Some (f g)"
    using gn ids [of "goal_criteria g"]
    by (auto simp: f_def goalSchema_normal_iff list_all_iff simp del: map_map)
  then have "ulwPayloadSchema (p\<lparr>ul_goals := map f (ul_goals p)\<rparr>) = Some (p\<lparr>ul_goals := map f (ul_goals p)\<rparr>)"
    using ids only by (intro ulwPayloadSchema_map_goals [OF schema]) (auto simp: f_def simp del: map_map)
  moreover have "r' = set_goals r p (map f (ul_goals p))"
    using step g c limit unfolding f_def h_def
    by (auto simp: recordCriterionFailure_def Let_def split: if_splits)
  ultimately show thesis using that by (simp add: set_goals_def)
qed

end
