(* ===== verification/Task_Ledger.thy ===== *)
theory Task_Ledger
  imports State_Codec
begin

text \<open>
  The sidecar ledger of task facts: its schema and ordering invariant
  (\<^verbatim>\<open>src/gates/task-ledger-codec.ts\<close>), the views the gates read
  (\<^verbatim>\<open>src/gates/task-ledger-view.ts\<close>), the merge that appends facts
  (\<^verbatim>\<open>src/gates/task-sidecar-store.ts\<close>), the decisions of the reservation, binding and
  authorization operations (\<^verbatim>\<open>src/gates/task-event-ledger.ts\<close>) and of the receipt writers
  (\<^verbatim>\<open>src/gates/task-receipt-writer.ts\<close>).
\<close>

section \<open>Facts and ledgers\<close>

record task_request =
  req_canonicalInputHash :: "string option"
  req_itemIndex :: nat
  req_requestedName :: "string option"
  req_agentType :: "string option"

record identity_binding =
  bind_itemIndex :: nat
  bind_actualAgentId :: string
  bind_actualJobId :: "string option"

datatype job_status = JobRunning | JobCompleted | JobFailed | JobCancelled

datatype irc_outcome = IrcInjected | IrcWoken | IrcRevived | IrcFailed

datatype task_receipt =
    JobReceipt string job_status
  | JobCancelReceipt string
  | IrcReceipt string irc_outcome

datatype task_control = JobSnapshot | JobCancel | IrcSend | IrcTarget

datatype capability_status = CapProven | CapBlocked

datatype task_fact =
    TaskReserved string nat "task_request list"
      \<comment> \<open>toolCallId, itemCount, requests\<close>
  | TaskIdentitiesBound string "identity_binding list"
      \<comment> \<open>toolCallId, bindings\<close>
  | TaskControlAuthorized string task_control nat string "string list"
      \<comment> \<open>toolCallId, control, taskGeneration, inputKey, targets\<close>
  | TaskReceiptObserved string task_receipt
      \<comment> \<open>toolCallId, receipt\<close>
  | AsyncCapabilityObserved string nat capability_status string
      \<comment> \<open>toolCallId, taskGeneration, status, reason\<close>

record task_ledger_entry =
  tle_sequence :: nat
  tle_ownerSessionId :: string
  tle_ownerEpoch :: nat
  tle_fact :: task_fact

datatype task_ledger_version =
    TaskLedgerV1
  | TaskLedgerV2 (ledgerPacketHash: "string option") (ledgerTier: "task_tier option")
      (ledgerReservationId: "string option")

record task_ledger =
  tl_version :: task_ledger_version
  tl_runId :: uuid
  tl_ledgerRevision :: nat
  tl_entries :: "task_ledger_entry list"

section \<open>Keys and ordering\<close>

fun receipt_kind_name :: "task_receipt \<Rightarrow> string" where
  "receipt_kind_name (JobReceipt _ _) = ''job''"
| "receipt_kind_name (JobCancelReceipt _) = ''job_cancel''"
| "receipt_kind_name (IrcReceipt _ _) = ''irc''"

fun receipt_target :: "task_receipt \<Rightarrow> string" where
  "receipt_target (JobReceipt j _) = j"
| "receipt_target (JobCancelReceipt j) = j"
| "receipt_target (IrcReceipt a _) = a"

fun fact_kind_name :: "task_fact \<Rightarrow> string" where
  "fact_kind_name (TaskReserved _ _ _) = ''task_reserved''"
| "fact_kind_name (TaskIdentitiesBound _ _) = ''task_identities_bound''"
| "fact_kind_name (TaskControlAuthorized _ _ _ _ _) = ''task_control_authorized''"
| "fact_kind_name (TaskReceiptObserved _ _) = ''task_receipt_observed''"
| "fact_kind_name (AsyncCapabilityObserved _ _ _ _) = ''async_capability_observed''"

fun fact_toolCallId :: "task_fact \<Rightarrow> string" where
  "fact_toolCallId (TaskReserved t _ _) = t"
| "fact_toolCallId (TaskIdentitiesBound t _) = t"
| "fact_toolCallId (TaskControlAuthorized t _ _ _ _) = t"
| "fact_toolCallId (TaskReceiptObserved t _) = t"
| "fact_toolCallId (AsyncCapabilityObserved t _ _ _) = t"

abbreviation nul :: string where
  "nul \<equiv> [CHR 0x00]"

definition taskFactKey :: "task_fact \<Rightarrow> string" where
  "taskFactKey f = (case f of
     TaskReceiptObserved t r \<Rightarrow>
       fact_kind_name f @ nul @ t @ nul @ receipt_kind_name r @ nul @ receipt_target r
   | _ \<Rightarrow> fact_kind_name f @ nul @ fact_toolCallId f)"

text \<open>
  The key of an entry joins owner session, owner epoch and fact key with NUL characters; the
  decimal epoch is kept as a number here, since its text contains no NUL.
\<close>

definition ledger_key :: "task_ledger_entry \<Rightarrow> string \<times> nat \<times> string" where
  "ledger_key e = (tle_ownerSessionId e, tle_ownerEpoch e, taskFactKey (tle_fact e))"

definition ledgerIsOrdered :: "task_ledger \<Rightarrow> bool" where
  "ledgerIsOrdered l \<longleftrightarrow>
     tl_ledgerRevision l = length (tl_entries l) \<and>
     dense (map tle_sequence (tl_entries l)) \<and>
     distinct (map ledger_key (tl_entries l))"

section \<open>The schema of the ledger\<close>

definition runtimeId :: "string \<Rightarrow> string option" where
  "runtimeId s = (let t = js_trim s in if t = [] \<or> 160 < length t then None else Some t)"

definition requestSchema :: "task_request \<Rightarrow> task_request option" where
  "requestSchema q = do {
     h \<leftarrow> nullable hash_schema (req_canonicalInputHash q);
     i \<leftarrow> counter (req_itemIndex q);
     n \<leftarrow> nullable nonempty (req_requestedName q);
     a \<leftarrow> nullable nonempty (req_agentType q);
     Some \<lparr>req_canonicalInputHash = h, req_itemIndex = i, req_requestedName = n, req_agentType = a\<rparr> }"

definition bindingSchema :: "identity_binding \<Rightarrow> identity_binding option" where
  "bindingSchema b = do {
     i \<leftarrow> counter (bind_itemIndex b);
     a \<leftarrow> runtimeId (bind_actualAgentId b);
     j \<leftarrow> nullable runtimeId (bind_actualJobId b);
     Some \<lparr>bind_itemIndex = i, bind_actualAgentId = a, bind_actualJobId = j\<rparr> }"

fun receiptSchema :: "task_receipt \<Rightarrow> task_receipt option" where
  "receiptSchema (JobReceipt j st) = do { j' \<leftarrow> runtimeId j; Some (JobReceipt j' st) }"
| "receiptSchema (JobCancelReceipt j) = map_option JobCancelReceipt (runtimeId j)"
| "receiptSchema (IrcReceipt a out) = do { a' \<leftarrow> runtimeId a; Some (IrcReceipt a' out) }"

fun factSchema :: "task_fact \<Rightarrow> task_fact option" where
  "factSchema (TaskReserved t n reqs) = do {
     t' \<leftarrow> runtimeId t;
     n' \<leftarrow> counter_positive n;
     reqs' \<leftarrow> array_of requestSchema reqs;
     if reqs' \<noteq> [] \<and> n' = length reqs' \<and> map req_itemIndex reqs' = [0..<length reqs']
     then Some (TaskReserved t' n' reqs') else None }"
| "factSchema (TaskIdentitiesBound t bs) = do {
     t' \<leftarrow> runtimeId t;
     bs' \<leftarrow> array_of bindingSchema bs;
     if bs' \<noteq> [] then Some (TaskIdentitiesBound t' bs') else None }"
| "factSchema (TaskControlAuthorized t c g k ts) = do {
     t' \<leftarrow> runtimeId t;
     g' \<leftarrow> counter_positive g;
     k' \<leftarrow> nonempty k;
     ts' \<leftarrow> array_of nonempty ts;
     Some (TaskControlAuthorized t' c g' k' ts') }"
| "factSchema (TaskReceiptObserved t r) = do {
     t' \<leftarrow> runtimeId t;
     r' \<leftarrow> receiptSchema r;
     Some (TaskReceiptObserved t' r') }"
| "factSchema (AsyncCapabilityObserved t g st reason) = do {
     t' \<leftarrow> runtimeId t;
     g' \<leftarrow> counter_positive g;
     reason' \<leftarrow> nonempty reason;
     Some (AsyncCapabilityObserved t' g' st reason') }"

definition ledgerEntrySchema :: "task_ledger_entry \<Rightarrow> task_ledger_entry option" where
  "ledgerEntrySchema e = do {
     n \<leftarrow> counter_positive (tle_sequence e);
     s \<leftarrow> nonempty (tle_ownerSessionId e);
     ep \<leftarrow> counter (tle_ownerEpoch e);
     f \<leftarrow> factSchema (tle_fact e);
     Some \<lparr>tle_sequence = n, tle_ownerSessionId = s, tle_ownerEpoch = ep, tle_fact = f\<rparr> }"

fun ledgerVersionSchema :: "task_ledger_version \<Rightarrow> task_ledger_version option" where
  "ledgerVersionSchema TaskLedgerV1 = Some TaskLedgerV1"
| "ledgerVersionSchema (TaskLedgerV2 h tier rid) = do {
     h' \<leftarrow> nullable hash_schema h;
     rid' \<leftarrow> nullable nonempty rid;
     Some (TaskLedgerV2 h' tier rid') }"

definition taskLedgerSchema :: "host_env \<Rightarrow> task_ledger \<Rightarrow> task_ledger option" where
  "taskLedgerSchema E l = do {
     v \<leftarrow> ledgerVersionSchema (tl_version l);
     i \<leftarrow> uuid_schema E (tl_runId l);
     r \<leftarrow> counter (tl_ledgerRevision l);
     es \<leftarrow> array_of ledgerEntrySchema (tl_entries l);
     let l' = \<lparr>tl_version = v, tl_runId = i, tl_ledgerRevision = r, tl_entries = es\<rparr>;
     if ledgerIsOrdered l' then Some l' else None }"

interpretation runtime_id_schema: idem_schema runtimeId
  by unfold_locales (auto simp: runtimeId_def Let_def split: if_splits)

interpretation request_schema: idem_schema requestSchema
  by unfold_locales (auto simp: requestSchema_def elim!: bind_SomeE simp: schema_idem)

interpretation binding_schema: idem_schema bindingSchema
  by unfold_locales
    (auto simp: bindingSchema_def elim!: bind_SomeE
       simp: schema_idem runtime_id_schema.parse_idem runtime_id_schema.nullable_idem)

lemma receiptSchema_idem: "receiptSchema r = Some r' \<Longrightarrow> receiptSchema r' = Some r'"
  by (cases r) (auto elim!: bind_SomeE simp: runtime_id_schema.parse_idem)

interpretation fact_schema: idem_schema factSchema
proof unfold_locales
  fix f f' assume "factSchema f = Some f'"
  then show "factSchema f' = Some f'"
    by (cases f)
      (auto elim!: bind_SomeE guard_SomeE simp: schema_idem runtime_id_schema.parse_idem
         receiptSchema_idem request_schema.array_idem binding_schema.array_idem)
qed

interpretation ledger_entry_schema: idem_schema ledgerEntrySchema
  by unfold_locales
    (auto simp: ledgerEntrySchema_def elim!: bind_SomeE simp: schema_idem fact_schema.parse_idem)

interpretation task_ledger_schema: idem_schema "taskLedgerSchema E" for E
proof unfold_locales
  fix l l' assume "taskLedgerSchema E l = Some l'"
  moreover have "ledgerVersionSchema v = Some v' \<Longrightarrow> ledgerVersionSchema v' = Some v'" for v v'
    by (cases v) (auto elim!: bind_SomeE simp: schema_idem)
  ultimately show "taskLedgerSchema E l' = Some l'"
    by (auto simp: taskLedgerSchema_def Let_def elim!: bind_SomeE guard_SomeE
       simp: schema_idem ledger_entry_schema.array_idem)
qed

section \<open>Views of a run's scope\<close>

record task_run_scope =
  scope_indexRevision :: nat
  scope_run :: run
  scope_ledger :: task_ledger

definition currentOwnerEntries :: "task_run_scope \<Rightarrow> task_ledger_entry list" where
  "currentOwnerEntries s = filter
     (\<lambda>e. tle_ownerSessionId e = own_sessionId (run_owner (scope_run s)) \<and>
          tle_ownerEpoch e = own_epoch (run_owner (scope_run s)))
     (tl_entries (scope_ledger s))"

definition taskFacts :: "task_run_scope \<Rightarrow> task_fact list" where
  "taskFacts s = map tle_fact (currentOwnerEntries s)"

fun starts_generation :: "task_fact \<Rightarrow> bool" where
  "starts_generation (TaskReserved _ _ _) = True"
| "starts_generation (TaskIdentitiesBound _ _) = True"
| "starts_generation _ = False"

definition taskGeneration :: "task_run_scope \<Rightarrow> nat" where
  "taskGeneration s =
     (case find_last (\<lambda>e. starts_generation (tle_fact e)) (currentOwnerEntries s) of
        None \<Rightarrow> 0 | Some e \<Rightarrow> tle_sequence e)"

definition taskReservations :: "task_run_scope \<Rightarrow> (string \<times> nat \<times> task_request list) list" where
  "taskReservations s = concat (map (\<lambda>f. case f of
     TaskReserved t n rs \<Rightarrow> [(t, n, rs)] | _ \<Rightarrow> []) (taskFacts s))"

definition taskReservation ::
    "task_run_scope \<Rightarrow> string \<Rightarrow> (string \<times> nat \<times> task_request list) option" where
  "taskReservation s t = List.find (\<lambda>x. fst x = t) (taskReservations s)"

definition taskIdentityFacts :: "task_run_scope \<Rightarrow> (string \<times> identity_binding list) list" where
  "taskIdentityFacts s = concat (map (\<lambda>f. case f of
     TaskIdentitiesBound t bs \<Rightarrow> [(t, bs)] | _ \<Rightarrow> []) (taskFacts s))"

text \<open>The first authorization fact of a tool call: control, generation, input key, targets.\<close>

definition taskAuthorization ::
    "task_run_scope \<Rightarrow> string \<Rightarrow> (task_control \<times> nat \<times> string \<times> string list) option" where
  "taskAuthorization s t =
     (case List.find (\<lambda>e. case tle_fact e of TaskControlAuthorized u _ _ _ _ \<Rightarrow> u = t | _ \<Rightarrow> False)
        (currentOwnerEntries s) of
        None \<Rightarrow> None
      | Some e \<Rightarrow> (case tle_fact e of
          TaskControlAuthorized _ c g k ts \<Rightarrow> Some (c, g, k, ts) | _ \<Rightarrow> None))"

definition taskReceipts :: "task_run_scope \<Rightarrow> (string \<times> task_receipt) list" where
  "taskReceipts s = concat (map (\<lambda>f. case f of
     TaskReceiptObserved t r \<Rightarrow> [(t, r)] | _ \<Rightarrow> []) (taskFacts s))"

record runtime_identity =
  ri_toolCallId :: string
  ri_itemIndex :: nat
  ri_requestedName :: "string option"
  ri_agentType :: "string option"
  ri_actualAgentId :: string
  ri_actualJobId :: "string option"

text \<open>The jobs returned by receipts whose authorization belongs to the generation.\<close>

definition returnedJobs :: "task_run_scope \<Rightarrow> nat \<Rightarrow> string list" where
  "returnedJobs s g = concat (map (\<lambda>(t, r). case r of
     JobReceipt j _ \<Rightarrow>
       (case taskAuthorization s t of Some (_, g', _, _) \<Rightarrow> (if g' = g then [j] else []) | None \<Rightarrow> [])
   | _ \<Rightarrow> []) (taskReceipts s))"

text \<open>
  \<^verbatim>\<open>new Map(...)\<close> keeps the last reservation of a tool call. \<^verbatim>\<open>parentActualAgentId\<close> is always
  null and left out of the record.
\<close>

definition runtimeIdentities :: "task_run_scope \<Rightarrow> nat \<Rightarrow> runtime_identity list" where
  "runtimeIdentities s g =
     (case List.find (\<lambda>e. tle_sequence e = g \<and>
            (case tle_fact e of TaskIdentitiesBound _ _ \<Rightarrow> True | _ \<Rightarrow> False)) (currentOwnerEntries s) of
        None \<Rightarrow> []
      | Some e \<Rightarrow> (case tle_fact e of
          TaskIdentitiesBound t bs \<Rightarrow>
            (case find_last (\<lambda>x. fst x = t) (taskReservations s) of
               None \<Rightarrow> []
             | Some (_, _, reqs) \<Rightarrow> concat (map (\<lambda>b.
                 if bind_itemIndex b < length reqs then
                   [\<lparr>ri_toolCallId = t, ri_itemIndex = bind_itemIndex b,
                     ri_requestedName = req_requestedName (reqs ! bind_itemIndex b),
                     ri_agentType = req_agentType (reqs ! bind_itemIndex b),
                     ri_actualAgentId = bind_actualAgentId b,
                     ri_actualJobId = (case bind_actualJobId b of
                         Some j \<Rightarrow> Some j
                       | None \<Rightarrow> (if bind_actualAgentId b \<in> set (returnedJobs s g)
                                 then Some (bind_actualAgentId b) else None))\<rparr>]
                 else []) bs))
        | _ \<Rightarrow> []))"

definition runtimeCapability :: "task_run_scope \<Rightarrow> (capability_status \<times> string) option" where
  "runtimeCapability s =
     (case find_last (\<lambda>f. case f of
             AsyncCapabilityObserved _ g _ _ \<Rightarrow> g = taskGeneration s | _ \<Rightarrow> False) (taskFacts s) of
        Some (AsyncCapabilityObserved _ _ st reason) \<Rightarrow> Some (st, reason)
      | _ \<Rightarrow> None)"

section \<open>Appending facts\<close>

datatype merge_result = MergeConflict | MergeInvalid | Merged task_ledger bool

text \<open>\<^verbatim>\<open>new Map(...)\<close> over the owner's entries: the last fact of a key wins.\<close>

definition facts_by_key :: "task_ledger \<Rightarrow> string \<Rightarrow> nat \<Rightarrow> string \<Rightarrow> task_fact option" where
  "facts_by_key l sid ep k =
     map_option tle_fact (find_last (\<lambda>e. tle_ownerSessionId e = sid \<and> tle_ownerEpoch e = ep \<and>
        taskFactKey (tle_fact e) = k) (tl_entries l))"

text \<open>
  \<^verbatim>\<open>sameFact\<close> compares JSON texts. The facts of the ledger have been parsed, so their keys are in the
  order of the schema; those of a new fact are in the order its builder wrote them, and unless
  that is the order of the schema no fact is the same.
\<close>

definition sameFact :: "bool \<Rightarrow> task_fact \<Rightarrow> task_fact \<Rightarrow> bool" where
  "sameFact ordered existing f \<longleftrightarrow> ordered \<and> existing = f"

fun novel_facts ::
    "bool \<Rightarrow> (string \<Rightarrow> task_fact option) \<Rightarrow> task_fact list \<Rightarrow> task_fact list \<Rightarrow> task_fact list option" where
  "novel_facts ordered byKey novel [] = Some novel"
| "novel_facts ordered byKey novel (f # fs) =
     (case byKey (taskFactKey f) of
        Some existing \<Rightarrow> (if \<not> sameFact ordered existing f then None else novel_facts ordered byKey novel fs)
      | None \<Rightarrow>
        (if list_ex (\<lambda>candidate. taskFactKey candidate = taskFactKey f) novel then None
         else novel_facts ordered byKey (novel @ [f]) fs))"

definition append_facts :: "task_ledger \<Rightarrow> task_fact list \<Rightarrow> string \<Rightarrow> nat \<Rightarrow> task_ledger" where
  "append_facts l novel sid ep =
     (let entries = tl_entries l @ map (\<lambda>(f, index).
            \<lparr>tle_sequence = tl_ledgerRevision l + index + 1, tle_ownerSessionId = sid,
             tle_ownerEpoch = ep, tle_fact = f\<rparr>) (zip novel [0..<length novel])
      in l\<lparr>tl_ledgerRevision := length entries, tl_entries := entries\<rparr>)"

text \<open>\<open>MergeInvalid\<close> is the error the schema throws when the extended ledger does not parse.\<close>

definition merge ::
    "host_env \<Rightarrow> task_ledger \<Rightarrow> bool \<Rightarrow> task_fact list \<Rightarrow> string \<Rightarrow> nat \<Rightarrow> merge_result" where
  "merge E l ordered facts sid ep =
     (case novel_facts ordered (facts_by_key l sid ep) [] facts of
        None \<Rightarrow> MergeConflict
      | Some novel \<Rightarrow>
          (if novel = [] then Merged l False
           else case taskLedgerSchema E (append_facts l novel sid ep) of
             None \<Rightarrow> MergeInvalid
           | Some l' \<Rightarrow> Merged l' True))"

section \<open>Decisions of the ledger operations\<close>

text \<open>
  A transaction hands the scope to a decision, which returns a value or asks to append facts
  (\<^verbatim>\<open>TaskLedgerDecision\<close>). The flag says whether the decision writes the keys of its facts in the
  order of their schema; only \<^verbatim>\<open>authorize\<close>, which spreads the authorization before the generation,
  does not.
\<close>

datatype 'v decision = Return 'v | Append bool "task_fact list" 'v

datatype reserve_status = Reserved | Replayed | Limit | ReserveFactConflict

definition reserve_decision ::
    "string \<Rightarrow> nat \<Rightarrow> task_request list \<Rightarrow> nat \<Rightarrow> task_run_scope \<Rightarrow> reserve_status decision" where
  "reserve_decision t n reqs maxFanOut s =
     (case taskReservation s t of
        Some existing \<Rightarrow> Return (if existing = (t, n, reqs) then Replayed else ReserveFactConflict)
      | None \<Rightarrow>
        (let reserved = sum_list (map (\<lambda>(_, k, _). k) (taskReservations s));
             total = reserved + n
         in if max_safe_integer < total \<or> maxFanOut < total then Return Limit
            else Append True [TaskReserved t n reqs] Reserved))"

datatype binding_status = BindPending | BindBlocked | BindFactConflict | MissingReservation

definition bind_decision ::
    "string \<Rightarrow> identity_binding list \<Rightarrow> bool \<Rightarrow> task_run_scope \<Rightarrow> binding_status decision" where
  "bind_decision t bindings asyncAvailable s =
     (case taskReservation s t of
        None \<Rightarrow> Return MissingReservation
      | Some (_, n, _) \<Rightarrow>
        (if length bindings \<noteq> n \<or> map bind_itemIndex bindings \<noteq> [0..<length bindings] \<or>
            \<not> distinct (map bind_actualAgentId bindings)
         then Return BindFactConflict
         else case List.find (\<lambda>x. fst x = t) (taskIdentityFacts s) of
           Some existing \<Rightarrow>
             Return (if existing = (t, bindings) then (if asyncAvailable then BindPending else BindBlocked)
                     else BindFactConflict)
         | None \<Rightarrow>
             (let generation = tl_ledgerRevision (scope_ledger s) + 1
              in Append True (TaskIdentitiesBound t bindings #
                   (if asyncAvailable then []
                    else [AsyncCapabilityObserved t generation CapBlocked ''async_unavailable_or_inline'']))
                   (if asyncAvailable then BindPending else BindBlocked))))"

datatype authorization_status = Authorized | Unowned | NoGeneration

definition owned_agents :: "runtime_identity list \<Rightarrow> string list" where
  "owned_agents ids = map ri_actualAgentId ids"

definition owned_jobs :: "runtime_identity list \<Rightarrow> string list" where
  "owned_jobs ids = concat (map (\<lambda>i. case ri_actualJobId i of None \<Rightarrow> [] | Some j \<Rightarrow> [j]) ids)"

definition authorize_decision ::
    "string \<Rightarrow> task_control \<Rightarrow> string \<Rightarrow> string list \<Rightarrow> task_run_scope \<Rightarrow> authorization_status decision" where
  "authorize_decision t control inputKey targets s =
     (let generation = taskGeneration s
      in if generation = 0 then Return NoGeneration
         else let identities = runtimeIdentities s generation;
                  owned = (if control = IrcSend \<or> control = IrcTarget
                           then owned_agents identities else owned_jobs identities)
              in if list_ex (\<lambda>target. target \<notin> set owned) targets then Return Unowned
                 else Append False [TaskControlAuthorized t control generation inputKey targets] Authorized)"

datatype hub_wait_status = HubAuthorized | UnownedAgent | UnownedJob | HubNoGeneration

definition authorizeHubWait_decision ::
    "string \<Rightarrow> string \<Rightarrow> string list \<Rightarrow> string list \<Rightarrow> task_run_scope \<Rightarrow> hub_wait_status decision" where
  "authorizeHubWait_decision t inputKey jobTargets agentTargets s =
     (let generation = taskGeneration s
      in if generation = 0 then Return HubNoGeneration
         else let identities = runtimeIdentities s generation
              in if list_ex (\<lambda>target. target \<notin> set (owned_jobs identities)) jobTargets
                 then Return UnownedJob
                 else if list_ex (\<lambda>target. target \<notin> set (owned_agents identities)) agentTargets
                 then Return UnownedAgent
                 else Append True [TaskControlAuthorized t JobSnapshot generation inputKey jobTargets]
                        HubAuthorized)"

section \<open>Decisions of the receipt writers\<close>

datatype receipt_write_status =
    Recorded | Uncorrelated | StaleGeneration | IdentityMappingIncomplete | ReceiptMissing

definition matchingAuthorization ::
    "string \<Rightarrow> string \<Rightarrow> task_control \<Rightarrow> task_run_scope \<Rightarrow> receipt_write_status + (nat \<times> string list)" where
  "matchingAuthorization t inputKey control s =
     (case taskAuthorization s t of
        None \<Rightarrow> Inl Uncorrelated
      | Some (c, g, k, targets) \<Rightarrow>
          (if c \<noteq> control \<or> k \<noteq> inputKey then Inl Uncorrelated
           else if g \<noteq> taskGeneration s then Inl StaleGeneration
           else Inr (g, targets)))"

datatype job_type = BashJob | TaskJob

record job_snapshot =
  js_id :: string
  js_type :: job_type
  js_status :: job_status

definition recordJobSnapshot_decision ::
    "string \<Rightarrow> string \<Rightarrow> job_snapshot list \<Rightarrow> task_run_scope \<Rightarrow> receipt_write_status decision" where
  "recordJobSnapshot_decision t inputKey jobs s =
     (case matchingAuthorization t inputKey JobSnapshot s of
        Inl e \<Rightarrow> Return e
      | Inr (g, _) \<Rightarrow>
        (let expected = remdups (owned_agents (runtimeIdentities s g));
             taskJobs = filter (\<lambda>j. js_type j = TaskJob) jobs;
             returned = remdups (map js_id taskJobs);
             complete = (expected \<noteq> [] \<and> length returned = length taskJobs \<and>
               length returned = length expected \<and> list_all (\<lambda>i. i \<in> set returned) expected)
         in if \<not> complete
            then Append True [AsyncCapabilityObserved t g CapBlocked ''identity_mapping_incomplete'']
                   IdentityMappingIncomplete
            else Append True (map (\<lambda>j. TaskReceiptObserved t (JobReceipt (js_id j) (js_status j))) taskJobs @
                   [AsyncCapabilityObserved t g CapProven ''matching_job_snapshot'']) Recorded))"

datatype cancel_status = CancelCancelled | CancelNotFound | CancelAlreadyCompleted

definition recordCancellation_decision ::
    "string \<Rightarrow> string \<Rightarrow> (string \<times> cancel_status) list \<Rightarrow> task_run_scope \<Rightarrow> receipt_write_status decision" where
  "recordCancellation_decision t inputKey cancelled s =
     (case matchingAuthorization t inputKey JobCancel s of
        Inl e \<Rightarrow> Return e
      | Inr (_, targets) \<Rightarrow>
        (let receipts = map (\<lambda>target. List.find (\<lambda>(i, st). i = target \<and> st = CancelCancelled) cancelled) targets
         in if list_ex (\<lambda>r. r = None) receipts then Return ReceiptMissing
            else Append True (concat (map (\<lambda>r. case r of
                     None \<Rightarrow> [] | Some (i, _) \<Rightarrow> [TaskReceiptObserved t (JobCancelReceipt i)]) receipts))
                   Recorded))"

definition recordIrcReceipts_decision ::
    "string \<Rightarrow> string \<Rightarrow> (string \<times> irc_outcome) list \<Rightarrow> task_run_scope \<Rightarrow> receipt_write_status decision" where
  "recordIrcReceipts_decision t inputKey receipts s =
     (case matchingAuthorization t inputKey IrcSend s of
        Inl e \<Rightarrow> Return e
      | Inr (_, targets) \<Rightarrow>
        (let expected = remdups targets;
             matching = filter (\<lambda>(i, _). i \<in> set expected) receipts
         in if length matching \<noteq> length expected \<or> length receipts \<noteq> length matching
            then Return ReceiptMissing
            else Append True (map (\<lambda>(i, outcome). TaskReceiptObserved t (IrcReceipt i outcome)) matching)
                   Recorded))"

section \<open>Running a decision against the ledger\<close>

datatype 'v ledger_outcome = Committed 'v bool | LedgerConflict | LedgerThrows

definition run_decision ::
    "host_env \<Rightarrow> (task_run_scope \<Rightarrow> 'v decision) \<Rightarrow> task_run_scope \<Rightarrow>
       task_ledger \<times> 'v ledger_outcome" where
  "run_decision E decide s =
     (case decide s of
        Return v \<Rightarrow> (scope_ledger s, Committed v False)
      | Append ordered facts v \<Rightarrow>
        (case merge E (scope_ledger s) ordered facts (own_sessionId (run_owner (scope_run s)))
                 (own_epoch (run_owner (scope_run s))) of
           MergeConflict \<Rightarrow> (scope_ledger s, LedgerConflict)
         | MergeInvalid \<Rightarrow> (scope_ledger s, LedgerThrows)
         | Merged l changed \<Rightarrow> (l, Committed v changed)))"

end
