(* ===== verification/Acceptance_Ledger.thy ===== *)
theory Acceptance_Ledger
  imports Task_Ledger
begin

text \<open>
  The ledgers of accepted and rejected worker results
  (\<^verbatim>\<open>src/contracts/worker-acceptance-ledger.ts\<close>) and the write-ahead log that makes an
  acceptance durable before the snapshot is replaced
  (\<^verbatim>\<open>src/contracts/worker-acceptance-wal.ts\<close>).
\<close>

section \<open>Acceptance events\<close>

datatype worker_role = WorkerLow | WorkerMedium | WorkerHigh

datatype cleanup_status = CleanupReceipts | CleanupNotApplicable

text \<open>The members only version 2 entries have.\<close>

record acceptance_scope =
  as_taskId :: string
  as_role :: worker_role
  as_semanticAttempt :: nat

record acceptance_event =
  acc_sequence :: nat
  acc_idempotencyKey :: string
  acc_runId :: uuid
  acc_attempt :: nat
  acc_runRevision :: nat
  acc_ownerSessionId :: string
  acc_ownerEpoch :: nat
  acc_taskGeneration :: nat
  acc_workerRole :: worker_role
  acc_actualAgentId :: string
  acc_actualJobId :: "string option"
  acc_captureCommit :: string
  acc_receiptPath :: string
  acc_receiptHash :: string
  acc_artifactHash :: string
  acc_artifactPaths :: "string list"
  acc_cleanupReceiptPaths :: "string list"
  acc_cleanupStatus :: "cleanup_status option"
  acc_cleanupScenarioId :: "string option"
  acc_acceptedAfterReview :: bool
  acc_scope :: "acceptance_scope option"

definition commit_schema :: "string \<Rightarrow> string option" where
  "commit_schema s = (if hex_string 40 s then Some s else None)"

definition scopeSchema :: "acceptance_scope \<Rightarrow> acceptance_scope option" where
  "scopeSchema s = do {
     t \<leftarrow> nonempty (as_taskId s);
     n \<leftarrow> counter_positive (as_semanticAttempt s);
     Some \<lparr>as_taskId = t, as_role = as_role s, as_semanticAttempt = n\<rparr> }"

definition cleanup_binding_ok :: "acceptance_event \<Rightarrow> bool" where
  "cleanup_binding_ok a \<longleftrightarrow>
     \<not> ((acc_cleanupStatus a = Some CleanupNotApplicable) \<noteq> (acc_cleanupScenarioId a \<noteq> None) \<or>
        acc_cleanupStatus a = Some CleanupNotApplicable \<and> acc_cleanupReceiptPaths a \<noteq> [] \<or>
        acc_cleanupStatus a = Some CleanupReceipts \<and> acc_cleanupReceiptPaths a = [])"

text \<open>
  The schema of an entry. Version 2 extends version 1 by \<^verbatim>\<open>extend\<close>; whether the cleanup
  refinement survives that is the parameter \<open>extend_keeps_checks\<close>.
\<close>

definition acceptanceEventSchema ::
    "host_env \<Rightarrow> bool \<Rightarrow> acceptance_event \<Rightarrow> acceptance_event option" where
  "acceptanceEventSchema E v2 a = do {
     sq \<leftarrow> counter_positive (acc_sequence a);
     ik \<leftarrow> nonempty (acc_idempotencyKey a);
     ri \<leftarrow> uuid_schema E (acc_runId a);
     at \<leftarrow> counter (acc_attempt a);
     rr \<leftarrow> counter (acc_runRevision a);
     os \<leftarrow> nonempty (acc_ownerSessionId a);
     oe \<leftarrow> counter (acc_ownerEpoch a);
     tg \<leftarrow> counter_positive (acc_taskGeneration a);
     ag \<leftarrow> runtimeId (acc_actualAgentId a);
     jo \<leftarrow> nullable runtimeId (acc_actualJobId a);
     cc \<leftarrow> commit_schema (acc_captureCommit a);
     rp \<leftarrow> nonempty (acc_receiptPath a);
     rh \<leftarrow> hash_schema (acc_receiptHash a);
     ah \<leftarrow> hash_schema (acc_artifactHash a);
     ap \<leftarrow> array_of nonempty (acc_artifactPaths a);
     cp \<leftarrow> array_of nonempty (acc_cleanupReceiptPaths a);
     cs \<leftarrow> nullable nonempty (acc_cleanupScenarioId a);
     sc \<leftarrow> nullable scopeSchema (acc_scope a);
     let b = \<lparr>acc_sequence = sq, acc_idempotencyKey = ik, acc_runId = ri, acc_attempt = at,
       acc_runRevision = rr, acc_ownerSessionId = os, acc_ownerEpoch = oe, acc_taskGeneration = tg,
       acc_workerRole = acc_workerRole a, acc_actualAgentId = ag, acc_actualJobId = jo,
       acc_captureCommit = cc, acc_receiptPath = rp, acc_receiptHash = rh, acc_artifactHash = ah,
       acc_artifactPaths = ap, acc_cleanupReceiptPaths = cp,
       acc_cleanupStatus = acc_cleanupStatus a, acc_cleanupScenarioId = cs,
       acc_acceptedAfterReview = acc_acceptedAfterReview a, acc_scope = sc\<rparr>;
     if ap \<noteq> [] \<and> length cp \<le> 32 \<and> (sc \<noteq> None) = v2 \<and>
        ((v2 \<and> \<not> extend_keeps_checks E) \<or> cleanup_binding_ok b)
     then Some b else None }"

interpretation commit_schema: idem_schema commit_schema
  by unfold_locales (auto simp: commit_schema_def split: if_splits)

interpretation scope_schema: idem_schema scopeSchema
  by unfold_locales (auto simp: scopeSchema_def elim!: bind_SomeE simp: schema_idem)

interpretation acceptance_event_schema: idem_schema "acceptanceEventSchema E v2" for E v2
proof unfold_locales
  fix a b assume "acceptanceEventSchema E v2 a = Some b"
  then show "acceptanceEventSchema E v2 b = Some b"
    unfolding acceptanceEventSchema_def Let_def
    by (elim bind_SomeE guard_SomeE)
      (simp add: schema_idem runtime_id_schema.parse_idem runtime_id_schema.nullable_idem
         commit_schema.parse_idem scope_schema.nullable_idem)
qed

section \<open>The acceptance ledger\<close>

record acceptance_ledger =
  al_isV2 :: bool
  al_runId :: uuid
  al_ledgerRevision :: nat
  al_entries :: "acceptance_event list"

definition acceptance_order_ok :: "acceptance_ledger \<Rightarrow> bool" where
  "acceptance_order_ok l \<longleftrightarrow>
     al_ledgerRevision l = length (al_entries l) \<and>
     dense (map acc_sequence (al_entries l)) \<and>
     list_all (\<lambda>a. acc_runId a = al_runId l) (al_entries l) \<and>
     distinct (map acc_idempotencyKey (al_entries l))"

definition acceptanceLedgerSchema :: "host_env \<Rightarrow> acceptance_ledger \<Rightarrow> acceptance_ledger option" where
  "acceptanceLedgerSchema E l = do {
     ri \<leftarrow> uuid_schema E (al_runId l);
     rv \<leftarrow> counter (al_ledgerRevision l);
     es \<leftarrow> array_of (acceptanceEventSchema E (al_isV2 l)) (al_entries l);
     let l' = \<lparr>al_isV2 = al_isV2 l, al_runId = ri, al_ledgerRevision = rv, al_entries = es\<rparr>;
     if al_isV2 l \<longrightarrow> acceptance_order_ok l' then Some l' else None }"

interpretation acceptance_ledger_schema: idem_schema "acceptanceLedgerSchema E" for E
  by unfold_locales
    (auto simp: acceptanceLedgerSchema_def Let_def elim!: bind_SomeE guard_SomeE
       simp: schema_idem acceptance_event_schema.array_idem)

subsection \<open>The write-ahead log\<close>

datatype ledger_error = WalDeadline | WalTooLarge | MalformedWal | WalDiverged | ZodError | SyntaxError

text \<open>
  The log is a sequence of JSON lines; \<open>sz\<close> gives the UTF-8 length of the text of a line. The
  limits are 4 MiB and 1000 lines.
\<close>

definition max_wal_bytes :: nat where
  "max_wal_bytes = 4 * 1024 * 1024"

definition max_wal_entries :: nat where
  "max_wal_entries = 1000"

definition wal_bytes :: "('l \<Rightarrow> nat) \<Rightarrow> 'l list \<Rightarrow> nat" where
  "wal_bytes sz ls = sum_list (map (\<lambda>l. sz l + 1) ls)"

definition readAcceptanceWal ::
    "(acceptance_event file_bytes \<Rightarrow> nat) \<Rightarrow> acceptance_event file_bytes list \<Rightarrow>
       ledger_error + acceptance_event file_bytes list" where
  "readAcceptanceWal sz ls =
     (if max_wal_bytes < wal_bytes sz ls then Inl WalTooLarge
      else if max_wal_entries < length ls then Inl WalTooLarge
      else if NotJson \<in> set ls then Inl MalformedWal
      else Inr ls)"

definition appendAcceptanceWal ::
    "(acceptance_event file_bytes \<Rightarrow> nat) \<Rightarrow> bool \<Rightarrow> acceptance_event file_bytes list \<Rightarrow>
       acceptance_event \<Rightarrow> ledger_error + acceptance_event file_bytes list" where
  "appendAcceptanceWal sz deadlineValid ls value =
     (if \<not> deadlineValid then Inl WalDeadline
      else case readAcceptanceWal sz ls of
        Inl e \<Rightarrow> Inl e
      | Inr entries \<Rightarrow>
        (let lines = entries @ [stringify value]
         in if max_wal_entries < length lines then Inl WalTooLarge
            else if max_wal_bytes < wal_bytes sz lines then Inl WalTooLarge
            else Inr lines))"

text \<open>The limits as integers, so that the reader evaluates.\<close>

lemma wal_limits_int: "max_wal_bytes < n \<longleftrightarrow> 4194304 < int n" "max_wal_entries < n \<longleftrightarrow> 1000 < int n"
  unfolding max_wal_bytes_def max_wal_entries_def by linarith+

lemmas wal_code [code] =
  readAcceptanceWal_def [unfolded wal_limits_int] appendAcceptanceWal_def [unfolded wal_limits_int]

subsection \<open>Reading: snapshot, then the log\<close>

text \<open>
  Replaying the log over the snapshot's entries. A line whose sequence number is already taken
  must agree with the entry there; any other line is pushed.
\<close>

fun replay_wal ::
    "host_env \<Rightarrow> bool \<Rightarrow> acceptance_event list \<Rightarrow> acceptance_event file_bytes list \<Rightarrow>
       ledger_error + acceptance_event list" where
  "replay_wal E v2 entries [] = Inr entries"
| "replay_wal E v2 entries (raw # raws) =
     (case raw of
        Json v \<Rightarrow>
          (case acceptanceEventSchema E v2 v of
             None \<Rightarrow> Inl ZodError
           | Some a \<Rightarrow>
             (if 0 < acc_sequence a \<and> acc_sequence a \<le> length entries
              then (if entries ! (acc_sequence a - 1) \<noteq> a then Inl WalDiverged
                    else replay_wal E v2 entries raws)
              else replay_wal E v2 (entries @ [a]) raws))
      | _ \<Rightarrow> Inl ZodError)"

record acceptance_files =
  af_snapshot :: "acceptance_ledger file_bytes option"
  af_wal :: "acceptance_event file_bytes list"

definition empty_acceptance :: "bool \<Rightarrow> uuid \<Rightarrow> acceptance_ledger" where
  "empty_acceptance v2 rid = \<lparr>al_isV2 = v2, al_runId = rid, al_ledgerRevision = 0, al_entries = []\<rparr>"

text \<open>\<open>runIsV2\<close> is the schema version of the run snapshot, consulted when there is no ledger yet.\<close>

definition readAcceptance ::
    "host_env \<Rightarrow> (acceptance_event file_bytes \<Rightarrow> nat) \<Rightarrow> uuid \<Rightarrow> bool \<Rightarrow> acceptance_files \<Rightarrow>
       ledger_error + acceptance_ledger" where
  "readAcceptance E sz rid runIsV2 fs =
     (let snapshot = (case af_snapshot fs of
            None \<Rightarrow> (case acceptanceLedgerSchema E (empty_acceptance runIsV2 rid) of
                       None \<Rightarrow> Inl ZodError | Some l \<Rightarrow> Inr l)
          | Some NotJson \<Rightarrow> Inl SyntaxError
          | Some OtherJson \<Rightarrow> Inl ZodError
          | Some (Json v) \<Rightarrow>
              (case acceptanceLedgerSchema E v of None \<Rightarrow> Inl ZodError | Some l \<Rightarrow> Inr l))
      in case snapshot of
        Inl e \<Rightarrow> Inl e
      | Inr snap \<Rightarrow>
        (case readAcceptanceWal sz (af_wal fs) of
           Inl e \<Rightarrow> Inl e
         | Inr raws \<Rightarrow>
           (case replay_wal E (al_isV2 snap) (al_entries snap) raws of
              Inl e \<Rightarrow> Inl e
            | Inr entries \<Rightarrow>
              (case acceptanceLedgerSchema E
                  (snap\<lparr>al_ledgerRevision := length entries, al_entries := entries\<rparr>) of
                 None \<Rightarrow> Inl ZodError | Some l \<Rightarrow> Inr l))))"

subsection \<open>Accepting a result\<close>

datatype accept_status = Accepted | AcceptReplayed | DuplicateReceipt

definition idempotency_key :: "uuid \<Rightarrow> nat \<Rightarrow> string \<Rightarrow> string \<Rightarrow> string" where
  "idempotency_key rid attempt agent ahash =
     rid @ nul @ decimal attempt @ nul @ agent @ nul @ ahash"

text \<open>
  The candidate entry: the caller's fields with the next sequence number, the idempotency key and
  the hash of the receipt file; a version 1 ledger drops the scope.
\<close>

definition acceptance_candidate ::
    "acceptance_ledger \<Rightarrow> acceptance_event \<Rightarrow> string \<Rightarrow> acceptance_event" where
  "acceptance_candidate l ev receiptSha =
     ev\<lparr>acc_sequence := al_ledgerRevision l + 1,
        acc_idempotencyKey := idempotency_key (acc_runId ev) (acc_attempt ev)
          (acc_actualAgentId ev) (acc_artifactHash ev),
        acc_receiptHash := receiptSha,
        acc_scope := (if al_isV2 l then acc_scope ev else None)\<rparr>"

text \<open>
  Which of the two file replacements is published, and whether the deadline still holds when the
  log is appended: the environment decides.
\<close>

record accept_io =
  io_deadlineValid :: bool
  io_walPublished :: bool
  io_snapshotPublished :: bool

datatype accept_outcome = AcceptDone accept_status | AcceptThrows ledger_error | AcceptIoError

definition accept ::
    "host_env \<Rightarrow> (acceptance_event file_bytes \<Rightarrow> nat) \<Rightarrow> bool \<Rightarrow> accept_io \<Rightarrow> acceptance_files \<Rightarrow>
       acceptance_event \<Rightarrow> string \<Rightarrow> acceptance_files \<times> accept_outcome" where
  "accept E sz runIsV2 io fs ev receiptSha =
     (case readAcceptance E sz (acc_runId ev) runIsV2 fs of
        Inl e \<Rightarrow> (fs, AcceptThrows e)
      | Inr l \<Rightarrow>
        (case acceptanceEventSchema E (al_isV2 l) (acceptance_candidate l ev receiptSha) of
           None \<Rightarrow> (fs, AcceptThrows ZodError)
         | Some candidate \<Rightarrow>
           (case List.find (\<lambda>a. acc_idempotencyKey a =
                   acc_idempotencyKey (acceptance_candidate l ev receiptSha)) (al_entries l) of
              Some existing \<Rightarrow>
                (fs, AcceptDone (if existing = candidate\<lparr>acc_sequence := acc_sequence existing\<rparr>
                                 then AcceptReplayed else DuplicateReceipt))
            | None \<Rightarrow>
              (case acceptanceLedgerSchema E
                  (l\<lparr>al_ledgerRevision := al_ledgerRevision l + 1,
                     al_entries := al_entries l @ [candidate]\<rparr>) of
                 None \<Rightarrow> (fs, AcceptThrows ZodError)
               | Some updated \<Rightarrow>
                 (case appendAcceptanceWal sz (io_deadlineValid io) (af_wal fs) candidate of
                    Inl e \<Rightarrow> (fs, AcceptThrows e)
                  | Inr wal' \<Rightarrow>
                    (if \<not> io_walPublished io then (fs, AcceptIoError)
                     else let fs' = fs\<lparr>af_wal := wal'\<rparr>
                          in if \<not> io_snapshotPublished io then (fs', AcceptIoError)
                             else (fs'\<lparr>af_snapshot := Some (stringify updated)\<rparr>, AcceptDone Accepted)))))))"

section \<open>The rejection ledger\<close>

datatype rejection_status = RetryAllowed | NeedsParentDecision

record rejection_scope =
  rs_runId :: uuid
  rs_attempt :: nat
  rs_runRevision :: nat
  rs_ownerEpoch :: nat
  rs_taskGeneration :: nat
  rs_actualAgentId :: string
  rs_v2 :: "acceptance_scope option"

record rejection_entry =
  re_scope :: rejection_scope
  re_count :: nat
  re_status :: rejection_status

record rejection_ledger =
  rl_isV2 :: bool
  rl_runId :: uuid
  rl_entries :: "rejection_entry list"

text \<open>
  The key of an entry: run, task, generation, role and semantic attempt in version 2, run and
  attempt otherwise. The sources join the parts with NUL; only the task id can contain one, and it
  stands between parts that cannot, so the tuple is compared instead.
\<close>

datatype rejection_key = RejKeyV2 uuid string nat worker_role nat | RejKeyV1 uuid nat

definition rejectionKey :: "rejection_scope \<Rightarrow> bool \<Rightarrow> rejection_key" where
  "rejectionKey s v2 = (case rs_v2 s of
     Some a \<Rightarrow> (if v2 then RejKeyV2 (rs_runId s) (as_taskId a) (rs_taskGeneration s) (as_role a)
                          (as_semanticAttempt a)
               else RejKeyV1 (rs_runId s) (rs_attempt s))
   | None \<Rightarrow> RejKeyV1 (rs_runId s) (rs_attempt s))"

definition find_rejection :: "rejection_ledger \<Rightarrow> rejection_scope \<Rightarrow> rejection_entry option" where
  "find_rejection l s = List.find
     (\<lambda>e. rejectionKey (re_scope e) (rl_isV2 l) = rejectionKey s (rl_isV2 l)) (rl_entries l)"

definition rejectionCount :: "rejection_ledger \<Rightarrow> rejection_scope \<Rightarrow> nat" where
  "rejectionCount l s = (case find_rejection l s of None \<Rightarrow> 0 | Some e \<Rightarrow> re_count e)"

definition rejectionScopeSchema :: "host_env \<Rightarrow> rejection_scope \<Rightarrow> rejection_scope option" where
  "rejectionScopeSchema E s = do {
     ri \<leftarrow> uuid_schema E (rs_runId s);
     at \<leftarrow> counter (rs_attempt s);
     rr \<leftarrow> counter (rs_runRevision s);
     oe \<leftarrow> counter (rs_ownerEpoch s);
     tg \<leftarrow> counter_positive (rs_taskGeneration s);
     ag \<leftarrow> runtimeId (rs_actualAgentId s);
     v \<leftarrow> nullable scopeSchema (rs_v2 s);
     Some \<lparr>rs_runId = ri, rs_attempt = at, rs_runRevision = rr, rs_ownerEpoch = oe,
           rs_taskGeneration = tg, rs_actualAgentId = ag, rs_v2 = v\<rparr> }"

definition rejectionEntrySchema :: "host_env \<Rightarrow> bool \<Rightarrow> rejection_entry \<Rightarrow> rejection_entry option" where
  "rejectionEntrySchema E v2 e = do {
     s \<leftarrow> rejectionScopeSchema E (re_scope e);
     if 1 \<le> re_count e \<and> re_count e \<le> 3 \<and> (rs_v2 s \<noteq> None) = v2
     then Some \<lparr>re_scope = s, re_count = re_count e, re_status = re_status e\<rparr> else None }"

definition rejection_identity_ok :: "rejection_ledger \<Rightarrow> bool" where
  "rejection_identity_ok l \<longleftrightarrow>
     list_all (\<lambda>e. rs_runId (re_scope e) = rl_runId l) (rl_entries l) \<and>
     distinct (map (\<lambda>e. rejectionKey (re_scope e) True) (rl_entries l))"

definition rejectionLedgerSchema :: "host_env \<Rightarrow> rejection_ledger \<Rightarrow> rejection_ledger option" where
  "rejectionLedgerSchema E l = do {
     ri \<leftarrow> uuid_schema E (rl_runId l);
     es \<leftarrow> array_of (rejectionEntrySchema E (rl_isV2 l)) (rl_entries l);
     let l' = \<lparr>rl_isV2 = rl_isV2 l, rl_runId = ri, rl_entries = es\<rparr>;
     if rl_isV2 l \<longrightarrow> rejection_identity_ok l' then Some l' else None }"

interpretation rejection_scope_schema: idem_schema "rejectionScopeSchema E" for E
  by unfold_locales
    (auto simp: rejectionScopeSchema_def elim!: bind_SomeE
       simp: schema_idem runtime_id_schema.parse_idem scope_schema.nullable_idem)

interpretation rejection_entry_schema: idem_schema "rejectionEntrySchema E v2" for E v2
  by unfold_locales
    (auto simp: rejectionEntrySchema_def elim!: bind_SomeE guard_SomeE
       simp: rejection_scope_schema.parse_idem)

interpretation rejection_ledger_schema: idem_schema "rejectionLedgerSchema E" for E
  by unfold_locales
    (auto simp: rejectionLedgerSchema_def Let_def elim!: bind_SomeE guard_SomeE
       simp: schema_idem rejection_entry_schema.array_idem)

definition readRejections ::
    "host_env \<Rightarrow> uuid \<Rightarrow> bool \<Rightarrow> rejection_ledger file_bytes option \<Rightarrow> ledger_error + rejection_ledger" where
  "readRejections E rid runIsV2 f =
     (case f of
        None \<Rightarrow> (case rejectionLedgerSchema E \<lparr>rl_isV2 = runIsV2, rl_runId = rid, rl_entries = []\<rparr> of
                   None \<Rightarrow> Inl ZodError | Some l \<Rightarrow> Inr l)
      | Some NotJson \<Rightarrow> Inl SyntaxError
      | Some OtherJson \<Rightarrow> Inl ZodError
      | Some (Json v) \<Rightarrow> (case rejectionLedgerSchema E v of None \<Rightarrow> Inl ZodError | Some l \<Rightarrow> Inr l))"

text \<open>
  Recording a rejection on a ledger that has been read: the updated ledger (to be published) and
  the count. The count saturates at 3, where the parent must decide.
\<close>

definition reject ::
    "host_env \<Rightarrow> rejection_ledger \<Rightarrow> rejection_scope \<Rightarrow> ledger_error + rejection_ledger \<times> nat" where
  "reject E l s =
     (let existing = find_rejection l s
      in if map_option re_count existing = Some 3 then Inr (l, 3)
         else let count = (case existing of None \<Rightarrow> 0 | Some e \<Rightarrow> re_count e) + 1;
                  status = (if count = 3 then NeedsParentDecision else RetryAllowed)
         in case rejectionEntrySchema E (rl_isV2 l)
               \<lparr>re_scope = (if rl_isV2 l then s else s\<lparr>rs_v2 := None\<rparr>), re_count = count, re_status = status\<rparr> of
              None \<Rightarrow> Inl ZodError
            | Some replacement \<Rightarrow>
              (let entries = (case existing of
                     None \<Rightarrow> rl_entries l @ [replacement]
                   | Some _ \<Rightarrow> map (\<lambda>e.
                       if rejectionKey (re_scope e) (rl_isV2 l) = rejectionKey s (rl_isV2 l)
                       then replacement else e) (rl_entries l))
               in case rejectionLedgerSchema E (l\<lparr>rl_entries := entries\<rparr>) of
                    None \<Rightarrow> Inl ZodError
                  | Some updated \<Rightarrow> Inr (updated, count)))"

end
