(* ===== verification/Receipt_Authority.thy ===== *)
theory Receipt_Authority
  imports Acceptance_Ledger
begin

text \<open>
  What the ledgers of a run authorise (\<^verbatim>\<open>src/state/receipt-authority.ts\<close>): the acceptance that
  is current for a task, the acceptances that complete a start-work run, and the task whose
  rejections are exhausted. The state transition consults this view before it records progress.
\<close>

record receipt_authority =
  auth_taskGeneration :: nat
  auth_accepted :: "acceptance_event list"
  auth_rejected :: "rejection_entry list"

definition EMPTY_RECEIPT_AUTHORITY :: receipt_authority where
  "EMPTY_RECEIPT_AUTHORITY = \<lparr>auth_taskGeneration = 0, auth_accepted = [], auth_rejected = []\<rparr>"

text \<open>
  An absent rejection ledger and one of version 1 both authorise nothing.
\<close>

definition rejected_for_authority ::
    "host_env \<Rightarrow> rejection_ledger file_bytes option \<Rightarrow> ledger_error + rejection_entry list" where
  "rejected_for_authority E f = (case f of
     None \<Rightarrow> Inr []
   | Some NotJson \<Rightarrow> Inl SyntaxError
   | Some OtherJson \<Rightarrow> Inl ZodError
   | Some (Json v) \<Rightarrow>
       (case rejectionLedgerSchema E v of
          None \<Rightarrow> Inl ZodError
        | Some l \<Rightarrow> Inr (if rl_isV2 l then rl_entries l else [])))"

definition readReceiptAuthority ::
    "host_env \<Rightarrow> (acceptance_event file_bytes \<Rightarrow> nat) \<Rightarrow> task_run_scope \<Rightarrow> acceptance_files \<Rightarrow>
       rejection_ledger file_bytes option \<Rightarrow> ledger_error + receipt_authority" where
  "readReceiptAuthority E sz scope acceptances rejections =
     (let r = scope_run scope
      in case readAcceptance E sz (run_runId r) (run_is_v2 r) acceptances of
        Inl e \<Rightarrow> Inl e
      | Inr l \<Rightarrow>
        (case rejected_for_authority E rejections of
           Inl e \<Rightarrow> Inl e
         | Inr rejected \<Rightarrow>
             Inr \<lparr>auth_taskGeneration = taskGeneration scope, auth_accepted = al_entries l,
                  auth_rejected = rejected\<rparr>))"

definition acc_taskId :: "acceptance_event \<Rightarrow> string option" where
  "acc_taskId a = map_option as_taskId (acc_scope a)"

definition matchesRun :: "run \<Rightarrow> acceptance_event \<Rightarrow> bool" where
  "matchesRun r a \<longleftrightarrow>
     run_is_v2 r \<and> run_expectedHead r \<noteq> None \<and> acc_taskId a \<noteq> None \<and>
     acc_ownerSessionId a = own_sessionId (run_owner r) \<and>
     acc_ownerEpoch a = own_epoch (run_owner r) \<and>
     run_expectedHead r = Some (acc_captureCommit a)"

definition currentAcceptance ::
    "run \<Rightarrow> receipt_authority \<Rightarrow> string \<Rightarrow> acceptance_event option" where
  "currentAcceptance r auth taskId =
     (if auth_taskGeneration auth = 0 then None
      else find_last (\<lambda>a. matchesRun r a \<and> acc_taskId a = Some taskId \<and>
             acc_taskGeneration a = auth_taskGeneration auth \<and>
             acc_attempt a = run_progressRevision r) (auth_accepted auth))"

definition startCompletionAcceptanceIds ::
    "run \<Rightarrow> start_work_payload \<Rightarrow> receipt_authority \<Rightarrow> string list option" where
  "startCompletionAcceptanceIds r p auth =
     (let taskIds = plan_taskIds (sw_plan p)
      in if taskIds = [] then None
         else if currentAcceptance r auth (last taskIds) = None then None
         else let selected = map (\<lambda>t. find_last (\<lambda>a. matchesRun r a \<and> acc_taskId a = Some t)
                    (auth_accepted auth)) taskIds
              in if None \<in> set selected then None
                 else Some (map (\<lambda>a. acc_idempotencyKey (the a)) selected))"

definition re_taskId :: "rejection_entry \<Rightarrow> string" where
  "re_taskId e = (case rs_v2 (re_scope e) of Some s \<Rightarrow> as_taskId s | None \<Rightarrow> [])"

definition exhaustedTaskId :: "run \<Rightarrow> receipt_authority \<Rightarrow> string option" where
  "exhaustedTaskId r auth =
     (if auth_taskGeneration auth = 0 then None
      else map_option re_taskId (find_last (\<lambda>e.
             rs_ownerEpoch (re_scope e) = own_epoch (run_owner r) \<and>
             rs_taskGeneration (re_scope e) = auth_taskGeneration auth \<and>
             re_count e = 3 \<and> re_status e = NeedsParentDecision \<and>
             currentAcceptance r auth (re_taskId e) = None) (auth_rejected auth)))"

lemma currentAcceptance_SomeD:
  "currentAcceptance r auth t = Some a \<Longrightarrow>
     a \<in> set (auth_accepted auth) \<and> matchesRun r a \<and> acc_taskId a = Some t \<and>
     acc_taskGeneration a = auth_taskGeneration auth \<and> acc_attempt a = run_progressRevision r \<and>
     auth_taskGeneration auth \<noteq> 0"
  by (auto simp: currentAcceptance_def dest!: find_last_SomeD split: if_splits)

lemma startCompletionAcceptanceIds_SomeD:
  assumes "startCompletionAcceptanceIds r p auth = Some ids"
  shows "list_all2 (\<lambda>t i. \<exists>a\<in>set (auth_accepted auth).
           matchesRun r a \<and> acc_taskId a = Some t \<and> acc_idempotencyKey a = i)
         (plan_taskIds (sw_plan p)) ids"
proof -
  define sel where "sel = (\<lambda>t. find_last (\<lambda>a. matchesRun r a \<and> acc_taskId a = Some t) (auth_accepted auth))"
  have ids: "ids = map (\<lambda>t. acc_idempotencyKey (the (sel t))) (plan_taskIds (sw_plan p))"
    and all: "\<And>t. t \<in> set (plan_taskIds (sw_plan p)) \<Longrightarrow> sel t \<noteq> None"
    using assms unfolding startCompletionAcceptanceIds_def Let_def sel_def [symmetric]
    by (auto simp: image_iff eq_commute [of None] comp_def split: if_splits simp del: not_None_eq)
  have "\<exists>a\<in>set (auth_accepted auth). matchesRun r a \<and> acc_taskId a = Some t \<and>
          acc_idempotencyKey a = acc_idempotencyKey (the (sel t))"
    if t: "t \<in> set (plan_taskIds (sw_plan p))" for t
  proof -
    obtain a where "sel t = Some a" using all [OF t] by blast
    then show ?thesis using find_last_SomeD [of _ "auth_accepted auth" a] by (auto simp: sel_def)
  qed
  then show ?thesis
    unfolding ids by (simp add: list_all2_map2 list.rel_map list_all2_same)
qed

end
