(* ===== verification/State_Transition.thy ===== *)
theory State_Transition
  imports State_Decode Workflow_Reducers Receipt_Authority
begin

text \<open>
  The transition of the state: what an event does to a run (\<^verbatim>\<open>src/state/state-transition.ts\<close>,
  \<^verbatim>\<open>src/state/runtime-progress-transition.ts\<close>), how the active index follows from the run, and
  the form in which a version 1 event is persisted under a version 2 index
  (\<^verbatim>\<open>src/state/persisted-event.ts\<close>).
\<close>

section \<open>Runtime progress\<close>

definition sameStrings :: "string list \<Rightarrow> string list \<Rightarrow> bool" where
  "sameStrings left right \<longleftrightarrow>
     length left = length right \<and> list_all (\<lambda>(x, y). x = y) (zip left right)"

lemma sameStrings_iff: "sameStrings left right \<longleftrightarrow> left = right"
  unfolding sameStrings_def
  by (auto simp: list_all_length intro: nth_equalityI)

definition setRunStatus :: "run \<Rightarrow> run_status \<Rightarrow> run" where
  "setRunStatus r status = (case run_payload r of
     StartPayload p \<Rightarrow> r\<lparr>run_revision := run_revision r + 1,
       run_payload := StartPayload (p\<lparr>sw_status := status\<rparr>)\<rparr>
   | UlwPayload p \<Rightarrow> r\<lparr>run_revision := run_revision r + 1,
       run_payload := UlwPayload (p\<lparr>ul_status := status\<rparr>)\<rparr>)"

text \<open>The goals after a criterion has been settled, and the run that carries them.\<close>

definition settle_item ::
    "string \<Rightarrow> string \<Rightarrow> nat \<Rightarrow> string \<Rightarrow> criterion \<Rightarrow> criterion" where
  "settle_item criterionId evidenceRef captureRevision captureCommit item =
     (if crit_id item = criterionId
      then item\<lparr>crit_status := CritPass, crit_evidenceRef := Some evidenceRef,
                crit_captureRevision := Some captureRevision,
                crit_captureCommit := Some captureCommit\<rparr>
      else item)"

definition settle_goal :: "string \<Rightarrow> (criterion \<Rightarrow> criterion) \<Rightarrow> goal \<Rightarrow> goal" where
  "settle_goal goalId settle candidate =
     (if goal_id candidate \<noteq> goalId then candidate
      else let criteria = map settle (goal_criteria candidate)
           in candidate\<lparr>goal_status := (if list_all (\<lambda>c. crit_status c = CritPass) criteria
                                      then GoalComplete else goal_status candidate),
                        goal_criteria := criteria\<rparr>)"

definition settleCriterion ::
    "run \<Rightarrow> state_event \<Rightarrow> receipt_authority option \<Rightarrow> run option" where
  "settleCriterion r e authority = (case (run_payload r, ev_mutation e) of
     (UlwPayload p, CriterionSettled goalId criterionId acceptanceId evidenceRef captureRevision captureCommit) \<Rightarrow>
       (if ev_is_v2 e \<and> ev_legacy e then Some r
        else if \<not> ev_is_v2 e then None
        else case authority of
          None \<Rightarrow> None
        | Some auth \<Rightarrow>
          (case currentAcceptance r auth criterionId of
             None \<Rightarrow> None
           | Some accepted \<Rightarrow>
             (if acceptanceId = None \<or>
                 Some (acc_idempotencyKey accepted) \<noteq> acceptanceId \<or>
                 Some (acc_taskGeneration accepted) \<noteq> ev_taskGeneration e \<or>
                 acc_runRevision accepted \<noteq> captureRevision \<or>
                 acc_captureCommit accepted \<noteq> captureCommit
              then None
              else case goal_of p goalId of
                None \<Rightarrow> None
              | Some g \<Rightarrow>
                (case criterion_of g criterionId of
                   None \<Rightarrow> None
                 | Some c \<Rightarrow>
                   (if crit_status c = CritPass then None
                    else let goals = map (settle_goal goalId
                               (settle_item criterionId evidenceRef captureRevision captureCommit))
                               (ul_goals p);
                             completed = all_criteria_pass goals
                         in Some (r\<lparr>run_revision := run_revision r + 1,
                              run_progressRevision := run_progressRevision r + 1,
                              run_payload := UlwPayload (p\<lparr>
                                ul_activeGoalId := (if completed then None else ul_activeGoalId p),
                                ul_status := (if completed then Completed else ul_status p),
                                ul_goals := goals\<rparr>)\<rparr>))))))
   | _ \<Rightarrow> None)"

definition acceptTaskEvidence ::
    "run \<Rightarrow> state_event \<Rightarrow> receipt_authority option \<Rightarrow> run option" where
  "acceptTaskEvidence r e authority = (case (run_payload r, ev_mutation e) of
     (StartPayload p, TaskEvidenceAccepted taskId acceptanceId) \<Rightarrow>
       (if \<not> ev_is_v2 e \<or> ev_legacy e then None
        else case authority of
          None \<Rightarrow> None
        | Some auth \<Rightarrow>
          (case currentAcceptance r auth taskId of
             None \<Rightarrow> None
           | Some accepted \<Rightarrow>
             (if acc_idempotencyKey accepted \<noteq> acceptanceId \<or>
                 Some (acc_taskGeneration accepted) \<noteq> ev_taskGeneration e
              then None
              else Some (r\<lparr>run_revision := run_revision r + 1,
                           run_progressRevision := run_progressRevision r + 1\<rparr>))))
   | _ \<Rightarrow> None)"

definition terminalRun ::
    "run \<Rightarrow> state_event \<Rightarrow> receipt_authority option \<Rightarrow> run option" where
  "terminalRun r e authority = (case ev_mutation e of
     WorkflowTerminal status acceptanceIds taskId \<Rightarrow>
       (if \<not> ev_is_v2 e \<or> ev_legacy e then None
        else case authority of
          None \<Rightarrow> None
        | Some auth \<Rightarrow>
          (if ev_taskGeneration e \<noteq> Some (auth_taskGeneration auth) then None
           else case status of
             TermFailed \<Rightarrow>
               (if taskId = None \<or> exhaustedTaskId r auth \<noteq> taskId then None
                else Some (setRunStatus r Failed))
           | TermCompleted \<Rightarrow>
             (case run_payload r of
                UlwPayload _ \<Rightarrow> None
              | StartPayload p \<Rightarrow>
                (case (startCompletionAcceptanceIds r p auth, acceptanceIds) of
                   (Some ids, Some claimed) \<Rightarrow>
                     (if \<not> sameStrings ids claimed then None
                      else Some (r\<lparr>run_revision := run_revision r + 1,
                             run_progressRevision := run_progressRevision r + 1,
                             run_payload := StartPayload (p\<lparr>sw_status := Completed\<rparr>)\<rparr>))
                 | _ \<Rightarrow> None))))
   | _ \<Rightarrow> None)"

definition attemptContinuation :: "run \<Rightarrow> state_event \<Rightarrow> run option" where
  "attemptContinuation r e = (case ev_mutation e of
     ContinuationAttempted leafId progressRevision \<Rightarrow>
       (let c = run_continuation r
        in if cont_lastProcessedLeafId c = Some leafId \<or> progressRevision \<noteq> run_progressRevision r
           then None
           else let progressChanged = (cont_progressRevisionSeen c \<noteq> run_progressRevision r)
                in Some (r\<lparr>run_revision := run_revision r + 1,
                     run_continuation := \<lparr>cont_lastProcessedLeafId = Some leafId,
                       cont_progressRevisionSeen = run_progressRevision r,
                       cont_noProgressAttempts =
                         (if progressChanged then 1 else cont_noProgressAttempts c + 1),
                       cont_stuck = False\<rparr>\<rparr>))
   | _ \<Rightarrow> None)"

definition stopContinuation :: "run \<Rightarrow> state_event \<Rightarrow> run option" where
  "stopContinuation r e = (case ev_mutation e of
     ContinuationStuck leafId \<Rightarrow>
       (let c = run_continuation r
        in if cont_lastProcessedLeafId c = Some leafId \<or>
              cont_progressRevisionSeen c \<noteq> run_progressRevision r \<or>
              cont_noProgressAttempts c < 2
           then None
           else let stopped = setRunStatus r Stuck
                in Some (stopped\<lparr>run_continuation := (run_continuation stopped)\<lparr>
                     cont_lastProcessedLeafId := Some leafId, cont_stuck := True\<rparr>\<rparr>))
   | _ \<Rightarrow> None)"

definition reduceRuntimeProgress ::
    "run \<Rightarrow> state_event \<Rightarrow> receipt_authority option \<Rightarrow> run option" where
  "reduceRuntimeProgress r e authority = (case ev_mutation e of
     CriterionSettled _ _ _ _ _ _ \<Rightarrow> settleCriterion r e authority
   | TaskEvidenceAccepted _ _ \<Rightarrow> acceptTaskEvidence r e authority
   | WorkflowTerminal _ _ _ \<Rightarrow> terminalRun r e authority
   | ContinuationAttempted _ _ \<Rightarrow> attemptContinuation r e
   | ContinuationStuck _ \<Rightarrow> stopContinuation r e
   | _ \<Rightarrow> None)"

section \<open>The effect of an event on an existing run\<close>

definition result_run :: "'e + run \<Rightarrow> run option" where
  "result_run x = (case x of Inl _ \<Rightarrow> None | Inr r \<Rightarrow> Some r)"

fun command_of_control :: "control_kind \<Rightarrow> command_kind" where
  "command_of_control CtlPause = CmdPause"
| "command_of_control CtlResume = CmdResume"
| "command_of_control CtlCancel = CmdCancel"

definition steered :: "steered_criterion \<Rightarrow> criterion" where
  "steered c = \<lparr>crit_id = sc_id c, crit_scenario = Some (sc_scenario c),
     crit_observable = Some (sc_observable c), crit_evidenceLogicalId = Some (sc_evidenceLogicalId c),
     crit_status = CritPending, crit_identicalFailureFingerprint = None,
     crit_identicalFailureCount = 0, crit_evidenceRef = None, crit_captureRevision = None,
     crit_captureCommit = None\<rparr>"

definition steerRun ::
    "run \<Rightarrow> ulw_loop_payload \<Rightarrow> steered_criterion list \<Rightarrow> string option \<Rightarrow> run option" where
  "steerRun r p criteria annotation = (case ul_activeGoalId p of
     None \<Rightarrow> None
   | Some active \<Rightarrow>
     (if list_ex (\<lambda>c. sc_id c \<in> set (all_criterion_ids (ul_goals p))) criteria then None
      else let goals = map (\<lambda>g. if goal_id g = active
                 then g\<lparr>goal_criteria := goal_criteria g @ map steered criteria\<rparr> else g) (ul_goals p)
           in Some (r\<lparr>run_revision := run_revision r + 1,
                run_payload := UlwPayload (p\<lparr>
                  ul_annotation := (case annotation of None \<Rightarrow> ul_annotation p | Some a \<Rightarrow> Some a),
                  ul_goals := goals\<rparr>)\<rparr>)))"

definition controlRun ::
    "run \<Rightarrow> state_event \<Rightarrow> receipt_authority option \<Rightarrow> run option" where
  "controlRun r e authority =
     (if ev_is_v2 e \<and> ev_legacy e \<and>
         kind_of_mutation (ev_mutation e) \<in> {KGoalCycleStarted, KCriterionFailureRecorded}
      then Some r
      else case ev_mutation e of
        RunCreated _ \<Rightarrow> None
      | WorkflowControlled control \<Rightarrow>
          result_run (reduceWorkflowControl r
            \<lparr>cmd_kind = command_of_control control, cmd_sessionId = own_sessionId (run_owner r),
             cmd_expectedEpoch = own_epoch (run_owner r)\<rparr>)
      | OwnerAdopted sessionId \<Rightarrow>
          result_run (reduceWorkflowControl r
            \<lparr>cmd_kind = CmdAdopt, cmd_sessionId = sessionId,
             cmd_expectedEpoch = own_epoch (run_owner r)\<rparr>)
      | PlanReconciled taskIds remaining fingerprint \<Rightarrow>
          (case run_payload r of
             UlwPayload _ \<Rightarrow> None
           | StartPayload _ \<Rightarrow>
             result_run (reduceWorkflowControl r
               \<lparr>cmd_kind = CmdReconcilePlan \<lparr>snap_taskIds = taskIds,
                  snap_remainingTaskIds = (case remaining of None \<Rightarrow> taskIds | Some ts \<Rightarrow> ts),
                  snap_fingerprint = fingerprint\<rparr>,
                cmd_sessionId = own_sessionId (run_owner r),
                cmd_expectedEpoch = own_epoch (run_owner r)\<rparr>))
      | WorkflowSteered criteria annotation \<Rightarrow>
          (case run_payload r of
             StartPayload _ \<Rightarrow> None
           | UlwPayload p \<Rightarrow> steerRun r p criteria annotation)
      | GoalCycleStarted goalId \<Rightarrow>
          (case run_payload r of
             StartPayload _ \<Rightarrow> None
           | UlwPayload p \<Rightarrow> result_run (startGoalCycle r p goalId))
      | CriterionFailureRecorded goalId criterionId fingerprint \<Rightarrow>
          (case run_payload r of
             StartPayload _ \<Rightarrow> None
           | UlwPayload p \<Rightarrow> result_run (recordCriterionFailure r p goalId criterionId fingerprint))
      | _ \<Rightarrow> reduceRuntimeProgress r e authority)"

section \<open>The index that follows from a run\<close>

definition statusHint :: "run \<Rightarrow> status_hint option" where
  "statusHint r = (case run_status_of r of
     Active \<Rightarrow> Some HintActive
   | Paused \<Rightarrow> Some HintPaused
   | Stuck \<Rightarrow> Some HintStuck
   | Blocked \<Rightarrow> Some HintBlocked
   | NeedsUserDecision \<Rightarrow> Some HintBlocked
   | ReviewBlocked \<Rightarrow> Some HintBlocked
   | Completed \<Rightarrow> None
   | Cancelled \<Rightarrow> None
   | Failed \<Rightarrow> None
   | Abandoned \<Rightarrow> None)"

definition entry_of_run :: "run \<Rightarrow> nat \<Rightarrow> status_hint \<Rightarrow> active_index_entry" where
  "entry_of_run r sequence hint = \<lparr>ent_workflow = run_workflow r,
     ent_sessionId = own_sessionId (run_owner r), ent_runId = run_runId r,
     ent_ownerEpoch = own_epoch (run_owner r), ent_runRevision = run_revision r,
     ent_transactionRevision = sequence, ent_statusHint = hint\<rparr>"

definition deriveIndex :: "active_index \<Rightarrow> run \<Rightarrow> nat \<Rightarrow> active_index" where
  "deriveIndex i r sequence =
     (let retained = filter (\<lambda>e. ent_runId e \<noteq> run_runId r) (idx_entries i);
          entries = (case statusHint r of
            None \<Rightarrow> retained
          | Some hint \<Rightarrow> retained @ [entry_of_run r sequence hint])
      in \<lparr>idx_version = idx_version i, idx_revision = sequence, idx_entries = entries\<rparr>)"

section \<open>Preparing a transition\<close>

datatype transition_error =
    IndexRevisionConflict | RunRevisionConflict | OwnerConflict | EpochConflict
  | StaleRevision | TransOwnerMismatch | OwnerEpochMismatch | StaleHead | TaskScopeMismatch
  | InvalidMutation

record prepared_transition =
  prep_run :: run
  prep_index :: active_index

fun task_scoped_kind :: "mutation_kind \<Rightarrow> bool" where
  "task_scoped_kind KPlanReconciled = True"
| "task_scoped_kind KWorkflowSteered = True"
| "task_scoped_kind KCriterionSettled = True"
| "task_scoped_kind KTaskEvidenceAccepted = True"
| "task_scoped_kind KWorkflowTerminal = True"
| "task_scoped_kind KGoalCycleStarted = True"
| "task_scoped_kind KCriterionFailureRecorded = True"
| "task_scoped_kind _ = False"

text \<open>The guards of an event against the run it updates.\<close>

definition expectation_error :: "run \<Rightarrow> state_event \<Rightarrow> transition_error option" where
  "expectation_error current e =
     (if Some (run_revision current) \<noteq> exp_runRevision (ev_expected e)
      then Some (if ev_is_v2 e then StaleRevision else RunRevisionConflict)
      else if Some (own_sessionId (run_owner current)) \<noteq> exp_ownerSessionId (ev_expected e)
      then Some (if ev_is_v2 e then TransOwnerMismatch else OwnerConflict)
      else if Some (own_epoch (run_owner current)) \<noteq> exp_ownerEpoch (ev_expected e)
      then Some (if ev_is_v2 e then OwnerEpochMismatch else EpochConflict)
      else if ev_is_v2 e \<and> ev_expectedHead e \<noteq> None \<and>
              (\<not> run_is_v2 current \<or> run_expectedHead current \<noteq> ev_expectedHead e)
      then Some StaleHead
      else if ev_is_v2 e \<and> task_scoped_kind (ev_kind e) \<noteq> (ev_taskGeneration e \<noteq> None)
      then Some TaskScopeMismatch
      else None)"

text \<open>The run an event leads to, before it is stamped with the transaction revision.\<close>

definition next_run ::
    "run option \<Rightarrow> state_event \<Rightarrow> receipt_authority option \<Rightarrow> transition_error + run option" where
  "next_run current e authority = (case ev_mutation e of
     RunCreated created \<Rightarrow>
       (if current \<noteq> None \<or> exp_runRevision (ev_expected e) \<noteq> None then Inl RunRevisionConflict
        else if exp_ownerSessionId (ev_expected e) \<noteq> None \<or> exp_ownerEpoch (ev_expected e) \<noteq> None
        then Inl OwnerConflict
        else Inr (Some created))
   | _ \<Rightarrow>
     (case current of
        None \<Rightarrow> Inl RunRevisionConflict
      | Some r \<Rightarrow>
        (case expectation_error r e of
           Some err \<Rightarrow> Inl err
         | None \<Rightarrow> Inr (controlRun r e authority))))"

definition prepareTransition ::
    "active_index \<Rightarrow> run option \<Rightarrow> state_event \<Rightarrow> receipt_authority option \<Rightarrow>
       transition_error + prepared_transition" where
  "prepareTransition i current e authority =
     (if exp_indexRevision (ev_expected e) \<noteq> idx_revision i
      then Inl (if ev_is_v2 e then StaleRevision else IndexRevisionConflict)
      else if ev_sequence e \<noteq> idx_revision i + 1 then Inl InvalidMutation
      else case next_run current e authority of
        Inl err \<Rightarrow> Inl err
      | Inr None \<Rightarrow> Inl InvalidMutation
      | Inr (Some next) \<Rightarrow>
        (if run_runId next \<noteq> ev_runId e \<or> run_workflow next \<noteq> ev_workflow e then Inl InvalidMutation
         else let published = next\<lparr>run_transactionRevision := ev_sequence e\<rparr>
              in Inr \<lparr>prep_run = published, prep_index = deriveIndex i published (ev_sequence e)\<rparr>))"

section \<open>Version 1 events under a version 2 index\<close>

definition upgrade_run :: "run \<Rightarrow> run" where
  "upgrade_run r = (case run_version r of RunV1 \<Rightarrow> r\<lparr>run_version := RunV2 None None\<rparr> | RunV2 _ _ \<Rightarrow> r)"

fun upgraded_task_scope :: "mutation_kind \<Rightarrow> bool" where
  "upgraded_task_scope KPlanReconciled = True"
| "upgraded_task_scope KCriterionSettled = True"
| "upgraded_task_scope KTaskEvidenceAccepted = True"
| "upgraded_task_scope KWorkflowTerminal = True"
| "upgraded_task_scope KGoalCycleStarted = True"
| "upgraded_task_scope KCriterionFailureRecorded = True"
| "upgraded_task_scope _ = False"

definition persistedEventForIndex :: "active_index \<Rightarrow> state_event \<Rightarrow> state_event" where
  "persistedEventForIndex i e =
     (if idx_version i = IndexV1 \<or> ev_is_v2 e then e
      else let mutation = (case ev_mutation e of
                 RunCreated r \<Rightarrow> RunCreated (upgrade_run r) | m \<Rightarrow> m);
               taskGeneration = (if upgraded_task_scope (ev_kind e) then Some 1 else None)
           in e\<lparr>ev_version := EventV2 None taskGeneration False, ev_mutation := mutation\<rparr>)"

section \<open>Facts about the effect of an event\<close>

lemmas progress_defs = reduceRuntimeProgress_def settleCriterion_def acceptTaskEvidence_def
  terminalRun_def attemptContinuation_def stopContinuation_def setRunStatus_def Let_def

lemma result_run_Some_iff [simp]: "result_run x = Some r \<longleftrightarrow> x = Inr r"
  by (cases x) (auto simp: result_run_def)

lemma setRunStatus_simps [simp]:
  "run_runId (setRunStatus r s) = run_runId r" "run_owner (setRunStatus r s) = run_owner r"
  "run_version (setRunStatus r s) = run_version r" "run_createdAt (setRunStatus r s) = run_createdAt r"
  "run_updatedAt (setRunStatus r s) = run_updatedAt r"
  "run_transactionRevision (setRunStatus r s) = run_transactionRevision r"
  "run_progressRevision (setRunStatus r s) = run_progressRevision r"
  "run_continuation (setRunStatus r s) = run_continuation r"
  "run_revision (setRunStatus r s) = Suc (run_revision r)"
  "run_workflow (setRunStatus r s) = run_workflow r"
  "run_status_of (setRunStatus r s) = s"
  by (simp_all add: setRunStatus_def run_view_defs split: payload.splits)

lemma settleCriterion_cases:
  assumes "settleCriterion r e authority = Some r'"
  obtains (legacy) "ev_is_v2 e" "ev_legacy e" "r' = r"
  | (settled) p goalId criterionId acceptanceId evidenceRef captureRevision captureCommit auth accepted g c goals
    where "run_payload r = UlwPayload p"
      and "ev_mutation e = CriterionSettled goalId criterionId (Some acceptanceId) evidenceRef captureRevision captureCommit"
      and "ev_is_v2 e" "\<not> ev_legacy e"
      and "authority = Some auth" "currentAcceptance r auth criterionId = Some accepted"
      and "acc_idempotencyKey accepted = acceptanceId" "acc_runRevision accepted = captureRevision"
      and "acc_captureCommit accepted = captureCommit"
      and "ev_taskGeneration e = Some (acc_taskGeneration accepted)"
      and "goal_of p goalId = Some g" "criterion_of g criterionId = Some c" "crit_status c \<noteq> CritPass"
      and "goals = map (settle_goal goalId (settle_item criterionId evidenceRef captureRevision captureCommit)) (ul_goals p)"
      and "r' = r\<lparr>run_revision := run_revision r + 1, run_progressRevision := run_progressRevision r + 1,
             run_payload := UlwPayload (p\<lparr>
               ul_activeGoalId := (if all_criteria_pass goals then None else ul_activeGoalId p),
               ul_status := (if all_criteria_pass goals then Completed else ul_status p),
               ul_goals := goals\<rparr>)\<rparr>"
proof -
  from assms obtain p goalId criterionId acceptanceId evidenceRef captureRevision captureCommit
    where p: "run_payload r = UlwPayload p"
      and m: "ev_mutation e = CriterionSettled goalId criterionId acceptanceId evidenceRef captureRevision captureCommit"
    by (auto simp: settleCriterion_def split: payload.splits mutation.splits)
  note step = assms [unfolded settleCriterion_def Let_def p m prod.case payload.case mutation.case]
  show thesis
  proof (cases "ev_is_v2 e \<and> ev_legacy e")
    case True
    with step legacy show thesis by simp
  next
    case False
    from step False obtain auth accepted g c where more:
      "ev_is_v2 e" "authority = Some auth" "currentAcceptance r auth criterionId = Some accepted"
      "goal_of p goalId = Some g" "criterion_of g criterionId = Some c" "crit_status c \<noteq> CritPass"
      "acceptanceId = Some (acc_idempotencyKey accepted)"
      "ev_taskGeneration e = Some (acc_taskGeneration accepted)"
      "acc_runRevision accepted = captureRevision" "acc_captureCommit accepted = captureCommit"
      by (auto split: if_splits option.splits)
    from step False show thesis
      by (intro settled [OF p _ _ _ more(2) more(3) _ _ _ _ more(4-6) refl])
        (simp_all add: m more eq_commute [of r'] split del: if_split)
  qed
qed

lemma acceptTaskEvidence_cases:
  assumes "acceptTaskEvidence r e authority = Some r'"
  obtains p taskId auth accepted where "run_payload r = StartPayload p"
    "ev_mutation e = TaskEvidenceAccepted taskId (acc_idempotencyKey accepted)"
    "ev_is_v2 e" "\<not> ev_legacy e" "authority = Some auth"
    "currentAcceptance r auth taskId = Some accepted"
    "r' = r\<lparr>run_revision := run_revision r + 1, run_progressRevision := run_progressRevision r + 1\<rparr>"
  using assms unfolding acceptTaskEvidence_def
  by (simp split: payload.splits mutation.splits if_splits option.splits)

lemma terminalRun_cases:
  assumes "terminalRun r e authority = Some r'"
  obtains (failed) auth taskId ids where "ev_mutation e = WorkflowTerminal TermFailed ids (Some taskId)"
      "authority = Some auth" "exhaustedTaskId r auth = Some taskId" "ev_is_v2 e" "\<not> ev_legacy e"
      "r' = setRunStatus r Failed"
  | (completed) auth p ids t where "ev_mutation e = WorkflowTerminal TermCompleted (Some ids) t"
      "authority = Some auth" "run_payload r = StartPayload p" "ev_is_v2 e" "\<not> ev_legacy e"
      "startCompletionAcceptanceIds r p auth = Some ids"
      "r' = r\<lparr>run_revision := run_revision r + 1, run_progressRevision := run_progressRevision r + 1,
             run_payload := StartPayload (p\<lparr>sw_status := Completed\<rparr>)\<rparr>"
  using assms unfolding terminalRun_def
  by (auto simp: sameStrings_iff split: payload.splits mutation.splits if_splits option.splits terminal_status.splits)

lemma attemptContinuation_cases:
  assumes "attemptContinuation r e = Some r'"
  obtains leafId where "ev_mutation e = ContinuationAttempted leafId (run_progressRevision r)"
    "cont_lastProcessedLeafId (run_continuation r) \<noteq> Some leafId"
    "r' = r\<lparr>run_revision := run_revision r + 1,
       run_continuation := \<lparr>cont_lastProcessedLeafId = Some leafId,
         cont_progressRevisionSeen = run_progressRevision r,
         cont_noProgressAttempts =
           (if cont_progressRevisionSeen (run_continuation r) \<noteq> run_progressRevision r then 1
            else cont_noProgressAttempts (run_continuation r) + 1),
         cont_stuck = False\<rparr>\<rparr>"
  using assms unfolding attemptContinuation_def
  by (auto simp: Let_def split: mutation.splits if_splits)

lemma stopContinuation_cases:
  assumes "stopContinuation r e = Some r'"
  obtains leafId where "ev_mutation e = ContinuationStuck leafId"
    "cont_lastProcessedLeafId (run_continuation r) \<noteq> Some leafId"
    "cont_progressRevisionSeen (run_continuation r) = run_progressRevision r"
    "2 \<le> cont_noProgressAttempts (run_continuation r)"
    "r' = (setRunStatus r Stuck)\<lparr>run_continuation := (run_continuation r)\<lparr>
       cont_lastProcessedLeafId := Some leafId, cont_stuck := True\<rparr>\<rparr>"
  using assms unfolding stopContinuation_def
  by (auto simp: Let_def split: mutation.splits if_splits)

lemma steerRun_cases:
  assumes "steerRun r p criteria annotation = Some r'"
  obtains active goals where "ul_activeGoalId p = Some active"
    "\<forall>c\<in>set criteria. sc_id c \<notin> set (all_criterion_ids (ul_goals p))"
    "goals = map (\<lambda>g. if goal_id g = active
       then g\<lparr>goal_criteria := goal_criteria g @ map steered criteria\<rparr> else g) (ul_goals p)"
    "r' = r\<lparr>run_revision := run_revision r + 1, run_payload := UlwPayload (p\<lparr>
       ul_annotation := (case annotation of None \<Rightarrow> ul_annotation p | Some a \<Rightarrow> Some a),
       ul_goals := goals\<rparr>)\<rparr>"
  using assms unfolding steerRun_def Let_def
  by (auto simp: list_ex_iff split: option.splits if_splits)

text \<open>Every way in which an event can change an existing run.\<close>

lemma controlRun_cases:
  assumes "controlRun r e authority = Some r'"
  obtains (legacy) "ev_is_v2 e" "ev_legacy e" "r' = r"
  | (control) c where "reduceWorkflowControl r c = Inr r'"
      "cmd_kind c = CmdAdopt \<longleftrightarrow> (\<exists>s. ev_mutation e = OwnerAdopted s)"
      "\<And>s. ev_mutation e = OwnerAdopted s \<Longrightarrow> cmd_sessionId c = s"
      "\<And>snap. cmd_kind c = CmdReconcilePlan snap \<Longrightarrow>
         \<exists>rs. ev_mutation e = PlanReconciled (snap_taskIds snap) rs (snap_fingerprint snap)"
  | (steer) p cs an where "run_payload r = UlwPayload p" "ev_mutation e = WorkflowSteered cs an"
      "steerRun r p cs an = Some r'"
  | (cycle) p i where "run_payload r = UlwPayload p" "ev_mutation e = GoalCycleStarted i"
      "startGoalCycle r p i = Inr r'"
  | (failure) p i j f where "run_payload r = UlwPayload p" "ev_mutation e = CriterionFailureRecorded i j f"
      "recordCriterionFailure r p i j f = Inr r'"
  | (settle) "settleCriterion r e authority = Some r'"
  | (evidence) "acceptTaskEvidence r e authority = Some r'"
  | (terminal) "terminalRun r e authority = Some r'"
  | (attempt) "attemptContinuation r e = Some r'"
  | (stuck) "stopContinuation r e = Some r'"
proof (cases "ev_is_v2 e \<and> ev_legacy e \<and>
    kind_of_mutation (ev_mutation e) \<in> {KGoalCycleStarted, KCriterionFailureRecorded}")
  case True
  with assms legacy show thesis by (simp add: controlRun_def)
next
  case False
  have command: "command_of_control k \<noteq> CmdAdopt \<and> (\<forall>s. command_of_control k \<noteq> CmdReconcilePlan s)" for k
    by (cases k) auto
  note r' = assms [unfolded controlRun_def if_not_P [OF False]]
  show thesis
  proof (cases "ev_mutation e")
    case (WorkflowControlled k)
    with r' command [of k] show thesis by (intro control) (auto simp: result_run_Some_iff)
  next
    case (OwnerAdopted s)
    with r' show thesis by (intro control) auto
  next
    case (PlanReconciled ts rs fp)
    with r' show thesis by (intro control) (auto split: payload.splits)
  next
    case (WorkflowSteered cs an)
    with r' steer show thesis by (auto split: payload.splits)
  next
    case (GoalCycleStarted i)
    with r' cycle show thesis by (auto split: payload.splits)
  next
    case (CriterionFailureRecorded i j f)
    with r' failure show thesis by (auto split: payload.splits)
  qed (use r' settle evidence terminal attempt stuck in \<open>auto simp: reduceRuntimeProgress_def\<close>)
qed

end
