(* ===== verification/Transition_Laws.thy ===== *)
theory Transition_Laws
  imports State_Transition
begin

text \<open>
  What a transition guarantees: which expectations it enforces, what it keeps of a run, that the
  runs it publishes still satisfy their schema, that the index it derives agrees with the run, and
  what evidence stands behind every recorded success.
\<close>

section \<open>What every step keeps\<close>

text \<open>
  A step keeps the identity, the version and the time stamps of a run, and its progress counter
  moves by at most one.
\<close>

definition same_identity :: "run \<Rightarrow> run \<Rightarrow> bool" where
  "same_identity r r' \<longleftrightarrow>
     run_runId r' = run_runId r \<and> run_workflow r' = run_workflow r \<and> run_version r' = run_version r \<and>
     run_transactionRevision r' = run_transactionRevision r \<and>
     run_createdAt r' = run_createdAt r \<and> run_updatedAt r' = run_updatedAt r \<and>
     run_progressRevision r' \<in> {run_progressRevision r, run_progressRevision r + 1}"

lemma reduceWorkflowControl_identity:
  "reduceWorkflowControl r c = Inr r' \<Longrightarrow> same_identity r r'"
  by (auto simp: control_defs same_identity_def run_view_defs
      split: if_splits option.splits payload.splits command_kind.splits)

lemma ulw_steps_frame:
  assumes "run_payload r = UlwPayload p"
    and "startGoalCycle r p i = Inr r' \<or> recordCriterionFailure r p i j f = Inr r' \<or> steerRun r p cs an = Some r'"
  shows "same_identity r r'" and "run_revision r' = run_revision r + 1" and "run_owner r' = run_owner r"
  using assms
  by (auto simp: startGoalCycle_def recordCriterionFailure_def steerRun_def set_goals_def same_identity_def
      run_workflow_def Let_def split: option.splits if_splits)

lemma progress_steps_frame:
  assumes "settleCriterion r e authority = Some r' \<or> acceptTaskEvidence r e authority = Some r' \<or>
    terminalRun r e authority = Some r' \<or> attemptContinuation r e = Some r' \<or> stopContinuation r e = Some r'"
  shows "same_identity r r'" and "run_owner r' = run_owner r"
    and "r' = r \<and> ev_is_v2 e \<and> ev_legacy e \<or> run_revision r' = run_revision r + 1"
proof -
  have "same_identity r r' \<and> run_owner r' = run_owner r \<and>
    (r' = r \<and> ev_is_v2 e \<and> ev_legacy e \<or> run_revision r' = run_revision r + 1)"
    using assms
  proof (elim disjE)
    assume "settleCriterion r e authority = Some r'"
    then show ?thesis by (cases rule: settleCriterion_cases) (auto simp: same_identity_def run_workflow_def)
  next
    assume "acceptTaskEvidence r e authority = Some r'"
    then show ?thesis by (cases rule: acceptTaskEvidence_cases) (auto simp: same_identity_def run_workflow_def)
  next
    assume "terminalRun r e authority = Some r'"
    then show ?thesis by (cases rule: terminalRun_cases) (auto simp: same_identity_def, simp add: run_workflow_def)
  next
    assume "attemptContinuation r e = Some r'"
    then show ?thesis by (cases rule: attemptContinuation_cases) (auto simp: same_identity_def run_workflow_def)
  next
    assume "stopContinuation r e = Some r'"
    then show ?thesis
      by (cases rule: stopContinuation_cases)
        (auto simp: same_identity_def run_workflow_def setRunStatus_def split: payload.splits)
  qed
  then show "same_identity r r'" and "run_owner r' = run_owner r"
    and "r' = r \<and> ev_is_v2 e \<and> ev_legacy e \<or> run_revision r' = run_revision r + 1" by auto
qed

lemma controlRun_frame:
  assumes "controlRun r e authority = Some r'"
  shows "same_identity r r'"
    and "r' = r \<and> ev_is_v2 e \<and> ev_legacy e \<or> run_revision r' = run_revision r + 1"
    and "run_owner r' = (case ev_mutation e of
      OwnerAdopted s \<Rightarrow> \<lparr>own_sessionId = s, own_epoch = own_epoch (run_owner r) + 1\<rparr>
    | _ \<Rightarrow> run_owner r)"
proof -
  have "same_identity r r' \<and>
    (r' = r \<and> ev_is_v2 e \<and> ev_legacy e \<or> run_revision r' = run_revision r + 1) \<and>
    ((\<forall>s. ev_mutation e \<noteq> OwnerAdopted s) \<longrightarrow> run_owner r' = run_owner r)"
    using assms
  proof (cases rule: controlRun_cases)
    case legacy
    then show ?thesis by (simp add: same_identity_def)
  next
    case (control c)
    then show ?thesis
      using reduceWorkflowControl_identity reduceWorkflowControl_frame(1) reduceWorkflowControl_owner by fastforce
  next
    case (steer p cs an)
    then show ?thesis using ulw_steps_frame [of r p _ r' _ _ cs an] by auto
  next
    case (cycle p i)
    then show ?thesis using ulw_steps_frame [of r p i r'] by auto
  next
    case (failure p i j f)
    then show ?thesis using ulw_steps_frame [of r p i r' j f] by auto
  qed (use progress_steps_frame in blast)+
  moreover have "run_owner r' = \<lparr>own_sessionId = s, own_epoch = own_epoch (run_owner r) + 1\<rparr>"
    if s: "ev_mutation e = OwnerAdopted s" for s
  proof -
    from assms s have "reduceWorkflowControl r \<lparr>cmd_kind = CmdAdopt, cmd_sessionId = s,
        cmd_expectedEpoch = own_epoch (run_owner r)\<rparr> = Inr r'"
      by (simp add: controlRun_def)
    from reduceWorkflowControl_owner [OF this] show ?thesis by simp
  qed
  ultimately show "same_identity r r'"
    and "r' = r \<and> ev_is_v2 e \<and> ev_legacy e \<or> run_revision r' = run_revision r + 1"
    and "run_owner r' = (case ev_mutation e of
      OwnerAdopted s \<Rightarrow> \<lparr>own_sessionId = s, own_epoch = own_epoch (run_owner r) + 1\<rparr>
    | _ \<Rightarrow> run_owner r)"
    by (auto split: mutation.splits)
qed

section \<open>The runs a transition publishes satisfy their schema\<close>

lemma planSchema_normal_iff:
  "planSchema E p = Some p \<longleftrightarrow>
     is_uuid E (plan_planId p) \<and> nonempty (plan_canonicalPath p) = Some (plan_canonicalPath p) \<and>
     nonempty (plan_displayPath p) = Some (plan_displayPath p) \<and>
     nonempty (plan_allowedRoot p) = Some (plan_allowedRoot p) \<and>
     nonempty (plan_allowedRootDisplay p) = Some (plan_allowedRootDisplay p) \<and>
     hash_schema (plan_taskFingerprint p) = Some (plan_taskFingerprint p) \<and>
     uniqueStrings (plan_taskIds p) = Some (plan_taskIds p)"
  by (cases p) (auto simp: planSchema_def uuid_schema_def elim!: bind_SomeE split: if_splits)

lemma payloadSchema_Start_iff [simp]:
  "payloadSchema E (StartPayload p) = Some (StartPayload p) \<longleftrightarrow> planSchema E (sw_plan p) = Some (sw_plan p)"
  by (cases p) (auto simp: startPayloadSchema_def elim!: bind_SomeE)

lemma payloadSchema_Ulw_iff [simp]:
  "payloadSchema E (UlwPayload p) = Some (UlwPayload p) \<longleftrightarrow> ulwPayloadSchema p = Some p"
  by auto

declare payloadSchema.simps [simp del]

lemma ulwPayloadSchema_status:
  "ulwPayloadSchema p = Some p \<Longrightarrow> s \<noteq> Abandoned \<Longrightarrow> ulwPayloadSchema (p\<lparr>ul_status := s\<rparr>) = Some (p\<lparr>ul_status := s\<rparr>)"
  by (simp add: ulwPayloadSchema_normal_iff refineUlwLoop_def)

lemma goal_criteria_in_ids: "g \<in> set gs \<Longrightarrow> c \<in> set (goal_criteria g) \<Longrightarrow> crit_id c \<in> set (all_criterion_ids gs)"
  by (auto simp: all_criterion_ids_def)

lemma all_criterion_ids_simps [simp]:
  "all_criterion_ids [] = []"
  "all_criterion_ids (g # gs) = map crit_id (goal_criteria g) @ all_criterion_ids gs"
  by (simp_all add: all_criterion_ids_def)

lemma distinct_ids_append_criteria:
  assumes "distinct (map goal_id gs)" "distinct (all_criterion_ids gs)"
    and "distinct (map crit_id new)" "set (map crit_id new) \<inter> set (all_criterion_ids gs) = {}"
  shows "distinct (all_criterion_ids (map (\<lambda>g. if goal_id g = a
           then g\<lparr>goal_criteria := goal_criteria g @ new\<rparr> else g) gs))"
  using assms
proof (induction gs)
  case (Cons g gs)
  have rest: "map (\<lambda>h. if goal_id h = a then h\<lparr>goal_criteria := goal_criteria h @ new\<rparr> else h) gs = gs"
    if "goal_id g = a"
    using Cons.prems(1) that by (intro map_idI) (metis distinct.simps(2) image_eqI image_set list.simps(9))
  have sub: "set (all_criterion_ids (map (\<lambda>h. if goal_id h = a
      then h\<lparr>goal_criteria := goal_criteria h @ new\<rparr> else h) gs)) \<subseteq> set (all_criterion_ids gs) \<union> set (map crit_id new)"
    by (fastforce simp: all_criterion_ids_def split: if_splits)
  show ?case
  proof (cases "goal_id g = a")
    case True
    have "distinct (map crit_id (goal_criteria g) @ map crit_id new @ all_criterion_ids gs)"
      using Cons.prems(2-4) by auto
    with True rest show ?thesis by simp
  next
    case False
    have "distinct (all_criterion_ids (map (\<lambda>h. if goal_id h = a
        then h\<lparr>goal_criteria := goal_criteria h @ new\<rparr> else h) gs))"
      using Cons.prems by (intro Cons.IH) auto
    moreover have "set (map crit_id (goal_criteria g)) \<inter> (set (all_criterion_ids gs) \<union> set (map crit_id new)) = {}"
      using Cons.prems(2,4) by auto
    ultimately show ?thesis using False Cons.prems(2) sub by (simp only: list.map if_False all_criterion_ids_simps distinct_append) blast
  qed
qed simp

text \<open>
  Steering keeps the payload's schema when the new criteria have distinct ids. The transition only
  checks the new ids against the ids in use.
\<close>

lemma steered_normal:
  "steeredCriterionSchema c = Some c \<Longrightarrow> criterionSchema (steered c) = Some (steered c)"
  by (cases c) (auto simp: steeredCriterionSchema_def criterionSchema_normal_iff steered_def elim!: bind_SomeE)

lemma steerRun_schema:
  assumes schema: "ulwPayloadSchema p = Some p" and step: "steerRun r p cs an = Some r'"
    and new: "list_all (\<lambda>c. steeredCriterionSchema c = Some c) cs" "nullable (string_max 512) an = Some an"
    and distinct: "distinct (map sc_id cs)"
  obtains p' where "r' = r\<lparr>run_revision := run_revision r + 1, run_payload := UlwPayload p'\<rparr>"
    "ulwPayloadSchema p' = Some p'"
  using step
proof (cases rule: steerRun_cases)
  case (1 active goals)
  define f :: "goal \<Rightarrow> goal" where "f = (\<lambda>g. if goal_id g = active
    then g\<lparr>goal_criteria := goal_criteria g @ map steered cs\<rparr> else g)"
  have goals: "goals = map f (ul_goals p)" using 1(3) by (simp add: f_def)
  have ids: "map crit_id (map steered cs) = map sc_id cs" by (simp add: steered_def)
  have keep: "goal_id (f g) = goal_id g \<and> goal_status (f g) = goal_status g" for g
    by (simp add: f_def)
  have normal: "goalSchema (f g) = Some (f g)" if g: "g \<in> set (ul_goals p)" for g
  proof -
    have "goalSchema g = Some g"
      using schema g by (simp add: ulwPayloadSchema_normal_iff list_all_iff)
    moreover have "set (map crit_id (goal_criteria g)) \<inter> set (map sc_id cs) = {}"
      using goal_criteria_in_ids [OF g] 1(2) by fastforce
    ultimately show ?thesis
      using new(1) distinct
      by (auto simp: f_def goalSchema_normal_iff list_all_iff steered_normal ids simp del: map_map)
  qed
  have "list_all (\<lambda>g. goalSchema g = Some g) goals"
    by (simp add: goals list_all_iff normal)
  moreover have "distinct (all_criterion_ids goals)"
    unfolding goals f_def using schema distinct 1(2)
    by (intro distinct_ids_append_criteria)
      (auto simp: ulwPayloadSchema_normal_iff refineUlwLoop_def ids simp del: map_map)
  moreover have "map goal_id (in_progress_goals goals) = map goal_id (in_progress_goals (ul_goals p))"
    unfolding goals by (rule in_progress_ids_map) (use keep in blast)
  moreover have "map goal_id goals = map goal_id (ul_goals p)"
    by (simp add: goals keep)
  ultimately have "ulwPayloadSchema (p\<lparr>ul_annotation := (case an of None \<Rightarrow> ul_annotation p | Some a \<Rightarrow> Some a),
      ul_goals := goals\<rparr>) = Some (p\<lparr>ul_annotation := (case an of None \<Rightarrow> ul_annotation p | Some a \<Rightarrow> Some a),
      ul_goals := goals\<rparr>)"
    using schema new(2) 1(1)
    by (auto simp: ulwPayloadSchema_normal_iff refineUlwLoop_def active_goal_matches_def
        split: option.splits)
  with 1(4) that show thesis by blast
qed

text \<open>
  Settling a criterion keeps the payload's schema exactly when the active goal recorded in the
  payload is still the goal in progress.
\<close>

lemma settle_item_normal:
  assumes "criterionSchema c = Some c" "nonempty er = Some er" "counter rv = Some rv" "nonempty cc = Some cc"
  shows "criterionSchema (settle_item j er rv cc c) = Some (settle_item j er rv cc c)"
  using assms by (auto simp: settle_item_def criterionSchema_normal_iff)

lemma settle_item_id [simp]: "crit_id (settle_item j er rv cc c) = crit_id c"
  by (simp add: settle_item_def)

lemma settle_goal_id [simp]: "goal_id (settle_goal i f g) = goal_id g"
  by (simp add: settle_goal_def Let_def)

lemma settle_goal_criteria:
  "goal_criteria (settle_goal i f g) = (if goal_id g = i then map f (goal_criteria g) else goal_criteria g)"
  by (simp add: settle_goal_def Let_def)

lemma settle_goals_schema_iff:
  assumes schema: "ulwPayloadSchema p = Some p"
    and new: "nonempty er = Some er" "counter rv = Some rv" "nonempty cc = Some cc"
    and goals: "goals = map (settle_goal i (settle_item j er rv cc)) (ul_goals p)"
    and active: "active = None \<or> active = ul_activeGoalId p" and status: "status \<noteq> Abandoned"
  shows "ulwPayloadSchema (p\<lparr>ul_activeGoalId := active, ul_status := status, ul_goals := goals\<rparr>) =
      Some (p\<lparr>ul_activeGoalId := active, ul_status := status, ul_goals := goals\<rparr>) \<longleftrightarrow>
    active_goal_matches active goals"
proof -
  have "goalSchema h = Some h" if "h \<in> set goals" for h
  proof -
    from that goals obtain g where g: "g \<in> set (ul_goals p)" and h: "h = settle_goal i (settle_item j er rv cc) g"
      by auto
    from schema g have "goalSchema g = Some g" by (simp add: ulwPayloadSchema_normal_iff list_all_iff)
    with new show ?thesis
      by (auto simp: h goalSchema_normal_iff settle_goal_criteria list_all_iff settle_item_normal comp_def)
        (simp add: settle_goal_def Let_def)+
  qed
  moreover have "map goal_id goals = map goal_id (ul_goals p)" by (simp add: goals comp_def)
  moreover have "all_criterion_ids goals = all_criterion_ids (ul_goals p)"
    by (rule all_criterion_ids_cong) (simp add: goals settle_goal_criteria comp_def)
  ultimately show ?thesis
    using schema active status
    by (auto simp: ulwPayloadSchema_normal_iff refineUlwLoop_def list_all_iff)
qed

text \<open>
  With one goal, which is the active one, it always is; with more goals it need not be.
\<close>

lemma settle_single_goal_active:
  assumes "ul_goals p = [g]" "ul_activeGoalId p = Some (goal_id g)" "goal_status g = GoalInProgress"
    and "goals = map (settle_goal i f) (ul_goals p)" "goal_of p i = Some h"
  shows "active_goal_matches (if all_criteria_pass goals then None else ul_activeGoalId p) goals"
proof -
  have "i = goal_id g" using assms(1,5) by (auto simp: goal_of_def split: if_splits)
  with assms show ?thesis
    by (auto simp: active_goal_matches_def in_progress_goals_def all_criteria_pass_def settle_goal_def Let_def)
qed

lemma stateEventSchema_normal_iff:
  "stateEventSchema E e = Some e \<longleftrightarrow>
     eventVersionSchema (ev_version e) = Some (ev_version e) \<and> is_uuid E (ev_eventId e) \<and>
     ev_sequence e \<le> max_safe_integer \<and> is_uuid E (ev_runId e) \<and>
     expectedSchema (ev_expected e) = Some (ev_expected e) \<and>
     mutationSchema E (ev_mutation e) = Some (ev_mutation e) \<and> is_datetime E (ev_at e) \<and>
     ev_kind e = kind_of_mutation (ev_mutation e)"
  by (cases e)
    (auto simp: stateEventSchema_def uuid_schema_def counter_def timestamp_schema_def
       elim!: bind_SomeE guard_SomeE split: if_splits)

text \<open>The counters a step may increment have not reached the largest safe integer.\<close>

definition counters_below :: "run \<Rightarrow> bool" where
  "counters_below r \<longleftrightarrow>
     run_revision r < max_safe_integer \<and> run_progressRevision r < max_safe_integer \<and>
     own_epoch (run_owner r) < max_safe_integer \<and>
     cont_noProgressAttempts (run_continuation r) < max_safe_integer"

lemma control_schema:
  assumes schema: "runSchema E r = Some r" "counters_below r" and step: "reduceWorkflowControl r c = Inr r'"
    and session: "cmd_kind c = CmdAdopt \<Longrightarrow> nonempty (cmd_sessionId c) = Some (cmd_sessionId c)"
    and plan: "\<And>snap. cmd_kind c = CmdReconcilePlan snap \<Longrightarrow>
      uniqueStrings (snap_taskIds snap) = Some (snap_taskIds snap) \<and>
      hash_schema (snap_fingerprint snap) = Some (snap_fingerprint snap)"
  shows "runSchema E r' = Some r'"
proof (cases "run_payload r")
  case (StartPayload p)
  have "planSchema E (sw_plan p) = Some (sw_plan p)"
    using schema(1) unfolding runSchema_normal_iff StartPayload by simp
  with assms StartPayload show ?thesis
    by (auto simp: runSchema_normal_iff control_defs counters_below_def resetContinuation_def
        continuationSchema_normal_iff ownerSchema_normal_iff planSchema_normal_iff
        split: if_splits option.splits command_kind.splits)
next
  case (UlwPayload p)
  have "ulwPayloadSchema p = Some p"
    using schema(1) unfolding runSchema_normal_iff UlwPayload by simp
  with assms UlwPayload show ?thesis
    by (auto simp: runSchema_normal_iff control_defs counters_below_def resetContinuation_def
        continuationSchema_normal_iff ownerSchema_normal_iff ulwPayloadSchema_status
        split: if_splits option.splits command_kind.splits)
qed

lemma setRunStatus_schema:
  assumes "runSchema E r = Some r" "run_revision r < max_safe_integer" "s \<noteq> Abandoned"
  shows "runSchema E (setRunStatus r s) = Some (setRunStatus r s)"
proof (cases "run_payload r")
  case (UlwPayload p)
  then have "ulwPayloadSchema p = Some p"
    using assms(1) by (simp add: runSchema_normal_iff)
  with UlwPayload assms show ?thesis
    by (simp add: setRunStatus_def runSchema_normal_iff ulwPayloadSchema_status)
qed (use assms in \<open>simp add: setRunStatus_def runSchema_normal_iff\<close>)

text \<open>The side conditions under which a ULW payload keeps its refinement.\<close>

definition ulw_shape_kept :: "state_event \<Rightarrow> run \<Rightarrow> bool" where
  "ulw_shape_kept e r' \<longleftrightarrow> (case ev_mutation e of
     WorkflowSteered cs _ \<Rightarrow> distinct (map sc_id cs)
   | CriterionSettled _ _ _ _ _ _ \<Rightarrow>
       (case run_payload r' of
          UlwPayload p' \<Rightarrow> active_goal_matches (ul_activeGoalId p') (ul_goals p')
        | StartPayload _ \<Rightarrow> True)
   | _ \<Rightarrow> True)"

lemma ulw_shape_kept_stamp [simp]: "ulw_shape_kept e (r\<lparr>run_transactionRevision := n\<rparr>) = ulw_shape_kept e r"
  by (simp add: ulw_shape_kept_def split: mutation.splits)

lemma counters_below_code [code]:
  "counters_below r \<longleftrightarrow> list_all (\<lambda>n. int n < 9007199254740991) [run_revision r, run_progressRevision r,
     own_epoch (run_owner r), cont_noProgressAttempts (run_continuation r)]"
proof -
  have "n < max_safe_integer \<longleftrightarrow> int n < 9007199254740991" for n
    unfolding max_safe_integer_def by linarith
  then show ?thesis by (simp add: counters_below_def)
qed

lemma ulw_step_schema:
  assumes schema: "runSchema E r = Some r" "counters_below r"
    and p': "r' = r\<lparr>run_revision := run_revision r + 1, run_payload := UlwPayload p'\<rparr>" "ulwPayloadSchema p' = Some p'"
  shows "runSchema E r' = Some r'"
  using assms by (simp add: runSchema_normal_iff counters_below_def)

lemma settleCriterion_schema:
  assumes schema: "runSchema E r = Some r" "mutationSchema E (ev_mutation e) = Some (ev_mutation e)" "counters_below r"
    and step: "settleCriterion r e authority = Some r'" and shape: "ulw_shape_kept e r'"
  shows "runSchema E r' = Some r'"
  using step
proof (cases rule: settleCriterion_cases)
  case legacy
  with schema show ?thesis by simp
next
  case (settled p i j a er rv cc auth accepted g c goals)
  let ?p = "p\<lparr>ul_activeGoalId := (if all_criteria_pass goals then None else ul_activeGoalId p),
    ul_status := (if all_criteria_pass goals then Completed else ul_status p), ul_goals := goals\<rparr>"
  have p: "ulwPayloadSchema p = Some p"
    using schema(1) settled(1) by (simp add: runSchema_normal_iff)
  have new: "nonempty er = Some er" "counter rv = Some rv" "nonempty cc = Some cc"
    using schema(2) by (auto simp: settled(2) elim!: bind_SomeE)
  have "active_goal_matches (ul_activeGoalId ?p) goals"
    using shape by (simp add: ulw_shape_kept_def settled(2,15))
  then have "ulwPayloadSchema ?p = Some ?p"
    using p by (subst settle_goals_schema_iff [OF p new settled(14)]) (auto simp: ulwPayloadSchema_normal_iff)
  moreover have "r' = r\<lparr>run_revision := run_revision r + 1, run_progressRevision := run_progressRevision r + 1,
      run_payload := UlwPayload ?p\<rparr>"
    by (simp only: settled(15))
  ultimately show ?thesis
    using schema by (simp add: runSchema_normal_iff counters_below_def)
qed

lemma controlRun_schema:
  assumes schema: "runSchema E r = Some r" "stateEventSchema E e = Some e" "counters_below r"
    and step: "controlRun r e authority = Some r'" and shape: "ulw_shape_kept e r'"
  shows "runSchema E r' = Some r'"
proof -
  have m: "mutationSchema E (ev_mutation e) = Some (ev_mutation e)"
    using schema(2) by (simp add: stateEventSchema_normal_iff)
  have ulw: "ulwPayloadSchema p = Some p" if "run_payload r = UlwPayload p" for p
    using schema(1) that by (simp add: runSchema_normal_iff)
  show ?thesis
    using step
  proof (cases rule: controlRun_cases)
    case (control c)
    show ?thesis
    proof (rule control_schema [OF schema(1,3) control(1)])
      assume "cmd_kind c = CmdAdopt"
      with control(2) obtain s where "ev_mutation e = OwnerAdopted s" by blast
      with m control(3) show "nonempty (cmd_sessionId c) = Some (cmd_sessionId c)" by auto
    next
      fix snap assume "cmd_kind c = CmdReconcilePlan snap"
      from control(4) [OF this] m show "uniqueStrings (snap_taskIds snap) = Some (snap_taskIds snap) \<and>
          hash_schema (snap_fingerprint snap) = Some (snap_fingerprint snap)"
        by (auto elim!: bind_SomeE)
    qed
  next
    case (steer p cs an)
    have new: "list_all (\<lambda>c. steeredCriterionSchema c = Some c) cs" "nullable (string_max 512) an = Some an"
      using m steer(2) by (auto simp: array_of_normal [symmetric] elim!: bind_SomeE split: if_splits)
    have "distinct (map sc_id cs)" using shape steer(2) by (simp add: ulw_shape_kept_def)
    from steerRun_schema [OF ulw [OF steer(1)] steer(3) new this] show ?thesis
      using ulw_step_schema [OF schema(1,3)] by blast
  next
    case (cycle p i)
    from startGoalCycle_schema [OF ulw [OF cycle(1)] cycle(3)] show ?thesis
      using ulw_step_schema [OF schema(1,3)] by blast
  next
    case (failure p i j f)
    have "nonempty f = Some f" using m failure(2) by (auto elim!: bind_SomeE)
    from recordCriterionFailure_schema [OF ulw [OF failure(1)] this failure(3)] show ?thesis
      using ulw_step_schema [OF schema(1,3)] by blast
  next
    case settle
    then show ?thesis by (rule settleCriterion_schema [OF schema(1) m schema(3) _ shape])
  next
    case evidence
    then show ?thesis
      using schema by (cases rule: acceptTaskEvidence_cases) (auto simp: runSchema_normal_iff counters_below_def)
  next
    case terminal
    then show ?thesis
    proof (cases rule: terminalRun_cases)
      case failed
      then show ?thesis using schema(1,3) setRunStatus_schema by (simp add: counters_below_def)
    next
      case completed
      with schema(1,3) show ?thesis by (simp add: runSchema_normal_iff counters_below_def)
    qed
  next
    case attempt
    then show ?thesis
    proof (cases rule: attemptContinuation_cases)
      case (1 leaf)
      have "nonempty leaf = Some leaf" using m 1(1) by (auto elim!: bind_SomeE)
      moreover have "Suc 0 \<le> max_safe_integer" by (simp add: max_safe_integer_def)
      ultimately show ?thesis
        using schema(1,3) 1(3) by (simp add: runSchema_normal_iff counters_below_def continuationSchema_normal_iff)
    qed
  next
    case stuck
    then show ?thesis
    proof (cases rule: stopContinuation_cases)
      case (1 leaf)
      have "runSchema E (setRunStatus r Stuck) = Some (setRunStatus r Stuck)"
        using schema by (intro setRunStatus_schema) (auto simp: counters_below_def)
      with 1 m show ?thesis
        by (auto simp: runSchema_normal_iff continuationSchema_normal_iff)
    qed
  qed (use schema in simp)
qed

section \<open>The derived index\<close>

lemma statusHint_eq: "statusHint r = hint_of_status (run_status_of r)"
  by (cases "run_status_of r") (simp_all add: statusHint_def)

lemma statusHint_None_iff: "statusHint r = None \<longleftrightarrow> terminal_run r"
  by (simp add: statusHint_eq hint_of_status_None_iff terminal_run_def)

lemma deriveIndex_entries:
  "idx_entries (deriveIndex i r n) =
     filter (\<lambda>e. ent_runId e \<noteq> run_runId r) (idx_entries i) @
     (case statusHint r of None \<Rightarrow> [] | Some h \<Rightarrow> [entry_of_run r n h])"
  by (simp add: deriveIndex_def Let_def split: option.splits)

lemma deriveIndex_simps [simp]:
  "idx_revision (deriveIndex i r n) = n"
  "idx_version (deriveIndex i r n) = idx_version i"
  by (simp_all add: deriveIndex_def Let_def)

text \<open>Another run that occupies the slot of this run's workflow and session.\<close>

definition slot_taken :: "active_index \<Rightarrow> run \<Rightarrow> bool" where
  "slot_taken i r \<longleftrightarrow> (\<exists>e\<in>set (idx_entries i). ent_runId e \<noteq> run_runId r \<and>
     ent_workflow e = run_workflow r \<and> ent_sessionId e = own_sessionId (run_owner r))"

lemma deriveIndex_unique:
  assumes "index_unique (idx_entries i)"
  shows "index_unique (idx_entries (deriveIndex i r n)) \<longleftrightarrow> terminal_run r \<or> \<not> slot_taken i r"
proof (cases "statusHint r")
  case None
  then show ?thesis
    using index_unique_filter [OF assms]
    by (simp add: deriveIndex_entries statusHint_None_iff [symmetric])
next
  case (Some h)
  then have "\<not> terminal_run r"
    by (simp add: statusHint_None_iff [symmetric])
  moreover have "index_unique (filter (\<lambda>e. ent_runId e \<noteq> run_runId r) (idx_entries i) @ [entry_of_run r n h]) \<longleftrightarrow>
      \<not> slot_taken i r"
    using index_unique_filter [OF assms, of "\<lambda>e. ent_runId e \<noteq> run_runId r"]
    by (auto simp: index_unique_def slot_taken_def image_iff eq_commute [of "entry_key (entry_of_run r n h)"] entry_key_eq_iff)
      (auto simp: entry_of_run_def dest: sym)
  ultimately show ?thesis by (simp add: deriveIndex_entries Some)
qed

lemma find_only:
  assumes "x \<in> set xs" "P x" "\<And>y. y \<in> set xs \<Longrightarrow> P y \<Longrightarrow> y = x"
  shows "List.find P xs = Some x"
proof (cases "List.find P xs")
  case None
  with assms(1,2) show ?thesis by (auto simp: find_None_iff)
next
  case (Some y)
  with assms(3) [of y] find_SomeD [OF Some] show ?thesis by simp
qed

lemma deriveIndex_resolves:
  assumes "index_unique (idx_entries i)" "\<not> terminal_run r" "\<not> slot_taken i r"
    and "run_transactionRevision r = n"
  shows "resolveActiveRun (deriveIndex i r n) (r # runs) (run_workflow r) (own_sessionId (run_owner r)) = Inr r"
proof -
  obtain h where h: "statusHint r = Some h"
    using assms(2) by (auto simp: statusHint_None_iff [symmetric])
  have unique: "index_unique (idx_entries (deriveIndex i r n))"
    using deriveIndex_unique assms by blast
  moreover have "entry_of_run r n h \<in> set (idx_entries (deriveIndex i r n))"
    by (simp add: deriveIndex_entries h)
  ultimately have "List.find (\<lambda>e. ent_workflow e = run_workflow r \<and> ent_sessionId e = own_sessionId (run_owner r))
      (idx_entries (deriveIndex i r n)) = Some (entry_of_run r n h)"
    using index_unique_key [OF unique] by (intro find_only) (auto simp: entry_of_run_def)
  with unique show ?thesis
    by (simp add: resolveActiveRun_def validateActiveIndex_ok_iff entry_of_run_def hintMatches_def
        statusHint_eq [symmetric] h assms(4))
qed

section \<open>Transitions\<close>

lemma prepareTransition_InrE:
  assumes "prepareTransition i current e authority = Inr p"
  obtains "next" where "exp_indexRevision (ev_expected e) = idx_revision i" "ev_sequence e = idx_revision i + 1"
    "next_run current e authority = Inr (Some next)"
    "run_runId next = ev_runId e" "run_workflow next = ev_workflow e"
    "prep_run p = next\<lparr>run_transactionRevision := ev_sequence e\<rparr>"
    "prep_index p = deriveIndex i (prep_run p) (ev_sequence e)"
  using assms unfolding prepareTransition_def
  by (auto simp: Let_def split: if_splits sum.splits option.splits)

lemma next_run_existing:
  assumes "next_run (Some r) e authority = Inr (Some next)"
  shows "expectation_error r e = None" and "controlRun r e authority = Some next"
  using assms by (auto simp: next_run_def split: mutation.splits option.splits if_splits)

lemma expectation_errorD:
  assumes "expectation_error r e = None"
  shows "exp_runRevision (ev_expected e) = Some (run_revision r)"
    and "exp_ownerSessionId (ev_expected e) = Some (own_sessionId (run_owner r))"
    and "exp_ownerEpoch (ev_expected e) = Some (own_epoch (run_owner r))"
    and "ev_expectedHead e \<noteq> None \<Longrightarrow> run_expectedHead r = ev_expectedHead e"
    and "ev_is_v2 e \<Longrightarrow> task_scoped_kind (ev_kind e) = (ev_taskGeneration e \<noteq> None)"
  using assms
  by (auto simp: expectation_error_def ev_is_v2_def ev_expectedHead_def split: if_splits event_version.splits)

lemma transition_existing:
  assumes "prepareTransition i (Some r) e authority = Inr p"
  obtains "next" where "controlRun r e authority = Some next" "expectation_error r e = None"
    "prep_run p = next\<lparr>run_transactionRevision := ev_sequence e\<rparr>"
    "prep_index p = deriveIndex i (prep_run p) (ev_sequence e)"
    "exp_indexRevision (ev_expected e) = idx_revision i" "ev_sequence e = idx_revision i + 1"
    "ev_runId e = run_runId r" "ev_workflow e = run_workflow r"
  using assms
proof (cases rule: prepareTransition_InrE)
  case (1 "next")
  note step = next_run_existing [OF 1(3)]
  with controlRun_frame(1) [OF step(2)] 1 that show thesis
    by (metis same_identity_def)
qed

lemma transition_run_frame:
  assumes "prepareTransition i (Some r) e authority = Inr p"
  shows "run_runId (prep_run p) = run_runId r" "run_workflow (prep_run p) = run_workflow r"
    "run_version (prep_run p) = run_version r"
    "run_transactionRevision (prep_run p) = idx_revision i + 1"
    "run_owner (prep_run p) = (case ev_mutation e of
      OwnerAdopted s \<Rightarrow> \<lparr>own_sessionId = s, own_epoch = own_epoch (run_owner r) + 1\<rparr>
    | _ \<Rightarrow> run_owner r)"
    "\<not> ev_legacy e \<Longrightarrow> run_revision (prep_run p) = run_revision r + 1"
    "run_revision r \<le> run_revision (prep_run p)"
proof -
  obtain "next" where n: "controlRun r e authority = Some next" "ev_sequence e = idx_revision i + 1"
    "prep_run p = next\<lparr>run_transactionRevision := ev_sequence e\<rparr>"
    using assms by (rule transition_existing)
  have "run_workflow (prep_run p) = run_workflow next"
    by (simp add: n(3) run_workflow_def)
  then show "run_runId (prep_run p) = run_runId r" "run_workflow (prep_run p) = run_workflow r"
    "run_version (prep_run p) = run_version r" "run_transactionRevision (prep_run p) = idx_revision i + 1"
    using controlRun_frame(1) [OF n(1)] by (simp_all add: n(2,3) same_identity_def)
  show "\<not> ev_legacy e \<Longrightarrow> run_revision (prep_run p) = run_revision r + 1"
    "run_revision r \<le> run_revision (prep_run p)"
    using controlRun_frame(2) [OF n(1)] by (auto simp: n(3))
  show "run_owner (prep_run p) = (case ev_mutation e of
      OwnerAdopted s \<Rightarrow> \<lparr>own_sessionId = s, own_epoch = own_epoch (run_owner r) + 1\<rparr>
    | _ \<Rightarrow> run_owner r)"
    using controlRun_frame(3) [OF n(1)] by (simp add: n(3))
qed

text \<open>The runs a run can become by accepted transitions.\<close>

inductive reaches :: "run \<Rightarrow> run \<Rightarrow> bool" where
  reaches_refl: "reaches r r"
| reaches_step: "reaches r s \<Longrightarrow> prepareTransition i (Some s) e authority = Inr p \<Longrightarrow> reaches r (prep_run p)"

lemma step_owner_monotone:
  assumes "prepareTransition i (Some s) e authority = Inr p"
  shows "own_epoch (run_owner s) \<le> own_epoch (run_owner (prep_run p))"
    and "own_epoch (run_owner s) = own_epoch (run_owner (prep_run p)) \<Longrightarrow> run_owner (prep_run p) = run_owner s"
  using transition_run_frame(5) [OF assms] by (auto split: mutation.splits)

lemma reaches_owner:
  "reaches r s \<Longrightarrow> own_epoch (run_owner r) \<le> own_epoch (run_owner s) \<and>
     (own_epoch (run_owner r) = own_epoch (run_owner s) \<longrightarrow> run_owner s = run_owner r) \<and>
     run_revision r \<le> run_revision s \<and> run_runId s = run_runId r \<and> run_workflow s = run_workflow r"
proof (induction rule: reaches.induct)
  case (reaches_step r s i e authority p)
  have "run_revision s \<le> run_revision (prep_run p)"
    by (rule transition_run_frame(7) [OF reaches_step(2)])
  with reaches_step step_owner_monotone [OF reaches_step(2)] transition_run_frame(1,2) [OF reaches_step(2)]
  show ?case by (metis le_antisym le_trans)
qed simp

section \<open>Continuation attempts\<close>

text \<open>A sequence of events applied to a run, each with the authority read for it.\<close>

fun apply_events :: "run \<Rightarrow> (state_event \<times> receipt_authority option) list \<Rightarrow> run option" where
  "apply_events r [] = Some r"
| "apply_events r ((e, authority) # es) =
     (case controlRun r e authority of None \<Rightarrow> None | Some r' \<Rightarrow> apply_events r' es)"

definition is_attempt :: "state_event \<Rightarrow> bool" where
  "is_attempt e \<longleftrightarrow> kind_of_mutation (ev_mutation e) = KContinuationAttempted"

definition attempts_without_progress :: "run \<Rightarrow> nat" where
  "attempts_without_progress r =
     (if cont_progressRevisionSeen (run_continuation r) = run_progressRevision r
      then cont_noProgressAttempts (run_continuation r) else 0)"

lemma reduceWorkflowControl_continuation:
  "reduceWorkflowControl r c = Inr r' \<Longrightarrow> run_continuation r' \<in> {run_continuation r, resetContinuation r}"
  by (auto simp: control_defs split: if_splits option.splits payload.splits command_kind.splits)

lemma ulw_steps_continuation:
  assumes "startGoalCycle r p i = Inr r' \<or> recordCriterionFailure r p i j f = Inr r' \<or> steerRun r p cs an = Some r'"
  shows "run_continuation r' = run_continuation r" and "run_progressRevision r' = run_progressRevision r"
  using assms
  by (auto simp: startGoalCycle_def recordCriterionFailure_def steerRun_def set_goals_def
      Let_def split: option.splits if_splits)

text \<open>Only a recorded attempt raises the number of attempts without progress, and by one.\<close>

definition seen_ok :: "run \<Rightarrow> bool" where
  "seen_ok r \<longleftrightarrow> cont_progressRevisionSeen (run_continuation r) \<le> run_progressRevision r"

lemma controlRun_continuation:
  assumes "controlRun r e authority = Some r'" "seen_ok r"
  shows "seen_ok r'"
    and "attempts_without_progress r' \<le> attempts_without_progress r + (if is_attempt e then 1 else 0)"
proof -
  have "seen_ok r' \<and> attempts_without_progress r' \<le> attempts_without_progress r + (if is_attempt e then 1 else 0)"
    using assms(1)
  proof (cases rule: controlRun_cases)
    case (control c)
    then show ?thesis
      using assms(2) reduceWorkflowControl_continuation [OF control(1)] reduceWorkflowControl_frame(4) [OF control(1)]
      by (auto simp: seen_ok_def attempts_without_progress_def resetContinuation_def)
  next
    case (steer p cs an)
    then show ?thesis
      using assms(2) ulw_steps_continuation [of r p _ r' _ _ cs an]
      by (simp add: seen_ok_def attempts_without_progress_def)
  next
    case (cycle p i)
    then show ?thesis
      using assms(2) ulw_steps_continuation [of r p i r'] by (simp add: seen_ok_def attempts_without_progress_def)
  next
    case (failure p i j f)
    then show ?thesis
      using assms(2) ulw_steps_continuation [of r p i r' j f]
      by (simp add: seen_ok_def attempts_without_progress_def)
  next
    case settle
    then show ?thesis
      using assms(2)
      by (cases rule: settleCriterion_cases) (simp_all add: seen_ok_def attempts_without_progress_def)
  next
    case evidence
    then show ?thesis
      using assms(2)
      by (cases rule: acceptTaskEvidence_cases) (simp add: seen_ok_def attempts_without_progress_def)
  next
    case terminal
    then show ?thesis
      using assms(2) by (cases rule: terminalRun_cases) (simp_all add: seen_ok_def attempts_without_progress_def)
  next
    case attempt
    then show ?thesis
      by (cases rule: attemptContinuation_cases) (simp add: seen_ok_def is_attempt_def attempts_without_progress_def)
  next
    case stuck
    then show ?thesis
      using assms(2)
      by (cases rule: stopContinuation_cases) (simp add: seen_ok_def attempts_without_progress_def)
  qed (simp add: assms(2))
  then show "seen_ok r'"
    and "attempts_without_progress r' \<le> attempts_without_progress r + (if is_attempt e then 1 else 0)" by auto
qed

lemma apply_events_attempts:
  "apply_events r es = Some r' \<Longrightarrow> seen_ok r \<Longrightarrow>
     seen_ok r' \<and> attempts_without_progress r' \<le> attempts_without_progress r + length (filter (is_attempt \<circ> fst) es)"
proof (induction r es rule: apply_events.induct)
  case (2 r e authority es)
  then obtain s where s: "controlRun r e authority = Some s" "apply_events s es = Some r'"
    by (auto split: option.splits)
  from "2.IH" [OF s] controlRun_continuation [OF s(1) "2.prems"(2)] show ?case by auto
qed simp

lemma stuck_needs_attempts:
  assumes "controlRun r e authority = Some r'" "ev_mutation e = ContinuationStuck leaf"
  shows "2 \<le> attempts_without_progress r" and "run_status_of r' = Stuck"
proof -
  from assms have "stopContinuation r e = Some r'"
    by (simp add: controlRun_def reduceRuntimeProgress_def)
  then have "2 \<le> attempts_without_progress r \<and> run_status_of r' = Stuck"
    by (cases rule: stopContinuation_cases)
      (simp add: attempts_without_progress_def run_status_of_def setRunStatus_def split: payload.splits)
  then show "2 \<le> attempts_without_progress r" and "run_status_of r' = Stuck" by auto
qed

end
