(* ===== verification/Sample_State.thy ===== *)
theory Sample_State
  imports State_Transition
begin

text \<open>
  Concrete state on which the properties are exercised: a host environment, a start-work run and
  a ULW run of one session, the index that lists them, a worker acceptance, and events.
\<close>

definition sample_env :: host_env where
  "sample_env = \<lparr>is_uuid = (\<lambda>s. length s = 36), is_datetime = (\<lambda>s. s \<noteq> []), is_win32 = False,
     extend_keeps_checks = True\<rparr>"

definition sample_root :: canonical_root where
  "sample_root = \<lparr>root_canonicalPath = ''/repo'', root_displayPath = ''/repo''\<rparr>"

definition sample_uuid :: "char \<Rightarrow> string" where
  "sample_uuid c = ''00000000-0000-4000-8000-00000000000'' @ [c]"

definition sample_commit :: string where
  "sample_commit = replicate 40 (CHR ''a'')"

definition sample_hash :: string where
  "sample_hash = replicate 64 (CHR ''b'')"

definition sample_continuation :: continuation_state where
  "sample_continuation = \<lparr>cont_lastProcessedLeafId = None, cont_progressRevisionSeen = 0,
     cont_noProgressAttempts = 0, cont_stuck = False\<rparr>"

definition sample_plan :: plan_ref where
  "sample_plan = \<lparr>plan_planId = sample_uuid (CHR ''9''), plan_canonicalPath = ''/repo/plan.md'',
     plan_displayPath = ''plan.md'', plan_allowedRoot = ''/repo'', plan_allowedRootDisplay = ''/repo'',
     plan_taskFingerprint = sample_hash, plan_taskIds = [''1'', ''2'']\<rparr>"

definition sample_start_run :: run where
  "sample_start_run = \<lparr>run_version = RunV2 None (Some sample_commit), run_runId = sample_uuid (CHR ''1''),
     run_revision = 1, run_transactionRevision = 1,
     run_owner = \<lparr>own_sessionId = ''s1'', own_epoch = 1\<rparr>, run_progressRevision = 1,
     run_continuation = sample_continuation, run_createdAt = ''t0'', run_updatedAt = ''t0'',
     run_payload = StartPayload \<lparr>sw_status = Active, sw_plan = sample_plan\<rparr>\<rparr>"

definition sample_criterion :: "string \<Rightarrow> criterion" where
  "sample_criterion i = \<lparr>crit_id = i, crit_scenario = None, crit_observable = None,
     crit_evidenceLogicalId = None, crit_status = CritPending, crit_identicalFailureFingerprint = None,
     crit_identicalFailureCount = 0, crit_evidenceRef = None, crit_captureRevision = None,
     crit_captureCommit = None\<rparr>"

definition sample_goal :: "string \<Rightarrow> goal_status \<Rightarrow> string list \<Rightarrow> goal" where
  "sample_goal i st cs = \<lparr>goal_id = i, goal_status = st, goal_cycleCount = 0,
     goal_criteria = map sample_criterion cs\<rparr>"

definition sample_ulw_run :: "goal list \<Rightarrow> run" where
  "sample_ulw_run goals = \<lparr>run_version = RunV2 None (Some sample_commit), run_runId = sample_uuid (CHR ''2''),
     run_revision = 1, run_transactionRevision = 1,
     run_owner = \<lparr>own_sessionId = ''s1'', own_epoch = 1\<rparr>, run_progressRevision = 1,
     run_continuation = sample_continuation, run_createdAt = ''t0'', run_updatedAt = ''t0'',
     run_payload = UlwPayload \<lparr>ul_objective = None, ul_annotation = None, ul_status = Active,
       ul_activeGoalId = Some ''g1'', ul_goals = goals\<rparr>\<rparr>"

definition sample_index :: "run list \<Rightarrow> active_index" where
  "sample_index rs = \<lparr>idx_version = IndexV2 1, idx_revision = 1,
     idx_entries = map (\<lambda>r. entry_of_run r 1 HintActive) rs\<rparr>"

definition sample_expected :: "nat \<Rightarrow> run \<Rightarrow> expectation" where
  "sample_expected n r = \<lparr>exp_indexRevision = n, exp_runRevision = Some (run_revision r),
     exp_ownerSessionId = Some (own_sessionId (run_owner r)), exp_ownerEpoch = Some (own_epoch (run_owner r))\<rparr>"

definition sample_event :: "nat \<Rightarrow> run \<Rightarrow> nat option \<Rightarrow> mutation \<Rightarrow> state_event" where
  "sample_event n r gen m = \<lparr>ev_version = EventV2 None gen False, ev_eventId = sample_uuid (digit n),
     ev_sequence = n + 1, ev_runId = run_runId r, ev_workflow = run_workflow r,
     ev_kind = kind_of_mutation m, ev_expected = sample_expected n r, ev_mutation = m, ev_at = ''t1''\<rparr>"

definition sample_acceptance :: "run \<Rightarrow> nat \<Rightarrow> string \<Rightarrow> acceptance_event" where
  "sample_acceptance r n task = \<lparr>acc_sequence = n, acc_idempotencyKey = ''k'' @ task, acc_runId = run_runId r,
     acc_attempt = run_progressRevision r, acc_runRevision = run_revision r,
     acc_ownerSessionId = own_sessionId (run_owner r), acc_ownerEpoch = own_epoch (run_owner r),
     acc_taskGeneration = 1, acc_workerRole = WorkerLow, acc_actualAgentId = ''a'', acc_actualJobId = None,
     acc_captureCommit = sample_commit, acc_receiptPath = ''receipt'', acc_receiptHash = sample_hash,
     acc_artifactHash = sample_hash, acc_artifactPaths = [''artifact''], acc_cleanupReceiptPaths = [],
     acc_cleanupStatus = None, acc_cleanupScenarioId = None, acc_acceptedAfterReview = True,
     acc_scope = Some \<lparr>as_taskId = task, as_role = WorkerLow, as_semanticAttempt = 1\<rparr>\<rparr>"

definition sample_authority :: "run \<Rightarrow> string list \<Rightarrow> receipt_authority" where
  "sample_authority r tasks = \<lparr>auth_taskGeneration = 1,
     auth_accepted = map (\<lambda>(n, t). sample_acceptance r n t) (zip [1..<Suc (length tasks)] tasks),
     auth_rejected = []\<rparr>"

lemmas sample_defs =
  sample_env_def sample_root_def sample_uuid_def sample_commit_def sample_hash_def
  sample_continuation_def sample_plan_def sample_start_run_def sample_criterion_def
  sample_goal_def sample_ulw_run_def sample_index_def sample_expected_def sample_event_def
  sample_acceptance_def sample_authority_def

end
