(* ===== verification/Transition_Properties.thy ===== *)
theory Transition_Properties
  imports Transition_Laws Sample_State
begin

text \<open>
  The contract of a state transition, as properties of \<^verbatim>\<open>prepareTransition\<close>,
  \<^verbatim>\<open>deriveIndex\<close> and \<^verbatim>\<open>persistedEventForIndex\<close>.
\<close>

section \<open>Optimistic concurrency\<close>

text \<open>
  C3. A transition of an existing run is accepted only when the event was written against the
  current index revision, run revision, owner, epoch and (when it binds one) Git head, and when it
  is a task-scoped event exactly if it carries a task generation. It then advances the index by
  one, stamps the run with the new revision, keeps its identity and version, and raises the run
  revision by one; only a migrated legacy event may instead leave the run as it is, but for the
  stamp, and every event that is not such an event raises the revision.
\<close>

theorem transition_guarded:
  assumes "prepareTransition i (Some r) e authority = Inr p"
  shows "exp_indexRevision (ev_expected e) = idx_revision i \<and>
    exp_runRevision (ev_expected e) = Some (run_revision r) \<and>
    exp_ownerSessionId (ev_expected e) = Some (own_sessionId (run_owner r)) \<and>
    exp_ownerEpoch (ev_expected e) = Some (own_epoch (run_owner r)) \<and>
    ev_expectedHead e \<in> {None, run_expectedHead r} \<and>
    (ev_is_v2 e \<longrightarrow> task_scoped_kind (ev_kind e) = (ev_taskGeneration e \<noteq> None)) \<and>
    idx_revision (prep_index p) = idx_revision i + 1 \<and>
    run_transactionRevision (prep_run p) = idx_revision i + 1 \<and>
    run_runId (prep_run p) = run_runId r \<and> run_workflow (prep_run p) = run_workflow r \<and>
    run_version (prep_run p) = run_version r \<and>
    (run_revision (prep_run p) = run_revision r + 1 \<or>
     ev_is_v2 e \<and> ev_legacy e \<and> prep_run p = r\<lparr>run_transactionRevision := idx_revision i + 1\<rparr>)"
proof -
  obtain "next" where n: "expectation_error r e = None" "ev_sequence e = idx_revision i + 1"
    "prep_index p = deriveIndex i (prep_run p) (ev_sequence e)"
    "exp_indexRevision (ev_expected e) = idx_revision i" "controlRun r e authority = Some next"
    "prep_run p = next\<lparr>run_transactionRevision := ev_sequence e\<rparr>"
    using assms by (rule transition_existing)
  have "ev_expectedHead e \<in> {None, run_expectedHead r}"
    using expectation_errorD(4) [OF n(1)] by (cases "ev_expectedHead e") auto
  moreover have "run_revision (prep_run p) = run_revision r + 1 \<or>
      ev_is_v2 e \<and> ev_legacy e \<and> prep_run p = r\<lparr>run_transactionRevision := idx_revision i + 1\<rparr>"
    using controlRun_frame(2) [OF n(5)] by (auto simp: n(2,6))
  ultimately show ?thesis
    using expectation_errorD(1-3,5) [OF n(1)] n(2-4) transition_run_frame(1-4) [OF assms] by simp
qed

theorem transition_guarded_witness:
  "run_revision (prep_run (projr (prepareTransition (sample_index [sample_start_run]) (Some sample_start_run)
     (sample_event 1 sample_start_run None (WorkflowControlled CtlPause)) None))) = 2"
proof -
  let ?i = "sample_index [sample_start_run]" and ?e = "sample_event 1 sample_start_run None (WorkflowControlled CtlPause)"
  have "isl (prepareTransition ?i (Some sample_start_run) ?e None) = False" by code_simp
  then have "prepareTransition ?i (Some sample_start_run) ?e None = Inr (projr (prepareTransition ?i (Some sample_start_run) ?e None))"
    by simp
  from transition_guarded [OF this] show ?thesis
    by (elim conjE disjE) (simp_all add: sample_defs ev_legacy_def)
qed

text \<open>
  C7. Ownership is fenced by the epoch: once a run has been adopted, no later state of it accepts
  an event that expects the former epoch, and a state with the same epoch has the same owner.
\<close>

theorem former_owner_fenced:
  assumes "reaches r s" "prepareTransition i (Some s) e authority = Inr p" "ev_mutation e = OwnerAdopted session"
    and "reaches (prep_run p) t" "exp_ownerEpoch (ev_expected stale) = Some (own_epoch (run_owner s))"
  shows "\<exists>err. prepareTransition j (Some t) stale authority' = Inl err"
proof (cases "prepareTransition j (Some t) stale authority'")
  case (Inr q)
  then obtain "next" where "expectation_error t stale = None" by (rule transition_existing)
  then have "own_epoch (run_owner t) = own_epoch (run_owner s)"
    using assms(5) expectation_errorD(3) [of t stale] by simp
  moreover have "own_epoch (run_owner (prep_run p)) = own_epoch (run_owner s) + 1"
    using transition_run_frame(5) [OF assms(2)] assms(3) by simp
  ultimately show ?thesis using reaches_owner [OF assms(4)] by simp
qed blast

definition paused_run :: run where
  "paused_run = prep_run (projr (prepareTransition (sample_index [sample_start_run]) (Some sample_start_run)
     (sample_event 1 sample_start_run None (WorkflowControlled CtlPause)) None))"

definition adopt_event :: state_event where
  "adopt_event = (sample_event 1 paused_run None (OwnerAdopted ''s2''))"

definition adopted :: prepared_transition where
  "adopted = projr (prepareTransition (sample_index [sample_start_run]) (Some paused_run) adopt_event None)"

theorem former_owner_fenced_witness:
  "\<exists>err. prepareTransition (prep_index adopted) (Some (prep_run adopted))
     ((sample_event 2 (prep_run adopted) None (WorkflowControlled CtlPause))
        \<lparr>ev_expected := sample_expected 2 paused_run\<rparr>) None = Inl err"
proof (rule former_owner_fenced [OF reaches_refl _ _ reaches_refl])
  have "isl (prepareTransition (sample_index [sample_start_run]) (Some paused_run) adopt_event None) = False"
    by code_simp
  then show "prepareTransition (sample_index [sample_start_run]) (Some paused_run) adopt_event None = Inr adopted"
    by (simp add: adopted_def)
qed (simp_all add: adopt_event_def sample_event_def sample_expected_def)

section \<open>Well-formed state\<close>

text \<open>
  C4. A transition of a well-formed run by a well-formed event publishes a well-formed run: its
  snapshot decodes to itself. The counters must not have reached the largest safe integer; new
  criteria must have distinct ids among themselves; and settling a criterion must not leave the
  recorded active goal out of progress.
\<close>

theorem transition_keeps_schema:
  assumes "runSchema E r = Some r" "stateEventSchema E e = Some e" "counters_below r"
    and "prepareTransition i (Some r) e authority = Inr p" "ulw_shape_kept e (prep_run p)"
  shows "runSchema E (prep_run p) = Some (prep_run p)"
proof -
  obtain "next" where n: "controlRun r e authority = Some next"
    "prep_run p = next\<lparr>run_transactionRevision := ev_sequence e\<rparr>"
    using assms(4) by (rule transition_existing)
  have "ulw_shape_kept e next"
    using assms(5) by (simp add: n(2))
  from controlRun_schema [OF assms(1-3) n(1) this] assms(2) show ?thesis
    by (simp add: n(2) runSchema_normal_iff stateEventSchema_normal_iff)
qed

definition two_criteria_run :: run where
  "two_criteria_run = sample_ulw_run [sample_goal ''g1'' GoalInProgress [''c1'', ''c2'']]"

definition settle_event :: "run \<Rightarrow> state_event" where
  "settle_event r = sample_event 1 r (Some 1) (CriterionSettled ''g1'' ''c1'' (Some ''kc1'') ''evidence'' 1 sample_commit)"

definition settled :: "run \<Rightarrow> transition_error + prepared_transition" where
  "settled r = prepareTransition (sample_index [r]) (Some r) (settle_event r) (Some (sample_authority r [''c1'']))"

theorem transition_keeps_schema_witness:
  "runSchema sample_env (prep_run (projr (settled two_criteria_run))) = Some (prep_run (projr (settled two_criteria_run)))"
proof (rule transition_keeps_schema)
  show "runSchema sample_env two_criteria_run = Some two_criteria_run" by code_simp
  show "stateEventSchema sample_env (settle_event two_criteria_run) = Some (settle_event two_criteria_run)" by code_simp
  show "counters_below two_criteria_run" by code_simp
  have "isl (settled two_criteria_run) = False" by code_simp
  then show "prepareTransition (sample_index [two_criteria_run]) (Some two_criteria_run) (settle_event two_criteria_run)
      (Some (sample_authority two_criteria_run [''c1''])) = Inr (projr (settled two_criteria_run))"
    by (simp add: settled_def)
  show "ulw_shape_kept (settle_event two_criteria_run) (prep_run (projr (settled two_criteria_run)))" by code_simp
qed

text \<open>
  With one active goal the last side condition holds by itself: settling any criterion of a
  single-goal loop keeps the run well formed, and the loop is completed, with no active goal,
  exactly when every criterion has passed.
\<close>

theorem single_goal_settles:
  assumes "runSchema E r = Some r" "stateEventSchema E e = Some e" "counters_below r"
    and "run_payload r = UlwPayload q" "ul_goals q = [g]" "ul_activeGoalId q = Some (goal_id g)"
    and "ev_mutation e = CriterionSettled i j a er rv cc" "\<not> ev_legacy e"
    and "prepareTransition ix (Some r) e authority = Inr p"
  shows "runSchema E (prep_run p) = Some (prep_run p) \<and>
    (\<exists>q'. run_payload (prep_run p) = UlwPayload q' \<and>
       (ul_activeGoalId q' = None \<longleftrightarrow> all_criteria_pass (ul_goals q')) \<and>
       (all_criteria_pass (ul_goals q') \<longrightarrow> ul_status q' = Completed))"
proof -
  obtain "next" where n: "controlRun r e authority = Some next"
    "prep_run p = next\<lparr>run_transactionRevision := ev_sequence e\<rparr>"
    using assms(9) by (rule transition_existing)
  have "settleCriterion r e authority = Some next"
    using n(1) assms(7) by (simp add: controlRun_def reduceRuntimeProgress_def)
  then show ?thesis
  proof (cases rule: settleCriterion_cases)
    case legacy
    with assms(8) show ?thesis by simp
  next
    case (settled p0 i0 j0 a0 er0 rv0 cc0 auth accepted h c goals)
    have q: "p0 = q" using settled(1) assms(4) by simp
    have "goal_status g = GoalInProgress"
      using assms(1,4-6)
      by (auto simp: runSchema_normal_iff ulwPayloadSchema_normal_iff refineUlwLoop_def active_goal_matches_def
          in_progress_goals_def split: if_splits)
    then have "active_goal_matches (if all_criteria_pass goals then None else ul_activeGoalId q) goals"
      using settle_single_goal_active [OF assms(5,6) _ settled(14) [unfolded q]] settled(11) q by blast
    then have "ulw_shape_kept e next"
      unfolding ulw_shape_kept_def by (auto simp: assms(7) settled(15) q split: if_splits)
    from controlRun_schema [OF assms(1-3) n(1) this] assms(2,6) show ?thesis
      by (simp add: n(2) runSchema_normal_iff stateEventSchema_normal_iff) (simp add: settled(15) q)
  qed
qed

theorem single_goal_settles_witness:
  "\<exists>q'. run_payload (prep_run (projr (settled two_criteria_run))) = UlwPayload q' \<and>
     (ul_activeGoalId q' = None \<longleftrightarrow> all_criteria_pass (ul_goals q'))"
proof -
  let ?q = "\<lparr>ul_objective = None, ul_annotation = None, ul_status = Active, ul_activeGoalId = Some ''g1'',
    ul_goals = [sample_goal ''g1'' GoalInProgress [''c1'', ''c2'']]\<rparr>"
  have "isl (settled two_criteria_run) = False" by code_simp
  then have ok: "prepareTransition (sample_index [two_criteria_run]) (Some two_criteria_run) (settle_event two_criteria_run)
      (Some (sample_authority two_criteria_run [''c1''])) = Inr (projr (settled two_criteria_run))"
    by (simp add: settled_def)
  have schema: "runSchema sample_env two_criteria_run = Some two_criteria_run"
    "stateEventSchema sample_env (settle_event two_criteria_run) = Some (settle_event two_criteria_run)"
    "counters_below two_criteria_run" by code_simp+
  have payload: "run_payload two_criteria_run = UlwPayload ?q"
    by (simp add: two_criteria_run_def sample_ulw_run_def)
  have goal: "ul_goals ?q = [sample_goal ''g1'' GoalInProgress [''c1'', ''c2'']]"
    "ul_activeGoalId ?q = Some (goal_id (sample_goal ''g1'' GoalInProgress [''c1'', ''c2'']))"
    by (simp_all add: sample_goal_def)
  have event: "ev_mutation (settle_event two_criteria_run) =
      CriterionSettled ''g1'' ''c1'' (Some ''kc1'') ''evidence'' 1 sample_commit"
    "\<not> ev_legacy (settle_event two_criteria_run)"
    by (simp_all add: settle_event_def sample_event_def ev_legacy_def)
  from single_goal_settles [OF schema payload goal event ok] show ?thesis by (elim conjE exE) (intro exI conjI)
qed

definition two_goal_run :: run where
  "two_goal_run = sample_ulw_run [sample_goal ''g1'' GoalInProgress [''c1''], sample_goal ''g2'' GoalPending [''c2'']]"

text \<open>
  With more goals it need not hold. There are a well-formed run, a well-formed event and an
  authority on which the transition succeeds and publishes a run that its own schema rejects: the
  active goal is complete, another goal is pending, and the payload still names the former.
\<close>

theorem settling_active_goal_breaks_snapshot:
  "runSchema sample_env two_goal_run = Some two_goal_run \<and>
   stateEventSchema sample_env (settle_event two_goal_run) = Some (settle_event two_goal_run) \<and>
   (\<exists>p. prepareTransition (sample_index [two_goal_run]) (Some two_goal_run) (settle_event two_goal_run)
        (Some (sample_authority two_goal_run [''c1''])) = Inr p \<and>
      decodeRun sample_env sample_root (stringify (prep_run p)) = Inl MalformedRun)"
proof -
  have "isl (settled two_goal_run) = False" by code_simp
  then have "prepareTransition (sample_index [two_goal_run]) (Some two_goal_run) (settle_event two_goal_run)
      (Some (sample_authority two_goal_run [''c1''])) = Inr (projr (settled two_goal_run))"
    by (simp add: settled_def)
  moreover have "decodeRun sample_env sample_root (stringify (prep_run (projr (settled two_goal_run)))) = Inl MalformedRun"
    by code_simp
  moreover have "runSchema sample_env two_goal_run = Some two_goal_run"
    "stateEventSchema sample_env (settle_event two_goal_run) = Some (settle_event two_goal_run)"
    by code_simp+
  ultimately show ?thesis by blast
qed

section \<open>The index\<close>

lemma entry_of_run_normal:
  assumes "runSchema E r = Some r" "n \<le> max_safe_integer"
  shows "entrySchema E (entry_of_run r n h) = Some (entry_of_run r n h)"
  using assms
  by (simp add: entrySchema_def entry_of_run_def runSchema_normal_iff ownerSchema_normal_iff counter_def uuid_schema_def)

lemma deriveIndex_normal:
  assumes "activeIndexSchema E i = Some i" "runSchema E r = Some r" "n \<le> max_safe_integer"
  shows "activeIndexSchema E (deriveIndex i r n) = Some (deriveIndex i r n)"
proof -
  have i: "indexVersionSchema (idx_version i) = Some (idx_version i)"
    "list_all (\<lambda>e. entrySchema E e = Some e) (idx_entries i)"
    using assms(1) by (cases i; auto simp: activeIndexSchema_def array_of_normal [symmetric] elim!: bind_SomeE)+
  have "array_of (entrySchema E) (idx_entries (deriveIndex i r n)) = Some (idx_entries (deriveIndex i r n))"
    using i(2) assms(2,3)
    by (auto simp: array_of_normal deriveIndex_entries list_all_iff entry_of_run_normal split: option.splits)
  with i(1) assms(3) show ?thesis
    by (cases "deriveIndex i r n")
      (metis (no_types, lifting) activeIndexSchema_def active_index.simps(1,2,3) bind.bind_lunit counter_def deriveIndex_simps)
qed

text \<open>
  The index a transition publishes decodes to itself exactly when the run is terminal or no
  other run occupies its slot of workflow and session. Nothing in the transition itself excludes
  an occupied slot: adopting a run into a session that already owns one publishes an index that
  every later read rejects.
\<close>

theorem published_index_decodes_iff:
  assumes "activeIndexSchema E i = Some i" "index_unique (idx_entries i)"
    and "runSchema E (prep_run p) = Some (prep_run p)" "ev_sequence e \<le> max_safe_integer"
    and "prepareTransition i current e authority = Inr p"
  shows "decodeActiveIndex E (stringify (prep_index p)) = Inr (prep_index p) \<longleftrightarrow>
    terminal_run (prep_run p) \<or> \<not> slot_taken i (prep_run p)"
proof -
  obtain "next" where p: "prep_index p = deriveIndex i (prep_run p) (ev_sequence e)"
    using assms(5) by (rule prepareTransition_InrE)
  have "activeIndexSchema E (prep_index p) = Some (prep_index p)"
    unfolding p by (rule deriveIndex_normal [OF assms(1,3,4)])
  then show ?thesis
    using deriveIndex_unique [OF assms(2), of "prep_run p" "ev_sequence e"] decodeActiveIndexD [of E "stringify (prep_index p)"]
      decodeActiveIndex_stringify [of E "prep_index p"]
    unfolding p by metis
qed

definition foreign_run :: run where
  "foreign_run = sample_start_run\<lparr>run_runId := sample_uuid (CHR ''3''),
     run_owner := \<lparr>own_sessionId = ''s2'', own_epoch = 1\<rparr>\<rparr>"

definition crowded_index :: active_index where
  "crowded_index = sample_index [sample_start_run, foreign_run]"

definition crowding_event :: state_event where
  "crowding_event = (sample_event 1 paused_run None (OwnerAdopted ''s2''))"

definition crowded :: "transition_error + prepared_transition" where
  "crowded = prepareTransition crowded_index (Some paused_run) crowding_event None"

theorem published_index_decodes_iff_witness:
  "decodeActiveIndex sample_env (stringify (prep_index (projr crowded))) \<noteq> Inr (prep_index (projr crowded))"
proof -
  have "isl crowded = False" by code_simp
  then have ok: "prepareTransition crowded_index (Some paused_run) crowding_event None = Inr (projr crowded)"
    by (simp add: crowded_def)
  have "activeIndexSchema sample_env crowded_index = Some crowded_index" "index_unique (idx_entries crowded_index)"
    "runSchema sample_env (prep_run (projr crowded)) = Some (prep_run (projr crowded))" by code_simp+
  moreover have "ev_sequence crowding_event \<le> max_safe_integer"
    by (simp add: crowding_event_def sample_event_def max_safe_integer_def)
  moreover have "\<not> terminal_run (prep_run (projr crowded))" "slot_taken crowded_index (prep_run (projr crowded))"
    by code_simp+
  ultimately show ?thesis using published_index_decodes_iff [OF _ _ _ _ ok, of sample_env] by blast
qed

text \<open>
  After a transition to a run that is not terminal, whose slot is free, the index resolves the
  owner's session to exactly that run; the entries of other runs are the former ones, and a
  terminal run has no entry.
\<close>

theorem published_index_resolves:
  assumes "index_unique (idx_entries i)" "prepareTransition i current e authority = Inr p"
    and "\<not> terminal_run (prep_run p)" "\<not> slot_taken i (prep_run p)"
  shows "resolveActiveRun (prep_index p) (prep_run p # runs) (ev_workflow e) (own_sessionId (run_owner (prep_run p)))
      = Inr (prep_run p) \<and>
    filter (\<lambda>x. ent_runId x \<noteq> ev_runId e) (idx_entries (prep_index p)) =
      filter (\<lambda>x. ent_runId x \<noteq> ev_runId e) (idx_entries i)"
proof -
  obtain "next" where n: "prep_index p = deriveIndex i (prep_run p) (ev_sequence e)"
    "run_runId next = ev_runId e" "run_workflow next = ev_workflow e"
    "prep_run p = next\<lparr>run_transactionRevision := ev_sequence e\<rparr>"
    using assms(2) by (rule prepareTransition_InrE)
  have same: "run_workflow (prep_run p) = ev_workflow e" "run_runId (prep_run p) = ev_runId e"
    "run_transactionRevision (prep_run p) = ev_sequence e"
    using n(2,3) by (simp_all add: n(4) run_workflow_def)
  have "filter (\<lambda>x. ent_runId x \<noteq> ev_runId e) (idx_entries (prep_index p)) =
      filter (\<lambda>x. ent_runId x \<noteq> ev_runId e) (idx_entries i)"
    by (simp add: n(1) deriveIndex_entries same(2) entry_of_run_def split: option.splits)
  with deriveIndex_resolves [OF assms(1,3,4) same(3)] show ?thesis
    by (simp only: n(1) [symmetric] same(1) simp_thms)
qed

theorem published_index_resolves_witness:
  "resolveActiveRun (prep_index adopted) [prep_run adopted] StartWork ''s2'' = Inr (prep_run adopted)"
proof -
  have "isl (prepareTransition (sample_index [sample_start_run]) (Some paused_run) adopt_event None) = False"
    by code_simp
  then have ok: "prepareTransition (sample_index [sample_start_run]) (Some paused_run) adopt_event None = Inr adopted"
    by (simp add: adopted_def)
  have side: "index_unique (idx_entries (sample_index [sample_start_run]))" "\<not> terminal_run (prep_run adopted)"
    "\<not> slot_taken (sample_index [sample_start_run]) (prep_run adopted)" by code_simp+
  have "ev_workflow adopt_event = StartWork" "own_sessionId (run_owner (prep_run adopted)) = ''s2''" by code_simp+
  with published_index_resolves [OF side(1) ok side(2,3), of "[]"] show ?thesis by simp
qed

section \<open>Evidence behind recorded success\<close>

text \<open>The criteria of a run that have passed, each with its goal.\<close>

definition passed_of :: "goal list \<Rightarrow> (string \<times> string) list" where
  "passed_of gs = concat (map (\<lambda>g. map (\<lambda>c. (goal_id g, crit_id c))
     (filter (\<lambda>c. crit_status c = CritPass) (goal_criteria g))) gs)"

definition passed_criteria :: "run \<Rightarrow> (string \<times> string) list" where
  "passed_criteria r = (case run_payload r of StartPayload _ \<Rightarrow> [] | UlwPayload p \<Rightarrow> passed_of (ul_goals p))"

lemma passed_of_iff:
  "(i, j) \<in> set (passed_of gs) \<longleftrightarrow>
     (\<exists>g\<in>set gs. goal_id g = i \<and> (\<exists>c\<in>set (goal_criteria g). crit_id c = j \<and> crit_status c = CritPass))"
  by (auto simp: passed_of_def)

lemma passed_of_map:
  assumes "\<And>g. g \<in> set gs \<Longrightarrow> goal_id (f g) = goal_id g"
    and "\<And>g c. g \<in> set gs \<Longrightarrow> c \<in> set (goal_criteria (f g)) \<Longrightarrow> crit_status c = CritPass \<Longrightarrow>
      (goal_id g, crit_id c) \<in> set (passed_of gs)"
  shows "set (passed_of (map f gs)) \<subseteq> set (passed_of gs)"
proof (rule subrelI)
  fix i j
  assume "(i, j) \<in> set (passed_of (map f gs))"
  then obtain g c where g: "g \<in> set gs" "goal_id (f g) = i" "c \<in> set (goal_criteria (f g))" "crit_id c = j"
    "crit_status c = CritPass" by (auto simp: passed_of_iff)
  from assms(2) [OF g(1,3,5)] assms(1) [OF g(1)] show "(i, j) \<in> set (passed_of gs)" by (simp add: g(2,4))
qed

lemma passed_ofI: "g \<in> set gs \<Longrightarrow> c \<in> set (goal_criteria g) \<Longrightarrow> crit_status c = CritPass \<Longrightarrow>
    (goal_id g, crit_id c) \<in> set (passed_of gs)"
  by (auto simp: passed_of_iff)

text \<open>Settling a criterion passes no other one, and no other mutation passes any.\<close>

lemma settle_passed:
  assumes "(i, j) \<in> set (passed_of (map (settle_goal i' (settle_item j' er rv cc)) gs))" "(i, j) \<notin> set (passed_of gs)"
  shows "i = i' \<and> j = j'"
  using assms by (auto simp: passed_of_iff settle_goal_def settle_item_def Let_def split: if_splits)

lemma control_passed: "reduceWorkflowControl r c = Inr r' \<Longrightarrow> passed_criteria r' = passed_criteria r"
  by (auto simp: control_defs passed_criteria_def split: if_splits option.splits payload.splits command_kind.splits)

lemma steer_passed:
  assumes "steerRun r p cs an = Some r'" "run_payload r = UlwPayload p"
  shows "set (passed_criteria r') \<subseteq> set (passed_criteria r)"
  using assms(1)
proof (rule steerRun_cases)
  fix active goals
  assume g: "goals = map (\<lambda>g. if goal_id g = active
      then g\<lparr>goal_criteria := goal_criteria g @ map steered cs\<rparr> else g) (ul_goals p)"
    and r': "r' = r\<lparr>run_revision := run_revision r + 1, run_payload := UlwPayload (p\<lparr>
       ul_annotation := (case an of None \<Rightarrow> ul_annotation p | Some a \<Rightarrow> Some a), ul_goals := goals\<rparr>)\<rparr>"
  have "set (passed_of goals) \<subseteq> set (passed_of (ul_goals p))"
    unfolding g by (rule passed_of_map) (auto simp: steered_def intro: passed_ofI split: if_splits)
  then show ?thesis by (simp add: passed_criteria_def r' assms(2))
qed

lemma failure_passed:
  assumes "recordCriterionFailure r p i j f = Inr r'" "run_payload r = UlwPayload p"
  shows "set (passed_criteria r') \<subseteq> set (passed_criteria r)"
proof -
  obtain g c where g: "goal_of p i = Some g" and c: "criterion_of g j = Some c"
    using assms(1) by (auto simp: recordCriterionFailure_def split: option.splits)
  define h :: "criterion \<Rightarrow> criterion" where "h = (\<lambda>candidate. if crit_id candidate = j
     then candidate\<lparr>crit_status := CritFail, crit_identicalFailureFingerprint := Some f,
       crit_identicalFailureCount := (if crit_identicalFailureFingerprint c = Some f
         then crit_identicalFailureCount candidate + 1 else 1)\<rparr> else candidate)"
  have h: "crit_status (h d) = CritPass \<Longrightarrow> h d = d" for d
    by (auto simp: h_def split: if_splits)
  have r': "r' = set_goals r p (map (\<lambda>candidate. if goal_id candidate = i
      then candidate\<lparr>goal_criteria := map h (goal_criteria g)\<rparr> else candidate) (ul_goals p))"
    using assms(1) g c unfolding h_def
    by (auto simp: recordCriterionFailure_def Let_def split: if_splits)
  note member = goal_of_SomeD [OF g]
  have "set (passed_of (map (\<lambda>candidate. if goal_id candidate = i
      then candidate\<lparr>goal_criteria := map h (goal_criteria g)\<rparr> else candidate) (ul_goals p))) \<subseteq> set (passed_of (ul_goals p))"
  proof (rule passed_of_map)
    fix d candidate
    assume "candidate \<in> set (ul_goals p)" "crit_status d = CritPass"
      "d \<in> set (goal_criteria (if goal_id candidate = i
         then candidate\<lparr>goal_criteria := map h (goal_criteria g)\<rparr> else candidate))"
    then show "(goal_id candidate, crit_id d) \<in> set (passed_of (ul_goals p))"
      using member passed_ofI [of candidate "ul_goals p" d] passed_ofI [of g "ul_goals p" d]
      by (cases "goal_id candidate = i") (auto dest: h)
  qed auto
  then show ?thesis by (simp add: passed_criteria_def r' assms(2) set_goals_def)
qed

lemma passed_criteria_frame:
  assumes "controlRun r e authority = Some r'"
  shows "settleCriterion r e authority = Some r' \<or> set (passed_criteria r') \<subseteq> set (passed_criteria r)"
  using assms
proof (cases rule: controlRun_cases)
  case (control c)
  then show ?thesis using control_passed by simp
next
  case (steer p cs an)
  then show ?thesis using steer_passed by blast
next
  case (failure p i j f)
  then show ?thesis using failure_passed by blast
next
  case (cycle p i)
  let ?f = "\<lambda>candidate. if goal_id candidate = i
    then candidate\<lparr>goal_cycleCount := goal_cycleCount candidate + 1\<rparr> else candidate"
  have "r' = set_goals r p (map ?f (ul_goals p))"
    using cycle(3) by (auto simp: startGoalCycle_def split: option.splits if_splits)
  moreover have "set (passed_of (map ?f (ul_goals p))) \<subseteq> set (passed_of (ul_goals p))"
    by (rule passed_of_map) (auto intro: passed_ofI split: if_splits)
  ultimately show ?thesis using cycle(1) by (simp add: passed_criteria_def set_goals_def)
next
  case evidence
  then show ?thesis by (auto elim!: acceptTaskEvidence_cases simp: passed_criteria_def)
next
  case terminal
  then show ?thesis by (auto elim!: terminalRun_cases simp: passed_criteria_def setRunStatus_def split: payload.splits)
next
  case attempt
  then show ?thesis by (auto elim!: attemptContinuation_cases simp: passed_criteria_def)
next
  case stuck
  then show ?thesis by (auto elim!: stopContinuation_cases simp: passed_criteria_def setRunStatus_def split: payload.splits)
qed simp_all

text \<open>
  C5. A start-work run becomes completed by a transition only when, for every task of its plan, the
  acceptance ledger holds an entry for that task accepted under the run's present owner and epoch
  for exactly the Git head the run expects; the event names those entries, and the last task has
  one in the current task generation and progress revision.
\<close>

theorem completion_needs_acceptances:
  assumes "prepareTransition i (Some r) e authority = Inr p" "run_payload r = StartPayload q"
    and "sw_status q \<noteq> Completed" "run_status_of (prep_run p) = Completed"
  shows "\<exists>auth ids task. authority = Some auth \<and> ev_mutation e = WorkflowTerminal TermCompleted (Some ids) task \<and>
    list_all2 (\<lambda>t i. \<exists>a\<in>set (auth_accepted auth). matchesRun r a \<and> acc_taskId a = Some t \<and> acc_idempotencyKey a = i)
      (plan_taskIds (sw_plan q)) ids \<and>
    currentAcceptance r auth (last (plan_taskIds (sw_plan q))) \<noteq> None"
proof -
  obtain "next" where n: "controlRun r e authority = Some next"
    "prep_run p = next\<lparr>run_transactionRevision := ev_sequence e\<rparr>"
    using assms(1) by (rule transition_existing)
  have done_: "run_status_of next = Completed" using assms(4) by (simp add: n(2) run_status_of_def)
  show ?thesis
    using n(1)
  proof (cases rule: controlRun_cases)
    case terminal
    then show ?thesis
    proof (cases rule: terminalRun_cases)
      case (completed auth q' ids t)
      with assms(2) have "startCompletionAcceptanceIds r q auth = Some ids" by simp
      with startCompletionAcceptanceIds_SomeD [OF this] completed(1,2) show ?thesis
        by (auto simp: startCompletionAcceptanceIds_def Let_def split: if_splits)
    next
      case failed
      with done_ show ?thesis by simp
    qed
  next
    case (control c)
    with done_ assms(2,3) show ?thesis
      by (auto simp: control_defs run_status_of_def split: if_splits option.splits command_kind.splits)
  next
    case settle
    with done_ assms(2,3) show ?thesis by (auto elim!: settleCriterion_cases simp: run_status_of_def)
  next
    case evidence
    with done_ assms(2,3) show ?thesis by (auto elim!: acceptTaskEvidence_cases simp: run_status_of_def)
  next
    case attempt
    with done_ assms(2,3) show ?thesis by (auto elim!: attemptContinuation_cases simp: run_status_of_def)
  next
    case stuck
    with done_ assms(2,3) show ?thesis
      by (auto elim!: stopContinuation_cases simp: run_status_of_def setRunStatus_def)
  qed (use done_ assms(2,3) in \<open>auto simp: run_status_of_def\<close>)
qed

definition completion_event :: state_event where
  "completion_event = sample_event 1 sample_start_run (Some 1) (WorkflowTerminal TermCompleted (Some [''k1'', ''k2'']) None)"

definition completion :: "transition_error + prepared_transition" where
  "completion = prepareTransition (sample_index [sample_start_run]) (Some sample_start_run) completion_event
     (Some (sample_authority sample_start_run [''1'', ''2'']))"

theorem completion_needs_acceptances_witness:
  "\<exists>auth. currentAcceptance sample_start_run auth ''2'' \<noteq> None"
proof -
  have "isl completion = False" by code_simp
  then have ok: "prepareTransition (sample_index [sample_start_run]) (Some sample_start_run) completion_event
      (Some (sample_authority sample_start_run [''1'', ''2''])) = Inr (projr completion)"
    by (simp add: completion_def)
  have payload: "run_payload sample_start_run = StartPayload \<lparr>sw_status = Active, sw_plan = sample_plan\<rparr>"
    by (simp add: sample_start_run_def)
  have "run_status_of (prep_run (projr completion)) = Completed" by code_simp
  from completion_needs_acceptances [OF ok payload _ this] show ?thesis
    by (auto simp: sample_plan_def)
qed

text \<open>
  C6. A criterion of a ULW loop passes only on evidence. Whatever the event: when a criterion of a
  goal has passed after a transition and had not before, the event settles exactly this criterion
  of this goal, is no migrated legacy event, and carries the idempotency key of an entry of the
  acceptance ledger, accepted for that criterion under the run's present owner and epoch, for the
  head the run expects, in the current task generation and at the current progress revision.
\<close>

theorem criterion_pass_needs_acceptance:
  assumes "prepareTransition i (Some r) e authority = Inr p"
    and "(goalId, criterionId) \<in> set (passed_criteria (prep_run p))"
    and "(goalId, criterionId) \<notin> set (passed_criteria r)"
  shows "\<exists>auth a evidenceRef. authority = Some auth \<and> a \<in> set (auth_accepted auth) \<and>
    ev_mutation e = CriterionSettled goalId criterionId (Some (acc_idempotencyKey a)) evidenceRef
      (acc_runRevision a) (acc_captureCommit a) \<and> \<not> ev_legacy e \<and>
    acc_taskId a = Some criterionId \<and>
    acc_ownerSessionId a = own_sessionId (run_owner r) \<and> acc_ownerEpoch a = own_epoch (run_owner r) \<and>
    run_expectedHead r = Some (acc_captureCommit a) \<and> acc_attempt a = run_progressRevision r \<and>
    ev_taskGeneration e = Some (auth_taskGeneration auth) \<and>
    run_progressRevision (prep_run p) = run_progressRevision r + 1"
proof -
  obtain "next" where n: "controlRun r e authority = Some next"
    "prep_run p = next\<lparr>run_transactionRevision := ev_sequence e\<rparr>"
    using assms(1) by (rule transition_existing)
  have "(goalId, criterionId) \<in> set (passed_criteria next)" using assms(2) by (simp add: n(2) passed_criteria_def)
  then have settle: "settleCriterion r e authority = Some next"
    using passed_criteria_frame [OF n(1)] assms(3) by blast
  then show ?thesis
  proof (cases rule: settleCriterion_cases)
    case legacy
    with assms(3) \<open>(goalId, criterionId) \<in> set (passed_criteria next)\<close> show ?thesis by simp
  next
    case (settled q i' j a er rv cc auth accepted g c goals)
    have "goalId = i' \<and> criterionId = j"
      using \<open>(goalId, criterionId) \<in> set (passed_criteria next)\<close> assms(3) settled(1,14,15)
        settle_passed [of goalId criterionId i' j er rv cc "ul_goals q"]
      by (simp add: passed_criteria_def)
    with currentAcceptance_SomeD [OF settled(6)] settled(2,4,5,7-10) show ?thesis
      by (intro exI [of _ auth] exI [of _ accepted] exI [of _ er]) (auto simp: matchesRun_def n(2) settled(15))
  qed
qed

theorem criterion_pass_needs_acceptance_witness:
  "run_progressRevision (prep_run (projr (settled two_criteria_run))) = run_progressRevision two_criteria_run + 1"
proof -
  have "isl (settled two_criteria_run) = False" by code_simp
  then have ok: "prepareTransition (sample_index [two_criteria_run]) (Some two_criteria_run) (settle_event two_criteria_run)
      (Some (sample_authority two_criteria_run [''c1''])) = Inr (projr (settled two_criteria_run))"
    by (simp add: settled_def)
  have "passed_criteria (prep_run (projr (settled two_criteria_run))) = [(''g1'', ''c1'')]"
    "passed_criteria two_criteria_run = []" by code_simp+
  then have "(''g1'', ''c1'') \<in> set (passed_criteria (prep_run (projr (settled two_criteria_run))))"
    "(''g1'', ''c1'') \<notin> set (passed_criteria two_criteria_run)" by simp_all
  from criterion_pass_needs_acceptance [OF ok this] show ?thesis by blast
qed

section \<open>Continuation attempts\<close>

text \<open>
  A run is declared stuck only after two continuation attempts without progress: in every
  sequence of accepted events that starts where the current progress has not been seen and ends
  with the stuck event, at least two attempts were recorded, and the run ends up stuck.
\<close>

theorem stuck_after_two_attempts:
  assumes "cont_progressRevisionSeen (run_continuation r) < run_progressRevision r"
    and "apply_events r es = Some r'" "controlRun r' e authority = Some r''"
    and "ev_mutation e = ContinuationStuck leaf"
  shows "2 \<le> length (filter (is_attempt \<circ> fst) es) \<and> run_status_of r'' = Stuck"
proof -
  have "seen_ok r" "attempts_without_progress r = 0"
    using assms(1) by (auto simp: seen_ok_def attempts_without_progress_def)
  with apply_events_attempts [OF assms(2)] stuck_needs_attempts [OF assms(3,4)] show ?thesis by simp
qed

definition attempt_events :: "run \<Rightarrow> (state_event \<times> receipt_authority option) list" where
  "attempt_events r = [(sample_event 1 r None (ContinuationAttempted ''l1'' 1), None),
     (sample_event 2 r None (ContinuationAttempted ''l2'' 1), None)]"

theorem stuck_after_two_attempts_witness:
  "run_status_of (the (Option.bind (apply_events sample_start_run (attempt_events sample_start_run))
     (\<lambda>r. controlRun r (sample_event 3 r None (ContinuationStuck ''l3'')) None))) = Stuck"
proof -
  define r' where "r' = the (apply_events sample_start_run (attempt_events sample_start_run))"
  have "apply_events sample_start_run (attempt_events sample_start_run) \<noteq> None" by code_simp
  then have 1: "apply_events sample_start_run (attempt_events sample_start_run) = Some r'"
    by (simp add: r'_def)
  have "controlRun r' (sample_event 3 r' None (ContinuationStuck ''l3'')) None \<noteq> None"
    unfolding r'_def by code_simp
  then have 2: "controlRun r' (sample_event 3 r' None (ContinuationStuck ''l3'')) None =
      Some (the (controlRun r' (sample_event 3 r' None (ContinuationStuck ''l3'')) None))" by simp
  have "cont_progressRevisionSeen (run_continuation sample_start_run) < run_progressRevision sample_start_run"
    by (simp add: sample_start_run_def sample_continuation_def)
  from stuck_after_two_attempts [OF this 1 2] show ?thesis by (simp add: 1 sample_event_def)
qed

section \<open>Terminal runs\<close>

text \<open>
  A terminal run whose payload satisfies its schema cannot be paused, resumed, cancelled,
  adopted or given a new plan: the transition refuses every such event.
\<close>

theorem terminal_run_refuses_control:
  assumes "terminal_run r" "runSchema E r = Some r"
    and "kind_of_mutation (ev_mutation e) \<in> {KWorkflowControlled, KOwnerAdopted, KPlanReconciled}"
  shows "\<exists>err. prepareTransition i (Some r) e authority = Inl err"
proof (cases "prepareTransition i (Some r) e authority")
  case (Inr p)
  then obtain "next" where "controlRun r e authority = Some next" by (rule transition_existing)
  moreover have "status_in_schema (run_payload r)"
    using assms(2) by (auto simp: status_in_schema_def runSchema_normal_iff ulwPayloadSchema_normal_iff
        split: payload.splits)
  then have "\<exists>err. reduceWorkflowControl r c = Inl err" for c
    by (rule control_terminal [OF assms(1)])
  then have "result_run (reduceWorkflowControl r c) = None" for c
    by (metis result_run_def sum.case(1))
  ultimately show ?thesis
    using assms(3) by (auto simp: controlRun_def split: mutation.splits payload.splits)
qed blast

theorem terminal_run_refuses_control_witness:
  "\<exists>err. prepareTransition (prep_index (projr completion)) (Some (prep_run (projr completion)))
     (sample_event 2 (prep_run (projr completion)) None (WorkflowControlled CtlCancel)) None = Inl err"
proof (rule terminal_run_refuses_control)
  show "terminal_run (prep_run (projr completion))" by code_simp
  show "runSchema sample_env (prep_run (projr completion)) = Some (prep_run (projr completion))" by code_simp
qed (simp add: sample_event_def)

section \<open>Version 1 events under a version 2 index\<close>

lemma prepareTransition_Inr_iff:
  "prepareTransition i current e authority = Inr p \<longleftrightarrow>
     exp_indexRevision (ev_expected e) = idx_revision i \<and> ev_sequence e = idx_revision i + 1 \<and>
     (\<exists>next. next_run current e authority = Inr (Some next) \<and>
        run_runId next = ev_runId e \<and> run_workflow next = ev_workflow e \<and>
        p = \<lparr>prep_run = next\<lparr>run_transactionRevision := ev_sequence e\<rparr>,
             prep_index = deriveIndex i (next\<lparr>run_transactionRevision := ev_sequence e\<rparr>) (ev_sequence e)\<rparr>)"
  by (auto simp: prepareTransition_def Let_def split: if_splits sum.splits option.splits)

lemma upgraded_event_same:
  assumes "idx_version i \<noteq> IndexV1" "\<not> ev_is_v2 e" "\<And>q. ev_mutation e \<noteq> RunCreated q"
  shows "persistedEventForIndex i e =
    e\<lparr>ev_version := EventV2 None (if upgraded_task_scope (ev_kind e) then Some 1 else None) False\<rparr>"
  using assms by (cases e) (auto simp: persistedEventForIndex_def Let_def split: mutation.splits)

lemma controlRun_version_irrelevant:
  assumes "\<not> ev_is_v2 e" "ev_mutation e = m"
    and "kind_of_mutation m \<notin> {KRunCreated, KCriterionSettled, KTaskEvidenceAccepted, KWorkflowTerminal}"
  shows "controlRun r (e\<lparr>ev_version := EventV2 None g False\<rparr>) authority = controlRun r e authority"
  using assms
  by (cases m) (simp_all add: controlRun_def ev_legacy_def reduceRuntimeProgress_def attemptContinuation_def
      stopContinuation_def ev_is_v2_def)

text \<open>
  Upgrading a version 1 event to the index's version does not change its effect when its kind
  is not bound to receipts and is not steering: the transition accepts the upgraded event exactly
  when it accepts the original, with the same run and index.
\<close>

theorem upgraded_event_equivalent:
  assumes "idx_version i \<noteq> IndexV1" "\<not> ev_is_v2 e" "ev_kind e = kind_of_mutation (ev_mutation e)"
    and "ev_kind e \<notin> {KRunCreated, KWorkflowSteered, KCriterionSettled, KTaskEvidenceAccepted, KWorkflowTerminal}"
  shows "prepareTransition i (Some r) (persistedEventForIndex i e) authority = Inr p \<longleftrightarrow>
    prepareTransition i (Some r) e authority = Inr p"
proof -
  define g where "g = (if upgraded_task_scope (ev_kind e) then Some (1::nat) else None)"
  let ?e = "e\<lparr>ev_version := EventV2 None g False\<rparr>"
  have not_created: "ev_mutation e \<noteq> RunCreated q" for q using assms(3,4) by auto
  have e: "persistedEventForIndex i e = ?e"
    unfolding g_def by (rule upgraded_event_same [OF assms(1,2) not_created])
  have same: "controlRun r ?e authority = controlRun r e authority"
    using assms(3,4) by (intro controlRun_version_irrelevant [OF assms(2) refl]) auto
  have "task_scoped_kind (ev_kind e) = (g \<noteq> None)"
    using assms(4) unfolding g_def by (cases "ev_kind e") auto
  then have "expectation_error r ?e = None \<longleftrightarrow> expectation_error r e = None"
    using assms(2)
    by (auto simp: expectation_error_def ev_is_v2_def ev_expectedHead_def ev_taskGeneration_def split: if_splits)
  then have "next_run (Some r) ?e authority = Inr n \<longleftrightarrow> next_run (Some r) e authority = Inr n" for n
    using not_created same
    by (cases "expectation_error r e"; cases "expectation_error r ?e")
      (auto simp: next_run_def split: mutation.splits)
  then show ?thesis
    unfolding e prepareTransition_Inr_iff by simp
qed

definition v1_pause :: state_event where
  "v1_pause = (sample_event 1 sample_start_run None (WorkflowControlled CtlPause))\<lparr>ev_version := EventV1\<rparr>"

theorem upgraded_event_equivalent_witness:
  "\<exists>p. prepareTransition (sample_index [sample_start_run]) (Some sample_start_run)
     (persistedEventForIndex (sample_index [sample_start_run]) v1_pause) None = Inr p"
proof -
  let ?t = "prepareTransition (sample_index [sample_start_run]) (Some sample_start_run) v1_pause None"
  have "isl ?t = False" by code_simp
  then have "?t = Inr (projr ?t)" by simp
  moreover have "idx_version (sample_index [sample_start_run]) \<noteq> IndexV1" "\<not> ev_is_v2 v1_pause"
    "ev_kind v1_pause = kind_of_mutation (ev_mutation v1_pause)"
    "ev_kind v1_pause \<notin> {KRunCreated, KWorkflowSteered, KCriterionSettled, KTaskEvidenceAccepted, KWorkflowTerminal}"
    by (simp_all add: sample_index_def v1_pause_def sample_event_def ev_is_v2_def)
  ultimately show ?thesis using upgraded_event_equivalent by blast
qed

text \<open>
  A version 1 steering event cannot be committed under a version 2 index: the upgrade gives it
  no task generation, which the transition demands of every steering event.
\<close>

theorem upgraded_steering_refused:
  assumes "idx_version i \<noteq> IndexV1" "\<not> ev_is_v2 e" "ev_kind e = KWorkflowSteered"
    and "ev_mutation e = WorkflowSteered cs an"
  shows "\<exists>err. prepareTransition i current (persistedEventForIndex i e) authority = Inl err"
proof (cases "prepareTransition i current (persistedEventForIndex i e) authority")
  case (Inr p)
  let ?e = "e\<lparr>ev_version := EventV2 None None False\<rparr>"
  have e: "persistedEventForIndex i e = ?e"
    using upgraded_event_same [OF assms(1,2)] assms(3,4) by simp
  from Inr obtain "next" where "next_run current ?e authority = Inr (Some next)"
    unfolding e by (rule prepareTransition_InrE)
  then obtain r where "expectation_error r ?e = None"
    using assms(4) by (auto simp: next_run_def split: option.splits)
  from expectation_errorD(5) [OF this] assms(3) show ?thesis
    by (simp add: ev_is_v2_def ev_taskGeneration_def)
qed blast

definition v1_steer :: state_event where
  "v1_steer = (sample_event 1 two_criteria_run None (WorkflowSteered
     [\<lparr>sc_id = ''c3'', sc_scenario = ''s'', sc_observable = ''o'', sc_evidenceLogicalId = ''l''\<rparr>] None))
     \<lparr>ev_version := EventV1\<rparr>"

theorem upgraded_steering_refused_witness:
  "\<exists>err. prepareTransition (sample_index [two_criteria_run]) (Some two_criteria_run)
     (persistedEventForIndex (sample_index [two_criteria_run]) v1_steer) None = Inl err"
  by (rule upgraded_steering_refused [OF _ _ _ refl [THEN trans]])
    (simp_all add: sample_index_def v1_steer_def sample_event_def ev_is_v2_def)

end
