(* ===== verification/Atomic_Files.thy ===== *)
theory Atomic_Files
  imports Omp_Prelude
begin

text \<open>
  Publication of a file (\<^verbatim>\<open>src/state/atomic-file.ts\<close>): the bytes go to a temporary file in the
  same directory, which is then renamed over the target or linked to a fresh name. A slot is the
  content of the target path, \<open>None\<close> when there is no file. What the host does at each step
  (the deadline, the outcome of a system call, the death of the process) is an input.
\<close>

datatype step_result = StepOk | StepThrows | StepKilled

text \<open>
  An attempt to publish. \<open>RenameThenThrows\<close>: the target was published and the removal of the
  temporary file, in the \<^verbatim>\<open>finally\<close> block, throws.
\<close>

datatype rename_result =
  RenameOk | RenameRetryable | RenameFatal | RenameThenThrows | RenameThenKilled | RenameKilled

text \<open>
  The steps of one publication: the first deadline check, the preparation of the temporary file,
  the guard before publication, and the attempts, each with the deadline check before it. A
  creation makes one attempt.
\<close>

record write_io =
  wi_deadline :: bool
  wi_prepare :: step_result
  wi_guard :: step_result
  wi_attempts :: "(bool \<times> rename_result) list"

datatype write_outcome = Published | WriteDeadline | WriteThrows | WriteKilled

text \<open>
  The loop of \<^verbatim>\<open>atomicReplace\<close>: whether the target was replaced, and how the loop ended. When
  the attempts run out the process is still retrying.
\<close>

fun rename_loop :: "(bool \<times> rename_result) list \<Rightarrow> bool \<times> write_outcome" where
  "rename_loop [] = (False, WriteKilled)"
| "rename_loop ((valid, res) # attempts) =
     (if \<not> valid then (False, WriteDeadline)
      else case res of
        RenameOk \<Rightarrow> (True, Published)
      | RenameRetryable \<Rightarrow> rename_loop attempts
      | RenameFatal \<Rightarrow> (False, WriteThrows)
      | RenameThenThrows \<Rightarrow> (True, WriteThrows)
      | RenameThenKilled \<Rightarrow> (True, WriteKilled)
      | RenameKilled \<Rightarrow> (False, WriteKilled))"

text \<open>Everything before the publication: the first deadline check, the temporary file, the guard.\<close>

definition preparedTemp :: "write_io \<Rightarrow> write_outcome option" where
  "preparedTemp io =
     (if \<not> wi_deadline io then Some WriteDeadline
      else case wi_prepare io of
        StepThrows \<Rightarrow> Some WriteThrows
      | StepKilled \<Rightarrow> Some WriteKilled
      | StepOk \<Rightarrow>
        (case wi_guard io of StepThrows \<Rightarrow> Some WriteThrows | StepKilled \<Rightarrow> Some WriteKilled | StepOk \<Rightarrow> None))"

definition atomicReplace :: "write_io \<Rightarrow> 'a \<Rightarrow> 'a option \<Rightarrow> 'a option \<times> write_outcome" where
  "atomicReplace io bytes slot = (case preparedTemp io of
     Some out \<Rightarrow> (slot, out)
   | None \<Rightarrow> (case rename_loop (wi_attempts io) of
       (replaced, out) \<Rightarrow> (if replaced then Some bytes else slot, out)))"

text \<open>
  \<^verbatim>\<open>link\<close> makes one attempt and fails when the target exists.
\<close>

definition atomicCreate :: "write_io \<Rightarrow> 'a \<Rightarrow> 'a option \<Rightarrow> 'a option \<times> write_outcome" where
  "atomicCreate io bytes slot = (case preparedTemp io of
     Some out \<Rightarrow> (slot, out)
   | None \<Rightarrow>
     (case wi_attempts io of
        [] \<Rightarrow> (slot, WriteKilled)
      | (valid, res) # _ \<Rightarrow>
        (if \<not> valid then (slot, WriteDeadline)
         else case res of
           RenameKilled \<Rightarrow> (slot, WriteKilled)
         | RenameRetryable \<Rightarrow> (slot, WriteThrows)
         | RenameFatal \<Rightarrow> (slot, WriteThrows)
         | RenameOk \<Rightarrow> (if slot = None then (Some bytes, Published) else (slot, WriteThrows))
         | RenameThenThrows \<Rightarrow> (if slot = None then (Some bytes, WriteThrows) else (slot, WriteThrows))
         | RenameThenKilled \<Rightarrow> (if slot = None then (Some bytes, WriteKilled) else (slot, WriteThrows)))))"

section \<open>All or nothing\<close>

lemma rename_loop_Published: "rename_loop as = (b, Published) \<Longrightarrow> b"
  by (induction as rule: rename_loop.induct) (auto split: if_splits rename_result.splits)

lemma rename_loop_deadline: "rename_loop as = (b, WriteDeadline) \<Longrightarrow> \<not> b"
  by (induction as rule: rename_loop.induct) (auto split: if_splits rename_result.splits)

lemma preparedTemp_not_Published: "preparedTemp io \<noteq> Some Published"
  by (auto simp: preparedTemp_def split: step_result.splits)

lemma atomicReplace_atomic:
  "atomicReplace io bytes slot = (slot', out) \<Longrightarrow>
     slot' \<in> {slot, Some bytes} \<and> (out = Published \<longrightarrow> slot' = Some bytes) \<and>
     (out = WriteDeadline \<longrightarrow> slot' = slot)"
  using preparedTemp_not_Published [of io] rename_loop_Published rename_loop_deadline
  by (fastforce simp: atomicReplace_def split: option.splits prod.splits if_splits)

lemma atomicCreate_atomic:
  "atomicCreate io bytes slot = (slot', out) \<Longrightarrow>
     slot' \<in> {slot, Some bytes} \<and> (out = Published \<longrightarrow> slot = None \<and> slot' = Some bytes) \<and>
     (out = WriteDeadline \<longrightarrow> slot' = slot) \<and> (slot \<noteq> None \<longrightarrow> slot' = slot)"
  using preparedTemp_not_Published [of io]
  by (auto simp: atomicCreate_def split: option.splits list.splits prod.splits if_splits rename_result.splits)

text \<open>
  The retry loop ends: when the process lives and the deadline passes at some attempt, the loop
  returns.
\<close>

lemma rename_loop_ends:
  "(\<exists>a\<in>set as. \<not> fst a) \<Longrightarrow> (\<forall>a\<in>set as. snd a \<notin> {RenameThenKilled, RenameKilled}) \<Longrightarrow>
     snd (rename_loop as) \<noteq> WriteKilled"
  by (induction as rule: rename_loop.induct) (auto split: rename_result.splits)

text \<open>A publication in which every step of the host succeeds.\<close>

definition smooth :: "write_io \<Rightarrow> bool" where
  "smooth io \<longleftrightarrow> wi_deadline io \<and> wi_prepare io = StepOk \<and> wi_guard io = StepOk \<and>
     (case wi_attempts io of (True, RenameOk) # _ \<Rightarrow> True | _ \<Rightarrow> False)"

lemma atomicReplace_smooth: "smooth io \<Longrightarrow> atomicReplace io bytes slot = (Some bytes, Published)"
  by (auto simp: smooth_def atomicReplace_def preparedTemp_def split: list.splits prod.splits bool.splits rename_result.splits)

lemma atomicCreate_smooth: "smooth io \<Longrightarrow> atomicCreate io bytes None = (Some bytes, Published)"
  by (auto simp: smooth_def atomicCreate_def preparedTemp_def split: list.splits prod.splits bool.splits rename_result.splits)

end
