(* ===== verification/Event_Store.thy ===== *)
theory Event_Store
  imports Atomic_Files State_Decode
begin

text \<open>
  The directory of events (\<^verbatim>\<open>src/state/event-store.ts\<close>): one file per event, named by its
  sequence number and its id. Reading checks every name against every content and that the
  sequence numbers are \<open>1, 2, 3, \<dots>\<close>; appending creates a file that did not exist.
\<close>

type_synonym events_dir = "(string \<times> state_event file_bytes) list"

datatype event_store_error = InvalidEventFilename | StoredMalformedEvent | EventFilenameMismatch | EventSequenceGap

section \<open>File names\<close>

definition eventFileName :: "state_event \<Rightarrow> string" where
  "eventFileName e = padStart 16 (CHR ''0'') (decimal (ev_sequence e)) @ ''-'' @ ev_eventId e @ ''.json''"

definition id_char :: "char \<Rightarrow> bool" where
  "id_char c \<longleftrightarrow> is_hex_lower c \<or> c = CHR ''-''"

text \<open>The expression \<^verbatim>\<open>/^(\d{16})-([0-9a-f-]{36})\.json$/\<close>, with its two groups.\<close>

definition EVENT_FILE :: "string \<Rightarrow> (string \<times> string) option" where
  "EVENT_FILE name =
     (let sequence = take 16 name; rest = drop 16 name; eventId = take 36 (drop 1 rest)
      in if length name = 58 \<and> list_all is_digit sequence \<and> take 1 rest = ''-'' \<and>
            list_all id_char eventId \<and> drop 37 rest = ''.json''
         then Some (sequence, eventId) else None)"

fun js_includes :: "string \<Rightarrow> string \<Rightarrow> bool" where
  "js_includes [] sub = (sub = [])"
| "js_includes (c # cs) sub = (take (length sub) (c # cs) = sub \<or> js_includes cs sub)"

section \<open>Reading\<close>

definition read_event ::
    "host_env \<Rightarrow> string \<times> state_event file_bytes \<Rightarrow> event_store_error + state_event" where
  "read_event E file = (case EVENT_FILE (fst file) of
     None \<Rightarrow> Inl InvalidEventFilename
   | Some (sequenceText, eventId) \<Rightarrow>
     (case decodeStateEvent E (snd file) of
        Inl _ \<Rightarrow> Inl StoredMalformedEvent
      | Inr e \<Rightarrow>
        (if ev_sequence e \<noteq> number_of sequenceText \<or> ev_eventId e \<noteq> eventId
         then Inl EventFilenameMismatch else Inr e)))"

fun read_events :: "host_env \<Rightarrow> events_dir \<Rightarrow> event_store_error + state_event list" where
  "read_events E [] = Inr []"
| "read_events E (file # files) = (case read_event E file of
     Inl err \<Rightarrow> Inl err
   | Inr e \<Rightarrow> (case read_events E files of Inl err \<Rightarrow> Inl err | Inr es \<Rightarrow> Inr (e # es)))"

definition committed_files :: "events_dir \<Rightarrow> events_dir" where
  "committed_files dir = filter (\<lambda>file. \<not> js_includes (fst file) ''.tmp-'') dir"

definition readAll :: "host_env \<Rightarrow> events_dir \<Rightarrow> event_store_error + state_event list" where
  "readAll E dir = (case read_events E (committed_files dir) of
     Inl err \<Rightarrow> Inl err
   | Inr events \<Rightarrow>
     (let sorted = sort_key ev_sequence events
      in if dense (map ev_sequence sorted) then Inr sorted else Inl EventSequenceGap))"

section \<open>Appending\<close>

datatype append_outcome = AppendWritten write_outcome | AppendGap

text \<open>
  A process that dies before it removes its temporary file leaves it in the directory under a name
  \<open>.\<close>\<^verbatim>\<open>name\<close>\<open>.tmp-\<close>\<^verbatim>\<open>uuid\<close> with arbitrary content (\<open>leftover\<close>), and so does a write that fails
  while the temporary file is prepared.
\<close>

definition temp_name :: "string \<Rightarrow> string \<Rightarrow> string" where
  "temp_name name u = ''.'' @ name @ ''.tmp-'' @ u"

definition append_event ::
    "write_io \<Rightarrow> (string \<times> state_event file_bytes) option \<Rightarrow> events_dir \<Rightarrow> state_event \<Rightarrow>
       events_dir \<times> append_outcome" where
  "append_event io leftover dir e =
     (if ev_sequence e < 1 then (dir, AppendGap)
      else case atomicCreate io (stringify e) (map_of dir (eventFileName e)) of
        (slot, out) \<Rightarrow>
          (let kept = (if out \<noteq> Published
                 then (case leftover of None \<Rightarrow> [] | Some (u, bytes) \<Rightarrow> [(temp_name (eventFileName e) u, bytes)])
                 else []);
               created = (if map_of dir (eventFileName e) = None \<and> slot \<noteq> None
                 then [(eventFileName e, stringify e)] else [])
           in (dir @ created @ kept, AppendWritten out)))"

section \<open>Names round-trip\<close>

definition file_safe :: "state_event \<Rightarrow> bool" where
  "file_safe e \<longleftrightarrow> length (ev_eventId e) = 36 \<and> list_all id_char (ev_eventId e)"

lemma padded_sequence:
  assumes "n \<le> max_safe_integer"
  shows "length (padStart 16 (CHR ''0'') (decimal n)) = 16"
    and "list_all is_digit (padStart 16 (CHR ''0'') (decimal n))"
    and "number_of (padStart 16 (CHR ''0'') (decimal n)) = n"
proof -
  have "n < 10 ^ 16" using assms by (simp add: max_safe_integer_def)
  then have "length (decimal n) \<le> 16" by (rule decimal_length) simp
  then show "length (padStart 16 (CHR ''0'') (decimal n)) = 16" by (simp add: padStart_def)
  show "list_all is_digit (padStart 16 (CHR ''0'') (decimal n))"
  proof -
    have "is_digit (CHR ''0'')" by code_simp
    then show ?thesis using decimal_digits [of n] by (auto simp: padStart_def list_all_iff)
  qed
  show "number_of (padStart 16 (CHR ''0'') (decimal n)) = n"
    by (simp add: padStart_def number_of_zeros)
qed

lemma EVENT_FILE_eventFileName:
  assumes "file_safe e" "ev_sequence e \<le> max_safe_integer"
  shows "EVENT_FILE (eventFileName e) = Some (padStart 16 (CHR ''0'') (decimal (ev_sequence e)), ev_eventId e)"
  using assms padded_sequence [OF assms(2)]
  by (simp add: EVENT_FILE_def eventFileName_def file_safe_def Let_def)

lemma includes_set: "js_includes s sub \<Longrightarrow> set sub \<subseteq> set s"
proof (induction s)
  case (Cons c cs)
  then show ?case by (metis js_includes.simps(2) set_subset_Cons set_take_subset subset_trans)
qed simp

lemma includes_append: "js_includes (xs @ sub @ ys) sub"
proof (induction xs)
  case Nil
  then show ?case by (cases "sub @ ys") (auto, metis append_eq_conv_conj)
qed simp

lemma eventFileName_committed:
  assumes "file_safe e"
  shows "\<not> js_includes (eventFileName e) ''.tmp-''"
proof
  assume "js_includes (eventFileName e) ''.tmp-''"
  then have "CHR ''t'' \<in> set (eventFileName e)" using includes_set by fastforce
  moreover have "\<not> is_digit (CHR ''t'')" "\<not> id_char (CHR ''t'')" by code_simp+
  ultimately show False
    using assms decimal_digits [of "ev_sequence e"]
    by (auto simp: eventFileName_def padStart_def file_safe_def list_all_iff)
qed

lemma temp_name_not_committed: "js_includes (temp_name name u) ''.tmp-''"
  using includes_append [of "''.'' @ name" "''.tmp-''" u] by (simp add: temp_name_def)

section \<open>Appending extends the log\<close>

lemma read_events_append:
  "read_events E (xs @ ys) = (case read_events E xs of
     Inl err \<Rightarrow> Inl err
   | Inr es \<Rightarrow> (case read_events E ys of Inl err \<Rightarrow> Inl err | Inr fs \<Rightarrow> Inr (es @ fs)))"
  by (induction xs) (auto split: sum.splits)

lemma committed_files_append [simp]: "committed_files (xs @ ys) = committed_files xs @ committed_files ys"
  by (simp add: committed_files_def)

lemma committed_files_temp [simp]: "committed_files [(temp_name name u, bytes)] = []"
  by (simp add: committed_files_def temp_name_not_committed)

lemma insort_key_snoc: "f y \<le> f x \<Longrightarrow> insort_key f y (zs @ [x]) = insort_key f y zs @ [x]"
  by (induction zs) auto

lemma sort_key_snoc: "(\<And>y. y \<in> set ys \<Longrightarrow> f y \<le> f x) \<Longrightarrow> sort_key f (ys @ [x]) = sort_key f ys @ [x]"
  by (induction ys) (auto simp: insort_key_snoc)

lemma dense_bound: "dense (map f xs) \<Longrightarrow> x \<in> set xs \<Longrightarrow> f x \<le> length xs"
  by (auto simp: in_set_conv_nth dest!: dense_nth)

lemma readAll_dense: "readAll E dir = Inr es \<Longrightarrow> dense (map ev_sequence es)"
  by (auto simp: readAll_def Let_def split: sum.splits if_splits)

lemma read_event_stored:
  assumes "stateEventSchema E e = Some e" "file_safe e" "ev_sequence e \<le> max_safe_integer"
  shows "read_event E (eventFileName e, stringify e) = Inr e"
  using assms padded_sequence(3)
  by (simp add: read_event_def EVENT_FILE_eventFileName decodeStateEvent_stringify)

lemma readAll_append:
  assumes "readAll E dir = Inr es" "stateEventSchema E e = Some e" "file_safe e"
    and "ev_sequence e \<le> max_safe_integer" "ev_sequence e = Suc (length es)"
  shows "readAll E (dir @ [(eventFileName e, stringify e)]) = Inr (es @ [e])"
proof -
  obtain files where files: "read_events E (committed_files dir) = Inr files" "es = sort_key ev_sequence files"
    using assms(1) by (auto simp: readAll_def Let_def split: sum.splits if_splits)
  have dense: "dense (map ev_sequence es)" by (rule readAll_dense [OF assms(1)])
  then have "ev_sequence y \<le> ev_sequence e" if "y \<in> set files" for y
    using dense_bound [OF dense, of y] that assms(5) by (simp add: files(2))
  then have "sort_key ev_sequence (files @ [e]) = es @ [e]"
    by (simp add: sort_key_snoc files(2))
  moreover have "committed_files [(eventFileName e, stringify e)] = [(eventFileName e, stringify e)]"
    by (simp add: committed_files_def eventFileName_committed [OF assms(3)])
  ultimately show ?thesis
    using dense assms(5) files(1) read_event_stored [OF assms(2-4)]
    by (simp add: readAll_def read_events_append dense_snoc)
qed

lemma readAll_temp: "readAll E (dir @ [(temp_name name u, bytes)]) = readAll E dir"
  by (simp add: readAll_def)

end
