(* ===== verification/Transaction_Store.thy ===== *)
theory Transaction_Store
  imports Event_Store State_Transition
begin

text \<open>
  The transaction store (\<^verbatim>\<open>src/state/transaction-store.ts\<close>) and its recovery
  (\<^verbatim>\<open>src/state/recovery.ts\<close>). The disk holds the index, a snapshot per run, the directory of
  events and the sidecar ledgers of each run. A commit appends the event, replaces the run and
  replaces the index, in this order and under the repository lock; what the host does at each step
  is an input, so that a crash can fall anywhere.
\<close>

record disk =
  d_index :: "active_index file_bytes option"
  d_runs :: "uuid \<Rightarrow> run file_bytes option"
  d_events :: events_dir
  d_taskFacts :: "uuid \<Rightarrow> task_ledger file_bytes option"
  d_acceptances :: "uuid \<Rightarrow> acceptance_files"
  d_rejections :: "uuid \<Rightarrow> rejection_ledger file_bytes option"

datatype store_throw =
    ThrowDecode decode_error
  | ThrowEvents event_store_error
  | ThrowLedger ledger_error
  | ThrowAtomicDeadline
  | ThrowIo

section \<open>Reading\<close>

definition empty_index :: active_index where
  "empty_index = \<lparr>idx_version = IndexV1, idx_revision = 0, idx_entries = []\<rparr>"

definition readIndex :: "host_env \<Rightarrow> disk \<Rightarrow> decode_error + active_index" where
  "readIndex E d = (case d_index d of
     None \<Rightarrow> Inr empty_index
   | Some bytes \<Rightarrow> decodeActiveIndex E bytes)"

definition readRun :: "host_env \<Rightarrow> canonical_root \<Rightarrow> disk \<Rightarrow> uuid \<Rightarrow> decode_error + run option" where
  "readRun E root d runId =
     (if \<not> is_uuid E runId then Inr None
      else case d_runs d runId of
        None \<Rightarrow> Inr None
      | Some bytes \<Rightarrow> (case decodeRun E root bytes of Inl err \<Rightarrow> Inl err | Inr r \<Rightarrow> Inr (Some r)))"

definition readEvent :: "host_env \<Rightarrow> disk \<Rightarrow> uuid \<Rightarrow> event_store_error + state_event option" where
  "readEvent E d eventId =
     (if \<not> is_uuid E eventId then Inr None
      else case readAll E (d_events d) of
        Inl err \<Rightarrow> Inl err
      | Inr es \<Rightarrow> Inr (List.find (\<lambda>e. ev_eventId e = eventId) es))"

text \<open>The task ledger of a run; a missing file is the empty ledger of the run's version.\<close>

definition empty_task_ledger :: "run \<Rightarrow> task_ledger" where
  "empty_task_ledger r = \<lparr>tl_version = (if run_is_v2 r then TaskLedgerV2 None None None else TaskLedgerV1),
     tl_runId = run_runId r, tl_ledgerRevision = 0, tl_entries = []\<rparr>"

definition readLedger ::
    "host_env \<Rightarrow> run \<Rightarrow> task_ledger file_bytes option \<Rightarrow> ledger_error + task_ledger" where
  "readLedger E r f = (case f of
     None \<Rightarrow> (case taskLedgerSchema E (empty_task_ledger r) of None \<Rightarrow> Inl ZodError | Some l \<Rightarrow> Inr l)
   | Some NotJson \<Rightarrow> Inl SyntaxError
   | Some OtherJson \<Rightarrow> Inl ZodError
   | Some (Json v) \<Rightarrow> (case taskLedgerSchema E v of None \<Rightarrow> Inl ZodError | Some l \<Rightarrow> Inr l))"

definition scopeForRun :: "host_env \<Rightarrow> disk \<Rightarrow> run \<Rightarrow> store_throw + task_run_scope" where
  "scopeForRun E d r = (case readIndex E d of
     Inl err \<Rightarrow> Inl (ThrowDecode err)
   | Inr i \<Rightarrow>
     (case readLedger E r (d_taskFacts d (run_runId r)) of
        Inl err \<Rightarrow> Inl (ThrowLedger err)
      | Inr l \<Rightarrow> Inr \<lparr>scope_indexRevision = idx_revision i, scope_run = r, scope_ledger = l\<rparr>))"

text \<open>
  The run whose facts a session may change: its only active run, with the run snapshot agreeing
  with the index entry.
\<close>

datatype scope_result = ScopeFound task_run_scope | ScopeNone | ScopeConflict

definition entry_agrees :: "active_index_entry \<Rightarrow> run \<Rightarrow> bool" where
  "entry_agrees x r \<longleftrightarrow> run_revision r = ent_runRevision x \<and>
     run_transactionRevision r = ent_transactionRevision x \<and> run_workflow r = ent_workflow x \<and>
     own_sessionId (run_owner r) = ent_sessionId x \<and> own_epoch (run_owner r) = ent_ownerEpoch x"

definition resolveUnlocked ::
    "host_env \<Rightarrow> canonical_root \<Rightarrow> disk \<Rightarrow> string \<Rightarrow> store_throw + scope_result" where
  "resolveUnlocked E root d session = (case readIndex E d of
     Inl err \<Rightarrow> Inl (ThrowDecode err)
   | Inr i \<Rightarrow>
     (case filter (\<lambda>x. ent_sessionId x = session) (idx_entries i) of
        [] \<Rightarrow> Inr ScopeNone
      | [x] \<Rightarrow>
        (case readRun E root d (ent_runId x) of
           Inl err \<Rightarrow> Inl (ThrowDecode err)
         | Inr None \<Rightarrow> Inr ScopeConflict
         | Inr (Some r) \<Rightarrow>
           (if \<not> entry_agrees x r then Inr ScopeConflict
            else case readLedger E r (d_taskFacts d (run_runId r)) of
              Inl err \<Rightarrow> Inl (ThrowLedger err)
            | Inr l \<Rightarrow> Inr (ScopeFound \<lparr>scope_indexRevision = idx_revision i, scope_run = r, scope_ledger = l\<rparr>)))
      | _ \<Rightarrow> Inr ScopeConflict))"

text \<open>
  What a run's ledgers authorise. \<open>sz\<close> is the UTF-8 length of a line of the acceptance log.
\<close>

definition authority_of ::
    "host_env \<Rightarrow> (acceptance_event file_bytes \<Rightarrow> nat) \<Rightarrow> disk \<Rightarrow> run \<Rightarrow> store_throw + receipt_authority" where
  "authority_of E sz d r = (case scopeForRun E d r of
     Inl err \<Rightarrow> Inl err
   | Inr scope \<Rightarrow>
     (case readReceiptAuthority E sz scope (d_acceptances d (run_runId r)) (d_rejections d (run_runId r)) of
        Inl err \<Rightarrow> Inl (ThrowLedger err)
      | Inr authority \<Rightarrow> Inr authority))"

section \<open>Deciding a commit\<close>

datatype transaction_error =
    TransactionTransition transition_error
  | LockTimeout | DeadlineExpired | StateDiverged | StateRootEscaped | StateRootUnreadable
  | IdempotencyConflict

definition eventSemantics :: "state_event \<Rightarrow> state_event" where
  "eventSemantics e = e\<lparr>ev_eventId := [], ev_sequence := 0, ev_at := []\<rparr>"

text \<open>
  The source compares the JSON texts of the two events, and JSON text keeps the order in which an
  object's keys were written. The logged event comes out of its schema, which orders the keys;
  the event of the caller is not parsed, so its keys stand as the caller wrote them. A caller says
  by \<open>ordered\<close> whether that is the order of the schema, at every level of the event.
\<close>

definition same_semantics :: "bool \<Rightarrow> state_event \<Rightarrow> state_event \<Rightarrow> bool" where
  "same_semantics ordered logged e \<longleftrightarrow> ordered \<and> eventSemantics logged = eventSemantics e"

fun receipt_bound :: "mutation \<Rightarrow> bool" where
  "receipt_bound (CriterionSettled _ _ _ _ _ _) = True"
| "receipt_bound (TaskEvidenceAccepted _ _) = True"
| "receipt_bound (WorkflowTerminal _ _ _) = True"
| "receipt_bound _ = False"

text \<open>The authority is read only for the mutations that need receipts, and only for an existing run.\<close>

definition authority_for ::
    "host_env \<Rightarrow> (acceptance_event file_bytes \<Rightarrow> nat) \<Rightarrow> disk \<Rightarrow> run option \<Rightarrow> state_event \<Rightarrow>
       store_throw + receipt_authority option" where
  "authority_for E sz d current e = (case current of
     None \<Rightarrow> Inr None
   | Some r \<Rightarrow>
     (if \<not> receipt_bound (ev_mutation e) then Inr None
      else case authority_of E sz d r of Inl err \<Rightarrow> Inl err | Inr a \<Rightarrow> Inr (Some a)))"

definition highest_sequence :: "state_event list \<Rightarrow> nat" where
  "highest_sequence es = (if es = [] then 0 else ev_sequence (last es))"

datatype commit_plan =
    PlanReject transaction_error
  | PlanReplayed run active_index
  | PlanWrite state_event prepared_transition

text \<open>The part of \<^verbatim>\<open>commit\<close> under the lock up to the first write.\<close>

definition plan_commit ::
    "host_env \<Rightarrow> (acceptance_event file_bytes \<Rightarrow> nat) \<Rightarrow> canonical_root \<Rightarrow> disk \<Rightarrow> bool \<Rightarrow> state_event \<Rightarrow>
       store_throw + commit_plan" where
  "plan_commit E sz root d ordered e = (case readIndex E d of
     Inl err \<Rightarrow> Inl (ThrowDecode err)
   | Inr i \<Rightarrow>
     (case readAll E (d_events d) of
        Inl err \<Rightarrow> Inl (ThrowEvents err)
      | Inr es \<Rightarrow>
        (case List.find (\<lambda>c. ev_eventId c = ev_eventId e) es of
           Some replay \<Rightarrow>
             (if \<not> same_semantics ordered replay e then Inr (PlanReject IdempotencyConflict)
              else case readRun E root d (ev_runId e) of
                Inl err \<Rightarrow> Inl (ThrowDecode err)
              | Inr None \<Rightarrow> Inr (PlanReject StateDiverged)
              | Inr (Some r) \<Rightarrow> Inr (PlanReplayed r i))
         | None \<Rightarrow>
           (if highest_sequence es \<noteq> idx_revision i then Inr (PlanReject StateDiverged)
            else case readRun E root d (ev_runId e) of
              Inl err \<Rightarrow> Inl (ThrowDecode err)
            | Inr current \<Rightarrow>
              (let persisted = persistedEventForIndex i e
               in case authority_for E sz d current persisted of
                    Inl err \<Rightarrow> Inl err
                  | Inr authority \<Rightarrow>
                    (case prepareTransition i current persisted authority of
                       Inl err \<Rightarrow> Inr (PlanReject (TransactionTransition err))
                     | Inr p \<Rightarrow> Inr (PlanWrite persisted p)))))))"

section \<open>Writing a commit\<close>

datatype commit_status = CommitCommitted | CommitReplayed

datatype commit_result =
    CommitOk commit_status run active_index
  | CommitErr transaction_error
  | CommitThrows store_throw
  | CommitKilled

text \<open>
  The host during a commit. The three booleans are the deadline checks before the event, before
  the run and before the index; between the writes the process may die (the crash points).
  \<open>ci_ordered\<close> is the caller's: whether it wrote the event's keys in the order of the schema.
\<close>

record commit_io =
  ci_ordered :: bool
  ci_validEvent :: bool
  ci_event :: write_io
  ci_leftover :: "(string \<times> state_event file_bytes) option"
  ci_killedAfterEvent :: bool
  ci_validRun :: bool
  ci_run :: write_io
  ci_killedAfterRun :: bool
  ci_validIndex :: bool
  ci_index :: write_io

fun write_failure :: "write_outcome \<Rightarrow> commit_result" where
  "write_failure WriteDeadline = CommitThrows ThrowAtomicDeadline"
| "write_failure WriteThrows = CommitThrows ThrowIo"
| "write_failure _ = CommitKilled"

definition put_run :: "disk \<Rightarrow> uuid \<Rightarrow> run file_bytes option \<Rightarrow> disk" where
  "put_run d i slot = d\<lparr>d_runs := (d_runs d)(i := slot)\<rparr>"

definition write_index ::
    "write_io \<Rightarrow> disk \<Rightarrow> prepared_transition \<Rightarrow> disk \<times> commit_result" where
  "write_index io d p = (case atomicReplace io (stringify (prep_index p)) (d_index d) of
     (slot, out) \<Rightarrow> (d\<lparr>d_index := slot\<rparr>,
       if out = Published then CommitOk CommitCommitted (prep_run p) (prep_index p) else write_failure out))"

definition write_run ::
    "commit_io \<Rightarrow> disk \<Rightarrow> prepared_transition \<Rightarrow> disk \<times> commit_result" where
  "write_run io d p =
     (let i = run_runId (prep_run p)
      in case atomicReplace (ci_run io) (stringify (prep_run p)) (d_runs d i) of
        (slot, out) \<Rightarrow>
          (let d' = put_run d i slot
           in if out \<noteq> Published then (d', write_failure out)
              else if ci_killedAfterRun io then (d', CommitKilled)
              else if \<not> ci_validIndex io then (d', CommitErr DeadlineExpired)
              else write_index (ci_index io) d' p))"

definition write_commit ::
    "commit_io \<Rightarrow> disk \<Rightarrow> state_event \<Rightarrow> prepared_transition \<Rightarrow> disk \<times> commit_result" where
  "write_commit io d e p =
     (if \<not> ci_validEvent io then (d, CommitErr DeadlineExpired)
      else case append_event (ci_event io) (ci_leftover io) (d_events d) e of
        (dir, AppendGap) \<Rightarrow> (d, CommitThrows (ThrowEvents EventSequenceGap))
      | (dir, AppendWritten out) \<Rightarrow>
          (let d' = d\<lparr>d_events := dir\<rparr>
           in if out \<noteq> Published then (d', write_failure out)
              else if ci_killedAfterEvent io then (d', CommitKilled)
              else if \<not> ci_validRun io then (d', CommitErr DeadlineExpired)
              else write_run io d' p))"

text \<open>The commit under the lock, and the whole operation with its checks before the lock.\<close>

definition commit_locked ::
    "host_env \<Rightarrow> (acceptance_event file_bytes \<Rightarrow> nat) \<Rightarrow> canonical_root \<Rightarrow> commit_io \<Rightarrow> disk \<Rightarrow>
       state_event \<Rightarrow> disk \<times> commit_result" where
  "commit_locked E sz root io d e = (case plan_commit E sz root d (ci_ordered io) e of
     Inl err \<Rightarrow> (d, CommitThrows err)
   | Inr (PlanReject err) \<Rightarrow> (d, CommitErr err)
   | Inr (PlanReplayed r i) \<Rightarrow> (d, CommitOk CommitReplayed r i)
   | Inr (PlanWrite persisted p) \<Rightarrow> write_commit io d persisted p)"

datatype containment = Contained | Escaped | Unreadable

record entry_io =
  en_valid :: bool
  en_contained :: containment
  en_locked :: bool
  en_validAfterWait :: bool

definition commit ::
    "host_env \<Rightarrow> (acceptance_event file_bytes \<Rightarrow> nat) \<Rightarrow> canonical_root \<Rightarrow> entry_io \<Rightarrow> commit_io \<Rightarrow> disk \<Rightarrow>
       state_event \<Rightarrow> disk \<times> commit_result" where
  "commit E sz root en io d e =
     (if \<not> en_valid en then (d, CommitErr DeadlineExpired)
      else case en_contained en of
        Escaped \<Rightarrow> (d, CommitErr StateRootEscaped)
      | Unreadable \<Rightarrow> (d, CommitErr StateRootUnreadable)
      | Contained \<Rightarrow>
        (if \<not> en_locked en
         then (d, CommitErr (if en_validAfterWait en then LockTimeout else DeadlineExpired))
         else commit_locked E sz root io d e))"

section \<open>Recovery\<close>

datatype recovery_conflict = MultipleEventsAhead | IndexAhead | Corrupt

datatype recovery_inspection = Healthy nat | Repairable nat | RecoveryConflict recovery_conflict

definition inspectRecovery :: "host_env \<Rightarrow> disk \<Rightarrow> recovery_inspection" where
  "inspectRecovery E d = (case readIndex E d of
     Inl _ \<Rightarrow> RecoveryConflict Corrupt
   | Inr i \<Rightarrow>
     (case readAll E (d_events d) of
        Inl _ \<Rightarrow> RecoveryConflict Corrupt
      | Inr es \<Rightarrow>
        (let highest = highest_sequence es
         in if highest = idx_revision i then Healthy (idx_revision i)
            else if highest = idx_revision i + 1 then Repairable highest
            else if idx_revision i < highest then RecoveryConflict MultipleEventsAhead
            else RecoveryConflict IndexAhead)))"

datatype repair_error =
    RepairLockTimeout | RepairDeadline | RepairContainment containment | NotRepairable | RepairIndexConflict
  | RunConflict | RepairTransition transition_error

datatype repair_result =
    RepairOk run active_index | RepairErr repair_error | RepairThrows store_throw | RepairKilled

text \<open>
  The run that completes the last event, and whether its snapshot is already published.
\<close>

definition plan_repair ::
    "host_env \<Rightarrow> (acceptance_event file_bytes \<Rightarrow> nat) \<Rightarrow> canonical_root \<Rightarrow> disk \<Rightarrow>
       repair_result + run \<times> bool \<times> active_index" where
  "plan_repair E sz root d = (case readIndex E d of
     Inl err \<Rightarrow> Inl (RepairThrows (ThrowDecode err))
   | Inr i \<Rightarrow>
     (case readAll E (d_events d) of
        Inl err \<Rightarrow> Inl (RepairThrows (ThrowEvents err))
      | Inr es \<Rightarrow>
        (if es = [] then Inl (RepairErr NotRepairable)
         else let e = last es
         in if ev_sequence e \<noteq> idx_revision i + 1 then Inl (RepairErr NotRepairable)
            else if exp_indexRevision (ev_expected e) \<noteq> idx_revision i then Inl (RepairErr RepairIndexConflict)
            else case readRun E root d (ev_runId e) of
              Inl err \<Rightarrow> Inl (RepairThrows (ThrowDecode err))
            | Inr current \<Rightarrow>
              (if map_option run_transactionRevision current = Some (ev_sequence e)
               then (let r = the current
                     in if run_runId r \<noteq> ev_runId e \<or> run_workflow r \<noteq> ev_workflow e
                        then Inl (RepairErr RunConflict)
                        else Inr (r, True, deriveIndex i r (ev_sequence e)))
               else case authority_for E sz d current e of
                 Inl err \<Rightarrow> Inl (RepairThrows err)
               | Inr authority \<Rightarrow>
                 (case prepareTransition i current e authority of
                    Inl err \<Rightarrow> Inl (RepairErr (RepairTransition err))
                  | Inr p \<Rightarrow> Inr (prep_run p, False, deriveIndex i (prep_run p) (ev_sequence e)))))))"

record repair_io =
  rp_valid :: bool
  rp_contained :: containment
  rp_locked :: bool
  rp_validRun :: bool
  rp_run :: write_io
  rp_validIndex :: bool
  rp_index :: write_io

fun repair_failure :: "write_outcome \<Rightarrow> repair_result" where
  "repair_failure WriteDeadline = RepairThrows ThrowAtomicDeadline"
| "repair_failure WriteThrows = RepairThrows ThrowIo"
| "repair_failure _ = RepairKilled"

definition repair_index ::
    "repair_io \<Rightarrow> disk \<Rightarrow> run \<Rightarrow> active_index \<Rightarrow> disk \<times> repair_result" where
  "repair_index io d r i =
     (if \<not> rp_validIndex io then (d, RepairErr RepairDeadline)
      else case atomicReplace (rp_index io) (stringify i) (d_index d) of
        (slot, out) \<Rightarrow> (d\<lparr>d_index := slot\<rparr>, if out = Published then RepairOk r i else repair_failure out))"

definition repairState ::
    "host_env \<Rightarrow> (acceptance_event file_bytes \<Rightarrow> nat) \<Rightarrow> canonical_root \<Rightarrow> repair_io \<Rightarrow> disk \<Rightarrow> disk \<times> repair_result" where
  "repairState E sz root io d =
     (if \<not> rp_valid io then (d, RepairErr RepairDeadline)
      else if rp_contained io \<noteq> Contained then (d, RepairErr (RepairContainment (rp_contained io)))
      else if \<not> rp_locked io then (d, RepairErr RepairLockTimeout)
      else case plan_repair E sz root d of
        Inl res \<Rightarrow> (d, res)
      | Inr (r, published, i) \<Rightarrow>
        (if \<not> rp_validRun io then (d, RepairErr RepairDeadline)
         else if published then repair_index io d r i
         else case atomicReplace (rp_run io) (stringify r) (d_runs d (run_runId r)) of
           (slot, out) \<Rightarrow>
             (let d' = put_run d (run_runId r) slot
              in if out \<noteq> Published then (d', repair_failure out) else repair_index io d' r i)))"

end
