(* ===== verification/Store_Laws.thy ===== *)
theory Store_Laws
  imports Transaction_Store Transition_Laws
begin

text \<open>
  What a commit can leave on disk: one of four stages, whatever the host does. Recovery recognises
  each stage, and repair takes the two intermediate ones to the last.
\<close>

section \<open>States that read alike\<close>

text \<open>Two disks that differ at most in temporary files of the events directory.\<close>

definition same_state :: "host_env \<Rightarrow> disk \<Rightarrow> disk \<Rightarrow> bool" where
  "same_state E d d' \<longleftrightarrow>
     d_index d = d_index d' \<and> d_runs d = d_runs d' \<and> readAll E (d_events d) = readAll E (d_events d') \<and>
     d_taskFacts d = d_taskFacts d' \<and> d_acceptances d = d_acceptances d' \<and> d_rejections d = d_rejections d'"

lemma same_state_refl [simp]: "same_state E d d"
  by (simp add: same_state_def)

lemma authority_for_cong:
  assumes "d_index d = d_index d'" "d_taskFacts d = d_taskFacts d'" "d_acceptances d = d_acceptances d'"
    "d_rejections d = d_rejections d'"
  shows "authority_for E sz d = authority_for E sz d'"
proof -
  have "scopeForRun E d = scopeForRun E d'"
    unfolding scopeForRun_def readIndex_def assms ..
  then have "authority_of E sz d = authority_of E sz d'"
    unfolding authority_of_def assms by simp
  then show ?thesis unfolding authority_for_def by (simp only:)
qed

lemma same_state_reads:
  assumes "same_state E d d'"
  shows "readIndex E d = readIndex E d'" and "readRun E root d = readRun E root d'"
    and "readAll E (d_events d) = readAll E (d_events d')"
    and "authority_for E sz d = authority_for E sz d'"
  using assms authority_for_cong [of d d']
  by (auto simp: same_state_def readIndex_def readRun_def fun_eq_iff)

lemma inspectRecovery_cong: "same_state E d d' \<Longrightarrow> inspectRecovery E d = inspectRecovery E d'"
  unfolding inspectRecovery_def by (simp only: same_state_reads)

lemma plan_commit_cong: "same_state E d d' \<Longrightarrow> plan_commit E sz root d ordered e = plan_commit E sz root d' ordered e"
  unfolding plan_commit_def by (simp only: same_state_reads)

lemma plan_repair_cong: "same_state E d d' \<Longrightarrow> plan_repair E sz root d = plan_repair E sz root d'"
  unfolding plan_repair_def by (simp only: same_state_reads)

section \<open>The stages of a commit\<close>

definition with_event :: "disk \<Rightarrow> state_event \<Rightarrow> disk" where
  "with_event d e = d\<lparr>d_events := d_events d @ [(eventFileName e, stringify e)]\<rparr>"

definition with_run :: "disk \<Rightarrow> run \<Rightarrow> disk" where
  "with_run d r = put_run d (run_runId r) (Some (stringify r))"

definition with_index :: "disk \<Rightarrow> active_index \<Rightarrow> disk" where
  "with_index d i = d\<lparr>d_index := Some (stringify i)\<rparr>"

definition stage1 :: "disk \<Rightarrow> state_event \<Rightarrow> disk" where
  "stage1 d e = with_event d e"

definition stage2 :: "disk \<Rightarrow> state_event \<Rightarrow> prepared_transition \<Rightarrow> disk" where
  "stage2 d e p = with_run (stage1 d e) (prep_run p)"

definition stage3 :: "disk \<Rightarrow> state_event \<Rightarrow> prepared_transition \<Rightarrow> disk" where
  "stage3 d e p = with_index (stage2 d e p) (prep_index p)"

text \<open>Stage \<open>k\<close>, and a disk with temporary files left over in the events directory.\<close>

definition commit_stage :: "disk \<Rightarrow> state_event \<Rightarrow> prepared_transition \<Rightarrow> nat \<Rightarrow> disk" where
  "commit_stage d e p k =
     (if k = 0 then d else if k = 1 then stage1 d e else if k = 2 then stage2 d e p else stage3 d e p)"

definition with_temps :: "disk \<Rightarrow> events_dir \<Rightarrow> disk" where
  "with_temps d temps = d\<lparr>d_events := d_events d @ temps\<rparr>"

definition temporary :: "events_dir \<Rightarrow> bool" where
  "temporary temps \<longleftrightarrow> list_all (\<lambda>(name, _). js_includes name ''.tmp-'') temps"

lemma with_temps_Nil [simp]: "with_temps d [] = d"
  by (simp add: with_temps_def)

lemma temporary_Nil [simp]: "temporary []"
  by (simp add: temporary_def)

lemma with_temps_same: "temporary temps \<Longrightarrow> same_state E (with_temps d temps) d"
proof -
  assume "temporary temps"
  then have "committed_files temps = []"
    by (induction temps) (auto simp: temporary_def committed_files_def)
  then show ?thesis by (simp add: same_state_def with_temps_def readAll_def)
qed

lemmas stage_defs = stage1_def stage2_def stage3_def with_event_def with_run_def with_index_def put_run_def

lemma put_run_same: "put_run d u (d_runs d u) = d"
  by (simp add: put_run_def)

lemma write_index_stages:
  assumes "write_index io d p = (d', res)"
  shows "d' = d \<or> d' = with_index d (prep_index p)"
    and "\<exists>st r i. res = CommitOk st r i \<Longrightarrow>
      res = CommitOk CommitCommitted (prep_run p) (prep_index p) \<and> d' = with_index d (prep_index p)"
proof -
  obtain slot out where w: "atomicReplace io (stringify (prep_index p)) (d_index d) = (slot, out)"
    by (cases "atomicReplace io (stringify (prep_index p)) (d_index d)")
  have d': "d' = d\<lparr>d_index := slot\<rparr>"
    "res = (if out = Published then CommitOk CommitCommitted (prep_run p) (prep_index p) else write_failure out)"
    using assms by (simp_all add: write_index_def w)
  note atomic = atomicReplace_atomic [OF w]
  show "d' = d \<or> d' = with_index d (prep_index p)"
    using atomic d'(1) by (auto simp: with_index_def)
  show "res = CommitOk CommitCommitted (prep_run p) (prep_index p) \<and> d' = with_index d (prep_index p)"
    if "\<exists>st r i. res = CommitOk st r i"
    using that atomic d' by (cases out) (auto simp: with_index_def)
qed

lemma write_run_stages:
  assumes "write_run io d p = (d', res)"
  shows "d' \<in> {d, with_run d (prep_run p), with_index (with_run d (prep_run p)) (prep_index p)}"
    and "\<exists>st r i. res = CommitOk st r i \<Longrightarrow>
      res = CommitOk CommitCommitted (prep_run p) (prep_index p) \<and>
      d' = with_index (with_run d (prep_run p)) (prep_index p)"
proof -
  let ?u = "run_runId (prep_run p)"
  obtain slot out where w: "atomicReplace (ci_run io) (stringify (prep_run p)) (d_runs d ?u) = (slot, out)"
    by (cases "atomicReplace (ci_run io) (stringify (prep_run p)) (d_runs d ?u)")
  note atomic = atomicReplace_atomic [OF w]
  have slots: "put_run d ?u slot \<in> {d, with_run d (prep_run p)}"
    using atomic put_run_same [of d ?u] by (auto simp: with_run_def)
  have published: "out = Published \<Longrightarrow> put_run d ?u slot = with_run d (prep_run p)"
    using atomic by (simp add: with_run_def)
  note step = assms [unfolded write_run_def Let_def w prod.case]
  show "d' \<in> {d, with_run d (prep_run p), with_index (with_run d (prep_run p)) (prep_index p)}"
    using step slots published write_index_stages(1) [of "ci_index io" "with_run d (prep_run p)" p d' res]
    by (auto split: if_splits)
  show "res = CommitOk CommitCommitted (prep_run p) (prep_index p) \<and>
      d' = with_index (with_run d (prep_run p)) (prep_index p)" if ok: "\<exists>st r i. res = CommitOk st r i"
  proof -
    have "write_failure out \<noteq> CommitOk st r i" for st r i by (cases out) auto
    then have "out = Published" "write_index (ci_index io) (with_run d (prep_run p)) p = (d', res)"
      using step ok published by (auto split: if_splits)
    then show ?thesis using write_index_stages(2) ok by blast
  qed
qed

section \<open>A planned commit\<close>

text \<open>An event that can be read back: it satisfies its schema, and its id is lower-case hexadecimal.\<close>

definition readable :: "host_env \<Rightarrow> state_event \<Rightarrow> bool" where
  "readable E e \<longleftrightarrow> stateEventSchema E e = Some e \<and> file_safe e"

lemma highest_sequence_dense: "dense (map ev_sequence es) \<Longrightarrow> highest_sequence es = length es"
  by (cases es rule: rev_cases) (auto simp: highest_sequence_def dense_snoc)

lemma plan_commit_writeE:
  assumes "plan_commit E sz root d ordered e = Inr (PlanWrite pe p)"
  obtains i es current authority where
    "readIndex E d = Inr i" "readAll E (d_events d) = Inr es" "idx_revision i = length es"
    "readRun E root d (ev_runId e) = Inr current" "pe = persistedEventForIndex i e"
    "authority_for E sz d current pe = Inr authority"
    "prepareTransition i current pe authority = Inr p"
    "\<And>x. x \<in> set es \<Longrightarrow> ev_eventId x \<noteq> ev_eventId e"
proof -
  from assms obtain i es where ie: "readIndex E d = Inr i" "readAll E (d_events d) = Inr es"
    by (auto simp: plan_commit_def split: sum.splits)
  from assms have none: "List.find (\<lambda>c. ev_eventId c = ev_eventId e) es = None"
    and high: "highest_sequence es = idx_revision i"
    by (auto simp: plan_commit_def ie split: option.splits if_splits sum.splits)
  from assms obtain current authority where "readRun E root d (ev_runId e) = Inr current"
    "pe = persistedEventForIndex i e" "authority_for E sz d current pe = Inr authority"
    "prepareTransition i current pe authority = Inr p"
    by (auto simp: plan_commit_def ie none high Let_def split: sum.splits)
  with ie none high highest_sequence_dense [OF readAll_dense [OF ie(2)]] that show thesis
    by (auto simp: find_None_iff)
qed

lemma persisted_event_frame [simp]:
  "ev_sequence (persistedEventForIndex i e) = ev_sequence e"
  "ev_runId (persistedEventForIndex i e) = ev_runId e"
  "ev_eventId (persistedEventForIndex i e) = ev_eventId e"
  "ev_expected (persistedEventForIndex i e) = ev_expected e"
  "ev_workflow (persistedEventForIndex i e) = ev_workflow e"
  by (simp_all add: persistedEventForIndex_def Let_def)

lemma same_state_with_run: "same_state E d d' \<Longrightarrow> same_state E (with_run d r) (with_run d' r)"
  by (simp add: same_state_def with_run_def put_run_def)

lemma same_state_with_index: "same_state E d d' \<Longrightarrow> same_state E (with_index d i) (with_index d' i)"
  by (simp add: same_state_def with_index_def)

text \<open>Whatever the host does, the disk is left in one of the four stages, but for temporary files.\<close>

lemma append_event_stages:
  assumes "append_event io leftover (d_events d) e = (dir, out)"
  shows "(out = AppendGap \<and> dir = d_events d) \<or> (\<exists>w k temps. out = AppendWritten w \<and> k \<le> 1 \<and> temporary temps \<and>
    d\<lparr>d_events := dir\<rparr> = with_temps (commit_stage d e p k) temps \<and> (w = Published \<longrightarrow> k = 1 \<and> temps = []))"
proof (cases "ev_sequence e < 1")
  case False
  obtain slot w where w: "atomicCreate io (stringify e) (map_of (d_events d) (eventFileName e)) = (slot, w)"
    by fastforce
  note atomic = atomicCreate_atomic [OF w]
  let ?kept = "if w \<noteq> Published then (case leftover of None \<Rightarrow> []
    | Some (u, bytes) \<Rightarrow> [(temp_name (eventFileName e) u, bytes)]) else []"
  let ?k = "if map_of (d_events d) (eventFileName e) = None \<and> slot \<noteq> None then 1 else 0 :: nat"
  have out: "out = AppendWritten w"
    and dir: "dir = d_events d @ (if ?k = 1 then [(eventFileName e, stringify e)] else []) @ ?kept"
    using assms False by (auto simp: append_event_def w Let_def)
  have "temporary ?kept"
    by (auto simp: temporary_def temp_name_not_committed split: option.splits)
  moreover have "d\<lparr>d_events := dir\<rparr> = with_temps (commit_stage d e p ?k) ?kept"
    unfolding dir by (simp add: with_temps_def commit_stage_def stage1_def with_event_def)
  moreover have "w = Published \<longrightarrow> ?k = 1 \<and> ?kept = []" using atomic by auto
  ultimately show ?thesis using out by (intro disjI2 exI [of _ w] exI [of _ ?k] exI [of _ ?kept]) auto
qed (use assms in \<open>auto simp: append_event_def\<close>)

lemma write_commit_stages:
  assumes step: "write_commit io d e p = (d', res)"
  shows "\<exists>k\<le>3. \<exists>temps. temporary temps \<and> d' = with_temps (commit_stage d e p k) temps \<and>
    (\<forall>st r i. res = CommitOk st r i \<longrightarrow>
      st = CommitCommitted \<and> r = prep_run p \<and> i = prep_index p \<and> k = 3 \<and> temps = [])"
    (is "\<exists>k\<le>3. \<exists>temps. ?P k temps")
proof -
  have failed: "write_failure w \<noteq> CommitOk st r i" for w st r i by (cases w) auto
  have early: "\<exists>k\<le>3. \<exists>temps. ?P k temps"
    if "k \<le> 1" "temporary temps" "d' = with_temps (commit_stage d e p k) temps" "\<And>st r i. res \<noteq> CommitOk st r i" for k temps
    using that by (intro exI [of _ k] conjI exI [of _ temps]) auto
  have none: "d' = d \<Longrightarrow> d' = with_temps (commit_stage d e p 0) []"
    by (simp add: commit_stage_def)
  obtain dir out where a: "append_event (ci_event io) (ci_leftover io) (d_events d) e = (dir, out)"
    by fastforce
  note step = step [unfolded write_commit_def a prod.case]
  from append_event_stages [OF a, of p] consider (gap) "out = AppendGap"
    | (appended) w k temps where "out = AppendWritten w" "k \<le> 1" "temporary temps"
        "d\<lparr>d_events := dir\<rparr> = with_temps (commit_stage d e p k) temps" "w = Published \<longrightarrow> k = 1 \<and> temps = []"
    by blast
  then show ?thesis
  proof cases
    case gap
    then have "d' = d" "\<And>st r i. res \<noteq> CommitOk st r i" using step by (auto split: if_splits)
    with none early [of 0 "[]"] show ?thesis by simp
  next
    case appended
    show ?thesis
    proof (cases "w = Published \<and> ci_validEvent io \<and> \<not> ci_killedAfterEvent io \<and> ci_validRun io")
      case True
      then have "d\<lparr>d_events := dir\<rparr> = stage1 d e" using appended(4,5) by (simp add: commit_stage_def)
      then have run: "write_run io (stage1 d e) p = (d', res)"
        using step True appended(1) by simp
      have "stage2 d e p = with_run (stage1 d e) (prep_run p)"
        "stage3 d e p = with_index (with_run (stage1 d e) (prep_run p)) (prep_index p)"
        by (simp_all add: stage2_def stage3_def)
      with write_run_stages(1) [OF run] have among: "d' \<in> {stage1 d e, stage2 d e p, stage3 d e p}" by simp
      have "\<exists>k\<le>3. d' = commit_stage d e p k \<and> (d' = stage3 d e p \<longrightarrow> k = 3)"
      proof (cases "d' = stage3 d e p")
        case True
        then show ?thesis by (intro exI [of _ 3]) (simp add: commit_stage_def)
      next
        case False
        with among have "d' = commit_stage d e p 1 \<or> d' = commit_stage d e p 2"
          by (simp add: commit_stage_def)
        moreover have "1 \<le> (3::nat)" "2 \<le> (3::nat)" by simp_all
        ultimately show ?thesis using False by blast
      qed
      moreover have "res = CommitOk st r i \<longrightarrow>
          st = CommitCommitted \<and> r = prep_run p \<and> i = prep_index p \<and> d' = stage3 d e p" for st r i
        using write_run_stages(2) [OF run] by (auto simp: stage2_def stage3_def)
      ultimately show ?thesis by (metis temporary_Nil with_temps_Nil)
    next
      case False
      then have "d' = d \<or> d' = d\<lparr>d_events := dir\<rparr>" "\<And>st r i. res \<noteq> CommitOk st r i"
        using step appended(1) failed by (auto simp: Let_def split: if_splits)
      then show ?thesis
        using none early [of 0 "[]"] early [OF appended(2,3)] appended(4)
        by (metis (no_types, lifting) le0 temporary_Nil)
    qed
  qed
qed

section \<open>Recovery of each stage\<close>

text \<open>The events the log can be read as.\<close>

definition logged :: "host_env \<Rightarrow> disk \<Rightarrow> state_event list" where
  "logged E d = (case readAll E (d_events d) of Inl _ \<Rightarrow> [] | Inr es \<Rightarrow> es)"

lemma stage_fields [simp]:
  "d_index (stage1 d e) = d_index d" "d_index (stage2 d e p) = d_index d"
  "d_index (stage3 d e p) = Some (stringify (prep_index p))"
  "d_runs (stage1 d e) = d_runs d"
  "d_runs (stage2 d e p) = (d_runs d)(run_runId (prep_run p) := Some (stringify (prep_run p)))"
  "d_runs (stage3 d e p) = (d_runs d)(run_runId (prep_run p) := Some (stringify (prep_run p)))"
  "d_events (stage1 d e) = d_events d @ [(eventFileName e, stringify e)]"
  "d_events (stage2 d e p) = d_events d @ [(eventFileName e, stringify e)]"
  "d_events (stage3 d e p) = d_events d @ [(eventFileName e, stringify e)]"
  "d_taskFacts (stage1 d e) = d_taskFacts d" "d_acceptances (stage1 d e) = d_acceptances d"
  "d_rejections (stage1 d e) = d_rejections d"
  by (simp_all add: stage_defs)

text \<open>The snapshot of a run is not stamped beyond revision \<open>n\<close>.\<close>

definition run_stamped :: "host_env \<Rightarrow> canonical_root \<Rightarrow> disk \<Rightarrow> uuid \<Rightarrow> nat \<Rightarrow> bool" where
  "run_stamped E root d u n \<longleftrightarrow>
     (case readRun E root d u of Inr (Some r) \<Rightarrow> run_transactionRevision r \<le> n | _ \<Rightarrow> True)"

text \<open>A planned commit of an event that can be read back, from a store whose log and index agree.\<close>

definition planned ::
    "host_env \<Rightarrow> (acceptance_event file_bytes \<Rightarrow> nat) \<Rightarrow> canonical_root \<Rightarrow> disk \<Rightarrow> state_event \<Rightarrow>
       prepared_transition \<Rightarrow> active_index \<Rightarrow> state_event list \<Rightarrow> run option \<Rightarrow> receipt_authority option \<Rightarrow> bool" where
  "planned E sz root d pe p i es current authority \<longleftrightarrow>
     readIndex E d = Inr i \<and> readAll E (d_events d) = Inr es \<and> idx_revision i = length es \<and>
     readRun E root d (ev_runId pe) = Inr current \<and> authority_for E sz d current pe = Inr authority \<and>
     prepareTransition i current pe authority = Inr p \<and> readable E pe"

lemma plannedD:
  assumes "planned E sz root d pe p i es current authority"
  shows "readIndex E d = Inr i" "readAll E (d_events d) = Inr es" "idx_revision i = length es"
    "readRun E root d (ev_runId pe) = Inr current" "authority_for E sz d current pe = Inr authority"
    "prepareTransition i current pe authority = Inr p" "readable E pe"
  using assms by (simp_all add: planned_def)

lemma prepared_facts:
  assumes "planned E sz root d pe p i es current authority"
  shows "exp_indexRevision (ev_expected pe) = idx_revision i" and "ev_sequence pe = Suc (length es)"
    and "run_runId (prep_run p) = ev_runId pe" and "run_workflow (prep_run p) = ev_workflow pe"
    and "run_transactionRevision (prep_run p) = ev_sequence pe"
    and "prep_index p = deriveIndex i (prep_run p) (ev_sequence pe)"
proof -
  obtain "next" where n: "exp_indexRevision (ev_expected pe) = idx_revision i" "ev_sequence pe = idx_revision i + 1"
    "run_runId next = ev_runId pe" "run_workflow next = ev_workflow pe"
    "prep_run p = next\<lparr>run_transactionRevision := ev_sequence pe\<rparr>"
    "prep_index p = deriveIndex i (prep_run p) (ev_sequence pe)"
    using plannedD(6) [OF assms] by (rule prepareTransition_InrE)
  then show "exp_indexRevision (ev_expected pe) = idx_revision i" "ev_sequence pe = Suc (length es)"
    "run_runId (prep_run p) = ev_runId pe" "run_workflow (prep_run p) = ev_workflow pe"
    "run_transactionRevision (prep_run p) = ev_sequence pe"
    "prep_index p = deriveIndex i (prep_run p) (ev_sequence pe)"
    using plannedD(3) [OF assms] by (simp_all add: run_workflow_def)
qed

lemma appended:
  assumes "planned E sz root d pe p i es current authority"
  shows "readAll E (d_events d @ [(eventFileName pe, stringify pe)]) = Inr (es @ [pe])"
  using plannedD(2,7) [OF assms] prepared_facts(2) [OF assms]
  by (intro readAll_append) (auto simp: readable_def stateEventSchema_normal_iff)

lemma planned_uuid: "planned E sz root d pe p i es current authority \<Longrightarrow> is_uuid E (ev_runId pe)"
  by (simp add: planned_def readable_def stateEventSchema_normal_iff)

text \<open>
  How a store reads once its index is the given one and its log ends at \<open>n\<close>: the index may not
  be readable.
\<close>

definition level_with :: "host_env \<Rightarrow> active_index \<Rightarrow> nat \<Rightarrow> recovery_inspection" where
  "level_with E i n = (case decodeActiveIndex E (stringify i) of
     Inl _ \<Rightarrow> RecoveryConflict Corrupt
   | Inr _ \<Rightarrow> Healthy n)"

lemma decoded_index_revision:
  "decodeActiveIndex E (stringify i) = Inr j \<Longrightarrow> idx_revision j = idx_revision i"
  by (auto simp: decodeActiveIndex_def activeIndexSchema_def counter_def split: option.splits if_splits sum.splits elim!: bind_SomeE)

lemma inspect_stages:
  assumes "planned E sz root d pe p i es current authority"
  shows "inspectRecovery E d = Healthy (length es)"
    and "inspectRecovery E (stage1 d pe) = Repairable (Suc (length es))"
    and "inspectRecovery E (stage2 d pe p) = Repairable (Suc (length es))"
    and "inspectRecovery E (stage3 d pe p) = level_with E (prep_index p) (Suc (length es))"
proof -
  note index = plannedD(1) [OF assms] and events = plannedD(2) [OF assms] and level = plannedD(3) [OF assms]
    and facts = prepared_facts [OF assms] and appended = appended [OF assms]
  have high: "highest_sequence es = length es" by (rule highest_sequence_dense [OF readAll_dense [OF events]])
  have high': "highest_sequence (es @ [pe]) = Suc (length es)"
    by (simp add: highest_sequence_def facts(2))
  show "inspectRecovery E d = Healthy (length es)"
    by (simp add: inspectRecovery_def index events level high)
  show "inspectRecovery E (stage1 d pe) = Repairable (Suc (length es))"
    "inspectRecovery E (stage2 d pe p) = Repairable (Suc (length es))"
    using index by (simp_all add: inspectRecovery_def readIndex_def appended level high')
  show "inspectRecovery E (stage3 d pe p) = level_with E (prep_index p) (Suc (length es))"
    using facts(2,6) decoded_index_revision [of E "prep_index p"]
    by (auto simp: inspectRecovery_def readIndex_def level_with_def appended high' split: sum.splits)
qed

text \<open>The same by the number of the stage.\<close>

definition stage_reading :: "host_env \<Rightarrow> active_index \<Rightarrow> nat \<Rightarrow> nat \<Rightarrow> recovery_inspection" where
  "stage_reading E i n k =
     (if k = 0 then Healthy n else if k < 3 then Repairable (Suc n) else level_with E i (Suc n))"

lemma inspect_commit_stage:
  assumes "planned E sz root d pe p i es current authority" "k \<le> 3"
  shows "inspectRecovery E (commit_stage d pe p k) = stage_reading E (prep_index p) (length es) k"
    and "logged E (commit_stage d pe p k) = (if k = 0 then es else es @ [pe])"
  using assms(2) inspect_stages [OF assms(1)] plannedD(2) [OF assms(1)] appended [OF assms(1)]
  by (auto simp: commit_stage_def stage_reading_def logged_def)

lemma plan_repair_stage1:
  assumes planned: "planned E sz root d pe p i es current authority"
    and stamped: "run_stamped E root d (ev_runId pe) (length es)"
  shows "plan_repair E sz root (stage1 d pe) = Inr (prep_run p, False, prep_index p)"
proof -
  note facts = prepared_facts [OF planned]
  have reads: "readIndex E (stage1 d pe) = Inr i" "readRun E root (stage1 d pe) = readRun E root d"
    using plannedD(1) [OF planned] by (simp_all add: readIndex_def readRun_def fun_eq_iff)
  have "authority_for E sz (stage1 d pe) = authority_for E sz d"
    by (rule authority_for_cong) simp_all
  moreover have "map_option run_transactionRevision current \<noteq> Some (ev_sequence pe)"
    using stamped plannedD(4) [OF planned] facts(2) by (cases current) (auto simp: run_stamped_def)
  ultimately show ?thesis
    using facts by (simp add: plan_repair_def reads appended [OF planned] plannedD(3-6) [OF planned] Let_def)
qed

lemma readRun_stage2:
  assumes "planned E sz root d pe p i es current authority"
  shows "readRun E root (stage2 d pe p) (ev_runId pe) =
    (case decodeRun E root (stringify (prep_run p)) of Inl err \<Rightarrow> Inl err | Inr r \<Rightarrow> Inr (Some r))"
  using planned_uuid [OF assms] prepared_facts(3) [OF assms] by (simp add: readRun_def)

text \<open>
  Once the run is published, repair depends on reading it back.
\<close>

lemma plan_repair_stage2:
  assumes "planned E sz root d pe p i es current authority"
  shows "decodeRun E root (stringify (prep_run p)) = Inr (prep_run p) \<Longrightarrow>
      plan_repair E sz root (stage2 d pe p) = Inr (prep_run p, True, prep_index p)"
    and "decodeRun E root (stringify (prep_run p)) = Inl err \<Longrightarrow>
      plan_repair E sz root (stage2 d pe p) = Inl (RepairThrows (ThrowDecode err))"
proof -
  have "readIndex E (stage2 d pe p) = Inr i" using plannedD(1) [OF assms] by (simp add: readIndex_def)
  note known = this prepared_facts [OF assms] appended [OF assms] plannedD(3) [OF assms] readRun_stage2 [OF assms]
  show "plan_repair E sz root (stage2 d pe p) = Inr (prep_run p, True, prep_index p)"
    if "decodeRun E root (stringify (prep_run p)) = Inr (prep_run p)"
    using that known by (simp add: plan_repair_def Let_def)
  show "plan_repair E sz root (stage2 d pe p) = Inl (RepairThrows (ThrowDecode err))"
    if "decodeRun E root (stringify (prep_run p)) = Inl err"
    using that known by (simp add: plan_repair_def Let_def)
qed

definition smooth_repair :: "repair_io \<Rightarrow> bool" where
  "smooth_repair io \<longleftrightarrow> rp_valid io \<and> rp_contained io = Contained \<and> rp_locked io \<and>
     rp_validRun io \<and> smooth (rp_run io) \<and> rp_validIndex io \<and> smooth (rp_index io)"

lemma repairState_smooth:
  assumes "smooth_repair io" "plan_repair E sz root d = Inr (r, published, i)"
  shows "repairState E sz root io d =
    (with_index (if published then d else with_run d r) i, RepairOk r i)"
  using assms
  by (auto simp: smooth_repair_def repairState_def repair_index_def atomicReplace_smooth Let_def
      with_index_def with_run_def put_run_def)

lemma repairState_stuck:
  assumes "smooth_repair io" "plan_repair E sz root d = Inl res"
  shows "repairState E sz root io d = (d, res)"
  using assms by (simp add: smooth_repair_def repairState_def)

section \<open>The log only grows\<close>

lemma upgrade_run_normal: "runSchema E r = Some r \<Longrightarrow> runSchema E (upgrade_run r) = Some (upgrade_run r)"
  by (auto simp: upgrade_run_def runSchema_normal_iff split: run_version.splits)

lemma persisted_event_normal:
  assumes "stateEventSchema E e = Some e"
  shows "stateEventSchema E (persistedEventForIndex i e) = Some (persistedEventForIndex i e)"
proof -
  have "mutationSchema E m = Some m \<Longrightarrow>
      mutationSchema E (case m of RunCreated r \<Rightarrow> RunCreated (upgrade_run r) | m \<Rightarrow> m) =
        Some (case m of RunCreated r \<Rightarrow> RunCreated (upgrade_run r) | m \<Rightarrow> m)" for m
    by (cases m) (auto simp: upgrade_run_normal)
  moreover have "kind_of_mutation (case m of RunCreated r \<Rightarrow> RunCreated (upgrade_run r) | m \<Rightarrow> m) = kind_of_mutation m" for m
    by (cases m) auto
  moreover have "counter_positive 1 = Some 1" by (simp add: counter_positive_def counter_def max_safe_integer_def)
  ultimately show ?thesis
    using assms unfolding persistedEventForIndex_def Let_def stateEventSchema_normal_iff
    by (auto simp del: One_nat_def)
qed

lemma persisted_event_file_safe [simp]: "file_safe (persistedEventForIndex i e) = file_safe e"
  by (simp add: file_safe_def)

lemma plan_commit_planned:
  assumes "plan_commit E sz root d ordered e = Inr (PlanWrite pe p)" "readable E e"
  obtains i es current authority where "planned E sz root d pe p i es current authority"
    "pe = persistedEventForIndex i e" "\<And>x. x \<in> set es \<Longrightarrow> ev_eventId x \<noteq> ev_eventId e"
  using assms(1)
proof (rule plan_commit_writeE)
  fix i es current authority
  assume "readIndex E d = Inr i" "readAll E (d_events d) = Inr es" "idx_revision i = length es"
    "readRun E root d (ev_runId e) = Inr current" "pe = persistedEventForIndex i e"
    "authority_for E sz d current pe = Inr authority"
    "prepareTransition i current pe authority = Inr p"
    "\<And>x. x \<in> set es \<Longrightarrow> ev_eventId x \<noteq> ev_eventId e"
  moreover from this(5) have "readable E pe"
    using assms(2) persisted_event_normal by (simp add: readable_def)
  ultimately show thesis using that by (simp add: planned_def)
qed

lemma commit_locked_log:
  assumes "readable E e"
  shows "\<exists>new. logged E (fst (commit_locked E sz root io d e)) = logged E d @ new \<and>
    (logged E d @ new \<noteq> logged E d \<longrightarrow> (\<exists>pe. new = [pe] \<and> ev_sequence pe = Suc (length (logged E d))))"
proof (cases "\<exists>pe p. plan_commit E sz root d (ci_ordered io) e = Inr (PlanWrite pe p)")
  case True
  then obtain pe p where plan: "plan_commit E sz root d (ci_ordered io) e = Inr (PlanWrite pe p)" by blast
  obtain i es current authority where pl: "planned E sz root d pe p i es current authority"
    by (rule plan_commit_planned [OF plan assms])
  obtain d' res where d': "write_commit io d pe p = (d', res)" by fastforce
  from write_commit_stages [OF d'] obtain k temps where
    k: "k \<le> 3" "temporary temps" "d' = with_temps (commit_stage d pe p k) temps" by blast
  have "logged E d' = (if k = 0 then es else es @ [pe])"
    using inspect_commit_stage(2) [OF pl k(1)] with_temps_same [OF k(2)] by (simp add: logged_def same_state_def k(3))
  moreover have "fst (commit_locked E sz root io d e) = d'" by (simp add: commit_locked_def plan d')
  moreover have "logged E d = es" "ev_sequence pe = Suc (length es)"
    using plannedD(2) [OF pl] prepared_facts(2) [OF pl] by (simp_all add: logged_def)
  ultimately show ?thesis by auto
next
  case False
  then have "fst (commit_locked E sz root io d e) = d"
    by (auto simp: commit_locked_def split: sum.splits commit_plan.splits)
  then show ?thesis by (intro exI [of _ "[]"]) simp
qed

lemma logged_dense: "dense (map ev_sequence (logged E d))"
  by (auto simp: logged_def split: sum.splits dest: readAll_dense)

text \<open>The store implements the interface of append-only logs.\<close>

interpretation event_log: append_only_log "\<lambda>_. True" "logged E" ev_sequence "\<lambda>(io, e). readable E e"
  "\<lambda>d (io, e). fst (commit_locked E sz root io d e)" for E sz root
proof unfold_locales
  fix d and op :: "commit_io \<times> state_event"
  assume "case op of (io, e) \<Rightarrow> readable E e"
  then obtain io e where op: "op = (io, e)" "readable E e" by (cases op) simp
  from commit_locked_log [OF op(2)]
  show "\<exists>new. logged E (case op of (io, e) \<Rightarrow> fst (commit_locked E sz root io d e)) = logged E d @ new"
    unfolding op(1) prod.case by blast
qed (simp_all add: logged_dense)

end
