(* ===== verification/Sample_Store.thy ===== *)
theory Sample_Store
  imports Store_Laws Sample_State
begin

text \<open>
  A concrete transaction store: a host that fails nowhere, a fresh repository, and the event that
  creates its first run.
\<close>

definition smooth_write :: write_io where
  "smooth_write = \<lparr>wi_deadline = True, wi_prepare = StepOk, wi_guard = StepOk, wi_attempts = [(True, RenameOk)]\<rparr>"

definition smooth_commit :: commit_io where
  "smooth_commit = \<lparr>ci_ordered = True, ci_validEvent = True, ci_event = smooth_write, ci_leftover = None,
     ci_killedAfterEvent = False, ci_validRun = True, ci_run = smooth_write, ci_killedAfterRun = False,
     ci_validIndex = True, ci_index = smooth_write\<rparr>"

definition open_entry :: entry_io where
  "open_entry = \<lparr>en_valid = True, en_contained = Contained, en_locked = True, en_validAfterWait = True\<rparr>"

definition smooth_repair_io :: repair_io where
  "smooth_repair_io = \<lparr>rp_valid = True, rp_contained = Contained, rp_locked = True, rp_validRun = True,
     rp_run = smooth_write, rp_validIndex = True, rp_index = smooth_write\<rparr>"

definition fresh_disk :: disk where
  "fresh_disk = \<lparr>d_index = Some (stringify \<lparr>idx_version = IndexV2 1, idx_revision = 0, idx_entries = []\<rparr>),
     d_runs = (\<lambda>_. None), d_events = [], d_taskFacts = (\<lambda>_. None),
     d_acceptances = (\<lambda>_. \<lparr>af_snapshot = None, af_wal = []\<rparr>), d_rejections = (\<lambda>_. None)\<rparr>"

definition creation :: state_event where
  "creation = \<lparr>ev_version = EventV2 None None False, ev_eventId = sample_uuid (CHR ''0''), ev_sequence = 1,
     ev_runId = run_runId sample_start_run, ev_workflow = StartWork, ev_kind = KRunCreated,
     ev_expected = \<lparr>exp_indexRevision = 0, exp_runRevision = None, exp_ownerSessionId = None, exp_ownerEpoch = None\<rparr>,
     ev_mutation = RunCreated sample_start_run, ev_at = ''t0''\<rparr>"

definition sample_size :: "acceptance_event file_bytes \<Rightarrow> nat" where
  "sample_size _ = 100"

definition creation_plan :: prepared_transition where
  "creation_plan = \<lparr>prep_run = sample_start_run, prep_index = sample_index [sample_start_run]\<rparr>"

lemma creation_planned:
  "plan_commit sample_env sample_size sample_root fresh_disk ordered creation = Inr (PlanWrite creation creation_plan)"
proof -
  have "plan_commit sample_env sample_size sample_root fresh_disk True creation = Inr (PlanWrite creation creation_plan)"
    "plan_commit sample_env sample_size sample_root fresh_disk False creation = Inr (PlanWrite creation creation_plan)"
    by code_simp+
  then show ?thesis by (cases ordered) simp_all
qed

lemma creation_readable: "readable sample_env creation"
  by code_simp

lemma fresh_disk_stamped: "run_stamped sample_env sample_root fresh_disk u n"
  by (simp add: run_stamped_def readRun_def fresh_disk_def)

end
