(* ===== verification/Store_Properties.thy ===== *)
theory Store_Properties
  imports Sample_Store
begin

text \<open>
  The contract of the transaction store: crash safety and repair, idempotent replay, an
  append-only log, atomic publication of files and event file names that round-trip.
\<close>

section \<open>Crash safety\<close>

lemma commit_cases:
  assumes "commit E sz root en io d e = (d', res)"
  shows "d' = d \<and> (\<exists>err. res = CommitErr err) \<or> commit_locked E sz root io d e = (d', res)"
  using assms by (auto simp: commit_def split: if_splits containment.splits)

lemma commit_stages:
  assumes plan: "plan_commit E sz root d (ci_ordered io) e = Inr (PlanWrite pe p)"
    and step: "commit E sz root en io d e = (d', res)"
  shows "\<exists>k\<le>3. \<exists>temps. temporary temps \<and> d' = with_temps (commit_stage d pe p k) temps \<and>
    (\<forall>st r i. res = CommitOk st r i \<longrightarrow>
      st = CommitCommitted \<and> r = prep_run p \<and> i = prep_index p \<and> k = 3 \<and> temps = [])"
  using commit_cases [OF step]
proof
  assume "d' = d \<and> (\<exists>err. res = CommitErr err)"
  then show ?thesis by (intro exI [of _ 0] conjI exI [of _ "[]"]) (auto simp: commit_stage_def)
next
  assume "commit_locked E sz root io d e = (d', res)"
  then have "write_commit io d pe p = (d', res)" by (simp add: commit_locked_def plan)
  then show ?thesis by (rule write_commit_stages)
qed

text \<open>
  C1. Whatever happens to the host during a commit that passed its checks (a deadline passes, a
  system call fails, the process dies at any point of any write), the disk is left in one of four
  stages, but for temporary files in the events directory: as it was; with the event appended;
  with the event and the snapshot of the run; with the event, the snapshot and the index. A commit
  that reports success has reached the last stage, left no temporary file, and reports the run and
  the index it has written. When the event can be read back (its schema accepts it as it is, and
  its id has the form of an event file name), the log reads as before in the first stage and ends
  with the event in the others, and recovery finds the store healthy at the old revision, or
  repairable at the next one in the second and third stage, or in the last stage healthy at the
  next one, provided the written index can itself be read.
\<close>

theorem commit_crash_safe:
  assumes "plan_commit E sz root d (ci_ordered io) e = Inr (PlanWrite pe p)"
    and "commit E sz root en io d e = (d', res)"
  shows "\<exists>k\<le>3. \<exists>temps. temporary temps \<and> d' = with_temps (commit_stage d pe p k) temps \<and>
    (\<forall>st r i. res = CommitOk st r i \<longrightarrow>
      st = CommitCommitted \<and> r = prep_run p \<and> i = prep_index p \<and> k = 3 \<and> temps = []) \<and>
    (readable E e \<longrightarrow>
      logged E d' = (if k = 0 then logged E d else logged E d @ [pe]) \<and>
      inspectRecovery E d' = stage_reading E (prep_index p) (length (logged E d)) k)"
proof -
  from commit_stages [OF assms] obtain k temps where k: "k \<le> 3" "temporary temps"
    "d' = with_temps (commit_stage d pe p k) temps"
    "\<forall>st r i. res = CommitOk st r i \<longrightarrow>
      st = CommitCommitted \<and> r = prep_run p \<and> i = prep_index p \<and> k = 3 \<and> temps = []" by blast
  note same = with_temps_same [OF k(2), of E "commit_stage d pe p k", folded k(3)]
  have "logged E d' = (if k = 0 then logged E d else logged E d @ [pe]) \<and>
      inspectRecovery E d' = stage_reading E (prep_index p) (length (logged E d)) k" if ok: "readable E e"
  proof -
    obtain i es current authority where pl: "planned E sz root d pe p i es current authority"
      by (rule plan_commit_planned [OF assms(1) ok])
    then show ?thesis
      using inspect_commit_stage [OF pl k(1)] same inspectRecovery_cong [OF same] plannedD(2) [OF pl]
      by (simp add: logged_def same_state_def)
  qed
  with k show ?thesis by blast
qed

theorem commit_crash_safe_witness:
  "\<exists>k\<le>3. inspectRecovery sample_env (fst (commit sample_env sample_size sample_root open_entry
      (smooth_commit\<lparr>ci_killedAfterRun := True\<rparr>) fresh_disk creation)) =
    stage_reading sample_env (sample_index [sample_start_run]) 0 k"
proof -
  let ?io = "smooth_commit\<lparr>ci_killedAfterRun := True\<rparr>"
  have "length (logged sample_env fresh_disk) = 0" "prep_index creation_plan = sample_index [sample_start_run]"
    by code_simp+
  with commit_crash_safe [OF creation_planned prod.collapse [symmetric], of open_entry ?io] creation_readable
  show ?thesis by (elim exE conjE) (intro exI conjI, assumption, simp)
qed

text \<open>
  C2. Repair completes an interrupted commit. Let the event of a commit be readable, let the store
  be found repairable after it, let the stored snapshot of the event's run not be stamped beyond
  the log, and let nothing fail on the host during the repair. Then the store holds the event, with
  or without the snapshot of the run. Without the snapshot, or when the snapshot reads back as it
  was written, repair reports the run and the index the commit was to publish and leaves exactly
  the state the completed commit would have left. With a snapshot that cannot be read, repair
  throws its decoding error and changes nothing. (Commits that publish such a snapshot exist: one
  that settles a goal while a second goal is active.)
\<close>

theorem repair_completes_commit:
  assumes "plan_commit E sz root d (ci_ordered io) e = Inr (PlanWrite pe p)" "readable E e"
    and "commit E sz root en io d e = (d', res)" "inspectRecovery E d' = Repairable n"
    and "run_stamped E root d (ev_runId e) (length (logged E d))" "smooth_repair rio"
  shows "(same_state E d' (stage1 d pe) \<or> same_state E d' (stage2 d pe p)) \<and>
    (same_state E d' (stage1 d pe) \<or> decodeRun E root (stringify (prep_run p)) = Inr (prep_run p) \<longrightarrow>
      (\<exists>d''. repairState E sz root rio d' = (d'', RepairOk (prep_run p) (prep_index p)) \<and>
        same_state E d'' (stage3 d pe p) \<and> inspectRecovery E d'' = level_with E (prep_index p) n)) \<and>
    (\<forall>err. same_state E d' (stage2 d pe p) \<and> decodeRun E root (stringify (prep_run p)) = Inl err \<longrightarrow>
      repairState E sz root rio d' = (d', RepairThrows (ThrowDecode err)))"
proof -
  obtain i es current authority where pl: "planned E sz root d pe p i es current authority"
    and pe: "pe = persistedEventForIndex i e"
    by (rule plan_commit_planned [OF assms(1,2)])
  have es: "logged E d = es" using plannedD(2) [OF pl] by (simp add: logged_def)
  have stamped: "run_stamped E root d (ev_runId pe) (length es)" using assms(5) by (simp add: es pe)
  from commit_stages [OF assms(1,3)] obtain k temps where k: "k \<le> 3" "temporary temps"
    "d' = with_temps (commit_stage d pe p k) temps" by blast
  note same = with_temps_same [OF k(2), of E "commit_stage d pe p k", folded k(3)]
  have reading: "stage_reading E (prep_index p) (length es) k = Repairable n"
    using inspectRecovery_cong [OF same] inspect_commit_stage(1) [OF pl k(1)] assms(4) by simp
  then have n: "n = Suc (length es)" and "k = 1 \<or> k = 2"
    using k(1) by (auto simp: stage_reading_def level_with_def split: if_splits sum.splits)
  then have stages: "same_state E d' (stage1 d pe) \<or> same_state E d' (stage2 d pe p)"
    using same by (auto simp: commit_stage_def)
  have first: "\<exists>d''. repairState E sz root rio d' = (d'', RepairOk (prep_run p) (prep_index p)) \<and> same_state E d'' (stage3 d pe p)"
    if s: "same_state E d' (stage1 d pe)"
  proof -
    have "plan_repair E sz root d' = Inr (prep_run p, False, prep_index p)"
      using plan_repair_stage1 [OF pl stamped] plan_repair_cong [OF s] by simp
    from repairState_smooth [OF assms(6) this] show ?thesis
      using same_state_with_index [OF same_state_with_run [OF s]] by (simp add: stage2_def stage3_def)
  qed
  have second: "\<exists>d''. repairState E sz root rio d' = (d'', RepairOk (prep_run p) (prep_index p)) \<and> same_state E d'' (stage3 d pe p)"
    if s: "same_state E d' (stage2 d pe p)" and "decodeRun E root (stringify (prep_run p)) = Inr (prep_run p)"
  proof -
    have "plan_repair E sz root d' = Inr (prep_run p, True, prep_index p)"
      using plan_repair_stage2(1) [OF pl that(2)] plan_repair_cong [OF s] by simp
    from repairState_smooth [OF assms(6) this] show ?thesis
      using same_state_with_index [OF s] by (simp add: stage3_def)
  qed
  have third: "repairState E sz root rio d' = (d', RepairThrows (ThrowDecode err))"
    if s: "same_state E d' (stage2 d pe p)" and "decodeRun E root (stringify (prep_run p)) = Inl err" for err
    using repairState_stuck [OF assms(6)] plan_repair_stage2(2) [OF pl that(2)] plan_repair_cong [OF s] by simp
  have level: "inspectRecovery E d'' = level_with E (prep_index p) n" if "same_state E d'' (stage3 d pe p)" for d''
    using inspectRecovery_cong [OF that] inspect_stages(4) [OF pl] n by simp
  show ?thesis using stages first second third level by blast
qed

theorem repair_completes_commit_witness:
  "\<exists>d''. repairState sample_env sample_size sample_root smooth_repair_io
     (fst (commit sample_env sample_size sample_root open_entry (smooth_commit\<lparr>ci_killedAfterEvent := True\<rparr>)
        fresh_disk creation)) = (d'', RepairOk sample_start_run (sample_index [sample_start_run])) \<and>
     inspectRecovery sample_env d'' = Healthy 1"
proof -
  let ?d = "fst (commit sample_env sample_size sample_root open_entry (smooth_commit\<lparr>ci_killedAfterEvent := True\<rparr>)
    fresh_disk creation)"
  have "inspectRecovery sample_env ?d = Repairable 1" by code_simp
  moreover have "smooth_repair smooth_repair_io" by code_simp
  moreover have "decodeRun sample_env sample_root (stringify (prep_run creation_plan)) = Inr (prep_run creation_plan)"
    "level_with sample_env (prep_index creation_plan) 1 = Healthy 1" by code_simp+
  ultimately show ?thesis
    using repair_completes_commit [OF creation_planned creation_readable prod.collapse [symmetric] _ fresh_disk_stamped]
    by (fastforce simp: creation_plan_def)
qed

text \<open>
  C10. No commit is made on top of an unfinished one: while the store is repairable, every event
  with a new id is refused, as a diverged state, and the disk is not touched.
\<close>

theorem unfinished_commit_blocks:
  assumes "inspectRecovery E d = Repairable n" "ev_eventId e \<notin> ev_eventId ` set (logged E d)"
  shows "commit_locked E sz root io d e = (d, CommitErr StateDiverged)"
proof -
  obtain i es where r: "readIndex E d = Inr i" "readAll E (d_events d) = Inr es" "highest_sequence es \<noteq> idx_revision i"
    using assms(1) by (auto simp: inspectRecovery_def Let_def split: sum.splits if_splits)
  have "List.find (\<lambda>c. ev_eventId c = ev_eventId e) es = None"
    using assms(2) r(2) by (simp add: find_None_iff logged_def image_iff) metis
  with r show ?thesis by (simp add: commit_locked_def plan_commit_def)
qed

definition half_committed :: disk where
  "half_committed = fst (commit sample_env sample_size sample_root open_entry
     (smooth_commit\<lparr>ci_killedAfterEvent := True\<rparr>) fresh_disk creation)"

theorem unfinished_commit_blocks_witness:
  "commit_locked sample_env sample_size sample_root smooth_commit half_committed
     (sample_event 1 sample_start_run None (WorkflowControlled CtlPause)) = (half_committed, CommitErr StateDiverged)"
proof (rule unfinished_commit_blocks)
  show "inspectRecovery sample_env half_committed = Repairable 1" by code_simp
  have "ev_eventId ` set (logged sample_env half_committed) = {sample_uuid (CHR ''0'')}" by code_simp
  moreover have "sample_uuid (digit 1) \<noteq> sample_uuid (CHR ''0'')" by code_simp
  ultimately show "ev_eventId (sample_event 1 sample_start_run None (WorkflowControlled CtlPause)) \<notin>
      ev_eventId ` set (logged sample_env half_committed)"
    by (simp add: sample_event_def)
qed

section \<open>Replay\<close>




text \<open>
  A version 1 event committed under a version 2 index is logged in its upgraded form, so that
  sending the same event again is answered with an idempotency conflict and not with its result.
\<close>

theorem replay_of_upgraded_event_conflicts:
  assumes "idx_version j \<noteq> IndexV1" "\<not> ev_is_v2 e" "logged E d = xs @ [persistedEventForIndex j e]"
    and "\<forall>x\<in>set xs. ev_eventId x \<noteq> ev_eventId e" "readIndex E d = Inr i"
  shows "commit_locked E sz root io d e = (d, CommitErr IdempotencyConflict)"
proof -
  let ?pe = "persistedEventForIndex j e"
  have "readAll E (d_events d) = Inr (xs @ [?pe])"
    using assms(3) by (auto simp: logged_def split: sum.splits)
  moreover have "List.find (\<lambda>c. ev_eventId c = ev_eventId e) (xs @ [?pe]) = Some ?pe"
    using assms(4) by (auto simp: find_append find_None_iff split: option.splits dest: find_SomeD)
  moreover have "ev_is_v2 ?pe" using assms(1,2) by (simp add: persistedEventForIndex_def Let_def ev_is_v2_def)
  then have "eventSemantics ?pe \<noteq> eventSemantics e"
    using assms(2) by (metis (no_types, lifting) eventSemantics_def ev_is_v2_def state_event.ext_inject
        state_event.surjective state_event.update_convs(2,3,9))
  ultimately show ?thesis
    by (simp add: commit_locked_def plan_commit_def same_semantics_def assms(5))
qed

definition v1_creation :: state_event where
  "v1_creation = creation\<lparr>ev_version := EventV1\<rparr>"

definition v1_disk :: disk where
  "v1_disk = fst (commit sample_env sample_size sample_root open_entry smooth_commit fresh_disk v1_creation)"

theorem replay_of_upgraded_event_conflicts_witness:
  "commit_locked sample_env sample_size sample_root smooth_commit v1_disk v1_creation =
     (v1_disk, CommitErr IdempotencyConflict)"
proof (rule replay_of_upgraded_event_conflicts)
  show "idx_version (sample_index []) \<noteq> IndexV1" "\<not> ev_is_v2 v1_creation" by code_simp+
  show "logged sample_env v1_disk = [] @ [persistedEventForIndex (sample_index []) v1_creation]" by code_simp
  show "readIndex sample_env v1_disk = Inr (sample_index [sample_start_run])" by code_simp
qed simp

section \<open>The log\<close>

text \<open>
  C8. Over any number of commits of readable events, each with any host behaviour, the event log
  only grows at its end, and its sequence numbers are 1, 2, 3 and so on without a gap.
\<close>

theorem event_log_append_only:
  assumes "\<forall>op\<in>set ops. readable E (snd op)"
  shows "\<exists>new. logged E (foldl (\<lambda>d (io, e). fst (commit_locked E sz root io d e)) d ops) = logged E d @ new \<and>
    map ev_sequence (logged E d @ new) = [1..<Suc (length (logged E d @ new))]"
proof -
  have "list_all (\<lambda>(io, e). readable E e) ops" using assms by (auto simp: list_all_iff)
  from event_log.run_appends [OF TrueI this] show ?thesis by (simp add: dense_def)
qed

theorem event_log_append_only_witness:
  "\<exists>new. logged sample_env (foldl (\<lambda>d (io, e). fst (commit_locked sample_env sample_size sample_root io d e)) fresh_disk
     [(smooth_commit, creation), (smooth_commit\<lparr>ci_validRun := False\<rparr>, sample_event 1 sample_start_run None (WorkflowControlled CtlPause))])
     = logged sample_env fresh_disk @ new"
proof -
  have "readable sample_env creation" "readable sample_env (sample_event 1 sample_start_run None (WorkflowControlled CtlPause))"
    by code_simp+
  then show ?thesis
    using event_log_append_only [of "[(smooth_commit, creation), (smooth_commit\<lparr>ci_validRun := False\<rparr>,
      sample_event 1 sample_start_run None (WorkflowControlled CtlPause))]" sample_env sample_size sample_root fresh_disk]
    by auto
qed

text \<open>
  An event that its own schema rejects can be committed. Steering with no new criteria passes the
  schema of the steering input and the transition, while the schema of events asks for at least
  one: the commit reports success, and from then on the log cannot be read, recovery reports a corrupt
  store, and every further commit throws.
\<close>

definition steered_run :: run where
  "steered_run = sample_ulw_run [sample_goal ''g1'' GoalInProgress [''c1'']]"

definition ulw_disk :: disk where
  "ulw_disk = fst (commit sample_env sample_size sample_root open_entry smooth_commit fresh_disk
     (creation\<lparr>ev_runId := run_runId steered_run, ev_workflow := UlwLoop, ev_mutation := RunCreated steered_run\<rparr>))"

definition empty_steering :: state_event where
  "empty_steering = sample_event 1 steered_run (Some 1) (WorkflowSteered [] None)"

definition steered_disk :: disk where
  "steered_disk = fst (commit sample_env sample_size sample_root open_entry smooth_commit ulw_disk empty_steering)"

lemma empty_steering_committed:
  "case commit sample_env sample_size sample_root open_entry smooth_commit ulw_disk empty_steering of
     (_, CommitOk CommitCommitted _ _) \<Rightarrow> True | _ \<Rightarrow> False"
  by code_simp

lemma empty_steering_corrupts_log:
  "inspectRecovery sample_env steered_disk = RecoveryConflict Corrupt \<and>
   commit sample_env sample_size sample_root open_entry io steered_disk e =
     (steered_disk, CommitThrows (ThrowEvents StoredMalformedEvent))"
proof -
  have index: "case readIndex sample_env steered_disk of Inr _ \<Rightarrow> True | _ \<Rightarrow> False" by code_simp
  have events: "readAll sample_env (d_events steered_disk) = Inl StoredMalformedEvent" by code_simp
  have "inspectRecovery sample_env steered_disk = RecoveryConflict Corrupt" by code_simp
  then show ?thesis
    using index by (auto simp: commit_def open_entry_def commit_locked_def plan_commit_def events split: sum.splits)
qed

text \<open>
  The file name of an event round-trips: for an id of 36 lower-case hexadecimal digits and
  dashes, the name is recognised, yields the sequence number and the id, and is not mistaken for a
  temporary file, while every temporary name is.
\<close>

theorem event_file_name_roundtrip:
  assumes "file_safe e" "ev_sequence e \<le> max_safe_integer"
  shows "\<exists>text. EVENT_FILE (eventFileName e) = Some (text, ev_eventId e) \<and> number_of text = ev_sequence e \<and>
    \<not> js_includes (eventFileName e) ''.tmp-'' \<and> js_includes (temp_name (eventFileName e) u) ''.tmp-''"
  using EVENT_FILE_eventFileName [OF assms] padded_sequence(3) [OF assms(2)] eventFileName_committed [OF assms(1)]
    temp_name_not_committed by blast

theorem event_file_name_roundtrip_witness:
  "\<exists>text. EVENT_FILE (eventFileName creation) = Some (text, ev_eventId creation) \<and> number_of text = 1"
proof -
  have "file_safe creation" by code_simp
  moreover have "ev_sequence creation \<le> max_safe_integer" by (simp add: creation_def max_safe_integer_def)
  ultimately show ?thesis
    using event_file_name_roundtrip [of creation "[]"] by (auto simp: creation_def)
qed

section \<open>Publishing a file\<close>

text \<open>
  Publishing a file is all or nothing: after \<^verbatim>\<open>atomicReplace\<close> and \<^verbatim>\<open>atomicCreate\<close> the target holds
  its former content or the new one; a reported success means the new one and a reported deadline the
  former; a creation never changes an existing file. The retry loop of a replacement ends as soon
  as the deadline has passed at one of its attempts.
\<close>

theorem publication_atomic:
  "fst (atomicReplace io bytes slot) \<in> {slot, Some bytes} \<and>
   (snd (atomicReplace io bytes slot) = Published \<longrightarrow> fst (atomicReplace io bytes slot) = Some bytes) \<and>
   (snd (atomicReplace io bytes slot) = WriteDeadline \<longrightarrow> fst (atomicReplace io bytes slot) = slot) \<and>
   fst (atomicCreate io bytes slot) \<in> {slot, Some bytes} \<and>
   (snd (atomicCreate io bytes slot) = Published \<longrightarrow> slot = None \<and> fst (atomicCreate io bytes slot) = Some bytes) \<and>
   (slot \<noteq> None \<longrightarrow> fst (atomicCreate io bytes slot) = slot)"
  using atomicReplace_atomic [OF prod.collapse [symmetric], of io bytes slot]
    atomicCreate_atomic [OF prod.collapse [symmetric], of io bytes slot]
  by blast

text \<open>A write can fail after it has taken effect: the removal of the temporary file throws.\<close>

lemma failed_write_published:
  "atomicReplace (smooth_write\<lparr>wi_attempts := [(True, RenameThenThrows)]\<rparr>) bytes slot = (Some bytes, WriteThrows)"
  by (simp add: atomicReplace_def preparedTemp_def smooth_write_def)

end
