(* ===== verification/Task_Ledger_Properties.thy ===== *)
theory Task_Ledger_Properties
  imports Task_Ledger Sample_State
begin

text \<open>
  The contract of the task ledger: merging valid facts never fails and only appends, the fan-out
  of an owner stays within its limit, and control operations reach only what the run owns.
\<close>

section \<open>Normal ledgers\<close>

lemma taskLedgerSchema_normal_iff:
  "taskLedgerSchema E l = Some l \<longleftrightarrow>
     ledgerVersionSchema (tl_version l) = Some (tl_version l) \<and> is_uuid E (tl_runId l) \<and>
     tl_ledgerRevision l \<le> max_safe_integer \<and>
     list_all (\<lambda>e. ledgerEntrySchema e = Some e) (tl_entries l) \<and> ledgerIsOrdered l"
  by (cases l)
    (auto simp: taskLedgerSchema_def Let_def uuid_schema_def counter_def array_of_normal [symmetric]
       elim!: bind_SomeE guard_SomeE split: if_splits)

lemma ledgerEntrySchema_normal_iff:
  "ledgerEntrySchema e = Some e \<longleftrightarrow>
     0 < tle_sequence e \<and> tle_sequence e \<le> max_safe_integer \<and>
     nonempty (tle_ownerSessionId e) = Some (tle_ownerSessionId e) \<and> tle_ownerEpoch e \<le> max_safe_integer \<and>
     factSchema (tle_fact e) = Some (tle_fact e)"
  by (cases e) (auto simp: ledgerEntrySchema_def counter_positive_def counter_def elim!: bind_SomeE guard_SomeE split: if_splits)

section \<open>Merging\<close>

lemma novel_facts_spec:
  assumes "novel_facts ordered byKey nov fs = Some res" "distinct (map taskFactKey nov)"
    and "\<forall>f\<in>set nov. byKey (taskFactKey f) = None"
  shows "distinct (map taskFactKey res)" and "set res \<subseteq> set nov \<union> set fs"
    and "\<forall>f\<in>set res. byKey (taskFactKey f) = None"
proof -
  have "distinct (map taskFactKey res) \<and> set res \<subseteq> set nov \<union> set fs \<and> (\<forall>f\<in>set res. byKey (taskFactKey f) = None)"
    using assms
  proof (induction ordered byKey nov fs rule: novel_facts.induct)
    case (2 ordered byKey nov f fs)
    show ?case
    proof (cases "byKey (taskFactKey f)")
      case None
      with "2.prems"(1) have fresh: "\<forall>c\<in>set nov. taskFactKey c \<noteq> taskFactKey f"
        and rest: "novel_facts ordered byKey (nov @ [f]) fs = Some res"
        by (auto simp: list_ex_iff split: if_splits)
      then have "\<not> list_ex (\<lambda>c. taskFactKey c = taskFactKey f) nov" by (simp add: list_ex_iff)
      note IH = "2.IH"(1) [OF None this rest]
      have "taskFactKey f \<notin> taskFactKey ` set nov" using fresh by (simp add: image_iff) metis
      with IH "2.prems"(2,3) None show ?thesis by simp
    next
      case (Some old)
      with "2.prems" have "sameFact ordered f f" "old = f" "novel_facts ordered byKey nov fs = Some res"
        by (auto simp: sameFact_def split: if_splits)
      with "2.IH"(2) [OF Some] "2.prems" show ?thesis by auto
    qed
  qed simp
  then show "distinct (map taskFactKey res)" "set res \<subseteq> set nov \<union> set fs"
    "\<forall>f\<in>set res. byKey (taskFactKey f) = None" by auto
qed

definition new_entries :: "task_ledger \<Rightarrow> task_fact list \<Rightarrow> string \<Rightarrow> nat \<Rightarrow> task_ledger_entry list" where
  "new_entries l novel sid ep = map (\<lambda>(f, index).
     \<lparr>tle_sequence = tl_ledgerRevision l + index + 1, tle_ownerSessionId = sid, tle_ownerEpoch = ep,
      tle_fact = f\<rparr>) (zip novel [0..<length novel])"

lemma append_facts_eq:
  "append_facts l novel sid ep = l\<lparr>tl_ledgerRevision := length (tl_entries l) + length novel,
     tl_entries := tl_entries l @ new_entries l novel sid ep\<rparr>"
  by (simp add: append_facts_def new_entries_def Let_def)

lemma new_entries_keys: "map ledger_key (new_entries l novel sid ep) = map (\<lambda>f. (sid, ep, taskFactKey f)) novel"
  by (rule nth_equalityI) (auto simp: new_entries_def ledger_key_def)

lemma new_entries_facts: "map tle_fact (new_entries l novel sid ep) = novel"
  by (rule nth_equalityI) (auto simp: new_entries_def)

lemma new_entries_sequences:
  "map tle_sequence (new_entries l novel sid ep) = [Suc (tl_ledgerRevision l)..<Suc (tl_ledgerRevision l + length novel)]"
  by (rule nth_equalityI) (auto simp: new_entries_def simp del: upt_Suc)

lemma facts_by_key_None:
  "facts_by_key l sid ep k = None \<Longrightarrow> (sid, ep, k) \<notin> set (map ledger_key (tl_entries l))"
  by (auto simp: facts_by_key_def find_last_None_iff ledger_key_def)

lemma append_facts_ordered:
  assumes "ledgerIsOrdered l" "distinct (map taskFactKey novel)"
    and "\<forall>f\<in>set novel. facts_by_key l sid ep (taskFactKey f) = None"
  shows "ledgerIsOrdered (append_facts l novel sid ep)"
proof -
  have len: "length (new_entries l novel sid ep) = length novel" by (simp add: new_entries_def)
  have "distinct (map (\<lambda>f. (sid, ep, taskFactKey f)) novel)"
    using assms(2) by (auto simp: distinct_map inj_on_def)
  moreover have "set (map ledger_key (tl_entries l)) \<inter> set (map (\<lambda>f. (sid, ep, taskFactKey f)) novel) = {}"
  proof -
    have "(sid, ep, taskFactKey f) \<notin> set (map ledger_key (tl_entries l))" if "f \<in> set novel" for f
      using assms(3) that by (intro facts_by_key_None) simp
    then show ?thesis by (auto simp del: set_map simp: set_map [of "\<lambda>f. (sid, ep, taskFactKey f)"])
  qed
  ultimately show ?thesis
    using assms(1)
    by (simp add: ledgerIsOrdered_def append_facts_eq len new_entries_keys new_entries_sequences dense_append_iff
        del: upt_Suc set_map)
qed

lemma merge_spec:
  assumes l: "taskLedgerSchema E l = Some l" and facts: "list_all (\<lambda>f. factSchema f = Some f) facts"
    and owner: "nonempty sid = Some sid" "ep \<le> max_safe_integer"
    and room: "length (tl_entries l) + length facts \<le> max_safe_integer"
  shows "merge E l ordered facts sid ep = MergeConflict \<or>
    (\<exists>novel. set novel \<subseteq> set facts \<and> taskLedgerSchema E (append_facts l novel sid ep) = Some (append_facts l novel sid ep) \<and>
       merge E l ordered facts sid ep = (if novel = [] then Merged l False else Merged (append_facts l novel sid ep) True))"
proof (cases "novel_facts ordered (facts_by_key l sid ep) [] facts")
  case None
  then show ?thesis by (simp add: merge_def)
next
  case (Some novel)
  note spec = novel_facts_spec [OF Some, simplified]
  have "length novel \<le> length facts"
    using spec(1,2) by (metis card_mono distinct_card distinct_map length_map finite_set card_length le_trans)
  then have len: "length (tl_entries l) + length novel \<le> max_safe_integer" using room by simp
  have ord: "ledgerIsOrdered l" using l by (simp add: taskLedgerSchema_normal_iff)
  then have rev: "tl_ledgerRevision l = length (tl_entries l)" by (simp add: ledgerIsOrdered_def)
  have "ledgerEntrySchema x = Some x" if "x \<in> set (new_entries l novel sid ep)" for x
  proof -
    obtain f k where "x = \<lparr>tle_sequence = tl_ledgerRevision l + k + 1, tle_ownerSessionId = sid,
        tle_ownerEpoch = ep, tle_fact = f\<rparr>" "f \<in> set novel" "k < length novel"
      using \<open>x \<in> _\<close> by (fastforce simp: new_entries_def in_set_zip)
    moreover have "factSchema f = Some f" if "f \<in> set novel" for f
      using spec(2) facts that by (auto simp: list_all_iff)
    ultimately show ?thesis using owner len rev by (auto simp: ledgerEntrySchema_normal_iff)
  qed
  then have "taskLedgerSchema E (append_facts l novel sid ep) = Some (append_facts l novel sid ep)"
    using l len append_facts_ordered [OF ord spec(1,3)]
    unfolding taskLedgerSchema_normal_iff by (auto simp: append_facts_eq list_all_iff)
  moreover from this have "merge E l ordered facts sid ep = (if novel = [] then Merged l False else Merged (append_facts l novel sid ep) True)"
    by (simp add: merge_def Some)
  ultimately show ?thesis using spec(2) by blast
qed

section \<open>The operations of the ledger\<close>

text \<open>
  The methods of \<^verbatim>\<open>TaskEventLedger\<close> as steps of a scope: each runs its decision against the
  ledger of the run.
\<close>

datatype task_op =
    OpReserve string nat "task_request list" nat
  | OpBind string "identity_binding list" bool
  | OpAuthorize string task_control string "string list"
  | OpHubWait string string "string list" "string list"
  | OpJobSnapshot string string "job_snapshot list"
  | OpCancel string string "(string \<times> cancel_status) list"
  | OpIrc string string "(string \<times> irc_outcome) list"

fun op_ledger :: "host_env \<Rightarrow> task_op \<Rightarrow> task_run_scope \<Rightarrow> task_ledger" where
  "op_ledger E (OpReserve t n reqs limit) s = fst (run_decision E (reserve_decision t n reqs limit) s)"
| "op_ledger E (OpBind t bs async) s = fst (run_decision E (bind_decision t bs async) s)"
| "op_ledger E (OpAuthorize t c k ts) s = fst (run_decision E (authorize_decision t c k ts) s)"
| "op_ledger E (OpHubWait t k js as) s = fst (run_decision E (authorizeHubWait_decision t k js as) s)"
| "op_ledger E (OpJobSnapshot t k js) s = fst (run_decision E (recordJobSnapshot_decision t k js) s)"
| "op_ledger E (OpCancel t k cs) s = fst (run_decision E (recordCancellation_decision t k cs) s)"
| "op_ledger E (OpIrc t k rs) s = fst (run_decision E (recordIrcReceipts_decision t k rs) s)"

definition ledger_step :: "host_env \<Rightarrow> task_run_scope \<Rightarrow> task_op \<Rightarrow> task_run_scope" where
  "ledger_step E s op = s\<lparr>scope_ledger := op_ledger E op s\<rparr>"

definition scope_ok :: "host_env \<Rightarrow> task_run_scope \<Rightarrow> bool" where
  "scope_ok E s \<longleftrightarrow> taskLedgerSchema E (scope_ledger s) = Some (scope_ledger s) \<and>
     ownerSchema (run_owner (scope_run s)) = Some (run_owner (scope_run s))"

definition appended_to :: "task_run_scope \<Rightarrow> task_fact list \<Rightarrow> task_ledger \<Rightarrow> bool" where
  "appended_to s novel l' \<longleftrightarrow> (\<exists>new. tl_entries l' = tl_entries (scope_ledger s) @ new \<and>
     list_all2 (\<lambda>x y. ledgerEntrySchema x = Some y)
       (new_entries (scope_ledger s) novel (own_sessionId (run_owner (scope_run s))) (own_epoch (run_owner (scope_run s)))) new)"

lemma merge_appends:
  assumes "scope_ok E s" "taskLedgerSchema E (append_facts (scope_ledger s) novel
    (own_sessionId (run_owner (scope_run s))) (own_epoch (run_owner (scope_run s)))) = Some l'"
  shows "appended_to s novel l'"
proof -
  let ?l = "scope_ledger s" and ?sid = "own_sessionId (run_owner (scope_run s))" and ?ep = "own_epoch (run_owner (scope_run s))"
  have "list_all2 (\<lambda>x y. ledgerEntrySchema x = Some y) (tl_entries ?l @ new_entries ?l novel ?sid ?ep) (tl_entries l')"
    using assms(2) by (auto simp: taskLedgerSchema_def append_facts_eq Let_def array_of_Some_iff [symmetric]
        elim!: bind_SomeE guard_SomeE)
  then obtain old new where split: "tl_entries l' = old @ new"
    "list_all2 (\<lambda>x y. ledgerEntrySchema x = Some y) (tl_entries ?l) old"
    "list_all2 (\<lambda>x y. ledgerEntrySchema x = Some y) (new_entries ?l novel ?sid ?ep) new"
    by (auto simp: list_all2_append1)
  have "array_of ledgerEntrySchema (tl_entries ?l) = Some (tl_entries ?l)"
    using assms(1) by (simp add: scope_ok_def taskLedgerSchema_normal_iff array_of_normal)
  with split(2) have "old = tl_entries ?l" by (simp add: array_of_Some_iff [symmetric])
  with split show ?thesis by (auto simp: appended_to_def)
qed

lemma run_decision_cases:
  assumes ok: "scope_ok E s" and step: "run_decision E dec s = (l', out)"
  shows "taskLedgerSchema E l' = Some l'"
    and "l' = scope_ledger s \<or> (\<exists>ordered facts v novel. dec s = Append ordered facts v \<and> set novel \<subseteq> set facts \<and>
      distinct (map taskFactKey novel) \<and> appended_to s novel l')"
proof -
  let ?l = "scope_ledger s" and ?sid = "own_sessionId (run_owner (scope_run s))" and ?ep = "own_epoch (run_owner (scope_run s))"
  have l: "taskLedgerSchema E ?l = Some ?l" using ok by (simp add: scope_ok_def)
  have "taskLedgerSchema E l' = Some l' \<and> (l' = ?l \<or> (\<exists>ordered facts v novel. dec s = Append ordered facts v \<and> set novel \<subseteq> set facts \<and>
      distinct (map taskFactKey novel) \<and> appended_to s novel l'))"
  proof (cases "l' = ?l")
    case False
    with step obtain ordered facts v where dec: "dec s = Append ordered facts v" "merge E ?l ordered facts ?sid ?ep = Merged l' True"
      by (auto simp: run_decision_def merge_def split: decision.splits merge_result.splits option.splits if_splits)
    then obtain novel where novel: "novel_facts ordered (facts_by_key ?l ?sid ?ep) [] facts = Some novel"
      "taskLedgerSchema E (append_facts ?l novel ?sid ?ep) = Some l'"
      by (auto simp: merge_def split: option.splits if_splits)
    note spec = novel_facts_spec [OF novel(1), simplified]
    have "appended_to s novel l'" by (rule merge_appends [OF ok novel(2)])
    with dec(1) spec(1,2) novel(2) task_ledger_schema.parse_idem show ?thesis by blast
  qed (use l in simp)
  then show "taskLedgerSchema E l' = Some l'"
    and "l' = scope_ledger s \<or> (\<exists>ordered facts v novel. dec s = Append ordered facts v \<and> set novel \<subseteq> set facts \<and>
      distinct (map taskFactKey novel) \<and> appended_to s novel l')" by auto
qed

lemma run_decision_facts:
  "\<exists>ordered facts. fst (run_decision E dec s) = fst (run_decision E (\<lambda>_. Append ordered facts ()) s) \<or>
     fst (run_decision E dec s) = scope_ledger s"
proof (cases "dec s")
  case (Append ordered facts v)
  then have "fst (run_decision E dec s) = fst (run_decision E (\<lambda>_. Append ordered facts ()) s)"
    by (simp add: run_decision_def split: merge_result.splits)
  then show ?thesis by blast
qed (simp add: run_decision_def)

lemma op_ledger_run:
  "\<exists>ordered facts. op_ledger E op s = fst (run_decision E (\<lambda>_. Append ordered facts ()) s) \<or> op_ledger E op s = scope_ledger s"
  by (cases op) (simp_all only: op_ledger.simps run_decision_facts)

lemma ledger_step_ok:
  assumes "scope_ok E s"
  shows "scope_ok E (ledger_step E s op)"
    and "\<exists>new. tl_entries (scope_ledger (ledger_step E s op)) = tl_entries (scope_ledger s) @ new"
proof -
  obtain ordered facts where f: "op_ledger E op s = fst (run_decision E (\<lambda>_. Append ordered facts ()) s) \<or> op_ledger E op s = scope_ledger s"
    using op_ledger_run by blast
  obtain l' out where r: "run_decision E (\<lambda>_. Append ordered facts ()) s = (l', out)" by (cases "run_decision E (\<lambda>_. Append ordered facts ()) s")
  note c = run_decision_cases [OF assms r]
  show "scope_ok E (ledger_step E s op)"
    using assms f r c(1) by (auto simp: ledger_step_def scope_ok_def)
  show "\<exists>new. tl_entries (scope_ledger (ledger_step E s op)) = tl_entries (scope_ledger s) @ new"
    using f r c(2) by (auto simp: ledger_step_def appended_to_def)
qed

text \<open>The task ledger implements the interface of append-only logs.\<close>

interpretation task_log: append_only_log "scope_ok E" "\<lambda>s. tl_entries (scope_ledger s)" tle_sequence
  "\<lambda>_. True" "ledger_step E" for E
  by unfold_locales
    (auto simp: ledger_step_ok, simp add: scope_ok_def taskLedgerSchema_normal_iff ledgerIsOrdered_def)

section \<open>Fan-out\<close>

fun fan_out :: "task_fact \<Rightarrow> nat" where
  "fan_out (TaskReserved _ n _) = n"
| "fan_out _ = 0"

definition reserved_total :: "task_run_scope \<Rightarrow> nat" where
  "reserved_total s = sum_list (map fan_out (taskFacts s))"

lemma reserved_total_reservations:
  "sum_list (map (\<lambda>(_, k, _). k) (taskReservations s)) = reserved_total s"
proof -
  have "sum_list (map (\<lambda>(_, k, _). k) (concat (map (\<lambda>f. case f of TaskReserved t n rs \<Rightarrow> [(t, n, rs)] | _ \<Rightarrow> []) fs)))
      = sum_list (map fan_out fs)" for fs
    by (induction fs) (auto split: task_fact.splits)
  then show ?thesis by (simp add: taskReservations_def reserved_total_def)
qed

lemma factSchema_fan_out: "factSchema f = Some f' \<Longrightarrow> fan_out f' = fan_out f"
  by (cases f) (auto simp: counter_positive_def counter_def elim!: bind_SomeE guard_SomeE split: if_splits)

lemma new_entries_total:
  assumes "list_all2 (\<lambda>x y. ledgerEntrySchema x = Some y) (new_entries l novel sid ep) new"
  shows "sum_list (map (fan_out \<circ> tle_fact) (filter P new)) \<le> sum_list (map fan_out novel)"
proof -
  have "list_all2 (\<lambda>x y. ledgerEntrySchema x = Some y) xs ys \<Longrightarrow>
      sum_list (map (fan_out \<circ> tle_fact) (filter P ys)) \<le> sum_list (map (fan_out \<circ> tle_fact) xs)" for xs ys
  proof (induction rule: list_all2_induct)
    case (Cons x xs y ys)
    then have "fan_out (tle_fact y) = fan_out (tle_fact x)"
      by (auto simp: ledgerEntrySchema_def factSchema_fan_out elim!: bind_SomeE)
    with Cons show ?case by auto
  qed simp
  moreover have "map fan_out novel = map (fan_out \<circ> tle_fact) (new_entries l novel sid ep)"
    by (metis map_map new_entries_facts)
  ultimately show ?thesis using assms by (simp only:)
qed

lemma appended_total:
  assumes "appended_to s novel l'"
  shows "reserved_total (s\<lparr>scope_ledger := l'\<rparr>) \<le> reserved_total s + sum_list (map fan_out novel)"
proof -
  obtain new where new: "tl_entries l' = tl_entries (scope_ledger s) @ new"
    "list_all2 (\<lambda>x y. ledgerEntrySchema x = Some y) (new_entries (scope_ledger s) novel
       (own_sessionId (run_owner (scope_run s))) (own_epoch (run_owner (scope_run s)))) new"
    using assms by (auto simp: appended_to_def)
  from new_entries_total [OF new(2)] show ?thesis
    by (simp add: reserved_total_def taskFacts_def currentOwnerEntries_def new(1) comp_def)
qed

lemma run_decision_total:
  assumes "scope_ok E s" "run_decision E dec s = (l', out)"
  shows "reserved_total (s\<lparr>scope_ledger := l'\<rparr>) \<le> reserved_total s \<or>
    (\<exists>ordered facts v novel. dec s = Append ordered facts v \<and> set novel \<subseteq> set facts \<and> distinct novel \<and>
       reserved_total (s\<lparr>scope_ledger := l'\<rparr>) \<le> reserved_total s + sum_list (map fan_out novel))"
  using run_decision_cases(2) [OF assms]
proof (elim disjE exE conjE)
  fix ordered facts v novel assume "dec s = Append ordered facts v" "set novel \<subseteq> set facts" "distinct (map taskFactKey novel)"
    "appended_to s novel l'"
  then show ?thesis using appended_total distinct_map by blast
qed simp

lemma zero_fan_out: "\<forall>f\<in>set facts. fan_out f = 0 \<Longrightarrow> set novel \<subseteq> set facts \<Longrightarrow> sum_list (map fan_out novel) = 0"
  by (auto simp: sum_list_eq_0_iff)

lemma other_decision_total:
  assumes "scope_ok E s" "\<And>ordered facts v. dec s = Append ordered facts v \<Longrightarrow> \<forall>f\<in>set facts. fan_out f = 0"
  shows "reserved_total (s\<lparr>scope_ledger := fst (run_decision E dec s)\<rparr>) \<le> reserved_total s"
proof -
  obtain l' out where r: "run_decision E dec s = (l', out)" by (cases "run_decision E dec s")
  from run_decision_total [OF assms(1) r] show ?thesis
  proof (elim disjE exE conjE)
    fix ordered facts v novel
    assume a: "dec s = Append ordered facts v" "set novel \<subseteq> set facts"
      "reserved_total (s\<lparr>scope_ledger := l'\<rparr>) \<le> reserved_total s + sum_list (map fan_out novel)"
    show ?thesis using a(3) unfolding zero_fan_out [OF assms(2) [OF a(1)] a(2)] by (simp add: r)
  qed (simp add: r)
qed

lemma reserve_total:
  assumes "scope_ok E s"
  shows "reserved_total (s\<lparr>scope_ledger := fst (run_decision E (reserve_decision t n reqs limit) s)\<rparr>)
    \<le> max (reserved_total s) limit"
proof -
  obtain l' out where r: "run_decision E (reserve_decision t n reqs limit) s = (l', out)"
    by (cases "run_decision E (reserve_decision t n reqs limit) s")
  from run_decision_total [OF assms r] show ?thesis
  proof (elim disjE exE conjE)
    fix ordered facts v novel
    assume "reserve_decision t n reqs limit s = Append ordered facts v" and novel: "set novel \<subseteq> set facts" "distinct novel"
      and total: "reserved_total (s\<lparr>scope_ledger := l'\<rparr>) \<le> reserved_total s + sum_list (map fan_out novel)"
    then have "facts = [TaskReserved t n reqs]" "reserved_total s + n \<le> limit"
      by (auto simp: reserve_decision_def reserved_total_reservations Let_def split: option.splits if_splits)
    moreover from this novel have "novel = [] \<or> novel = [TaskReserved t n reqs]"
      by (cases novel; cases "tl novel") auto
    ultimately show ?thesis using total by (auto simp: r)
  qed (simp add: r)
qed

lemma ledger_step_total:
  assumes "scope_ok E s"
  shows "reserved_total (ledger_step E s op) \<le>
    (case op of OpReserve _ _ _ limit \<Rightarrow> max (reserved_total s) limit | _ \<Rightarrow> reserved_total s)"
proof (cases op)
  case (OpReserve t n reqs limit)
  with reserve_total [OF assms] show ?thesis by (simp add: ledger_step_def)
next
  case (OpBind t bs async)
  then show ?thesis
    by (auto simp: ledger_step_def bind_decision_def Let_def split: option.splits if_splits
        intro!: other_decision_total [OF assms])
next
  case (OpAuthorize t c k ts)
  then show ?thesis
    by (auto simp: ledger_step_def authorize_decision_def Let_def split: if_splits
        intro!: other_decision_total [OF assms])
next
  case (OpHubWait t k js as)
  then show ?thesis
    by (auto simp: ledger_step_def authorizeHubWait_decision_def Let_def split: if_splits
        intro!: other_decision_total [OF assms])
next
  case (OpJobSnapshot t k js)
  then show ?thesis
    by (auto simp: ledger_step_def recordJobSnapshot_decision_def Let_def split: sum.splits if_splits
        intro!: other_decision_total [OF assms])
next
  case (OpCancel t k cs)
  then show ?thesis
    by (auto simp: ledger_step_def recordCancellation_decision_def Let_def split: sum.splits if_splits option.splits
        intro!: other_decision_total [OF assms])
next
  case (OpIrc t k rs)
  then show ?thesis
    by (auto simp: ledger_step_def recordIrcReceipts_decision_def Let_def split: sum.splits if_splits
        intro!: other_decision_total [OF assms])
qed

section \<open>The contract\<close>

text \<open>
  C14. Recording valid facts never fails inside the schema: merging facts that satisfy their schema
  into a valid ledger either reports a conflict or yields a valid ledger, which is the former one
  when nothing is new and otherwise extends it by facts that were offered.
\<close>

theorem merge_never_throws:
  assumes "taskLedgerSchema E l = Some l" "list_all (\<lambda>f. factSchema f = Some f) facts"
    and "nonempty sid = Some sid" "ep \<le> max_safe_integer"
    and "length (tl_entries l) + length facts \<le> max_safe_integer"
  shows "merge E l ordered facts sid ep = MergeConflict \<or>
    (\<exists>l' new changed. merge E l ordered facts sid ep = Merged l' changed \<and> taskLedgerSchema E l' = Some l' \<and>
       tl_entries l' = tl_entries l @ new \<and> set (map tle_fact new) \<subseteq> set facts \<and> (changed \<longleftrightarrow> new \<noteq> []))"
proof -
  from merge_spec [OF assms, where ordered = ordered] show ?thesis
  proof (elim disjE exE conjE)
    fix novel
    assume n: "set novel \<subseteq> set facts"
      "taskLedgerSchema E (append_facts l novel sid ep) = Some (append_facts l novel sid ep)"
      "merge E l ordered facts sid ep = (if novel = [] then Merged l False else Merged (append_facts l novel sid ep) True)"
    show ?thesis
    proof (cases "novel = []")
      case True
      with n(3) assms(1) show ?thesis by simp
    next
      case False
      have facts: "set (map tle_fact (new_entries l novel sid ep)) \<subseteq> set facts"
        using n(1) by (simp only: new_entries_facts)
      have "new_entries l novel sid ep \<noteq> []" using False by (auto simp: new_entries_def)
      with False n(2,3) facts show ?thesis
        by (intro disjI2 exI [of _ "append_facts l novel sid ep"] exI [of _ "new_entries l novel sid ep"] exI [of _ True])
          (simp add: append_facts_eq)
    qed
  qed blast
qed

definition sample_scope :: task_run_scope where
  "sample_scope = \<lparr>scope_indexRevision = 1, scope_run = sample_start_run,
     scope_ledger = \<lparr>tl_version = TaskLedgerV2 None None None, tl_runId = run_runId sample_start_run,
       tl_ledgerRevision = 0, tl_entries = []\<rparr>\<rparr>"

definition sample_requests :: "task_request list" where
  "sample_requests = [\<lparr>req_canonicalInputHash = None, req_itemIndex = 0, req_requestedName = Some ''w'', req_agentType = None\<rparr>]"

theorem merge_never_throws_witness:
  "\<exists>l' new changed. merge sample_env (scope_ledger sample_scope) True [TaskReserved ''call'' 1 sample_requests] ''s1'' 1 =
     Merged l' changed \<and> tl_entries l' = new \<and> new \<noteq> []"
proof -
  let ?m = "merge sample_env (scope_ledger sample_scope) True [TaskReserved ''call'' 1 sample_requests] ''s1'' 1"
  have "taskLedgerSchema sample_env (scope_ledger sample_scope) = Some (scope_ledger sample_scope)"
    "list_all (\<lambda>f. factSchema f = Some f) [TaskReserved ''call'' 1 sample_requests]"
    "nonempty ''s1'' = Some ''s1''" by code_simp+
  moreover have "length (tl_entries (scope_ledger sample_scope)) + length [TaskReserved ''call'' 1 sample_requests] \<le> max_safe_integer"
    "1 \<le> max_safe_integer" by (simp_all add: sample_scope_def max_safe_integer_def)
  moreover have "case ?m of Merged _ True \<Rightarrow> True | _ \<Rightarrow> False" by code_simp
  ultimately show ?thesis
    using merge_never_throws [where ordered = True, of sample_env "scope_ledger sample_scope" "[TaskReserved ''call'' 1 sample_requests]" "''s1''" 1]
    by (auto split: merge_result.splits bool.splits simp: sample_scope_def)
qed

text \<open>
  C15. Over any sequence of ledger operations the task ledger of a run stays valid and only grows
  at its end; no recorded fact is ever changed or renumbered.
\<close>

theorem task_ledger_append_only:
  assumes "scope_ok E s"
  shows "scope_ok E (foldl (ledger_step E) s ops) \<and>
    (\<exists>new. tl_entries (scope_ledger (foldl (ledger_step E) s ops)) = tl_entries (scope_ledger s) @ new \<and>
       map tle_sequence (tl_entries (scope_ledger s) @ new) = [1..<Suc (length (tl_entries (scope_ledger s) @ new))])"
proof -
  have all: "list_all (\<lambda>_. True) ops" by (simp add: list_all_iff)
  from task_log.run_inv [OF assms all] task_log.run_appends [OF assms all] show ?thesis
    by (simp add: dense_def)
qed

definition sample_ops :: "task_op list" where
  "sample_ops = [OpReserve ''call'' 1 sample_requests 3,
     OpBind ''call'' [\<lparr>bind_itemIndex = 0, bind_actualAgentId = ''agent'', bind_actualJobId = Some ''job''\<rparr>] True]"

theorem task_ledger_append_only_witness:
  "scope_ok sample_env (foldl (ledger_step sample_env) sample_scope sample_ops)"
proof -
  have "scope_ok sample_env sample_scope" by code_simp
  from task_ledger_append_only [OF this, of sample_ops] show ?thesis by simp
qed

text \<open>
  The fan-out of an owner is bounded: if every reservation in a sequence of ledger operations
  is made with a limit of at most \<open>limit\<close>, the number of workers reserved for the run's owner never
  exceeds \<open>limit\<close>, whatever the other operations do.
\<close>

theorem fan_out_bounded:
  assumes "scope_ok E s" "reserved_total s \<le> limit"
    and "\<forall>op\<in>set ops. case op of OpReserve _ _ _ k \<Rightarrow> k \<le> limit | _ \<Rightarrow> True"
  shows "sum_list (map (\<lambda>(_, n, _). n) (taskReservations (foldl (ledger_step E) s ops))) \<le> limit"
proof -
  have "reserved_total (foldl (ledger_step E) s ops) \<le> limit"
    using assms
  proof (induction ops arbitrary: s)
    case (Cons op ops)
    have "reserved_total (ledger_step E s op) \<le> limit"
      using ledger_step_total [OF Cons.prems(1), of op] Cons.prems(2,3) by (auto split: task_op.splits)
    with Cons ledger_step_ok(1) show ?case by simp
  qed simp
  then show ?thesis by (simp add: reserved_total_reservations)
qed

theorem fan_out_bounded_witness:
  "sum_list (map (\<lambda>(_, n, _). n) (taskReservations (foldl (ledger_step sample_env) sample_scope sample_ops))) \<le> 3"
proof -
  have "scope_ok sample_env sample_scope" by code_simp
  moreover have "reserved_total sample_scope \<le> 3" by code_simp
  ultimately show ?thesis using fan_out_bounded [of sample_env sample_scope 3 sample_ops] by (simp add: sample_ops_def)
qed

text \<open>
  Controls reach only what the run owns: when a control operation is authorised, a worker
  generation exists and every target is an agent (for messages) or a job (for everything else)
  bound in the current generation by the run's present owner.
\<close>

theorem authorization_owned:
  assumes "authorize_decision t control key targets s = Append ordered facts Authorized"
  shows "0 < taskGeneration s \<and>
    facts = [TaskControlAuthorized t control (taskGeneration s) key targets] \<and>
    (\<forall>target\<in>set targets. \<exists>i\<in>set (runtimeIdentities s (taskGeneration s)).
       if control \<in> {IrcSend, IrcTarget} then ri_actualAgentId i = target else ri_actualJobId i = Some target)"
proof -
  let ?ids = "runtimeIdentities s (taskGeneration s)"
  have g: "taskGeneration s \<noteq> 0" "facts = [TaskControlAuthorized t control (taskGeneration s) key targets]"
    and owned: "\<forall>target\<in>set targets. target \<in> set (if control = IrcSend \<or> control = IrcTarget
      then owned_agents ?ids else owned_jobs ?ids)"
    using assms by (auto simp: authorize_decision_def Let_def list_ex_iff split: if_splits)
  have "target \<in> set (owned_jobs ?ids) \<Longrightarrow> \<exists>i\<in>set ?ids. ri_actualJobId i = Some target" for target
    by (auto simp: owned_jobs_def split: option.splits)
  moreover have "target \<in> set (owned_agents ?ids) \<Longrightarrow> \<exists>i\<in>set ?ids. ri_actualAgentId i = target" for target
    by (auto simp: owned_agents_def)
  ultimately show ?thesis using g owned by (cases "control = IrcSend \<or> control = IrcTarget") auto
qed

definition owner_entry :: "nat \<Rightarrow> task_fact \<Rightarrow> task_ledger_entry" where
  "owner_entry n f = \<lparr>tle_sequence = n, tle_ownerSessionId = ''s1'', tle_ownerEpoch = 1, tle_fact = f\<rparr>"

definition bound_scope :: task_run_scope where
  "bound_scope = sample_scope\<lparr>scope_ledger := (scope_ledger sample_scope)\<lparr>tl_ledgerRevision := 3, tl_entries :=
     [owner_entry 1 (TaskReserved ''call'' 1 sample_requests),
      owner_entry 2 (TaskIdentitiesBound ''call''
        [\<lparr>bind_itemIndex = 0, bind_actualAgentId = ''agent'', bind_actualJobId = Some ''job''\<rparr>]),
      owner_entry 3 (TaskControlAuthorized ''c3'' JobSnapshot 2 ''k'' [''job''])]\<rparr>\<rparr>"

theorem authorization_owned_witness:
  "\<exists>i\<in>set (runtimeIdentities bound_scope (taskGeneration bound_scope)). ri_actualJobId i = Some ''job''"
proof -
  have "authorize_decision ''c2'' JobCancel ''k'' [''job''] bound_scope =
      Append False [TaskControlAuthorized ''c2'' JobCancel 2 ''k'' [''job'']] Authorized" by code_simp
  from authorization_owned [OF this] show ?thesis by auto
qed

text \<open>
  The capability to observe workers asynchronously is recorded as proven only by a complete
  snapshot: the operation was authorised in the current generation, the task jobs it returned have
  distinct ids, and these are exactly the agents bound in that generation.
\<close>

theorem proven_snapshot_complete:
  assumes "recordJobSnapshot_decision t key jobs s = Append ordered facts status"
    and "AsyncCapabilityObserved t' g CapProven reason \<in> set facts"
  shows "status = Recorded \<and> t' = t \<and> g = taskGeneration s \<and>
    distinct (map js_id (filter (\<lambda>j. js_type j = TaskJob) jobs)) \<and>
    js_id ` {j \<in> set jobs. js_type j = TaskJob} = ri_actualAgentId ` set (runtimeIdentities s g) \<and>
    runtimeIdentities s g \<noteq> []"
proof -
  let ?jobs = "filter (\<lambda>j. js_type j = TaskJob) jobs"
  obtain g' targets where a: "matchingAuthorization t key JobSnapshot s = Inr (g', targets)"
    using assms(1) by (cases "matchingAuthorization t key JobSnapshot s") (auto simp: recordJobSnapshot_decision_def)
  then have g': "g' = taskGeneration s"
    by (auto simp: matchingAuthorization_def split: option.splits if_splits)
  let ?exp = "remdups (owned_agents (runtimeIdentities s g'))" and ?ret = "remdups (map js_id ?jobs)"
  have c: "?exp \<noteq> []" "length ?ret = length ?jobs" "length ?ret = length ?exp" "set ?exp \<subseteq> set ?ret"
    "status = Recorded" "t' = t" "g = g'"
    using assms by (auto simp: recordJobSnapshot_decision_def a Let_def list_all_iff split: if_splits)
  have "distinct (map js_id ?jobs)"
    using c(2) by (simp add: card_distinct length_remdups_card_conv)
  moreover have "set ?exp = set ?ret"
    using c(3,4) by (metis card_subset_eq distinct_card distinct_remdups finite_set)
  ultimately show ?thesis
    using c(1,5-7) g' by (auto simp: owned_agents_def)
qed

theorem proven_snapshot_complete_witness:
  "distinct (map js_id (filter (\<lambda>j. js_type j = TaskJob) [\<lparr>js_id = ''agent'', js_type = TaskJob, js_status = JobRunning\<rparr>]))"
proof -
  have "recordJobSnapshot_decision ''c3'' ''k'' [\<lparr>js_id = ''agent'', js_type = TaskJob, js_status = JobRunning\<rparr>] bound_scope =
      Append True [TaskReceiptObserved ''c3'' (JobReceipt ''agent'' JobRunning),
        AsyncCapabilityObserved ''c3'' 2 CapProven ''matching_job_snapshot''] Recorded" by code_simp
  from proven_snapshot_complete [OF this, of "''c3''" 2 "''matching_job_snapshot''"] show ?thesis by simp
qed

text \<open>
  An authorization is not idempotent. When the ledger already holds a fact for the call, asking for
  the same authorization again, in the same generation, is a conflict and not a repetition: the new
  fact's keys stand in another order than those of the stored one.
\<close>

lemma repeated_authorization_conflicts:
  assumes "authorize_decision t control key targets s = Append ordered [f] v"
    and "facts_by_key (scope_ledger s) (own_sessionId (run_owner (scope_run s))) (own_epoch (run_owner (scope_run s)))
      (taskFactKey f) = Some f"
  shows "run_decision E (authorize_decision t control key targets) s = (scope_ledger s, LedgerConflict)"
proof -
  have "\<not> ordered" using assms(1) by (auto simp: authorize_decision_def Let_def split: if_splits)
  then show ?thesis using assms by (simp add: run_decision_def merge_def sameFact_def)
qed

end
