(* ===== verification/Acceptance_Properties.thy ===== *)
theory Acceptance_Properties
  imports Acceptance_Ledger Sample_State
begin

text \<open>
  The contract of the acceptance and rejection ledgers: an acceptance survives a crash between its
  two writes, replaying the log is harmless, the ledger only grows, and the third rejection of a
  scope asks the parent to decide.
\<close>

section \<open>Replaying the write-ahead log\<close>

definition line_event :: "host_env \<Rightarrow> bool \<Rightarrow> acceptance_event file_bytes \<Rightarrow> acceptance_event option" where
  "line_event E v2 raw = (case raw of Json v \<Rightarrow> acceptanceEventSchema E v2 v | _ \<Rightarrow> None)"

lemma replay_wal_Cons:
  "replay_wal E v2 es (raw # raws) = (case line_event E v2 raw of
     None \<Rightarrow> Inl ZodError
   | Some a \<Rightarrow>
     (if 0 < acc_sequence a \<and> acc_sequence a \<le> length es
      then if es ! (acc_sequence a - 1) \<noteq> a then Inl WalDiverged else replay_wal E v2 es raws
      else replay_wal E v2 (es @ [a]) raws))"
  by (simp add: line_event_def split: file_bytes.splits)

declare replay_wal.simps(2) [simp del]

lemma replay_wal_append:
  "replay_wal E v2 es (xs @ ys) = (case replay_wal E v2 es xs of Inl err \<Rightarrow> Inl err | Inr fs \<Rightarrow> replay_wal E v2 fs ys)"
  by (induction xs arbitrary: es) (auto simp: replay_wal_Cons split: option.splits)

lemma replay_wal_prefix: "replay_wal E v2 es raws = Inr fs \<Longrightarrow> \<exists>new. fs = es @ new"
  by (induction raws arbitrary: es) (fastforce simp: replay_wal_Cons split: option.splits if_splits)+

text \<open>A line that the ledger already holds, at the place its sequence number says.\<close>

definition line_held :: "host_env \<Rightarrow> bool \<Rightarrow> acceptance_event list \<Rightarrow> acceptance_event file_bytes \<Rightarrow> bool" where
  "line_held E v2 es raw \<longleftrightarrow> (\<exists>a. line_event E v2 raw = Some a \<and> 0 < acc_sequence a \<and>
     acc_sequence a \<le> length es \<and> es ! (acc_sequence a - 1) = a)"

lemma line_held_append: "line_held E v2 es raw \<Longrightarrow> line_held E v2 (es @ new) raw"
  by (auto simp: line_held_def nth_append)

lemma replay_wal_held: "\<forall>raw\<in>set raws. line_held E v2 es raw \<Longrightarrow> replay_wal E v2 es raws = Inr es"
  by (induction raws) (auto simp: replay_wal_Cons line_held_def)

lemma replay_wal_holds:
  "replay_wal E v2 es raws = Inr fs \<Longrightarrow> dense (map acc_sequence fs) \<Longrightarrow> \<forall>raw\<in>set raws. line_held E v2 fs raw"
proof (induction raws arbitrary: es)
  case (Cons raw raws)
  then obtain a where a: "line_event E v2 raw = Some a" by (auto simp: replay_wal_Cons split: option.splits)
  show ?case
  proof (cases "0 < acc_sequence a \<and> acc_sequence a \<le> length es")
    case True
    with Cons.prems(1) a have held: "line_held E v2 es raw" and rest: "replay_wal E v2 es raws = Inr fs"
      by (auto simp: replay_wal_Cons line_held_def split: if_splits)
    obtain new where "fs = es @ new" using replay_wal_prefix [OF rest] by blast
    with held line_held_append Cons.IH [OF rest Cons.prems(2)] show ?thesis by auto
  next
    case False
    with Cons.prems(1) a have rest: "replay_wal E v2 (es @ [a]) raws = Inr fs"
      by (auto simp: replay_wal_Cons split: if_splits)
    obtain new where fs: "fs = (es @ [a]) @ new" using replay_wal_prefix [OF rest] by blast
    then have "map acc_sequence fs ! length es = Suc (length es)"
      using Cons.prems(2) by (intro dense_nth) auto
    then have "acc_sequence a = Suc (length es)" by (simp add: fs nth_append)
    then have "line_held E v2 fs raw" using a by (auto simp: line_held_def fs nth_append)
    with Cons.IH [OF rest Cons.prems(2)] show ?thesis by auto
  qed
qed simp

lemma replay_wal_normal:
  "replay_wal E v2 es raws = Inr fs \<Longrightarrow> list_all (\<lambda>a. acceptanceEventSchema E v2 a = Some a) es \<Longrightarrow>
     list_all (\<lambda>a. acceptanceEventSchema E v2 a = Some a) fs"
proof (induction raws arbitrary: es)
  case (Cons raw raws)
  then obtain a where a: "line_event E v2 raw = Some a" by (auto simp: replay_wal_Cons split: option.splits)
  then have "acceptanceEventSchema E v2 a = Some a"
    by (auto simp: line_event_def acceptance_event_schema.parse_idem split: file_bytes.splits)
  with a Cons show ?case by (auto simp: replay_wal_Cons split: if_splits)
qed simp

section \<open>Reading\<close>

lemma acceptanceLedgerSchema_normal_iff:
  "acceptanceLedgerSchema E l = Some l \<longleftrightarrow>
     is_uuid E (al_runId l) \<and> al_ledgerRevision l \<le> max_safe_integer \<and>
     list_all (\<lambda>a. acceptanceEventSchema E (al_isV2 l) a = Some a) (al_entries l) \<and>
     (al_isV2 l \<longrightarrow> acceptance_order_ok l)"
  by (cases l)
    (auto simp: acceptanceLedgerSchema_def Let_def uuid_schema_def counter_def array_of_normal [symmetric]
       elim!: bind_SomeE guard_SomeE split: if_splits)

text \<open>The snapshot a reader starts from.\<close>

definition snapshot_of :: "host_env \<Rightarrow> uuid \<Rightarrow> bool \<Rightarrow> acceptance_files \<Rightarrow> ledger_error + acceptance_ledger" where
  "snapshot_of E rid v2 fs = (case af_snapshot fs of
     None \<Rightarrow> (case acceptanceLedgerSchema E (empty_acceptance v2 rid) of None \<Rightarrow> Inl ZodError | Some l \<Rightarrow> Inr l)
   | Some NotJson \<Rightarrow> Inl SyntaxError
   | Some OtherJson \<Rightarrow> Inl ZodError
   | Some (Json v) \<Rightarrow> (case acceptanceLedgerSchema E v of None \<Rightarrow> Inl ZodError | Some l \<Rightarrow> Inr l))"

lemma readAcceptance_eq:
  "readAcceptance E sz rid v2 fs = (case snapshot_of E rid v2 fs of
     Inl e \<Rightarrow> Inl e
   | Inr snap \<Rightarrow>
     (case readAcceptanceWal sz (af_wal fs) of
        Inl e \<Rightarrow> Inl e
      | Inr raws \<Rightarrow>
        (case replay_wal E (al_isV2 snap) (al_entries snap) raws of
           Inl e \<Rightarrow> Inl e
         | Inr entries \<Rightarrow>
           (case acceptanceLedgerSchema E (snap\<lparr>al_ledgerRevision := length entries, al_entries := entries\<rparr>) of
              None \<Rightarrow> Inl ZodError | Some l \<Rightarrow> Inr l))))"
  unfolding readAcceptance_def snapshot_of_def Let_def ..

lemma snapshot_normal: "snapshot_of E rid v2 fs = Inr l \<Longrightarrow> acceptanceLedgerSchema E l = Some l"
  by (auto simp: snapshot_of_def acceptance_ledger_schema.parse_idem split: option.splits file_bytes.splits)

lemma readAcceptance_InrE:
  assumes "readAcceptance E sz rid v2 fs = Inr l" "al_isV2 l"
  obtains snap where "snapshot_of E rid v2 fs = Inr snap" "al_isV2 snap"
    "readAcceptanceWal sz (af_wal fs) = Inr (af_wal fs)"
    "replay_wal E True (al_entries snap) (af_wal fs) = Inr (al_entries l)"
    "l = snap\<lparr>al_ledgerRevision := length (al_entries l), al_entries := al_entries l\<rparr>"
    "acceptanceLedgerSchema E l = Some l"
proof -
  obtain snap raws entries where s: "snapshot_of E rid v2 fs = Inr snap"
    "readAcceptanceWal sz (af_wal fs) = Inr raws"
    "replay_wal E (al_isV2 snap) (al_entries snap) raws = Inr entries"
    "acceptanceLedgerSchema E (snap\<lparr>al_ledgerRevision := length entries, al_entries := entries\<rparr>) = Some l"
    using assms(1) by (auto simp: readAcceptance_eq split: sum.splits option.splits)
  have raws: "raws = af_wal fs" using s(2) by (auto simp: readAcceptanceWal_def split: if_splits)
  have "al_isV2 l = al_isV2 snap"
    using s(4) by (auto simp: acceptanceLedgerSchema_def Let_def elim!: bind_SomeE guard_SomeE)
  then have v2: "al_isV2 snap" using assms(2) by simp
  have "list_all (\<lambda>a. acceptanceEventSchema E True a = Some a) entries"
    using replay_wal_normal [OF s(3)] snapshot_normal [OF s(1)] v2 by (simp add: acceptanceLedgerSchema_normal_iff)
  then have "l = snap\<lparr>al_ledgerRevision := length entries, al_entries := entries\<rparr>"
    using s(4) v2 snapshot_normal [OF s(1)]
    by (auto simp: acceptanceLedgerSchema_def Let_def array_of_normal [symmetric] uuid_schema_def counter_def
        elim!: bind_SomeE guard_SomeE split: if_splits)
  moreover have "acceptanceLedgerSchema E l = Some l" by (rule acceptance_ledger_schema.parse_idem [OF s(4)])
  ultimately show thesis using that s v2 raws by simp
qed

section \<open>Accepting\<close>

lemma readAcceptanceWal_Inr_iff:
  "readAcceptanceWal sz ls = Inr raws \<longleftrightarrow>
     raws = ls \<and> wal_bytes sz ls \<le> max_wal_bytes \<and> length ls \<le> max_wal_entries \<and> NotJson \<notin> set ls"
  by (auto simp: readAcceptanceWal_def split: if_splits)

lemma appendAcceptanceWal_Inr:
  assumes "appendAcceptanceWal sz valid ls v = Inr ls'"
  shows "ls' = ls @ [stringify v]" and "readAcceptanceWal sz ls' = Inr ls'"
  using assms
  by (auto simp: appendAcceptanceWal_def Let_def readAcceptanceWal_Inr_iff split: if_splits sum.splits)

text \<open>The two disks an acceptance can leave once the log has been published.\<close>

lemma accept_cases:
  assumes "readAcceptance E sz (acc_runId ev) v2 fs = Inr l" "accept E sz v2 io fs ev sha = (fs', out)"
  obtains (unchanged) "fs' = fs" "out \<noteq> AcceptDone Accepted"
  | (logged) candidate updated wal' where
      "acceptanceEventSchema E (al_isV2 l) (acceptance_candidate l ev sha) = Some candidate"
      "acceptanceLedgerSchema E (l\<lparr>al_ledgerRevision := al_ledgerRevision l + 1,
         al_entries := al_entries l @ [candidate]\<rparr>) = Some updated"
      "appendAcceptanceWal sz (io_deadlineValid io) (af_wal fs) candidate = Inr wal'"
      "fs' = fs\<lparr>af_wal := wal'\<rparr> \<and> out = AcceptIoError \<or>
       fs' = fs\<lparr>af_wal := wal', af_snapshot := Some (stringify updated)\<rparr> \<and> out = AcceptDone Accepted"
  using assms(2) unfolding accept_def assms(1) sum.case
  by (auto simp: Let_def split: option.splits sum.splits if_splits)

lemma updated_ledger:
  assumes "acceptanceLedgerSchema E l = Some l" "al_isV2 l"
    and "acceptanceEventSchema E True x = Some candidate"
    and "acceptanceLedgerSchema E (l\<lparr>al_ledgerRevision := al_ledgerRevision l + 1,
       al_entries := al_entries l @ [candidate]\<rparr>) = Some updated"
  shows "updated = l\<lparr>al_ledgerRevision := al_ledgerRevision l + 1, al_entries := al_entries l @ [candidate]\<rparr>"
    and "acc_sequence candidate = Suc (length (al_entries l))"
    and "acceptanceLedgerSchema E updated = Some updated"
proof -
  have "acceptanceEventSchema E True candidate = Some candidate"
    by (rule acceptance_event_schema.parse_idem [OF assms(3)])
  with assms(1,2) have "array_of (acceptanceEventSchema E True) (al_entries l @ [candidate]) = Some (al_entries l @ [candidate])"
    by (simp add: acceptanceLedgerSchema_normal_iff array_of_normal)
  with assms(2,4) show updated: "updated = l\<lparr>al_ledgerRevision := al_ledgerRevision l + 1, al_entries := al_entries l @ [candidate]\<rparr>"
    by (cases l) (auto simp: acceptanceLedgerSchema_def Let_def uuid_schema_def counter_def
        elim!: bind_SomeE guard_SomeE split: if_splits)
  show "acceptanceLedgerSchema E updated = Some updated"
    by (rule acceptance_ledger_schema.parse_idem [OF assms(4)])
  then show "acc_sequence candidate = Suc (length (al_entries l))"
    unfolding updated using assms(2) by (simp add: acceptanceLedgerSchema_normal_iff acceptance_order_ok_def dense_snoc)
qed

lemma accept_recovers:
  assumes read: "readAcceptance E sz (acc_runId ev) v2 fs = Inr l" and v2: "al_isV2 l"
    and step: "accept E sz v2 io fs ev sha = (fs', out)" and changed: "fs' \<noteq> fs"
  obtains candidate where "acceptanceEventSchema E True (acceptance_candidate l ev sha) = Some candidate"
    "readAcceptance E sz (acc_runId ev) v2 fs' =
       Inr (l\<lparr>al_ledgerRevision := al_ledgerRevision l + 1, al_entries := al_entries l @ [candidate]\<rparr>)"
    "out \<in> {AcceptIoError, AcceptDone Accepted}"
proof -
  obtain snap where snap: "snapshot_of E (acc_runId ev) v2 fs = Inr snap" "al_isV2 snap"
    "replay_wal E True (al_entries snap) (af_wal fs) = Inr (al_entries l)"
    "l = snap\<lparr>al_ledgerRevision := length (al_entries l), al_entries := al_entries l\<rparr>"
    "acceptanceLedgerSchema E l = Some l"
    using read v2 by (rule readAcceptance_InrE)
  have dense: "dense (map acc_sequence (al_entries l))"
    using snap(5) v2 by (simp add: acceptanceLedgerSchema_normal_iff acceptance_order_ok_def)
  have rev: "al_ledgerRevision l = length (al_entries l)"
    using snap(5) v2 by (simp add: acceptanceLedgerSchema_normal_iff acceptance_order_ok_def)
  show thesis
    using read step
  proof (cases rule: accept_cases)
    case unchanged
    with changed show thesis by simp
  next
    case (logged candidate updated wal')
    have cand: "acceptanceEventSchema E True (acceptance_candidate l ev sha) = Some candidate"
      using logged(1) v2 by simp
    note upd = updated_ledger [OF snap(5) v2 cand logged(2)] and wal = appendAcceptanceWal_Inr [OF logged(3)]
    have line: "line_event E True (stringify candidate) = Some candidate"
      using acceptance_event_schema.parse_idem [OF cand] by (simp add: line_event_def)
    have held: "\<forall>raw\<in>set wal'. line_held E True (al_entries l @ [candidate]) raw"
    proof -
      have "line_held E True (al_entries l @ [candidate]) (stringify candidate)"
        using line upd(2) by (auto simp: line_held_def nth_append)
      with replay_wal_holds [OF snap(3) dense] line_held_append show ?thesis by (auto simp: wal(1))
    qed
    have "readAcceptance E sz (acc_runId ev) v2 fs' = Inr updated"
      using logged(4)
    proof (elim disjE conjE)
      assume fs': "fs' = fs\<lparr>af_wal := wal'\<rparr>"
      have "replay_wal E True (al_entries snap) wal' = Inr (al_entries l @ [candidate])"
        by (simp add: wal(1) replay_wal_append snap(3) replay_wal_Cons line upd(2))
      moreover have "snap\<lparr>al_ledgerRevision := Suc (length (al_entries l)), al_entries := al_entries l @ [candidate]\<rparr> = updated"
        unfolding upd(1) rev by (subst (3) snap(4)) simp
      moreover have "snapshot_of E (acc_runId ev) v2 fs' = Inr snap" using snap(1) by (simp add: fs' snapshot_of_def)
      ultimately show ?thesis using wal(2) upd(3) snap(2) by (simp add: readAcceptance_eq fs')
    next
      assume fs': "fs' = fs\<lparr>af_wal := wal', af_snapshot := Some (stringify updated)\<rparr>"
      have "updated\<lparr>al_ledgerRevision := Suc (length (al_entries l)), al_entries := al_entries l @ [candidate]\<rparr> = updated"
        unfolding upd(1) rev by simp
      moreover have "al_isV2 updated" "al_entries updated = al_entries l @ [candidate]" using v2 by (simp_all add: upd(1))
      ultimately show ?thesis
        using wal(2) upd(3) replay_wal_held [OF held] by (simp add: readAcceptance_eq fs' snapshot_of_def)
    qed
    with that cand upd(1) logged(4) show thesis by auto
  qed
qed

definition acceptance_read :: "host_env \<Rightarrow> (acceptance_event file_bytes \<Rightarrow> nat) \<Rightarrow> uuid \<Rightarrow> acceptance_files \<Rightarrow> bool" where
  "acceptance_read E sz rid fs \<longleftrightarrow> (\<exists>l. readAcceptance E sz rid True fs = Inr l \<and> al_isV2 l)"

definition accepted_log :: "host_env \<Rightarrow> (acceptance_event file_bytes \<Rightarrow> nat) \<Rightarrow> uuid \<Rightarrow> acceptance_files \<Rightarrow> acceptance_event list" where
  "accepted_log E sz rid fs = (case readAcceptance E sz rid True fs of Inl _ \<Rightarrow> [] | Inr l \<Rightarrow> al_entries l)"

definition accept_step ::
    "host_env \<Rightarrow> (acceptance_event file_bytes \<Rightarrow> nat) \<Rightarrow> acceptance_files \<Rightarrow> accept_io \<times> acceptance_event \<times> string \<Rightarrow> acceptance_files" where
  "accept_step E sz fs = (\<lambda>(io, ev, sha). fst (accept E sz True io fs ev sha))"

text \<open>The acceptance ledger implements the interface of append-only logs.\<close>

interpretation acceptance_log: append_only_log "acceptance_read E sz rid" "accepted_log E sz rid" acc_sequence
  "\<lambda>(io, ev, sha). acc_runId ev = rid" "accept_step E sz" for E sz rid
proof unfold_locales
  fix fs assume "acceptance_read E sz rid fs"
  then obtain l where l: "readAcceptance E sz rid True fs = Inr l" "al_isV2 l" by (auto simp: acceptance_read_def)
  then obtain snap where "acceptanceLedgerSchema E l = Some l" by (rule readAcceptance_InrE)
  with l show "dense (map acc_sequence (accepted_log E sz rid fs))"
    by (simp add: accepted_log_def acceptanceLedgerSchema_normal_iff acceptance_order_ok_def)
next
  fix fs and op :: "accept_io \<times> acceptance_event \<times> string"
  assume "acceptance_read E sz rid fs" and "case op of (io, ev, sha) \<Rightarrow> acc_runId ev = rid"
  then obtain l io ev sha where l: "readAcceptance E sz (acc_runId ev) True fs = Inr l" "al_isV2 l"
    and op: "op = (io, ev, sha)" "acc_runId ev = rid"
    by (cases op) (auto simp: acceptance_read_def)
  obtain fs' out where r: "accept E sz True io fs ev sha = (fs', out)" by (cases "accept E sz True io fs ev sha")
  have "acceptance_read E sz rid fs' \<and> (\<exists>new. accepted_log E sz rid fs' = accepted_log E sz rid fs @ new)"
  proof (cases "fs' = fs")
    case True
    with l op(2) show ?thesis by (auto simp: acceptance_read_def)
  next
    case False
    with accept_recovers [OF l r] obtain candidate where "readAcceptance E sz (acc_runId ev) True fs' =
        Inr (l\<lparr>al_ledgerRevision := al_ledgerRevision l + 1, al_entries := al_entries l @ [candidate]\<rparr>)" by metis
    with l op(2) show ?thesis by (auto simp: acceptance_read_def accepted_log_def)
  qed
  then show "acceptance_read E sz rid (accept_step E sz fs op)"
    and "\<exists>new. accepted_log E sz rid (accept_step E sz fs op) = accepted_log E sz rid fs @ new"
    by (simp_all add: accept_step_def op(1) r)
qed

section \<open>Rejecting\<close>

lemma rejectionLedgerSchema_normal_iff:
  "rejectionLedgerSchema E l = Some l \<longleftrightarrow>
     is_uuid E (rl_runId l) \<and> list_all (\<lambda>e. rejectionEntrySchema E (rl_isV2 l) e = Some e) (rl_entries l) \<and>
     (rl_isV2 l \<longrightarrow> rejection_identity_ok l)"
  by (cases l)
    (auto simp: rejectionLedgerSchema_def Let_def uuid_schema_def array_of_normal [symmetric]
       elim!: bind_SomeE guard_SomeE split: if_splits)

lemma find_replaced_other:
  "key new = k \<Longrightarrow> k' \<noteq> k \<Longrightarrow>
     List.find (\<lambda>e. key e = k') (map (\<lambda>e. if key e = k then new else e) es) = List.find (\<lambda>e. key e = k') es"
  by (induction es) auto

lemma find_replaced_same:
  "List.find (\<lambda>e. key e = k) es = Some x \<Longrightarrow> key new = k \<Longrightarrow>
     List.find (\<lambda>e. key e = k) (map (\<lambda>e. if key e = k then new else e) es) = Some new"
  by (induction es) (auto split: if_splits)

lemma find_replaced:
  assumes "List.find (\<lambda>e. key e = k) es = Some x" "key new = k"
  shows "List.find (\<lambda>e. key e = k') (map (\<lambda>e. if key e = k then new else e) es) =
    (if k' = k then Some new else List.find (\<lambda>e. key e = k') es)"
  using find_replaced_other [of key new k k' es] find_replaced_same [of key k es x new] assms by simp

lemma find_absent_replaced:
  assumes "List.find (\<lambda>e. key e = k) es = None" "key new = k"
  shows "List.find (\<lambda>e. key e = k') (es @ [new]) = (if k' = k then Some new else List.find (\<lambda>e. key e = k') es)"
  using assms by (auto simp: find_append split: option.splits)

lemma reject_spec:
  assumes l: "rejectionLedgerSchema E l = Some l" "rl_isV2 l" and s: "rejectionScopeSchema E s = Some s"
    and r: "reject E l s = Inr (l', n)" and below: "rejectionCount l s < 3"
  obtains new where "rejectionLedgerSchema E l' = Some l'" "rl_isV2 l'" "n = rejectionCount l s + 1"
    "re_scope new = s" "re_count new = n" "re_status new = (if n = 3 then NeedsParentDecision else RetryAllowed)"
    "\<And>s'. find_rejection l' s' = (if rejectionKey s' True = rejectionKey s True then Some new else find_rejection l s')"
proof -
  let ?old = "find_rejection l s"
  define new where "new = \<lparr>re_scope = s, re_count = rejectionCount l s + 1,
    re_status = (if rejectionCount l s + 1 = 3 then NeedsParentDecision else RetryAllowed)\<rparr>"
  define entries where "entries = (case ?old of None \<Rightarrow> rl_entries l @ [new]
    | Some _ \<Rightarrow> map (\<lambda>e. if rejectionKey (re_scope e) True = rejectionKey s True then new else e) (rl_entries l))"
  have not3: "map_option re_count ?old \<noteq> Some 3"
    using below by (auto simp: rejectionCount_def split: option.splits)
  have count: "(case ?old of None \<Rightarrow> 0 | Some e \<Rightarrow> re_count e) + 1 = rejectionCount l s + 1"
    by (simp add: rejectionCount_def)
  note step = r [unfolded reject_def Let_def if_not_P [OF not3] count eqTrueI [OF l(2)] if_True, folded new_def]
  then obtain new' where new': "rejectionEntrySchema E True new = Some new'" by (auto split: option.splits)
  then have "new' = new" using s by (auto simp: rejectionEntrySchema_def new_def elim!: bind_SomeE guard_SomeE)
  with step new' have upd: "rejectionLedgerSchema E (l\<lparr>rl_entries := entries\<rparr>) = Some l'" "n = rejectionCount l s + 1"
    by (auto simp: entries_def split: option.splits)
  have normal: "array_of (rejectionEntrySchema E True) entries = Some entries"
    using l new' \<open>new' = new\<close>
    by (auto simp: array_of_normal entries_def list_all_iff rejectionLedgerSchema_normal_iff split: option.splits)
  then have l': "l' = l\<lparr>rl_entries := entries\<rparr>"
    using upd(1) l(2) by (cases l) (auto simp: rejectionLedgerSchema_def Let_def uuid_schema_def elim!: bind_SomeE guard_SomeE split: if_splits)
  have "find_rejection l' s' = (if rejectionKey s' True = rejectionKey s True then Some new else find_rejection l s')" for s'
  proof (cases ?old)
    case None
    then show ?thesis
      using find_absent_replaced [of "\<lambda>e. rejectionKey (re_scope e) True" "rejectionKey s True" "rl_entries l" new "rejectionKey s' True"]
      by (simp add: find_rejection_def l' l(2) entries_def new_def)
  next
    case (Some x)
    then show ?thesis
      using find_replaced [of "\<lambda>e. rejectionKey (re_scope e) True" "rejectionKey s True" "rl_entries l" x new "rejectionKey s' True"]
      by (simp add: find_rejection_def l' l(2) entries_def new_def)
  qed
  moreover have "rejectionLedgerSchema E l' = Some l'" by (rule rejection_ledger_schema.parse_idem [OF upd(1)])
  ultimately show thesis
    using upd(2) l(2) by (intro that [of new]) (simp_all add: l' new_def)
qed

section \<open>The contract\<close>

text \<open>
  The entry an acceptance is to leave in a version 2 ledger: every field of the acceptance, its
  texts trimmed, under the next number, the idempotency key of its run, attempt, agent and artifact,
  and the hash of the receipt.
\<close>

definition recorded_entry :: "nat \<Rightarrow> acceptance_event \<Rightarrow> string \<Rightarrow> acceptance_event" where
  "recorded_entry n ev sha = \<lparr>acc_sequence = n,
     acc_idempotencyKey =
       js_trim (idempotency_key (acc_runId ev) (acc_attempt ev) (acc_actualAgentId ev) (acc_artifactHash ev)),
     acc_runId = acc_runId ev, acc_attempt = acc_attempt ev, acc_runRevision = acc_runRevision ev,
     acc_ownerSessionId = js_trim (acc_ownerSessionId ev), acc_ownerEpoch = acc_ownerEpoch ev,
     acc_taskGeneration = acc_taskGeneration ev, acc_workerRole = acc_workerRole ev,
     acc_actualAgentId = js_trim (acc_actualAgentId ev),
     acc_actualJobId = map_option js_trim (acc_actualJobId ev), acc_captureCommit = acc_captureCommit ev,
     acc_receiptPath = js_trim (acc_receiptPath ev), acc_receiptHash = sha,
     acc_artifactHash = acc_artifactHash ev, acc_artifactPaths = map js_trim (acc_artifactPaths ev),
     acc_cleanupReceiptPaths = map js_trim (acc_cleanupReceiptPaths ev),
     acc_cleanupStatus = acc_cleanupStatus ev,
     acc_cleanupScenarioId = map_option js_trim (acc_cleanupScenarioId ev),
     acc_acceptedAfterReview = acc_acceptedAfterReview ev,
     acc_scope = map_option (\<lambda>s. s\<lparr>as_taskId := js_trim (as_taskId s)\<rparr>) (acc_scope ev)\<rparr>"

lemma trimmed_text:
  "nonempty x = Some y \<Longrightarrow> y = js_trim x" "runtimeId x = Some y \<Longrightarrow> y = js_trim x"
  by (auto simp: nonempty_def runtimeId_def Let_def split: if_splits)

lemma mapped_schema:
  assumes "\<And>x y. p x = Some y \<Longrightarrow> y = f x"
  shows "nullable p v = Some w \<Longrightarrow> w = map_option f v" and "array_of p xs = Some ys \<Longrightarrow> ys = map f xs"
proof -
  show "nullable p v = Some w \<Longrightarrow> w = map_option f v"
    using assms by (cases v) auto
  assume "array_of p xs = Some ys"
  then have "list_all2 (\<lambda>x y. p x = Some y) xs ys" by (simp add: array_of_Some_iff)
  then show "ys = map f xs" by (induction rule: list_all2_induct) (auto dest: assms)
qed

lemma trimmed_schemas:
  "nullable nonempty v = Some w \<Longrightarrow> w = map_option js_trim v"
  "nullable runtimeId v = Some w \<Longrightarrow> w = map_option js_trim v"
  "array_of nonempty xs = Some ys \<Longrightarrow> ys = map js_trim xs"
  using mapped_schema [of nonempty js_trim] mapped_schema(1) [of runtimeId js_trim] trimmed_text by blast+

lemma unchanged_schemas:
  "counter n = Some m \<Longrightarrow> m = n" "counter_positive n = Some m \<Longrightarrow> m = n" "commit_schema x = Some y \<Longrightarrow> y = x"
  "hash_schema x = Some y \<Longrightarrow> y = x" "uuid_schema E x = Some y \<Longrightarrow> y = x"
  by (auto simp: counter_def counter_positive_def commit_schema_def hash_schema_def uuid_schema_def split: if_splits)

lemma trimmed_scope:
  "nullable scopeSchema v = Some w \<Longrightarrow> w = map_option (\<lambda>s. s\<lparr>as_taskId := js_trim (as_taskId s)\<rparr>) v"
  by (rule mapped_schema(1) [where p = scopeSchema])
    (auto simp: scopeSchema_def dest!: trimmed_text(1) unchanged_schemas elim!: bind_SomeE)

lemma candidate_recorded:
  assumes "acceptanceEventSchema E True (acceptance_candidate l ev sha) = Some a" "al_isV2 l"
  shows "a = recorded_entry (al_ledgerRevision l + 1) ev sha"
  using assms unfolding acceptanceEventSchema_def Let_def
  by (elim bind_SomeE guard_SomeE) (auto dest!: trimmed_text trimmed_schemas trimmed_scope unchanged_schemas
      simp: acceptance_candidate_def recorded_entry_def)

text \<open>
  C19. An acceptance survives a crash between its two writes: whenever an acceptance into a version
  2 ledger has changed its files, a reader finds the former ledger extended by one entry and nothing
  else changed, whether or not the snapshot was replaced, and whatever was reported. The entry is the
  one that was accepted: its run, attempt, revision, owner, epoch, generation, role, agent, job,
  commit, paths, hashes, cleanup, review flag and scope are those of the acceptance (texts trimmed),
  its number is the next one, its key is made from them and its receipt hash is the one given.
\<close>

theorem acceptance_survives_crash:
  assumes "readAcceptance E sz (acc_runId ev) v2 fs = Inr l" "al_isV2 l"
    and "accept E sz v2 io fs ev sha = (fs', out)" "fs' \<noteq> fs"
  shows "readAcceptance E sz (acc_runId ev) v2 fs' =
      Inr (l\<lparr>al_ledgerRevision := al_ledgerRevision l + 1,
        al_entries := al_entries l @ [recorded_entry (al_ledgerRevision l + 1) ev sha]\<rparr>) \<and>
    out \<in> {AcceptIoError, AcceptDone Accepted}"
proof -
  obtain a where a: "acceptanceEventSchema E True (acceptance_candidate l ev sha) = Some a"
    "readAcceptance E sz (acc_runId ev) v2 fs' =
       Inr (l\<lparr>al_ledgerRevision := al_ledgerRevision l + 1, al_entries := al_entries l @ [a]\<rparr>)"
    "out \<in> {AcceptIoError, AcceptDone Accepted}"
    using accept_recovers [OF assms] .
  with candidate_recorded [OF a(1) assms(2)] show ?thesis by simp
qed

definition no_files :: acceptance_files where
  "no_files = \<lparr>af_snapshot = None, af_wal = []\<rparr>"

definition torn_io :: accept_io where
  "torn_io = \<lparr>io_deadlineValid = True, io_walPublished = True, io_snapshotPublished = False\<rparr>"

definition line_size :: "acceptance_event file_bytes \<Rightarrow> nat" where
  "line_size _ = 100"

definition torn_files :: acceptance_files where
  "torn_files = fst (accept sample_env line_size True torn_io no_files (sample_acceptance sample_start_run 0 ''1'') sample_hash)"

lemma no_files_read:
  "readAcceptance sample_env line_size (acc_runId (sample_acceptance sample_start_run 0 ''1'')) True no_files =
     Inr (empty_acceptance True (run_runId sample_start_run))"
  by code_simp

theorem acceptance_survives_crash_witness:
  "readAcceptance sample_env line_size (run_runId sample_start_run) True torn_files =
     Inr ((empty_acceptance True (run_runId sample_start_run))\<lparr>al_ledgerRevision := 1,
       al_entries := [recorded_entry 1 (sample_acceptance sample_start_run 0 ''1'') sample_hash]\<rparr>)"
proof -
  have "af_wal torn_files \<noteq> []" by code_simp
  then have "torn_files \<noteq> no_files" by (metis acceptance_files.select_convs(2) no_files_def)
  moreover have "al_isV2 (empty_acceptance True (run_runId sample_start_run))" by (simp add: empty_acceptance_def)
  ultimately show ?thesis
    using acceptance_survives_crash [OF no_files_read _ prod.collapse [symmetric], of torn_io sample_hash]
    by (simp add: torn_files_def empty_acceptance_def sample_acceptance_def)
qed

text \<open>
  The acceptance ledger of a run only grows at its end, over any sequence of acceptances of
  that run with any outcome of their writes, and its sequence numbers stay dense.
\<close>

theorem acceptance_log_append_only:
  assumes "acceptance_read E sz rid fs" "\<forall>op\<in>set ops. acc_runId (fst (snd op)) = rid"
  shows "acceptance_read E sz rid (foldl (accept_step E sz) fs ops) \<and>
    (\<exists>new. accepted_log E sz rid (foldl (accept_step E sz) fs ops) = accepted_log E sz rid fs @ new \<and>
       map acc_sequence (accepted_log E sz rid fs @ new) = [1..<Suc (length (accepted_log E sz rid fs @ new))])"
proof -
  have valid: "list_all (\<lambda>(io, ev, sha). acc_runId ev = rid) ops"
    using assms(2) by (auto simp: list_all_iff)
  from acceptance_log.run_inv [OF assms(1) valid] acceptance_log.run_appends [OF assms(1) valid] show ?thesis
    by (simp add: dense_def)
qed

theorem acceptance_log_append_only_witness:
  "acceptance_read sample_env line_size (run_runId sample_start_run)
     (foldl (accept_step sample_env line_size) no_files [(torn_io, sample_acceptance sample_start_run 0 ''1'', sample_hash)])"
proof -
  have "acceptance_read sample_env line_size (run_runId sample_start_run) no_files"
    using no_files_read by (auto simp: acceptance_read_def empty_acceptance_def sample_acceptance_def)
  from acceptance_log_append_only [OF this, of "[(torn_io, sample_acceptance sample_start_run 0 ''1'', sample_hash)]"]
  show ?thesis by (simp add: sample_acceptance_def)
qed

text \<open>
  The write-ahead log is never shortened: once it holds its limit of 1000 entries, every
  further acceptance that is neither a replay nor a duplicate fails, and nothing is written.
\<close>

theorem full_wal_refuses:
  assumes "length (af_wal fs) = 1000" "accept E sz v2 io fs ev sha = (fs', out)"
  shows "fs' = fs \<and> out \<noteq> AcceptDone Accepted"
proof -
  have no: "appendAcceptanceWal sz valid (af_wal fs) c \<noteq> Inr w" for valid c w
    using assms(1) by (auto simp: appendAcceptanceWal_def readAcceptanceWal_def Let_def max_wal_entries_def split: if_splits)
  show ?thesis
  proof (cases "readAcceptance E sz (acc_runId ev) v2 fs")
    case (Inl err)
    with assms(2) show ?thesis by (auto simp: accept_def)
  next
    case (Inr l)
    from this assms(2) show ?thesis
    proof (cases rule: accept_cases)
      case (logged candidate updated wal')
      with no show ?thesis by blast
    qed blast
  qed
qed

theorem full_wal_refuses_witness:
  "\<exists>out. accept sample_env line_size True torn_io (no_files\<lparr>af_wal := replicate 1000 OtherJson\<rparr>)
     (sample_acceptance sample_start_run 0 ''1'') sample_hash = (no_files\<lparr>af_wal := replicate 1000 OtherJson\<rparr>, out)"
proof -
  let ?r = "accept sample_env line_size True torn_io (no_files\<lparr>af_wal := replicate 1000 OtherJson\<rparr>)
     (sample_acceptance sample_start_run 0 ''1'') sample_hash"
  have "fst ?r = no_files\<lparr>af_wal := replicate 1000 OtherJson\<rparr>"
    using full_wal_refuses [OF _ prod.collapse [symmetric], of "no_files\<lparr>af_wal := replicate 1000 OtherJson\<rparr>"] by simp
  then show ?thesis by (metis prod.collapse)
qed

text \<open>
  Rejections are counted per scope up to three: below three a rejection raises the count of its
  scope by one, leaves every other scope alone, keeps the ledger valid, and asks the parent to
  decide exactly when the count reaches three; at three nothing changes any more.
\<close>

theorem rejections_counted:
  assumes "rejectionLedgerSchema E l = Some l" "rl_isV2 l" "rejectionScopeSchema E s = Some s"
    and "reject E l s = Inr (l', n)"
  shows "n = min 3 (rejectionCount l s + 1) \<and> rejectionCount l' s = n \<and>
    rejectionLedgerSchema E l' = Some l' \<and>
    (\<forall>s'. rejectionKey s' True \<noteq> rejectionKey s True \<longrightarrow> rejectionCount l' s' = rejectionCount l s') \<and>
    (rejectionCount l s < 3 \<longrightarrow>
       map_option re_status (find_rejection l' s) = Some (if n = 3 then NeedsParentDecision else RetryAllowed))"
proof -
  have bound: "rejectionCount l s \<le> 3"
    using assms(1) by (auto simp: rejectionCount_def find_rejection_def rejectionLedgerSchema_normal_iff list_all_iff
        rejectionEntrySchema_def dest!: find_SomeD elim!: bind_SomeE guard_SomeE split: option.splits)
  show ?thesis
  proof (cases "rejectionCount l s < 3")
    case True
    obtain new where new: "rejectionLedgerSchema E l' = Some l'" "n = rejectionCount l s + 1"
      "re_count new = n" "re_status new = (if n = 3 then NeedsParentDecision else RetryAllowed)"
      "\<And>s'. find_rejection l' s' = (if rejectionKey s' True = rejectionKey s True then Some new else find_rejection l s')"
      using reject_spec [OF assms True] by blast
    with True show ?thesis by (simp add: rejectionCount_def [of l'] rejectionCount_def [of l "_ :: rejection_scope"])
  next
    case False
    with bound have "rejectionCount l s = 3" by simp
    then have "map_option re_count (find_rejection l s) = Some 3"
      by (auto simp: rejectionCount_def split: option.splits)
    with assms(4) have "l' = l" "n = 3" by (simp_all add: reject_def)
    with \<open>rejectionCount l s = 3\<close> assms(1) show ?thesis by simp
  qed
qed

definition sample_rejection :: rejection_scope where
  "sample_rejection = \<lparr>rs_runId = run_runId sample_start_run, rs_attempt = 1, rs_runRevision = 1, rs_ownerEpoch = 1,
     rs_taskGeneration = 1, rs_actualAgentId = ''a'',
     rs_v2 = Some \<lparr>as_taskId = ''1'', as_role = WorkerLow, as_semanticAttempt = 1\<rparr>\<rparr>"

definition empty_rejections :: rejection_ledger where
  "empty_rejections = \<lparr>rl_isV2 = True, rl_runId = run_runId sample_start_run, rl_entries = []\<rparr>"

theorem rejections_counted_witness:
  "rejectionCount (fst (projr (reject sample_env empty_rejections sample_rejection))) sample_rejection = 1"
proof -
  have "isl (reject sample_env empty_rejections sample_rejection) = False" by code_simp
  then have "reject sample_env empty_rejections sample_rejection =
      Inr (fst (projr (reject sample_env empty_rejections sample_rejection)), snd (projr (reject sample_env empty_rejections sample_rejection)))"
    by simp
  moreover have "rejectionLedgerSchema sample_env empty_rejections = Some empty_rejections"
    "rl_isV2 empty_rejections" "rejectionScopeSchema sample_env sample_rejection = Some sample_rejection" by code_simp+
  moreover have "rejectionCount empty_rejections sample_rejection = 0" by code_simp
  ultimately show ?thesis
    using rejections_counted [of sample_env empty_rejections sample_rejection] by fastforce
qed

end
