(* ===== verification/Repo_Lock.thy ===== *)
theory Repo_Lock
  imports Atomic_Files State_Codec
begin

text \<open>
  The repository lock (\<^verbatim>\<open>src/state/repo-lock.ts\<close>) and the clearing of a stale lock
  (\<^verbatim>\<open>clearConfirmedStaleLock\<close> of \<^verbatim>\<open>src/state/recovery.ts\<close>). The lock is a file that is created
  exclusively and carries a nonce; releasing it reads the file back and removes it only under the
  same nonce. The first half models each operation as a function of what the host answers, the
  second half interleaves the file system calls of several processes.
\<close>

datatype lock_purpose = PurposeStop | PurposeCommand

record lock_metadata =
  lm_nonce :: string
  lm_pid :: nat
  lm_sessionId :: string
  lm_purpose :: lock_purpose
  lm_acquiredAt :: string

type_synonym lock_slot = "lock_metadata file_bytes option"

definition metadataSchema :: "host_env \<Rightarrow> lock_metadata \<Rightarrow> lock_metadata option" where
  "metadataSchema E m =
     (if is_uuid E (lm_nonce m) \<and> counter_positive (lm_pid m) \<noteq> None \<and> is_datetime E (lm_acquiredAt m)
      then map_option (\<lambda>s. m\<lparr>lm_sessionId := s\<rparr>) (nonempty (lm_sessionId m))
      else None)"

datatype lock_throw = MalformedLock | LockGuardThrows | LockIoThrows

definition decodeMetadata :: "host_env \<Rightarrow> lock_metadata file_bytes \<Rightarrow> lock_throw + lock_metadata" where
  "decodeMetadata E bytes = (case bytes of
     Json m \<Rightarrow> (case metadataSchema E m of Some m' \<Rightarrow> Inr m' | None \<Rightarrow> Inl MalformedLock)
   | _ \<Rightarrow> Inl MalformedLock)"

section \<open>The operations\<close>

text \<open>
  What \<^verbatim>\<open>release\<close> finds out before it removes the file: an absent or malformed file and a foreign
  nonce all mean that there is nothing to release.
\<close>

definition release_check :: "host_env \<Rightarrow> string \<Rightarrow> lock_slot \<Rightarrow> bool" where
  "release_check E nonce slot = (case slot of
     None \<Rightarrow> False
   | Some bytes \<Rightarrow> (case decodeMetadata E bytes of Inl _ \<Rightarrow> False | Inr current \<Rightarrow> lm_nonce current = nonce))"

record release_io =
  rl_guard :: bool
  rl_read :: bool
  rl_guardAgain :: bool
  rl_unlink :: bool

definition release :: "host_env \<Rightarrow> release_io \<Rightarrow> lock_metadata \<Rightarrow> lock_slot \<Rightarrow> lock_slot \<times> (lock_throw + bool)" where
  "release E io m slot =
     (if \<not> rl_guard io then (slot, Inl LockGuardThrows)
      else if slot \<noteq> None \<and> \<not> rl_read io then (slot, Inl LockIoThrows)
      else if \<not> release_check E (lm_nonce m) slot then (slot, Inr False)
      else if \<not> rl_guardAgain io then (slot, Inl LockGuardThrows)
      else if \<not> rl_unlink io then (slot, Inl LockIoThrows)
      else (None, Inr True))"

text \<open>
  One round of \<^verbatim>\<open>tryAcquire\<close>: the loop condition, what the other processes have made of the file by
  then, the metadata drawn for this round, the outcome of the exclusive creation (which fails with
  \<^verbatim>\<open>EEXIST\<close> when the file exists, and may fail otherwise at any time), and whether time is left to
  sleep for another round.
\<close>

datatype create_result = CreateOk | CreateFails | WriteFails | SyncFails

record acquire_round =
  ar_valid :: bool
  ar_inTime :: bool
  ar_others :: "lock_slot \<Rightarrow> lock_slot"
  ar_metadata :: lock_metadata
  ar_guard :: bool
  ar_create :: create_result
  ar_remaining :: bool

datatype acquire_result = Acquired lock_metadata | NotAcquired | AcquireThrows lock_throw | StillWaiting

fun acquire_loop :: "acquire_round list \<Rightarrow> lock_slot \<Rightarrow> lock_slot \<times> acquire_result" where
  "acquire_loop [] slot = (slot, StillWaiting)"
| "acquire_loop (r # rs) slot =
     (if \<not> (ar_valid r \<and> ar_inTime r) then (slot, NotAcquired)
      else if \<not> ar_guard r then (slot, AcquireThrows LockGuardThrows)
      else if ar_create r = CreateFails then (ar_others r slot, AcquireThrows LockIoThrows)
      else case ar_others r slot of
        Some bytes \<Rightarrow> if ar_remaining r then acquire_loop rs (Some bytes) else (Some bytes, NotAcquired)
      | None \<Rightarrow> (case ar_create r of
            CreateOk \<Rightarrow> (Some (stringify (ar_metadata r)), Acquired (ar_metadata r))
          | CreateFails \<Rightarrow> (None, AcquireThrows LockIoThrows)
          | WriteFails \<Rightarrow> (Some NotJson, AcquireThrows LockIoThrows)
          | SyncFails \<Rightarrow> (Some (stringify (ar_metadata r)), AcquireThrows LockIoThrows)))"

text \<open>The guards and the creation of the directory come before the loop.\<close>

definition tryAcquire :: "step_result \<Rightarrow> acquire_round list \<Rightarrow> lock_slot \<Rightarrow> lock_slot \<times> acquire_result" where
  "tryAcquire prepared rounds slot = (case prepared of
     StepOk \<Rightarrow> acquire_loop rounds slot
   | StepThrows \<Rightarrow> (slot, AcquireThrows LockGuardThrows)
   | StepKilled \<Rightarrow> (slot, StillWaiting))"

definition readMetadata :: "host_env \<Rightarrow> bool \<Rightarrow> bool \<Rightarrow> lock_slot \<Rightarrow> lock_throw + lock_metadata option" where
  "readMetadata E guarded readable slot =
     (if \<not> guarded then Inl LockGuardThrows
      else case slot of
        None \<Rightarrow> Inr None
      | Some bytes \<Rightarrow>
        (if \<not> readable then Inl LockIoThrows
         else case decodeMetadata E bytes of Inl err \<Rightarrow> Inl err | Inr m \<Rightarrow> Inr (Some m)))"

datatype clear_result =
    ClearOk | ConfirmationRequired | OwnerAlive | LockMissing | NonceMismatch | ClearThrows lock_throw

definition clearConfirmedStaleLock ::
    "host_env \<Rightarrow> bool \<Rightarrow> bool \<Rightarrow> string \<Rightarrow> bool \<Rightarrow> bool \<Rightarrow> release_io \<Rightarrow> lock_slot \<Rightarrow> lock_slot \<times> clear_result" where
  "clearConfirmedStaleLock E confirmed ownerAlive expectedNonce guarded readable io slot =
     (if \<not> confirmed then (slot, ConfirmationRequired)
      else if ownerAlive then (slot, OwnerAlive)
      else case readMetadata E guarded readable slot of
        Inl err \<Rightarrow> (slot, ClearThrows err)
      | Inr None \<Rightarrow> (slot, LockMissing)
      | Inr (Some m) \<Rightarrow>
        (if lm_nonce m \<noteq> expectedNonce then (slot, NonceMismatch)
         else case release E io m slot of
           (slot', Inl err) \<Rightarrow> (slot', ClearThrows err)
         | (slot', Inr released) \<Rightarrow> (slot', if released then ClearOk else NonceMismatch)))"

section \<open>Processes\<close>

text \<open>
  The program points of a process between two file system calls. \<open>Created\<close> has made the file and
  not yet written it; \<open>Confirmed\<close> is a clearing process that has read the metadata of a dead owner;
  \<open>Removing\<close> has compared the nonce and not yet removed the file.
\<close>

datatype lock_pc =
    Outside | Created nat lock_metadata | Holding lock_metadata
  | Confirmed lock_metadata | Removing lock_metadata | Dead

text \<open>The file is named by its inode, so that a write to a file already removed has no effect on the path.\<close>

record lock_world =
  lw_slot :: "(nat \<times> lock_metadata file_bytes) option"
  lw_inodes :: nat
  lw_pc :: "nat \<Rightarrow> lock_pc"

datatype lock_action =
    ActOpen nat lock_metadata
  | ActWrite nat create_result
  | ActCompare nat
  | ActUnlink nat
  | ActClear nat string
  | ActDie nat

definition move :: "lock_world \<Rightarrow> nat \<Rightarrow> lock_pc \<Rightarrow> lock_world" where
  "move w p c = w\<lparr>lw_pc := (lw_pc w)(p := c)\<rparr>"

definition lw_bytes :: "lock_world \<Rightarrow> lock_slot" where
  "lw_bytes w = map_option snd (lw_slot w)"

definition write_inode :: "lock_world \<Rightarrow> nat \<Rightarrow> lock_metadata file_bytes \<Rightarrow> lock_world" where
  "write_inode w i bytes = (case lw_slot w of
     Some (j, _) \<Rightarrow> if j = i then w\<lparr>lw_slot := Some (i, bytes)\<rparr> else w
   | None \<Rightarrow> w)"

text \<open>
  One file system call of one process; \<open>None\<close> when the process is not at that call. The caller of
  \<^verbatim>\<open>clearConfirmedStaleLock\<close> reports the owner dead only when it is.
\<close>

fun lock_exec :: "host_env \<Rightarrow> lock_action \<Rightarrow> lock_world \<Rightarrow> lock_world option" where
  "lock_exec E (ActOpen p m) w =
     (if lw_pc w p = Outside \<and> lm_pid m = p then
        Some (if lw_slot w = None
              then move (w\<lparr>lw_slot := Some (lw_inodes w, NotJson), lw_inodes := Suc (lw_inodes w)\<rparr>) p (Created (lw_inodes w) m)
              else w)
      else None)"
| "lock_exec E (ActWrite p res) w = (case lw_pc w p of
     Created i m \<Rightarrow> Some (case res of
         CreateOk \<Rightarrow> move (write_inode w i (stringify m)) p (Holding m)
       | SyncFails \<Rightarrow> move (write_inode w i (stringify m)) p Outside
       | _ \<Rightarrow> move w p Outside)
   | _ \<Rightarrow> None)"
| "lock_exec E (ActCompare p) w = (case lw_pc w p of
     Holding m \<Rightarrow> Some (move w p (if release_check E (lm_nonce m) (lw_bytes w) then Removing m else Outside))
   | Confirmed m \<Rightarrow> Some (move w p (if release_check E (lm_nonce m) (lw_bytes w) then Removing m else Outside))
   | _ \<Rightarrow> None)"
| "lock_exec E (ActUnlink p) w = (case lw_pc w p of
     Removing m \<Rightarrow> Some (move (w\<lparr>lw_slot := None\<rparr>) p Outside)
   | _ \<Rightarrow> None)"
| "lock_exec E (ActClear p expectedNonce) w =
     (if lw_pc w p \<noteq> Outside then None
      else case readMetadata E True True (lw_bytes w) of
        Inr (Some m) \<Rightarrow>
          Some (if lw_pc w (lm_pid m) = Dead \<and> lm_nonce m = expectedNonce then move w p (Confirmed m) else w)
      | _ \<Rightarrow> Some w)"
| "lock_exec E (ActDie p) w = Some (move w p Dead)"

definition lock_start :: lock_world where
  "lock_start = \<lparr>lw_slot = None, lw_inodes = 0, lw_pc = (\<lambda>_. Outside)\<rparr>"

text \<open>The worlds that the processes reach when only the processes of \<open>C\<close> ever clear a stale lock.\<close>

fun clears_in :: "nat set \<Rightarrow> lock_action \<Rightarrow> bool" where
  "clears_in C (ActClear p _) = (p \<in> C)"
| "clears_in C _ = True"

inductive lock_reachable :: "host_env \<Rightarrow> nat set \<Rightarrow> lock_world \<Rightarrow> bool" for E C where
  start: "lock_reachable E C lock_start"
| step: "lock_reachable E C w \<Longrightarrow> clears_in C a \<Longrightarrow> lock_exec E a w = Some w' \<Longrightarrow> lock_reachable E C w'"

inductive_cases lock_reachableE: "lock_reachable E C w"

text \<open>A schedule run to its end, for concrete executions.\<close>

fun lock_run :: "host_env \<Rightarrow> lock_action list \<Rightarrow> lock_world \<Rightarrow> lock_world option" where
  "lock_run E [] w = Some w"
| "lock_run E (a # as) w = (case lock_exec E a w of None \<Rightarrow> None | Some w' \<Rightarrow> lock_run E as w')"

lemma lock_run_reachable:
  "lock_reachable E C w \<Longrightarrow> list_all (clears_in C) as \<Longrightarrow> lock_run E as w = Some w' \<Longrightarrow> lock_reachable E C w'"
  by (induction as arbitrary: w) (auto split: option.splits intro: lock_reachable.step)

end
