(* ===== verification/Lock_Properties.thy ===== *)
theory Lock_Properties
  imports Repo_Lock Sample_State
begin

text \<open>
  Correctness of the repository lock: mutual exclusion of the interleaved processes by an invariant
  over the reachable worlds, what release and acquisition do to the file, and the two ways in which
  the clearing of stale locks falls short.
\<close>

section \<open>The invariant of the interleaving\<close>

fun meta_of :: "lock_pc \<Rightarrow> lock_metadata option" where
  "meta_of (Created _ m) = Some m"
| "meta_of (Holding m) = Some m"
| "meta_of (Confirmed m) = Some m"
| "meta_of (Removing m) = Some m"
| "meta_of _ = None"

text \<open>
  At most one process is engaged with the file; the file exists and, unless the engaged process is
  one that clears, it names that process as its owner.
\<close>

definition lock_inv :: "nat set \<Rightarrow> lock_world \<Rightarrow> bool" where
  "lock_inv C w \<longleftrightarrow>
     (\<forall>p q. meta_of (lw_pc w p) \<noteq> None \<longrightarrow> meta_of (lw_pc w q) \<noteq> None \<longrightarrow> p = q) \<and>
     (\<forall>p. meta_of (lw_pc w p) \<noteq> None \<longrightarrow> lw_slot w \<noteq> None) \<and>
     (\<forall>p i m. lw_pc w p = Created i m \<longrightarrow> lm_pid m = p \<and> lw_slot w = Some (i, NotJson)) \<and>
     (\<forall>p m. lw_pc w p = Holding m \<longrightarrow> lm_pid m = p \<and> lw_bytes w = Some (Json m)) \<and>
     (\<forall>p m. p \<notin> C \<longrightarrow> meta_of (lw_pc w p) \<noteq> None \<longrightarrow> lw_bytes w = Some (Json m) \<longrightarrow> lm_pid m = p)"

lemma meta_of_None_iff: "meta_of c = None \<longleftrightarrow> c = Outside \<or> c = Dead"
  by (cases c) auto

lemma readMetadata_pid:
  "readMetadata E True True slot = Inr (Some m) \<Longrightarrow> \<exists>m'. slot = Some (Json m') \<and> lm_pid m' = lm_pid m \<and> lm_nonce m' = lm_nonce m"
  by (auto simp: readMetadata_def decodeMetadata_def metadataSchema_def split: option.splits file_bytes.splits if_splits)

lemma lw_pc_move [simp]: "lw_pc (move w p c) q = (if q = p then c else lw_pc w q)"
  by (simp add: move_def)

lemma lw_slot_move [simp]: "lw_slot (move w p c) = lw_slot w" "lw_bytes (move w p c) = lw_bytes w"
  by (simp_all add: move_def lw_bytes_def)

lemma write_inode_pc [simp]: "lw_pc (write_inode w i b) = lw_pc w"
  by (auto simp: write_inode_def split: option.splits)

lemma write_inode_slot: "lw_slot w = Some (i, b) \<Longrightarrow> lw_slot (write_inode w i b') = Some (i, b')"
  by (simp add: write_inode_def)

lemma lock_inv_disengage:
  assumes "lock_inv C w" "meta_of c = None"
  shows "lock_inv C (move w p c)"
  using assms unfolding lock_inv_def by (auto simp: meta_of_None_iff)

lemma lock_inv_alone:
  assumes inv: "lock_inv C w" and p: "meta_of (lw_pc w p) \<noteq> None" and q: "q \<noteq> p"
  shows "lw_pc w q = Outside \<or> lw_pc w q = Dead"
  using assms unfolding lock_inv_def meta_of_None_iff [symmetric] by blast

lemma lock_inv_others:
  assumes "lock_inv C w" "meta_of (lw_pc w p) \<noteq> None" "q \<noteq> p"
  shows "meta_of (lw_pc w q) = None" "lw_pc w q \<noteq> Created i m" "lw_pc w q \<noteq> Holding m"
  using lock_inv_alone [OF assms] by auto

text \<open>Every call of one process keeps the invariant as long as at most one process clears.\<close>

lemma lock_exec_inv:
  assumes inv: "lock_inv C w" and C: "C \<subseteq> {c}" and a: "clears_in C a" and ex: "lock_exec E a w = Some w'"
  shows "lock_inv C w'"
proof (cases a)
  case (ActOpen p m)
  have "meta_of (lw_pc w q) = None" if "lw_slot w = None" for q
    using inv that unfolding lock_inv_def by blast
  then show ?thesis
    using ex inv unfolding ActOpen
    by (auto simp: lock_inv_def lw_bytes_def split: if_splits)
next
  case (ActWrite p res)
  then obtain i m where pc: "lw_pc w p = Created i m"
    using ex by (auto split: lock_pc.splits)
  have out: "lock_inv C (move w p Outside)" by (simp add: lock_inv_disengage [OF inv])
  have alone: "lw_pc w q = Outside \<or> lw_pc w q = Dead" if "q \<noteq> p" for q
    using that pc by (intro lock_inv_alone [OF inv, of p]) simp_all
  have slot: "lw_slot w = Some (i, NotJson)" "lm_pid m = p"
    using inv pc unfolding lock_inv_def by blast+
  have "lock_inv C (move (write_inode w i (stringify m)) p c')" if "c' = Holding m \<or> c' = Outside" for c'
    using that alone slot write_inode_slot [OF slot(1), of "stringify m"]
    by (fastforce simp: lock_inv_def meta_of_None_iff lw_bytes_def)
  then show ?thesis using ex pc out unfolding ActWrite by (auto split: create_result.splits)
next
  case (ActCompare p)
  then obtain m where pc: "lw_pc w p = Holding m \<or> lw_pc w p = Confirmed m"
    and w': "w' = move w p (if release_check E (lm_nonce m) (lw_bytes w) then Removing m else Outside)"
    using ex by (auto split: lock_pc.splits)
  have e: "meta_of (lw_pc w p) \<noteq> None" using pc by auto
  with inv have "lw_slot w \<noteq> None" unfolding lock_inv_def by blast
  moreover have "lm_pid cur = p" if "p \<notin> C" "lw_bytes w = Some (Json cur)" for cur
    using inv e that unfolding lock_inv_def by blast
  ultimately have "lock_inv C (move w p (Removing m))"
    using lock_inv_others [OF inv e] unfolding lock_inv_def by (auto simp: meta_of_None_iff)
  then show ?thesis using w' lock_inv_disengage [OF inv] by auto
next
  case (ActUnlink p)
  then obtain m where pc: "lw_pc w p = Removing m" and w': "w' = move (w\<lparr>lw_slot := None\<rparr>) p Outside"
    using ex by (auto split: lock_pc.splits)
  then show ?thesis
    using lock_inv_alone [OF inv, of p] by (fastforce simp: lock_inv_def lw_bytes_def)
next
  case (ActClear p nonce)
  show ?thesis
  proof (cases "w' = w")
    case False
    with ex ActClear obtain m where read: "readMetadata E True True (lw_bytes w) = Inr (Some m)"
      by (auto split: sum.splits option.splits if_splits)
    with False ex ActClear have dead: "lw_pc w (lm_pid m) = Dead" and w': "w' = move w p (Confirmed m)"
      and out: "lw_pc w p = Outside"
      by (auto split: if_splits)
    from readMetadata_pid [OF read] obtain m' where m': "lw_bytes w = Some (Json m')" "lm_pid m' = lm_pid m"
      by blast
    have p: "C = {p}" using a C ActClear by auto
    have none: "meta_of (lw_pc w q) = None" for q
    proof (rule ccontr)
      assume e: "meta_of (lw_pc w q) \<noteq> None"
      then have "q \<notin> C" using out p by auto
      with e m' inv have "lm_pid m = q" unfolding lock_inv_def by metis
      with dead e show False by simp
    qed
    then have "lw_pc w q \<noteq> Created i n" "lw_pc w q \<noteq> Holding n" for q i n
      by (metis meta_of.simps(1,2) option.distinct(1))+
    with none m'(1) p show ?thesis
      unfolding w' lock_inv_def by (auto simp: lw_bytes_def)
  qed (use inv in simp)
next
  case (ActDie p)
  then show ?thesis using ex lock_inv_disengage [OF inv, of Dead p] by simp
qed

lemma lock_reachable_inv:
  assumes "lock_reachable E C w" "C \<subseteq> {c}"
  shows "lock_inv C w"
  using assms(1)
proof induction
  case (step w a w')
  with lock_exec_inv assms(2) show ?case by blast
qed (simp add: lock_inv_def lock_start_def)


section \<open>The contract\<close>

text \<open>
  C26. Mutual exclusion: however the file system calls of any number of processes interleave, and
  wherever processes die, two processes never hold the lock at once, as long as stale locks are
  cleared by at most one process. The lock file then carries the metadata of the holder.
\<close>

theorem lock_mutual_exclusion:
  assumes "lock_reachable E C w" "C \<subseteq> {c}" "lw_pc w p = Holding m"
  shows "lw_bytes w = Some (stringify m) \<and> (\<forall>q m'. lw_pc w q = Holding m' \<longrightarrow> q = p)"
proof -
  have inv: "lock_inv C w" by (rule lock_reachable_inv [OF assms(1,2)])
  then have "lw_bytes w = Some (stringify m)" using assms(3) unfolding lock_inv_def by blast
  moreover have "q = p" if "lw_pc w q = Holding m'" for q m'
    using lock_inv_alone [OF inv, of p q] assms(3) that by auto
  ultimately show ?thesis by blast
qed

definition sample_lock :: "nat \<Rightarrow> lock_metadata" where
  "sample_lock p = \<lparr>lm_nonce = sample_uuid (digit p), lm_pid = p, lm_sessionId = ''s1'',
     lm_purpose = PurposeCommand, lm_acquiredAt = ''t0''\<rparr>"

text \<open>Process 1 dies holding the lock, process 2 clears it, and process 3 acquires it.\<close>

definition clear_schedule :: "lock_action list" where
  "clear_schedule = [ActOpen 1 (sample_lock 1), ActWrite 1 CreateOk, ActDie 1,
     ActClear 2 (sample_uuid (digit 1)), ActCompare 2, ActUnlink 2,
     ActOpen 3 (sample_lock 3), ActWrite 3 CreateOk]"

lemma clear_schedule_runs: "Option.is_none (lock_run sample_env clear_schedule lock_start) = False"
  by code_simp

theorem lock_mutual_exclusion_witness:
  "\<exists>w. lock_run sample_env clear_schedule lock_start = Some w \<and> lw_pc w 3 = Holding (sample_lock 3) \<and>
     lw_bytes w = Some (stringify (sample_lock 3))"
proof -
  let ?w = "the (lock_run sample_env clear_schedule lock_start)"
  have run: "lock_run sample_env clear_schedule lock_start = Some ?w"
    using clear_schedule_runs by (cases "lock_run sample_env clear_schedule lock_start") auto
  have "list_all (clears_in {2}) clear_schedule" by (simp add: clear_schedule_def)
  with run have r: "lock_reachable sample_env {2} ?w" by (intro lock_run_reachable [OF lock_reachable.start])
  have h: "lw_pc ?w 3 = Holding (sample_lock 3)" by code_simp
  from lock_mutual_exclusion [OF r order_refl h] run h show ?thesis by blast
qed

text \<open>
  A lock is removed only under its own nonce: \<open>release\<close> deletes the file exactly when it reports
  success, and then the file decoded to metadata with the nonce of the handle; in every other case
  (absent, malformed or foreign lock, a failing guard or system call) the file stays as it is. The
  clearing of a stale lock obeys the same rule, and only for a confirmed request and a dead owner.
\<close>

theorem release_removes_own:
  assumes "release E io m slot = (slot', res)"
    and "clearConfirmedStaleLock E confirmed ownerAlive nonce guarded readable io' slot = (slot'', cleared)"
  shows "(if res = Inr True then slot' = None \<and> release_check E (lm_nonce m) slot else slot' = slot) \<and>
     (if cleared = ClearOk then slot'' = None \<and> confirmed \<and> \<not> ownerAlive \<and> release_check E nonce slot
      else slot'' = slot)"
  using assms
  by (auto simp: release_def clearConfirmedStaleLock_def split: if_splits sum.splits option.splits)

theorem release_removes_own_witness:
  "fst (release sample_env \<lparr>rl_guard = True, rl_read = True, rl_guardAgain = True, rl_unlink = True\<rparr>
      (sample_lock 1) (Some (stringify (sample_lock 2)))) = Some (stringify (sample_lock 2))"
proof -
  let ?io = "\<lparr>rl_guard = True, rl_read = True, rl_guardAgain = True, rl_unlink = True\<rparr>"
  let ?r = "release sample_env ?io (sample_lock 1) (Some (stringify (sample_lock 2)))"
  let ?c = "clearConfirmedStaleLock sample_env True False (lm_nonce (sample_lock 2)) True True ?io (Some (stringify (sample_lock 2)))"
  have "isl (snd ?r) = False" "projr (snd ?r) = False" by code_simp+
  then have "snd ?r \<noteq> Inr True" by auto
  with release_removes_own [OF prod.collapse [symmetric, of ?r] prod.collapse [symmetric, of ?c]]
  show ?thesis by simp
qed

lemma acquire_loop_Acquired:
  "acquire_loop rounds slot = (slot', Acquired m) \<Longrightarrow>
     slot' = Some (stringify m) \<and> (\<exists>r\<in>set rounds. m = ar_metadata r \<and> (\<exists>s. ar_others r s = None))"
  by (induction rounds slot rule: acquire_loop.induct)
    (auto split: if_splits option.splits create_result.splits)

lemma acquire_loop_NotAcquired:
  "acquire_loop rounds slot = (slot', NotAcquired) \<Longrightarrow>
     slot' = slot \<or> (\<exists>r\<in>set rounds. \<exists>s. slot' = ar_others r s)"
  by (induction rounds slot rule: acquire_loop.induct)
    (auto split: if_splits option.splits create_result.splits, (metis)+)

lemma acquire_loop_StillWaiting:
  "acquire_loop rounds slot = (slot', StillWaiting) \<Longrightarrow>
     r \<in> set rounds \<Longrightarrow> ar_valid r \<and> ar_inTime r \<and> ar_remaining r"
  by (induction rounds slot rule: acquire_loop.induct)
    (auto split: if_splits option.splits create_result.splits)

text \<open>
  C27. Acquisition: when \<open>tryAcquire\<close> returns a handle, the file was absent at that moment and now holds
  exactly the handle's metadata; when it returns no handle, it has not written the file; and the
  loop returns as soon as a round finds the deadline or the waiting time over.
\<close>

theorem acquire_exclusive:
  assumes "tryAcquire prepared rounds slot = (slot', res)"
  shows "(case res of
        Acquired m \<Rightarrow> slot' = Some (stringify m) \<and> (\<exists>r\<in>set rounds. m = ar_metadata r \<and> (\<exists>s. ar_others r s = None))
      | NotAcquired \<Rightarrow> slot' = slot \<or> (\<exists>r\<in>set rounds. \<exists>s. slot' = ar_others r s)
      | AcquireThrows _ \<Rightarrow> True
      | StillWaiting \<Rightarrow> prepared = StepKilled \<or> (\<forall>r\<in>set rounds. ar_valid r \<and> ar_inTime r \<and> ar_remaining r))"
  using assms acquire_loop_StillWaiting [of rounds slot slot']
  by (cases res)
    (auto simp: tryAcquire_def dest: acquire_loop_Acquired acquire_loop_NotAcquired split: step_result.splits)

text \<open>The lock is held by process 1 in the first round and free in the second.\<close>

definition sample_rounds :: "acquire_round list" where
  "sample_rounds = [\<lparr>ar_valid = True, ar_inTime = True, ar_others = id, ar_metadata = sample_lock 2,
       ar_guard = True, ar_create = CreateOk, ar_remaining = True\<rparr>,
     \<lparr>ar_valid = True, ar_inTime = True, ar_others = (\<lambda>_. None), ar_metadata = sample_lock 3,
       ar_guard = True, ar_create = CreateOk, ar_remaining = True\<rparr>]"

theorem acquire_exclusive_witness:
  "tryAcquire StepOk sample_rounds (Some (stringify (sample_lock 1))) = (Some (stringify (sample_lock 3)), Acquired (sample_lock 3))"
proof -
  have "tryAcquire StepOk sample_rounds (Some (stringify (sample_lock 1))) =
      (fst (tryAcquire StepOk sample_rounds (Some (stringify (sample_lock 1)))), Acquired (sample_lock 3))"
    by (simp add: tryAcquire_def sample_rounds_def)
  from acquire_exclusive [OF this] this show ?thesis by simp
qed

text \<open>
  A process that dies or fails between creating the lock file and writing it leaves a lock that
  no operation of this component removes: no release and no clearing changes the file, whatever
  they are called with, and every acquisition that sees it unchanged waits until it gives up.
\<close>

theorem unwritten_lock_sticks:
  assumes "\<forall>r\<in>set rounds. ar_others r (Some NotJson) = Some NotJson"
  shows "fst (release E io m (Some NotJson)) = Some NotJson \<and>
     fst (clearConfirmedStaleLock E confirmed ownerAlive nonce guarded readable io (Some NotJson)) = Some NotJson \<and>
     fst (tryAcquire prepared rounds (Some NotJson)) = Some NotJson \<and>
     (\<forall>m'. snd (tryAcquire prepared rounds (Some NotJson)) \<noteq> Acquired m')"
proof -
  have "fst (acquire_loop rounds (Some NotJson)) = Some NotJson \<and> (\<forall>m'. snd (acquire_loop rounds (Some NotJson)) \<noteq> Acquired m')"
    using assms by (induction rounds) auto
  then show ?thesis
    by (auto simp: release_def release_check_def clearConfirmedStaleLock_def readMetadata_def decodeMetadata_def
        tryAcquire_def split: step_result.splits)
qed

theorem unwritten_lock_sticks_witness:
  "fst (tryAcquire StepOk (take 1 sample_rounds) (Some NotJson)) = Some NotJson"
  using unwritten_lock_sticks [of "take 1 sample_rounds" sample_env
      "\<lparr>rl_guard = True, rl_read = True, rl_guardAgain = True, rl_unlink = True\<rparr>" "sample_lock 1" True False
      "lm_nonce (sample_lock 1)" True True StepOk]
  by (simp add: sample_rounds_def)

text \<open>
  Two processes that clear the same stale lock can break mutual exclusion: both compare the
  nonce, one removes the file, another process acquires the lock, and the second removal takes that
  new lock away, so that a further process acquires it too.
\<close>

definition race_schedule :: "lock_action list" where
  "race_schedule = [ActOpen 1 (sample_lock 1), ActWrite 1 CreateOk, ActDie 1,
     ActClear 2 (sample_uuid (digit 1)), ActClear 3 (sample_uuid (digit 1)), ActCompare 2, ActCompare 3,
     ActUnlink 2, ActOpen 4 (sample_lock 4), ActWrite 4 CreateOk, ActUnlink 3,
     ActOpen 5 (sample_lock 5), ActWrite 5 CreateOk]"

lemma race_schedule_runs: "Option.is_none (lock_run sample_env race_schedule lock_start) = False"
  by code_simp

theorem concurrent_clearing_breaks_exclusion:
  "\<exists>w. lock_reachable sample_env {2, 3} w \<and> lw_pc w 4 = Holding (sample_lock 4) \<and> lw_pc w 5 = Holding (sample_lock 5)"
proof -
  let ?w = "the (lock_run sample_env race_schedule lock_start)"
  have run: "lock_run sample_env race_schedule lock_start = Some ?w"
    using race_schedule_runs by (cases "lock_run sample_env race_schedule lock_start") auto
  have "list_all (clears_in {2, 3}) race_schedule" by (simp add: race_schedule_def)
  with run have "lock_reachable sample_env {2, 3} ?w" by (intro lock_run_reachable [OF lock_reachable.start])
  moreover have "lw_pc ?w 4 = Holding (sample_lock 4)" "lw_pc ?w 5 = Holding (sample_lock 5)" by code_simp+
  ultimately show ?thesis by blast
qed

end
