(* ===== verification/Start_Work_Plan.thy ===== *)
theory Start_Work_Plan
  imports Workflow_Reducers "HOL-Library.Sublist"
begin

text \<open>
  The Markdown plan of a start-work run (\<^verbatim>\<open>src/workflows/start-work-plan.ts\<close>): recognition of the
  plan version, the checklist under its two headings, the identity of every task and the
  fingerprint of the plan. SHA-256 is a parameter (its hexadecimal digest of a text); NFC
  normalisation is the identity on the characters of the model.
\<close>

section \<open>Lines\<close>

fun join_crlf :: "string \<Rightarrow> string" where
  "join_crlf (a # b # s) =
     (if a = CHR 0x0D \<and> b = CHR 0x0A then CHR 0x0A # join_crlf s else a # join_crlf (b # s))"
| "join_crlf s = s"

fun split_lines :: "string \<Rightarrow> string list" where
  "split_lines [] = [[]]"
| "split_lines (c # s) =
     (if c = CHR 0x0A then [] # split_lines s
      else case split_lines s of [] \<Rightarrow> [[c]] | l # ls \<Rightarrow> (c # l) # ls)"

definition plan_lines :: "string \<Rightarrow> string list" where
  "plan_lines markdown = split_lines (join_crlf markdown)"

definition V1_MARKER :: string where
  "V1_MARKER = ''<!-- omp-lazy-ulw-plan:plan:v1 -->''"

definition V2_MARKER :: string where
  "V2_MARKER = ''<!-- omp-lazy-ulw-plan:plan:v2 -->''"

definition V1_HEADINGS :: "string list" where
  "V1_HEADINGS = [''## TODOs'', ''## Final Verification Wave'']"

definition V2_HEADINGS :: "string list" where
  "V2_HEADINGS = [''## TL;DR (For humans)'', ''## Scope'', ''## Verification strategy'',
     ''## Execution strategy'', ''## Todos'', ''## Final verification wave'', ''## Commit strategy'',
     ''## Success criteria'']"

datatype plan_section = Todos | FinalWave

record checklist_line =
  cl_id :: string
  cl_checked :: bool
  cl_section :: plan_section
  cl_explicit :: bool

section \<open>One line\<close>

text \<open>The replacement \<^verbatim>\<open>/^(- \[)[ xX](\])/\<close> by an empty box.\<close>

fun neutralized :: "string \<Rightarrow> string" where
  "neutralized (a # b # c # m # e # s) =
     (if a = CHR ''-'' \<and> b = CHR '' '' \<and> c = CHR ''['' \<and> m \<in> {CHR '' '', CHR ''x'', CHR ''X''} \<and> e = CHR '']''
      then a # b # c # CHR '' '' # e # s else a # b # c # m # e # s)"
| "neutralized s = s"

definition legacyId :: "(string \<Rightarrow> string) \<Rightarrow> string \<Rightarrow> string" where
  "legacyId sha line = ''LEGACY-'' @ take 12 (sha (neutralized line))"

definition line_terminator :: "char \<Rightarrow> bool" where
  "line_terminator c \<longleftrightarrow> c = CHR 0x0A \<or> c = CHR 0x0D"

text \<open>
  The match of \<^verbatim>\<open>(.+?)\s*$\<close>: the shortest prefix that is not empty, has no line terminator and is
  followed by white space only.
\<close>

definition lazy_label :: "string \<Rightarrow> string option" where
  "lazy_label rest = map_option (\<lambda>k. take k rest)
     (List.find (\<lambda>k. list_all js_space (drop k rest) \<and> \<not> list_ex line_terminator (take k rest))
        [1..<Suc (length rest)])"

text \<open>The whole pattern \<^verbatim>\<open>/^- \[([ xX])\] (.+?)\s*$/u\<close>: mark and label.\<close>

fun checklist_match :: "string \<Rightarrow> (char \<times> string) option" where
  "checklist_match (a # b # c # m # e # f # s) =
     (if a = CHR ''-'' \<and> b = CHR '' '' \<and> c = CHR ''['' \<and> m \<in> {CHR '' '', CHR ''x'', CHR ''X''} \<and>
         e = CHR '']'' \<and> f = CHR '' ''
      then map_option (\<lambda>l. (m, l)) (lazy_label s) else None)"
| "checklist_match _ = None"

definition is_upper :: "char \<Rightarrow> bool" where
  "is_upper c \<longleftrightarrow> c \<in> set ''ABCDEFGHIJKLMNOPQRSTUVWXYZ''"

definition plan_id_char :: "char \<Rightarrow> bool" where
  "plan_id_char c \<longleftrightarrow> is_upper c \<or> is_digit c \<or> c = CHR ''-''"

definition task_id_ok :: "string \<Rightarrow> bool" where
  "task_id_ok i \<longleftrightarrow> i \<noteq> [] \<and> is_upper (hd i) \<and> list_all plan_id_char i \<and> length i \<le> 32"

definition title_ok :: "string \<Rightarrow> bool" where
  "title_ok t \<longleftrightarrow> t \<noteq> [] \<and> length t \<le> 200 \<and> \<not> list_ex line_terminator t"

text \<open>
  The pattern \<^verbatim>\<open>EXPLICIT_ID\<close>. No id character is a full stop, so the id is the longest run of id
  characters; the title is what stands between the full stop and the closing stars.
\<close>

definition explicit_id :: "string \<Rightarrow> string option" where
  "explicit_id label =
     (if take 2 label \<noteq> ''**'' then None
      else let body = drop 2 label;
               i = takeWhile plan_id_char body;
               rest = dropWhile plan_id_char body;
               title = take (length rest - 4) (drop 2 rest)
           in if task_id_ok i \<and> take 2 rest = ''. '' \<and> 4 < length rest \<and>
                 drop (length rest - 2) rest = ''**'' \<and> title_ok title
              then Some i else None)"

text \<open>\<^verbatim>\<open>label.trim().replace(/\s+/g, " ")\<close>\<close>

function (sequential) collapse_space :: "string \<Rightarrow> string" where
  "collapse_space [] = []"
| "collapse_space (c # s) =
     (if js_space c then CHR '' '' # collapse_space (dropWhile js_space s) else c # collapse_space s)"
  by pat_completeness auto

termination
  by (relation "measure length") (auto simp: le_imp_less_Suc length_dropWhile_le)

section \<open>The plan\<close>

text \<open>The position reached by a scan for the headings in order.\<close>

fun heading_scan :: "string list \<Rightarrow> string list \<Rightarrow> string list" where
  "heading_scan [] hs = hs"
| "heading_scan (l # ls) [] = []"
| "heading_scan (l # ls) (h # hs) = heading_scan ls (if l = h then hs else h # hs)"

definition v2HeadingsAreOrdered :: "string list \<Rightarrow> bool" where
  "v2HeadingsAreOrdered ls \<longleftrightarrow>
     list_all (\<lambda>h. length (filter (\<lambda>l. l = h) ls) = 1) V2_HEADINGS \<and> heading_scan ls V2_HEADINGS = []"

text \<open>\<open>None\<close> stands for \<^verbatim>\<open>undefined\<close> (no heading), \<open>Some None\<close> for \<^verbatim>\<open>null\<close> (another heading).\<close>

definition selectedSection :: "string \<Rightarrow> nat \<Rightarrow> plan_section option option" where
  "selectedSection line version =
     (let (h1, h2) = (if version = 1 then (V1_HEADINGS ! 0, V1_HEADINGS ! 1) else (V2_HEADINGS ! 4, V2_HEADINGS ! 5))
      in if line = h1 then Some (Some Todos)
         else if line = h2 then Some (Some FinalWave)
         else if take 3 line = ''## '' then Some None else None)"

definition checklist_entry :: "(string \<Rightarrow> string) \<Rightarrow> bool \<Rightarrow> plan_section \<Rightarrow> string \<Rightarrow> checklist_line option" where
  "checklist_entry sha assignsLegacyIds sec line = (case checklist_match line of
     None \<Rightarrow> None
   | Some (mark, label) \<Rightarrow>
       (let explicit = explicit_id label
        in Some \<lparr>cl_id = (case explicit of Some i \<Rightarrow> i
                    | None \<Rightarrow> if assignsLegacyIds then legacyId sha line else collapse_space (js_trim label)),
                 cl_checked = (mark \<noteq> CHR '' ''), cl_section = sec, cl_explicit = (explicit \<noteq> None)\<rparr>))"

fun parseChecklist ::
    "(string \<Rightarrow> string) \<Rightarrow> nat \<Rightarrow> bool \<Rightarrow> plan_section option \<Rightarrow> string list \<Rightarrow> checklist_line list" where
  "parseChecklist sha version legacy sec [] = []"
| "parseChecklist sha version legacy sec (line # ls) = (case selectedSection line version of
     Some next \<Rightarrow> parseChecklist sha version legacy next ls
   | None \<Rightarrow>
     (case sec of
        None \<Rightarrow> parseChecklist sha version legacy sec ls
      | Some s \<Rightarrow>
        (case checklist_entry sha legacy s line of
           None \<Rightarrow> parseChecklist sha version legacy sec ls
         | Some t \<Rightarrow> t # parseChecklist sha version legacy sec ls)))"

datatype plan_error = PlanIdentity | DuplicateTaskIdentity

record normalized_plan = plan_snapshot +
  np_version :: nat

definition json_quote :: "string \<Rightarrow> string" where
  "json_quote s = CHR 0x22 # s @ [CHR 0x22]"

fun section_name :: "plan_section \<Rightarrow> string" where
  "section_name Todos = ''todos''"
| "section_name FinalWave = ''final''"

text \<open>
  \<^verbatim>\<open>JSON.stringify\<close> of the identities. The ids that reach it are explicit ids and digests, which need
  no escapes.
\<close>

definition identity_json :: "checklist_line \<Rightarrow> string" where
  "identity_json t = CHR ''{'' # json_quote ''section'' @ CHR '':'' # json_quote (section_name (cl_section t)) @
     CHR '','' # json_quote ''id'' @ CHR '':'' # json_quote (cl_id t) @ ''}''"

fun json_join :: "string list \<Rightarrow> string" where
  "json_join [] = []"
| "json_join [x] = x"
| "json_join (x # xs) = x @ CHR '','' # json_join xs"

definition identities_json :: "checklist_line list \<Rightarrow> string" where
  "identities_json ts = CHR ''['' # json_join (map identity_json ts) @ '']''"

definition normalizeStartWorkPlan :: "(string \<Rightarrow> string) \<Rightarrow> string \<Rightarrow> plan_error + normalized_plan" where
  "normalizeStartWorkPlan sha markdown =
     (let ls = plan_lines markdown;
          v1 = length (filter (\<lambda>l. l = V1_MARKER) ls);
          v2 = length (filter (\<lambda>l. l = V2_MARKER) ls)
      in if v1 + v2 \<noteq> 1 then Inl PlanIdentity
         else let version = (if v2 = 1 then 2 else 1)
         in if version = 2 \<and> \<not> v2HeadingsAreOrdered ls then Inl PlanIdentity
            else let tasks = parseChecklist sha version (v1 = 1) None ls
            in if version = 2 \<and> list_ex (\<lambda>t. \<not> cl_explicit t) tasks then Inl PlanIdentity
               else if \<not> distinct (map cl_id tasks) then Inl DuplicateTaskIdentity
               else Inr \<lparr>snap_taskIds = map cl_id tasks,
                         snap_remainingTaskIds = map cl_id (filter (\<lambda>t. \<not> cl_checked t) tasks),
                         snap_fingerprint = sha (identities_json tasks), np_version = version\<rparr>)"

definition parseStartWorkPlan :: "(string \<Rightarrow> string) \<Rightarrow> string \<Rightarrow> plan_snapshot" where
  "parseStartWorkPlan sha markdown = (case normalizeStartWorkPlan sha markdown of
     Inl _ \<Rightarrow> \<lparr>snap_taskIds = [], snap_remainingTaskIds = [], snap_fingerprint = []\<rparr>
   | Inr p \<Rightarrow> plan_snapshot.truncate p)"

end
