(* ===== verification/Plan_Properties.thy ===== *)
theory Plan_Properties
  imports Start_Work_Plan
begin

text \<open>
  Correctness of the plan parser: what a normalised plan satisfies, that ticking boxes does not
  change the identity of a plan, and that a plan written by the template is read back.
\<close>

section \<open>Ticking a box\<close>

definition is_mark :: "char \<Rightarrow> bool" where
  "is_mark m \<longleftrightarrow> m \<in> {CHR '' '', CHR ''x'', CHR ''X''}"

definition box :: "char \<Rightarrow> string \<Rightarrow> string" where
  "box m s = CHR ''-'' # CHR '' '' # CHR ''['' # m # CHR '']'' # s"

lemma box_inject [simp]: "box m s = box m' s' \<longleftrightarrow> m = m' \<and> s = s'"
  by (simp add: box_def)

lemma is_mark_space [simp]: "is_mark (CHR '' '')"
  by (simp add: is_mark_def)

lemma neutralized_box [simp]: "is_mark m \<Longrightarrow> neutralized (box m s) = box (CHR '' '') s"
  by (auto simp: is_mark_def box_def)

lemma neutralized_plain: "\<nexists>m s. is_mark m \<and> line = box m s \<Longrightarrow> neutralized line = line"
  by (cases line rule: neutralized.cases) (auto simp: is_mark_def box_def)

text \<open>Lines that agree up to the mark are equal or are both boxes with the same text.\<close>

lemma same_neutralized:
  assumes "neutralized l = neutralized l'"
  shows "l = l' \<or> (\<exists>m m' s. is_mark m \<and> is_mark m' \<and> l = box m s \<and> l' = box m' s)"
  using assms neutralized_plain [of l] neutralized_plain [of l'] is_mark_space
  by (metis box_inject neutralized_box)

lemma box_not_marker: "h \<noteq> [] \<Longrightarrow> hd h \<noteq> CHR ''-'' \<Longrightarrow> box m s \<noteq> h"
  by (auto simp: box_def)

lemma same_neutralized_marker:
  assumes "neutralized l = neutralized l'" "h \<noteq> []" "hd h \<noteq> CHR ''-''"
  shows "l = h \<longleftrightarrow> l' = h"
  using same_neutralized [OF assms(1)] box_not_marker [OF assms(2,3)] by metis

lemma selectedSection_box [simp]: "selectedSection (box m s) v = None"
  by (simp add: selectedSection_def V1_HEADINGS_def V2_HEADINGS_def box_def Let_def)

lemma same_neutralized_section:
  "neutralized l = neutralized l' \<Longrightarrow> selectedSection l v = selectedSection l' v"
  using same_neutralized [of l l'] by (auto simp del: neutralized.simps)

abbreviation same_identity :: "checklist_line \<Rightarrow> checklist_line \<Rightarrow> bool" where
  "same_identity t t' \<equiv> cl_id t = cl_id t' \<and> cl_section t = cl_section t' \<and> cl_explicit t = cl_explicit t'"

lemma checklist_match_box:
  "is_mark m \<Longrightarrow> checklist_match (box m s) =
     (case s of f # r \<Rightarrow> if f = CHR '' '' then map_option (Pair m) (lazy_label r) else None | [] \<Rightarrow> None)"
  by (cases s) (auto simp: box_def is_mark_def)

lemma same_neutralized_entry:
  assumes "neutralized l = neutralized l'"
  shows "rel_option same_identity (checklist_entry sha legacy sec l) (checklist_entry sha legacy sec l')"
proof -
  have id: "legacyId sha l = legacyId sha l'" using assms by (simp add: legacyId_def)
  from same_neutralized [OF assms] show ?thesis
  proof (elim disjE exE conjE)
    fix m m' s
    assume m: "is_mark m" "is_mark m'" and l: "l = box m s" "l' = box m' s"
    show ?thesis
      using m id unfolding checklist_entry_def l
      by (auto simp: checklist_match_box Let_def split: list.split option.split)
  qed (simp add: option.rel_refl)
qed

lemma parseChecklist_neutral:
  assumes "map neutralized ls = map neutralized ls'"
  shows "list_all2 same_identity
     (parseChecklist sha v legacy sec ls) (parseChecklist sha v legacy sec ls')"
  using assms
proof (induction ls arbitrary: ls' sec)
  case (Cons l ls)
  then obtain l' ls'' where ls': "ls' = l' # ls''" "neutralized l = neutralized l'"
    "map neutralized ls = map neutralized ls''" by (auto simp: Cons_eq_map_conv)
  note IH = Cons.IH [OF ls'(3)]
  show ?case
  proof (cases "selectedSection l' v = None \<and> sec \<noteq> None")
    case True
    then obtain s where s: "sec = Some s" "selectedSection l' v = None" by auto
    from same_neutralized_entry [OF ls'(2), of sha legacy s] IH show ?thesis
      by (cases "checklist_entry sha legacy s l"; cases "checklist_entry sha legacy s l'")
        (simp_all add: ls'(1) same_neutralized_section [OF ls'(2)] s)
  next
    case False
    with IH show ?thesis
      by (auto simp: ls'(1) same_neutralized_section [OF ls'(2)] split: option.splits)
  qed
qed simp

lemma filter_neutral:
  assumes "map neutralized ls = map neutralized ls'" "h \<noteq> []" "hd h \<noteq> CHR ''-''"
  shows "length (filter (\<lambda>l. l = h) ls) = length (filter (\<lambda>l. l = h) ls')"
  using assms(1)
proof (induction ls arbitrary: ls')
  case (Cons l ls)
  then obtain l' ls'' where "ls' = l' # ls''" "neutralized l = neutralized l'"
    "map neutralized ls = map neutralized ls''" by (auto simp: Cons_eq_map_conv)
  with Cons.IH same_neutralized_marker [OF _ assms(2,3), of l l'] show ?case by auto
qed simp

lemma heading_scan_neutral:
  assumes "map neutralized ls = map neutralized ls'" "list_all (\<lambda>h. h \<noteq> [] \<and> hd h \<noteq> CHR ''-'') hs"
  shows "heading_scan ls hs = heading_scan ls' hs"
  using assms
proof (induction ls arbitrary: ls' hs)
  case (Cons l ls)
  then obtain l' ls'' where ls': "ls' = l' # ls''" "neutralized l = neutralized l'"
    "map neutralized ls = map neutralized ls''" by (auto simp: Cons_eq_map_conv)
  show ?case
  proof (cases hs)
    case (Cons h hs')
    with Cons.prems same_neutralized_marker [OF ls'(2), of h] have "l = h \<longleftrightarrow> l' = h" by auto
    with Cons Cons.prems(2) Cons.IH [OF ls'(3)] show ?thesis by (simp add: ls'(1))
  qed (simp add: ls'(1))
qed simp

lemma headings_neutral:
  assumes "map neutralized ls = map neutralized ls'"
  shows "v2HeadingsAreOrdered ls = v2HeadingsAreOrdered ls'"
proof -
  have h: "list_all (\<lambda>h. h \<noteq> [] \<and> hd h \<noteq> CHR ''-'') V2_HEADINGS" by code_simp
  then show ?thesis
    using heading_scan_neutral [OF assms h] filter_neutral [OF assms]
    unfolding v2HeadingsAreOrdered_def list_all_iff by (metis (no_types, lifting))
qed

section \<open>A plan written by the template\<close>

record plan_task =
  pt_id :: string
  pt_title :: string
  pt_done :: bool

definition plan_task_ok :: "plan_task \<Rightarrow> bool" where
  "plan_task_ok t \<longleftrightarrow> task_id_ok (pt_id t) \<and> title_ok (pt_title t)"

definition task_label :: "plan_task \<Rightarrow> string" where
  "task_label t = ''**'' @ pt_id t @ ''. '' @ pt_title t @ ''**''"

definition render_task :: "plan_task \<Rightarrow> string" where
  "render_task t = box (if pt_done t then CHR ''x'' else CHR '' '') (CHR '' '' # task_label t)"

definition template_lines :: "plan_task list \<Rightarrow> plan_task list \<Rightarrow> string list" where
  "template_lines todos finals = V2_MARKER # take 5 V2_HEADINGS @ map render_task todos @
     [V2_HEADINGS ! 5] @ map render_task finals @ drop 6 V2_HEADINGS"

fun join_lines :: "string list \<Rightarrow> string" where
  "join_lines [] = []"
| "join_lines [l] = l"
| "join_lines (l # ls) = l @ CHR 0x0A # join_lines ls"

definition plan_template :: "plan_task list \<Rightarrow> plan_task list \<Rightarrow> string" where
  "plan_template todos finals = join_lines (template_lines todos finals)"

lemma split_lines_append:
  "CHR 0x0A \<notin> set l \<Longrightarrow> split_lines (l @ CHR 0x0A # s) = l # split_lines s"
  by (induction l) auto

lemma split_lines_single: "CHR 0x0A \<notin> set l \<Longrightarrow> split_lines l = [l]"
  by (induction l) auto

lemma split_join_lines:
  "ls \<noteq> [] \<Longrightarrow> list_all (\<lambda>l. CHR 0x0A \<notin> set l) ls \<Longrightarrow> split_lines (join_lines ls) = ls"
  by (induction ls rule: join_lines.induct) (auto simp: split_lines_append split_lines_single)

lemma join_crlf_id: "CHR 0x0D \<notin> set s \<Longrightarrow> join_crlf s = s"
  by (induction s rule: join_crlf.induct) auto

lemma plan_lines_join:
  assumes "ls \<noteq> []" "list_all (\<lambda>l. \<not> list_ex line_terminator l) ls"
  shows "plan_lines (join_lines ls) = ls"
proof -
  have "CHR 0x0D \<notin> set (join_lines ls)"
    using assms(2) by (induction ls rule: join_lines.induct) (auto simp: line_terminator_def list_ex_iff)
  moreover have "list_all (\<lambda>l. CHR 0x0A \<notin> set l) ls"
    using assms(2) by (auto simp: list_all_iff list_ex_iff line_terminator_def)
  ultimately show ?thesis
    by (simp add: plan_lines_def join_crlf_id split_join_lines assms(1))
qed

lemma find_upto_last:
  assumes "P n" "0 < n" "\<And>k. k < n \<Longrightarrow> \<not> P k"
  shows "List.find P [1..<Suc n] = Some n"
proof -
  have "List.find P [1..<n] = None" using assms(3) by (auto simp: find_None_iff)
  then show ?thesis using assms(1,2) by (simp add: find_append)
qed

lemma lazy_label_whole:
  assumes "s \<noteq> []" "\<not> js_space (last s)" "\<not> list_ex line_terminator s"
  shows "lazy_label s = Some s"
proof -
  have "\<not> list_all js_space (drop k s)" if "k < length s" for k
    using that assms(2) by (metis drop_eq_Nil2 last_drop last_in_set list_all_iff not_le)
  then have "List.find (\<lambda>k. list_all js_space (drop k s) \<and> \<not> list_ex line_terminator (take k s)) [1..<Suc (length s)]
      = Some (length s)"
    using assms by (intro find_upto_last) auto
  then show ?thesis by (simp only: lazy_label_def option.map take_all le_refl)
qed

lemma plan_id_char_not_terminator: "plan_id_char c \<Longrightarrow> \<not> line_terminator c"
  by (auto simp: plan_id_char_def is_upper_def is_digit_def line_terminator_def)

lemma explicit_id_label:
  assumes "plan_task_ok t"
  shows "explicit_id (task_label t) = Some (pt_id t)"
proof -
  have i: "list_all plan_id_char (pt_id t)" "task_id_ok (pt_id t)" "title_ok (pt_title t)"
    using assms by (auto simp: plan_task_ok_def task_id_ok_def)
  let ?rest = "''. '' @ pt_title t @ ''**''"
  have dot: "\<not> plan_id_char (CHR ''.'')" by code_simp
  then have "takeWhile plan_id_char (pt_id t @ ?rest) = pt_id t" "dropWhile plan_id_char (pt_id t @ ?rest) = ?rest"
    using i(1) by (simp_all add: list_all_iff takeWhile_append dropWhile_append)
  moreover have "pt_title t \<noteq> []" using i(3) by (simp add: title_ok_def)
  ultimately show ?thesis using i by (simp add: explicit_id_def task_label_def)
qed

lemma lazy_label_task:
  assumes "plan_task_ok t"
  shows "lazy_label (task_label t) = Some (task_label t)"
proof (rule lazy_label_whole)
  show "\<not> list_ex line_terminator (task_label t)"
    using assms plan_id_char_not_terminator
    by (auto simp: plan_task_ok_def task_id_ok_def title_ok_def task_label_def list_ex_iff list_all_iff
        line_terminator_def)
qed (simp_all add: task_label_def js_space_def)

lemma render_task_entry:
  assumes "plan_task_ok t"
  shows "checklist_entry sha legacy sec (render_task t) =
    Some \<lparr>cl_id = pt_id t, cl_checked = pt_done t, cl_section = sec, cl_explicit = True\<rparr>"
  by (simp add: checklist_entry_def render_task_def checklist_match_box is_mark_def lazy_label_task [OF assms]
      explicit_id_label [OF assms])

lemma parseChecklist_tasks:
  "list_all plan_task_ok ts \<Longrightarrow>
     parseChecklist sha v legacy (Some sec) (map render_task ts @ ls) =
     map (\<lambda>t. \<lparr>cl_id = pt_id t, cl_checked = pt_done t, cl_section = sec, cl_explicit = True\<rparr>) ts @
     parseChecklist sha v legacy (Some sec) ls"
proof (induction ts)
  case (Cons t ts)
  have "selectedSection (render_task t) v = None" by (simp add: render_task_def)
  with Cons show ?case by (simp add: render_task_entry)
qed simp

lemma heading_scan_Nil [simp]: "heading_scan ls [] = []"
  by (cases ls) auto

lemma heading_scan_tasks:
  assumes "list_all (\<lambda>h. h \<noteq> [] \<and> hd h \<noteq> CHR ''-'') hs"
  shows "heading_scan (map render_task ts @ ls) hs = heading_scan ls hs"
proof (induction ts)
  case (Cons t ts)
  with assms show ?case
    by (cases hs) (auto simp: render_task_def box_not_marker)
qed simp

lemma filter_tasks:
  "h \<noteq> [] \<Longrightarrow> hd h \<noteq> CHR ''-'' \<Longrightarrow> filter (\<lambda>l. l = h) (map render_task ts) = []"
  by (auto simp: filter_empty_conv render_task_def box_not_marker)

lemma template_headings: "v2HeadingsAreOrdered (template_lines todos finals)"
proof -
  have "list_all (\<lambda>h. length (filter (\<lambda>l. l = h) (template_lines todos finals)) = 1) V2_HEADINGS"
    by (simp add: template_lines_def V2_HEADINGS_def V2_MARKER_def filter_tasks)
  moreover have "heading_scan (template_lines todos finals) V2_HEADINGS = []"
    by (simp add: template_lines_def V2_HEADINGS_def V2_MARKER_def heading_scan_tasks)
  ultimately show ?thesis by (simp add: v2HeadingsAreOrdered_def)
qed

lemma template_markers:
  "length (filter (\<lambda>l. l = V1_MARKER) (template_lines todos finals)) = 0"
  "length (filter (\<lambda>l. l = V2_MARKER) (template_lines todos finals)) = 1"
  by (simp_all add: template_lines_def V2_HEADINGS_def V2_MARKER_def V1_MARKER_def filter_tasks)

lemma render_task_line: "plan_task_ok t \<Longrightarrow> \<not> list_ex line_terminator (render_task t)"
  using plan_id_char_not_terminator
  by (auto simp: render_task_def box_def plan_task_ok_def task_id_ok_def title_ok_def task_label_def
      list_ex_iff list_all_iff line_terminator_def)

lemma template_plan_lines:
  assumes "list_all plan_task_ok todos" "list_all plan_task_ok finals"
  shows "plan_lines (plan_template todos finals) = template_lines todos finals"
  unfolding plan_template_def
proof (rule plan_lines_join)
  have "list_all (\<lambda>l. \<not> list_ex line_terminator l) (V2_MARKER # V2_HEADINGS)" by code_simp
  then show "list_all (\<lambda>l. \<not> list_ex line_terminator l) (template_lines todos finals)"
    using assms render_task_line
    by (auto simp: template_lines_def list_all_iff dest: in_set_takeD in_set_dropD)
      (simp_all add: V2_HEADINGS_def line_terminator_def)
qed (simp add: template_lines_def)

lemma template_checklist:
  assumes "list_all plan_task_ok todos" "list_all plan_task_ok finals"
  shows "parseChecklist sha 2 legacy None (template_lines todos finals) =
    map (\<lambda>t. \<lparr>cl_id = pt_id t, cl_checked = pt_done t, cl_section = Todos, cl_explicit = True\<rparr>) todos @
    map (\<lambda>t. \<lparr>cl_id = pt_id t, cl_checked = pt_done t, cl_section = FinalWave, cl_explicit = True\<rparr>) finals"
  using assms
  by (simp add: template_lines_def V2_HEADINGS_def V2_MARKER_def selectedSection_def parseChecklist_tasks)

section \<open>The contract\<close>

text \<open>
  C40. Ticking boxes does not change a plan: two plans whose lines differ only in the marks of their
  checkboxes are refused with the same error or normalise to the same version, the same task ids and
  the same fingerprint, so that progress in the file is never taken for another plan.
\<close>

theorem ticks_keep_plan_identity:
  assumes "map neutralized (plan_lines m) = map neutralized (plan_lines m')"
  shows "(case (normalizeStartWorkPlan sha m, normalizeStartWorkPlan sha m') of
      (Inl e, Inl e') \<Rightarrow> e = e'
    | (Inr p, Inr p') \<Rightarrow> np_version p = np_version p' \<and> snap_taskIds p = snap_taskIds p' \<and>
        snap_fingerprint p = snap_fingerprint p'
    | _ \<Rightarrow> False)"
proof -
  have markers: "h = V1_MARKER \<or> h = V2_MARKER \<Longrightarrow>
      length (filter (\<lambda>l. l = h) (plan_lines m)) = length (filter (\<lambda>l. l = h) (plan_lines m'))" for h
    by (rule filter_neutral [OF assms]) (auto simp: V1_MARKER_def V2_MARKER_def)
  define ts where "ts = (\<lambda>v legacy. parseChecklist sha v legacy None (plan_lines m))"
  define ts' where "ts' = (\<lambda>v legacy. parseChecklist sha v legacy None (plan_lines m'))"
  have rel: "list_all2 same_identity (ts v legacy) (ts' v legacy)" for v legacy
    unfolding ts_def ts'_def by (rule parseChecklist_neutral [OF assms])
  have ids: "map cl_id (ts v legacy) = map cl_id (ts' v legacy)"
    "map identity_json (ts v legacy) = map identity_json (ts' v legacy)"
    "list_ex (\<lambda>t. \<not> cl_explicit t) (ts v legacy) = list_ex (\<lambda>t. \<not> cl_explicit t) (ts' v legacy)" for v legacy
    using rel [of v legacy]
    by (induction rule: list_all2_induct) (auto simp: identity_json_def)
  define n1 n2 where n: "n1 = length (filter (\<lambda>l. l = V1_MARKER) (plan_lines m'))"
    "n2 = length (filter (\<lambda>l. l = V2_MARKER) (plan_lines m'))"
  have plan: "normalizeStartWorkPlan sha q = (if n1 + n2 \<noteq> 1 then Inl PlanIdentity
      else let version = (if n2 = 1 then 2 else 1)
      in if version = 2 \<and> \<not> v2HeadingsAreOrdered (plan_lines m') then Inl PlanIdentity
         else let tasks = parseChecklist sha version (n1 = 1) None (plan_lines q)
         in if version = 2 \<and> list_ex (\<lambda>t. \<not> cl_explicit t) tasks then Inl PlanIdentity
            else if \<not> distinct (map cl_id tasks) then Inl DuplicateTaskIdentity
            else Inr \<lparr>snap_taskIds = map cl_id tasks,
                      snap_remainingTaskIds = map cl_id (filter (\<lambda>t. \<not> cl_checked t) tasks),
                      snap_fingerprint = sha (identities_json tasks), np_version = version\<rparr>)"
    if "q = m \<or> q = m'" for q
    using that markers [OF disjI1 [OF refl]] markers [OF disjI2 [OF refl]] headings_neutral [OF assms]
    unfolding normalizeStartWorkPlan_def Let_def n by auto
  consider "n1 + n2 \<noteq> 1" | "n1 = 1" "n2 = 0" | "n1 = 0" "n2 = 1" by linarith
  then show ?thesis
  proof cases
    case 2
    with ids [of 1 True] show ?thesis
      unfolding plan [OF disjI1 [OF refl]] plan [OF disjI2 [OF refl]] ts_def ts'_def
      by (simp add: identities_json_def Let_def)
  next
    case 3
    with ids [of 2 False] show ?thesis
      unfolding plan [OF disjI1 [OF refl]] plan [OF disjI2 [OF refl]] ts_def ts'_def
      by (simp add: identities_json_def Let_def)
  qed (simp add: plan)
qed

text \<open>A digest for the examples: it keeps only the length of the text.\<close>

definition sample_sha :: "string \<Rightarrow> string" where
  "sample_sha s = decimal (length s)"

definition sample_tasks :: "bool \<Rightarrow> plan_task list" where
  "sample_tasks ticked = [\<lparr>pt_id = ''T-1'', pt_title = ''first'', pt_done = ticked\<rparr>,
     \<lparr>pt_id = ''T-2'', pt_title = ''second'', pt_done = False\<rparr>]"

theorem ticks_keep_plan_identity_witness:
  "isl (normalizeStartWorkPlan sample_sha (plan_template (sample_tasks True) [])) =
   isl (normalizeStartWorkPlan sample_sha (plan_template (sample_tasks False) []))"
proof -
  have "map neutralized (plan_lines (plan_template (sample_tasks True) [])) =
      map neutralized (plan_lines (plan_template (sample_tasks False) []))"
    by code_simp
  from ticks_keep_plan_identity [OF this, of sample_sha] show ?thesis by (auto split: sum.splits)
qed

lemma parseChecklist_entry:
  "t \<in> set (parseChecklist sha v legacy sec ls) \<Longrightarrow> \<exists>l\<in>set ls. \<exists>s. checklist_entry sha legacy s l = Some t"
proof (induction ls arbitrary: sec)
  case (Cons l ls)
  then have "(\<exists>sec'. t \<in> set (parseChecklist sha v legacy sec' ls)) \<or> (\<exists>s. checklist_entry sha legacy s l = Some t)"
    by (auto split: option.splits)
  with Cons.IH show ?case by auto
qed simp

lemma explicit_id_ok: "explicit_id label = Some i \<Longrightarrow> task_id_ok i"
  by (auto simp: explicit_id_def Let_def split: if_splits)

lemma checklist_entry_id:
  "checklist_entry sha legacy s l = Some t \<Longrightarrow>
     (if cl_explicit t then task_id_ok (cl_id t) else legacy \<longrightarrow> cl_id t = legacyId sha l)"
  by (auto simp: checklist_entry_def Let_def explicit_id_ok split: option.splits)

lemma parseChecklist_ids:
  "t \<in> set (parseChecklist sha v legacy sec ls) \<Longrightarrow>
     (if cl_explicit t then task_id_ok (cl_id t) else legacy \<longrightarrow> (\<exists>l\<in>set ls. cl_id t = legacyId sha l))"
  using parseChecklist_entry [of t sha v legacy sec ls] checklist_entry_id [of sha legacy _ _ t] by metis

lemma normalizeStartWorkPlan_InrD:
  assumes "normalizeStartWorkPlan sha m = Inr p"
  obtains v legacy ts where "ts = parseChecklist sha v legacy None (plan_lines m)" "v = 1 \<and> legacy \<or> v = 2"
    "v = 2 \<longrightarrow> \<not> list_ex (\<lambda>t. \<not> cl_explicit t) ts" "distinct (map cl_id ts)"
    "p = \<lparr>snap_taskIds = map cl_id ts, snap_remainingTaskIds = map cl_id (filter (\<lambda>t. \<not> cl_checked t) ts),
      snap_fingerprint = sha (identities_json ts), np_version = v\<rparr>"
proof -
  define n1 n2 where n: "n1 = length (filter (\<lambda>l. l = V1_MARKER) (plan_lines m))"
    "n2 = length (filter (\<lambda>l. l = V2_MARKER) (plan_lines m))"
  define v :: nat where "v = (if n2 = 1 then 2 else 1)"
  show thesis
    by (rule that [of "parseChecklist sha v (n1 = 1) None (plan_lines m)" v "n1 = 1"])
      (use assms in \<open>auto simp: normalizeStartWorkPlan_def Let_def n [symmetric] v_def split: if_splits\<close>)
qed

text \<open>
  Normal form of plans: the task ids of a normalised plan are distinct and the remaining ones are
  a subsequence of them; in a version 2 plan every id has the explicit form, and in a version 1 plan
  every id has it or is a digest of its line.
\<close>

theorem plan_normal_form:
  assumes "normalizeStartWorkPlan sha m = Inr p"
  shows "distinct (snap_taskIds p) \<and> subseq (snap_remainingTaskIds p) (snap_taskIds p) \<and>
    (\<forall>i\<in>set (snap_taskIds p). task_id_ok i \<or> np_version p = 1 \<and> (\<exists>l\<in>set (plan_lines m). i = legacyId sha l))"
proof -
  obtain v legacy ts where ts: "ts = parseChecklist sha v legacy None (plan_lines m)" and v: "v = 1 \<and> legacy \<or> v = 2"
    and explicit: "v = 2 \<longrightarrow> \<not> list_ex (\<lambda>t. \<not> cl_explicit t) ts" and dist: "distinct (map cl_id ts)"
    and p: "p = \<lparr>snap_taskIds = map cl_id ts, snap_remainingTaskIds = map cl_id (filter (\<lambda>t. \<not> cl_checked t) ts),
      snap_fingerprint = sha (identities_json ts), np_version = v\<rparr>"
    by (rule normalizeStartWorkPlan_InrD [OF assms])
  have "task_id_ok (cl_id t) \<or> v = 1 \<and> (\<exists>l\<in>set (plan_lines m). cl_id t = legacyId sha l)" if t: "t \<in> set ts" for t
    using parseChecklist_ids [OF t [unfolded ts]] v explicit t by (auto simp: list_ex_iff split: if_splits)
  with dist show ?thesis by (auto simp: p subseq_map)
qed

theorem plan_normal_form_witness:
  "subseq (snap_remainingTaskIds (projr (normalizeStartWorkPlan sample_sha (plan_template (sample_tasks True) []))))
     [''T-1'', ''T-2'']"
proof -
  let ?n = "normalizeStartWorkPlan sample_sha (plan_template (sample_tasks True) [])"
  have "isl ?n = False" by code_simp
  then have "?n = Inr (projr ?n)" by (cases ?n) auto
  moreover have "snap_taskIds (projr ?n) = [''T-1'', ''T-2'']" by code_simp
  ultimately show ?thesis using plan_normal_form [of sample_sha _ "projr ?n"] by metis
qed

text \<open>
  Round trip: a plan written by the template, with well-formed task ids and titles, is read back
  as a version 2 plan with exactly its task ids, of which the unticked ones remain.
\<close>

theorem plan_template_roundtrip:
  assumes "list_all plan_task_ok todos" "list_all plan_task_ok finals" "distinct (map pt_id (todos @ finals))"
  shows "\<exists>fingerprint. normalizeStartWorkPlan sha (plan_template todos finals) =
    Inr \<lparr>snap_taskIds = map pt_id (todos @ finals),
         snap_remainingTaskIds = map pt_id (filter (\<lambda>t. \<not> pt_done t) (todos @ finals)),
         snap_fingerprint = fingerprint, np_version = 2\<rparr>"
proof -
  have "\<not> list_ex (\<lambda>t. \<not> cl_explicit t) (parseChecklist sha 2 legacy None (template_lines todos finals))" for legacy
    by (auto simp: template_checklist [OF assms(1,2)] list_ex_iff)
  moreover have "map cl_id (parseChecklist sha 2 legacy None (template_lines todos finals)) = map pt_id (todos @ finals)" for legacy
    by (simp add: template_checklist [OF assms(1,2)])
  moreover have "map cl_id (filter (\<lambda>t. \<not> cl_checked t) (parseChecklist sha 2 legacy None (template_lines todos finals))) =
      map pt_id (filter (\<lambda>t. \<not> pt_done t) (todos @ finals))" for legacy
    by (simp add: template_checklist [OF assms(1,2)] filter_map comp_def)
  ultimately show ?thesis
    using template_headings template_markers assms(3)
    by (simp add: normalizeStartWorkPlan_def template_plan_lines [OF assms(1,2)] Let_def del: map_append filter_append)
qed

theorem plan_template_roundtrip_witness:
  "snap_taskIds (projr (normalizeStartWorkPlan sample_sha (plan_template (sample_tasks True) []))) = [''T-1'', ''T-2'']"
proof -
  have "list_all plan_task_ok (sample_tasks True)" by code_simp
  from plan_template_roundtrip [OF this, of "[]" sample_sha] show ?thesis by (auto simp: sample_tasks_def)
qed

end
