(* ===== verification/Continuation_Budget.thy ===== *)
theory Continuation_Budget
  imports Atomic_Files State_Codec
begin

text \<open>
  The bounds on continuations: the deadline fence (\<^verbatim>\<open>src/continuation/deadline-fence.ts\<close>), the
  persisted counter (\<^verbatim>\<open>src/continuation/continuation-budget.ts\<close>) and the steering reminder
  (\<^verbatim>\<open>src/continuation/steering-reminder.ts\<close>). Clock readings are integers; a counter file holds
  natural numbers, as every writer of it produces.
\<close>

section \<open>The deadline fence\<close>

record deadline_fence =
  df_expiresAtMs :: int
  df_live :: bool

definition createDeadlineFence :: "int \<Rightarrow> int \<Rightarrow> deadline_fence" where
  "createDeadlineFence durationMs now = \<lparr>df_expiresAtMs = now + max 0 durationMs, df_live = (0 < durationMs)\<rparr>"

definition remainingMs :: "int \<Rightarrow> deadline_fence \<Rightarrow> int \<times> deadline_fence" where
  "remainingMs now f =
     (if \<not> df_live f then (0, f)
      else let remaining = df_expiresAtMs f - now
           in if remaining \<le> 0 then (0, f\<lparr>df_live := False\<rparr>) else (remaining, f))"

definition isValid :: "int \<Rightarrow> deadline_fence \<Rightarrow> bool \<times> deadline_fence" where
  "isValid now f = (case remainingMs now f of (n, f') \<Rightarrow> (0 < n, f'))"

datatype fence_error = FenceExpired

definition assertValid :: "int \<Rightarrow> deadline_fence \<Rightarrow> (fence_error + unit) \<times> deadline_fence" where
  "assertValid now f = (case remainingMs now f of (n, f') \<Rightarrow> (if n \<le> 0 then Inl FenceExpired else Inr (), f'))"

definition invalidate :: "deadline_fence \<Rightarrow> deadline_fence" where
  "invalidate f = f\<lparr>df_live := False\<rparr>"

text \<open>The calls a holder of the fence can make, and the answers of a sequence of \<open>isValid\<close> calls.\<close>

datatype fence_call = CallRemaining int | CallIsValid int | CallAssert int | CallInvalidate

fun apply_fence_call :: "fence_call \<Rightarrow> deadline_fence \<Rightarrow> deadline_fence" where
  "apply_fence_call (CallRemaining now) f = snd (remainingMs now f)"
| "apply_fence_call (CallIsValid now) f = snd (isValid now f)"
| "apply_fence_call (CallAssert now) f = snd (assertValid now f)"
| "apply_fence_call CallInvalidate f = invalidate f"

section \<open>The persisted counter\<close>

definition MAX_IDLE_CONTINUATIONS :: nat where
  "MAX_IDLE_CONTINUATIONS = 8"

record continuation_counter =
  cc_sessionId :: string
  cc_runId :: string
  cc_turnId :: int
  cc_count :: nat
  cc_exhausted :: bool

type_synonym counter_files = "string \<Rightarrow> continuation_counter file_bytes option"

definition id_head :: "char \<Rightarrow> bool" where
  "id_head c \<longleftrightarrow> c \<in> set ''0123456789ABCDEFGHIJKLMNOPQRSTUVWXYZabcdefghijklmnopqrstuvwxyz''"

definition isValidLifecycleId :: "string \<Rightarrow> bool" where
  "isValidLifecycleId s \<longleftrightarrow>
     s \<noteq> [] \<and> id_head (hd s) \<and> list_all (\<lambda>c. id_head c \<or> c \<in> set ''._-'') (tl s) \<and> length s \<le> 64"

text \<open>
  Building the path throws for an id that is no file name; a missing, unreadable or malformed file
  counts as no counter.
\<close>

definition readContinuationCounter ::
    "counter_files \<Rightarrow> bool \<Rightarrow> string \<Rightarrow> unit + continuation_counter option" where
  "readContinuationCounter files readable sessionId =
     (if \<not> isValidLifecycleId sessionId then Inl ()
      else Inr (if \<not> readable then None
                else case files sessionId of Some (Json c) \<Rightarrow> Some c | _ \<Rightarrow> None))"

definition checkBudget :: "continuation_counter option \<Rightarrow> string \<Rightarrow> int \<Rightarrow> bool" where
  "checkBudget existing runId turnId = (case existing of
     None \<Rightarrow> True
   | Some c \<Rightarrow>
     (if cc_runId c \<noteq> runId \<or> cc_turnId c \<noteq> turnId then True
      else \<not> MAX_IDLE_CONTINUATIONS \<le> cc_count c))"

text \<open>
  The source answers whether the file was published; the model keeps the whole outcome, with \<open>None\<close>
  for an id that is no file name.
\<close>

definition writeContinuationCounter ::
    "write_io \<Rightarrow> counter_files \<Rightarrow> continuation_counter \<Rightarrow> counter_files \<times> write_outcome option" where
  "writeContinuationCounter io files c =
     (if \<not> isValidLifecycleId (cc_sessionId c) then (files, None)
      else case atomicReplace io (stringify c) (files (cc_sessionId c)) of
        (slot, out) \<Rightarrow> (files(cc_sessionId c := slot), Some out))"

definition incrementCounter ::
    "continuation_counter option \<Rightarrow> string \<Rightarrow> string \<Rightarrow> int \<Rightarrow> continuation_counter" where
  "incrementCounter existing sessionId runId turnId = (case existing of
     Some c \<Rightarrow>
       (if cc_runId c \<noteq> runId \<or> cc_turnId c \<noteq> turnId
        then \<lparr>cc_sessionId = sessionId, cc_runId = runId, cc_turnId = turnId, cc_count = 1, cc_exhausted = False\<rparr>
        else c\<lparr>cc_count := cc_count c + 1\<rparr>)
   | None \<Rightarrow> \<lparr>cc_sessionId = sessionId, cc_runId = runId, cc_turnId = turnId, cc_count = 1, cc_exhausted = False\<rparr>)"

definition exhaustedCounter ::
    "continuation_counter option \<Rightarrow> string \<Rightarrow> string \<Rightarrow> int \<Rightarrow> continuation_counter" where
  "exhaustedCounter existing sessionId runId turnId = (case existing of
     Some c \<Rightarrow>
       (if cc_runId c \<noteq> runId \<or> cc_turnId c \<noteq> turnId
        then \<lparr>cc_sessionId = sessionId, cc_runId = runId, cc_turnId = turnId,
              cc_count = MAX_IDLE_CONTINUATIONS, cc_exhausted = True\<rparr>
        else c\<lparr>cc_exhausted := True\<rparr>)
   | None \<Rightarrow> \<lparr>cc_sessionId = sessionId, cc_runId = runId, cc_turnId = turnId,
       cc_count = MAX_IDLE_CONTINUATIONS, cc_exhausted = True\<rparr>)"

section \<open>The steering reminder\<close>

definition STEERING_REMINDER :: string where
  "STEERING_REMINDER = ''You are in an active run. Continue executing the current task without waiting for further user input.''"

definition appendSteeringReminder :: "string \<Rightarrow> string" where
  "appendSteeringReminder additionalContext = additionalContext @ [CHR 0x0A, CHR 0x0A] @ STEERING_REMINDER"

section \<open>A budget that saturates\<close>

text \<open>
  The contract of a counter that bounds how often something is granted: a grant is allowed while
  fewer than \<open>limit\<close> grants are recorded, and every recorded grant counts.
\<close>

locale saturating_budget =
  fixes allowed :: "'s \<Rightarrow> bool" and record_grant :: "'s \<Rightarrow> 's" and used :: "'s \<Rightarrow> nat" and limit :: nat
  assumes allowed_iff: "allowed s \<longleftrightarrow> used s < limit"
    and used_record: "used (record_grant s) = Suc (used s)"
begin

fun grants :: "nat \<Rightarrow> 's \<Rightarrow> nat" where
  "grants 0 s = 0"
| "grants (Suc n) s = (if allowed s then Suc (grants n (record_grant s)) else grants n s)"

lemma grants_eq: "grants n s = min n (limit - used s)"
  by (induction n arbitrary: s) (auto simp: allowed_iff used_record)

lemma grants_bounded: "grants n s \<le> limit"
  unfolding grants_eq by (rule min.coboundedI2) simp

end

text \<open>What a counter has recorded for a run and a turn.\<close>

definition recorded :: "string \<Rightarrow> int \<Rightarrow> continuation_counter option \<Rightarrow> nat" where
  "recorded runId turnId c = (case c of
     None \<Rightarrow> 0 | Some c \<Rightarrow> if cc_runId c = runId \<and> cc_turnId c = turnId then cc_count c else 0)"

interpretation idle_budget: saturating_budget "\<lambda>c. checkBudget c runId turnId"
    "\<lambda>c. Some (incrementCounter c sessionId runId turnId)" "recorded runId turnId" MAX_IDLE_CONTINUATIONS
    for runId turnId sessionId
  by unfold_locales
    (auto simp: checkBudget_def recorded_def incrementCounter_def MAX_IDLE_CONTINUATIONS_def split: option.splits)

end
