(* ===== verification/Continuation.thy ===== *)
theory Continuation
  imports Continuation_Budget Transaction_Store Start_Work_Plan
begin

text \<open>
  Continuation of runs when a session goes idle: the decision on a snapshot
  (\<^verbatim>\<open>src/continuation/continuation-coordinator.ts\<close>), its durable commit
  (\<^verbatim>\<open>src/continuation/durable-continuation.ts\<close>) and the session-stop handler
  (\<^verbatim>\<open>src/continuation/register-session-stop.ts\<close>). The coordinator reads the store without its lock, so
  each read sees a disk of its own; every answer of the deadline fence is an input.
\<close>

section \<open>The decision\<close>

record continuation_snapshot =
  cs_index :: active_index
  cs_runs :: "run list"
  cs_plans :: "(uuid \<times> plan_snapshot) list"
  cs_authorities :: "(uuid \<times> receipt_authority) list"

datatype continuation_decision =
    DecideQuiet
  | DecideContinue run string mutation
  | DecideStuck run mutation
  | DecideSettled run mutation nat

definition authorityFor :: "continuation_snapshot \<Rightarrow> run \<Rightarrow> receipt_authority" where
  "authorityFor s r = (case map_of (cs_authorities s) (run_runId r) of
     Some a \<Rightarrow> a | None \<Rightarrow> EMPTY_RECEIPT_AUTHORITY)"

definition hasReachedNoProgressBound :: "run \<Rightarrow> bool" where
  "hasReachedNoProgressBound r \<longleftrightarrow>
     cont_progressRevisionSeen (run_continuation r) = run_progressRevision r \<and>
     2 \<le> cont_noProgressAttempts (run_continuation r)"

definition startWorkContinuationContext :: "string \<Rightarrow> string" where
  "startWorkContinuationContext nextTaskId =
     ''Continue the authoritative start-work run. Next pending task: '' @ nextTaskId @
     ''. Re-read its contained plan and execute this task under the workflow contract.''"

definition ulwLoopContinuationContext :: "string \<Rightarrow> string option \<Rightarrow> string" where
  "ulwLoopContinuationContext goalId criterionId =
     ''Continue the authoritative ULW loop run. Active goal: '' @ goalId @ ''.'' @
     (case criterionId of None \<Rightarrow> [] | Some c \<Rightarrow> '' Next pending criterion: '' @ c @ ''.'') @
     '' Re-read its persisted goal and criteria under the workflow contract.''"

datatype resolved_workflow = WorkflowAbsent | WorkflowConflict | WorkflowFound run

text \<open>The coordinator has its own copy of the comparison of hint and status.\<close>

fun coordinator_hint :: "run_status \<Rightarrow> status_hint \<Rightarrow> bool" where
  "coordinator_hint Active h = (h = HintActive)"
| "coordinator_hint Paused h = (h = HintPaused)"
| "coordinator_hint Stuck h = (h = HintStuck)"
| "coordinator_hint Blocked h = (h = HintBlocked)"
| "coordinator_hint NeedsUserDecision h = (h = HintBlocked)"
| "coordinator_hint ReviewBlocked h = (h = HintBlocked)"
| "coordinator_hint Completed h = False"
| "coordinator_hint Cancelled h = False"
| "coordinator_hint Failed h = False"
| "coordinator_hint Abandoned h = False"

definition resolveWorkflow ::
    "continuation_snapshot \<Rightarrow> workflow_kind \<Rightarrow> string \<Rightarrow> resolved_workflow" where
  "resolveWorkflow s w session =
     (case List.find (\<lambda>x. ent_workflow x = w \<and> ent_sessionId x = session) (idx_entries (cs_index s)) of
        None \<Rightarrow> WorkflowAbsent
      | Some x \<Rightarrow>
        (case List.find (\<lambda>r. run_runId r = ent_runId x) (cs_runs s) of
           None \<Rightarrow> WorkflowConflict
         | Some r \<Rightarrow>
           (if run_workflow r \<noteq> ent_workflow x \<or> own_sessionId (run_owner r) \<noteq> ent_sessionId x \<or>
               own_epoch (run_owner r) \<noteq> ent_ownerEpoch x \<or> run_revision r \<noteq> ent_runRevision x \<or>
               run_transactionRevision r \<noteq> ent_transactionRevision x \<or>
               \<not> coordinator_hint (run_status_of r) (ent_statusHint x)
            then WorkflowConflict else WorkflowFound r)))"

text \<open>
  The start-work half of the decision. \<open>None\<close> means that it falls through to the ULW loop: there is no
  observed plan, or the plan does not allow a continuation.
\<close>

definition decide_start :: "continuation_snapshot \<Rightarrow> string \<Rightarrow> run \<Rightarrow> continuation_decision option" where
  "decide_start s leafId r = (case run_payload r of
     UlwPayload _ \<Rightarrow> Some DecideQuiet
   | StartPayload p \<Rightarrow>
     (if cont_lastProcessedLeafId (run_continuation r) = Some leafId then Some DecideQuiet
      else case map_of (cs_plans s) (run_runId r) of
        None \<Rightarrow> None
      | Some observed \<Rightarrow>
        (let eligibility = evaluateStartWorkContinuation p observed;
             authority = authorityFor s r;
             settled = (\<lambda>m. Some (DecideSettled r m (auth_taskGeneration authority)))
         in case (eligibility, startCompletionAcceptanceIds r p authority) of
              (Inl PlanComplete, Some ids) \<Rightarrow> settled (WorkflowTerminal TermCompleted (Some ids) None)
            | _ \<Rightarrow>
              (case exhaustedTaskId r authority of
                 Some t \<Rightarrow> settled (WorkflowTerminal TermFailed None (Some t))
               | None \<Rightarrow>
                 (case eligibility of
                    Inl _ \<Rightarrow> None
                  | Inr nextTaskId \<Rightarrow>
                    (case currentAcceptance r authority nextTaskId of
                       Some accepted \<Rightarrow> settled (TaskEvidenceAccepted nextTaskId (acc_idempotencyKey accepted))
                     | None \<Rightarrow>
                       Some (if hasReachedNoProgressBound r then DecideStuck r (ContinuationStuck leafId)
                             else DecideContinue r (startWorkContinuationContext nextTaskId)
                                    (ContinuationAttempted leafId (run_progressRevision r)))))))))"

definition decide_loop :: "continuation_snapshot \<Rightarrow> string \<Rightarrow> run \<Rightarrow> continuation_decision" where
  "decide_loop s leafId r = (case run_payload r of
     StartPayload _ \<Rightarrow> DecideQuiet
   | UlwPayload p \<Rightarrow>
     (if cont_lastProcessedLeafId (run_continuation r) = Some leafId then DecideQuiet
      else let authority = authorityFor s r;
               settled = (\<lambda>m. DecideSettled r m (auth_taskGeneration authority))
      in case exhaustedTaskId r authority of
           Some t \<Rightarrow> settled (WorkflowTerminal TermFailed None (Some t))
         | None \<Rightarrow>
           (case evaluateUlwContinuation p of
              Inl _ \<Rightarrow> DecideQuiet
            | Inr goalId \<Rightarrow>
              (case goal_of p goalId of
                 None \<Rightarrow> DecideQuiet
               | Some g \<Rightarrow>
                 (if goal_status g \<notin> {GoalPending, GoalInProgress} then DecideQuiet
                  else let pending = List.find (\<lambda>c. crit_status c \<noteq> CritPass) (goal_criteria g)
                  in case Option.bind pending (\<lambda>c. map_option (Pair c) (currentAcceptance r authority (crit_id c))) of
                       Some (c, accepted) \<Rightarrow>
                         settled (CriterionSettled (goal_id g) (crit_id c) (Some (acc_idempotencyKey accepted))
                           (acc_receiptPath accepted) (acc_runRevision accepted) (acc_captureCommit accepted))
                     | None \<Rightarrow>
                       (if hasReachedNoProgressBound r then DecideStuck r (ContinuationStuck leafId)
                        else DecideContinue r (ulwLoopContinuationContext (goal_id g) (map_option crit_id pending))
                               (ContinuationAttempted leafId (run_progressRevision r))))))))"

definition decideContinuation :: "string \<Rightarrow> string \<Rightarrow> continuation_snapshot \<Rightarrow> continuation_decision" where
  "decideContinuation sessionId leafId s =
     (if validateActiveIndex (cs_index s) \<noteq> Inr () then DecideQuiet
      else let start = resolveWorkflow s StartWork sessionId;
               loop = resolveWorkflow s UlwLoop sessionId
      in if start = WorkflowConflict \<or> loop = WorkflowConflict then DecideQuiet
         else case (case start of WorkflowFound r \<Rightarrow> decide_start s leafId r | _ \<Rightarrow> None) of
           Some d \<Rightarrow> d
         | None \<Rightarrow> (case loop of WorkflowFound r \<Rightarrow> decide_loop s leafId r | _ \<Rightarrow> DecideQuiet))"

section \<open>The durable coordinator\<close>

datatype plan_read = PlanText string | PlanMissing | PlanReadThrows

record handle_io =
  hi_validEntry :: bool
  hi_root :: "canonical_root option"
  hi_validRoot :: bool
  hi_indexDisk :: disk
  hi_validIndex :: bool
  hi_runsDisk :: disk
  hi_validRuns :: bool
  hi_authorityDisk :: disk
  hi_validAuthorities :: bool
  hi_readPlan :: "string \<Rightarrow> plan_read"
  hi_validPlan :: "uuid \<Rightarrow> bool"
  hi_validDecision :: bool
  hi_eventId :: uuid
  hi_nowIso :: timestamp
  hi_validEvent :: bool
  hi_entry :: entry_io
  hi_commit :: commit_io
  hi_validCommitted :: bool

datatype coordinator_result = CoordQuiet | CoordContinue string | CoordThrows | CoordKilled

text \<open>\<^verbatim>\<open>Promise.all\<close> over the session's entries; entries whose run is missing are dropped.\<close>

fun load_runs :: "host_env \<Rightarrow> canonical_root \<Rightarrow> disk \<Rightarrow> active_index_entry list \<Rightarrow> decode_error + run list" where
  "load_runs E root d [] = Inr []"
| "load_runs E root d (x # xs) = (case readRun E root d (ent_runId x) of
     Inl err \<Rightarrow> Inl err
   | Inr r \<Rightarrow>
     (case load_runs E root d xs of
        Inl err \<Rightarrow> Inl err
      | Inr rs \<Rightarrow> Inr (case r of None \<Rightarrow> rs | Some r \<Rightarrow> r # rs)))"

fun load_authorities ::
    "host_env \<Rightarrow> (acceptance_event file_bytes \<Rightarrow> nat) \<Rightarrow> disk \<Rightarrow> run list \<Rightarrow>
       store_throw + (uuid \<times> receipt_authority) list" where
  "load_authorities E sz d [] = Inr []"
| "load_authorities E sz d (r # rs) = (case authority_of E sz d r of
     Inl err \<Rightarrow> Inl err
   | Inr a \<Rightarrow>
     (case load_authorities E sz d rs of Inl err \<Rightarrow> Inl err | Inr as \<Rightarrow> Inr ((run_runId r, a) # as)))"

datatype plan_scan = ScanQuiet | ScanThrows | Scanned "(uuid \<times> plan_snapshot) list"

fun observe_plans ::
    "(string \<Rightarrow> string) \<Rightarrow> (string \<Rightarrow> plan_read) \<Rightarrow> (uuid \<Rightarrow> bool) \<Rightarrow> run list \<Rightarrow> plan_scan" where
  "observe_plans sha readPlan valid [] = Scanned []"
| "observe_plans sha readPlan valid (r # rs) = (case run_payload r of
     UlwPayload _ \<Rightarrow> observe_plans sha readPlan valid rs
   | StartPayload p \<Rightarrow>
     (case readPlan (plan_displayPath (sw_plan p)) of
        PlanReadThrows \<Rightarrow> ScanThrows
      | bytes \<Rightarrow>
        (if \<not> valid (run_runId r) then ScanQuiet
         else case observe_plans sha readPlan valid rs of
           Scanned ps \<Rightarrow> Scanned (case bytes of
               PlanText t \<Rightarrow> (run_runId r, parseStartWorkPlan sha t) # ps | _ \<Rightarrow> ps)
         | other \<Rightarrow> other)))"

text \<open>The event of a decision.\<close>

definition decision_event ::
    "active_index \<Rightarrow> uuid \<Rightarrow> timestamp \<Rightarrow> run \<Rightarrow> mutation \<Rightarrow> nat option \<Rightarrow> state_event" where
  "decision_event i eventId now r m settledGeneration =
     \<lparr>ev_version = (if run_is_v2 r
        then EventV2 (if settledGeneration = None then None else run_expectedHead r) settledGeneration False
        else EventV1),
      ev_eventId = eventId, ev_sequence = idx_revision i + 1, ev_runId = run_runId r,
      ev_workflow = run_workflow r, ev_kind = kind_of_mutation m,
      ev_expected = \<lparr>exp_indexRevision = idx_revision i, exp_runRevision = Some (run_revision r),
        exp_ownerSessionId = Some (own_sessionId (run_owner r)), exp_ownerEpoch = Some (own_epoch (run_owner r))\<rparr>,
      ev_mutation = m, ev_at = now\<rparr>"

fun decided :: "continuation_decision \<Rightarrow> (run \<times> mutation \<times> nat option) option" where
  "decided DecideQuiet = None"
| "decided (DecideContinue r _ m) = Some (r, m, None)"
| "decided (DecideStuck r m) = Some (r, m, None)"
| "decided (DecideSettled r m g) = Some (r, m, Some g)"

text \<open>What the coordinator answers once the commit has returned.\<close>

definition committed_answer ::
    "string \<Rightarrow> continuation_decision \<Rightarrow> state_event \<Rightarrow> run \<Rightarrow> active_index \<Rightarrow> coordinator_result" where
  "committed_answer sessionId decision e r i =
     (let entry = List.find (\<lambda>x. ent_runId x = ev_runId e) (idx_entries i)
      in if idx_revision i \<noteq> ev_sequence e \<or> run_transactionRevision r \<noteq> ev_sequence e \<or>
            own_sessionId (run_owner r) \<noteq> sessionId \<or>
            Some (own_epoch (run_owner r)) \<noteq> exp_ownerEpoch (ev_expected e)
         then CoordQuiet
         else case decision of
           DecideContinue _ context _ \<Rightarrow>
             (if map_option ent_transactionRevision entry \<noteq> Some (ev_sequence e) then CoordQuiet
              else CoordContinue context)
         | _ \<Rightarrow> CoordQuiet)"

text \<open>
  The event's literal puts the key \<^verbatim>\<open>schemaVersion\<close> behind the common ones, so its keys are not in
  the order of the schema.
\<close>

definition commit_decision ::
    "host_env \<Rightarrow> (acceptance_event file_bytes \<Rightarrow> nat) \<Rightarrow> handle_io \<Rightarrow> canonical_root \<Rightarrow> string \<Rightarrow> active_index \<Rightarrow>
       continuation_decision \<Rightarrow> disk \<Rightarrow> disk \<times> coordinator_result" where
  "commit_decision E sz io root sessionId i decision d = (case decided decision of
     None \<Rightarrow> (d, CoordQuiet)
   | Some (r, m, g) \<Rightarrow>
     (if \<not> hi_validDecision io then (d, CoordQuiet)
      else let e = decision_event i (hi_eventId io) (hi_nowIso io) r m g
      in if \<not> hi_validEvent io then (d, CoordQuiet)
         else case commit E sz root (hi_entry io) ((hi_commit io)\<lparr>ci_ordered := False\<rparr>) d e of
           (d', CommitOk _ r' i') \<Rightarrow>
             (d', if hi_validCommitted io then committed_answer sessionId decision e r' i' else CoordQuiet)
         | (d', CommitErr _) \<Rightarrow> (d', CoordQuiet)
         | (d', CommitThrows _) \<Rightarrow> (d', CoordThrows)
         | (d', CommitKilled) \<Rightarrow> (d', CoordKilled)))"

definition handle ::
    "host_env \<Rightarrow> (acceptance_event file_bytes \<Rightarrow> nat) \<Rightarrow> (string \<Rightarrow> string) \<Rightarrow> handle_io \<Rightarrow> string \<Rightarrow> string \<Rightarrow>
       disk \<Rightarrow> disk \<times> coordinator_result" where
  "handle E sz sha io sessionId leafId d =
     (if \<not> hi_validEntry io then (d, CoordQuiet)
      else case hi_root io of
        None \<Rightarrow> (d, CoordQuiet)
      | Some root \<Rightarrow>
        (if \<not> hi_validRoot io then (d, CoordQuiet)
         else case readIndex E (hi_indexDisk io) of
           Inl _ \<Rightarrow> (d, CoordThrows)
         | Inr i \<Rightarrow>
           (if \<not> hi_validIndex io then (d, CoordQuiet)
            else case load_runs E root (hi_runsDisk io)
                (filter (\<lambda>x. ent_sessionId x = sessionId) (idx_entries i)) of
              Inl _ \<Rightarrow> (d, CoordThrows)
            | Inr runs \<Rightarrow>
              (if \<not> hi_validRuns io then (d, CoordQuiet)
               else case load_authorities E sz (hi_authorityDisk io) runs of
                 Inl _ \<Rightarrow> (d, CoordThrows)
               | Inr authorities \<Rightarrow>
                 (if \<not> hi_validAuthorities io then (d, CoordQuiet)
                  else case observe_plans sha (hi_readPlan io) (hi_validPlan io) runs of
                    ScanQuiet \<Rightarrow> (d, CoordQuiet)
                  | ScanThrows \<Rightarrow> (d, CoordThrows)
                  | Scanned plans \<Rightarrow>
                    commit_decision E sz io root sessionId i
                      (decideContinuation sessionId leafId \<lparr>cs_index = i, cs_runs = runs, cs_plans = plans,
                         cs_authorities = authorities\<rparr>) d)))))"

section \<open>The session-stop handler\<close>

text \<open>A finite percentage is given in thousandths of a percent.\<close>

datatype js_percent = PercentUndefined | PercentNotFinite | Percent int

record session_stop_input =
  ss_contextPercent :: js_percent
  ss_contextSessionId :: string
  ss_diagnosticTurnId :: int
  ss_leafId :: "string option"
  ss_sessionId :: string
  ss_stopHookActive :: bool

definition stop_refused :: "session_stop_input \<Rightarrow> bool" where
  "stop_refused s \<longleftrightarrow> ss_stopHookActive s \<or> js_trim (ss_sessionId s) = [] \<or> ss_sessionId s \<noteq> ss_contextSessionId s \<or>
     (case ss_leafId s of None \<Rightarrow> True | Some leaf \<Rightarrow> js_trim leaf = []) \<or>
     (case ss_contextPercent s of Percent q \<Rightarrow> q < 0 \<or> 90000 \<le> q | _ \<Rightarrow> True)"

text \<open>
  The host during the handler. The budget port reads the index again to name the active run; its
  first entry for the session counts, and \<^verbatim>\<open>unknown\<close> when there is none.
\<close>

record stop_io =
  so_validEntry :: bool
  so_handle :: handle_io
  so_validHandled :: bool
  so_budgetRoot :: "canonical_root option"
  so_validBudgetRoot :: bool
  so_budgetDisk :: disk
  so_validRunId :: bool
  so_counterReadable :: bool
  so_validCounter :: bool
  so_counterWrite :: write_io
  so_validWritten :: bool
  so_suppressThrows :: bool
  so_validSuppressed :: bool

datatype stop_result = StopUndefined | StopContinue string | StopKilled

definition resolveActiveRunId :: "active_index \<Rightarrow> string \<Rightarrow> string option" where
  "resolveActiveRunId i sessionId =
     map_option ent_runId (List.find (\<lambda>x. ent_sessionId x = sessionId) (idx_entries i))"

definition effective_run :: "active_index \<Rightarrow> string \<Rightarrow> string" where
  "effective_run i sessionId = (case resolveActiveRunId i sessionId of Some r \<Rightarrow> r | None \<Rightarrow> ''unknown'')"

text \<open>The end of the handler, after the budget has allowed the continuation.\<close>

definition emit_continuation :: "stop_io \<Rightarrow> string \<Rightarrow> stop_result" where
  "emit_continuation io additionalContext =
     (if so_suppressThrows io \<or> \<not> so_validSuppressed io then StopUndefined
      else StopContinue (appendSteeringReminder additionalContext))"

definition spend_budget ::
    "host_env \<Rightarrow> stop_io \<Rightarrow> session_stop_input \<Rightarrow> string \<Rightarrow> counter_files \<Rightarrow> counter_files \<times> stop_result" where
  "spend_budget E io s additionalContext files =
     (case so_budgetRoot io of
        None \<Rightarrow> (files, StopUndefined)
      | Some _ \<Rightarrow>
        (if \<not> so_validBudgetRoot io then (files, StopUndefined)
         else case readIndex E (so_budgetDisk io) of
           Inl _ \<Rightarrow> (files, StopUndefined)
         | Inr i \<Rightarrow>
           (if \<not> so_validRunId io then (files, StopUndefined)
            else let runId = effective_run i (ss_sessionId s)
            in case readContinuationCounter files (so_counterReadable io) (ss_sessionId s) of
                 Inl _ \<Rightarrow> (files, StopUndefined)
               | Inr c \<Rightarrow>
                 (if \<not> so_validCounter io then (files, StopUndefined)
                  else if \<not> checkBudget c runId (ss_diagnosticTurnId s)
                  then (case writeContinuationCounter (so_counterWrite io) files
                          (exhaustedCounter c (ss_sessionId s) runId (ss_diagnosticTurnId s)) of
                        (files', out) \<Rightarrow> (files', if out = Some WriteKilled then StopKilled else StopUndefined))
                  else case writeContinuationCounter (so_counterWrite io) files
                          (incrementCounter c (ss_sessionId s) runId (ss_diagnosticTurnId s)) of
                        (files', None) \<Rightarrow> (files', StopUndefined)
                      | (files', Some WriteKilled) \<Rightarrow> (files', StopKilled)
                      | (files', Some _) \<Rightarrow>
                        (files', if so_validWritten io then emit_continuation io additionalContext
                                 else StopUndefined)))))"

text \<open>
  The handler. Errors of the coordinator and of the budget are caught and answered with
  \<^verbatim>\<open>undefined\<close>; the budget port is absent in some registrations.
\<close>

definition handleSessionStop ::
    "host_env \<Rightarrow> (acceptance_event file_bytes \<Rightarrow> nat) \<Rightarrow> (string \<Rightarrow> string) \<Rightarrow> bool \<Rightarrow> stop_io \<Rightarrow> session_stop_input \<Rightarrow>
       disk \<times> counter_files \<Rightarrow> (disk \<times> counter_files) \<times> stop_result" where
  "handleSessionStop E sz sha budgeted io s state = (case state of (d, files) \<Rightarrow>
     (if stop_refused s \<or> \<not> so_validEntry io then (state, StopUndefined)
      else case handle E sz sha (so_handle io) (ss_sessionId s) (the (ss_leafId s)) d of
        (d', CoordContinue context) \<Rightarrow>
          (if \<not> so_validHandled io then ((d', files), StopUndefined)
           else if budgeted then (case spend_budget E io s context files of (files', res) \<Rightarrow> ((d', files'), res))
           else ((d', files), emit_continuation io context))
      | (d', CoordKilled) \<Rightarrow> ((d', files), StopKilled)
      | (d', _) \<Rightarrow> ((d', files), StopUndefined)))"

end
