(* ===== verification/Continuation_Properties.thy ===== *)
theory Continuation_Properties
  imports Continuation Sample_Store Plan_Properties
begin

text \<open>
  Correctness of continuations: every decision of the coordinator is one that the state transition
  accepts, a continuation is announced only after its attempt is durable, and three independent
  bounds hold: two attempts without progress, eight announcements per run and turn, and the deadline.
\<close>

section \<open>Decisions and transitions\<close>

lemma coordinator_hint_eq: "coordinator_hint st h \<longleftrightarrow> hint_of_status st = Some h"
  by (cases st) auto

lemma resolveWorkflow_FoundD:
  assumes "resolveWorkflow s w session = WorkflowFound r"
  shows "r \<in> set (cs_runs s)" "run_workflow r = w" "own_sessionId (run_owner r) = session"
    "\<not> is_terminal_status (run_status_of r)"
proof -
  obtain x where x: "List.find (\<lambda>x. ent_workflow x = w \<and> ent_sessionId x = session) (idx_entries (cs_index s)) = Some x"
    and r: "List.find (\<lambda>r. run_runId r = ent_runId x) (cs_runs s) = Some r"
    and ok: "run_workflow r = ent_workflow x" "own_sessionId (run_owner r) = ent_sessionId x"
      "coordinator_hint (run_status_of r) (ent_statusHint x)"
    using assms unfolding resolveWorkflow_def by (auto split: option.splits if_splits)
  show "r \<in> set (cs_runs s)" using find_SomeD [OF r] by simp
  show "run_workflow r = w" "own_sessionId (run_owner r) = session" using find_SomeD [OF x] ok(1,2) by auto
  show "\<not> is_terminal_status (run_status_of r)"
    using ok(3) unfolding coordinator_hint_eq by (metis hint_of_status_None_iff option.distinct(1))
qed

text \<open>Where a decision comes from.\<close>

lemma decideContinuationE:
  assumes "decideContinuation session leaf s = dec" "dec \<noteq> DecideQuiet"
  obtains r where "r \<in> set (cs_runs s)" "own_sessionId (run_owner r) = session"
    "\<not> is_terminal_status (run_status_of r)" "decide_start s leaf r = Some dec \<or> decide_loop s leaf r = dec"
proof -
  let ?start = "resolveWorkflow s StartWork session" and ?loop = "resolveWorkflow s UlwLoop session"
  have "(\<exists>r. ?start = WorkflowFound r \<and> decide_start s leaf r = Some dec) \<or>
      (\<exists>r. ?loop = WorkflowFound r \<and> decide_loop s leaf r = dec)"
    using assms unfolding decideContinuation_def Let_def
    by (auto split: if_splits option.splits resolved_workflow.splits)
  then show thesis using resolveWorkflow_FoundD that by blast
qed

lemma decide_start_run: "decide_start s leaf r = Some dec \<Longrightarrow> decided dec = Some (r', m, g) \<Longrightarrow> r' = r"
  by (auto simp: decide_start_def Let_def split: payload.splits if_splits option.splits sum.splits start_refusal.splits)

lemma decide_loop_run: "decide_loop s leaf r = dec \<Longrightarrow> decided dec = Some (r', m, g) \<Longrightarrow> r' = r"
  by (auto simp: decide_loop_def Let_def split: payload.splits if_splits option.splits sum.splits)

text \<open>
  What the reducer asks of a decision, branch by branch: a continuation attempt for a new leaf, a stop
  at the bound, or a settlement that the authority of the run supports.
\<close>

definition supported :: "run \<Rightarrow> receipt_authority \<Rightarrow> mutation \<Rightarrow> nat option \<Rightarrow> bool" where
  "supported r auth m g = (case m of
     ContinuationAttempted leaf n \<Rightarrow> g = None \<and> cont_lastProcessedLeafId (run_continuation r) \<noteq> Some leaf \<and>
       n = run_progressRevision r
   | ContinuationStuck leaf \<Rightarrow> g = None \<and> cont_lastProcessedLeafId (run_continuation r) \<noteq> Some leaf \<and>
       hasReachedNoProgressBound r
   | WorkflowTerminal TermCompleted ids _ \<Rightarrow> g = Some (auth_taskGeneration auth) \<and>
       (\<exists>p. run_payload r = StartPayload p \<and> ids \<noteq> None \<and> startCompletionAcceptanceIds r p auth = ids)
   | WorkflowTerminal TermFailed _ t \<Rightarrow> g = Some (auth_taskGeneration auth) \<and> t \<noteq> None \<and> exhaustedTaskId r auth = t
   | TaskEvidenceAccepted t k \<Rightarrow> g = Some (auth_taskGeneration auth) \<and>
       (\<exists>p a. run_payload r = StartPayload p \<and> currentAcceptance r auth t = Some a \<and> acc_idempotencyKey a = k)
   | CriterionSettled goalId criterionId k path n head \<Rightarrow> g = Some (auth_taskGeneration auth) \<and>
       (\<exists>p a goal. run_payload r = UlwPayload p \<and> currentAcceptance r auth criterionId = Some a \<and>
          k = Some (acc_idempotencyKey a) \<and> n = acc_runRevision a \<and> head = acc_captureCommit a \<and>
          goal_of p goalId = Some goal \<and>
          (\<exists>c\<in>set (goal_criteria goal). crit_id c = criterionId \<and> crit_status c \<noteq> CritPass))
   | _ \<Rightarrow> False)"

lemma decide_start_supported:
  assumes "decide_start s leaf r = Some dec" "decided dec = Some (r', m, g)"
  shows "supported r (authorityFor s r) m g"
  using assms
  by (auto simp: decide_start_def Let_def supported_def
      split: payload.splits if_splits option.splits sum.splits start_refusal.splits)

lemma decide_loop_supported:
  assumes dec: "decide_loop s leaf r = dec" "decided dec = Some (r', m, g)"
  shows "supported r (authorityFor s r) m g"
proof (cases "run_payload r")
  case (StartPayload p)
  then show ?thesis using dec by (auto simp: decide_loop_def)
next
  case (UlwPayload p)
  have leaf: "cont_lastProcessedLeafId (run_continuation r) \<noteq> Some leaf"
    using dec UlwPayload by (auto simp: decide_loop_def split: if_splits)
  show ?thesis
  proof (cases "exhaustedTaskId r (authorityFor s r)")
    case (Some t)
    then show ?thesis using dec UlwPayload leaf by (auto simp: decide_loop_def Let_def supported_def)
  next
    case None
    then obtain goalId goal where goal: "evaluateUlwContinuation p = Inr goalId" "goal_of p goalId = Some goal"
      using dec UlwPayload leaf by (auto simp: decide_loop_def Let_def split: sum.splits option.splits)
    have id: "goal_of p (goal_id goal) = Some goal" using goal(2) goal_of_SomeD [OF goal(2)] by simp
    show ?thesis
      using dec UlwPayload leaf None goal id
      by (auto simp: decide_loop_def Let_def supported_def dest!: find_SomeD
          split: if_splits option.splits bind_splits) blast+
  qed
qed

text \<open>The event of a supported decision passes every guard and has an effect.\<close>

lemma decision_event_views:
  assumes "run_is_v2 r"
  shows "ev_is_v2 (decision_event i eid now r m g)" "\<not> ev_legacy (decision_event i eid now r m g)"
    "ev_taskGeneration (decision_event i eid now r m g) = g"
    "ev_expectedHead (decision_event i eid now r m g) = (if g = None then None else run_expectedHead r)"
  using assms by (simp_all add: decision_event_def event_view_defs)

lemma decision_event_fields [simp]:
  "ev_mutation (decision_event i eid now r m g) = m" "ev_sequence (decision_event i eid now r m g) = Suc (idx_revision i)"
  "ev_runId (decision_event i eid now r m g) = run_runId r" "ev_workflow (decision_event i eid now r m g) = run_workflow r"
  "ev_kind (decision_event i eid now r m g) = kind_of_mutation m"
  "exp_indexRevision (ev_expected (decision_event i eid now r m g)) = idx_revision i"
  "exp_ownerEpoch (ev_expected (decision_event i eid now r m g)) = Some (own_epoch (run_owner r))"
  by (simp_all add: decision_event_def)

lemma supported_expectations:
  assumes "run_is_v2 r" "supported r auth m g"
  shows "expectation_error r (decision_event i eid now r m g) = None"
  using assms decision_event_views [OF assms(1), of i eid now m g]
  by (cases m) (auto simp: expectation_error_def supported_def decision_event_def split: terminal_status.splits if_splits)

lemma criterion_of_unique:
  assumes "distinct (map crit_id (goal_criteria goal))" "c \<in> set (goal_criteria goal)" "crit_id c = i"
  shows "criterion_of goal i = Some c"
proof (cases "criterion_of goal i")
  case None
  then show ?thesis using assms(2,3) find_eq_NoneD unfolding criterion_of_def by fastforce
next
  case (Some c')
  then show ?thesis using criterion_of_SomeD [OF Some] assms by (metis distinct_map_unique)
qed

lemma supported_effect:
  assumes v2: "run_is_v2 r" and sup: "supported r auth m g"
    and wf: "\<And>p. run_payload r = UlwPayload p \<Longrightarrow> ulwPayloadSchema p = Some p"
  shows "controlRun r (decision_event i eid now r m g) (Some auth) \<noteq> None"
proof -
  note views = decision_event_views [OF v2, of i eid now m g]
  show ?thesis
  proof (cases m)
    case (CriterionSettled goalId criterionId k path n head)
    then obtain p a goal c where p: "run_payload r = UlwPayload p" and a: "currentAcceptance r auth criterionId = Some a"
      and eqs: "k = Some (acc_idempotencyKey a)" "n = acc_runRevision a" "head = acc_captureCommit a" "g = Some (auth_taskGeneration auth)"
      and goal: "goal_of p goalId = Some goal" and c: "c \<in> set (goal_criteria goal)" "crit_id c = criterionId" "crit_status c \<noteq> CritPass"
      using sup by (auto simp: supported_def)
    have "goalSchema goal = Some goal"
      using wf [OF p] goal_of_SomeD [OF goal] by (simp add: ulwPayloadSchema_normal_iff list_all_iff)
    then have "distinct (map crit_id (goal_criteria goal))" by (simp add: goalSchema_normal_iff)
    then have "criterion_of goal criterionId = Some c"
      by (rule criterion_of_unique [OF _ c(1,2)])
    then show ?thesis
      using views a eqs goal c currentAcceptance_SomeD [OF a]
      by (simp add: controlRun_def reduceRuntimeProgress_def settleCriterion_def CriterionSettled p Let_def)
  next
    case (TaskEvidenceAccepted t k)
    then obtain p a where "run_payload r = StartPayload p" "currentAcceptance r auth t = Some a"
      "acc_idempotencyKey a = k" "g = Some (auth_taskGeneration auth)"
      using sup by (auto simp: supported_def)
    then show ?thesis
      using views currentAcceptance_SomeD [of r auth t a]
      by (simp add: controlRun_def reduceRuntimeProgress_def acceptTaskEvidence_def TaskEvidenceAccepted)
  next
    case (WorkflowTerminal st ids t)
    then show ?thesis
      using sup views
      by (cases st) (auto simp: supported_def controlRun_def reduceRuntimeProgress_def terminalRun_def sameStrings_iff)
  qed (use sup views in \<open>simp_all add: supported_def controlRun_def reduceRuntimeProgress_def attemptContinuation_def
        stopContinuation_def hasReachedNoProgressBound_def Let_def\<close>)
qed

lemma supported_accepted:
  assumes "run_is_v2 r" "supported r auth m g"
    and "\<And>p. run_payload r = UlwPayload p \<Longrightarrow> ulwPayloadSchema p = Some p"
  obtains p where "prepareTransition i (Some r) (decision_event i eid now r m g) (Some auth) = Inr p"
proof -
  let ?e = "decision_event i eid now r m g"
  obtain r1 where n: "controlRun r ?e (Some auth) = Some r1" using supported_effect [OF assms] by blast
  have "run_runId r1 = run_runId r" "run_workflow r1 = run_workflow r"
    using controlRun_frame(1) [OF n] by (simp_all add: same_identity_def run_workflow_def)
  moreover have "next_run (Some r) ?e (Some auth) = Inr (Some r1)"
    using n supported_expectations [OF assms(1,2), of i eid now] assms(2)
    by (cases m) (simp_all add: next_run_def supported_def)
  ultimately show thesis using that by (simp add: prepareTransition_def Let_def)
qed

text \<open>
  C23. The coordinator only decides what the store accepts: whenever it decides to continue, to stop
  or to settle a well-formed version 2 run on a snapshot, the run is one of the snapshot, owned by the
  session and not terminal, and the state transition accepts the event of the decision on that same
  snapshot.
\<close>

theorem decision_accepted:
  assumes "decideContinuation session leaf s = dec" "decided dec = Some (r, m, g)"
    and "run_is_v2 r" "\<And>p. run_payload r = UlwPayload p \<Longrightarrow> ulwPayloadSchema p = Some p"
  shows "r \<in> set (cs_runs s) \<and> own_sessionId (run_owner r) = session \<and> \<not> is_terminal_status (run_status_of r) \<and>
    (\<exists>p. prepareTransition (cs_index s) (Some r) (decision_event (cs_index s) eid now r m g)
       (Some (authorityFor s r)) = Inr p)"
proof -
  obtain r' where r': "r' \<in> set (cs_runs s)" "own_sessionId (run_owner r') = session"
    "\<not> is_terminal_status (run_status_of r')" "decide_start s leaf r' = Some dec \<or> decide_loop s leaf r' = dec"
    using assms(2) by (auto intro: decideContinuationE [OF assms(1)])
  then have "r' = r" "supported r (authorityFor s r) m g"
    using decide_start_run decide_loop_run decide_start_supported decide_loop_supported assms(2) by metis+
  with r' show ?thesis by (metis supported_accepted [OF assms(3) _ assms(4)])
qed

text \<open>A session with one active start-work run whose plan has two open tasks.\<close>

definition planned_run :: run where
  "planned_run = sample_start_run\<lparr>run_payload := StartPayload \<lparr>sw_status = Active,
     sw_plan = sample_plan\<lparr>plan_taskIds := [''T-1'', ''T-2'']\<rparr>\<rparr>\<rparr>"

definition constant_sha :: "string \<Rightarrow> string" where
  "constant_sha _ = sample_hash"

definition planned_observation :: plan_snapshot where
  "planned_observation = \<lparr>snap_taskIds = [''T-1'', ''T-2''], snap_remainingTaskIds = [''T-1'', ''T-2''],
     snap_fingerprint = sample_hash\<rparr>"

definition planned_snapshot :: continuation_snapshot where
  "planned_snapshot = \<lparr>cs_index = sample_index [planned_run], cs_runs = [planned_run],
     cs_plans = [(run_runId planned_run, planned_observation)],
     cs_authorities = []\<rparr>"

definition planned_decision :: continuation_decision where
  "planned_decision = DecideContinue planned_run (startWorkContinuationContext ''T-1'') (ContinuationAttempted ''leaf'' 1)"

lemma planned_snapshot_decision: "decideContinuation ''s1'' ''leaf'' planned_snapshot = planned_decision"
  by code_simp

theorem decision_accepted_witness:
  "\<exists>p. prepareTransition (cs_index planned_snapshot) (Some planned_run)
     (decision_event (cs_index planned_snapshot) (sample_uuid (CHR ''5'')) ''t1'' planned_run (ContinuationAttempted ''leaf'' 1) None)
     (Some (authorityFor planned_snapshot planned_run)) = Inr p"
proof -
  have v2: "run_is_v2 planned_run" by code_simp
  have start: "run_payload planned_run \<noteq> UlwPayload p" for p by (simp add: planned_run_def)
  have "decided planned_decision = Some (planned_run, ContinuationAttempted ''leaf'' 1, None)"
    by (simp add: planned_decision_def)
  from decision_accepted [OF planned_snapshot_decision this v2, of "sample_uuid (CHR ''5'')" "''t1''"] start
  show ?thesis by blast
qed

section \<open>Durability\<close>

lemma write_commit_published:
  assumes "write_commit io d e p = (d', CommitOk st r i)"
  shows "st = CommitCommitted \<and> r = prep_run p \<and> i = prep_index p \<and> d_index d' = Some (stringify i) \<and>
    d_runs d' (run_runId r) = Some (stringify r)"
proof -
  have fail: "write_failure w \<noteq> CommitOk st r i" for w by (cases w) auto
  obtain dir where "write_run io (d\<lparr>d_events := dir\<rparr>) p = (d', CommitOk st r i)"
    using assms fail unfolding write_commit_def Let_def
    by (auto split: if_splits prod.splits append_outcome.splits)
  then obtain slot where "write_index (ci_index io) (put_run (d\<lparr>d_events := dir\<rparr>) (run_runId (prep_run p)) slot) p =
      (d', CommitOk st r i)" "slot = Some (stringify (prep_run p))"
    using fail atomicReplace_atomic unfolding write_run_def Let_def by (fastforce split: if_splits prod.splits)
  then show ?thesis
    using fail atomicReplace_atomic unfolding write_index_def
    by (fastforce split: if_splits prod.splits simp: put_run_def)
qed

lemma plan_commit_fresh:
  assumes "plan_commit E sz root d ordered e = Inr plan" "ev_eventId e \<notin> ev_eventId ` set (logged E d)"
  shows "(\<exists>err. plan = PlanReject err) \<or>
    (\<exists>i current authority p. prepareTransition i current (persistedEventForIndex i e) authority = Inr p \<and>
       plan = PlanWrite (persistedEventForIndex i e) p)"
proof -
  obtain i es where r: "readIndex E d = Inr i" "readAll E (d_events d) = Inr es"
    using assms(1) by (auto simp: plan_commit_def split: sum.splits)
  have "List.find (\<lambda>c. ev_eventId c = ev_eventId e) es = None"
    using assms(2) r(2) by (simp add: find_None_iff logged_def image_iff) metis
  with assms(1) r show ?thesis by (auto simp: plan_commit_def Let_def split: sum.splits if_splits) blast
qed

lemma attempt_prepared:
  assumes "prepareTransition i current (persistedEventForIndex j e) authority = Inr p"
    and "ev_mutation e = ContinuationAttempted leaf n"
  shows "cont_lastProcessedLeafId (run_continuation (prep_run p)) = Some leaf"
proof -
  let ?e = "persistedEventForIndex j e"
  have m: "ev_mutation ?e = ContinuationAttempted leaf n"
    using assms(2) by (simp add: persistedEventForIndex_def Let_def)
  have "\<exists>r r'. controlRun r ?e authority = Some r' \<and> run_continuation (prep_run p) = run_continuation r'"
    using assms(1) m
    by (auto simp: prepareTransition_def next_run_def Let_def split: if_splits sum.splits option.splits) blast
  then show ?thesis
    using m by (auto simp: controlRun_def reduceRuntimeProgress_def attemptContinuation_def Let_def split: if_splits)
qed

lemma commit_attempt_durable:
  assumes "commit E sz root en io d e = (d', CommitOk st r i)" "ev_mutation e = ContinuationAttempted leaf n"
    and "ev_eventId e \<notin> ev_eventId ` set (logged E d)"
  shows "d_index d' = Some (stringify i) \<and> d_runs d' (run_runId r) = Some (stringify r) \<and>
    cont_lastProcessedLeafId (run_continuation r) = Some leaf"
proof -
  have locked: "commit_locked E sz root io d e = (d', CommitOk st r i)"
    using assms(1) by (auto simp: commit_def split: if_splits containment.splits)
  then obtain plan where plan: "plan_commit E sz root d (ci_ordered io) e = Inr plan"
    by (auto simp: commit_locked_def split: sum.splits)
  from plan_commit_fresh [OF this assms(3)] locked plan obtain j current authority p where
    p: "prepareTransition j current (persistedEventForIndex j e) authority = Inr p"
      "write_commit io d (persistedEventForIndex j e) p = (d', CommitOk st r i)"
    by (auto simp: commit_locked_def)
  from write_commit_published [OF p(2)] attempt_prepared [OF p(1) assms(2)] show ?thesis by auto
qed

text \<open>How the coordinator comes to announce a continuation.\<close>

lemma commit_decision_continueE:
  assumes "commit_decision E sz io root session i dec d = (d', CoordContinue context)"
  obtains r m st r' i' where "dec = DecideContinue r context m"
    "commit E sz root (hi_entry io) ((hi_commit io)\<lparr>ci_ordered := False\<rparr>) d (decision_event i (hi_eventId io) (hi_nowIso io) r m None) =
       (d', CommitOk st r' i')"
    "idx_revision i' = Suc (idx_revision i)" "run_transactionRevision r' = Suc (idx_revision i)"
    "own_sessionId (run_owner r') = session" "own_epoch (run_owner r') = own_epoch (run_owner r)"
    "\<exists>x\<in>set (idx_entries i'). ent_runId x = run_runId r \<and> ent_transactionRevision x = Suc (idx_revision i)"
proof -
  obtain r m g st r' i' where dec: "decided dec = Some (r, m, g)"
    and c: "commit E sz root (hi_entry io) ((hi_commit io)\<lparr>ci_ordered := False\<rparr>) d (decision_event i (hi_eventId io) (hi_nowIso io) r m g) =
      (d', CommitOk st r' i')"
    and a: "committed_answer session dec (decision_event i (hi_eventId io) (hi_nowIso io) r m g) r' i' = CoordContinue context"
    using assms unfolding commit_decision_def Let_def
    by (auto split: option.splits if_splits prod.splits commit_result.splits)
  have facts: "idx_revision i' = Suc (idx_revision i)" "run_transactionRevision r' = Suc (idx_revision i)"
    "own_sessionId (run_owner r') = session" "own_epoch (run_owner r') = own_epoch (run_owner r)"
    using a by (auto simp: committed_answer_def Let_def split: if_splits)
  with a have d: "dec = DecideContinue r context m" "g = None"
    and x: "map_option ent_transactionRevision (List.find (\<lambda>x. ent_runId x = run_runId r) (idx_entries i')) = Some (Suc (idx_revision i))"
    using dec by (auto simp: committed_answer_def Let_def split: if_splits continuation_decision.splits)
  from x have "\<exists>x\<in>set (idx_entries i'). ent_runId x = run_runId r \<and> ent_transactionRevision x = Suc (idx_revision i)"
    by (auto dest: find_SomeD)
  with that [OF d(1)] c facts show thesis by (simp add: d(2))
qed

lemma handle_continueE:
  assumes "handle E sz sha io session leaf d = (d', CoordContinue context)"
  obtains root i s where "hi_root io = Some root" "readIndex E (hi_indexDisk io) = Inr i" "cs_index s = i"
    "commit_decision E sz io root session i (decideContinuation session leaf s) d = (d', CoordContinue context)"
  using assms unfolding handle_def
  by (auto split: if_splits option.splits sum.splits plan_scan.splits) (metis continuation_snapshot.select_convs(1))

lemma decideContinuation_attempt:
  assumes "decideContinuation session leaf s = DecideContinue r context m"
  shows "m = ContinuationAttempted leaf (run_progressRevision r) \<and> own_sessionId (run_owner r) = session \<and>
    \<not> hasReachedNoProgressBound r \<and> cont_lastProcessedLeafId (run_continuation r) \<noteq> Some leaf"
proof -
  obtain r' where r': "own_sessionId (run_owner r') = session"
    "decide_start s leaf r' = Some (DecideContinue r context m) \<or> decide_loop s leaf r' = DecideContinue r context m"
    by (rule decideContinuationE [OF assms]) simp_all
  then show ?thesis
    by (auto simp: decide_start_def decide_loop_def Let_def
        split: payload.splits if_splits option.splits sum.splits start_refusal.splits)
qed

text \<open>
  C24. A continuation is announced only when its attempt is durable: if the coordinator answers with a
  continuation, the store it leaves holds a run of the session that has processed this very leaf, and
  an index at the revision after the one the coordinator had read, which lists that run at this
  revision. The event id is assumed fresh, as a random UUID is.
\<close>

theorem continuation_durable:
  assumes "handle E sz sha io session leaf d = (d', CoordContinue context)"
    and "hi_eventId io \<notin> ev_eventId ` set (logged E d)"
  shows "\<exists>i i' r'. readIndex E (hi_indexDisk io) = Inr i \<and> idx_revision i' = Suc (idx_revision i) \<and>
    d_index d' = Some (stringify i') \<and> d_runs d' (run_runId r') = Some (stringify r') \<and>
    own_sessionId (run_owner r') = session \<and> cont_lastProcessedLeafId (run_continuation r') = Some leaf \<and>
    run_transactionRevision r' = Suc (idx_revision i) \<and>
    (\<exists>x\<in>set (idx_entries i'). ent_transactionRevision x = Suc (idx_revision i))"
proof -
  obtain root i s where h: "readIndex E (hi_indexDisk io) = Inr i" "cs_index s = i"
    "commit_decision E sz io root session i (decideContinuation session leaf s) d = (d', CoordContinue context)"
    by (rule handle_continueE [OF assms(1)])
  obtain r m st r' i' where c: "decideContinuation session leaf s = DecideContinue r context m"
    "commit E sz root (hi_entry io) ((hi_commit io)\<lparr>ci_ordered := False\<rparr>) d (decision_event i (hi_eventId io) (hi_nowIso io) r m None) =
       (d', CommitOk st r' i')"
    "idx_revision i' = Suc (idx_revision i)" "run_transactionRevision r' = Suc (idx_revision i)"
    "own_sessionId (run_owner r') = session"
    "\<exists>x\<in>set (idx_entries i'). ent_runId x = run_runId r \<and> ent_transactionRevision x = Suc (idx_revision i)"
    by (rule commit_decision_continueE [OF h(3)])
  have "ev_mutation (decision_event i (hi_eventId io) (hi_nowIso io) r m None) = ContinuationAttempted leaf (run_progressRevision r)"
    using decideContinuation_attempt [OF c(1)] by simp
  from commit_attempt_durable [OF c(2) this] assms(2) c h show ?thesis
    by (auto simp: decision_event_def)
qed

definition planned_disk :: disk where
  "planned_disk = fresh_disk\<lparr>d_index := Some (stringify (sample_index [planned_run])),
     d_runs := [run_runId planned_run \<mapsto> stringify planned_run],
     d_events := [(eventFileName creation, stringify creation)]\<rparr>"

definition smooth_handle :: handle_io where
  "smooth_handle = \<lparr>hi_validEntry = True, hi_root = Some sample_root, hi_validRoot = True,
     hi_indexDisk = planned_disk, hi_validIndex = True, hi_runsDisk = planned_disk, hi_validRuns = True,
     hi_authorityDisk = planned_disk, hi_validAuthorities = True,
     hi_readPlan = (\<lambda>_. PlanText (plan_template (sample_tasks False) [])), hi_validPlan = (\<lambda>_. True),
     hi_validDecision = True, hi_eventId = sample_uuid (CHR ''5''), hi_nowIso = ''t1'', hi_validEvent = True,
     hi_entry = open_entry, hi_commit = smooth_commit, hi_validCommitted = True\<rparr>"

lemma planned_observed: "parseStartWorkPlan constant_sha (plan_template (sample_tasks False) []) = planned_observation"
  by code_simp

lemma planned_read_index: "readIndex sample_env planned_disk = Inr (sample_index [planned_run])"
  by code_simp

lemma planned_load_runs:
  "load_runs sample_env sample_root planned_disk (idx_entries (sample_index [planned_run])) = Inr [planned_run]"
  by code_simp

lemma planned_authorities:
  "load_authorities sample_env sample_size planned_disk [planned_run] = Inr [(run_runId planned_run, EMPTY_RECEIPT_AUTHORITY)]"
  by code_simp

lemma planned_decides:
  "decideContinuation ''s1'' ''leaf'' \<lparr>cs_index = sample_index [planned_run], cs_runs = [planned_run],
     cs_plans = [(run_runId planned_run, planned_observation)],
     cs_authorities = [(run_runId planned_run, EMPTY_RECEIPT_AUTHORITY)]\<rparr> = planned_decision"
  by code_simp

lemmas planned_reads = planned_read_index planned_load_runs planned_authorities planned_decides

lemma smooth_handle_continues:
  "snd (handle sample_env sample_size constant_sha smooth_handle ''s1'' ''leaf'' planned_disk) =
     CoordContinue (startWorkContinuationContext ''T-1'')"
proof -
  have "filter (\<lambda>x. ent_sessionId x = ''s1'') (idx_entries (sample_index [planned_run])) = idx_entries (sample_index [planned_run])"
    by code_simp
  moreover have "observe_plans constant_sha (hi_readPlan smooth_handle) (hi_validPlan smooth_handle) [planned_run] =
      Scanned [(run_runId planned_run, planned_observation)]"
    by (simp add: smooth_handle_def planned_run_def planned_observed)
  moreover have "snd (commit_decision sample_env sample_size smooth_handle sample_root ''s1'' (sample_index [planned_run])
      planned_decision planned_disk) = CoordContinue (startWorkContinuationContext ''T-1'')"
    by code_simp
  moreover have "hi_validEntry smooth_handle" "hi_root smooth_handle = Some sample_root" "hi_validRoot smooth_handle"
    "hi_indexDisk smooth_handle = planned_disk" "hi_validIndex smooth_handle" "hi_runsDisk smooth_handle = planned_disk"
    "hi_validRuns smooth_handle" "hi_authorityDisk smooth_handle = planned_disk" "hi_validAuthorities smooth_handle"
    by (simp_all add: smooth_handle_def)
  ultimately show ?thesis
    by (simp add: handle_def planned_reads del: load_authorities.simps observe_plans.simps load_runs.simps)
qed

theorem continuation_durable_witness:
  "\<exists>r'. d_runs (fst (handle sample_env sample_size constant_sha smooth_handle ''s1'' ''leaf'' planned_disk)) (run_runId r') =
     Some (stringify r') \<and> cont_lastProcessedLeafId (run_continuation r') = Some ''leaf''"
proof -
  let ?h = "handle sample_env sample_size constant_sha smooth_handle ''s1'' ''leaf'' planned_disk"
  have h: "?h = (fst ?h, CoordContinue (startWorkContinuationContext ''T-1''))"
    using smooth_handle_continues by (simp add: prod_eq_iff)
  have "ev_eventId ` set (logged sample_env planned_disk) = {sample_uuid (CHR ''0'')}" by code_simp
  moreover have "hi_eventId smooth_handle \<noteq> sample_uuid (CHR ''0'')" by code_simp
  ultimately show ?thesis using continuation_durable [OF h] by auto
qed

section \<open>Attempts without progress\<close>

text \<open>
  A chain of continuations of one run with nothing in between: each is decided on some snapshot and
  committed; plans, ledgers and the rest of the index may change from one to the next.
\<close>

inductive idle_chain :: "run \<Rightarrow> nat \<Rightarrow> run \<Rightarrow> bool" where
  first: "idle_chain r 0 r"
| edge: "idle_chain r n r1 \<Longrightarrow> decideContinuation session leaf s = DecideContinue r1 context m \<Longrightarrow>
     prepareTransition (cs_index s) (Some r1) (decision_event (cs_index s) eid now r1 m None) authority = Inr p \<Longrightarrow>
     idle_chain r (Suc n) (prep_run p)"

inductive_cases idle_chain_SucE: "idle_chain r (Suc n) r'"

lemma attempt_effect:
  assumes "prepareTransition i (Some r) (decision_event i eid now r (ContinuationAttempted leaf k) None) authority = Inr p"
  shows "run_progressRevision (prep_run p) = run_progressRevision r \<and>
    cont_progressRevisionSeen (run_continuation (prep_run p)) = run_progressRevision r \<and>
    cont_noProgressAttempts (run_continuation (prep_run p)) =
      (if cont_progressRevisionSeen (run_continuation r) = run_progressRevision r
       then Suc (cont_noProgressAttempts (run_continuation r)) else 1)"
  using assms
  by (auto simp: prepareTransition_def next_run_def controlRun_def reduceRuntimeProgress_def attemptContinuation_def Let_def
      split: if_splits sum.splits option.splits)

lemma idle_chain_attempts:
  "idle_chain r n r' \<Longrightarrow> n \<noteq> 0 \<Longrightarrow>
     cont_progressRevisionSeen (run_continuation r') = run_progressRevision r' \<and>
     n \<le> cont_noProgressAttempts (run_continuation r') \<and> n \<le> 2"
proof (induction rule: idle_chain.induct)
  case (edge r n r1 session leaf s cxt m eid now authority p)
  note d = decideContinuation_attempt [OF edge.hyps(2)]
  then have eff: "run_progressRevision (prep_run p) = run_progressRevision r1 \<and>
    cont_progressRevisionSeen (run_continuation (prep_run p)) = run_progressRevision r1 \<and>
    cont_noProgressAttempts (run_continuation (prep_run p)) =
      (if cont_progressRevisionSeen (run_continuation r1) = run_progressRevision r1
       then Suc (cont_noProgressAttempts (run_continuation r1)) else 1)"
    using attempt_effect edge.hyps(3) by blast
  show ?case
  proof (cases "n = 0")
    case False
    with edge.IH d have "n < 2" by (auto simp: hasReachedNoProgressBound_def)
    with eff edge.IH False show ?thesis by auto
  qed (use eff in auto)
qed simp

text \<open>
  A run that makes no progress is continued at most twice in a row, whatever plans, ledgers and
  the rest of the index do meanwhile; after two continuations the bound is reached, so that the next
  idle edge stops the run instead.
\<close>

theorem no_progress_bounded:
  assumes "idle_chain r n r'"
  shows "n \<le> 2 \<and> (n = 2 \<longrightarrow> hasReachedNoProgressBound r')"
  using idle_chain_attempts [OF assms] by (cases "n = 0") (auto simp: hasReachedNoProgressBound_def)

text \<open>The idle edges of the sample run: the snapshot after \<open>n\<close> transactions and the run after an attempt.\<close>

definition edge_snapshot :: "run \<Rightarrow> nat \<Rightarrow> continuation_snapshot" where
  "edge_snapshot r n = planned_snapshot\<lparr>cs_index := \<lparr>idx_version = IndexV2 1, idx_revision = n,
     idx_entries = [entry_of_run r n HintActive]\<rparr>, cs_runs := [r]\<rparr>"

definition attempted :: "nat \<Rightarrow> string \<Rightarrow> run" where
  "attempted n leaf = planned_run\<lparr>run_revision := Suc n, run_transactionRevision := Suc n,
     run_continuation := \<lparr>cont_lastProcessedLeafId = Some leaf, cont_progressRevisionSeen = 1,
       cont_noProgressAttempts = n, cont_stuck = False\<rparr>\<rparr>"

definition after_attempt :: "run \<Rightarrow> nat \<Rightarrow> string \<Rightarrow> transition_error + prepared_transition" where
  "after_attempt r n leaf = prepareTransition (cs_index (edge_snapshot r n)) (Some r)
     (decision_event (cs_index (edge_snapshot r n)) (sample_uuid (CHR ''5'')) ''t1'' r (ContinuationAttempted leaf 1) None) None"

lemma not_isl_Inr: "isl x = False \<Longrightarrow> x = Inr (projr x)"
  by (cases x) auto

lemma chain_step:
  assumes "idle_chain planned_run n r" "isl (after_attempt r k leaf) = False" "prep_run (projr (after_attempt r k leaf)) = r'"
    and "decideContinuation ''s1'' leaf (edge_snapshot r k) = DecideContinue r cxt (ContinuationAttempted leaf 1)"
  shows "idle_chain planned_run (Suc n) r'"
  using idle_chain.edge [OF assms(1,4) not_isl_Inr [OF assms(2), unfolded after_attempt_def]] assms(3)
  by (simp add: after_attempt_def)

lemma chain_twice: "idle_chain planned_run 2 (attempted 2 ''leaf2'')"
proof -
  have "idle_chain planned_run (Suc 0) (attempted 1 ''leaf1'')"
    by (rule chain_step [OF idle_chain.first, of 1 "''leaf1''" _ "startWorkContinuationContext ''T-1''"]) code_simp+
  then have "idle_chain planned_run (Suc (Suc 0)) (attempted 2 ''leaf2'')"
    by (rule chain_step [of _ _ 2 "''leaf2''" _ "startWorkContinuationContext ''T-1''"]) code_simp+
  then show ?thesis by (simp add: numeral_2_eq_2)
qed

theorem no_progress_bounded_witness: "hasReachedNoProgressBound (attempted 2 ''leaf2'')"
  using no_progress_bounded [OF chain_twice] by simp

text \<open>
  C25. An idle run comes to rest: after two continuations without progress, the next idle edge with a
  new leaf stops an eligible start-work run for which the ledgers hold nothing, the committed run is
  stuck, and it is never continued in that state again, however often the session goes idle.
\<close>

theorem idle_run_comes_to_rest:
  assumes "idle_chain r 2 r'" "run_payload r' = StartPayload p" "resolveWorkflow s StartWork session = WorkflowFound r'"
    and "resolveWorkflow s UlwLoop session = WorkflowAbsent" "validateActiveIndex (cs_index s) = Inr ()"
    and "cont_lastProcessedLeafId (run_continuation r') \<noteq> Some leaf" "map_of (cs_plans s) (run_runId r') = Some observed"
    and "evaluateStartWorkContinuation p observed = Inr t" "exhaustedTaskId r' (authorityFor s r') = None"
    and "currentAcceptance r' (authorityFor s r') t = None"
  shows "decideContinuation session leaf s = DecideStuck r' (ContinuationStuck leaf) \<and>
    (\<forall>q authority. prepareTransition (cs_index s) (Some r')
         (decision_event (cs_index s) eid now r' (ContinuationStuck leaf) None) authority = Inr q \<longrightarrow>
       run_status_of (prep_run q) = Stuck \<and>
       (\<forall>s' leaf' context m. decideContinuation session leaf' s' \<noteq> DecideContinue (prep_run q) context m))"
proof -
  have bound: "hasReachedNoProgressBound r'"
    using idle_chain_attempts [OF assms(1)] by (simp add: hasReachedNoProgressBound_def)
  have dec: "decideContinuation session leaf s = DecideStuck r' (ContinuationStuck leaf)"
    using assms bound by (simp add: decideContinuation_def decide_start_def Let_def)
  have stuck: "run_status_of (prep_run q) = Stuck \<and> hasReachedNoProgressBound (prep_run q)"
    if "prepareTransition (cs_index s) (Some r') (decision_event (cs_index s) eid now r' (ContinuationStuck leaf) None) authority = Inr q"
    for q authority
    using that bound assms(2)
    by (auto simp: prepareTransition_def next_run_def controlRun_def progress_defs run_status_of_def hasReachedNoProgressBound_def
        split: if_splits sum.splits option.splits)
  show ?thesis using dec stuck decideContinuation_attempt by blast
qed

theorem idle_run_comes_to_rest_witness:
  "decideContinuation ''s1'' ''leaf3'' (edge_snapshot (attempted 2 ''leaf2'') 3) = DecideStuck (attempted 2 ''leaf2'') (ContinuationStuck ''leaf3'')"
proof -
  have sw: "run_payload (attempted 2 ''leaf2'') = run_payload planned_run"
    "cont_lastProcessedLeafId (run_continuation (attempted 2 ''leaf2'')) \<noteq> Some ''leaf3''"
    "resolveWorkflow (edge_snapshot (attempted 2 ''leaf2'') 3) StartWork ''s1'' = WorkflowFound (attempted 2 ''leaf2'')"
    "resolveWorkflow (edge_snapshot (attempted 2 ''leaf2'') 3) UlwLoop ''s1'' = WorkflowAbsent"
    "validateActiveIndex (cs_index (edge_snapshot (attempted 2 ''leaf2'') 3)) = Inr ()" by code_simp+
  have plan: "map_of (cs_plans (edge_snapshot (attempted 2 ''leaf2'') 3)) (run_runId (attempted 2 ''leaf2'')) =
      Some planned_observation"
    "exhaustedTaskId (attempted 2 ''leaf2'') (authorityFor (edge_snapshot (attempted 2 ''leaf2'') 3) (attempted 2 ''leaf2'')) = None"
    "currentAcceptance (attempted 2 ''leaf2'') (authorityFor (edge_snapshot (attempted 2 ''leaf2'') 3) (attempted 2 ''leaf2'')) ''T-1'' = None" by code_simp+
  have eligible: "evaluateStartWorkContinuation \<lparr>sw_status = Active, sw_plan = sample_plan\<lparr>plan_taskIds := [''T-1'', ''T-2'']\<rparr>\<rparr>
      planned_observation = Inr ''T-1''" by code_simp
  from idle_run_comes_to_rest [OF chain_twice _ sw(3-5,2) plan(1) eligible plan(2,3)] sw(1) show ?thesis
    by (simp add: planned_run_def attempted_def)
qed

section \<open>The budget of announcements\<close>

text \<open>
  A counter file is consistent when it is stored under the session it names. A stop of the session is
  counted when its run and turn are the ones in question, the counter file can be read, and its
  replacement succeeds.
\<close>

definition consistent_counter :: "counter_files \<Rightarrow> string \<Rightarrow> bool" where
  "consistent_counter files session \<longleftrightarrow> (\<forall>c. files session = Some (Json c) \<longrightarrow> cc_sessionId c = session)"

definition counter_of :: "counter_files \<Rightarrow> string \<Rightarrow> continuation_counter option" where
  "counter_of files session = (case files session of Some (Json c) \<Rightarrow> Some c | _ \<Rightarrow> None)"

definition counted_stop :: "host_env \<Rightarrow> string \<Rightarrow> string \<Rightarrow> int \<Rightarrow> stop_io \<times> session_stop_input \<Rightarrow> bool" where
  "counted_stop E session runId turnId = (\<lambda>(io, s). ss_sessionId s = session \<and> ss_diagnosticTurnId s = turnId \<and>
     so_counterReadable io \<and> smooth (so_counterWrite io) \<and>
     (\<forall>i. readIndex E (so_budgetDisk io) = Inr i \<longrightarrow> effective_run i session = runId))"

lemma incrementCounter_session:
  "(\<And>c. existing = Some c \<Longrightarrow> cc_sessionId c = session) \<Longrightarrow> cc_sessionId (incrementCounter existing session runId turnId) = session"
  "(\<And>c. existing = Some c \<Longrightarrow> cc_sessionId c = session) \<Longrightarrow> cc_sessionId (exhaustedCounter existing session runId turnId) = session"
  by (auto simp: incrementCounter_def exhaustedCounter_def split: option.splits)

lemma exhausted_recorded:
  "\<not> checkBudget c runId turnId \<Longrightarrow> recorded runId turnId (Some (exhaustedCounter c session runId turnId)) = recorded runId turnId c"
  by (auto simp: checkBudget_def exhaustedCounter_def recorded_def split: option.splits if_splits)

text \<open>One stop: the counter is unchanged in value or records one more, and an announcement records one more.\<close>

lemma spend_budget_step:
  assumes ok: "counted_stop E session runId turnId (io, s)" and cons: "consistent_counter files session"
    and step: "spend_budget E io s cxt files = (files', res)"
  shows "consistent_counter files' session \<and>
    recorded runId turnId (counter_of files session) \<le> recorded runId turnId (counter_of files' session) \<and>
    (\<forall>text. res = StopContinue text \<longrightarrow> checkBudget (counter_of files session) runId turnId \<and>
       recorded runId turnId (counter_of files' session) = Suc (recorded runId turnId (counter_of files session)))"
proof (cases "files' = files \<and> (\<forall>text. res \<noteq> StopContinue text)")
  case True
  with cons show ?thesis by simp
next
  case False
  define c where "c = counter_of files session"
  have sess: "c = Some k \<Longrightarrow> cc_sessionId k = session" for k
    using cons by (auto simp: c_def counter_of_def consistent_counter_def split: option.splits file_bytes.splits)
  from False step ok have valid: "isValidLifecycleId session"
    and idx: "\<exists>i. readIndex E (so_budgetDisk io) = Inr i \<and> effective_run i session = runId"
    by (auto simp: spend_budget_def counted_stop_def readContinuationCounter_def Let_def
        split: option.splits if_splits sum.splits)
  define k where "k = (if checkBudget c runId turnId then incrementCounter c session runId turnId
      else exhaustedCounter c session runId turnId)"
  have k: "cc_sessionId k = session" unfolding k_def using incrementCounter_session sess by auto
  then have w: "writeContinuationCounter (so_counterWrite io) files k = (files(session := Some (stringify k)), Some Published)"
    using ok valid by (simp add: writeContinuationCounter_def counted_stop_def atomicReplace_smooth)
  have f: "files' = files(session := Some (stringify k)) \<and> (\<forall>text. res = StopContinue text \<longrightarrow> checkBudget c runId turnId)"
    using False step ok valid idx w
    by (auto simp: spend_budget_def counted_stop_def readContinuationCounter_def Let_def k_def c_def counter_of_def emit_continuation_def
        split: option.splits if_splits sum.splits file_bytes.splits)
  have "recorded runId turnId (Some k) = (if checkBudget c runId turnId then Suc (recorded runId turnId c) else recorded runId turnId c)"
    by (simp add: k_def idle_budget.used_record exhausted_recorded)
  then show ?thesis
    using f k by (auto simp: consistent_counter_def counter_of_def c_def)
qed

lemma handleSessionStop_step:
  assumes "handleSessionStop E sz sha True io s (d, files) = ((d', files'), res)"
  shows "files' = files \<and> (\<forall>text. res \<noteq> StopContinue text) \<or> (\<exists>cxt. spend_budget E io s cxt files = (files', res))"
  using assms unfolding handleSessionStop_def
  by (auto split: if_splits prod.splits coordinator_result.splits)

text \<open>How many continuations a sequence of stops announces.\<close>

fun announced ::
    "host_env \<Rightarrow> (acceptance_event file_bytes \<Rightarrow> nat) \<Rightarrow> (string \<Rightarrow> string) \<Rightarrow> (stop_io \<times> session_stop_input) list \<Rightarrow>
       disk \<times> counter_files \<Rightarrow> nat" where
  "announced E sz sha [] state = 0"
| "announced E sz sha ((io, s) # stops) state =
     (case handleSessionStop E sz sha True io s state of
        (state', StopContinue _) \<Rightarrow> Suc (announced E sz sha stops state')
      | (state', _) \<Rightarrow> announced E sz sha stops state')"

text \<open>
  The budget of announcements: however often a session stops during one turn with one active run,
  and whatever the store and the host do otherwise, at most eight continuations are announced, and
  fewer when the counter of the session already records some, as long as the counter file is readable
  and its replacement succeeds.
\<close>

theorem announcements_bounded:
  assumes "list_all (counted_stop E session runId turnId) stops" "consistent_counter files session"
  shows "announced E sz sha stops (d, files) \<le> MAX_IDLE_CONTINUATIONS - recorded runId turnId (counter_of files session)"
  using assms
proof (induction stops arbitrary: d files)
  case (Cons x stops)
  obtain io s where x: "x = (io, s)" by fastforce
  obtain d' files' res where h: "handleSessionStop E sz sha True io s (d, files) = ((d', files'), res)"
    by (metis surj_pair)
  let ?n = "recorded runId turnId (counter_of files session)" and ?n' = "recorded runId turnId (counter_of files' session)"
  have step: "consistent_counter files' session \<and> ?n \<le> ?n' \<and> (\<forall>text. res = StopContinue text \<longrightarrow> ?n < MAX_IDLE_CONTINUATIONS \<and> ?n' = Suc ?n)"
    using handleSessionStop_step [OF h]
  proof
    assume "\<exists>cxt. spend_budget E io s cxt files = (files', res)"
    with spend_budget_step [of E session runId turnId io s files _ files' res] Cons.prems x
    show ?thesis by (auto simp: idle_budget.allowed_iff)
  qed (use Cons.prems in auto)
  then have "announced E sz sha stops (d', files') \<le> MAX_IDLE_CONTINUATIONS - ?n'"
    using Cons.IH Cons.prems(1) by simp
  with step show ?case by (auto simp: x h split: stop_result.splits)
qed simp

definition sample_stop :: stop_io where
  "sample_stop = \<lparr>so_validEntry = True, so_handle = smooth_handle, so_validHandled = True,
     so_budgetRoot = Some sample_root, so_validBudgetRoot = True, so_budgetDisk = planned_disk,
     so_validRunId = True, so_counterReadable = True, so_validCounter = True, so_counterWrite = smooth_write,
     so_validWritten = True, so_suppressThrows = False, so_validSuppressed = True\<rparr>"

definition sample_stop_input :: session_stop_input where
  "sample_stop_input = \<lparr>ss_contextPercent = Percent 10000, ss_contextSessionId = ''s1'', ss_diagnosticTurnId = 7,
     ss_leafId = Some ''leaf'', ss_sessionId = ''s1'', ss_stopHookActive = False\<rparr>"

definition full_counter :: continuation_counter where
  "full_counter = \<lparr>cc_sessionId = ''s1'', cc_runId = run_runId planned_run, cc_turnId = 7, cc_count = 8, cc_exhausted = False\<rparr>"

theorem announcements_bounded_witness:
  "announced sample_env sample_size constant_sha [(sample_stop, sample_stop_input)]
     (planned_disk, [''s1'' \<mapsto> stringify full_counter]) = 0"
proof -
  have "effective_run (sample_index [planned_run]) ''s1'' = run_runId planned_run" by code_simp
  then have "counted_stop sample_env ''s1'' (run_runId planned_run) 7 (sample_stop, sample_stop_input)"
    by (simp add: counted_stop_def sample_stop_def sample_stop_input_def planned_read_index smooth_def smooth_write_def)
  with announcements_bounded [of sample_env "''s1''" "run_runId planned_run" 7 "[(sample_stop, sample_stop_input)]"
      "[''s1'' \<mapsto> stringify full_counter]" sample_size constant_sha planned_disk]
  show ?thesis
    by (simp add: consistent_counter_def counter_of_def full_counter_def recorded_def MAX_IDLE_CONTINUATIONS_def)
qed

section \<open>The deadline\<close>

lemma apply_fence_call_dead: "\<not> df_live f \<Longrightarrow> \<not> df_live (apply_fence_call c f)"
  by (cases c) (auto simp: remainingMs_def isValid_def assertValid_def invalidate_def Let_def)

lemma fence_dead_forever: "\<not> df_live f \<Longrightarrow> \<not> df_live (fold apply_fence_call cs f)"
  by (induction cs arbitrary: f) (auto dest: apply_fence_call_dead)

text \<open>
  A fence never revives: once it has answered that it is not valid, or has been invalidated, every
  later check fails, whatever is called in between and even if the clock runs backwards.
\<close>

theorem fence_never_revives:
  assumes "\<not> fst (isValid now f) \<or> f = invalidate f0"
  shows "\<not> fst (isValid later (fold apply_fence_call cs (snd (isValid now f))))"
proof -
  have "\<not> df_live (snd (isValid now f))"
    using assms by (auto simp: isValid_def remainingMs_def invalidate_def Let_def split: if_splits)
  from fence_dead_forever [OF this, of cs] show ?thesis by (simp add: isValid_def remainingMs_def)
qed

theorem fence_never_revives_witness:
  "\<not> fst (isValid 0 (fold apply_fence_call [CallRemaining 1] (snd (isValid 5000 (createDeadlineFence 2000 0)))))"
  by (rule fence_never_revives) code_simp

end
