(* ===== verification/Task_Packet.thy ===== *)
theory Task_Packet
  imports State_Decode "HOL-Library.Char_ord" "HOL-Library.List_Lexorder"
begin

text \<open>
  Task packets (\<^verbatim>\<open>src/contracts/task-packet.ts\<close>, \<^verbatim>\<open>src/contracts/task-packet-canonical.ts\<close>): the tiers
  and their budgets, the packet schema with its refinements, the canonical form and its JSON text,
  and the compilation of a packet. NFC normalisation is the identity on the characters of the model,
  and SHA-256 is a parameter.
\<close>

section \<open>Ordinal strings and canonical JSON\<close>

fun compareOrdinalStrings :: "string \<Rightarrow> string \<Rightarrow> int" where
  "compareOrdinalStrings (a # s) (b # t) =
     (let difference = int (of_char a) - int (of_char b)
      in if difference \<noteq> 0 then difference else compareOrdinalStrings s t)"
| "compareOrdinalStrings s t = int (length s) - int (length t)"

text \<open>
  \<^verbatim>\<open>sort\<close> with this comparison is the sort of the lexicographic order on strings: see
  \<open>compareOrdinalStrings_less\<close> below.
\<close>

definition sortedStrings :: "string list \<Rightarrow> string list" where
  "sortedStrings values = sort values"

definition sortedUniqueStrings :: "string list \<Rightarrow> bool" where
  "sortedUniqueStrings values \<longleftrightarrow>
     list_all (\<lambda>(previous, value). compareOrdinalStrings previous value < 0) (zip values (tl values))"

definition sameStringSet :: "string list \<Rightarrow> string list \<Rightarrow> bool" where
  "sameStringSet left right \<longleftrightarrow>
     (let leftMembers = remdups left; rightMembers = remdups right
      in length leftMembers = length rightMembers \<and> list_all (\<lambda>m. List.member rightMembers m) leftMembers)"

datatype json = JNull | JBool bool | JNum nat | JStr string | JArr "json list" | JObj "(string \<times> json) list"

definition hex_digit :: "nat \<Rightarrow> char" where
  "hex_digit n = ''0123456789abcdef'' ! n"

definition json_char :: "char \<Rightarrow> string" where
  "json_char c =
     (let n = of_char c :: nat
      in if c = CHR 0x22 then [CHR 0x5C, CHR 0x22]
         else if c = CHR 0x5C then [CHR 0x5C, CHR 0x5C]
         else if c = CHR 0x08 then [CHR 0x5C, CHR ''b'']
         else if c = CHR 0x0C then [CHR 0x5C, CHR ''f'']
         else if c = CHR 0x0A then [CHR 0x5C, CHR ''n'']
         else if c = CHR 0x0D then [CHR 0x5C, CHR ''r'']
         else if c = CHR 0x09 then [CHR 0x5C, CHR ''t'']
         else if n < 32 then [CHR 0x5C, CHR ''u'', CHR ''0'', CHR ''0'', hex_digit (n div 16), hex_digit (n mod 16)]
         else [c])"

definition json_string :: "string \<Rightarrow> string" where
  "json_string s = CHR 0x22 # concat (map json_char s) @ [CHR 0x22]"

fun join_with :: "string \<Rightarrow> string list \<Rightarrow> string" where
  "join_with sep [] = []"
| "join_with sep [x] = x"
| "join_with sep (x # y # xs) = x @ sep @ join_with sep (y # xs)"

fun canonicalJson :: "json \<Rightarrow> string" where
  "canonicalJson JNull = ''null''"
| "canonicalJson (JBool b) = (if b then ''true'' else ''false'')"
| "canonicalJson (JNum n) = decimal n"
| "canonicalJson (JStr s) = json_string s"
| "canonicalJson (JArr vs) = ''['' @ join_with '','' (map canonicalJson vs) @ '']''"
| "canonicalJson (JObj kvs) = ''{'' @ join_with '',''
     (map snd (sort_key fst (map (\<lambda>(k, v). (k, json_string k @ '':'' @ canonicalJson v)) kvs))) @ ''}''"

text \<open>The length of a text in UTF-8.\<close>

definition byteLength :: "string \<Rightarrow> nat" where
  "byteLength s = sum_list (map (\<lambda>c. if (of_char c :: nat) < 128 then 1 else 2) s)"

section \<open>Paths\<close>

fun split_on :: "char \<Rightarrow> string \<Rightarrow> string list" where
  "split_on sep [] = [[]]"
| "split_on sep (c # s) =
     (if c = sep then [] # split_on sep s
      else case split_on sep s of [] \<Rightarrow> [[c]] | l # ls \<Rightarrow> (c # l) # ls)"

definition is_letter :: "char \<Rightarrow> bool" where
  "is_letter c \<longleftrightarrow> c \<in> set ''ABCDEFGHIJKLMNOPQRSTUVWXYZabcdefghijklmnopqrstuvwxyz''"

definition is_separator :: "char \<Rightarrow> bool" where
  "is_separator c \<longleftrightarrow> c = CHR ''/'' \<or> c = CHR 0x5C"

text \<open>\<^verbatim>\<open>isAbsolute\<close> of the platform.\<close>

definition isAbsolute :: "host_env \<Rightarrow> string \<Rightarrow> bool" where
  "isAbsolute E p = (if is_win32 E
     then (case p of
             [] \<Rightarrow> False
           | c # s \<Rightarrow> is_separator c \<or>
               is_letter c \<and> (case s of d # e # _ \<Rightarrow> d = CHR '':'' \<and> is_separator e | _ \<Rightarrow> False))
     else take 1 p = ''/'')"

text \<open>\<^verbatim>\<open>posix.normalize\<close>: the segments that remain, latest first, and the text they make.\<close>

fun normalize_segment :: "bool \<Rightarrow> string list \<Rightarrow> string \<Rightarrow> string list" where
  "normalize_segment absolute acc seg =
     (if seg = [] \<or> seg = ''.'' then acc
      else if seg = ''..'' then
        (case acc of
           [] \<Rightarrow> if absolute then [] else [''..'']
         | latest # rest \<Rightarrow> if latest = ''..'' then ''..'' # acc else rest)
      else seg # acc)"

definition posix_normalize :: "string \<Rightarrow> string" where
  "posix_normalize p =
     (if p = [] then ''.''
      else let absolute = (hd p = CHR ''/''); trailing = (last p = CHR ''/'');
               path = join_with ''/'' (rev (foldl (normalize_segment absolute) [] (split_on (CHR ''/'') p)))
           in if path = [] then (if absolute then ''/'' else if trailing then ''./'' else ''.'')
              else (if absolute then ''/'' else []) @ path @ (if trailing then ''/'' else []))"

definition forward_slashes :: "string \<Rightarrow> string" where
  "forward_slashes p = map (\<lambda>c. if c = CHR 0x5C then CHR ''/'' else c) p"

definition repository_relative :: "host_env \<Rightarrow> string \<Rightarrow> bool" where
  "repository_relative E p \<longleftrightarrow> forward_slashes p = p \<and> \<not> isAbsolute E p \<and> take 1 p \<noteq> ''/'' \<and>
     ''..'' \<notin> set (split_on (CHR ''/'') p) \<and> posix_normalize p = p"

definition canonicalPath :: "host_env \<Rightarrow> string \<Rightarrow> string option" where
  "canonicalPath E p = (if p \<noteq> [] \<and> length p \<le> 512 \<and> repository_relative E p then Some p else None)"

section \<open>Tiers and packets\<close>

record tier_budget =
  maxCalls :: nat
  maxPacketBytes :: nat
  maxRetrievalCalls :: nat
  maxRetrievalBytes :: nat

fun TierBudgets :: "task_tier \<Rightarrow> tier_budget" where
  "TierBudgets FAST = \<lparr>maxCalls = 3, maxPacketBytes = 4096, maxRetrievalCalls = 4, maxRetrievalBytes = 16384\<rparr>"
| "TierBudgets STANDARD = \<lparr>maxCalls = 11, maxPacketBytes = 8192, maxRetrievalCalls = 10, maxRetrievalBytes = 65536\<rparr>"
| "TierBudgets DEEP = \<lparr>maxCalls = 28, maxPacketBytes = 12288, maxRetrievalCalls = 20, maxRetrievalBytes = 163840\<rparr>"

datatype boundary_tag =
    TagNone | TagUnknown | TagAuthorization | TagContainment | TagExternalWrite | TagNetwork
  | TagPrivacy | TagSecurity

fun tag_name :: "boundary_tag \<Rightarrow> string" where
  "tag_name TagNone = ''none''"
| "tag_name TagUnknown = ''unknown''"
| "tag_name TagAuthorization = ''authorization''"
| "tag_name TagContainment = ''containment''"
| "tag_name TagExternalWrite = ''external_write''"
| "tag_name TagNetwork = ''network''"
| "tag_name TagPrivacy = ''privacy''"
| "tag_name TagSecurity = ''security''"

definition all_tags :: "boundary_tag list" where
  "all_tags = [TagNone, TagUnknown, TagAuthorization, TagContainment, TagExternalWrite, TagNetwork,
     TagPrivacy, TagSecurity]"

record packet_criterion =
  pc_id :: string
  pc_scenario :: string
  pc_observable :: string
  pc_expected :: string
  pc_evidenceLogicalId :: string

datatype evidence_kind = EvArtifact | EvTest | EvCleanup | EvCitation

record evidence_requirement =
  er_logicalId :: string
  er_kind :: evidence_kind
  er_required :: bool

text \<open>A packet, over the type of its boundary tags: texts in an input, tags in a packet.\<close>

record 'tag packet_base =
  tp_runId :: string
  tp_taskId :: string
  tp_generation :: nat
  tp_objective :: string
  tp_deliverable :: string
  tp_allowedPaths :: "string list"
  tp_referenceIds :: "string list"
  tp_dependencyIds :: "string list"
  tp_criteria :: "packet_criterion list"
  tp_boundaryTags :: "'tag list"
  tp_publicBehavior :: bool
  tp_tier :: task_tier
  tp_budgets :: tier_budget
  tp_evidenceRequirements :: "evidence_requirement list"

type_synonym task_packet = "boundary_tag packet_base"
type_synonym task_packet_input = "string packet_base"

definition bounded_text :: "nat \<Rightarrow> string \<Rightarrow> string option" where
  "bounded_text n s = (let t = js_trim s in if t = [] \<or> n < length t then None else Some t)"

definition bounded_array :: "nat \<Rightarrow> nat \<Rightarrow> ('a \<Rightarrow> 'a option) \<Rightarrow> 'a list \<Rightarrow> 'a list option" where
  "bounded_array least most p xs = (if least \<le> length xs \<and> length xs \<le> most then array_of p xs else None)"

definition packetCriterionSchema :: "packet_criterion \<Rightarrow> packet_criterion option" where
  "packetCriterionSchema c = do {
     i \<leftarrow> bounded_text 160 (pc_id c);
     s \<leftarrow> bounded_text 1024 (pc_scenario c);
     ob \<leftarrow> bounded_text 1024 (pc_observable c);
     ex \<leftarrow> bounded_text 1024 (pc_expected c);
     ev \<leftarrow> bounded_text 160 (pc_evidenceLogicalId c);
     Some \<lparr>pc_id = i, pc_scenario = s, pc_observable = ob, pc_expected = ex, pc_evidenceLogicalId = ev\<rparr> }"

definition evidenceRequirementSchema :: "evidence_requirement \<Rightarrow> evidence_requirement option" where
  "evidenceRequirementSchema r = do {
     i \<leftarrow> bounded_text 160 (er_logicalId r);
     Some (r\<lparr>er_logicalId := i\<rparr>) }"

definition tierBudgetSchema :: "tier_budget \<Rightarrow> tier_budget option" where
  "tierBudgetSchema b = do {
     _ \<leftarrow> counter_positive (maxCalls b);
     _ \<leftarrow> counter_positive (maxPacketBytes b);
     _ \<leftarrow> counter (maxRetrievalCalls b);
     _ \<leftarrow> counter (maxRetrievalBytes b);
     Some b }"

definition taskPacketBaseSchema ::
    "host_env \<Rightarrow> ('tag list \<Rightarrow> 'tag list option) \<Rightarrow> 'tag packet_base \<Rightarrow> 'tag packet_base option" where
  "taskPacketBaseSchema E tagSchema p = do {
     runId \<leftarrow> bounded_text 160 (tp_runId p);
     taskId \<leftarrow> bounded_text 160 (tp_taskId p);
     _ \<leftarrow> counter_positive (tp_generation p);
     objective \<leftarrow> bounded_text 12288 (tp_objective p);
     deliverable \<leftarrow> bounded_text 12288 (tp_deliverable p);
     allowedPaths \<leftarrow> bounded_array 0 64 (canonicalPath E) (tp_allowedPaths p);
     referenceIds \<leftarrow> bounded_array 0 64 (bounded_text 160) (tp_referenceIds p);
     dependencyIds \<leftarrow> bounded_array 0 32 (bounded_text 160) (tp_dependencyIds p);
     criteria \<leftarrow> bounded_array 1 6 packetCriterionSchema (tp_criteria p);
     boundaryTags \<leftarrow> tagSchema (tp_boundaryTags p);
     budgets \<leftarrow> tierBudgetSchema (tp_budgets p);
     evidence \<leftarrow> bounded_array 1 12 evidenceRequirementSchema (tp_evidenceRequirements p);
     Some (p\<lparr>tp_runId := runId, tp_taskId := taskId, tp_objective := objective, tp_deliverable := deliverable,
       tp_allowedPaths := allowedPaths, tp_referenceIds := referenceIds, tp_dependencyIds := dependencyIds,
       tp_criteria := criteria, tp_boundaryTags := boundaryTags, tp_budgets := budgets,
       tp_evidenceRequirements := evidence\<rparr>) }"

definition tierMatchesBudget :: "task_tier \<Rightarrow> tier_budget \<Rightarrow> bool" where
  "tierMatchesBudget tier budget \<longleftrightarrow>
     maxCalls budget = maxCalls (TierBudgets tier) \<and> maxPacketBytes budget = maxPacketBytes (TierBudgets tier) \<and>
     maxRetrievalCalls budget = maxRetrievalCalls (TierBudgets tier) \<and>
     maxRetrievalBytes budget = maxRetrievalBytes (TierBudgets tier)"

definition concrete_tag :: "boundary_tag \<Rightarrow> bool" where
  "concrete_tag t \<longleftrightarrow> t \<noteq> TagNone \<and> t \<noteq> TagUnknown"

definition classifyTaskTier :: "string list \<Rightarrow> boundary_tag list \<Rightarrow> bool \<Rightarrow> task_tier" where
  "classifyTaskTier allowedPaths boundaryTags publicBehavior =
     (if list_ex concrete_tag boundaryTags \<or> 8 < length allowedPaths then DEEP
      else if List.member boundaryTags TagUnknown \<or> 3 \<le> length allowedPaths \<or> publicBehavior then STANDARD
      else FAST)"

definition packet_refinement :: "task_packet \<Rightarrow> bool" where
  "packet_refinement p \<longleftrightarrow>
     distinct (tp_allowedPaths p) \<and> distinct (tp_referenceIds p) \<and> distinct (tp_boundaryTags p) \<and>
     sortedUniqueStrings (tp_allowedPaths p) \<and> sortedUniqueStrings (tp_referenceIds p) \<and>
     sortedUniqueStrings (map tag_name (tp_boundaryTags p)) \<and>
     distinct (tp_dependencyIds p) \<and> distinct (map pc_id (tp_criteria p)) \<and>
     distinct (map er_logicalId (tp_evidenceRequirements p)) \<and>
     (List.member (tp_boundaryTags p) TagNone \<longrightarrow> length (tp_boundaryTags p) = 1) \<and>
     sameStringSet (map pc_evidenceLogicalId (tp_criteria p))
       (map er_logicalId (filter er_required (tp_evidenceRequirements p))) \<and>
     tierMatchesBudget (tp_tier p) (tp_budgets p) \<and>
     classifyTaskTier (tp_allowedPaths p) (tp_boundaryTags p) (tp_publicBehavior p) = tp_tier p"

definition tag_array :: "'a list \<Rightarrow> 'a list option" where
  "tag_array ts = (if 1 \<le> length ts \<and> length ts \<le> 8 then Some ts else None)"

definition TaskPacketSchema :: "host_env \<Rightarrow> task_packet \<Rightarrow> task_packet option" where
  "TaskPacketSchema E p = do {
     q \<leftarrow> taskPacketBaseSchema E tag_array p;
     if packet_refinement q then Some q else None }"

definition taskPacketInputSchema :: "host_env \<Rightarrow> task_packet_input \<Rightarrow> task_packet_input option" where
  "taskPacketInputSchema E = taskPacketBaseSchema E (bounded_array 1 8 (bounded_text 1024))"

section \<open>Compilation\<close>

text \<open>Lower case of the letters of the model, as in \<^verbatim>\<open>toLowerCase\<close>.\<close>

definition normalizeTag :: "string \<Rightarrow> boundary_tag option" where
  "normalizeTag value =
     (let candidate = map (\<lambda>c. if c = CHR ''-'' then CHR ''_'' else c) (map js_lower (js_trim value))
      in List.find (\<lambda>t. tag_name t = candidate) all_tags)"

definition sort_tags :: "boundary_tag list \<Rightarrow> boundary_tag list" where
  "sort_tags ts = sort_key tag_name ts"

definition canonicalPacket :: "host_env \<Rightarrow> task_packet_input \<Rightarrow> task_packet option" where
  "canonicalPacket E inp = (case those (map normalizeTag (tp_boundaryTags inp)) of
     None \<Rightarrow> None
   | Some tags \<Rightarrow>
     (let concrete = filter concrete_tag tags;
          boundaryTags = sort_tags (if concrete \<noteq> [] then concrete else tags)
      in TaskPacketSchema E \<lparr>tp_runId = tp_runId inp, tp_taskId = tp_taskId inp, tp_generation = tp_generation inp,
           tp_objective = tp_objective inp, tp_deliverable = tp_deliverable inp,
           tp_allowedPaths = sortedStrings (tp_allowedPaths inp),
           tp_referenceIds = sortedStrings (tp_referenceIds inp),
           tp_dependencyIds = tp_dependencyIds inp, tp_criteria = tp_criteria inp, tp_boundaryTags = boundaryTags,
           tp_publicBehavior = tp_publicBehavior inp, tp_tier = tp_tier inp, tp_budgets = tp_budgets inp,
           tp_evidenceRequirements = sort_key er_logicalId (tp_evidenceRequirements inp)\<rparr>))"

fun tier_name :: "task_tier \<Rightarrow> string" where
  "tier_name FAST = ''FAST''"
| "tier_name STANDARD = ''STANDARD''"
| "tier_name DEEP = ''DEEP''"

fun evidence_kind_name :: "evidence_kind \<Rightarrow> string" where
  "evidence_kind_name EvArtifact = ''artifact''"
| "evidence_kind_name EvTest = ''test''"
| "evidence_kind_name EvCleanup = ''cleanup''"
| "evidence_kind_name EvCitation = ''citation''"

definition criterion_json :: "packet_criterion \<Rightarrow> json" where
  "criterion_json c = JObj [(''id'', JStr (pc_id c)), (''scenario'', JStr (pc_scenario c)),
        (''observable'', JStr (pc_observable c)), (''expected'', JStr (pc_expected c)),
        (''evidenceLogicalId'', JStr (pc_evidenceLogicalId c))]"

definition requirement_json :: "evidence_requirement \<Rightarrow> json" where
  "requirement_json r = JObj [(''logicalId'', JStr (er_logicalId r)),
        (''kind'', JStr (evidence_kind_name (er_kind r))), (''required'', JBool (er_required r))]"

definition budget_json :: "tier_budget \<Rightarrow> json" where
  "budget_json b = JObj [(''maxCalls'', JNum (maxCalls b)), (''maxPacketBytes'', JNum (maxPacketBytes b)),
     (''maxRetrievalCalls'', JNum (maxRetrievalCalls b)), (''maxRetrievalBytes'', JNum (maxRetrievalBytes b))]"

definition packet_json :: "task_packet \<Rightarrow> json" where
  "packet_json p = JObj [(''version'', JNum 1), (''runId'', JStr (tp_runId p)), (''taskId'', JStr (tp_taskId p)),
     (''generation'', JNum (tp_generation p)), (''objective'', JStr (tp_objective p)),
     (''deliverable'', JStr (tp_deliverable p)), (''allowedPaths'', JArr (map JStr (tp_allowedPaths p))),
     (''referenceIds'', JArr (map JStr (tp_referenceIds p))), (''dependencyIds'', JArr (map JStr (tp_dependencyIds p))),
     (''criteria'', JArr (map criterion_json (tp_criteria p))),
     (''boundaryTags'', JArr (map (\<lambda>t. JStr (tag_name t)) (tp_boundaryTags p))),
     (''publicBehavior'', JBool (tp_publicBehavior p)), (''tier'', JStr (tier_name (tp_tier p))),
     (''budgets'', budget_json (tp_budgets p)),
     (''evidenceRequirements'', JArr (map requirement_json (tp_evidenceRequirements p)))]"

record compiled_packet =
  cp_packet :: task_packet
  cp_canonicalJson :: string
  cp_packetHash :: string
  cp_packetBytes :: nat

datatype packet_error = MalformedPacket | PacketBudgetExceeded

definition compileTaskPacket ::
    "host_env \<Rightarrow> (string \<Rightarrow> string) \<Rightarrow> task_packet_input \<Rightarrow> packet_error + compiled_packet" where
  "compileTaskPacket E sha inp =
     (case Option.bind (taskPacketInputSchema E inp) (canonicalPacket E) of
        None \<Rightarrow> Inl MalformedPacket
      | Some packet \<Rightarrow>
        (let text = canonicalJson (packet_json packet); bytes = byteLength text
         in if maxPacketBytes (tp_budgets packet) < bytes then Inl PacketBudgetExceeded
            else Inr \<lparr>cp_packet = packet, cp_canonicalJson = text, cp_packetHash = sha text, cp_packetBytes = bytes\<rparr>))"

end
