(* ===== verification/Packet_Properties.thy ===== *)
theory Packet_Properties
  imports Task_Packet Sample_State "HOL-Library.Multiset" "HOL-Library.Code_Target_Nat"
begin

text \<open>
  Correctness of task packets: the order behind the sorted arrays, that the canonical text
  determines the packet, that compilation does not depend on the order of the input, that compiling
  a compiled packet again changes nothing, and what a compiled packet satisfies.
\<close>

section \<open>The ordinal order\<close>

lemma Nil_less_iff: "[] < (t :: string) \<longleftrightarrow> t \<noteq> []"
  by (cases t) simp_all

lemma compareOrdinalStrings_less: "compareOrdinalStrings a b < 0 \<longleftrightarrow> a < b"
  by (induction a b rule: compareOrdinalStrings.induct) (auto simp: Let_def less_char_def Nil_less_iff)

lemma sortedUniqueStrings_iff: "sortedUniqueStrings xs \<longleftrightarrow> sorted_wrt (<) xs"
proof (induction xs)
  case (Cons x xs)
  then show ?case
    by (cases xs) (simp_all add: sortedUniqueStrings_def compareOrdinalStrings_less del: sorted_wrt.simps(2)
      add: sorted_wrt2 sorted_wrt1)
qed (simp add: sortedUniqueStrings_def)

section \<open>The canonical text\<close>

text \<open>Printing without sorting, and the value with its objects sorted by key.\<close>

fun print_json :: "json \<Rightarrow> string" where
  "print_json JNull = ''null''"
| "print_json (JBool b) = (if b then ''true'' else ''false'')"
| "print_json (JNum n) = decimal n"
| "print_json (JStr s) = json_string s"
| "print_json (JArr vs) = ''['' @ join_with '','' (map print_json vs) @ '']''"
| "print_json (JObj kvs) = ''{'' @ join_with '','' (map (\<lambda>(k, v). json_string k @ '':'' @ print_json v) kvs) @ ''}''"

fun sort_objects :: "json \<Rightarrow> json" where
  "sort_objects (JArr vs) = JArr (map sort_objects vs)"
| "sort_objects (JObj kvs) = JObj (sort_key fst (map (\<lambda>(k, v). (k, sort_objects v)) kvs))"
| "sort_objects v = v"

lemma insort_key_map_snd:
  "insort_key fst (k, f k v) (map (\<lambda>(k, v). (k, f k v)) kvs) = map (\<lambda>(k, v). (k, f k v)) (insort_key fst (k, v) kvs)"
  by (induction kvs) auto

lemma sort_key_map_snd:
  "sort_key fst (map (\<lambda>(k, v). (k, f k v)) kvs) = map (\<lambda>(k, v). (k, f k v)) (sort_key fst kvs)"
  by (induction kvs) (auto simp: insort_key_map_snd)

lemma canonicalJson_print: "canonicalJson v = print_json (sort_objects v)"
proof (induction v rule: canonicalJson.induct)
  case (6 kvs)
  then have "map (\<lambda>(k, v). (k, json_string k @ '':'' @ canonicalJson v)) kvs =
      map (\<lambda>(k, v). (k, json_string k @ '':'' @ print_json v)) (map (\<lambda>(k, v). (k, sort_objects v)) kvs)"
    by (auto cong: map_cong)
  then have "map snd (sort_key fst (map (\<lambda>(k, v). (k, json_string k @ '':'' @ canonicalJson v)) kvs)) =
      map (\<lambda>(k, v). json_string k @ '':'' @ print_json v) (sort_key fst (map (\<lambda>(k, v). (k, sort_objects v)) kvs))"
    by (simp only: sort_key_map_snd [of "\<lambda>k v. json_string k @ '':'' @ print_json v"]) (simp add: comp_def case_prod_unfold)
  then show ?case by simp
qed (auto cong: map_cong)

lemma hex_digit_inj: "m < 16 \<Longrightarrow> n < 16 \<Longrightarrow> hex_digit m = hex_digit n \<longleftrightarrow> m = n"
  unfolding hex_digit_def by (rule nth_eq_iff_index_eq) simp_all

lemma json_char_prefix: "json_char c @ u = json_char d @ v \<longleftrightarrow> c = d \<and> u = v"
proof
  assume "json_char c @ u = json_char d @ v"
  moreover have "(of_char c :: nat) div 16 = of_char d div 16 \<Longrightarrow> (of_char c :: nat) mod 16 = of_char d mod 16 \<Longrightarrow> c = d"
    by (metis div_mult_mod_eq of_char_eq_iff)
  ultimately show "c = d \<and> u = v"
    by (auto simp: json_char_def Let_def hex_digit_inj split: if_splits)
qed simp

lemma json_char_not_quote: "json_char c @ u \<noteq> CHR 0x22 # v"
  by (auto simp: json_char_def Let_def)

lemma json_body_prefix:
  "concat (map json_char s) @ CHR 0x22 # u = concat (map json_char t) @ CHR 0x22 # v \<longleftrightarrow> s = t \<and> u = v"
proof (induction s arbitrary: t)
  case Nil
  then show ?case by (cases t) (auto simp: json_char_not_quote [symmetric])
next
  case (Cons c s)
  then show ?case by (cases t) (auto simp: json_char_not_quote json_char_prefix)
qed

lemma json_string_prefix: "json_string s @ u = json_string t @ v \<longleftrightarrow> s = t \<and> u = v"
  by (simp add: json_string_def json_body_prefix)

text \<open>What can follow a value inside a text.\<close>

definition delimits :: "string \<Rightarrow> bool" where
  "delimits r \<longleftrightarrow> r = [] \<or> \<not> is_digit (hd r)"

lemma delimits_simps [simp]: "delimits []" "delimits (CHR '','' # r)" "delimits (CHR '']'' # r)" "delimits (CHR ''}'' # r)"
  by (simp_all add: delimits_def is_digit_def)

lemma decimal_prefix:
  assumes "decimal m @ r = decimal n @ r'" "delimits r" "delimits r'"
  shows "m = n \<and> r = r'"
proof -
  have pre: "takeWhile is_digit (decimal k @ s) = decimal k" if "delimits s" for k s
    using that decimal_digits [of k] by (cases s) (auto simp: takeWhile_append2 list_all_iff delimits_def takeWhile_append)
  show ?thesis using assms pre [of r m] pre [of r' n] by auto
qed

lemma decimal_head: "is_digit (hd (decimal n))" "decimal n \<noteq> []"
proof -
  show "decimal n \<noteq> []" by (simp add: decimal.simps [of n])
  then show "is_digit (hd (decimal n))" using decimal_digits [of n] by (auto simp: list_all_iff)
qed

lemma decimal_starts: "decimal n @ r = c # s \<Longrightarrow> is_digit c"
  using decimal_head [of n] by (cases "decimal n") auto

text \<open>A printer \<open>f\<close> is a prefix code on \<open>x\<close>: its text and what follows can be told apart.\<close>

definition prefix_code :: "('a \<Rightarrow> string) \<Rightarrow> 'a \<Rightarrow> bool" where
  "prefix_code f x \<longleftrightarrow> (\<forall>y u u'. f x @ u = f y @ u' \<longrightarrow> delimits u \<longrightarrow> delimits u' \<longrightarrow> x = y \<and> u = u')"

definition after_item :: "('a \<Rightarrow> string) \<Rightarrow> 'a list \<Rightarrow> char \<Rightarrow> string \<Rightarrow> string" where
  "after_item f xs c r = (if xs = [] then c # r else CHR '','' # join_with '','' (map f xs) @ c # r)"

lemma join_after_item: "join_with '','' (map f (x # xs)) @ c # r = f x @ after_item f xs c r"
  by (cases xs) (simp_all add: after_item_def)

lemma join_prefix:
  assumes "join_with '','' (map f xs) @ c # r = join_with '','' (map f ys) @ c # r'"
    and "\<And>x. x \<in> set xs \<Longrightarrow> prefix_code f x" "\<And>x u u'. f x @ u \<noteq> c # u'"
    and c: "c \<noteq> CHR '',''" "\<not> is_digit c"
  shows "xs = ys \<and> r = r'"
  using assms(1,2)
proof (induction xs arbitrary: ys)
  case Nil
  then show ?case
    using assms(3) by (cases ys) (simp, metis join_after_item append_Nil join_with.simps(1) list.map(1))
next
  case (Cons x xs)
  obtain y ys' where ys: "ys = y # ys'"
    using Cons.prems(1) assms(3) by (cases ys) (simp_all del: list.map add: join_after_item, simp)
  have delim: "delimits (after_item f zs c s)" for zs s
    using c by (simp add: after_item_def delimits_def is_digit_def)
  have "x = y \<and> after_item f xs c r = after_item f ys' c r'"
    using Cons.prems delim unfolding ys join_after_item prefix_code_def by (meson list.set_intros(1))
  then have xy: "x = y" and tails: "after_item f xs c r = after_item f ys' c r'" by simp_all
  have "xs = ys' \<and> r = r'"
  proof (cases "xs = [] \<or> ys' = []")
    case True
    then show ?thesis using tails c(1) by (auto simp: after_item_def split: if_splits)
  next
    case False
    then have "join_with '','' (map f xs) @ c # r = join_with '','' (map f ys') @ c # r'"
      using tails by (simp add: after_item_def)
    then show ?thesis using Cons.IH Cons.prems(2) by simp
  qed
  then show ?case using xy ys by simp
qed

definition print_item :: "string \<times> json \<Rightarrow> string" where
  "print_item = (\<lambda>(k, v). json_string k @ '':'' @ print_json v)"

lemma print_not_close: "print_json v @ u \<noteq> CHR '']'' # u'"
  by (cases v) (auto simp: json_string_def is_digit_def dest!: decimal_starts)

lemma item_not_close: "print_item kv @ u \<noteq> CHR ''}'' # u'"
  by (cases kv) (simp add: print_item_def json_string_def)

lemma item_code:
  assumes "prefix_code print_json (snd kv)"
  shows "prefix_code print_item kv"
  unfolding prefix_code_def
proof (intro allI impI)
  fix y u u'
  assume eq: "print_item kv @ u = print_item y @ u'" and d: "delimits u" "delimits u'"
  have "fst kv = fst y \<and> print_json (snd kv) @ u = print_json (snd y) @ u'"
    using eq by (simp add: print_item_def case_prod_unfold json_string_prefix)
  then show "kv = y \<and> u = u'"
    using assms d unfolding prefix_code_def by (metis prod_eq_iff)
qed

text \<open>The first character of a text shows the constructor of the value.\<close>

fun json_kind :: "json \<Rightarrow> nat" where
  "json_kind JNull = 0"
| "json_kind (JBool b) = 1"
| "json_kind (JNum n) = 2"
| "json_kind (JStr s) = 3"
| "json_kind (JArr vs) = 4"
| "json_kind (JObj kvs) = 5"

definition char_kind :: "char \<Rightarrow> nat" where
  "char_kind c = (if c = CHR ''n'' then 0 else if c = CHR ''t'' \<or> c = CHR ''f'' then 1 else if is_digit c then 2
     else if c = CHR 0x22 then 3 else if c = CHR ''['' then 4 else 5)"

lemma char_kind_head: "char_kind (hd (print_json v @ u)) = json_kind v"
proof (cases v)
  case (JNum n)
  have "is_digit c \<Longrightarrow> char_kind c = 2" for c by (auto simp: char_kind_def is_digit_def)
  then show ?thesis using JNum decimal_head [of n] by simp
qed (simp_all add: char_kind_def is_digit_def json_string_def)

lemma same_kind: "print_json v @ u = print_json w @ u' \<Longrightarrow> json_kind v = json_kind w"
  by (metis char_kind_head)

lemma print_json_code: "prefix_code print_json v"
  unfolding prefix_code_def
proof (intro allI impI)
  fix w r r'
  show "print_json v @ r = print_json w @ r' \<Longrightarrow> delimits r \<Longrightarrow> delimits r' \<Longrightarrow> v = w \<and> r = r'"
  proof (induction v arbitrary: w r r')
    case JNull
    then show ?case using same_kind [OF JNull(1)] by (cases w) simp_all
  next
    case (JBool b)
    then show ?case using same_kind [OF JBool(1)] by (cases w) (simp_all split: if_splits)
  next
    case (JNum n)
    obtain m where w: "w = JNum m" using same_kind [OF JNum.prems(1)] by (cases w) simp_all
    then have "decimal n @ r = decimal m @ r'" using JNum.prems(1) by simp
    then show ?case using decimal_prefix JNum.prems(2,3) w by blast
  next
    case (JStr s)
    then show ?case using same_kind [OF JStr(1)] by (cases w) (simp_all add: json_string_prefix)
  next
    case (JArr vs)
    obtain ws where w: "w = JArr ws" using same_kind [OF JArr.prems(1)] by (cases w) simp_all
    have "prefix_code print_json v" if "v \<in> set vs" for v
      unfolding prefix_code_def using JArr.IH that by blast
    then show ?case
      using join_prefix [of print_json vs "CHR '']''" r ws r'] JArr.prems(1) w print_not_close by (simp add: is_digit_def)
  next
    case (JObj kvs)
    obtain ws where w: "w = JObj ws" using same_kind [OF JObj.prems(1)] by (cases w) simp_all
    have "prefix_code print_item kv" if "kv \<in> set kvs" for kv
    proof -
      have "snd kv \<in> Basic_BNFs.snds kv" by (cases kv) simp
      then have "prefix_code print_json (snd kv)" unfolding prefix_code_def using JObj.IH that by blast
      then show ?thesis
        by (rule item_code)
    qed
    then show ?case
      using join_prefix [of print_item kvs "CHR ''}''" r ws r'] JObj.prems(1) w item_not_close
      by (simp add: is_digit_def print_item_def)
  qed
qed

lemma canonicalJson_determines: "canonicalJson v = canonicalJson w \<Longrightarrow> sort_objects v = sort_objects w"
  using print_json_code [of "sort_objects v"] unfolding canonicalJson_print prefix_code_def
  by (metis append_Nil2 delimits_simps(1))

lemma sort_key_fst_cancel:
  fixes xs ys :: "(string \<times> 'a) list"
  assumes keys: "map fst xs = map fst ys" "distinct (map fst xs)" and "sort_key fst xs = sort_key fst ys"
  shows "xs = ys"
proof (rule nth_equalityI)
  show len: "length xs = length ys" using keys(1) by (metis length_map)
  fix i assume i: "i < length xs"
  have "ys ! i \<in> set xs" using i len assms(3) by (metis nth_mem set_sort)
  moreover have "fst (ys ! i) = fst (xs ! i)" using keys(1) i len by (metis nth_map)
  ultimately show "xs ! i = ys ! i" using keys(2) i by (metis distinct_map inj_onD nth_mem)
qed

lemma sort_objects_cancel:
  assumes "sort_objects (JObj xs) = sort_objects (JObj ys)" "map fst xs = map fst ys" "distinct (map fst xs)"
  shows "map (\<lambda>(k, v). (k, sort_objects v)) xs = map (\<lambda>(k, v). (k, sort_objects v)) ys"
proof (rule sort_key_fst_cancel)
  show "sort_key fst (map (\<lambda>(k, v). (k, sort_objects v)) xs) = sort_key fst (map (\<lambda>(k, v). (k, sort_objects v)) ys)"
    using assms(1) by simp
qed (use assms in \<open>simp_all add: comp_def case_prod_unfold\<close>)

lemma tag_name_inject [simp]: "tag_name s = tag_name t \<longleftrightarrow> s = t"
  by (cases s; cases t) simp_all

lemma tier_name_inject [simp]: "tier_name s = tier_name t \<longleftrightarrow> s = t"
  by (cases s; cases t) simp_all

lemma evidence_kind_name_inject [simp]: "evidence_kind_name s = evidence_kind_name t \<longleftrightarrow> s = t"
  by (cases s; cases t) simp_all

lemma criterion_json_inject: "sort_objects (criterion_json c) = sort_objects (criterion_json d) \<Longrightarrow> c = d"
  unfolding criterion_json_def by (drule sort_objects_cancel) (simp_all)

lemma requirement_json_inject: "sort_objects (requirement_json c) = sort_objects (requirement_json d) \<Longrightarrow> c = d"
  unfolding requirement_json_def by (drule sort_objects_cancel) (simp_all)

lemma budget_json_inject: "sort_objects (budget_json b) = sort_objects (budget_json c) \<Longrightarrow> b = c"
  unfolding budget_json_def by (drule sort_objects_cancel) simp_all

lemma map_cancel: "map f xs = map f ys \<Longrightarrow> (\<And>x y. f x = f y \<Longrightarrow> x = y) \<Longrightarrow> xs = ys"
  by (metis injI inj_map_eq_map)

lemma string_list_json: "map (sort_objects \<circ> JStr) xs = map (sort_objects \<circ> JStr) ys \<Longrightarrow> xs = ys"
  by (erule map_cancel) simp

lemma packet_json_inject:
  assumes "sort_objects (packet_json p) = sort_objects (packet_json q)"
  shows "p = q"
proof -
  have "map (\<lambda>t. sort_objects (JStr (tag_name t))) (tp_boundaryTags p) = map (\<lambda>t. sort_objects (JStr (tag_name t))) (tp_boundaryTags q) \<Longrightarrow> tp_boundaryTags p = tp_boundaryTags q"
    by (erule map_cancel) simp
  moreover have "map (sort_objects \<circ> criterion_json) (tp_criteria p) = map (sort_objects \<circ> criterion_json) (tp_criteria q) \<Longrightarrow> tp_criteria p = tp_criteria q"
    by (erule map_cancel) (simp add: criterion_json_inject)
  moreover have "map (sort_objects \<circ> requirement_json) (tp_evidenceRequirements p) = map (sort_objects \<circ> requirement_json) (tp_evidenceRequirements q) \<Longrightarrow> tp_evidenceRequirements p = tp_evidenceRequirements q"
    by (erule map_cancel) (simp add: requirement_json_inject)
  moreover have "sort_objects (budget_json (tp_budgets p)) = sort_objects (budget_json (tp_budgets q)) \<Longrightarrow> tp_budgets p = tp_budgets q"
    by (rule budget_json_inject)
  ultimately show ?thesis
    using sort_objects_cancel [OF assms [unfolded packet_json_def]]
    by (simp add: comp_def string_list_json [unfolded comp_def])
qed

text \<open>
  C28. Two packets have the same canonical text only when they are the same packet: the text that is
  hashed determines every field.
\<close>

theorem canonical_text_determines_packet:
  "canonicalJson (packet_json p) = canonicalJson (packet_json q) \<longleftrightarrow> p = q"
  using canonicalJson_determines packet_json_inject by blast

section \<open>Schemas\<close>

context idem_schema
begin

lemma bounded_idem: "bounded_array l m parse xs = Some ys \<Longrightarrow> bounded_array l m parse ys = Some ys"
  by (auto simp: bounded_array_def array_of_Some_iff list_all2_conv_all_nth parse_idem split: if_splits)

end

interpretation text_idem: idem_schema "bounded_text n" for n
  by unfold_locales (auto simp: bounded_text_def Let_def split: if_splits)

interpretation path_idem: idem_schema "canonicalPath E" for E
  by unfold_locales (auto simp: canonicalPath_def split: if_splits)

interpretation criterion_idem: idem_schema packetCriterionSchema
  by unfold_locales (auto simp: packetCriterionSchema_def text_idem.parse_idem elim!: bind_SomeE)

interpretation requirement_idem: idem_schema evidenceRequirementSchema
  by unfold_locales (auto simp: evidenceRequirementSchema_def text_idem.parse_idem elim!: bind_SomeE)

interpretation budget_idem: idem_schema tierBudgetSchema
  by unfold_locales (auto simp: tierBudgetSchema_def elim!: bind_SomeE)

lemmas packet_field_idem = budget_idem.parse_idem text_idem.parse_idem text_idem.bounded_idem path_idem.bounded_idem criterion_idem.bounded_idem
  requirement_idem.bounded_idem


lemma base_schema_idem:
  assumes tags: "\<And>ts us. T ts = Some us \<Longrightarrow> T us = Some us"
  shows "taskPacketBaseSchema E T p = Some q \<Longrightarrow> taskPacketBaseSchema E T q = Some q"
  unfolding taskPacketBaseSchema_def
  by (auto simp: packet_field_idem tags elim!: bind_SomeE)

lemma tag_array_same: "tag_array ts = Some us \<longleftrightarrow> us = ts \<and> 1 \<le> length ts \<and> length ts \<le> 8"
  by (auto simp: tag_array_def)

interpretation packet_idem: idem_schema "TaskPacketSchema E" for E
proof
  fix p q assume "TaskPacketSchema E p = Some q"
  then have "taskPacketBaseSchema E tag_array p = Some q" "packet_refinement q"
    by (auto simp: TaskPacketSchema_def elim!: bind_SomeE split: if_splits)
  then show "TaskPacketSchema E q = Some q"
    using base_schema_idem [of tag_array E p q] by (simp add: TaskPacketSchema_def tag_array_same)
qed

section \<open>Compilation\<close>

section \<open>A sample input\<close>

definition sample_input :: task_packet_input where
  "sample_input = \<lparr>tp_runId = ''run'', tp_taskId = ''task '', tp_generation = 1, tp_objective = ''do'',
     tp_deliverable = ''it'', tp_allowedPaths = [''src/b.ts'', ''src/a.ts''], tp_referenceIds = [], tp_dependencyIds = [],
     tp_criteria = [\<lparr>pc_id = ''c'', pc_scenario = ''s'', pc_observable = ''o'', pc_expected = ''e'', pc_evidenceLogicalId = ''log''\<rparr>],
     tp_boundaryTags = [''None ''], tp_publicBehavior = False, tp_tier = FAST, tp_budgets = TierBudgets FAST,
     tp_evidenceRequirements = [\<lparr>er_logicalId = ''log'', er_kind = EvTest, er_required = True\<rparr>]\<rparr>"

definition sample_compiled :: compiled_packet where
  "sample_compiled = projr (compileTaskPacket sample_env (\<lambda>s. take 64 s) sample_input)"

lemma sample_compiles: "compileTaskPacket sample_env (\<lambda>s. take 64 s) sample_input = Inr sample_compiled"
proof -
  have "\<not> isl (compileTaskPacket sample_env (\<lambda>s. take 64 s) sample_input)" by code_simp
  then show ?thesis by (simp add: sample_compiled_def isl_def)
qed

lemma compiledE:
  assumes "compileTaskPacket E sha inp = Inr c"
  obtains i where "taskPacketInputSchema E inp = Some i" "canonicalPacket E i = Some (cp_packet c)"
    "cp_canonicalJson c = canonicalJson (packet_json (cp_packet c))" "cp_packetHash c = sha (cp_canonicalJson c)"
    "cp_packetBytes c = byteLength (cp_canonicalJson c)" "cp_packetBytes c \<le> maxPacketBytes (tp_budgets (cp_packet c))"
  using assms by (auto simp: compileTaskPacket_def Let_def split: option.splits if_splits elim!: bind_SomeE)

lemma canonicalPacket_schema: "canonicalPacket E i = Some p \<Longrightarrow> TaskPacketSchema E p = Some p"
  by (auto simp: canonicalPacket_def Let_def split: option.splits intro: packet_idem.parse_idem)

lemma TaskPacketSchema_refined: "TaskPacketSchema E p = Some q \<Longrightarrow> packet_refinement q"
  by (auto simp: TaskPacketSchema_def elim!: bind_SomeE split: if_splits)

lemma base_schema_iff:
  "taskPacketBaseSchema E T p = Some q \<longleftrightarrow>
     bounded_text 160 (tp_runId p) = Some (tp_runId q) \<and> bounded_text 160 (tp_taskId p) = Some (tp_taskId q) \<and>
     counter_positive (tp_generation p) = Some (tp_generation q) \<and>
     bounded_text 12288 (tp_objective p) = Some (tp_objective q) \<and>
     bounded_text 12288 (tp_deliverable p) = Some (tp_deliverable q) \<and>
     bounded_array 0 64 (canonicalPath E) (tp_allowedPaths p) = Some (tp_allowedPaths q) \<and>
     bounded_array 0 64 (bounded_text 160) (tp_referenceIds p) = Some (tp_referenceIds q) \<and>
     bounded_array 0 32 (bounded_text 160) (tp_dependencyIds p) = Some (tp_dependencyIds q) \<and>
     bounded_array 1 6 packetCriterionSchema (tp_criteria p) = Some (tp_criteria q) \<and>
     T (tp_boundaryTags p) = Some (tp_boundaryTags q) \<and>
     tierBudgetSchema (tp_budgets p) = Some (tp_budgets q) \<and>
     bounded_array 1 12 evidenceRequirementSchema (tp_evidenceRequirements p) = Some (tp_evidenceRequirements q) \<and>
     tp_publicBehavior q = tp_publicBehavior p \<and> tp_tier q = tp_tier p"
  (is "_ \<longleftrightarrow> ?fields")
proof
  assume "taskPacketBaseSchema E T p = Some q"
  then show ?fields
    unfolding taskPacketBaseSchema_def by (elim bind_SomeE) (auto simp: counter_positive_eq)
next
  assume fields: ?fields
  then have "tp_generation q = tp_generation p" by (simp only: counter_positive_eq)
  then show "taskPacketBaseSchema E T p = Some q"
    using fields unfolding taskPacketBaseSchema_def by (cases p; cases q) simp
qed

lemma schema_paths:
  assumes "TaskPacketSchema E p = Some q" "path \<in> set (tp_allowedPaths q)"
  shows "repository_relative E path"
proof -
  have "taskPacketBaseSchema E tag_array p = Some q"
    using assms(1) by (auto simp: TaskPacketSchema_def elim!: bind_SomeE split: if_splits)
  then have "array_of (canonicalPath E) (tp_allowedPaths p) = Some (tp_allowedPaths q)"
    by (auto simp: base_schema_iff bounded_array_def split: if_splits)
  then show ?thesis
    using assms(2) path_idem.array_idem
    by (fastforce simp: array_of_normal list_all_iff canonicalPath_def split: if_splits)
qed

lemma compiled_packet_parts:
  assumes "compileTaskPacket E sha inp = Inr c"
  shows "TaskPacketSchema E (cp_packet c) = Some (cp_packet c)"
    and "tp_tier (cp_packet c) =
      classifyTaskTier (tp_allowedPaths (cp_packet c)) (tp_boundaryTags (cp_packet c)) (tp_publicBehavior (cp_packet c))"
    and "tp_budgets (cp_packet c) = TierBudgets (tp_tier (cp_packet c))"
    and "sorted_wrt (<) (tp_allowedPaths (cp_packet c))" "sorted_wrt (<) (tp_referenceIds (cp_packet c))"
    and "\<forall>path \<in> set (tp_allowedPaths (cp_packet c)). ''..'' \<notin> set (split_on (CHR ''/'') path) \<and> \<not> isAbsolute E path"
    and "cp_canonicalJson c = canonicalJson (packet_json (cp_packet c))" "cp_packetHash c = sha (cp_canonicalJson c)"
    and "cp_packetBytes c = byteLength (cp_canonicalJson c)"
    and "cp_packetBytes c \<le> maxPacketBytes (TierBudgets (tp_tier (cp_packet c)))" "cp_packetBytes c \<le> 12288"
proof -
  from assms obtain i where i: "canonicalPacket E i = Some (cp_packet c)"
    and printed: "cp_canonicalJson c = canonicalJson (packet_json (cp_packet c))" "cp_packetHash c = sha (cp_canonicalJson c)"
      "cp_packetBytes c = byteLength (cp_canonicalJson c)" "cp_packetBytes c \<le> maxPacketBytes (tp_budgets (cp_packet c))"
    by (rule compiledE)
  show sch: "TaskPacketSchema E (cp_packet c) = Some (cp_packet c)" by (rule canonicalPacket_schema [OF i])
  then have r: "packet_refinement (cp_packet c)" by (rule TaskPacketSchema_refined)
  then show "tp_tier (cp_packet c) =
      classifyTaskTier (tp_allowedPaths (cp_packet c)) (tp_boundaryTags (cp_packet c)) (tp_publicBehavior (cp_packet c))"
    "sorted_wrt (<) (tp_allowedPaths (cp_packet c))" "sorted_wrt (<) (tp_referenceIds (cp_packet c))"
    by (simp_all add: packet_refinement_def sortedUniqueStrings_iff)
  show budget: "tp_budgets (cp_packet c) = TierBudgets (tp_tier (cp_packet c))"
    using r by (simp add: packet_refinement_def tierMatchesBudget_def)
  show "\<forall>path \<in> set (tp_allowedPaths (cp_packet c)). ''..'' \<notin> set (split_on (CHR ''/'') path) \<and> \<not> isAbsolute E path"
    using schema_paths [OF sch] by (auto simp: repository_relative_def)
  show "cp_packetBytes c \<le> maxPacketBytes (TierBudgets (tp_tier (cp_packet c)))" using printed(4) budget by simp
  also have "\<dots> \<le> 12288" by (cases "tp_tier (cp_packet c)") simp_all
  finally show "cp_packetBytes c \<le> 12288" .
  show "cp_canonicalJson c = canonicalJson (packet_json (cp_packet c))" "cp_packetHash c = sha (cp_canonicalJson c)"
    "cp_packetBytes c = byteLength (cp_canonicalJson c)" by (fact printed)+
qed

text \<open>
  C29. A compiled packet is canonical and bounded: it satisfies the packet schema, its tier is the
  classification of its paths and tags and its budgets are those of the tier, its paths stay inside
  the repository and are strictly sorted, its text is the canonical one and is no longer than the
  tier allows, and its hash is the hash of that text.
\<close>

theorem compiled_packet_sound:
  assumes "compileTaskPacket E sha inp = Inr c"
  shows "TaskPacketSchema E (cp_packet c) = Some (cp_packet c) \<and>
     tp_tier (cp_packet c) =
      classifyTaskTier (tp_allowedPaths (cp_packet c)) (tp_boundaryTags (cp_packet c)) (tp_publicBehavior (cp_packet c)) \<and>
     tp_budgets (cp_packet c) = TierBudgets (tp_tier (cp_packet c)) \<and>
     sorted_wrt (<) (tp_allowedPaths (cp_packet c)) \<and>
     sorted_wrt (<) (tp_referenceIds (cp_packet c)) \<and>
     (\<forall>path \<in> set (tp_allowedPaths (cp_packet c)). ''..'' \<notin> set (split_on (CHR ''/'') path) \<and> \<not> isAbsolute E path) \<and>
     cp_canonicalJson c = canonicalJson (packet_json (cp_packet c)) \<and>
     cp_packetHash c = sha (cp_canonicalJson c) \<and>
     cp_packetBytes c = byteLength (cp_canonicalJson c) \<and>
     cp_packetBytes c \<le> maxPacketBytes (TierBudgets (tp_tier (cp_packet c))) \<and>
     cp_packetBytes c \<le> 12288"
  using compiled_packet_parts [OF assms] by blast

theorem compiled_packet_sound_witness:
  "sorted_wrt (<) (tp_allowedPaths (cp_packet sample_compiled)) \<and>
     tp_allowedPaths (cp_packet sample_compiled) = [''src/a.ts'', ''src/b.ts''] \<and>
     cp_packetBytes sample_compiled \<le> maxPacketBytes (TierBudgets (tp_tier (cp_packet sample_compiled)))"
proof -
  have "tp_allowedPaths (cp_packet sample_compiled) = [''src/a.ts'', ''src/b.ts'']" by code_simp
  then show ?thesis using compiled_packet_sound [OF sample_compiles] by blast
qed

subsection \<open>Compiling again\<close>

text \<open>A packet as an input: its tags by their names.\<close>

definition packet_input :: "task_packet \<Rightarrow> task_packet_input" where
  "packet_input p = \<lparr>tp_runId = tp_runId p, tp_taskId = tp_taskId p, tp_generation = tp_generation p,
     tp_objective = tp_objective p, tp_deliverable = tp_deliverable p, tp_allowedPaths = tp_allowedPaths p,
     tp_referenceIds = tp_referenceIds p, tp_dependencyIds = tp_dependencyIds p, tp_criteria = tp_criteria p,
     tp_boundaryTags = map tag_name (tp_boundaryTags p), tp_publicBehavior = tp_publicBehavior p,
     tp_tier = tp_tier p, tp_budgets = tp_budgets p, tp_evidenceRequirements = tp_evidenceRequirements p\<rparr>"

lemma all_tags_complete: "t \<in> set all_tags"
  by (cases t) (simp_all add: all_tags_def)

lemma tag_names_parse:
  "list_all (\<lambda>t. normalizeTag (tag_name t) = Some t \<and> bounded_text 1024 (tag_name t) = Some (tag_name t)) all_tags"
  by code_simp

lemma tag_name_parses [simp]:
  "normalizeTag (tag_name t) = Some t" "bounded_text 1024 (tag_name t) = Some (tag_name t)"
  using tag_names_parse all_tags_complete [of t] by (auto simp: list_all_iff)

lemma those_map_Some [simp]: "those (map (\<lambda>x. Some (f x)) xs) = Some (map f xs)"
  by (induction xs) simp_all

definition canonical_tags :: "boundary_tag list \<Rightarrow> boundary_tag list" where
  "canonical_tags tags = sort_tags (if filter concrete_tag tags \<noteq> [] then filter concrete_tag tags else tags)"

definition assembled :: "task_packet_input \<Rightarrow> boundary_tag list \<Rightarrow> task_packet" where
  "assembled inp tags = \<lparr>tp_runId = tp_runId inp, tp_taskId = tp_taskId inp, tp_generation = tp_generation inp,
     tp_objective = tp_objective inp, tp_deliverable = tp_deliverable inp,
     tp_allowedPaths = sortedStrings (tp_allowedPaths inp), tp_referenceIds = sortedStrings (tp_referenceIds inp),
     tp_dependencyIds = tp_dependencyIds inp, tp_criteria = tp_criteria inp, tp_boundaryTags = canonical_tags tags,
     tp_publicBehavior = tp_publicBehavior inp, tp_tier = tp_tier inp, tp_budgets = tp_budgets inp,
     tp_evidenceRequirements = sort_key er_logicalId (tp_evidenceRequirements inp)\<rparr>"

lemma canonicalPacket_assembled:
  "canonicalPacket E inp = Option.bind (those (map normalizeTag (tp_boundaryTags inp))) (\<lambda>tags. TaskPacketSchema E (assembled inp tags))"
  by (simp add: canonicalPacket_def assembled_def canonical_tags_def Let_def split: option.splits)

lemma canonical_tags_idem: "canonical_tags (canonical_tags tags) = canonical_tags tags"
proof (cases "filter concrete_tag tags = []")
  case True
  then have "filter concrete_tag (sort_tags tags) = []" by (simp add: sort_tags_def filter_empty_conv)
  then show ?thesis using True by (simp add: canonical_tags_def sort_tags_def sort_key_id_if_sorted)
next
  case False
  have "filter concrete_tag (sort_tags (filter concrete_tag tags)) = sort_tags (filter concrete_tag tags)"
    by (simp add: sort_tags_def filter_id_conv)
  then show ?thesis using False by (simp add: canonical_tags_def sort_tags_def sort_key_id_if_sorted)
qed

lemma canonical_tags_bounds:
  assumes "tags \<noteq> []" "length tags \<le> 8"
  shows "0 < length (canonical_tags tags)" "length (canonical_tags tags) \<le> 8"
proof -
  have "length (filter concrete_tag tags) \<le> 8" using assms(2) length_filter_le order_trans by blast
  then show "0 < length (canonical_tags tags)" "length (canonical_tags tags) \<le> 8"
    using assms by (simp_all add: canonical_tags_def sort_tags_def)
qed

lemma bounded_array_perm:
  assumes "mset ys = mset xs" "bounded_array l m f xs = Some us"
  shows "\<exists>vs. bounded_array l m f ys = Some vs \<and> mset vs = mset us"
proof -
  have conv: "array_of f zs = (if \<forall>z \<in> set zs. f z \<noteq> None then Some (map (\<lambda>z. the (f z)) zs) else None)" for zs
    by (induction zs) (auto split: option.splits)
  show ?thesis
    using assms mset_eq_setD [OF assms(1)] mset_eq_length [OF assms(1)]
    by (auto simp: bounded_array_def conv split: if_splits)
qed

lemma bounded_array_normal_perm:
  "bounded_array l m f xs = Some xs \<Longrightarrow> mset ys = mset xs \<Longrightarrow> bounded_array l m f ys = Some ys"
  using mset_eq_setD [of ys xs] mset_eq_length [of ys xs]
  by (auto simp: bounded_array_def array_of_normal list_all_iff split: if_splits)

lemma input_schema_idem: "taskPacketInputSchema E i = Some j \<Longrightarrow> taskPacketInputSchema E j = Some j"
  unfolding taskPacketInputSchema_def by (rule base_schema_idem [OF text_idem.bounded_idem])

lemma assembled_schema:
  assumes "taskPacketInputSchema E i = Some i" "those (map normalizeTag (tp_boundaryTags i)) = Some tags"
  shows "TaskPacketSchema E (assembled i tags) = (if packet_refinement (assembled i tags) then Some (assembled i tags) else None)"
proof -
  have i: "taskPacketBaseSchema E (bounded_array 1 8 (bounded_text 1024)) i = Some i"
    using assms(1) by (simp add: taskPacketInputSchema_def)
  have "length tags = length (tp_boundaryTags i)"
    using assms(2) by (metis those_eq_Some_iff length_map)
  then have "tags \<noteq> []" "length tags \<le> 8"
    using i by (auto simp: base_schema_iff bounded_array_def split: if_splits)
  then have "tag_array (canonical_tags tags) = Some (canonical_tags tags)"
    using canonical_tags_bounds by (simp add: tag_array_same Suc_le_eq)
  then have "taskPacketBaseSchema E tag_array (assembled i tags) = Some (assembled i tags)"
    using i unfolding base_schema_iff
    by (auto simp: assembled_def sortedStrings_def intro: bounded_array_normal_perm)
  then show ?thesis by (simp add: TaskPacketSchema_def)
qed

lemma recompiled_packet:
  assumes "taskPacketInputSchema E i = Some i" "canonicalPacket E i = Some p"
  shows "taskPacketInputSchema E (packet_input p) = Some (packet_input p)" "canonicalPacket E (packet_input p) = Some p"
proof -
  obtain tags where tags: "those (map normalizeTag (tp_boundaryTags i)) = Some tags" and p: "p = assembled i tags"
    using assms assembled_schema by (auto simp: canonicalPacket_assembled split: if_splits elim!: bind_SomeE)
  have sch: "TaskPacketSchema E p = Some p" by (rule canonicalPacket_schema [OF assms(2)])
  have base: "taskPacketBaseSchema E tag_array p = Some p"
    using sch by (auto simp: TaskPacketSchema_def elim!: bind_SomeE split: if_splits)
  then show "taskPacketInputSchema E (packet_input p) = Some (packet_input p)"
    unfolding taskPacketInputSchema_def base_schema_iff
    by (auto simp: packet_input_def tag_array_same bounded_array_def array_of_normal list_all_iff)
  have "assembled (packet_input p) (tp_boundaryTags p) = p"
    by (simp add: p assembled_def packet_input_def canonical_tags_idem sortedStrings_def sort_key_id_if_sorted)
  then show "canonicalPacket E (packet_input p) = Some p"
    using sch by (simp add: canonicalPacket_assembled packet_input_def [THEN arg_cong, of tp_boundaryTags] comp_def)
qed

text \<open>
  Compiling a compiled packet gives it back, with the same text, hash and size.
\<close>

theorem recompile_same:
  assumes "compileTaskPacket E sha inp = Inr c"
  shows "compileTaskPacket E sha (packet_input (cp_packet c)) = Inr c"
proof -
  from assms obtain i where i: "taskPacketInputSchema E inp = Some i" "canonicalPacket E i = Some (cp_packet c)"
    and printed: "cp_canonicalJson c = canonicalJson (packet_json (cp_packet c))" "cp_packetHash c = sha (cp_canonicalJson c)"
      "cp_packetBytes c = byteLength (cp_canonicalJson c)" "cp_packetBytes c \<le> maxPacketBytes (tp_budgets (cp_packet c))"
    by (rule compiledE)
  show ?thesis
    using recompiled_packet [OF input_schema_idem [OF i(1)] i(2)] printed
    by (simp add: compileTaskPacket_def Let_def)
qed

theorem recompile_same_witness:
  "compileTaskPacket sample_env (\<lambda>s. take 64 s) (packet_input (cp_packet sample_compiled)) = Inr sample_compiled \<and>
     packet_input (cp_packet sample_compiled) \<noteq> sample_input"
proof -
  have "tp_taskId (packet_input (cp_packet sample_compiled)) \<noteq> tp_taskId sample_input" by code_simp
  then show ?thesis using recompile_same [OF sample_compiles] by auto
qed

subsection \<open>The order of the input\<close>

text \<open>The same input with the four arrays in another order.\<close>

definition reordered :: "task_packet_input \<Rightarrow> task_packet_input \<Rightarrow> bool" where
  "reordered i j \<longleftrightarrow> mset (tp_allowedPaths j) = mset (tp_allowedPaths i) \<and>
     mset (tp_referenceIds j) = mset (tp_referenceIds i) \<and> mset (tp_boundaryTags j) = mset (tp_boundaryTags i) \<and>
     mset (tp_evidenceRequirements j) = mset (tp_evidenceRequirements i) \<and>
     tp_runId j = tp_runId i \<and> tp_taskId j = tp_taskId i \<and> tp_generation j = tp_generation i \<and>
     tp_objective j = tp_objective i \<and> tp_deliverable j = tp_deliverable i \<and> tp_dependencyIds j = tp_dependencyIds i \<and>
     tp_criteria j = tp_criteria i \<and> tp_publicBehavior j = tp_publicBehavior i \<and> tp_tier j = tp_tier i \<and>
     tp_budgets j = tp_budgets i"

lemma reordered_sym: "reordered i j \<Longrightarrow> reordered j i"
  by (simp add: reordered_def)

lemma reordered_schema:
  assumes "reordered i j" "taskPacketInputSchema E i = Some i'"
  shows "\<exists>j'. taskPacketInputSchema E j = Some j' \<and> reordered i' j'"
proof -
  let ?T = "bounded_array 1 8 (bounded_text 1024)"
  have i: "taskPacketBaseSchema E ?T i = Some i'" using assms(2) by (simp add: taskPacketInputSchema_def)
  have perm: "mset (tp_allowedPaths j) = mset (tp_allowedPaths i)" "mset (tp_referenceIds j) = mset (tp_referenceIds i)"
    "mset (tp_boundaryTags j) = mset (tp_boundaryTags i)" "mset (tp_evidenceRequirements j) = mset (tp_evidenceRequirements i)"
    using assms(1) by (simp_all add: reordered_def)
  note fields = i [unfolded base_schema_iff]
  obtain ps where ps: "bounded_array 0 64 (canonicalPath E) (tp_allowedPaths j) = Some ps" "mset ps = mset (tp_allowedPaths i')"
    using bounded_array_perm [OF perm(1)] fields by blast
  obtain rs where rs: "bounded_array 0 64 (bounded_text 160) (tp_referenceIds j) = Some rs" "mset rs = mset (tp_referenceIds i')"
    using bounded_array_perm [OF perm(2)] fields by blast
  obtain ts where ts: "?T (tp_boundaryTags j) = Some ts" "mset ts = mset (tp_boundaryTags i')"
    using bounded_array_perm [OF perm(3)] fields by blast
  obtain es where es: "bounded_array 1 12 evidenceRequirementSchema (tp_evidenceRequirements j) = Some es"
      "mset es = mset (tp_evidenceRequirements i')"
    using bounded_array_perm [OF perm(4)] fields by blast
  define j' where "j' = i'\<lparr>tp_allowedPaths := ps, tp_referenceIds := rs, tp_boundaryTags := ts, tp_evidenceRequirements := es\<rparr>"
  have "taskPacketBaseSchema E ?T j = Some j'"
    using fields ps rs ts es assms(1) unfolding base_schema_iff reordered_def j'_def by simp
  moreover have "reordered i' j'" using ps rs ts es by (simp add: reordered_def j'_def)
  ultimately show ?thesis by (auto simp: taskPacketInputSchema_def)
qed

lemma sort_key_perm: "mset ys = mset xs \<Longrightarrow> inj_on f (set xs) \<Longrightarrow> sort_key f ys = sort_key f xs"
  using mset_eq_setD [of ys xs] by (intro sort_key_inj_key_eq) auto

lemma sort_tags_perm: "mset us = mset ts \<Longrightarrow> sort_tags us = sort_tags ts"
  unfolding sort_tags_def by (rule sort_key_perm) (simp_all add: inj_on_def)

lemma canonical_tags_perm:
  assumes "mset us = mset ts"
  shows "canonical_tags us = canonical_tags ts"
proof -
  have "filter concrete_tag us = [] \<longleftrightarrow> filter concrete_tag ts = []"
    using mset_eq_setD [OF assms] by (simp add: filter_empty_conv)
  moreover have "sort_tags (filter concrete_tag us) = sort_tags (filter concrete_tag ts)"
    using assms by (intro sort_tags_perm) simp
  ultimately show ?thesis
    unfolding canonical_tags_def using sort_tags_perm [OF assms] by presburger
qed

lemma assembled_reordered:
  assumes "reordered i j" "mset us = mset ts"
  shows "(if packet_refinement (assembled j us) then Some (assembled j us) else None) =
    (if packet_refinement (assembled i ts) then Some (assembled i ts) else None)"
proof (cases "distinct (map er_logicalId (tp_evidenceRequirements i))")
  case True
  then have "sort_key er_logicalId (tp_evidenceRequirements j) = sort_key er_logicalId (tp_evidenceRequirements i)"
    using assms(1) by (intro sort_key_perm) (auto simp: reordered_def distinct_map)
  moreover have "sort (tp_allowedPaths j) = sort (tp_allowedPaths i)" "sort (tp_referenceIds j) = sort (tp_referenceIds i)"
    using assms(1) by (auto simp: reordered_def intro!: sort_key_perm)
  ultimately have "assembled j us = assembled i ts"
    using assms(1) canonical_tags_perm [OF assms(2)]
    by (simp add: reordered_def assembled_def sortedStrings_def)
  then show ?thesis by simp
next
  case False
  have dup: "\<not> packet_refinement (assembled k vs)" if "mset (tp_evidenceRequirements k) = mset (tp_evidenceRequirements i)" for k vs
  proof -
    have "mset (map er_logicalId (sort_key er_logicalId (tp_evidenceRequirements k))) = mset (map er_logicalId (tp_evidenceRequirements i))"
      using that by simp
    then have "\<not> distinct (map er_logicalId (sort_key er_logicalId (tp_evidenceRequirements k)))"
      using False mset_eq_imp_distinct_iff by blast
    then show ?thesis by (simp add: packet_refinement_def assembled_def)
  qed
  then show ?thesis using assms(1) by (simp add: reordered_def)
qed

lemma those_perm:
  assumes "mset ys = mset xs" "those (map f xs) = Some us"
  shows "\<exists>vs. those (map f ys) = Some vs \<and> mset vs = mset us"
proof -
  have conv: "those (map f zs) = (if \<forall>z \<in> set zs. f z \<noteq> None then Some (map (\<lambda>z. the (f z)) zs) else None)" for zs
    by (induction zs) (auto split: option.splits)
  show ?thesis using assms mset_eq_setD [OF assms(1)] by (auto simp: conv split: if_splits)
qed

lemma canonicalPacket_reordered:
  assumes "reordered i j" "taskPacketInputSchema E i = Some i" "taskPacketInputSchema E j = Some j"
  shows "canonicalPacket E j = canonicalPacket E i"
proof (cases "those (map normalizeTag (tp_boundaryTags i))")
  case None
  then have "those (map normalizeTag (tp_boundaryTags j)) = None"
    using those_perm [of "tp_boundaryTags i" "tp_boundaryTags j" normalizeTag] assms(1)
    by (cases "those (map normalizeTag (tp_boundaryTags j))") (auto simp: reordered_def)
  then show ?thesis using None by (simp add: canonicalPacket_assembled)
next
  case (Some ts)
  then obtain us where us: "those (map normalizeTag (tp_boundaryTags j)) = Some us" "mset us = mset ts"
    using those_perm [of "tp_boundaryTags j" "tp_boundaryTags i" normalizeTag] assms(1) by (auto simp: reordered_def)
  then show ?thesis
    using Some assembled_schema [OF assms(2) Some] assembled_schema [OF assms(3) us(1)] assembled_reordered [OF assms(1) us(2)]
    by (simp add: canonicalPacket_assembled)
qed

text \<open>
  The order in which an input lists its paths, references, tags and evidence requirements has no
  influence on compilation: the packet, its hash and the refusals are the same.
\<close>

theorem compile_ignores_order:
  assumes "reordered i j"
  shows "compileTaskPacket E sha j = compileTaskPacket E sha i"
proof -
  have "Option.bind (taskPacketInputSchema E j) (canonicalPacket E) = Option.bind (taskPacketInputSchema E i) (canonicalPacket E)"
  proof (cases "taskPacketInputSchema E i")
    case None
    then have "taskPacketInputSchema E j = None"
      using reordered_schema [OF reordered_sym [OF assms], of E] by (cases "taskPacketInputSchema E j") auto
    then show ?thesis using None by simp
  next
    case (Some i')
    then obtain j' where j': "taskPacketInputSchema E j = Some j'" "reordered i' j'"
      using reordered_schema [OF assms] by blast
    then show ?thesis
      using canonicalPacket_reordered [OF j'(2)] input_schema_idem Some by simp
  qed
  then show ?thesis by (simp add: compileTaskPacket_def)
qed

theorem compile_ignores_order_witness:
  "compileTaskPacket sample_env (\<lambda>s. take 64 s) (sample_input\<lparr>tp_allowedPaths := [''src/a.ts'', ''src/b.ts'']\<rparr>) = Inr sample_compiled"
proof -
  have "reordered sample_input (sample_input\<lparr>tp_allowedPaths := [''src/a.ts'', ''src/b.ts'']\<rparr>)"
    by (simp add: reordered_def sample_input_def)
  then show ?thesis using compile_ignores_order [of sample_input] sample_compiles by simp
qed

end
