(* ===== verification/Retrieval_Budget.thy ===== *)
theory Retrieval_Budget
  imports Task_Packet
begin

text \<open>
  The retrieval budget of a packet (\<^verbatim>\<open>src/contracts/retrieval-budget.ts\<close>) and the guard that enforces it
  on the tool calls of a session (\<^verbatim>\<open>src/gates/retrieval-budget-guard.ts\<close>).
\<close>

record retrieval_budget =
  rb_tier :: task_tier
  rb_generalCalls :: nat
  rb_retrievalCalls :: nat
  rb_retrievalBytes :: nat

definition within_limits :: "retrieval_budget \<Rightarrow> bool" where
  "within_limits b \<longleftrightarrow> (let limits = TierBudgets (rb_tier b)
     in rb_generalCalls b \<le> maxCalls limits \<and> rb_retrievalCalls b \<le> maxRetrievalCalls limits \<and>
        rb_retrievalCalls b \<le> rb_generalCalls b \<and> rb_retrievalBytes b \<le> maxRetrievalBytes limits)"

definition RetrievalBudgetSchema :: "retrieval_budget \<Rightarrow> retrieval_budget option" where
  "RetrievalBudgetSchema b = do {
     _ \<leftarrow> counter (rb_generalCalls b);
     _ \<leftarrow> counter (rb_retrievalCalls b);
     _ \<leftarrow> counter (rb_retrievalBytes b);
     if within_limits b then Some b else None }"

datatype retrieval_result = Delivered string | EmptyResult | StatusResult

definition RetrievalResultSchema :: "retrieval_result \<Rightarrow> retrieval_result option" where
  "RetrievalResultSchema r = (case r of
     Delivered content \<Rightarrow> (if content \<noteq> [] \<and> length content \<le> 163840 then Some r else None)
   | _ \<Rightarrow> Some r)"

datatype retrieval_refusal =
    MalformedRetrievalBudget | MalformedRetrievalResult | GeneralCallBudgetExceeded
  | RetrievalCallBudgetExceeded | RetrievalByteBudgetExceeded

definition createRetrievalBudget :: "task_tier \<Rightarrow> retrieval_budget" where
  "createRetrievalBudget tier = \<lparr>rb_tier = tier, rb_generalCalls = 0, rb_retrievalCalls = 0, rb_retrievalBytes = 0\<rparr>"

definition meterRetrievalResult ::
    "retrieval_budget \<Rightarrow> retrieval_result \<Rightarrow> retrieval_refusal \<times> retrieval_budget + retrieval_budget" where
  "meterRetrievalResult budget result = (case RetrievalBudgetSchema budget of
     None \<Rightarrow> Inl (MalformedRetrievalBudget, createRetrievalBudget FAST)
   | Some b \<Rightarrow>
     (case RetrievalResultSchema result of
        None \<Rightarrow> Inl (MalformedRetrievalResult, b)
      | Some r \<Rightarrow>
        (let limits = TierBudgets (rb_tier b)
         in if maxCalls limits < rb_generalCalls b + 1 then Inl (GeneralCallBudgetExceeded, b)
            else case r of
              Delivered content \<Rightarrow>
                (if maxRetrievalCalls limits < rb_retrievalCalls b + 1 then Inl (RetrievalCallBudgetExceeded, b)
                 else let retrievalBytes = rb_retrievalBytes b + byteLength content
                 in if maxRetrievalBytes limits < retrievalBytes then Inl (RetrievalByteBudgetExceeded, b)
                    else Inr (b\<lparr>rb_generalCalls := rb_generalCalls b + 1, rb_retrievalCalls := rb_retrievalCalls b + 1,
                                rb_retrievalBytes := retrievalBytes\<rparr>))
            | _ \<Rightarrow> Inr (b\<lparr>rb_generalCalls := rb_generalCalls b + 1\<rparr>))))"

section \<open>The guard\<close>

datatype result_content = TextContent string | ImageContent string string
  \<comment> \<open>text; data and mimeType\<close>

datatype observation_outcome = OutEmpty | OutStatus | OutDelivered | OutRefused retrieval_refusal

record retrieval_observation =
  ro_toolCallId :: string
  ro_deliveredBytes :: nat
  ro_outcome :: observation_outcome

record retrieval_state =
  rs_compiled :: compiled_packet
  rs_budget :: retrieval_budget
  rs_terminalCode :: "retrieval_refusal option"
  rs_pendingCallIds :: "string list"
  rs_seenCallIds :: "string list"
  rs_observations :: "retrieval_observation list"

type_synonym retrieval_guard = "string \<rightharpoonup> retrieval_state"

fun result_text :: "result_content \<Rightarrow> string" where
  "result_text (TextContent t) = t"
| "result_text (ImageContent d _) = d"

definition resultContent :: "result_content list \<Rightarrow> string" where
  "resultContent parts = concat (map result_text parts)"

definition activate :: "string \<Rightarrow> compiled_packet \<Rightarrow> retrieval_guard \<Rightarrow> retrieval_guard" where
  "activate sessionId compiled g =
     (if map_option (\<lambda>s. cp_packetHash (rs_compiled s)) (g sessionId) = Some (cp_packetHash compiled) then g
      else g(sessionId \<mapsto> \<lparr>rs_compiled = compiled, rs_budget = createRetrievalBudget (tp_tier (cp_packet compiled)),
        rs_terminalCode = None, rs_pendingCallIds = [], rs_seenCallIds = [], rs_observations = []\<rparr>))"

definition clear_guard :: "string \<Rightarrow> retrieval_guard \<Rightarrow> retrieval_guard" where
  "clear_guard sessionId g = g(sessionId := None)"

datatype guard_block = BlockTerminal retrieval_refusal | BlockDuplicate | BlockCalls

definition authorize_call :: "string \<Rightarrow> string \<Rightarrow> retrieval_guard \<Rightarrow> retrieval_guard \<times> guard_block option" where
  "authorize_call sessionId toolCallId g = (case g sessionId of
     None \<Rightarrow> (g, None)
   | Some s \<Rightarrow>
     (case rs_terminalCode s of
        Some code \<Rightarrow> (g, Some (BlockTerminal code))
      | None \<Rightarrow>
        (if List.member (rs_seenCallIds s) toolCallId then (g, Some BlockDuplicate)
         else let projectedCalls = rb_generalCalls (rs_budget s) + length (rs_pendingCallIds s) + 1
         in if maxCalls (tp_budgets (cp_packet (rs_compiled s))) < projectedCalls
            then (g(sessionId \<mapsto> s\<lparr>rs_terminalCode := Some GeneralCallBudgetExceeded\<rparr>), Some BlockCalls)
            else (g(sessionId \<mapsto> s\<lparr>rs_seenCallIds := rs_seenCallIds s @ [toolCallId],
                                    rs_pendingCallIds := rs_pendingCallIds s @ [toolCallId]\<rparr>), None))))"

datatype guard_result = GuardQuiet | GuardMetered retrieval_budget | GuardRefused retrieval_refusal string
  \<comment> \<open>the code and the packet hash of the replacement\<close>

definition observed_result :: "bool \<Rightarrow> string \<Rightarrow> retrieval_result" where
  "observed_result statusOnly delivered =
     (if statusOnly then StatusResult else if delivered = [] then EmptyResult else Delivered delivered)"

fun result_kind :: "retrieval_result \<Rightarrow> observation_outcome" where
  "result_kind (Delivered _) = OutDelivered"
| "result_kind EmptyResult = OutEmpty"
| "result_kind StatusResult = OutStatus"

definition observe ::
    "string \<Rightarrow> string \<Rightarrow> bool \<Rightarrow> result_content list \<Rightarrow> retrieval_guard \<Rightarrow> retrieval_guard \<times> guard_result" where
  "observe sessionId toolCallId statusOnly content g = (case g sessionId of
     None \<Rightarrow> (g, GuardQuiet)
   | Some s \<Rightarrow>
     (case rs_terminalCode s of
        Some code \<Rightarrow> (g, GuardRefused code (cp_packetHash (rs_compiled s)))
      | None \<Rightarrow>
        (if \<not> List.member (rs_pendingCallIds s) toolCallId then (g, GuardQuiet)
         else let delivered = resultContent content;
                  result = observed_result statusOnly delivered;
                  metered = meterRetrievalResult (rs_budget s) result;
                  s' = s\<lparr>rs_pendingCallIds := filter (\<lambda>c. c \<noteq> toolCallId) (rs_pendingCallIds s),
                    rs_observations := rs_observations s @ [\<lparr>ro_toolCallId = toolCallId,
                      ro_deliveredBytes = byteLength delivered,
                      ro_outcome = (case metered of Inl (code, _) \<Rightarrow> OutRefused code | Inr _ \<Rightarrow> result_kind result)\<rparr>]\<rparr>
         in case metered of
              Inl (code, _) \<Rightarrow> (g(sessionId \<mapsto> s'\<lparr>rs_terminalCode := Some code\<rparr>),
                GuardRefused code (cp_packetHash (rs_compiled s)))
            | Inr b \<Rightarrow> (g(sessionId \<mapsto> s'\<lparr>rs_budget := b\<rparr>), GuardMetered b))))"

record retrieval_snapshot =
  sn_packetHash :: string
  sn_budget :: retrieval_budget
  sn_terminalCode :: "retrieval_refusal option"
  sn_observations :: "retrieval_observation list"

definition guard_snapshot :: "string \<Rightarrow> retrieval_guard \<Rightarrow> retrieval_snapshot option" where
  "guard_snapshot sessionId g = map_option (\<lambda>s. \<lparr>sn_packetHash = cp_packetHash (rs_compiled s),
     sn_budget = rs_budget s, sn_terminalCode = rs_terminalCode s, sn_observations = rs_observations s\<rparr>) (g sessionId)"

end
