(* ===== verification/Worker_Policies.thy ===== *)
theory Worker_Policies
  imports Task_Packet
begin

text \<open>
  The policies around workers: the escalation of failed workers (\<^verbatim>\<open>src/workflows/escalation-policy.ts\<close>),
  the classification of risk (\<^verbatim>\<open>src/workflows/risk-classifier.ts\<close>), the quality score
  (\<^verbatim>\<open>src/contracts/quality-score.ts\<close>) and the statistics of past runs
  (\<^verbatim>\<open>src/contracts/parallelism-history.ts\<close>). Times are integers.
\<close>

section \<open>Escalation\<close>

datatype model_role = Smol | TaskRole | Slow

datatype failure_fingerprint =
    TransportTransient | SemanticMismatch | TestFailure | NewBoundary | ProviderUnavailable
  | AuthorizationFailure | ContainmentFailure | StaleState | CleanupFailure | UnknownFailure

fun TierRoles :: "task_tier \<Rightarrow> model_role list" where
  "TierRoles FAST = [Smol]"
| "TierRoles STANDARD = [Smol, TaskRole]"
| "TierRoles DEEP = [Smol, TaskRole, Slow]"

datatype route_status = RoutePass | RouteBlocked

datatype route_action = Dispatch | Resend | Escalate | Block | Fail

datatype route_code = CodeFailure failure_fingerprint | BudgetIsExhausted

record worker_route =
  wr_status :: route_status
  wr_action :: route_action
  wr_tier :: task_tier
  wr_previousTier :: "task_tier option"
  wr_role :: model_role
  wr_semanticAttempt :: nat
  wr_transportRequest :: nat
  wr_allowedRoles :: "model_role list"
  wr_code :: "route_code option"

definition initialWorkerRoute :: "task_tier \<Rightarrow> worker_route" where
  "initialWorkerRoute tier = \<lparr>wr_status = RoutePass, wr_action = Dispatch, wr_tier = tier, wr_previousTier = None,
     wr_role = Smol, wr_semanticAttempt = 1, wr_transportRequest = 1, wr_allowedRoles = TierRoles tier, wr_code = None\<rparr>"

text \<open>\<^verbatim>\<open>roles[roles.indexOf(role) + 1]\<close>: the first role when the role does not occur.\<close>

fun role_after :: "model_role list \<Rightarrow> model_role \<Rightarrow> model_role option" where
  "role_after [] role = None"
| "role_after (r # rs) role = (if r = role then (case rs of [] \<Rightarrow> None | s # _ \<Rightarrow> Some s) else role_after rs role)"

definition following_role :: "model_role list \<Rightarrow> model_role \<Rightarrow> model_role option" where
  "following_role roles role =
     (if List.member roles role then role_after roles role else case roles of [] \<Rightarrow> None | r # _ \<Rightarrow> Some r)"

definition nextRole :: "worker_route \<Rightarrow> model_role option" where
  "nextRole route = following_role (wr_allowedRoles route) (wr_role route)"

definition escalate :: "worker_route \<Rightarrow> failure_fingerprint \<Rightarrow> task_tier \<Rightarrow> task_tier option \<Rightarrow> worker_route" where
  "escalate route code tier previousTier = (case following_role (TierRoles tier) (wr_role route) of
     None \<Rightarrow> route\<lparr>wr_status := RouteBlocked, wr_action := Fail, wr_code := Some BudgetIsExhausted\<rparr>
   | Some role \<Rightarrow> \<lparr>wr_status = RoutePass, wr_action = Escalate, wr_tier = tier, wr_previousTier = previousTier,
       wr_role = role, wr_semanticAttempt = wr_semanticAttempt route + 1, wr_transportRequest = 1,
       wr_allowedRoles = TierRoles tier, wr_code = Some (CodeFailure code)\<rparr>)"

definition block :: "worker_route \<Rightarrow> failure_fingerprint \<Rightarrow> worker_route" where
  "block route code = route\<lparr>wr_status := RouteBlocked, wr_action := Block, wr_code := Some (CodeFailure code)\<rparr>"

definition resend :: "worker_route \<Rightarrow> failure_fingerprint \<Rightarrow> worker_route" where
  "resend route code = route\<lparr>wr_action := Resend, wr_transportRequest := 2, wr_code := Some (CodeFailure code)\<rparr>"

definition semantic_failure :: "worker_route \<Rightarrow> failure_fingerprint \<Rightarrow> worker_route" where
  "semantic_failure route failure =
     (if nextRole route = None
      then route\<lparr>wr_status := RouteBlocked, wr_action := Fail, wr_code := Some BudgetIsExhausted\<rparr>
      else escalate route failure (wr_tier route) None)"

definition reduceWorkerFailure :: "worker_route \<Rightarrow> failure_fingerprint \<Rightarrow> worker_route" where
  "reduceWorkerFailure route failure =
     (if wr_status route = RouteBlocked then route
      else case failure of
        TransportTransient \<Rightarrow>
          (if wr_transportRequest route = 1 then resend route failure else escalate route failure (wr_tier route) None)
      | ProviderUnavailable \<Rightarrow>
          (if wr_transportRequest route = 1 then resend route failure else block route failure)
      | NewBoundary \<Rightarrow>
          (if wr_tier route = FAST then escalate route failure STANDARD (Some FAST)
           else escalate route failure (wr_tier route) None)
      | SemanticMismatch \<Rightarrow> semantic_failure route failure
      | TestFailure \<Rightarrow> semantic_failure route failure
      | _ \<Rightarrow> block route failure)"

section \<open>Risk\<close>

text \<open>The classifier trims a path and also admits a single full stop.\<close>

definition riskPath :: "host_env \<Rightarrow> string \<Rightarrow> string option" where
  "riskPath E value =
     (let p = js_trim value
      in if p = [] \<or> 512 < length p then None
         else if forward_slashes p \<noteq> p \<or> isAbsolute E p \<or> take 1 p = ''/'' \<or>
                 ''..'' \<in> set (split_on (CHR ''/'') p) \<or> (p \<noteq> ''.'' \<and> posix_normalize p \<noteq> p)
         then None else Some p)"

record classifier_input =
  ri_allowedPaths :: "string list"
  ri_moduleRoots :: "string list"
  ri_boundaryTags :: "boundary_tag list"
  ri_explicitReview :: bool
  ri_mutating :: bool
  ri_publicBehavior :: bool

definition classifierInputSchema :: "host_env \<Rightarrow> classifier_input \<Rightarrow> classifier_input option" where
  "classifierInputSchema E c = do {
     paths \<leftarrow> bounded_array 0 64 (riskPath E) (ri_allowedPaths c);
     roots \<leftarrow> bounded_array 0 64 (riskPath E) (ri_moduleRoots c);
     tags \<leftarrow> tag_array (ri_boundaryTags c);
     if distinct paths \<and> distinct roots \<and> \<not> (paths = [] \<and> roots \<noteq> []) \<and>
        (List.member tags TagNone \<longrightarrow> length tags = 1)
     then Some (c\<lparr>ri_allowedPaths := paths, ri_moduleRoots := roots\<rparr>) else None }"

datatype critic_policy = CriticNone | CriticAfterFailure | CriticRequired

record tier_ceiling = tier_budget +
  maxActivePackets :: nat
  maxSemanticRolesPerPacket :: nat
  criticPolicy :: critic_policy

fun RiskTierCeilings :: "task_tier \<Rightarrow> tier_ceiling" where
  "RiskTierCeilings FAST = tier_budget.extend (TierBudgets FAST)
     (tier_ceiling.fields 1 1 CriticNone)"
| "RiskTierCeilings STANDARD = tier_budget.extend (TierBudgets STANDARD)
     (tier_ceiling.fields 2 2 CriticAfterFailure)"
| "RiskTierCeilings DEEP = tier_budget.extend (TierBudgets DEEP)
     (tier_ceiling.fields 4 3 CriticRequired)"

datatype risk_reason =
    ConcreteBoundary | ExplicitReview | FileCount | UnknownBoundary | ModuleCount | PublicBehavior
  | UnknownMutationPath | BoundedLocal

record risk_features =
  rf_fileCount :: nat
  rf_moduleCount :: nat
  rf_boundaryTags :: "boundary_tag list"
  rf_explicitReview :: bool
  rf_mutating :: bool
  rf_publicBehavior :: bool

record risk_receipt =
  rr_tier :: task_tier
  rr_reason :: risk_reason
  rr_features :: risk_features
  rr_ceilings :: tier_ceiling

text \<open>The tags are compared by \<^verbatim>\<open>localeCompare\<close>, which orders these names as their texts.\<close>

definition orderedUnique :: "boundary_tag list \<Rightarrow> boundary_tag list" where
  "orderedUnique tags = sort_tags (remdups tags)"

definition risk_tier :: "classifier_input \<Rightarrow> boundary_tag list \<Rightarrow> boundary_tag list \<Rightarrow> task_tier \<times> risk_reason" where
  "risk_tier c concrete tags =
     (let fileCount = length (ri_allowedPaths c); moduleCount = length (ri_moduleRoots c)
      in if concrete \<noteq> [] then (DEEP, ConcreteBoundary)
         else if ri_explicitReview c then (DEEP, ExplicitReview)
         else if 8 < fileCount then (DEEP, FileCount)
         else if List.member tags TagUnknown then (STANDARD, UnknownBoundary)
         else if 3 \<le> fileCount then (STANDARD, FileCount)
         else if 1 < moduleCount then (STANDARD, ModuleCount)
         else if ri_publicBehavior c then (STANDARD, PublicBehavior)
         else if ri_mutating c \<and> fileCount = 0 then (STANDARD, UnknownMutationPath)
         else (FAST, BoundedLocal))"

text \<open>\<open>None\<close> is the receipt \<^verbatim>\<open>BLOCKED\<close> with \<^verbatim>\<open>invalid_classifier_input\<close>.\<close>

definition classifyWorkflowRisk :: "host_env \<Rightarrow> classifier_input \<Rightarrow> risk_receipt option" where
  "classifyWorkflowRisk E inp = (case classifierInputSchema E inp of
     None \<Rightarrow> None
   | Some c \<Rightarrow>
     (let concrete = filter concrete_tag (ri_boundaryTags c);
          tags = orderedUnique (if concrete \<noteq> [] then concrete else ri_boundaryTags c);
          (tier, reason) = risk_tier c concrete tags
      in Some \<lparr>rr_tier = tier, rr_reason = reason,
           rr_features = \<lparr>rf_fileCount = length (ri_allowedPaths c), rf_moduleCount = length (ri_moduleRoots c),
             rf_boundaryTags = tags, rf_explicitReview = ri_explicitReview c, rf_mutating = ri_mutating c,
             rf_publicBehavior = ri_publicBehavior c\<rparr>,
           rr_ceilings = RiskTierCeilings tier\<rparr>))"

section \<open>Quality\<close>

datatype quality_id = Outcome | ScopeSafety | EvidenceCleanup | BoundedProcess

record quality_predicate =
  qp_id :: quality_id
  qp_passed :: bool
  qp_hard :: bool

definition qualityPredicatesSchema :: "quality_predicate list \<Rightarrow> bool" where
  "qualityPredicatesSchema ps \<longleftrightarrow> length ps = 4 \<and> distinct (map qp_id ps) \<and>
     list_ex (\<lambda>p. qp_id p = Outcome \<and> qp_hard p) ps \<and> list_ex (\<lambda>p. qp_id p = ScopeSafety \<and> qp_hard p) ps"

fun quality_weight :: "quality_id \<Rightarrow> nat" where
  "quality_weight Outcome = 60"
| "quality_weight ScopeSafety = 20"
| "quality_weight EvidenceCleanup = 10"
| "quality_weight BoundedProcess = 10"

record quality_score =
  qs_score :: nat
  qs_hardGatePassed :: bool

definition QualityScoreSchema :: "quality_score \<Rightarrow> bool" where
  "QualityScoreSchema s \<longleftrightarrow> qs_score s \<le> 100 \<and> (\<not> qs_hardGatePassed s \<longrightarrow> qs_score s = 0)"

text \<open>\<open>None\<close> when the predicates do not parse and the function throws.\<close>

definition calculateQualityScore :: "quality_predicate list \<Rightarrow> quality_score option" where
  "calculateQualityScore ps =
     (if \<not> qualityPredicatesSchema ps then None
      else if \<not> list_all (\<lambda>p. \<not> qp_hard p \<or> qp_passed p) ps then Some \<lparr>qs_score = 0, qs_hardGatePassed = False\<rparr>
      else Some \<lparr>qs_score = sum_list (map (\<lambda>p. if qp_passed p then quality_weight (qp_id p) else 0) ps),
                 qs_hardGatePassed = True\<rparr>)"

section \<open>History\<close>

datatype execution_mode = Serial | Parallel

record history_key =
  hk_executionMode :: execution_mode
  hk_tier :: task_tier
  hk_moduleCount :: nat
  hk_fileBucket :: string
  hk_boundaryTags :: "boundary_tag list"

text \<open>The regular expression of a bucket: a full stop, or a letter or digit and then path characters.\<close>

definition bucket_syntax :: "string \<Rightarrow> bool" where
  "bucket_syntax p \<longleftrightarrow> p = ''.'' \<or>
     (case p of [] \<Rightarrow> False
      | c # s \<Rightarrow> (is_letter c \<or> is_digit c) \<and>
          list_all (\<lambda>d. is_letter d \<or> is_digit d \<or> d \<in> set ''._/-'') s)"

definition bucketPath :: "host_env \<Rightarrow> string \<Rightarrow> bool" where
  "bucketPath E p \<longleftrightarrow> p \<noteq> [] \<and> length p \<le> 512 \<and> bucket_syntax p \<and> repository_relative E p \<and>
     (p = ''.'' \<or> take 2 p \<noteq> ''./'' \<and> last p \<noteq> CHR ''/'')"

definition ParallelismHistoryKeySchema :: "host_env \<Rightarrow> history_key \<Rightarrow> bool" where
  "ParallelismHistoryKeySchema E k \<longleftrightarrow> 1 \<le> hk_moduleCount k \<and> hk_moduleCount k \<le> 64 \<and> bucketPath E (hk_fileBucket k) \<and>
     1 \<le> length (hk_boundaryTags k) \<and> length (hk_boundaryTags k) \<le> 8 \<and>
     sortedUniqueStrings (map tag_name (hk_boundaryTags k)) \<and>
     (List.member (hk_boundaryTags k) TagNone \<longrightarrow> length (hk_boundaryTags k) = 1)"

datatype sample_status = SamplePass | SampleFailed | SampleBlocked | SampleTimeout

record history_sample =
  hs_status :: sample_status
  hs_reservationConsumedAtMs :: nat
  hs_parentAcceptedAtMs :: nat
  hs_cleanupCompletedAtMs :: nat
  hs_startupCommittedAtMs :: nat
  hs_firstProviderRequestAtMs :: nat

definition history_sample_ok :: "history_sample \<Rightarrow> bool" where
  "history_sample_ok s \<longleftrightarrow> hs_reservationConsumedAtMs s \<le> hs_parentAcceptedAtMs s \<and>
     hs_parentAcceptedAtMs s \<le> hs_cleanupCompletedAtMs s \<and>
     hs_startupCommittedAtMs s \<le> hs_firstProviderRequestAtMs s"

text \<open>The median is kept doubled, as the sum of the two middle values.\<close>

datatype parallelism_statistic =
    Statistic nat nat nat \<comment> \<open>eligibleCount, twice medianMs, p95Ms\<close>
  | InsufficientHistory nat

definition doubled_median :: "nat list \<Rightarrow> nat" where
  "doubled_median values = values ! ((length values - 1) div 2) + values ! (length values div 2)"

definition nearestRankP95 :: "nat list \<Rightarrow> nat" where
  "nearestRankP95 values = values ! ((95 * length values + 99) div 100 - 1)"

definition summarizeStatistic :: "nat list \<Rightarrow> parallelism_statistic" where
  "summarizeStatistic values =
     (if length values < 5 then InsufficientHistory (length values)
      else let sorted = sort values in Statistic (length sorted) (doubled_median sorted) (nearestRankP95 sorted))"

record history_summary =
  hm_eligibleCount :: nat
  hm_serialDuration :: parallelism_statistic
  hm_startup :: parallelism_statistic

text \<open>\<open>None\<close> when the history does not parse and the function throws.\<close>

definition summarizeParallelismHistory ::
    "host_env \<Rightarrow> history_key \<Rightarrow> history_sample list \<Rightarrow> history_summary option" where
  "summarizeParallelismHistory E key samples =
     (if \<not> ParallelismHistoryKeySchema E key \<or> 500 < length samples \<or> \<not> list_all history_sample_ok samples then None
      else let passed = filter (\<lambda>s. hs_status s = SamplePass) samples;
               eligible = drop (length passed - 50) passed;
               durations = (if hk_executionMode key = Serial
                 then map (\<lambda>s. hs_cleanupCompletedAtMs s - hs_reservationConsumedAtMs s) eligible else []);
               startups = map (\<lambda>s. hs_firstProviderRequestAtMs s - hs_startupCommittedAtMs s) eligible
           in Some \<lparr>hm_eligibleCount = length eligible, hm_serialDuration = summarizeStatistic durations,
                hm_startup = summarizeStatistic startups\<rparr>)"

end
