(* ===== verification/Policy_Properties.thy ===== *)
theory Policy_Properties
  imports Packet_Properties Retrieval_Budget Worker_Policies
begin

text \<open>
  Correctness of the retrieval budget and of the policies around workers: what a session can spend,
  that failures exhaust a worker, how the classification of risk relates to the tier of a packet, and
  the range of the quality score and of the statistics.
\<close>

section \<open>The retrieval budget\<close>

text \<open>The packets that the compiler can produce.\<close>

definition compiled_by :: "compiled_packet \<Rightarrow> bool" where
  "compiled_by c \<longleftrightarrow> (\<exists>E sha inp. compileTaskPacket E sha inp = Inr c)"

definition refused_observations :: "retrieval_state \<Rightarrow> retrieval_observation list" where
  "refused_observations s = filter (\<lambda>ob. ro_outcome ob \<notin> {OutEmpty, OutStatus, OutDelivered}) (rs_observations s)"

definition delivered_bytes :: "retrieval_state \<Rightarrow> nat" where
  "delivered_bytes s = sum_list (map ro_deliveredBytes (filter (\<lambda>ob. ro_outcome ob = OutDelivered) (rs_observations s)))"

text \<open>
  The calls let through are the metered ones, the pending ones and the refused ones; the bytes on the
  budget are those of the delivered results.
\<close>

definition guard_ok :: "retrieval_state \<Rightarrow> bool" where
  "guard_ok s \<longleftrightarrow> compiled_by (rs_compiled s) \<and> rb_tier (rs_budget s) = tp_tier (cp_packet (rs_compiled s)) \<and>
     within_limits (rs_budget s) \<and> distinct (rs_seenCallIds s) \<and> distinct (rs_pendingCallIds s) \<and>
     length (rs_seenCallIds s) = rb_generalCalls (rs_budget s) + length (rs_pendingCallIds s) + length (refused_observations s) \<and>
     length (rs_seenCallIds s) \<le> maxCalls (TierBudgets (rb_tier (rs_budget s))) \<and>
     set (rs_pendingCallIds s) \<subseteq> set (rs_seenCallIds s) \<and>
     delivered_bytes s = rb_retrievalBytes (rs_budget s) \<and>
     (refused_observations s \<noteq> [] \<longrightarrow> rs_terminalCode s \<noteq> None)"

lemma compiled_budgets: "compiled_by c \<Longrightarrow> tp_budgets (cp_packet c) = TierBudgets (tp_tier (cp_packet c))"
proof -
  assume "compiled_by c"
  then obtain E sha inp where "compileTaskPacket E sha inp = Inr c" by (auto simp: compiled_by_def)
  then obtain i where "canonicalPacket E i = Some (cp_packet c)" by (rule compiledE)
  then have "packet_refinement (cp_packet c)" using canonicalPacket_schema TaskPacketSchema_refined by blast
  then show ?thesis by (simp add: packet_refinement_def tierMatchesBudget_def)
qed

lemma limits_below_counter: "maxCalls (TierBudgets t) \<le> 28" "maxRetrievalCalls (TierBudgets t) \<le> 20"
  "maxRetrievalBytes (TierBudgets t) \<le> 163840"
  by (cases t; simp)+

lemma within_limits_schema: "within_limits b \<Longrightarrow> RetrievalBudgetSchema b = Some b"
  using limits_below_counter [of "rb_tier b"]
  by (auto simp: RetrievalBudgetSchema_def within_limits_def Let_def counter_def max_safe_integer_def)

lemma filter_remove_once: "distinct xs \<Longrightarrow> x \<in> set xs \<Longrightarrow> Suc (length (filter (\<lambda>y. y \<noteq> x) xs)) = length xs"
  by (induction xs) (auto intro!: arg_cong [where f = length] filter_True)

lemma meter_keeps_limits:
  assumes "within_limits b" "meterRetrievalResult b r = Inr b'"
  shows "within_limits b'" "rb_tier b' = rb_tier b" "rb_generalCalls b' = Suc (rb_generalCalls b)"
    "rb_retrievalBytes b' = rb_retrievalBytes b + (case r of Delivered content \<Rightarrow> byteLength content | _ \<Rightarrow> 0)"
    "rb_retrievalCalls b' = rb_retrievalCalls b + (case r of Delivered _ \<Rightarrow> 1 | _ \<Rightarrow> 0)"
  using assms within_limits_schema [OF assms(1)]
  by (auto simp: meterRetrievalResult_def RetrievalResultSchema_def within_limits_def Let_def
      split: option.splits if_splits retrieval_result.splits)

definition guards_ok :: "retrieval_guard \<Rightarrow> bool" where
  "guards_ok g \<longleftrightarrow> (\<forall>sid s. g sid = Some s \<longrightarrow> guard_ok s)"

lemma activate_ok:
  assumes "guards_ok g" "compiled_by c"
  shows "guards_ok (activate sid c g)"
proof -
  have "within_limits (createRetrievalBudget t)" for t by (simp add: createRetrievalBudget_def within_limits_def)
  then have "guard_ok \<lparr>rs_compiled = c, rs_budget = createRetrievalBudget (tp_tier (cp_packet c)),
      rs_terminalCode = None, rs_pendingCallIds = [], rs_seenCallIds = [], rs_observations = []\<rparr>"
    using assms(2) by (simp add: guard_ok_def refused_observations_def delivered_bytes_def createRetrievalBudget_def)
  then show ?thesis using assms(1) by (auto simp: guards_ok_def activate_def)
qed

lemma observe_metered_ok:
  assumes s: "guard_ok s" and pending: "call \<in> set (rs_pendingCallIds s)" and live: "rs_terminalCode s = None"
    and metered: "meterRetrievalResult (rs_budget s) (observed_result statusOnly delivered) = Inr b"
  shows "guard_ok (s\<lparr>rs_pendingCallIds := filter (\<lambda>c. c \<noteq> call) (rs_pendingCallIds s),
      rs_observations := rs_observations s @ [\<lparr>ro_toolCallId = call, ro_deliveredBytes = byteLength delivered,
        ro_outcome = result_kind (observed_result statusOnly delivered)\<rparr>], rs_budget := b\<rparr>)"
proof -
  have lim: "within_limits (rs_budget s)" using s by (simp add: guard_ok_def)
  have len: "Suc (length (filter (\<lambda>c. c \<noteq> call) (rs_pendingCallIds s))) = length (rs_pendingCallIds s)"
    using s pending by (intro filter_remove_once) (simp_all add: guard_ok_def)
  show ?thesis
    using s live len meter_keeps_limits [OF lim metered]
    by (auto simp: guard_ok_def refused_observations_def delivered_bytes_def observed_result_def)
qed

lemma observe_refused_ok:
  assumes s: "guard_ok s" and pending: "call \<in> set (rs_pendingCallIds s)" and live: "rs_terminalCode s = None"
  shows "guard_ok (s\<lparr>rs_pendingCallIds := filter (\<lambda>c. c \<noteq> call) (rs_pendingCallIds s),
      rs_observations := rs_observations s @ [\<lparr>ro_toolCallId = call, ro_deliveredBytes = bytes,
        ro_outcome = OutRefused code\<rparr>], rs_terminalCode := Some code\<rparr>)"
proof -
  have len: "Suc (length (filter (\<lambda>c. c \<noteq> call) (rs_pendingCallIds s))) = length (rs_pendingCallIds s)"
    using s pending by (intro filter_remove_once) (simp_all add: guard_ok_def)
  show ?thesis
    using s live len by (auto simp: guard_ok_def refused_observations_def delivered_bytes_def)
qed

text \<open>The operations of the guard, its answers, and what a sequence of operations is answered.\<close>

datatype guard_op =
    OpActivate string compiled_packet
  | OpClear string
  | OpAuthorize string string
  | OpObserve string string bool "result_content list"

datatype guard_answer = NoAnswer | AuthorizeAnswer "guard_block option" | ObserveAnswer guard_result

fun guard_step :: "guard_op \<Rightarrow> retrieval_guard \<Rightarrow> retrieval_guard \<times> guard_answer" where
  "guard_step (OpActivate sid c) g = (activate sid c g, NoAnswer)"
| "guard_step (OpClear sid) g = (clear_guard sid g, NoAnswer)"
| "guard_step (OpAuthorize sid call) g = apsnd AuthorizeAnswer (authorize_call sid call g)"
| "guard_step (OpObserve sid call statusOnly content) g = apsnd ObserveAnswer (observe sid call statusOnly content g)"

fun guard_run :: "guard_op list \<Rightarrow> retrieval_guard \<Rightarrow> (guard_op \<times> guard_answer) list" where
  "guard_run [] g = []"
| "guard_run (op # ops) g = (case guard_step op g of (g', answer) \<Rightarrow> (op, answer) # guard_run ops g')"

text \<open>
  What a transcript lets a session do: the calls admitted, the results let through as metered (with
  their call, whether they were reported as a status, and their bytes), and whether an answer refuses
  for the budget, that is, for any reason but a repeated id.
\<close>

fun admitted_of :: "string \<Rightarrow> guard_op \<times> guard_answer \<Rightarrow> string list" where
  "admitted_of sid (OpAuthorize sid' call, AuthorizeAnswer None) = (if sid' = sid then [call] else [])"
| "admitted_of sid _ = []"

fun metered_of :: "string \<Rightarrow> guard_op \<times> guard_answer \<Rightarrow> (string \<times> bool \<times> nat) list" where
  "metered_of sid (OpObserve sid' call statusOnly content, ObserveAnswer (GuardMetered b)) =
     (if sid' = sid then [(call, statusOnly, byteLength (resultContent content))] else [])"
| "metered_of sid _ = []"

fun refuses :: "string \<Rightarrow> guard_op \<times> guard_answer \<Rightarrow> bool" where
  "refuses sid (OpAuthorize sid' call, AuthorizeAnswer (Some why)) \<longleftrightarrow> sid' = sid \<and> why \<noteq> BlockDuplicate"
| "refuses sid (OpObserve sid' call statusOnly content, ObserveAnswer (GuardRefused code h)) \<longleftrightarrow> sid' = sid"
| "refuses sid _ \<longleftrightarrow> False"

definition admitted :: "string \<Rightarrow> (guard_op \<times> guard_answer) list \<Rightarrow> string list" where
  "admitted sid tr = concat (map (admitted_of sid) tr)"

definition metered :: "string \<Rightarrow> (guard_op \<times> guard_answer) list \<Rightarrow> (string \<times> bool \<times> nat) list" where
  "metered sid tr = concat (map (metered_of sid) tr)"

text \<open>The results a session has received as content: metered, not reported as a status, not empty.\<close>

definition retrieved :: "string \<Rightarrow> (guard_op \<times> guard_answer) list \<Rightarrow> nat list" where
  "retrieved sid tr = filter (\<lambda>n. 0 < n) (map (snd \<circ> snd) (filter (\<lambda>(_, statusOnly, _). \<not> statusOnly) (metered sid tr)))"

lemma transcript_append [simp]:
  "admitted sid (xs @ ys) = admitted sid xs @ admitted sid ys"
  "metered sid (xs @ ys) = metered sid xs @ metered sid ys"
  "retrieved sid (xs @ ys) = retrieved sid xs @ retrieved sid ys"
  "admitted sid [] = []" "metered sid [] = []" "retrieved sid [] = []"
  by (simp_all add: admitted_def metered_def retrieved_def)

text \<open>The operations that leave the packet of a session in place.\<close>

fun keeps_packet :: "string \<Rightarrow> compiled_packet \<Rightarrow> guard_op \<Rightarrow> bool" where
  "keeps_packet sid c (OpActivate sid' c') \<longleftrightarrow> sid' = sid \<longrightarrow> cp_packetHash c' = cp_packetHash c"
| "keeps_packet sid c (OpClear sid') \<longleftrightarrow> sid' \<noteq> sid"
| "keeps_packet sid c _ \<longleftrightarrow> True"

text \<open>How the state of a session records its transcript.\<close>

definition records :: "string \<Rightarrow> compiled_packet \<Rightarrow> (guard_op \<times> guard_answer) list \<Rightarrow> retrieval_state \<Rightarrow> bool" where
  "records sid c tr s \<longleftrightarrow> guard_ok s \<and> rs_compiled s = c \<and> rs_seenCallIds s = admitted sid tr \<and>
     distinct (map fst (metered sid tr)) \<and> fst ` set (metered sid tr) \<subseteq> set (rs_seenCallIds s) - set (rs_pendingCallIds s) \<and>
     rb_retrievalBytes (rs_budget s) = sum_list (retrieved sid tr) \<and>
     rb_retrievalCalls (rs_budget s) = length (retrieved sid tr) \<and>
     (list_ex (refuses sid) tr \<longrightarrow> rs_terminalCode s \<noteq> None)"

lemma byteLength_positive: "byteLength t = 0 \<longleftrightarrow> t = []"
  by (cases t) (simp_all add: byteLength_def)

lemma observed_bytes:
  "(case observed_result statusOnly t of Delivered u \<Rightarrow> byteLength u | _ \<Rightarrow> 0) = (if statusOnly then 0 else byteLength t)"
  "(case observed_result statusOnly t of Delivered u \<Rightarrow> 1 | _ \<Rightarrow> 0) = (if statusOnly \<or> byteLength t = 0 then 0 else 1 :: nat)"
  by (auto simp: observed_result_def byteLength_positive)

definition concerns :: "string \<Rightarrow> guard_op \<Rightarrow> bool" where
  "concerns sid op \<longleftrightarrow> (case op of OpActivate sid' _ \<Rightarrow> sid' = sid | OpClear sid' \<Rightarrow> sid' = sid
     | OpAuthorize sid' _ \<Rightarrow> sid' = sid | OpObserve sid' _ _ _ \<Rightarrow> sid' = sid)"

lemma authorize_elsewhere: "sid' \<noteq> sid \<Longrightarrow> fst (authorize_call sid' call g) sid = g sid"
  by (auto simp: authorize_call_def Let_def split: option.splits)

lemma observe_elsewhere: "sid' \<noteq> sid \<Longrightarrow> fst (observe sid' call statusOnly content g) sid = g sid"
  by (auto simp: observe_def Let_def split: option.splits sum.splits)

lemma step_elsewhere:
  assumes "\<not> concerns sid op"
  shows "fst (guard_step op g) sid = g sid"
    and "admitted_of sid (op, answer) = []" "metered_of sid (op, answer) = []" "\<not> refuses sid (op, answer)"
proof -
  show "fst (guard_step op g) sid = g sid"
    using assms authorize_elsewhere observe_elsewhere
    by (cases op) (auto simp: concerns_def activate_def clear_guard_def)
  show "admitted_of sid (op, answer) = []"
    using assms by (cases "(sid, op, answer)" rule: admitted_of.cases) (auto simp: concerns_def)
  show "metered_of sid (op, answer) = []"
    using assms by (cases "(sid, op, answer)" rule: metered_of.cases) (auto simp: concerns_def)
  show "\<not> refuses sid (op, answer)"
    using assms by (cases "(sid, op, answer)" rule: refuses.cases) (auto simp: concerns_def)
qed

lemma records_quiet:
  assumes "records sid c past s" "admitted_of sid x = []" "metered_of sid x = []" "\<not> refuses sid x"
  shows "records sid c (past @ [x]) s"
proof -
  have "admitted sid [x] = []" "metered sid [x] = []" "retrieved sid [x] = []"
    using assms(2,3) by (simp_all add: admitted_def metered_def retrieved_def)
  with assms(1,4) show ?thesis by (auto simp: records_def)
qed

lemma records_refusal:
  assumes "records sid c past s" "admitted_of sid x = []" "metered_of sid x = []" "rs_terminalCode s \<noteq> None"
  shows "records sid c (past @ [x]) s"
proof -
  have "admitted sid [x] = []" "metered sid [x] = []" "retrieved sid [x] = []"
    using assms(2,3) by (simp_all add: admitted_def metered_def retrieved_def)
  with assms(1,4) show ?thesis by (auto simp: records_def)
qed

lemma records_authorize:
  assumes r: "records sid c past s" and g: "g sid = Some s"
  shows "\<exists>s'. fst (guard_step (OpAuthorize sid call) g) sid = Some s' \<and>
    records sid c (past @ [(OpAuthorize sid call, snd (guard_step (OpAuthorize sid call) g))]) s'"
proof -
  have s: "guard_ok s" "rs_compiled s = c" using r by (simp_all add: records_def)
  then have limit: "maxCalls (tp_budgets (cp_packet (rs_compiled s))) = maxCalls (TierBudgets (rb_tier (rs_budget s)))"
    by (simp add: guard_ok_def compiled_budgets)
  consider (terminal) code where "rs_terminalCode s = Some code"
    | (seen) "rs_terminalCode s = None" "call \<in> set (rs_seenCallIds s)"
    | (full) "rs_terminalCode s = None" "call \<notin> set (rs_seenCallIds s)"
        "maxCalls (TierBudgets (rb_tier (rs_budget s))) < rb_generalCalls (rs_budget s) + length (rs_pendingCallIds s) + 1"
    | (free) "rs_terminalCode s = None" "call \<notin> set (rs_seenCallIds s)"
        "rb_generalCalls (rs_budget s) + length (rs_pendingCallIds s) + 1 \<le> maxCalls (TierBudgets (rb_tier (rs_budget s)))"
    by (cases "rs_terminalCode s"; cases "call \<in> set (rs_seenCallIds s)") (force simp: not_less [symmetric])+
  then show ?thesis
  proof cases
    case terminal
    then have "authorize_call sid call g = (g, Some (BlockTerminal code))" by (simp add: authorize_call_def g)
    with records_refusal [OF r] terminal g show ?thesis by simp
  next
    case seen
    then have "authorize_call sid call g = (g, Some BlockDuplicate)" by (simp add: authorize_call_def g)
    with records_quiet [OF r] g show ?thesis by simp
  next
    case full
    let ?s = "s\<lparr>rs_terminalCode := Some GeneralCallBudgetExceeded\<rparr>"
    have "authorize_call sid call g = (g(sid \<mapsto> ?s), Some BlockCalls)"
      using full limit by (simp add: authorize_call_def g)
    moreover have "records sid c past ?s"
      using r by (auto simp: records_def guard_ok_def refused_observations_def delivered_bytes_def)
    then have "records sid c (past @ [(OpAuthorize sid call, AuthorizeAnswer (Some BlockCalls))]) ?s"
      by (rule records_refusal) simp_all
    ultimately show ?thesis by simp
  next
    case free
    let ?s = "s\<lparr>rs_seenCallIds := rs_seenCallIds s @ [call], rs_pendingCallIds := rs_pendingCallIds s @ [call]\<rparr>"
    have "authorize_call sid call g = (g(sid \<mapsto> ?s), None)"
      using free limit by (simp add: authorize_call_def g)
    moreover have "guard_ok ?s"
      using s(1) free by (auto simp: guard_ok_def refused_observations_def delivered_bytes_def)
    moreover have "records sid c (past @ [(OpAuthorize sid call, AuthorizeAnswer None)]) ?s" if ok: "guard_ok ?s"
    proof -
      let ?x = "(OpAuthorize sid call, AuthorizeAnswer None)"
      have x: "admitted sid [?x] = [call]" "metered sid [?x] = []" "retrieved sid [?x] = []" "\<not> refuses sid ?x"
        by (auto simp: admitted_def metered_def retrieved_def)
      have past: "rs_seenCallIds s = admitted sid past" "distinct (map fst (metered sid past))"
        "fst ` set (metered sid past) \<subseteq> set (rs_seenCallIds s) - set (rs_pendingCallIds s)"
        "rb_retrievalBytes (rs_budget s) = sum_list (retrieved sid past)"
        "rb_retrievalCalls (rs_budget s) = length (retrieved sid past)" "\<not> list_ex (refuses sid) past"
        using r free(1) by (auto simp: records_def)
      have "fst ` set (metered sid past) \<subseteq> set (rs_seenCallIds s @ [call]) - set (rs_pendingCallIds s @ [call])"
        using past(3) free(2) by auto
      with ok s(2) past x show ?thesis by (simp add: records_def)
    qed
    ultimately show ?thesis by simp
  qed
qed

lemma records_observe:
  assumes r: "records sid c past s" and g: "g sid = Some s"
  shows "\<exists>s'. fst (guard_step (OpObserve sid call statusOnly content) g) sid = Some s' \<and>
    records sid c (past @ [(OpObserve sid call statusOnly content, snd (guard_step (OpObserve sid call statusOnly content) g))]) s'"
proof -
  let ?t = "resultContent content"
  have s: "guard_ok s" using r by (simp add: records_def)
  consider (terminal) code where "rs_terminalCode s = Some code"
    | (unknown) "rs_terminalCode s = None" "call \<notin> set (rs_pendingCallIds s)"
    | (refused) code b where "rs_terminalCode s = None" "call \<in> set (rs_pendingCallIds s)"
        "meterRetrievalResult (rs_budget s) (observed_result statusOnly ?t) = Inl (code, b)"
    | (counted) b where "rs_terminalCode s = None" "call \<in> set (rs_pendingCallIds s)"
        "meterRetrievalResult (rs_budget s) (observed_result statusOnly ?t) = Inr b"
    by (cases "rs_terminalCode s"; cases "meterRetrievalResult (rs_budget s) (observed_result statusOnly ?t)") auto
  then show ?thesis
  proof cases
    case terminal
    then have "observe sid call statusOnly content g = (g, GuardRefused code (cp_packetHash (rs_compiled s)))"
      by (simp add: observe_def g)
    with records_refusal [OF r] terminal g show ?thesis by simp
  next
    case unknown
    then have "observe sid call statusOnly content g = (g, GuardQuiet)" by (simp add: observe_def g)
    with records_quiet [OF r] g show ?thesis by simp
  next
    case refused
    let ?s = "s\<lparr>rs_pendingCallIds := filter (\<lambda>c. c \<noteq> call) (rs_pendingCallIds s),
      rs_observations := rs_observations s @ [\<lparr>ro_toolCallId = call, ro_deliveredBytes = byteLength ?t,
        ro_outcome = OutRefused code\<rparr>], rs_terminalCode := Some code\<rparr>"
    have "observe sid call statusOnly content g = (g(sid \<mapsto> ?s), GuardRefused code (cp_packetHash (rs_compiled s)))"
      using refused by (simp add: observe_def g Let_def)
    moreover have "records sid c past ?s"
      using r observe_refused_ok [OF s refused(2,1)] by (auto simp: records_def)
    then have "records sid c (past @ [(OpObserve sid call statusOnly content,
        ObserveAnswer (GuardRefused code (cp_packetHash (rs_compiled s))))]) ?s"
      by (rule records_refusal) simp_all
    ultimately show ?thesis by simp
  next
    case counted
    let ?s = "s\<lparr>rs_pendingCallIds := filter (\<lambda>c. c \<noteq> call) (rs_pendingCallIds s),
      rs_observations := rs_observations s @ [\<lparr>ro_toolCallId = call, ro_deliveredBytes = byteLength ?t,
        ro_outcome = result_kind (observed_result statusOnly ?t)\<rparr>], rs_budget := b\<rparr>"
    have "observe sid call statusOnly content g = (g(sid \<mapsto> ?s), GuardMetered b)"
      using counted by (simp add: observe_def g Let_def)
    moreover have "records sid c (past @ [(OpObserve sid call statusOnly content, ObserveAnswer (GuardMetered b))]) ?s"
    proof -
      have lim: "within_limits (rs_budget s)" using s by (simp add: guard_ok_def)
      note meter = meter_keeps_limits(4,5) [OF lim counted(3), unfolded observed_bytes]
      have "call \<in> set (rs_seenCallIds s)" "call \<notin> fst ` set (metered sid past)"
        using r counted(2) by (auto simp: records_def guard_ok_def)
      let ?x = "(OpObserve sid call statusOnly content, ObserveAnswer (GuardMetered b))"
      have x: "admitted sid [?x] = []" "metered sid [?x] = [(call, statusOnly, byteLength ?t)]"
        "retrieved sid [?x] = (if statusOnly \<or> byteLength ?t = 0 then [] else [byteLength ?t])" "\<not> refuses sid ?x"
        by (auto simp: admitted_def metered_def retrieved_def)
      have past: "rs_compiled s = c" "rs_seenCallIds s = admitted sid past" "distinct (map fst (metered sid past))"
        "fst ` set (metered sid past) \<subseteq> set (rs_seenCallIds s) - set (rs_pendingCallIds s)"
        "rb_retrievalBytes (rs_budget s) = sum_list (retrieved sid past)"
        "rb_retrievalCalls (rs_budget s) = length (retrieved sid past)" "\<not> list_ex (refuses sid) past"
        using r counted(1) by (auto simp: records_def)
      have "rb_retrievalBytes b = sum_list (retrieved sid (past @ [?x]))"
        "rb_retrievalCalls b = length (retrieved sid (past @ [?x]))"
        using meter past(5,6) by (simp_all add: x(3))
      moreover have "distinct (map fst (metered sid (past @ [?x])))"
        using past(3) \<open>call \<notin> fst ` set (metered sid past)\<close> by (simp add: x(2))
      moreover have "fst ` set (metered sid (past @ [?x])) \<subseteq>
          set (rs_seenCallIds s) - set (filter (\<lambda>c. c \<noteq> call) (rs_pendingCallIds s))"
        using past(4) \<open>call \<in> set (rs_seenCallIds s)\<close> by (auto simp: x(2))
      moreover have "\<not> list_ex (refuses sid) (past @ [?x])" using past(7) x(4) by simp
      ultimately show ?thesis
        using observe_metered_ok [OF s counted(2,1,3)] past(1,2) x(1) by (simp add: records_def)
    qed
    ultimately show ?thesis by simp
  qed
qed

lemma records_step:
  assumes "records sid c past s" "g sid = Some s" "keeps_packet sid c op"
  shows "\<exists>s'. fst (guard_step op g) sid = Some s' \<and> records sid c (past @ [(op, snd (guard_step op g))]) s'"
proof (cases "concerns sid op")
  case True
  show ?thesis
  proof (cases op)
    case (OpActivate sid' c')
    with True assms have "guard_step op g = (g, NoAnswer)" by (simp add: concerns_def activate_def records_def)
    with records_quiet [OF assms(1)] assms(2) show ?thesis by simp
  qed (use True assms records_authorize records_observe in \<open>auto simp: concerns_def simp del: guard_step.simps\<close>)
next
  case False
  from step_elsewhere [OF False] records_quiet [OF assms(1)] assms(2) show ?thesis by simp
qed

text \<open>Once a session has been refused for its budget, nothing more is admitted or metered.\<close>

lemma terminal_step:
  assumes "g sid = Some s" "rs_terminalCode s \<noteq> None" "rs_compiled s = c" "keeps_packet sid c op"
  shows "fst (guard_step op g) sid = Some s" "admitted_of sid (op, snd (guard_step op g)) = []"
    "metered_of sid (op, snd (guard_step op g)) = []"
proof -
  obtain code where code: "rs_terminalCode s = Some code" using assms(2) by blast
  have "fst (guard_step op g) sid = Some s \<and> admitted_of sid (op, snd (guard_step op g)) = [] \<and>
    metered_of sid (op, snd (guard_step op g)) = []"
  proof (cases "concerns sid op")
    case True
    with assms code show ?thesis
      by (cases op) (auto simp: concerns_def activate_def authorize_call_def observe_def)
  qed (use step_elsewhere assms(1) in auto)
  then show "fst (guard_step op g) sid = Some s" "admitted_of sid (op, snd (guard_step op g)) = []"
    "metered_of sid (op, snd (guard_step op g)) = []" by blast+
qed

lemma terminal_run:
  assumes "g sid = Some s" "rs_terminalCode s \<noteq> None" "rs_compiled s = c" "\<forall>op\<in>set ops. keeps_packet sid c op"
  shows "admitted sid (guard_run ops g) = [] \<and> metered sid (guard_run ops g) = []"
  using assms
proof (induction ops arbitrary: g)
  case (Cons op ops)
  note step = terminal_step [where g = g and op = op, OF Cons.prems(1-3)]
  have "admitted sid (guard_run ops (fst (guard_step op g))) = [] \<and> metered sid (guard_run ops (fst (guard_step op g))) = []"
    using Cons.prems(2-4) step(1) by (intro Cons.IH) auto
  then show ?case using step(2,3) Cons.prems(4) by (simp add: case_prod_beta admitted_def metered_def)
qed simp

lemma records_run:
  assumes "records sid c past s" "g sid = Some s" "\<forall>op\<in>set ops. keeps_packet sid c op"
  shows "\<exists>s'. records sid c (past @ guard_run ops g) s'"
  using assms
proof (induction ops arbitrary: g s past)
  case (Cons op ops)
  obtain s' where "fst (guard_step op g) sid = Some s'" "records sid c (past @ [(op, snd (guard_step op g))]) s'"
    using records_step [where op = op and g = g, OF Cons.prems(1,2)] Cons.prems(3) by auto
  with Cons.IH [where g = "fst (guard_step op g)", OF this(2,1)] Cons.prems(3) show ?case by (simp add: case_prod_beta)
qed auto

lemma refused_run:
  assumes "records sid c past s" "g sid = Some s" "\<forall>op\<in>set ops. keeps_packet sid c op"
    and "guard_run ops g = before @ x # after" "refuses sid x"
  shows "admitted sid after = [] \<and> metered sid after = []"
  using assms
proof (induction ops arbitrary: g s past before)
  case (Cons op ops)
  obtain s' where s': "fst (guard_step op g) sid = Some s'" "records sid c (past @ [(op, snd (guard_step op g))]) s'"
    using records_step [where op = op and g = g, OF Cons.prems(1,2)] Cons.prems(3) by auto
  have run: "guard_run (op # ops) g = (op, snd (guard_step op g)) # guard_run ops (fst (guard_step op g))"
    by (simp add: case_prod_beta)
  show ?case
  proof (cases before)
    case Nil
    with Cons.prems(4,5) run have x: "refuses sid (op, snd (guard_step op g))" and after: "after = guard_run ops (fst (guard_step op g))"
      by auto
    from s'(2) x have "rs_terminalCode s' \<noteq> None" "rs_compiled s' = c" by (auto simp: records_def)
    from terminal_run [where g = "fst (guard_step op g)" and sid = sid, OF s'(1) this] Cons.prems(3) show ?thesis by (simp add: after)
  next
    case (Cons y ys)
    with Cons.prems(4) run have "guard_run ops (fst (guard_step op g)) = ys @ x # after" by simp
    from Cons.IH [where g = "fst (guard_step op g)", OF s'(2,1) _ this Cons.prems(5)] Cons.prems(3) show ?thesis by simp
  qed
qed simp

text \<open>
  C30. Whatever the guard is asked, in whatever order and for whatever sessions, from the moment a
  packet is activated for a session that does not hold it, and as long as the session is not cleared
  nor given another packet: the guard admits at most as many calls of the session as the tier allows,
  no id twice; it lets at most one result of each admitted call through as metered, and none of a
  call it has not admitted; the results let through so, not reported as a status and not empty, are at
  most as many and have together at most as many bytes as the tier allows; and once it has refused a
  call or a result for the budget it admits and meters nothing more. Not counted, by the guard as in
  this statement, are the bytes of results reported as a status, and the results of calls that are not
  pending, which the guard answers with \<open>GuardQuiet\<close> and lets pass.
\<close>

theorem retrieval_stays_in_budget:
  assumes "compileTaskPacket E sha inp = Inr c" "\<forall>s. g sid = Some s \<longrightarrow> cp_packetHash (rs_compiled s) \<noteq> cp_packetHash c"
    and "\<forall>op\<in>set ops. keeps_packet sid c op" "tr = guard_run ops (activate sid c g)"
  shows "distinct (admitted sid tr) \<and>
    length (admitted sid tr) \<le> maxCalls (TierBudgets (tp_tier (cp_packet c))) \<and>
    distinct (map fst (metered sid tr)) \<and> fst ` set (metered sid tr) \<subseteq> set (admitted sid tr) \<and>
    length (retrieved sid tr) \<le> maxRetrievalCalls (TierBudgets (tp_tier (cp_packet c))) \<and>
    sum_list (retrieved sid tr) \<le> maxRetrievalBytes (TierBudgets (tp_tier (cp_packet c))) \<and>
    (\<forall>before x after. tr = before @ x # after \<longrightarrow> refuses sid x \<longrightarrow> admitted sid after = [] \<and> metered sid after = [])"
proof -
  define s where "s = \<lparr>rs_compiled = c, rs_budget = createRetrievalBudget (tp_tier (cp_packet c)),
    rs_terminalCode = None, rs_pendingCallIds = [], rs_seenCallIds = [], rs_observations = []\<rparr>"
  have s: "activate sid c g sid = Some s"
    using assms(2) by (cases "g sid") (auto simp: activate_def s_def)
  have "guard_ok s"
  proof -
    have "guards_ok (activate sid c Map.empty)"
      using assms(1) by (intro activate_ok) (auto simp: guards_ok_def compiled_by_def)
    then show ?thesis by (simp add: guards_ok_def activate_def s_def)
  qed
  then have start: "records sid c [] s" by (simp add: records_def s_def createRetrievalBudget_def)
  obtain s' where "records sid c tr s'" using records_run [where g = "activate sid c g" and sid = sid, OF start s assms(3)] assms(4) by auto
  then have "guard_ok s'" "rs_compiled s' = c" "rs_seenCallIds s' = admitted sid tr"
    "distinct (map fst (metered sid tr))" "fst ` set (metered sid tr) \<subseteq> set (rs_seenCallIds s')"
    "rb_retrievalBytes (rs_budget s') = sum_list (retrieved sid tr)"
    "rb_retrievalCalls (rs_budget s') = length (retrieved sid tr)" by (auto simp: records_def)
  moreover have "admitted sid after = [] \<and> metered sid after = []" if "tr = before @ x # after" "refuses sid x" for before x after
    using refused_run [where g = "activate sid c g" and sid = sid, OF start s assms(3) _ that(2), of before after] that(1) assms(4) by simp
  ultimately show ?thesis by (auto simp: guard_ok_def within_limits_def Let_def)
qed

definition sample_ops :: "guard_op list" where
  "sample_ops = [OpAuthorize ''session'' ''call'', OpAuthorize ''session'' ''call'',
     OpObserve ''session'' ''call'' False [TextContent ''abc'']]"

theorem retrieval_stays_in_budget_witness:
  "admitted ''session'' (guard_run sample_ops (activate ''session'' sample_compiled Map.empty)) = [''call''] \<and>
   sum_list (retrieved ''session'' (guard_run sample_ops (activate ''session'' sample_compiled Map.empty))) = 3 \<and>
   3 \<le> maxRetrievalBytes (TierBudgets (tp_tier (cp_packet sample_compiled)))"
proof -
  have "admitted ''session'' (guard_run sample_ops (activate ''session'' sample_compiled Map.empty)) = [''call'']"
    "sum_list (retrieved ''session'' (guard_run sample_ops (activate ''session'' sample_compiled Map.empty))) = 3" by code_simp+
  moreover have "\<forall>op\<in>set sample_ops. keeps_packet ''session'' sample_compiled op" by (simp add: sample_ops_def)
  ultimately show ?thesis
    using retrieval_stays_in_budget [OF sample_compiles, of Map.empty "''session''" sample_ops, OF _ _ refl] by simp
qed

section \<open>Escalation\<close>

fun role_rank :: "model_role \<Rightarrow> nat" where
  "role_rank Smol = 0"
| "role_rank TaskRole = 1"
| "role_rank Slow = 2"

definition route_ok :: "worker_route \<Rightarrow> bool" where
  "route_ok r \<longleftrightarrow> wr_allowedRoles r = TierRoles (wr_tier r) \<and> wr_role r \<in> set (TierRoles (wr_tier r)) \<and>
     wr_semanticAttempt r = Suc (role_rank (wr_role r)) \<and> (wr_transportRequest r = 1 \<or> wr_transportRequest r = 2)"

text \<open>How many failures a route can still absorb.\<close>

definition route_measure :: "worker_route \<Rightarrow> nat" where
  "route_measure r = (if wr_status r = RouteBlocked then 0
     else 2 * (2 - role_rank (wr_role r)) + (3 - wr_transportRequest r))"

lemma failure_keeps_route: "route_ok r \<Longrightarrow> route_ok (reduceWorkerFailure r f)"
  by (cases "wr_tier r"; cases "wr_role r"; cases f)
    (auto simp: route_ok_def reduceWorkerFailure_def resend_def escalate_def block_def semantic_failure_def
      following_role_def nextRole_def split: option.splits)

lemma failure_spends_route:
  "route_ok r \<Longrightarrow> wr_status r = RoutePass \<Longrightarrow> route_measure (reduceWorkerFailure r f) < route_measure r"
  by (cases "wr_tier r"; cases "wr_role r"; cases f)
    (auto simp: route_ok_def reduceWorkerFailure_def resend_def escalate_def block_def semantic_failure_def
      following_role_def nextRole_def route_measure_def split: option.splits)

lemma failures_spend_route:
  "route_ok r \<Longrightarrow> route_ok (foldl reduceWorkerFailure r fs) \<and>
     route_measure (foldl reduceWorkerFailure r fs) \<le> route_measure r - length fs"
proof (induction fs arbitrary: r)
  case (Cons f fs)
  have "route_measure (reduceWorkerFailure r f) \<le> route_measure r - 1"
    using failure_spends_route [OF Cons.prems, of f]
    by (cases "wr_status r") (auto simp: reduceWorkerFailure_def route_measure_def)
  then show ?case using Cons.IH [OF failure_keeps_route [OF Cons.prems, of f]] by force
qed simp

lemma worker_failures_parts:
  assumes r_def: "r = foldl reduceWorkerFailure (initialWorkerRoute tier) fs"
  shows "wr_role r \<in> set (TierRoles (wr_tier r))"
    and "wr_semanticAttempt r \<le> length (TierRoles (wr_tier r))"
    and "6 \<le> length fs \<longrightarrow> wr_status r = RouteBlocked"
proof -
  have "route_ok (initialWorkerRoute tier)"
    by (cases tier) (simp_all add: route_ok_def initialWorkerRoute_def)
  from failures_spend_route [OF this, of fs] have r: "route_ok r"
    and m: "route_measure r \<le> 6 - length fs"
    by (simp_all add: r_def initialWorkerRoute_def route_measure_def)
  from r show "wr_role r \<in> set (TierRoles (wr_tier r))" by (simp add: route_ok_def)
  from r show "wr_semanticAttempt r \<le> length (TierRoles (wr_tier r))"
    by (cases "wr_tier r"; cases "wr_role r") (simp_all add: route_ok_def)
  show "6 \<le> length fs \<longrightarrow> wr_status r = RouteBlocked"
    using m r by (auto simp: route_measure_def route_ok_def split: if_splits)
qed

text \<open>
  Escalation comes to an end: under any sequence of failures the role of a worker is one its tier
  allows and there are no more semantic attempts than roles of the tier, and after six failures at the latest the
  route is blocked.
\<close>

theorem worker_failures_exhaust:
  assumes r_def: "r = foldl reduceWorkerFailure (initialWorkerRoute tier) fs"
  shows "wr_role r \<in> set (TierRoles (wr_tier r)) \<and>
     wr_semanticAttempt r \<le> length (TierRoles (wr_tier r)) \<and>
     (6 \<le> length fs \<longrightarrow> wr_status r = RouteBlocked)"
  using worker_failures_parts [OF assms] by blast

theorem worker_failures_exhaust_witness:
  "wr_status (foldl reduceWorkerFailure (initialWorkerRoute DEEP) (replicate 6 TransportTransient)) = RouteBlocked \<and>
     wr_status (foldl reduceWorkerFailure (initialWorkerRoute DEEP) (replicate 5 TransportTransient)) = RoutePass"
proof -
  have "wr_status (foldl reduceWorkerFailure (initialWorkerRoute DEEP) (replicate 5 TransportTransient)) = RoutePass"
    by code_simp
  then show ?thesis using worker_failures_exhaust [of _ DEEP "replicate 6 TransportTransient", OF refl] by simp
qed

section \<open>Risk\<close>

fun tier_rank :: "task_tier \<Rightarrow> nat" where
  "tier_rank FAST = 0"
| "tier_rank STANDARD = 1"
| "tier_rank DEEP = 2"

lemma bounded_array_length: "bounded_array l m f xs = Some ys \<Longrightarrow> length ys = length xs"
  by (auto simp: bounded_array_def array_of_Some_iff list_all2_lengthD split: if_splits)

lemma filter_eq_Nil_list_ex: "filter P xs = [] \<longleftrightarrow> \<not> list_ex P xs"
  by (induction xs) auto

lemma classified_tier:
  assumes "length paths = length (ri_allowedPaths c)"
  shows "fst (risk_tier c (filter concrete_tag tags) (orderedUnique (if filter concrete_tag tags \<noteq> [] then filter concrete_tag tags else tags))) =
    (if ri_explicitReview c then DEEP
     else if classifyTaskTier paths tags (ri_publicBehavior c) = FAST \<and>
       (1 < length (ri_moduleRoots c) \<or> ri_mutating c \<and> ri_allowedPaths c = [])
     then STANDARD else classifyTaskTier paths tags (ri_publicBehavior c))"
  using assms
  by (auto simp: risk_tier_def classifyTaskTier_def Let_def filter_eq_Nil_list_ex orderedUnique_def sort_tags_def)

lemma risk_tier_parts:
  assumes "classifyWorkflowRisk E c = Some receipt"
    and packet_tier_def: "packet_tier = classifyTaskTier (ri_allowedPaths c) (ri_boundaryTags c) (ri_publicBehavior c)"
  shows "rr_tier receipt =
      (if ri_explicitReview c then DEEP
       else if packet_tier = FAST \<and> (1 < length (ri_moduleRoots c) \<or> ri_mutating c \<and> ri_allowedPaths c = [])
       then STANDARD else packet_tier)"
    and "tier_rank packet_tier \<le> tier_rank (rr_tier receipt)"
    and "tier_budget.truncate (rr_ceilings receipt) = TierBudgets (rr_tier receipt)"
proof -
  obtain d where d: "classifierInputSchema E c = Some d"
    and tier: "rr_tier receipt = fst (risk_tier d (filter concrete_tag (ri_boundaryTags d))
      (orderedUnique (if filter concrete_tag (ri_boundaryTags d) \<noteq> [] then filter concrete_tag (ri_boundaryTags d) else ri_boundaryTags d)))"
    and ceilings: "rr_ceilings receipt = RiskTierCeilings (rr_tier receipt)"
    using assms(1) by (auto simp: classifyWorkflowRisk_def Let_def case_prod_unfold split: option.splits)
  have len: "length (ri_allowedPaths c) = length (ri_allowedPaths d)" "length (ri_moduleRoots c) = length (ri_moduleRoots d)"
    and same: "ri_boundaryTags d = ri_boundaryTags c" "ri_explicitReview d = ri_explicitReview c"
      "ri_mutating d = ri_mutating c" "ri_publicBehavior d = ri_publicBehavior c"
    using d bounded_array_length by (fastforce simp: classifierInputSchema_def elim!: bind_SomeE split: if_splits)+
  have "ri_allowedPaths d = [] \<longleftrightarrow> ri_allowedPaths c = []" using len(1) by (metis length_0_conv)
  then show eq: "rr_tier receipt =
      (if ri_explicitReview c then DEEP
       else if packet_tier = FAST \<and> (1 < length (ri_moduleRoots c) \<or> ri_mutating c \<and> ri_allowedPaths c = [])
       then STANDARD else packet_tier)"
    unfolding packet_tier_def tier classified_tier [OF len(1)] by (auto simp: same len(2))
  show "tier_rank packet_tier \<le> tier_rank (rr_tier receipt)"
    unfolding eq by (cases packet_tier) simp_all
  show "tier_budget.truncate (rr_ceilings receipt) = TierBudgets (rr_tier receipt)"
    unfolding ceilings by (cases "rr_tier receipt") (simp_all add: tier_budget.defs tier_ceiling.defs)
qed

text \<open>
  The classifier of workflow risk agrees with the tier of a packet with the same paths, tags and
  public behaviour, except that a review makes the work deep and that more than one module root, or a
  mutation of unknown files, lifts fast work to standard. It never lowers the tier.
\<close>

theorem risk_refines_tier:
  assumes "classifyWorkflowRisk E c = Some receipt"
    and packet_tier_def: "packet_tier = classifyTaskTier (ri_allowedPaths c) (ri_boundaryTags c) (ri_publicBehavior c)"
  shows "(rr_tier receipt =
      (if ri_explicitReview c then DEEP
       else if packet_tier = FAST \<and> (1 < length (ri_moduleRoots c) \<or> ri_mutating c \<and> ri_allowedPaths c = [])
       then STANDARD else packet_tier)) \<and>
     tier_rank packet_tier \<le> tier_rank (rr_tier receipt) \<and>
     tier_budget.truncate (rr_ceilings receipt) = TierBudgets (rr_tier receipt)"
  using risk_tier_parts [OF assms(1) assms(2)] by blast

definition sample_risk :: classifier_input where
  "sample_risk = \<lparr>ri_allowedPaths = [''a/x.ts'', ''b/y.ts''], ri_moduleRoots = [''a'', ''b''], ri_boundaryTags = [TagNone],
     ri_explicitReview = False, ri_mutating = True, ri_publicBehavior = False\<rparr>"

theorem risk_refines_tier_witness:
  "classifyTaskTier (ri_allowedPaths sample_risk) (ri_boundaryTags sample_risk) (ri_publicBehavior sample_risk) = FAST \<and>
     rr_tier (the (classifyWorkflowRisk sample_env sample_risk)) = STANDARD"
proof -
  have "\<not> Option.is_none (classifyWorkflowRisk sample_env sample_risk)" by code_simp
  then have "classifyWorkflowRisk sample_env sample_risk = Some (the (classifyWorkflowRisk sample_env sample_risk))"
    by (simp add: Option.is_none_def)
  moreover have "classifyTaskTier (ri_allowedPaths sample_risk) (ri_boundaryTags sample_risk) (ri_publicBehavior sample_risk) = FAST"
    by code_simp
  ultimately show ?thesis
    using risk_refines_tier [of sample_env sample_risk, OF _ refl] by (simp add: sample_risk_def)
qed

end
