(* ===== verification/Team_Mode.thy ===== *)
theory Team_Mode
  imports Task_Packet Task_Ledger Acceptance_Ledger Atomic_Files State_Decode
begin

text \<open>
  Team mode: definitions and states of teams (\<^verbatim>\<open>src/workflows/teammode-domain.ts\<close>), the validation of
  worktrees (\<^verbatim>\<open>teammode-worktree.ts\<close>), the files of teams (\<^verbatim>\<open>teammode-state-store.ts\<close>) and the
  lifecycle (\<^verbatim>\<open>teammode-contract.ts\<close>). What \<^verbatim>\<open>realpath\<close> and Git answer, the scope that the task
  ledger resolves for the session and the entries of the acceptance ledger, both read under the
  repository lock, are arguments.
\<close>

section \<open>Definitions of teams\<close>

definition is_lower_alnum :: "char \<Rightarrow> bool" where
  "is_lower_alnum c \<longleftrightarrow> c \<in> set ''abcdefghijklmnopqrstuvwxyz0123456789''"

definition TeamNameSchema :: "string \<Rightarrow> bool" where
  "TeamNameSchema s \<longleftrightarrow> list_all (\<lambda>w. w \<noteq> [] \<and> list_all is_lower_alnum w) (split_on (CHR ''-'') s) \<and> length s \<le> 64"

definition ownedPath :: "host_env \<Rightarrow> string \<Rightarrow> string option" where
  "ownedPath E value =
     (let p = js_trim value; normalized = forward_slashes p
      in if p = [] \<or> 512 < length p then None
         else if isAbsolute E p \<or> take 1 normalized = ''/'' \<or> ''..'' \<in> set (split_on (CHR ''/'') normalized) then None
         else Some p)"

record team_member =
  tm_requestedName :: string
  tm_agentType :: worker_role
  tm_focus :: string
  tm_ownership :: "string list"
  tm_deliverable :: string
  tm_isolated :: bool

text \<open>The schema of a member, also when the member is extended by its runtime fields.\<close>

definition memberDefinitionSchema :: "host_env \<Rightarrow> 'a team_member_scheme \<Rightarrow> 'a team_member_scheme option" where
  "memberDefinitionSchema E m = do {
     focus \<leftarrow> bounded_text 1024 (tm_focus m);
     ownership \<leftarrow> bounded_array 1 32 (ownedPath E) (tm_ownership m);
     deliverable \<leftarrow> bounded_text 1024 (tm_deliverable m);
     if TeamNameSchema (tm_requestedName m)
     then Some (m\<lparr>tm_focus := focus, tm_ownership := ownership, tm_deliverable := deliverable\<rparr>) else None }"

definition strip_dot_slash :: "string \<Rightarrow> string" where
  "strip_dot_slash p = (if take 2 p = ''./'' then drop 2 p else p)"

definition strip_slash :: "string \<Rightarrow> string" where
  "strip_slash p = (if p \<noteq> [] \<and> last p = CHR ''/'' then butlast p else p)"

definition normalizedOwnership :: "string \<Rightarrow> string" where
  "normalizedOwnership value =
     (let normalized = strip_slash (strip_dot_slash (posix_normalize (forward_slashes value)))
      in if normalized = [] then ''.'' else normalized)"

definition pathsOverlap :: "string \<Rightarrow> string \<Rightarrow> bool" where
  "pathsOverlap left right \<longleftrightarrow> left = ''.'' \<or> right = ''.'' \<or> left = right \<or>
     startsWith left (right @ ''/'') \<or> startsWith right (left @ ''/'')"

record team_definition =
  td_teamName :: string
  td_members :: "team_member list"

definition ownership_claims :: "'a team_member_scheme list \<Rightarrow> (string \<times> string) list" where
  "ownership_claims ms = concat (map (\<lambda>m. map (\<lambda>p. (tm_requestedName m, normalizedOwnership p)) (tm_ownership m)) ms)"

fun claims_disjoint :: "(string \<times> string) list \<Rightarrow> bool" where
  "claims_disjoint [] \<longleftrightarrow> True"
| "claims_disjoint (a # claims) \<longleftrightarrow>
     list_all (\<lambda>b. \<not> (fst a \<noteq> fst b \<and> pathsOverlap (snd a) (snd b))) claims \<and> claims_disjoint claims"

definition TeamDefinitionSchema :: "host_env \<Rightarrow> team_definition \<Rightarrow> team_definition option" where
  "TeamDefinitionSchema E t = do {
     members \<leftarrow> bounded_array 2 8 (memberDefinitionSchema E) (td_members t);
     if TeamNameSchema (td_teamName t) \<and> distinct (map tm_requestedName members) \<and>
        claims_disjoint (ownership_claims members)
     then Some (t\<lparr>td_members := members\<rparr>) else None }"

section \<open>States of teams\<close>

record runtime_member = team_member +
  rm_actualAgentId :: "string option"
  rm_actualJobId :: "string option"
  rm_worktreePath :: "string option"
  rm_acceptanceKey :: "string option"

datatype team_status = TeamInitializing | TeamActive | TeamCompleted | TeamCancelled | TeamArchived

text \<open>A team, over the type of its status.\<close>

record 'status team_base =
  ts_teamName :: string
  ts_runId :: uuid
  ts_attempt :: nat
  ts_revision :: nat
  ts_status :: 'status
  ts_members :: "runtime_member list"

type_synonym team_state = "team_status team_base"

definition present_text :: "string \<Rightarrow> string option" where
  "present_text s = (if s = [] then None else Some s)"

definition runtimeMemberSchema :: "host_env \<Rightarrow> runtime_member \<Rightarrow> runtime_member option" where
  "runtimeMemberSchema E m = do {
     m' \<leftarrow> memberDefinitionSchema E m;
     agent \<leftarrow> nullable runtimeId (rm_actualAgentId m);
     job \<leftarrow> nullable runtimeId (rm_actualJobId m);
     worktree \<leftarrow> nullable present_text (rm_worktreePath m);
     key \<leftarrow> nullable present_text (rm_acceptanceKey m);
     Some (m'\<lparr>rm_actualAgentId := agent, rm_actualJobId := job, rm_worktreePath := worktree, rm_acceptanceKey := key\<rparr>) }"

definition actual_ids :: "runtime_member list \<Rightarrow> string list" where
  "actual_ids ms = concat (map (\<lambda>m. case rm_actualAgentId m of None \<Rightarrow> [] | Some a \<Rightarrow> [a]) ms)"

definition team_lifecycle_ok :: "team_state \<Rightarrow> bool" where
  "team_lifecycle_ok t \<longleftrightarrow>
     (let initializing = (ts_status t = TeamInitializing);
          archivedBound = (ts_status t = TeamArchived \<and> list_ex (\<lambda>m. rm_actualAgentId m \<noteq> None) (ts_members t));
          requiresIdentity = (ts_status t = TeamActive \<or> ts_status t = TeamCompleted \<or> archivedBound);
          invalid = list_ex (\<lambda>m. if initializing
            then rm_actualAgentId m \<noteq> None \<or> rm_actualJobId m \<noteq> None \<or> rm_acceptanceKey m \<noteq> None
            else requiresIdentity \<and> (rm_actualAgentId m = None \<or> rm_actualJobId m = None)) (ts_members t);
          missingAcceptance = ((ts_status t = TeamCompleted \<or> archivedBound) \<and>
            list_ex (\<lambda>m. rm_acceptanceKey m = None) (ts_members t))
      in \<not> invalid \<and> \<not> missingAcceptance \<and> distinct (actual_ids (ts_members t)))"

definition TeamStateSchema :: "host_env \<Rightarrow> team_state \<Rightarrow> team_state option" where
  "TeamStateSchema E t = do {
     _ \<leftarrow> uuid_schema E (ts_runId t);
     _ \<leftarrow> counter (ts_attempt t);
     _ \<leftarrow> counter_positive (ts_revision t);
     members \<leftarrow> bounded_array 2 8 (runtimeMemberSchema E) (ts_members t);
     if TeamNameSchema (ts_teamName t) \<and> team_lifecycle_ok (t\<lparr>ts_members := members\<rparr>)
     then Some (t\<lparr>ts_members := members\<rparr>) else None }"

text \<open>
  The key of a definition: the name and the members sorted by name, their ownership normalised and
  sorted. Member names are unique, so the order of \<^verbatim>\<open>localeCompare\<close> does not matter for equality.
\<close>

definition member_key :: "'a team_member_scheme \<Rightarrow> string \<times> worker_role \<times> string \<times> string list \<times> string \<times> bool" where
  "member_key m = (tm_requestedName m, tm_agentType m, tm_focus m, sort (map normalizedOwnership (tm_ownership m)),
     tm_deliverable m, tm_isolated m)"

definition teamDefinitionKey ::
    "string \<Rightarrow> 'a team_member_scheme list \<Rightarrow> string \<times> (string \<times> worker_role \<times> string \<times> string list \<times> string \<times> bool) list" where
  "teamDefinitionKey name ms = (name, sort_key fst (map member_key ms))"

definition matchesTeamDefinition :: "team_state \<Rightarrow> team_definition \<Rightarrow> bool" where
  "matchesTeamDefinition t d \<longleftrightarrow>
     teamDefinitionKey (ts_teamName t) (ts_members t) = teamDefinitionKey (td_teamName d) (td_members d)"

type_synonym worktree_binding = "string \<times> string"
  \<comment> \<open>requestedName and path\<close>

text \<open>\<^verbatim>\<open>new Map\<close> keeps the last value of a key; with distinct keys \<open>map_of\<close> is the same.\<close>

definition matchesTeamWorktreeBindings :: "team_state \<Rightarrow> worktree_binding list \<Rightarrow> bool" where
  "matchesTeamWorktreeBindings t bindings \<longleftrightarrow>
     (let expected = concat (map (\<lambda>m. case rm_worktreePath m of None \<Rightarrow> [] | Some p \<Rightarrow> [(tm_requestedName m, p)]) (ts_members t))
      in distinct (map fst bindings) \<and> length bindings = length expected \<and>
         list_all (\<lambda>(name, p). map_of bindings name = Some p) expected)"

section \<open>Worktrees\<close>

record worktree_host =
  wh_realpath :: "string \<Rightarrow> string option"
  wh_resolve :: "string \<Rightarrow> string \<Rightarrow> string"
  wh_topLevel :: "string \<Rightarrow> string option"
  wh_commonDir :: "string \<Rightarrow> string option"
  wh_status :: "string \<Rightarrow> string option"

datatype worktree_error = Unreadable | NotWorktree | UnrelatedRepo | MainWorktree | DirtyWorktree

definition commonDirectory :: "worktree_host \<Rightarrow> string \<Rightarrow> string option" where
  "commonDirectory W cwd = (case wh_commonDir W cwd of None \<Rightarrow> None | Some raw \<Rightarrow> wh_realpath W (wh_resolve W cwd raw))"

definition validateTeamWorktree :: "host_env \<Rightarrow> worktree_host \<Rightarrow> string \<Rightarrow> string \<Rightarrow> worktree_error + string" where
  "validateTeamWorktree E W repositoryRoot candidatePath =
     (case (wh_realpath W repositoryRoot, wh_realpath W candidatePath) of
        (Some repository, Some candidate) \<Rightarrow>
          (case wh_topLevel W candidate of
             None \<Rightarrow> Inl NotWorktree
           | Some topLevel \<Rightarrow>
             (case wh_realpath W topLevel of
                None \<Rightarrow> Inl NotWorktree
              | Some resolvedTop \<Rightarrow>
                (if canonicalComparisonPath E resolvedTop \<noteq> canonicalComparisonPath E candidate then Inl NotWorktree
                 else case (commonDirectory W repository, commonDirectory W candidate) of
                   (Some repositoryCommon, Some candidateCommon) \<Rightarrow>
                     (if canonicalComparisonPath E repositoryCommon \<noteq> canonicalComparisonPath E candidateCommon
                      then Inl UnrelatedRepo
                      else if canonicalComparisonPath E repository = canonicalComparisonPath E candidate
                      then Inl MainWorktree
                      else if wh_status W candidate \<noteq> Some [] then Inl DirtyWorktree
                      else Inr candidate)
                 | _ \<Rightarrow> Inl UnrelatedRepo)))
      | _ \<Rightarrow> Inl Unreadable)"

end
