(* ===== verification/Team_Lifecycle.thy ===== *)
theory Team_Lifecycle
  imports Team_Mode
begin

text \<open>
  The file of a team (\<^verbatim>\<open>src/workflows/teammode-state-store.ts\<close>) and the operations of its lifecycle
  (\<^verbatim>\<open>src/workflows/teammode-contract.ts\<close>). An operation decides on the state it has read under the
  repository lock and publishes the file when the state has changed.
\<close>

section \<open>The file of a team\<close>

datatype persisted_status =
    PersistedInitializing | PersistedActive | PersistedBound | PersistedCompleted | PersistedCancelled
  | PersistedArchived

text \<open>What the file holds: a tombstone or a team, each of version 1 (\<open>False\<close>) or version 2.\<close>

datatype team_file = TeamTombstone bool string | TeamRecord bool "persisted_status team_base"

type_synonym team_slot = "team_file file_bytes option"

definition with_status :: "'b \<Rightarrow> 'a team_base \<Rightarrow> 'b team_base" where
  "with_status st t = \<lparr>ts_teamName = ts_teamName t, ts_runId = ts_runId t, ts_attempt = ts_attempt t,
     ts_revision = ts_revision t, ts_status = st, ts_members = ts_members t\<rparr>"

fun persisted_status_of :: "bool \<Rightarrow> team_status \<Rightarrow> persisted_status" where
  "persisted_status_of v2 TeamInitializing = PersistedInitializing"
| "persisted_status_of v2 TeamActive = (if v2 then PersistedBound else PersistedActive)"
| "persisted_status_of v2 TeamCompleted = PersistedCompleted"
| "persisted_status_of v2 TeamCancelled = PersistedCancelled"
| "persisted_status_of v2 TeamArchived = PersistedArchived"

fun status_of_persisted :: "bool \<Rightarrow> persisted_status \<Rightarrow> team_status option" where
  "status_of_persisted v2 PersistedInitializing = Some TeamInitializing"
| "status_of_persisted v2 PersistedActive = Some TeamActive"
| "status_of_persisted v2 PersistedBound = (if v2 then Some TeamActive else None)"
| "status_of_persisted v2 PersistedCompleted = Some TeamCompleted"
| "status_of_persisted v2 PersistedCancelled = Some TeamCancelled"
| "status_of_persisted v2 PersistedArchived = Some TeamArchived"

definition persistedTeamStateSchema :: "host_env \<Rightarrow> bool \<Rightarrow> persisted_status team_base \<Rightarrow> team_state option" where
  "persistedTeamStateSchema E v2 t = (case status_of_persisted v2 (ts_status t) of
     None \<Rightarrow> None
   | Some st \<Rightarrow> TeamStateSchema E (with_status st t))"

datatype team_throw = TeamGuardThrows | TeamSyntaxError | TeamZodError | TeamIndexThrows | TeamLedgerThrows ledger_error
  | TeamWriteThrows | TeamKilled

definition read_team :: "host_env \<Rightarrow> bool \<Rightarrow> team_slot \<Rightarrow> team_throw + team_state option" where
  "read_team E guard slot =
     (if \<not> guard then Inl TeamGuardThrows
      else case slot of
        None \<Rightarrow> Inr None
      | Some NotJson \<Rightarrow> Inl TeamSyntaxError
      | Some OtherJson \<Rightarrow> Inl TeamZodError
      | Some (Json (TeamTombstone _ name)) \<Rightarrow> (if TeamNameSchema name then Inr None else Inl TeamZodError)
      | Some (Json (TeamRecord v2 t)) \<Rightarrow>
          (case persistedTeamStateSchema E v2 t of None \<Rightarrow> Inl TeamZodError | Some s \<Rightarrow> Inr (Some s)))"

text \<open>\<open>index\<close> is the version of the index, when it can be read.\<close>

definition published :: "write_io \<Rightarrow> team_file \<Rightarrow> team_slot \<Rightarrow> team_slot \<times> team_throw option" where
  "published io bytes slot = (case atomicReplace io (stringify bytes) slot of
     (slot', out) \<Rightarrow> (slot', case out of Published \<Rightarrow> None | WriteKilled \<Rightarrow> Some TeamKilled | _ \<Rightarrow> Some TeamWriteThrows))"

definition remove_team :: "bool option \<Rightarrow> write_io \<Rightarrow> string \<Rightarrow> team_slot \<Rightarrow> team_slot \<times> team_throw option" where
  "remove_team index io name slot = (case index of
     None \<Rightarrow> (slot, Some TeamIndexThrows)
   | Some v2 \<Rightarrow> (if TeamNameSchema name then published io (TeamTombstone v2 name) slot else (slot, Some TeamZodError)))"

definition persisted_team :: "bool \<Rightarrow> team_state \<Rightarrow> team_file" where
  "persisted_team v2 t = TeamRecord v2 (with_status (persisted_status_of v2 (ts_status t)) t)"

definition replace_team :: "bool option \<Rightarrow> write_io \<Rightarrow> team_state \<Rightarrow> team_slot \<Rightarrow> team_slot \<times> team_throw option" where
  "replace_team index io t slot = (case index of
     None \<Rightarrow> (slot, Some TeamIndexThrows)
   | Some v2 \<Rightarrow> published io (persisted_team v2 t) slot)"

section \<open>Decisions\<close>

datatype team_ok =
    OkCreated | OkReplayed | OkBound | OkCompleted | OkCancelled | OkResumed | OkArchived | OkDeleted

datatype team_code =
    InvalidTeam | AsyncSurfacesUnavailable | TeamConflict | TeamMissing | InvalidTeamState | TeamBindConflict
  | AsyncCapabilityUnproven | IdentityMappingIncomplete | InvalidWorktreeBinding | WorktreeRefused worktree_error
  | ParentAcceptanceIncomplete | TeamNotCompleted | TeamNotArchived | InvalidTeamName | CwdMismatch
  | TeamStateConflict | CallerNotCurrentParent

datatype team_result = TeamOk team_ok "team_state option" | TeamErr team_code

type_synonym team_decision = "team_throw + team_result"

definition parsed_team :: "host_env \<Rightarrow> team_ok \<Rightarrow> team_state \<Rightarrow> team_decision" where
  "parsed_team E ok t = (case TeamStateSchema E t of None \<Rightarrow> Inl TeamZodError | Some s \<Rightarrow> Inr (TeamOk ok (Some s)))"

definition fresh_member :: "team_member \<Rightarrow> runtime_member" where
  "fresh_member m = team_member.extend m (runtime_member.fields None None None None)"

definition same_run_attempt :: "team_state \<Rightarrow> task_run_scope \<Rightarrow> bool" where
  "same_run_attempt t scope \<longleftrightarrow>
     ts_runId t = run_runId (scope_run scope) \<and> ts_attempt t = run_progressRevision (scope_run scope)"

definition decide_initialize :: "host_env \<Rightarrow> team_definition \<Rightarrow> team_state option \<Rightarrow> task_run_scope \<Rightarrow> team_decision" where
  "decide_initialize E d current scope = (case current of
     Some t \<Rightarrow>
       Inr (if same_run_attempt t scope \<and> matchesTeamDefinition t d then TeamOk OkReplayed (Some t) else TeamErr TeamConflict)
   | None \<Rightarrow> parsed_team E OkCreated \<lparr>ts_teamName = td_teamName d, ts_runId = run_runId (scope_run scope),
       ts_attempt = run_progressRevision (scope_run scope), ts_revision = 1, ts_status = TeamInitializing,
       ts_members = map fresh_member (td_members d)\<rparr>)"

fun worker_role_name :: "worker_role \<Rightarrow> string" where
  "worker_role_name WorkerLow = ''omp-lazy-worker-low''"
| "worker_role_name WorkerMedium = ''omp-lazy-worker-medium''"
| "worker_role_name WorkerHigh = ''omp-lazy-worker-high''"

definition matching_identities :: "runtime_identity list \<Rightarrow> runtime_member \<Rightarrow> runtime_identity list" where
  "matching_identities ids m = filter (\<lambda>i. ri_requestedName i = Some (tm_requestedName m) \<and>
     ri_agentType i = Some (worker_role_name (tm_agentType m))) ids"

definition bind_member ::
    "(string \<Rightarrow> worktree_error + string) \<Rightarrow> runtime_identity list \<Rightarrow> worktree_binding list \<Rightarrow> runtime_member \<Rightarrow>
       team_code + runtime_member" where
  "bind_member validate ids worktrees m = (case matching_identities ids m of
     [identity] \<Rightarrow>
       (let bound = m\<lparr>rm_actualAgentId := Some (ri_actualAgentId identity), rm_actualJobId := ri_actualJobId identity\<rparr>
        in case map_of worktrees (tm_requestedName m) of
             None \<Rightarrow> Inr (bound\<lparr>rm_worktreePath := None\<rparr>)
           | Some worktree \<Rightarrow>
             (case validate worktree of
                Inl code \<Rightarrow> Inl (WorktreeRefused code)
              | Inr path \<Rightarrow> Inr (bound\<lparr>rm_worktreePath := Some path\<rparr>)))
   | _ \<Rightarrow> Inl IdentityMappingIncomplete)"

fun bind_members ::
    "(runtime_member \<Rightarrow> team_code + runtime_member) \<Rightarrow> runtime_member list \<Rightarrow> team_code + runtime_member list" where
  "bind_members f [] = Inr []"
| "bind_members f (m # ms) = (case f m of
     Inl code \<Rightarrow> Inl code
   | Inr b \<Rightarrow> (case bind_members f ms of Inl code \<Rightarrow> Inl code | Inr bs \<Rightarrow> Inr (b # bs)))"

definition canonical_worktrees :: "worktree_host \<Rightarrow> worktree_binding list \<Rightarrow> worktree_binding list" where
  "canonical_worktrees W worktrees =
     concat (map (\<lambda>(name, p). case wh_realpath W p of None \<Rightarrow> [] | Some q \<Rightarrow> [(name, q)]) worktrees)"

definition decide_bind ::
    "host_env \<Rightarrow> worktree_host \<Rightarrow> canonical_root \<Rightarrow> worktree_binding list \<Rightarrow> team_state option \<Rightarrow> task_run_scope \<Rightarrow> team_decision" where
  "decide_bind E W root worktrees current scope = (case current of
     None \<Rightarrow> Inr (TeamErr TeamMissing)
   | Some t \<Rightarrow>
     (if ts_status t \<noteq> TeamInitializing
      then if ts_status t \<noteq> TeamActive then Inr (TeamErr InvalidTeamState)
        else let canonical = canonical_worktrees W worktrees
        in Inr (if length canonical = length worktrees \<and> matchesTeamWorktreeBindings t canonical
                then TeamOk OkReplayed (Some t) else TeamErr TeamBindConflict)
      else if map_option fst (runtimeCapability scope) \<noteq> Some CapProven then Inr (TeamErr AsyncCapabilityUnproven)
      else let ids = runtimeIdentities scope (taskGeneration scope)
      in if length ids \<noteq> length (ts_members t) then Inr (TeamErr IdentityMappingIncomplete)
         else if \<not> distinct (map ri_actualAgentId ids) then Inr (TeamErr IdentityMappingIncomplete)
         else if \<not> distinct (map fst worktrees) \<or>
           list_ex (\<lambda>name. \<not> list_ex (\<lambda>m. tm_requestedName m = name) (ts_members t)) (map fst worktrees)
         then Inr (TeamErr InvalidWorktreeBinding)
         else case bind_members (bind_member (validateTeamWorktree E W (root_displayPath root)) ids worktrees) (ts_members t) of
           Inl code \<Rightarrow> Inr (TeamErr code)
         | Inr members \<Rightarrow> parsed_team E OkBound (t\<lparr>ts_revision := ts_revision t + 1, ts_status := TeamActive, ts_members := members\<rparr>)))"

text \<open>The acceptance of a member: in the present attempt, revision, owner, epoch and generation.\<close>

definition accepted_member :: "task_run_scope \<Rightarrow> acceptance_event list \<Rightarrow> team_state \<Rightarrow> runtime_member \<Rightarrow> runtime_member option" where
  "accepted_member scope entries t m = map_option (\<lambda>e. m\<lparr>rm_acceptanceKey := Some (acc_idempotencyKey e)\<rparr>)
     (List.find (\<lambda>e. acc_attempt e = ts_attempt t \<and> acc_runRevision e = run_revision (scope_run scope) \<and>
        acc_ownerSessionId e = own_sessionId (run_owner (scope_run scope)) \<and>
        acc_ownerEpoch e = own_epoch (run_owner (scope_run scope)) \<and> acc_taskGeneration e = taskGeneration scope \<and>
        Some (acc_actualAgentId e) = rm_actualAgentId m \<and> acc_actualJobId e = rm_actualJobId m \<and>
        acc_workerRole e = tm_agentType m) entries)"

definition decide_complete ::
    "host_env \<Rightarrow> ledger_error + acceptance_event list \<Rightarrow> team_state option \<Rightarrow> task_run_scope \<Rightarrow> team_decision" where
  "decide_complete E entries current scope = (case current of
     None \<Rightarrow> Inr (TeamErr TeamMissing)
   | Some t \<Rightarrow>
     (if ts_status t = TeamCompleted then Inr (TeamOk OkReplayed (Some t))
      else if ts_status t \<noteq> TeamActive \<or> \<not> same_run_attempt t scope then Inr (TeamErr InvalidTeamState)
      else case entries of
        Inl err \<Rightarrow> Inl (TeamLedgerThrows err)
      | Inr es \<Rightarrow>
        (case those (map (accepted_member scope es t) (ts_members t)) of
           None \<Rightarrow> Inr (TeamErr ParentAcceptanceIncomplete)
         | Some members \<Rightarrow> parsed_team E OkCompleted (t\<lparr>ts_revision := ts_revision t + 1, ts_status := TeamCompleted, ts_members := members\<rparr>))))"

definition decide_archive :: "host_env \<Rightarrow> team_state option \<Rightarrow> team_decision" where
  "decide_archive E current = (case current of
     None \<Rightarrow> Inr (TeamErr TeamMissing)
   | Some t \<Rightarrow>
     (if ts_status t = TeamArchived then Inr (TeamOk OkReplayed (Some t))
      else if ts_status t \<noteq> TeamCompleted \<and> ts_status t \<noteq> TeamCancelled then Inr (TeamErr TeamNotCompleted)
      else parsed_team E OkArchived (t\<lparr>ts_revision := ts_revision t + 1, ts_status := TeamArchived\<rparr>)))"

definition decide_cancel :: "host_env \<Rightarrow> team_state option \<Rightarrow> team_decision" where
  "decide_cancel E current = (case current of
     None \<Rightarrow> Inr (TeamErr TeamMissing)
   | Some t \<Rightarrow>
     (if ts_status t = TeamCancelled then Inr (TeamOk OkReplayed (Some t))
      else if ts_status t \<noteq> TeamInitializing \<and> ts_status t \<noteq> TeamActive then Inr (TeamErr InvalidTeamState)
      else parsed_team E OkCancelled (t\<lparr>ts_revision := ts_revision t + 1, ts_status := TeamCancelled\<rparr>)))"

definition unbound_member :: "runtime_member \<Rightarrow> runtime_member" where
  "unbound_member m = m\<lparr>rm_actualAgentId := None, rm_actualJobId := None, rm_worktreePath := None, rm_acceptanceKey := None\<rparr>"

definition decide_resume :: "host_env \<Rightarrow> team_state option \<Rightarrow> team_decision" where
  "decide_resume E current = (case current of
     None \<Rightarrow> Inr (TeamErr TeamMissing)
   | Some t \<Rightarrow>
     (if ts_status t \<noteq> TeamCancelled then Inr (TeamErr InvalidTeamState)
      else parsed_team E OkResumed (t\<lparr>ts_revision := ts_revision t + 1, ts_status := TeamInitializing,
        ts_members := map unbound_member (ts_members t)\<rparr>)))"

definition decide_delete :: "team_state option \<Rightarrow> team_decision" where
  "decide_delete current = Inr (case current of
     None \<Rightarrow> TeamErr TeamMissing
   | Some t \<Rightarrow> if ts_status t = TeamArchived then TeamOk OkDeleted None else TeamErr TeamNotArchived)"

section \<open>Operations\<close>

text \<open>What the host answers during an operation.\<close>

record team_io =
  tio_cwd :: bool
  tio_lock :: bool
  tio_scope :: "task_run_scope option"
  tio_guard :: bool
  tio_index :: "bool option"
  tio_write :: write_io

definition transact ::
    "host_env \<Rightarrow> team_io \<Rightarrow> string \<Rightarrow> (team_state option \<Rightarrow> task_run_scope \<Rightarrow> team_decision) \<Rightarrow> team_slot \<Rightarrow>
       team_slot \<times> team_decision" where
  "transact E io teamName decide slot =
     (if \<not> TeamNameSchema teamName then (slot, Inr (TeamErr InvalidTeamName))
      else if \<not> tio_cwd io then (slot, Inr (TeamErr CwdMismatch))
      else if \<not> tio_lock io then (slot, Inr (TeamErr TeamStateConflict))
      else case tio_scope io of
        None \<Rightarrow> (slot, Inr (TeamErr CallerNotCurrentParent))
      | Some scope \<Rightarrow>
        (case read_team E (tio_guard io) slot of
           Inl err \<Rightarrow> (slot, Inl err)
         | Inr current \<Rightarrow>
           (case decide current scope of
              Inl err \<Rightarrow> (slot, Inl err)
            | Inr (TeamErr code) \<Rightarrow> (slot, Inr (TeamErr code))
            | Inr (TeamOk ok st) \<Rightarrow>
              (let (slot', err) =
                 (if ok = OkDeleted then remove_team (tio_index io) (tio_write io) teamName slot
                  else case st of
                    None \<Rightarrow> (slot, None)
                  | Some t \<Rightarrow> (if st = current then (slot, None) else replace_team (tio_index io) (tio_write io) t slot))
               in (slot', case err of None \<Rightarrow> Inr (TeamOk ok st) | Some e \<Rightarrow> Inl e)))))"

datatype team_command =
    CmdInitialize "string list" team_definition
  | CmdBind string "worktree_binding list"
  | CmdComplete string
  | CmdArchive string
  | CmdCancelTeam string
  | CmdResumeTeam string
  | CmdDelete string

text \<open>
  The operations, with the tools of the caller, and with what \<^verbatim>\<open>realpath\<close>, Git and the acceptance
  ledger of the team's run answer.
\<close>

fun team_operation ::
    "host_env \<Rightarrow> worktree_host \<Rightarrow> canonical_root \<Rightarrow> team_io \<Rightarrow> ledger_error + acceptance_event list \<Rightarrow> team_command \<Rightarrow>
       team_slot \<Rightarrow> team_slot \<times> team_decision" where
  "team_operation E W root io entries (CmdInitialize toolNames input) slot = (case TeamDefinitionSchema E input of
     None \<Rightarrow> (slot, Inr (TeamErr InvalidTeam))
   | Some d \<Rightarrow>
     (if \<not> list_all (\<lambda>tool. List.member toolNames tool) [''task'', ''hub''] then (slot, Inr (TeamErr AsyncSurfacesUnavailable))
      else transact E io (td_teamName d) (decide_initialize E d) slot))"
| "team_operation E W root io entries (CmdBind name worktrees) slot = transact E io name (decide_bind E W root worktrees) slot"
| "team_operation E W root io entries (CmdComplete name) slot = transact E io name (decide_complete E entries) slot"
| "team_operation E W root io entries (CmdArchive name) slot = transact E io name (\<lambda>current _. decide_archive E current) slot"
| "team_operation E W root io entries (CmdCancelTeam name) slot = transact E io name (\<lambda>current _. decide_cancel E current) slot"
| "team_operation E W root io entries (CmdResumeTeam name) slot = transact E io name (\<lambda>current _. decide_resume E current) slot"
| "team_operation E W root io entries (CmdDelete name) slot = transact E io name (\<lambda>current _. decide_delete current) slot"

end
