(* ===== verification/Team_Properties.thy ===== *)
theory Team_Properties
  imports Team_Lifecycle Packet_Properties Sample_Store
begin

text \<open>
  Correctness of team mode: no file has two owners, every operation leaves a file that can be read
  and whose contents are what the operation reported, completion rests on acceptances, and the
  archive of a team that was cancelled while active fails.
\<close>

section \<open>Ownership\<close>

text \<open>A member owns a normalised path when one of its claims is the path, contains it, or is the repository.\<close>

definition owns :: "'a team_member_scheme \<Rightarrow> string \<Rightarrow> bool" where
  "owns m f \<longleftrightarrow> (\<exists>p \<in> set (tm_ownership m). normalizedOwnership p = ''.'' \<or> f = normalizedOwnership p \<or>
     startsWith f (normalizedOwnership p @ ''/''))"

lemma pathsOverlap_sym: "pathsOverlap a b \<longleftrightarrow> pathsOverlap b a"
  by (auto simp: pathsOverlap_def)

lemma common_descendant_overlaps:
  assumes a: "a = ''.'' \<or> f = a \<or> startsWith f (a @ ''/'')" and b: "b = ''.'' \<or> f = b \<or> startsWith f (b @ ''/'')"
  shows "pathsOverlap a b"
proof -
  have nested: "startsWith y (x @ ''/'')" if "startsWith f (x @ ''/'')" "startsWith f (y @ ''/'')" "length x < length y" for x y
  proof -
    have "take (length y) f = y" using that(2) by (simp add: startsWith_def) (metis append_eq_conv_conj append_take_drop_id le_add1 take_add take_all_iff take_append take_take min.absorb1 length_take nat_le_linear)
    then have "take (length x + 1) y = take (length x + 1) f" using that(3) by (metis Suc_eq_plus1 Suc_leI min.absorb1 take_take)
    then show ?thesis using that(1) by (simp add: startsWith_def)
  qed
  have "a = b" if "startsWith f (a @ ''/'')" "startsWith f (b @ ''/'')" "length a = length b"
    using that by (simp add: startsWith_def)
  then show ?thesis
    using a b nested [of a b] nested [of b a] unfolding pathsOverlap_def by (metis linorder_neqE_nat)
qed

lemma claims_disjoint_apart:
  "claims_disjoint cs \<Longrightarrow> a \<in> set cs \<Longrightarrow> b \<in> set cs \<Longrightarrow> fst a \<noteq> fst b \<Longrightarrow> \<not> pathsOverlap (snd a) (snd b)"
proof (induction cs)
  case (Cons c cs)
  then show ?case using pathsOverlap_sym by (auto simp: list_all_iff)
qed simp

text \<open>
  In an accepted team no path has two owners: a path that lies in, or is, a claim of two members
  is claimed by one member twice.
\<close>

theorem ownership_exclusive:
  assumes "TeamDefinitionSchema E d = Some t" "m \<in> set (td_members t)" "n \<in> set (td_members t)"
    and "owns m f" "owns n f"
  shows "m = n"
proof -
  have ok: "distinct (map tm_requestedName (td_members t))" "claims_disjoint (ownership_claims (td_members t))"
    using assms(1) by (auto simp: TeamDefinitionSchema_def elim!: bind_SomeE split: if_splits)
  obtain p q where p: "p \<in> set (tm_ownership m)" "q \<in> set (tm_ownership n)"
    and over: "pathsOverlap (normalizedOwnership p) (normalizedOwnership q)"
    using assms(4,5) common_descendant_overlaps unfolding owns_def by blast
  have "(tm_requestedName m, normalizedOwnership p) \<in> set (ownership_claims (td_members t))"
    "(tm_requestedName n, normalizedOwnership q) \<in> set (ownership_claims (td_members t))"
    using assms(2,3) p by (auto simp: ownership_claims_def)
  then have "tm_requestedName m = tm_requestedName n"
    using claims_disjoint_apart [OF ok(2)] over by fastforce
  then show ?thesis using distinct_map_unique ok(1) assms(2,3) by (metis distinct_map inj_onD)
qed

definition sample_member :: "string \<Rightarrow> worker_role \<Rightarrow> string list \<Rightarrow> team_member" where
  "sample_member name role paths = \<lparr>tm_requestedName = name, tm_agentType = role, tm_focus = ''focus'',
     tm_ownership = paths, tm_deliverable = ''patch'', tm_isolated = False\<rparr>"

definition sample_low :: team_member where
  "sample_low = sample_member ''low'' WorkerLow [''src/a/'']"

definition sample_high :: team_member where
  "sample_high = sample_member ''high'' WorkerHigh [''src/b'', ''./docs'']"

definition sample_team :: team_definition where
  "sample_team = \<lparr>td_teamName = ''team-1'', td_members = [sample_low, sample_high]\<rparr>"

lemma sample_team_accepted: "TeamDefinitionSchema sample_env sample_team = Some sample_team"
  by code_simp

theorem ownership_exclusive_witness:
  "owns sample_low ''src/a/x.ts'' \<and> \<not> owns sample_high ''src/a/x.ts''"
proof -
  have "owns sample_low ''src/a/x.ts''" by code_simp
  moreover have "sample_low \<noteq> sample_high" by code_simp
  moreover have "sample_low \<in> set (td_members sample_team)" "sample_high \<in> set (td_members sample_team)"
    by (simp_all add: sample_team_def)
  ultimately show ?thesis using ownership_exclusive [OF sample_team_accepted] by blast
qed

section \<open>The team schema\<close>

interpretation owned_idem: idem_schema "ownedPath E" for E
  by unfold_locales (auto simp: ownedPath_def Let_def split: if_splits)

interpretation present_idem: idem_schema present_text
  by unfold_locales (auto simp: present_text_def split: if_splits)

interpretation runtime_member_idem: idem_schema "runtimeMemberSchema E" for E
  by unfold_locales
    (auto simp: runtimeMemberSchema_def memberDefinitionSchema_def text_idem.parse_idem owned_idem.bounded_idem
       runtime_id_schema.nullable_idem present_idem.nullable_idem elim!: bind_SomeE split: if_splits)

interpretation team_idem: idem_schema "TeamStateSchema E" for E
  by unfold_locales
    (auto simp: TeamStateSchema_def runtime_member_idem.bounded_idem elim!: bind_SomeE split: if_splits)

lemma team_schema_members:
  assumes "TeamStateSchema E t = Some t'"
  shows "array_of (runtimeMemberSchema E) (ts_members t) = Some (ts_members t')" "team_lifecycle_ok t'"
    "t' = t\<lparr>ts_members := ts_members t'\<rparr>"
  using assms by (auto simp: TeamStateSchema_def bounded_array_def elim!: bind_SomeE split: if_splits)

section \<open>The file\<close>

lemma with_status_twice: "with_status (ts_status t) (with_status st t) = t"
  by (cases t) (simp add: with_status_def)

lemma status_with_status [simp]: "ts_status (with_status st t) = st"
  by (simp add: with_status_def)

lemma persisted_roundtrip: "persistedTeamStateSchema E v2 (with_status (persisted_status_of v2 (ts_status t)) t) = TeamStateSchema E t"
proof -
  have "status_of_persisted v2 (persisted_status_of v2 (ts_status t)) = Some (ts_status t)"
    by (cases "ts_status t") simp_all
  then show ?thesis by (simp add: persistedTeamStateSchema_def with_status_twice)
qed

lemma read_persisted:
  "TeamStateSchema E t = Some t \<Longrightarrow> read_team E True (Some (stringify (persisted_team v2 t))) = Inr (Some t)"
  by (simp add: read_team_def persisted_team_def persisted_roundtrip)

lemma read_guard: "read_team E guard slot = Inr current \<Longrightarrow> read_team E True slot = Inr current"
  by (simp add: read_team_def split: if_splits)

lemma read_normal: "read_team E guard slot = Inr (Some t) \<Longrightarrow> TeamStateSchema E t = Some t"
  by (auto simp: read_team_def persistedTeamStateSchema_def split: if_splits option.splits file_bytes.splits team_file.splits
      intro: team_idem.parse_idem)

lemma published_cases:
  assumes "published io bytes slot = (slot', err)"
  shows "slot' = slot \<or> slot' = Some (stringify bytes)" "err = None \<Longrightarrow> slot' = Some (stringify bytes)"
proof -
  obtain out where out: "atomicReplace io (stringify bytes) slot = (slot', out)" "err = None \<longrightarrow> out = Published"
    using assms by (auto simp: published_def split: prod.splits write_outcome.splits)
  then show "slot' = slot \<or> slot' = Some (stringify bytes)" "err = None \<Longrightarrow> slot' = Some (stringify bytes)"
    using atomicReplace_atomic [OF out(1)] by auto
qed

section \<open>Operations\<close>

text \<open>What a decision may propose: the state it was given, a state that satisfies the schema, or the deletion.\<close>

definition sound_decision :: "host_env \<Rightarrow> (team_state option \<Rightarrow> task_run_scope \<Rightarrow> team_decision) \<Rightarrow> bool" where
  "sound_decision E decide \<longleftrightarrow> (\<forall>current scope ok st. decide current scope = Inr (TeamOk ok st) \<longrightarrow>
     (if ok = OkDeleted then st = None
      else \<exists>t. st = Some t \<and> (st = current \<or> TeamStateSchema E t = Some t)))"

lemma parsed_team_sound:
  assumes "parsed_team E ok t = Inr (TeamOk ok' st)"
  shows "ok' = ok \<and> (\<exists>s. st = Some s \<and> TeamStateSchema E t = Some s \<and> TeamStateSchema E s = Some s)"
proof (cases "TeamStateSchema E t")
  case (Some s)
  then have "parsed_team E ok t = Inr (TeamOk ok (Some s))" by (simp add: parsed_team_def)
  then have "ok' = ok" "st = Some s" using assms by simp_all
  then show ?thesis using Some team_idem.parse_idem [OF Some] by blast
qed (use assms in \<open>simp add: parsed_team_def\<close>)

lemmas decision_defs = decide_initialize_def decide_bind_def decide_complete_def decide_archive_def decide_cancel_def
  decide_resume_def decide_delete_def

lemma decisions_sound:
  "sound_decision E (decide_initialize E d)" "sound_decision E (decide_bind E W root worktrees)"
  "sound_decision E (decide_complete E entries)" "sound_decision E (\<lambda>current _. decide_archive E current)"
  "sound_decision E (\<lambda>current _. decide_cancel E current)" "sound_decision E (\<lambda>current _. decide_resume E current)"
  "sound_decision E (\<lambda>current _. decide_delete current)"
  unfolding sound_decision_def decision_defs
  by (auto dest!: parsed_team_sound simp: Let_def split: option.splits if_splits sum.splits)

lemma read_tombstone: "TeamNameSchema name \<Longrightarrow> read_team E True (Some (stringify (TeamTombstone v2 name))) = Inr None"
  by (simp add: read_team_def)

text \<open>What an operation writes: nothing, a tombstone, or a state that satisfies the schema.\<close>

definition writes :: "host_env \<Rightarrow> team_slot \<Rightarrow> team_slot \<times> team_throw option \<Rightarrow> team_state option \<Rightarrow> bool" where
  "writes E slot w st \<longleftrightarrow> (snd w \<noteq> None \<and> fst w = slot) \<or>
     (\<exists>io bytes. w = published io bytes slot \<and> read_team E True (Some (stringify bytes)) = Inr st)"

lemma writes_read:
  assumes "writes E slot (slot', err) st" "read_team E True slot = Inr current"
  shows "\<exists>current'. read_team E True slot' = Inr current'" "err = None \<Longrightarrow> read_team E True slot' = Inr st"
proof -
  show "\<exists>current'. read_team E True slot' = Inr current'"
    using assms published_cases(1) unfolding writes_def by (metis fst_conv)
  show "err = None \<Longrightarrow> read_team E True slot' = Inr st"
    using assms(1) published_cases(2) unfolding writes_def by (metis snd_conv)
qed

lemma remove_writes: "TeamNameSchema name \<Longrightarrow> writes E slot (remove_team index io name slot) None"
  using read_tombstone by (cases index) (simp_all add: remove_team_def writes_def, blast)

lemma replace_writes: "TeamStateSchema E t = Some t \<Longrightarrow> writes E slot (replace_team index io t slot) (Some t)"
  using read_persisted by (cases index) (simp_all add: replace_team_def writes_def, blast)

lemma transactE:
  assumes "sound_decision E decide" "transact E io name decide slot = (slot', res)"
  obtains (unchanged) "slot' = slot" "\<forall>ok st. res \<noteq> Inr (TeamOk ok st)"
  | (kept) current scope ok where "read_team E True slot = Inr current" "tio_scope io = Some scope"
      "decide current scope = Inr (TeamOk ok current)" "slot' = slot" "res = Inr (TeamOk ok current)"
  | (written) current scope ok st err where "read_team E True slot = Inr current" "tio_scope io = Some scope"
      "decide current scope = Inr (TeamOk ok st)" "writes E slot (slot', err) st"
      "res = (case err of None \<Rightarrow> Inr (TeamOk ok st) | Some e \<Rightarrow> Inl e)"
proof (cases "TeamNameSchema name \<and> tio_cwd io \<and> tio_lock io")
  case False
  then show ?thesis using assms(2) unchanged by (auto simp: transact_def split: if_splits)
next
  case True
  show ?thesis
  proof (cases "\<exists>scope current ok st. tio_scope io = Some scope \<and> read_team E (tio_guard io) slot = Inr current \<and>
      decide current scope = Inr (TeamOk ok st)")
    case False
    then show ?thesis
      using assms(2) True by (intro unchanged) (auto simp: transact_def split: if_splits option.splits sum.splits team_result.splits)
  next
    case True': True
    then obtain scope current ok st where d: "tio_scope io = Some scope" "read_team E (tio_guard io) slot = Inr current"
      "decide current scope = Inr (TeamOk ok st)" by blast
    note rd = read_guard [OF d(2)]
    show ?thesis
    proof (cases "ok = OkDeleted")
      case deleted: True
      then have "st = None" using assms(1) d(3) by (auto simp: sound_decision_def)
      then have w: "writes E slot (remove_team (tio_index io) (tio_write io) name slot) st"
        using True remove_writes by simp
      show ?thesis
        using assms(2) True d deleted w
        by (cases "remove_team (tio_index io) (tio_write io) name slot") (auto simp: transact_def intro!: written [OF rd d(1,3)])
    next
      case False
      then obtain t where t: "st = Some t" "st = current \<or> TeamStateSchema E t = Some t"
        using assms(1) d(3) unfolding sound_decision_def by meson
      show ?thesis
      proof (cases "st = current")
        case same: True
        then show ?thesis using assms(2) True d False t by (intro kept [OF rd d(1)]) (auto simp: transact_def)
      next
        case changed: False
        then have w: "writes E slot (replace_team (tio_index io) (tio_write io) t slot) st"
          using t replace_writes by simp
        show ?thesis
          using assms(2) True d False changed w t(1)
          by (cases "replace_team (tio_index io) (tio_write io) t slot") (auto simp: transact_def intro!: written [OF rd d(1,3)])
      qed
    qed
  qed
qed

lemma transact_durable:
  assumes "sound_decision E decide" "transact E io name decide slot = (slot', res)"
    and "read_team E True slot = Inr current"
  shows "(\<exists>current'. read_team E True slot' = Inr current') \<and> (\<forall>code. res = Inr (TeamErr code) \<longrightarrow> slot' = slot) \<and>
    (\<forall>ok st. res = Inr (TeamOk ok st) \<longrightarrow> read_team E True slot' = Inr st)"
  using assms(1,2)
proof (cases rule: transactE)
  case unchanged
  then show ?thesis using assms(3) by auto
next
  case (kept current scope ok)
  then show ?thesis by auto
next
  case (written c scope ok st err)
  then show ?thesis using writes_read [OF written(4) assms(3)] by (cases err) auto
qed

text \<open>
  C33. Every operation on a team, whatever the host does and whenever the process dies, leaves a file
  that can be read; a refusal leaves the file alone, and after a reported success the file reads back
  as exactly the reported state, or as absent after a deletion.
\<close>

theorem team_operation_durable:
  assumes "team_operation E W root io entries command slot = (slot', res)" "read_team E True slot = Inr current"
  shows "(\<exists>current'. read_team E True slot' = Inr current') \<and> (\<forall>code. res = Inr (TeamErr code) \<longrightarrow> slot' = slot) \<and>
    (\<forall>ok st. res = Inr (TeamOk ok st) \<longrightarrow> read_team E True slot' = Inr st)"
proof (cases command)
  case (CmdInitialize toolNames input)
  show ?thesis
  proof (cases "\<exists>d. TeamDefinitionSchema E input = Some d \<and> list_all (\<lambda>tool. List.member toolNames tool) [''task'', ''hub'']")
    case True
    then obtain d where "transact E io (td_teamName d) (decide_initialize E d) slot = (slot', res)"
      using assms(1) CmdInitialize by auto
    then show ?thesis by (rule transact_durable [OF decisions_sound(1) _ assms(2)])
  next
    case False
    then have "slot' = slot" "\<forall>ok st. res \<noteq> Inr (TeamOk ok st)"
      using assms(1) CmdInitialize by (auto split: option.splits if_splits)
    then show ?thesis using assms(2) by auto
  qed
next
  case (CmdBind name worktrees)
  then show ?thesis using assms(1) by (intro transact_durable [OF decisions_sound(2) _ assms(2)]) simp
next
  case (CmdComplete name)
  then show ?thesis using assms(1) by (intro transact_durable [OF decisions_sound(3) _ assms(2)]) simp
next
  case (CmdArchive name)
  then show ?thesis using assms(1) by (intro transact_durable [OF decisions_sound(4) _ assms(2)]) simp
next
  case (CmdCancelTeam name)
  then show ?thesis using assms(1) by (intro transact_durable [OF decisions_sound(5) _ assms(2)]) simp
next
  case (CmdResumeTeam name)
  then show ?thesis using assms(1) by (intro transact_durable [OF decisions_sound(6) _ assms(2)]) simp
next
  case (CmdDelete name)
  then show ?thesis using assms(1) by (intro transact_durable [OF decisions_sound(7) _ assms(2)]) simp
qed

definition sample_team_io :: team_io where
  "sample_team_io = \<lparr>tio_cwd = True, tio_lock = True,
     tio_scope = Some \<lparr>scope_indexRevision = 1, scope_run = sample_start_run,
       scope_ledger = \<lparr>tl_version = TaskLedgerV2 None None None, tl_runId = run_runId sample_start_run,
         tl_ledgerRevision = 0, tl_entries = []\<rparr>\<rparr>,
     tio_guard = True, tio_index = Some True, tio_write = smooth_write\<rparr>"

definition sample_worktrees :: worktree_host where
  "sample_worktrees = \<lparr>wh_realpath = Some, wh_resolve = (\<lambda>_ p. p), wh_topLevel = Some, wh_commonDir = Some,
     wh_status = (\<lambda>_. Some [])\<rparr>"

definition sample_created :: team_state where
  "sample_created = \<lparr>ts_teamName = ''team-1'', ts_runId = sample_uuid (CHR ''1''), ts_attempt = 1, ts_revision = 1,
     ts_status = TeamInitializing, ts_members = [fresh_member sample_low, fresh_member sample_high]\<rparr>"

theorem team_operation_durable_witness:
  "read_team sample_env True (fst (team_operation sample_env sample_worktrees sample_root sample_team_io (Inr [])
      (CmdInitialize [''hub'', ''task''] sample_team) None)) = Inr (Some sample_created)"
proof -
  let ?op = "team_operation sample_env sample_worktrees sample_root sample_team_io (Inr []) (CmdInitialize [''hub'', ''task''] sample_team) None"
  have "snd ?op = Inr (TeamOk OkCreated (Some sample_created))" by code_simp
  then have "?op = (fst ?op, Inr (TeamOk OkCreated (Some sample_created)))" by (metis prod.collapse)
  moreover have "read_team sample_env True None = Inr None" by code_simp
  ultimately show ?thesis using team_operation_durable by blast
qed

section \<open>Completion and archive\<close>

text \<open>The acceptance that completion asks of a member.\<close>

definition acceptance_of :: "task_run_scope \<Rightarrow> team_state \<Rightarrow> runtime_member \<Rightarrow> acceptance_event \<Rightarrow> bool" where
  "acceptance_of scope t m e \<longleftrightarrow> rm_acceptanceKey m = Some (acc_idempotencyKey e) \<and>
     rm_actualAgentId m = Some (acc_actualAgentId e) \<and> rm_actualJobId m = acc_actualJobId e \<and>
     tm_agentType m = acc_workerRole e \<and> acc_attempt e = run_progressRevision (scope_run scope) \<and>
     acc_runRevision e = run_revision (scope_run scope) \<and> acc_taskGeneration e = taskGeneration scope \<and>
     acc_ownerSessionId e = own_sessionId (run_owner (scope_run scope)) \<and>
     acc_ownerEpoch e = own_epoch (run_owner (scope_run scope))"

lemma accepted_memberD:
  "accepted_member scope es t m = Some n \<Longrightarrow> ts_attempt t = run_progressRevision (scope_run scope) \<Longrightarrow>
     \<exists>e \<in> set es. acceptance_of scope t n e"
  by (auto simp: accepted_member_def acceptance_of_def dest!: find_SomeD)

text \<open>Parsing a state whose members come from a state that parses keeps the members, with their keys.\<close>

lemma key_schema: "nullable present_text k = Some k' \<Longrightarrow> k' = k"
  by (cases k) (auto simp: present_text_def split: if_splits)

lemma accepted_member_form: "accepted_member scope es t m = Some n \<Longrightarrow> \<exists>k. n = m\<lparr>rm_acceptanceKey := k\<rparr>"
  by (auto simp: accepted_member_def)

lemma list_all2_origin: "list_all2 P xs ys \<Longrightarrow> y \<in> set ys \<Longrightarrow> \<exists>x. P x y"
  by (metis list_all2_conv_all_nth in_set_conv_nth)

lemma keyed_member:
  assumes "runtimeMemberSchema E m = Some m" "runtimeMemberSchema E (m\<lparr>rm_acceptanceKey := k\<rparr>) = Some n"
  shows "n = m\<lparr>rm_acceptanceKey := k\<rparr>"
  using assms by (cases m; cases n) (auto simp: runtimeMemberSchema_def memberDefinitionSchema_def dest!: key_schema elim!: bind_SomeE split: if_splits)

lemma completed_members:
  assumes "TeamStateSchema E t = Some t" "those (map (accepted_member scope es t) (ts_members t)) = Some ms"
    and "TeamStateSchema E (t\<lparr>ts_revision := r, ts_status := st, ts_members := ms\<rparr>) = Some t'"
  shows "ts_members t' = ms"
proof -
  have old: "list_all2 (\<lambda>m n. runtimeMemberSchema E m = Some n) (ts_members t) (ts_members t)"
    using team_schema_members(1) [OF assms(1)] by (simp only: array_of_Some_iff)
  have "array_of (runtimeMemberSchema E) ms = Some (ts_members t')"
    using team_schema_members(1) [OF assms(3)] by simp
  then have new: "list_all2 (\<lambda>m n. runtimeMemberSchema E m = Some n) ms (ts_members t')"
    by (simp only: array_of_Some_iff)
  have acc: "list_all2 (\<lambda>m n. accepted_member scope es t m = Some n) (ts_members t) ms"
    using assms(2) by (simp only: array_of_Some_iff flip: array_of_def)
  show ?thesis
  proof (rule nth_equalityI)
    show "length (ts_members t') = length ms" using new by (simp add: list_all2_lengthD)
    fix i assume "i < length (ts_members t')"
    then have i: "i < length ms" "i < length (ts_members t)" using new acc by (simp_all add: list_all2_lengthD)
    have "accepted_member scope es t (ts_members t ! i) = Some (ms ! i)" using acc i(2) by (rule list_all2_nthD)
    then obtain k where k: "ms ! i = (ts_members t ! i)\<lparr>rm_acceptanceKey := k\<rparr>"
      using accepted_member_form by blast
    have "runtimeMemberSchema E (ms ! i) = Some (ts_members t' ! i)" using new i(1) by (rule list_all2_nthD)
    moreover have "runtimeMemberSchema E (ts_members t ! i) = Some (ts_members t ! i)" using old i(2) by (rule list_all2_nthD)
    ultimately show "ts_members t' ! i = ms ! i" using keyed_member k by metis
  qed
qed

text \<open>
  C34. A team is reported as completed, which a team that was complete before is not, only when the
  acceptance ledger holds, for every member, an entry of the agent and job bound to it, in its role, made in the present attempt, revision, generation and
  epoch of the owner of the run; the stored key of the member is that entry's.
\<close>

theorem team_completion_accepted:
  assumes "team_operation E W root io (Inr entries) (CmdComplete name) slot = (slot', Inr (TeamOk OkCompleted (Some t)))"
  shows "\<exists>scope. tio_scope io = Some scope \<and> (\<forall>m \<in> set (ts_members t). \<exists>e \<in> set entries. acceptance_of scope t m e)"
proof -
  from assms have "transact E io name (decide_complete E (Inr entries)) slot = (slot', Inr (TeamOk OkCompleted (Some t)))"
    by simp
  then obtain current scope where c: "read_team E True slot = Inr current" "tio_scope io = Some scope"
    "decide_complete E (Inr entries) current scope = Inr (TeamOk OkCompleted (Some t))"
    by (cases rule: transactE [OF decisions_sound(3)]) (auto split: option.splits)
  then obtain t0 ms where t0: "current = Some t0" "same_run_attempt t0 scope"
    and ms: "those (map (accepted_member scope entries t0) (ts_members t0)) = Some ms"
    and t: "parsed_team E OkCompleted (t0\<lparr>ts_revision := ts_revision t0 + 1, ts_status := TeamCompleted, ts_members := ms\<rparr>) =
      Inr (TeamOk OkCompleted (Some t))"
    by (auto simp: decide_complete_def split: option.splits if_splits)
  have "TeamStateSchema E t0 = Some t0" using c(1) t0(1) read_normal by blast
  then have mem: "ts_members t = ms" using completed_members [OF _ ms] parsed_team_sound [OF t] by blast
  have att: "ts_attempt t0 = run_progressRevision (scope_run scope)" using t0(2) by (simp add: same_run_attempt_def)
  have "\<exists>e \<in> set entries. acceptance_of scope t m e" if "m \<in> set ms" for m
  proof -
    have "list_all2 (\<lambda>m n. accepted_member scope entries t0 m = Some n) (ts_members t0) ms"
      using ms by (simp only: array_of_Some_iff flip: array_of_def)
    from list_all2_origin [OF this that] obtain m0 where "accepted_member scope entries t0 m0 = Some m" ..
    then show ?thesis using accepted_memberD [OF _ att] by (auto simp: acceptance_of_def)
  qed
  then show ?thesis using c(2) mem by blast
qed

definition bound_sample :: "team_member \<Rightarrow> string \<Rightarrow> string option \<Rightarrow> runtime_member" where
  "bound_sample m agent key = (fresh_member m)\<lparr>rm_actualAgentId := Some agent, rm_actualJobId := Some agent, rm_acceptanceKey := key\<rparr>"

definition sample_bound :: "team_status \<Rightarrow> team_state" where
  "sample_bound st = sample_created\<lparr>ts_revision := 2, ts_status := st,
     ts_members := [bound_sample sample_low ''a1'' None, bound_sample sample_high ''a2'' None]\<rparr>"

definition team_entry :: "worker_role \<Rightarrow> string \<Rightarrow> acceptance_event" where
  "team_entry role agent = (sample_acceptance sample_start_run 1 agent)\<lparr>acc_workerRole := role,
     acc_actualAgentId := agent, acc_actualJobId := Some agent, acc_taskGeneration := 0\<rparr>"

definition sample_completed :: team_state where
  "sample_completed = sample_created\<lparr>ts_revision := 3, ts_status := TeamCompleted,
     ts_members := [bound_sample sample_low ''a1'' (Some ''ka1''), bound_sample sample_high ''a2'' (Some ''ka2'')]\<rparr>"

theorem team_completion_accepted_witness:
  "\<exists>scope. tio_scope sample_team_io = Some scope \<and> (\<forall>m \<in> set (ts_members sample_completed).
     \<exists>e \<in> set [team_entry WorkerLow ''a1'', team_entry WorkerHigh ''a2'']. acceptance_of scope sample_completed m e)"
proof -
  let ?op = "team_operation sample_env sample_worktrees sample_root sample_team_io
    (Inr [team_entry WorkerLow ''a1'', team_entry WorkerHigh ''a2'']) (CmdComplete ''team-1'')
    (Some (Json (persisted_team True (sample_bound TeamActive))))"
  have "snd ?op = Inr (TeamOk OkCompleted (Some sample_completed))" by code_simp
  then have "?op = (fst ?op, Inr (TeamOk OkCompleted (Some sample_completed)))" by (metis prod.collapse)
  then show ?thesis by (rule team_completion_accepted)
qed

text \<open>
  C35. A team that was cancelled while active cannot be archived: the archived state asks for an
  acceptance key of every member as soon as one is bound to an agent, cancelling adds none, and the
  schema throws. The operation reports no error code and leaves the file alone.
\<close>

theorem cancelled_active_team_never_archives:
  assumes "read_team E True slot = Inr (Some t)" "ts_status t = TeamCancelled"
    and "\<exists>m \<in> set (ts_members t). rm_actualAgentId m \<noteq> None" "\<exists>m \<in> set (ts_members t). rm_acceptanceKey m = None"
    and "TeamNameSchema name" "tio_cwd io" "tio_lock io" "tio_guard io" "tio_scope io = Some scope"
  shows "team_operation E W root io entries (CmdArchive name) slot = (slot, Inl TeamZodError)"
proof -
  have t: "TeamStateSchema E t = Some t" using assms(1) by (rule read_normal)
  have "TeamStateSchema E (t\<lparr>ts_revision := ts_revision t + 1, ts_status := TeamArchived\<rparr>) = None"
  proof (rule ccontr)
    let ?a = "t\<lparr>ts_revision := ts_revision t + 1, ts_status := TeamArchived\<rparr>"
    assume "TeamStateSchema E ?a \<noteq> None"
    then obtain a where a: "TeamStateSchema E ?a = Some a" by blast
    have "ts_members a = ts_members t"
      using team_schema_members(1) [OF a] team_schema_members(1) [OF t] by simp
    moreover have "ts_status a = TeamArchived" using arg_cong [OF team_schema_members(3) [OF a], of ts_status] by simp
    ultimately show False
      using team_schema_members(2) [OF a] assms(3,4) by (auto simp: team_lifecycle_ok_def Let_def list_ex_iff)
  qed
  moreover have "read_team E (tio_guard io) slot = Inr (Some t)" using assms(1,8) by (simp add: read_team_def)
  ultimately show ?thesis
    using assms by (simp add: transact_def decide_archive_def parsed_team_def)
qed

theorem cancelled_active_team_never_archives_witness:
  "team_operation sample_env sample_worktrees sample_root sample_team_io (Inr []) (CmdArchive ''team-1'')
     (Some (Json (persisted_team True (sample_bound TeamCancelled)))) =
   (Some (Json (persisted_team True (sample_bound TeamCancelled))), Inl TeamZodError)"
proof -
  have "read_team sample_env True (Some (Json (persisted_team True (sample_bound TeamCancelled)))) =
      Inr (Some (sample_bound TeamCancelled))" by code_simp
  moreover have "TeamNameSchema ''team-1''" "ts_status (sample_bound TeamCancelled) = TeamCancelled"
    "\<exists>m \<in> set (ts_members (sample_bound TeamCancelled)). rm_actualAgentId m \<noteq> None"
    "\<exists>m \<in> set (ts_members (sample_bound TeamCancelled)). rm_acceptanceKey m = None" by code_simp+
  moreover have "tio_cwd sample_team_io" "tio_lock sample_team_io" "tio_guard sample_team_io"
    "tio_scope sample_team_io = Some (the (tio_scope sample_team_io))" by (simp_all add: sample_team_io_def)
  ultimately show ?thesis using cancelled_active_team_never_archives by blast
qed

end
