(* ===== verification/Catalog_Compaction.thy ===== *)
theory Catalog_Compaction
  imports Task_Packet "HOL-Library.Sublist" "HOL-Library.Multiset" "HOL-Library.Code_Target_Nat"
begin

text \<open>
  Compaction of a catalog under a byte budget (\<^verbatim>\<open>src/context/catalog-compaction.ts\<close>). Characters are
  those up to U+00FF, so a cut in the middle of one is a cut before it, once the replacement character
  has been removed.
\<close>

definition DESCRIPTION_CAP_BYTES :: nat where
  "DESCRIPTION_CAP_BYTES = 300"

record catalog_entry =
  ce_name :: string
  ce_location :: string
  ce_description :: string

datatype rejection_reason = EmptyName | MissingLocation

text \<open>\<^verbatim>\<open>ESC\<close>-separated parts after the first lose a leading control sequence \<^verbatim>\<open>[digits;letter\<close>.\<close>

definition strip_csi :: "string \<Rightarrow> string" where
  "strip_csi part = (case part of
     [] \<Rightarrow> []
   | c # s \<Rightarrow>
     (if c \<noteq> CHR ''['' then part
      else case dropWhile (\<lambda>d. is_digit d \<or> d = CHR '';'') s of
        [] \<Rightarrow> part
      | d # rest \<Rightarrow> (if is_letter d then rest else part)))"

definition strip_ansi :: "string \<Rightarrow> string" where
  "strip_ansi s = (case split_on (CHR 0x1B) s of [] \<Rightarrow> [] | part # parts \<Rightarrow> part @ concat (map strip_csi parts))"

fun crlf_to_space :: "string \<Rightarrow> string" where
  "crlf_to_space [] = []"
| "crlf_to_space (c # s) =
     (if c = CHR 0x0D \<and> take 1 s = [CHR 0x0A] then CHR '' '' # crlf_to_space (drop 1 s) else c # crlf_to_space s)"

definition single_line :: "string \<Rightarrow> string" where
  "single_line s = map (\<lambda>c. if c = CHR 0x0D \<or> c = CHR 0x0A then CHR '' '' else c) (crlf_to_space s)"

fun collapse_spaces :: "string \<Rightarrow> string" where
  "collapse_spaces [] = []"
| "collapse_spaces (c # s) =
     (if c = CHR '' '' \<and> take 1 s = [CHR '' ''] then collapse_spaces s else c # collapse_spaces s)"

text \<open>The longest prefix of at most \<open>n\<close> bytes.\<close>

fun utf8_take :: "nat \<Rightarrow> string \<Rightarrow> string" where
  "utf8_take n [] = []"
| "utf8_take n (c # s) = (if byteLength [c] \<le> n then c # utf8_take (n - byteLength [c]) s else [])"

definition sanitizeDescription :: "string \<Rightarrow> string" where
  "sanitizeDescription description =
     (let clean = js_trim (collapse_spaces (single_line (strip_ansi (filter (\<lambda>c. c \<noteq> CHR 0x00) description))))
      in if byteLength clean \<le> DESCRIPTION_CAP_BYTES then clean else utf8_take DESCRIPTION_CAP_BYTES clean)"

definition validateEntry :: "catalog_entry \<Rightarrow> rejection_reason option" where
  "validateEntry e = (if js_trim (ce_name e) = [] then Some EmptyName
     else if js_trim (ce_location e) = [] then Some MissingLocation else None)"

definition renderEntry :: "catalog_entry \<Rightarrow> string" where
  "renderEntry e =
     (let desc = sanitizeDescription (ce_description e)
      in ''- name: '' @ ce_name e @ '' | location: '' @ ce_location e @ (if desc \<noteq> [] then '' | '' @ desc else []))"

record compaction_result =
  cr_entries :: "catalog_entry list"
  cr_dropped :: "string list"
  cr_rejected :: "(string \<times> rejection_reason) list"
  cr_rendered :: string
  cr_totalBytes :: nat

text \<open>The greedy loop: retained entries, dropped names and the bytes used so far.\<close>

fun retain :: "nat \<Rightarrow> catalog_entry list \<Rightarrow> catalog_entry list \<Rightarrow> string list \<Rightarrow> nat \<Rightarrow> catalog_entry list \<times> string list" where
  "retain budget [] retained dropped used = (retained, dropped)"
| "retain budget (e # es) retained dropped used =
     (let needed = byteLength (renderEntry e) + (if retained \<noteq> [] then 1 else 0)
      in if used + needed \<le> budget then retain budget es (retained @ [e]) dropped (used + needed)
         else retain budget es retained (dropped @ [ce_name e]) used)"

definition valid_entries :: "catalog_entry list \<Rightarrow> catalog_entry list" where
  "valid_entries entries = map (\<lambda>e. e\<lparr>ce_description := sanitizeDescription (ce_description e)\<rparr>)
     (filter (\<lambda>e. validateEntry e = None) entries)"

definition compactCatalog :: "catalog_entry list \<Rightarrow> nat \<Rightarrow> compaction_result" where
  "compactCatalog entries budgetBytes =
     (let sorted = sort_key ce_name (valid_entries entries);
          (retained, dropped) = retain budgetBytes sorted [] [] 0;
          rendered = join_with [CHR 0x0A] (map renderEntry retained)
      in \<lparr>cr_entries = retained, cr_dropped = dropped,
          cr_rejected = concat (map (\<lambda>e. case validateEntry e of None \<Rightarrow> [] | Some r \<Rightarrow> [(ce_name e, r)]) entries),
          cr_rendered = rendered, cr_totalBytes = byteLength rendered\<rparr>)"

section \<open>What compaction promises\<close>

lemma byteLength_append [simp]: "byteLength (s @ t) = byteLength s + byteLength t"
  by (simp add: byteLength_def)

lemma byteLength_Nil [simp]: "byteLength [] = 0"
  by (simp add: byteLength_def)

lemma byteLength_Cons: "byteLength (c # s) = byteLength [c] + byteLength s"
  by (simp add: byteLength_def)

lemma utf8_take_bound: "byteLength (utf8_take n s) \<le> n"
proof (induction n s rule: utf8_take.induct)
  case (2 n c s)
  then show ?case by (auto simp: byteLength_Cons [of c "utf8_take _ s"])
qed simp

lemma sanitized_bound: "byteLength (sanitizeDescription d) \<le> 300"
  using utf8_take_bound [of 300] by (auto simp: sanitizeDescription_def Let_def DESCRIPTION_CAP_BYTES_def)

definition rendered_bytes :: "catalog_entry list \<Rightarrow> nat" where
  "rendered_bytes es = byteLength (join_with [CHR 0x0A] (map renderEntry es))"

lemma join_snoc: "join_with sep (xs @ [x]) = (if xs = [] then x else join_with sep xs @ sep @ x)"
  by (induction sep xs rule: join_with.induct) auto

lemma rendered_bytes_snoc:
  "rendered_bytes (es @ [e]) = rendered_bytes es + byteLength (renderEntry e) + (if es \<noteq> [] then 1 else 0)"
proof -
  have "byteLength (CHR 0x0A # s) = Suc (byteLength s)" for s by (simp add: byteLength_def)
  then show ?thesis by (simp add: rendered_bytes_def join_snoc)
qed

text \<open>The loop keeps the bytes used equal to the bytes of the text, and only ever appends.\<close>

lemma retain_result:
  assumes "retain budget es retained dropped used = (retained', dropped')" "used = rendered_bytes retained" "used \<le> budget"
  shows "rendered_bytes retained' \<le> budget \<and> (\<exists>kept. retained' = retained @ kept \<and> subseq kept es \<and>
     mset (map ce_name kept) + mset dropped' = mset (map ce_name es) + mset dropped)"
  using assms
proof (induction budget es retained dropped used rule: retain.induct)
  case (2 budget e es retained dropped used)
  let ?needed = "byteLength (renderEntry e) + (if retained \<noteq> [] then 1 else 0)"
  show ?case
  proof (cases "used + ?needed \<le> budget")
    case True
    then have "retain budget es (retained @ [e]) dropped (used + ?needed) = (retained', dropped')"
      using 2(3) by (simp add: Let_def)
    from 2(1) [OF refl True this] 2(4) True show ?thesis
      by (auto simp: rendered_bytes_snoc)
  next
    case False
    then have "retain budget es retained (dropped @ [ce_name e]) used = (retained', dropped')"
      using 2(3) by (simp add: Let_def)
    from 2(2) [OF refl False this 2(4,5)] show ?thesis by auto
  qed
qed simp

lemma subseq_in: "subseq xs ys \<Longrightarrow> x \<in> set xs \<Longrightarrow> x \<in> set ys"
  by (auto dest: list_emb_set)

lemma sorted_wrt_subseq: "subseq xs ys \<Longrightarrow> sorted_wrt P ys \<Longrightarrow> sorted_wrt P xs"
  by (induction rule: list_emb.induct) (auto dest: subseq_in)

lemma compacted:
  obtains dropped where "retain b (sort_key ce_name (valid_entries es)) [] [] 0 = (cr_entries (compactCatalog es b), dropped)"
    "cr_dropped (compactCatalog es b) = dropped"
    "cr_rendered (compactCatalog es b) = join_with [CHR 0x0A] (map renderEntry (cr_entries (compactCatalog es b)))"
    "cr_totalBytes (compactCatalog es b) = rendered_bytes (cr_entries (compactCatalog es b))"
  by (cases "retain b (sort_key ce_name (valid_entries es)) [] [] 0") (simp add: compactCatalog_def rendered_bytes_def Let_def)

text \<open>
  The compacted catalog fits its budget, and its reported size is that of its text. The text is
  made of complete entries, in the order of their names, each with the name and the location of an entry of
  the input; every valid entry is retained or reported as dropped.
\<close>

theorem compaction_within_budget:
  "cr_totalBytes (compactCatalog es b) \<le> b \<and>
   cr_totalBytes (compactCatalog es b) = byteLength (cr_rendered (compactCatalog es b)) \<and>
   cr_rendered (compactCatalog es b) = join_with [CHR 0x0A] (map renderEntry (cr_entries (compactCatalog es b))) \<and>
   sorted (map ce_name (cr_entries (compactCatalog es b))) \<and>
   (\<lambda>e. (ce_name e, ce_location e)) ` set (cr_entries (compactCatalog es b)) \<subseteq> (\<lambda>e. (ce_name e, ce_location e)) ` set es \<and>
   mset (map ce_name (cr_entries (compactCatalog es b))) + mset (cr_dropped (compactCatalog es b)) =
     mset (map ce_name (valid_entries es))"
proof -
  let ?r = "compactCatalog es b" and ?sorted = "sort_key ce_name (valid_entries es)"
  obtain dropped where c: "retain b ?sorted [] [] 0 = (cr_entries ?r, dropped)" "cr_dropped ?r = dropped"
    "cr_rendered ?r = join_with [CHR 0x0A] (map renderEntry (cr_entries ?r))" "cr_totalBytes ?r = rendered_bytes (cr_entries ?r)"
    by (rule compacted)
  have "0 = rendered_bytes []" by (simp add: rendered_bytes_def)
  from retain_result [OF c(1) this] have k: "rendered_bytes (cr_entries ?r) \<le> b" "subseq (cr_entries ?r) ?sorted"
    "mset (map ce_name (cr_entries ?r)) + mset dropped = mset (map ce_name ?sorted)"
    by auto
  have "sorted (map ce_name (cr_entries ?r))"
    using sorted_wrt_subseq [OF subseq_map [OF k(2), of ce_name]] by simp
  moreover have "set (cr_entries ?r) \<subseteq> set (valid_entries es)" using subseq_in [OF k(2)] by auto
  then have "(\<lambda>e. (ce_name e, ce_location e)) ` set (cr_entries ?r) \<subseteq> (\<lambda>e. (ce_name e, ce_location e)) ` set es"
    by (fastforce simp: valid_entries_def)
  moreover have "mset (map ce_name ?sorted) = mset (map ce_name (valid_entries es))" by simp
  ultimately show ?thesis using c k by (simp add: rendered_bytes_def)
qed

text \<open>
  When the names of the valid entries are distinct, the order of the input has no influence on what
  is retained, what is dropped and what is rendered.
\<close>

theorem compaction_ignores_order:
  assumes "mset es' = mset es" "distinct (map ce_name (valid_entries es))"
  shows "cr_entries (compactCatalog es' b) = cr_entries (compactCatalog es b) \<and>
    cr_dropped (compactCatalog es' b) = cr_dropped (compactCatalog es b) \<and>
    cr_rendered (compactCatalog es' b) = cr_rendered (compactCatalog es b)"
proof -
  have m: "mset (valid_entries es') = mset (valid_entries es)" using assms(1) by (simp add: valid_entries_def)
  then have "sort_key ce_name (valid_entries es') = sort_key ce_name (valid_entries es)"
    using assms(2) mset_eq_setD [OF m] by (intro sort_key_inj_key_eq) (auto simp: distinct_map)
  then show ?thesis by (simp add: compactCatalog_def Let_def split: prod.split)
qed

definition sample_catalog :: "catalog_entry list" where
  "sample_catalog = [\<lparr>ce_name = ''b'', ce_location = ''skills/b'', ce_description = ''second''\<rparr>,
     \<lparr>ce_name = ''a'', ce_location = ''skills/a'', ce_description = ''first''\<rparr>]"

theorem compaction_ignores_order_witness:
  "cr_entries (compactCatalog (rev sample_catalog) 40) = cr_entries (compactCatalog sample_catalog 40) \<and>
     map ce_name (cr_entries (compactCatalog sample_catalog 40)) = [''a'']"
proof -
  have "distinct (map ce_name (valid_entries sample_catalog))"
    "map ce_name (cr_entries (compactCatalog sample_catalog 40)) = [''a'']" by code_simp+
  then show ?thesis using compaction_ignores_order [of "rev sample_catalog" sample_catalog 40] by simp
qed

text \<open>
  Entries with the same name keep the order of the input, so which of them is retained depends on it.
\<close>

definition same_name_catalog :: "catalog_entry list" where
  "same_name_catalog = [\<lparr>ce_name = ''a'', ce_location = ''one'', ce_description = []\<rparr>,
     \<lparr>ce_name = ''a'', ce_location = ''two'', ce_description = []\<rparr>]"

lemma same_names_depend_on_order:
  "map ce_location (cr_entries (compactCatalog same_name_catalog 30)) = [''one''] \<and>
   map ce_location (cr_entries (compactCatalog (rev same_name_catalog) 30)) = [''two'']"
  by code_simp

end
