(* ===== verification/Command_Grammar.thy ===== *)
theory Command_Grammar
  imports Task_Packet
begin

text \<open>
  The commands (\<^verbatim>\<open>src/commands/command-definitions.ts\<close>) and the parser of their arguments
  (\<^verbatim>\<open>src/commands/command-parser.ts\<close>).
\<close>

section \<open>Definitions\<close>

datatype activation_id =
    Teammode | StartWorkId | Ultrawork | UlwLoopId | UlwPlan | UlwDeliver | UlwResearch | Doctor
  | ReportBug | ContributeBugFix

record command_definition =
  cd_workflow :: activation_id
  cd_canonical :: string
  cd_aliases :: "string list"
  cd_grammar :: "string list"

definition COMMAND_DEFINITIONS :: "command_definition list" where
  "COMMAND_DEFINITIONS = [
     \<lparr>cd_workflow = Teammode, cd_canonical = ''/omp-lazy-teammode(omp)'', cd_aliases = [''/teammode(omp)''],
       cd_grammar = [''prepare <team-name> <roster-json-path>'', ''create <team-name> <roster-reservation-id>'',
         ''status [team-name]'', ''cancel <team-name>'', ''archive <team-name>'', ''delete <team-name>'',
         ''resume <team-name>'']\<rparr>,
     \<lparr>cd_workflow = StartWorkId, cd_canonical = ''/omp-lazy-start-work(omp)'', cd_aliases = [''/start-work(omp)''],
       cd_grammar = [[], ''start [plan-path]'', ''status [run-id]'', ''pause [run-id]'', ''resume [run-id]'',
         ''cancel [run-id]'', ''adopt <run-id>'', ''reconcile <run-id> <plan-path>'', ''status --repair <run-id>'',
         ''status --repair-lock <nonce> --confirm'']\<rparr>,
     \<lparr>cd_workflow = Ultrawork, cd_canonical = ''/omp-lazy-ultrawork(omp)'',
       cd_aliases = [''/ultrawork(omp)'', ''/ulw(omp)''], cd_grammar = [''[auto|light|heavy] [-- <task-text>]'']\<rparr>,
     \<lparr>cd_workflow = UlwLoopId, cd_canonical = ''/ulw-loop(omp)'', cd_aliases = [],
       cd_grammar = [''[<objective-text> | create <objective-text> | -- <objective-text>]'', ''status [run-id]'',
         ''pause [run-id]'', ''resume [run-id]'', ''cancel [run-id]'', ''adopt <run-id>'',
         ''checkpoint <run-id> <criterion-id> <evidence-path>'', ''steer <run-id> <steering-json-path>'']\<rparr>,
     \<lparr>cd_workflow = UlwPlan, cd_canonical = ''/omp-lazy-ulw-plan(omp)'', cd_aliases = [''/ulw-plan(omp)''],
       cd_grammar = [''[-- <brief>]'', ''approve <plan-path> <sha256>'']\<rparr>,
     \<lparr>cd_workflow = UlwDeliver, cd_canonical = ''/omp-lazy-ulw-deliver(omp)'', cd_aliases = [''/ulw-deliver(omp)''],
       cd_grammar = [''[fast|standard|deep] [-- <task-text>]'']\<rparr>,
     \<lparr>cd_workflow = UlwResearch, cd_canonical = ''/omp-lazy-ulw-research(omp)'', cd_aliases = [''/ulw-research(omp)''],
       cd_grammar = [''<query-text>'']\<rparr>,
     \<lparr>cd_workflow = Doctor, cd_canonical = ''/omp-lazy-doctor(omp)'', cd_aliases = [''/lcx-doctor(omp)''],
       cd_grammar = [''[--json] [--deep]'']\<rparr>,
     \<lparr>cd_workflow = ReportBug, cd_canonical = ''/omp-lazy-report-bug(omp)'', cd_aliases = [''/lcx-report-bug(omp)''],
       cd_grammar = [''[--target auto|omp-lazy|omp] [--dry-run] <summary-text>'']\<rparr>,
     \<lparr>cd_workflow = ContributeBugFix, cd_canonical = ''/omp-lazy-contribute-bug-fix(omp)'',
       cd_aliases = [''/lcx-contribute-bug-fix(omp)''], cd_grammar = [''--dry-run <issue-or-bug-ref>'']\<rparr>]"

record command_registration =
  reg_command :: string
  reg_workflow :: activation_id

definition COMMAND_REGISTRATIONS :: "command_registration list" where
  "COMMAND_REGISTRATIONS = concat (map (\<lambda>d. map (\<lambda>c. \<lparr>reg_command = c, reg_workflow = cd_workflow d\<rparr>)
     (cd_canonical d # cd_aliases d)) COMMAND_DEFINITIONS)"

section \<open>Words\<close>

definition is_quote :: "char \<Rightarrow> bool" where
  "is_quote c \<longleftrightarrow> c = CHR 0x22 \<or> c = CHR 0x27"

text \<open>
  One round of the loop on the text from its first word character on: the word and what follows it,
  which has to be white space or the end.
\<close>

definition next_word :: "string \<Rightarrow> (string \<times> string) option" where
  "next_word s =
     (let quoted = (s \<noteq> [] \<and> is_quote (hd s));
          body = (if quoted then tl s else s);
          inside = (\<lambda>c. if quoted then c \<noteq> hd s else \<not> js_space c);
          word = takeWhile inside body;
          after = dropWhile inside body
      in if quoted \<and> after = [] then None
         else if word = [] then None
         else let rest = (if quoted then tl after else after)
         in if rest \<noteq> [] \<and> \<not> js_space (hd rest) then None else Some (word, rest))"

lemma next_word_shorter:
  assumes "next_word s = Some (w, rest)"
  shows "length rest < length s"
proof -
  define quoted where "quoted = (s \<noteq> [] \<and> is_quote (hd s))"
  define body where "body = (if quoted then tl s else s)"
  define inside where "inside = (\<lambda>c. if quoted then c \<noteq> hd s else \<not> js_space c)"
  have w: "takeWhile inside body = w" "w \<noteq> []" "rest = (if quoted then tl (dropWhile inside body) else dropWhile inside body)"
    using assms unfolding next_word_def Let_def quoted_def [symmetric] body_def [symmetric] inside_def [symmetric]
    by (auto split: if_splits)
  have "length w + length (dropWhile inside body) = length body"
    using w(1) by (metis length_append takeWhile_dropWhile_id)
  moreover have "length body \<le> length s" by (simp add: body_def)
  moreover have "length rest \<le> length (dropWhile inside body)" using w(3) by simp
  ultimately show ?thesis using w(2) by (cases w) auto
qed

function split_words :: "string \<Rightarrow> string list option" where
  "split_words args =
     (let s = dropWhile js_space args
      in if s = [] then Some []
         else case next_word s of
           None \<Rightarrow> None
         | Some (word, rest) \<Rightarrow> map_option (Cons word) (split_words rest))"
  by pat_completeness auto

termination
proof (relation "measure length")
  fix args s p word rest
  assume "s = dropWhile js_space args" "next_word s = Some p" "(word, rest) = p"
  then show "(rest, args) \<in> measure length"
    using next_word_shorter [of s word rest] length_dropWhile_le [of js_space args] by auto
qed simp

declare split_words.simps [simp del]

section \<open>Flags\<close>

definition is_lower_letter :: "char \<Rightarrow> bool" where
  "is_lower_letter c \<longleftrightarrow> c \<in> set ''abcdefghijklmnopqrstuvwxyz''"

text \<open>The matches of \<^verbatim>\<open>--[a-z][a-z-]*\<close>, from left to right.\<close>

function flag_matches :: "string \<Rightarrow> string list" where
  "flag_matches s = (case s of
     CHR ''-'' # CHR ''-'' # c # t \<Rightarrow>
       (if is_lower_letter c
        then (''--'' @ c # takeWhile (\<lambda>d. is_lower_letter d \<or> d = CHR ''-'') t) #
             flag_matches (dropWhile (\<lambda>d. is_lower_letter d \<or> d = CHR ''-'') t)
        else flag_matches (tl s))
   | [] \<Rightarrow> []
   | _ \<Rightarrow> flag_matches (tl s))"
  by pat_completeness auto

termination
  by (relation "measure length") (auto simp: le_imp_less_Suc length_dropWhile_le intro: le_less_trans [OF length_dropWhile_le])

fun contains_text :: "string \<Rightarrow> string \<Rightarrow> bool" where
  "contains_text [] p = (p = [])"
| "contains_text (c # s) p = (take (length p) (c # s) = p \<or> contains_text s p)"

fun words_follow :: "string list \<Rightarrow> bool \<Rightarrow> bool \<Rightarrow> string list \<Rightarrow> bool" where
  "words_follow allowed accepts after [] = True"
| "words_follow allowed accepts after (word # words) =
     (if word = ''--'' then accepts \<and> \<not> after \<and> words_follow allowed accepts True words
      else if \<not> after \<and> take 2 word = ''--'' \<and> \<not> List.member allowed word then False
      else words_follow allowed accepts after words)"

definition grammar_of :: "activation_id \<Rightarrow> string option" where
  "grammar_of workflow = map_option (\<lambda>d. join_with '' '' (cd_grammar d))
     (List.find (\<lambda>d. cd_workflow d = workflow) COMMAND_DEFINITIONS)"

definition tokensFollowCatalogGrammar :: "activation_id \<Rightarrow> string list \<Rightarrow> bool" where
  "tokensFollowCatalogGrammar workflow words = (case grammar_of workflow of
     None \<Rightarrow> False
   | Some grammar \<Rightarrow> words_follow (flag_matches grammar) (contains_text grammar ''-- <'') False words)"

section \<open>Commands\<close>

text \<open>An accepted command is its operation and words; \<open>None\<close> is \<^verbatim>\<open>invalid_grammar\<close>.\<close>

type_synonym parsed_command = "(string \<times> string list) option"

definition parseStart :: "string list \<Rightarrow> parsed_command" where
  "parseStart words = (case words of
     [] \<Rightarrow> Some (''start'', [])
   | operation # rest \<Rightarrow>
     (if operation = ''start'' \<and> length rest \<le> 1 then Some (operation, rest)
      else if operation \<in> set [''pause'', ''resume'', ''cancel''] \<and> length rest \<le> 1 then Some (operation, rest)
      else if operation = ''adopt'' \<and> length rest = 1 then Some (operation, rest)
      else if operation = ''reconcile'' \<and> length rest = 2 then Some (operation, rest)
      else if operation \<noteq> ''status'' then None
      else if length rest \<le> 1 then Some (operation, rest)
      else if hd rest = ''--repair'' \<and> length rest = 2 then Some (''repair'', tl rest)
      else if hd rest = ''--repair-lock'' \<and> length rest = 3 \<and> rest ! 2 = ''--confirm'' then Some (''repair_lock'', [rest ! 1])
      else None))"

definition parseUlwLoop :: "string list \<Rightarrow> parsed_command" where
  "parseUlwLoop words = (case words of
     [] \<Rightarrow> Some (''status'', [])
   | operation # rest \<Rightarrow>
     (if operation = ''--'' then (if rest \<noteq> [] \<and> ''--'' \<notin> set rest then Some (''create'', rest) else None)
      else if ''--'' \<in> set words then None
      else if operation = ''create'' then (if rest \<noteq> [] then Some (operation, rest) else None)
      else if operation \<in> set [''status'', ''pause'', ''resume'', ''cancel'']
      then (if length rest \<le> 1 then Some (operation, rest) else None)
      else if operation = ''adopt'' then (if length rest = 1 then Some (operation, rest) else None)
      else if operation = ''checkpoint'' then (if length rest = 3 then Some (operation, rest) else None)
      else if operation = ''steer'' then (if length rest = 2 then Some (operation, rest) else None)
      else Some (''create'', words)))"

text \<open>The flags of a report are skipped, each with its value.\<close>

fun report_summary :: "string list \<Rightarrow> string list option" where
  "report_summary [] = Some []"
| "report_summary (word # words) =
     (if take 2 word \<noteq> ''--'' then Some (word # words)
      else if word = ''--dry-run'' then report_summary words
      else if word = ''--target'' then
        (case words of
           [] \<Rightarrow> None
         | v # vs \<Rightarrow> (if v \<in> set [''auto'', ''omp-lazy'', ''omp''] then report_summary vs else None))
      else None)"

definition parseReport :: "string list \<Rightarrow> parsed_command" where
  "parseReport words = (case report_summary words of
     None \<Rightarrow> None
   | Some summary \<Rightarrow>
     (if summary \<noteq> [] \<and> list_all (\<lambda>w. take 2 w \<noteq> ''--'') summary then Some (''draft'', summary) else None))"

text \<open>The commands that take a mode and, after a separator, a text.\<close>

definition parse_moded :: "string \<Rightarrow> string list \<Rightarrow> string list \<Rightarrow> parsed_command" where
  "parse_moded operation allowed words =
     (let modes = takeWhile (\<lambda>w. w \<noteq> ''--'') words; separated = (''--'' \<in> set words);
          task = tl (dropWhile (\<lambda>w. w \<noteq> ''--'') words)
      in if length modes \<le> 1 \<and> (modes = [] \<or> hd modes \<in> set allowed) \<and> (\<not> separated \<or> task \<noteq> [])
         then Some (operation, words) else None)"

definition parse_words :: "activation_id \<Rightarrow> string list \<Rightarrow> parsed_command" where
  "parse_words workflow words = (case workflow of
     StartWorkId \<Rightarrow> parseStart words
   | UlwLoopId \<Rightarrow> parseUlwLoop words
   | Teammode \<Rightarrow> (case words of
       [] \<Rightarrow> None
     | operation # rest \<Rightarrow>
       (if operation = ''status'' \<and> length rest \<le> 1 then Some (operation, rest)
        else if (operation = ''prepare'' \<or> operation = ''create'') \<and> length rest = 2 then Some (operation, rest)
        else if operation \<in> set [''cancel'', ''archive'', ''delete'', ''resume''] \<and> length rest = 1
        then Some (operation, rest) else None))
   | Ultrawork \<Rightarrow> parse_moded ''activate'' [''auto'', ''light'', ''heavy''] words
   | UlwPlan \<Rightarrow>
       (if take 1 words = [''approve'']
        then if length words = 3 \<and> hex_string 64 (words ! 2) then Some (''approve'', tl words) else None
        else if words = [] \<or> (hd words = ''--'' \<and> 1 < length words) then Some (''plan'', tl words) else None)
   | UlwDeliver \<Rightarrow> parse_moded ''deliver'' [''fast'', ''standard'', ''deep''] words
   | UlwResearch \<Rightarrow> (if words \<noteq> [] \<and> take 2 (hd words) \<noteq> ''--'' then Some (''research'', words) else None)
   | Doctor \<Rightarrow>
       (if list_all (\<lambda>w. w = ''--json'' \<or> w = ''--deep'') words \<and> distinct words then Some (''doctor'', words) else None)
   | ReportBug \<Rightarrow> parseReport words
   | ContributeBugFix \<Rightarrow>
       (if take 1 words = [''--dry-run''] \<and> length words = 2 then Some (''dry_run'', tl words) else None))"

definition parseWorkflowCommand :: "activation_id \<Rightarrow> string \<Rightarrow> parsed_command" where
  "parseWorkflowCommand workflow args = (case split_words (js_trim args) of
     None \<Rightarrow> None
   | Some words \<Rightarrow> (if tokensFollowCatalogGrammar workflow words then parse_words workflow words else None))"

end
