(* ===== verification/Command_Properties.thy ===== *)
theory Command_Properties
  imports Command_Grammar "HOL-Library.Code_Target_Nat"
begin

text \<open>
  Correctness of the command parser: quoted words are read back as they are, and the operations the
  handlers see have the number of words they take.
\<close>

definition quoted_word :: "string \<Rightarrow> string" where
  "quoted_word w = CHR 0x22 # w @ [CHR 0x22]"

definition quotable :: "string \<Rightarrow> bool" where
  "quotable w \<longleftrightarrow> w \<noteq> [] \<and> CHR 0x22 \<notin> set w"

lemma quote_not_space [simp]: "\<not> js_space (CHR 0x22)" "is_quote (CHR 0x22)"
  by (simp_all add: js_space_def is_quote_def)

lemma takeWhile_until:
  "c \<notin> set w \<Longrightarrow> takeWhile (\<lambda>x. x \<noteq> c) (w @ c # r) = w \<and> dropWhile (\<lambda>x. x \<noteq> c) (w @ c # r) = c # r"
  by (induction w) auto

lemma next_quoted:
  assumes "quotable w" "rest = [] \<or> js_space (hd rest)"
  shows "next_word (quoted_word w @ rest) = Some (w, rest)"
proof -
  have "takeWhile (\<lambda>c. c \<noteq> CHR 0x22) (w @ CHR 0x22 # rest) = w"
    "dropWhile (\<lambda>c. c \<noteq> CHR 0x22) (w @ CHR 0x22 # rest) = CHR 0x22 # rest"
    using assms(1) takeWhile_until [of "CHR 0x22" w rest] by (simp_all add: quotable_def)
  then show ?thesis
    using assms by (auto simp: next_word_def quoted_word_def quotable_def Let_def)
qed

lemma split_quoted: "list_all quotable ws \<Longrightarrow> split_words (join_with '' '' (map quoted_word ws)) = Some ws"
proof (induction ws)
  case Nil
  show ?case by (simp add: split_words.simps)
next
  case (Cons w ws)
  define rest where "rest = (if ws = [] then [] else CHR '' '' # join_with '' '' (map quoted_word ws))"
  have joined: "join_with '' '' (map quoted_word (w # ws)) = quoted_word w @ rest"
    by (cases ws) (simp_all add: rest_def)
  have "js_space (CHR '' '')" by (simp add: js_space_def)
  then have "split_words (quoted_word w @ rest) = map_option (Cons w) (split_words rest)"
    using next_quoted [of w rest] Cons.prems
    by (subst split_words.simps) (auto simp: quoted_word_def rest_def)
  moreover have "split_words rest = Some ws"
  proof (cases "ws = []")
    case True
    then show ?thesis by (simp add: rest_def split_words.simps)
  next
    case False
    have "split_words (CHR '' '' # s) = split_words s" for s
      by (subst (1 2) split_words.simps) (simp add: \<open>js_space (CHR '' '')\<close>)
    then show ?thesis using Cons False by (simp add: rest_def)
  qed
  ultimately show ?case by (simp only: joined) simp
qed

lemma quoted_text_ends:
  "ws \<noteq> [] \<Longrightarrow> join_with '' '' (map quoted_word ws) \<noteq> [] \<and> hd (join_with '' '' (map quoted_word ws)) = CHR 0x22 \<and>
     last (join_with '' '' (map quoted_word ws)) = CHR 0x22"
proof (induction ws rule: list_nonempty_induct)
  case (single w)
  then show ?case by (simp add: quoted_word_def)
next
  case (cons w ws)
  then show ?case by (cases ws) (auto simp: quoted_word_def)
qed

text \<open>
  Every list of words can be given to a command: written between double quotes, words that are
  neither empty nor contain a double quote are read back as they are, white space included.
\<close>

theorem quoted_words_roundtrip:
  assumes "list_all quotable ws"
  shows "parseWorkflowCommand workflow (join_with '' '' (map quoted_word ws)) =
    (if tokensFollowCatalogGrammar workflow ws then parse_words workflow ws else None)"
proof -
  have "js_trim (join_with '' '' (map quoted_word ws)) = join_with '' '' (map quoted_word ws)"
    using quoted_text_ends [of ws] by (cases "ws = []") (auto simp: js_trim_def intro!: trim_ends [unfolded js_trim_def])
  then show ?thesis using split_quoted [OF assms] by (simp add: parseWorkflowCommand_def)
qed

theorem quoted_words_roundtrip_witness:
  "parseWorkflowCommand StartWorkId (join_with '' '' (map quoted_word [''reconcile'', ''run 1'', ''docs/my plan.md''])) =
     Some (''reconcile'', [''run 1'', ''docs/my plan.md''])"
proof -
  have "list_all quotable [''reconcile'', ''run 1'', ''docs/my plan.md'']"
    "tokensFollowCatalogGrammar StartWorkId [''reconcile'', ''run 1'', ''docs/my plan.md'']"
    "parse_words StartWorkId [''reconcile'', ''run 1'', ''docs/my plan.md''] = Some (''reconcile'', [''run 1'', ''docs/my plan.md''])"
    by code_simp+
  then show ?thesis
    using quoted_words_roundtrip [of "[''reconcile'', ''run 1'', ''docs/my plan.md'']" StartWorkId] by presburger
qed

section \<open>Shapes\<close>

text \<open>The operations of a command, each with the numbers of words it can come with.\<close>

definition command_shapes :: "activation_id \<Rightarrow> (string \<times> nat \<times> nat option) list" where
  "command_shapes workflow = (case workflow of
     StartWorkId \<Rightarrow> [(''start'', 0, Some 1), (''pause'', 0, Some 1), (''resume'', 0, Some 1), (''cancel'', 0, Some 1),
       (''status'', 0, Some 1), (''adopt'', 1, Some 1), (''reconcile'', 2, Some 2), (''repair'', 1, Some 1), (''repair_lock'', 1, Some 1)]
   | UlwLoopId \<Rightarrow> [(''create'', 1, None), (''status'', 0, Some 1), (''pause'', 0, Some 1), (''resume'', 0, Some 1),
       (''cancel'', 0, Some 1), (''adopt'', 1, Some 1), (''checkpoint'', 3, Some 3), (''steer'', 2, Some 2)]
   | Teammode \<Rightarrow> [(''status'', 0, Some 1), (''prepare'', 2, Some 2), (''create'', 2, Some 2), (''cancel'', 1, Some 1),
       (''archive'', 1, Some 1), (''delete'', 1, Some 1), (''resume'', 1, Some 1)]
   | Ultrawork \<Rightarrow> [(''activate'', 0, None)]
   | UlwPlan \<Rightarrow> [(''approve'', 2, Some 2), (''plan'', 0, None)]
   | UlwDeliver \<Rightarrow> [(''deliver'', 0, None)]
   | UlwResearch \<Rightarrow> [(''research'', 1, None)]
   | Doctor \<Rightarrow> [(''doctor'', 0, Some 2)]
   | ReportBug \<Rightarrow> [(''draft'', 1, None)]
   | ContributeBugFix \<Rightarrow> [(''dry_run'', 1, Some 1)])"

definition shaped :: "activation_id \<Rightarrow> string \<Rightarrow> nat \<Rightarrow> bool" where
  "shaped workflow operation n \<longleftrightarrow> list_ex (\<lambda>(name, least, most). operation = name \<and> least \<le> n \<and>
     (case most of None \<Rightarrow> True | Some m \<Rightarrow> n \<le> m)) (command_shapes workflow)"

lemma doctor_words:
  assumes "list_all (\<lambda>w. w = ''--json'' \<or> w = ''--deep'') ws" "distinct ws"
  shows "length ws \<le> 2"
proof -
  have "set ws \<subseteq> {''--json'', ''--deep''}" using assms(1) by (auto simp: list_all_iff)
  then have "card (set ws) \<le> card {''--json'', ''--deep''}" by (intro card_mono) simp_all
  then show ?thesis using assms(2) by (simp add: distinct_card)
qed

text \<open>A result fits a command when it is a refusal or has one of the shapes.\<close>

definition fits :: "activation_id \<Rightarrow> parsed_command \<Rightarrow> bool" where
  "fits workflow r \<longleftrightarrow> (case r of None \<Rightarrow> True | Some (operation, ws) \<Rightarrow> shaped workflow operation (length ws))"

lemma fits_intros:
  "fits workflow None" "shaped workflow operation (length ws) \<Longrightarrow> fits workflow (Some (operation, ws))"
  "(P \<Longrightarrow> fits workflow x) \<Longrightarrow> (\<not> P \<Longrightarrow> fits workflow y) \<Longrightarrow> fits workflow (if P then x else y)"
  by (simp_all add: fits_def)

lemma shapes:
  "n \<le> 1 \<Longrightarrow> shaped StartWorkId ''start'' n" "n \<le> 1 \<Longrightarrow> shaped StartWorkId ''pause'' n"
  "n \<le> 1 \<Longrightarrow> shaped StartWorkId ''resume'' n" "n \<le> 1 \<Longrightarrow> shaped StartWorkId ''cancel'' n"
  "n \<le> 1 \<Longrightarrow> shaped StartWorkId ''status'' n" "n = 1 \<Longrightarrow> shaped StartWorkId ''adopt'' n"
  "n = 2 \<Longrightarrow> shaped StartWorkId ''reconcile'' n" "n = 1 \<Longrightarrow> shaped StartWorkId ''repair'' n"
  "n = 1 \<Longrightarrow> shaped StartWorkId ''repair_lock'' n"
  "1 \<le> n \<Longrightarrow> shaped UlwLoopId ''create'' n" "n \<le> 1 \<Longrightarrow> shaped UlwLoopId ''status'' n"
  "n \<le> 1 \<Longrightarrow> shaped UlwLoopId ''pause'' n" "n \<le> 1 \<Longrightarrow> shaped UlwLoopId ''resume'' n"
  "n \<le> 1 \<Longrightarrow> shaped UlwLoopId ''cancel'' n" "n = 1 \<Longrightarrow> shaped UlwLoopId ''adopt'' n"
  "n = 3 \<Longrightarrow> shaped UlwLoopId ''checkpoint'' n" "n = 2 \<Longrightarrow> shaped UlwLoopId ''steer'' n"
  by (simp_all add: shaped_def command_shapes_def)

lemma start_fits: "fits StartWorkId (parseStart words)"
proof (cases words)
  case Nil
  then show ?thesis by (simp add: parseStart_def fits_def shapes)
next
  case (Cons op rest)
  show ?thesis
    unfolding Cons parseStart_def list.case by (intro fits_intros) (auto intro: shapes)
qed

lemma loop_fits: "fits UlwLoopId (parseUlwLoop words)"
proof (cases words)
  case Nil
  then show ?thesis by (simp add: parseUlwLoop_def fits_def shapes)
next
  case (Cons op rest)
  show ?thesis
    unfolding Cons parseUlwLoop_def list.case by (intro fits_intros) (auto intro: shapes simp: Suc_le_eq)
qed

lemma team_fits: "fits Teammode (parse_words Teammode words)"
proof (cases words)
  case Nil
  then show ?thesis by (simp add: parse_words_def fits_def)
next
  case (Cons op rest)
  have "n \<le> 1 \<Longrightarrow> shaped Teammode ''status'' n" "n = 2 \<Longrightarrow> shaped Teammode ''prepare'' n" "n = 2 \<Longrightarrow> shaped Teammode ''create'' n"
    "n = 1 \<Longrightarrow> shaped Teammode ''cancel'' n" "n = 1 \<Longrightarrow> shaped Teammode ''archive'' n" "n = 1 \<Longrightarrow> shaped Teammode ''delete'' n"
    "n = 1 \<Longrightarrow> shaped Teammode ''resume'' n" for n by (simp_all add: shaped_def command_shapes_def)
  then show ?thesis
    unfolding Cons parse_words_def activation_id.case list.case by (intro fits_intros) auto
qed

lemma parse_words_fits: "fits workflow (parse_words workflow words)"
proof (cases workflow)
  case Teammode
  then show ?thesis using team_fits by simp
next
  case StartWorkId
  then show ?thesis using start_fits by (simp add: parse_words_def)
next
  case UlwLoopId
  then show ?thesis using loop_fits by (simp add: parse_words_def)
next
  case Doctor
  then show ?thesis
    using doctor_words by (simp add: parse_words_def fits_def shaped_def command_shapes_def)
next
  case ContributeBugFix
  then show ?thesis
    by (cases words) (simp_all add: parse_words_def fits_def shaped_def command_shapes_def)
next
  case UlwPlan
  have "n = 2 \<Longrightarrow> shaped UlwPlan ''approve'' n" "shaped UlwPlan ''plan'' n" for n
    by (simp_all add: shaped_def command_shapes_def)
  then show ?thesis
    unfolding UlwPlan parse_words_def activation_id.case by (intro fits_intros) auto
qed (simp_all add: parse_words_def parse_moded_def parseReport_def fits_def shaped_def command_shapes_def Let_def Suc_le_eq
    split: option.split)

text \<open>
  An accepted command names one of the operations of its workflow, with as many words as that
  operation takes: the handlers never index past the words they are given.
\<close>

theorem accepted_command_shaped:
  assumes "parseWorkflowCommand workflow args = Some (operation, ws)"
  shows "shaped workflow operation (length ws)"
proof -
  obtain words where "parse_words workflow words = Some (operation, ws)"
    using assms by (auto simp: parseWorkflowCommand_def split: option.splits if_splits)
  then show ?thesis using parse_words_fits [of workflow words] by (simp add: fits_def)
qed

theorem accepted_command_shaped_witness:
  "shaped UlwLoopId ''checkpoint'' 3 \<and> \<not> shaped UlwLoopId ''checkpoint'' 2"
proof -
  have "parseWorkflowCommand UlwLoopId ''checkpoint run c1 evidence.json'' = Some (''checkpoint'', [''run'', ''c1'', ''evidence.json''])"
    by code_simp
  from accepted_command_shaped [OF this] show ?thesis by (simp add: shaped_def command_shapes_def)
qed

text \<open>The flag that asks for a repair is read as the id of a run when nothing follows it.\<close>

lemma repair_without_run_is_status:
  "parseWorkflowCommand StartWorkId ''status --repair'' = Some (''status'', [''--repair''])"
  by code_simp

end
