(* ===== verification/Activation.thy ===== *)
theory Activation
  imports Command_Grammar State_Decode Continuation_Budget Catalog_Compaction
begin

text \<open>
  Activation of workflows from what a user writes: the matcher (\<^verbatim>\<open>src/activation/matcher.ts\<close>), the
  controller that ties an activation to a trusted input (\<^verbatim>\<open>provenance-controller.ts\<close>), the durable record
  of an activation (\<^verbatim>\<open>transaction-activation-state.ts\<close>) and the text of a directive
  (\<^verbatim>\<open>directive-resolver.ts\<close>). SHA-256 is a parameter; characters are those up to U+00FF.
\<close>

section \<open>Names of commands in a text\<close>

text \<open>The characters of \<^verbatim>\<open>PROTECTED_BOUNDARY\<close>: letters, numbers and \<^verbatim>\<open>_ . \ / -\<close>.\<close>

definition protected_char :: "char \<Rightarrow> bool" where
  "protected_char c \<longleftrightarrow>
     (let n = of_char c :: nat
      in is_letter c \<or> is_digit c \<or> c \<in> set [CHR ''_'', CHR ''.'', CHR 0x5C, CHR ''/'', CHR ''-''] \<or>
         n \<in> set [170, 178, 179, 181, 185, 186, 188, 189, 190] \<or> (192 \<le> n \<and> n \<noteq> 215 \<and> n \<noteq> 247))"

definition starts_ci :: "string \<Rightarrow> string \<Rightarrow> bool" where
  "starts_ci name s \<longleftrightarrow> map js_lower (take (length name) s) = map js_lower name"

definition name_here :: "string \<Rightarrow> string \<Rightarrow> bool" where
  "name_here name s \<longleftrightarrow> starts_ci name s \<and> (case drop (length name) s of [] \<Rightarrow> True | c # _ \<Rightarrow> \<not> protected_char c)"

definition token_here :: "string \<Rightarrow> string \<Rightarrow> bool" where
  "token_here name s \<longleftrightarrow> name_here name s \<or> (case s of [] \<Rightarrow> False | c # t \<Rightarrow> c = CHR ''/'' \<and> name_here name t)"

fun matches_from :: "string \<Rightarrow> bool \<Rightarrow> string \<Rightarrow> bool" where
  "matches_from name after [] = (\<not> after \<and> token_here name [])"
| "matches_from name after (c # s) = (\<not> after \<and> token_here name (c # s) \<or> matches_from name (protected_char c) s)"

definition matchesToken :: "string \<Rightarrow> string \<Rightarrow> bool" where
  "matchesToken s command = matches_from (drop 1 command) False s"

section \<open>Triggers\<close>

definition line_end :: "char \<Rightarrow> bool" where
  "line_end c \<longleftrightarrow> c = CHR 0x0A \<or> c = CHR 0x0D"

definition fence :: string where
  "fence = replicate 3 (CHR 0x60)"

text \<open>What follows the first closing fence; the flag tells whether the text begins a line.\<close>

fun after_fence :: "bool \<Rightarrow> string \<Rightarrow> string option" where
  "after_fence begins [] = None"
| "after_fence begins (c # s) =
     (if begins \<and> take 3 (c # s) = fence then Some (drop 3 (c # s)) else after_fence (line_end c) s)"

definition fenced_rest :: "string \<Rightarrow> string option" where
  "fenced_rest s =
     (if take 3 s \<noteq> fence then None
      else case dropWhile (\<lambda>c. c \<noteq> CHR 0x0A) (drop 3 s) of [] \<Rightarrow> None | _ # body \<Rightarrow> after_fence True body)"

lemma after_fence_shorter: "after_fence begins s = Some rest \<Longrightarrow> length rest < length s"
  by (induction begins s rule: after_fence.induct) (auto simp: fence_def split: if_splits)

lemma fenced_rest_shorter: "fenced_rest s = Some rest \<Longrightarrow> length rest < length s"
proof -
  assume "fenced_rest s = Some rest"
  then obtain c body where b: "dropWhile (\<lambda>c. c \<noteq> CHR 0x0A) (drop 3 s) = c # body" "after_fence True body = Some rest"
    by (auto simp: fenced_rest_def split: if_splits list.splits)
  have "length (c # body) \<le> length s"
    using length_dropWhile_le [of "\<lambda>c. c \<noteq> CHR 0x0A" "drop 3 s"] b(1) by simp
  then show ?thesis using after_fence_shorter [OF b(2)] by simp
qed

function strip_fences :: "bool \<Rightarrow> string \<Rightarrow> string" where
  "strip_fences begins s =
     (case (if begins then fenced_rest s else None) of
        Some rest \<Rightarrow> strip_fences False rest
      | None \<Rightarrow> (case s of [] \<Rightarrow> [] | c # t \<Rightarrow> c # strip_fences (line_end c) t))"
  by pat_completeness auto

termination
  by (relation "measure (\<lambda>(_, s). length s)") (auto dest: fenced_rest_shorter split: if_splits)

declare strip_fences.simps [simp del]

definition stripFencedCodeBlocks :: "string \<Rightarrow> string" where
  "stripFencedCodeBlocks s = strip_fences True s"

definition quote_mark :: "char \<Rightarrow> bool" where
  "quote_mark c \<longleftrightarrow> c = CHR 0x60 \<or> c = CHR 0x22 \<or> c = CHR 0x27"

function stripQuotedStrings :: "string \<Rightarrow> string" where
  "stripQuotedStrings [] = []"
| "stripQuotedStrings (c # s) =
     (if quote_mark c \<and> c \<in> set s then stripQuotedStrings (tl (dropWhile (\<lambda>d. d \<noteq> c) s)) else c # stripQuotedStrings s)"
  by pat_completeness auto

termination
  by (relation "measure length") (auto intro: le_imp_less_Suc le_trans [OF diff_le_self length_dropWhile_le])

definition trigger_separator :: "char \<Rightarrow> bool" where
  "trigger_separator c \<longleftrightarrow> js_space c \<or> c \<in> set '',;:!?(){}[]<>''"

fun split_where :: "(char \<Rightarrow> bool) \<Rightarrow> string \<Rightarrow> string list" where
  "split_where P [] = [[]]"
| "split_where P (c # s) =
     (if P c then [] # split_where P s else case split_where P s of [] \<Rightarrow> [[c]] | w # ws \<Rightarrow> (c # w) # ws)"

definition trigger_tokens :: "string \<Rightarrow> string list" where
  "trigger_tokens s = filter (\<lambda>w. w \<noteq> []) (split_where trigger_separator s)"

definition matchesTriggerExact :: "string \<Rightarrow> string \<Rightarrow> bool" where
  "matchesTriggerExact token trigger \<longleftrightarrow> map js_lower token = map js_lower trigger"

definition TRIGGER_ALLOWLIST :: "(string \<times> command_registration) list" where
  "TRIGGER_ALLOWLIST = (case List.find (\<lambda>r. reg_command r = ''/omp-lazy-ultrawork(omp)'') COMMAND_REGISTRATIONS of
     None \<Rightarrow> []
   | Some r \<Rightarrow> [(''ultrawork'', r), (''ulw'', r)])"

text \<open>The only workflow among the matches, with its first registration.\<close>

definition single_workflow :: "command_registration list \<Rightarrow> command_registration option" where
  "single_workflow matches = (if length (remdups (map reg_workflow matches)) = 1 then Some (hd matches) else None)"

definition matchTriggerAllowlist :: "string \<Rightarrow> command_registration option" where
  "matchTriggerAllowlist s =
     (let tokens = trigger_tokens (stripQuotedStrings (stripFencedCodeBlocks s));
          matches = map snd (filter (\<lambda>(trigger, _). list_ex (\<lambda>t. matchesTriggerExact t trigger) tokens) TRIGGER_ALLOWLIST)
      in single_workflow matches)"

definition matchActivation :: "string \<Rightarrow> command_registration option" where
  "matchActivation s =
     (let commandMatches = filter (\<lambda>r. matchesToken s (reg_command r)) COMMAND_REGISTRATIONS
      in if commandMatches \<noteq> [] then single_workflow commandMatches else matchTriggerAllowlist s)"

section \<open>The controller\<close>

datatype input_source = Interactive | Rpc | Extension

datatype suppression_reason = SupCommand | SupContinuation | SupSkill | SupSynthetic

record pending_token =
  pt_hash :: string
  pt_workflow :: activation_id
  pt_command :: string

record activation_controller =
  ac_pending :: "string \<rightharpoonup> pending_token"
  ac_suppressions :: "string \<rightharpoonup> string \<times> suppression_reason"
  ac_commands :: "string set"

definition new_controller :: activation_controller where
  "new_controller = \<lparr>ac_pending = Map.empty, ac_suppressions = Map.empty, ac_commands = {}\<rparr>"

definition recordInput ::
    "(string \<Rightarrow> string) \<Rightarrow> string \<Rightarrow> input_source \<Rightarrow> string \<Rightarrow> activation_controller \<Rightarrow> activation_controller" where
  "recordInput sha sessionId source s ac = (case nonempty sessionId of
     None \<Rightarrow> ac
   | Some sid \<Rightarrow>
     (let cleared = ac\<lparr>ac_pending := (ac_pending ac)(sid := None)\<rparr>
      in if source = Extension then cleared
         else case matchActivation s of
           None \<Rightarrow> cleared
         | Some r \<Rightarrow> cleared\<lparr>ac_pending := (ac_pending ac)(sid \<mapsto>
             \<lparr>pt_hash = sha s, pt_workflow = reg_workflow r, pt_command = reg_command r\<rparr>)\<rparr>))"

datatype activation_decision = Quiet | Activate activation_id string

text \<open>
  What the activation state answers: whether the workflow is active for the session, and whether its
  directive has been activated already in the current run.
\<close>

record activation_port =
  port_isActive :: "activation_id \<Rightarrow> string \<Rightarrow> bool"
  port_alreadyActivated :: "string \<Rightarrow> activation_id \<Rightarrow> bool"

definition consumeBeforeAgentStart ::
    "(string \<Rightarrow> string) \<Rightarrow> activation_port \<Rightarrow> string \<Rightarrow> string \<Rightarrow> activation_controller \<Rightarrow>
       activation_controller \<times> activation_decision" where
  "consumeBeforeAgentStart sha port sessionId prompt ac = (case nonempty sessionId of
     None \<Rightarrow> (ac, Quiet)
   | Some sid \<Rightarrow>
     (let hash = sha prompt;
          unsuppressed = ac\<lparr>ac_suppressions := (ac_suppressions ac)(sid := None)\<rparr>
      in if map_option fst (ac_suppressions ac sid) = Some hash then (unsuppressed, Quiet)
         else case ac_pending ac sid of
           None \<Rightarrow> (unsuppressed, Quiet)
         | Some token \<Rightarrow>
           (unsuppressed\<lparr>ac_pending := (ac_pending ac)(sid := None)\<rparr>,
            if pt_hash token \<noteq> hash \<or> sid \<in> ac_commands ac then Quiet
            else if port_isActive port (pt_workflow token) sid then Quiet
            else if port_alreadyActivated port sid (pt_workflow token) then Quiet
            else Activate (pt_workflow token) (pt_command token))))"

definition suppressNext ::
    "(string \<Rightarrow> string) \<Rightarrow> string \<Rightarrow> string \<Rightarrow> suppression_reason \<Rightarrow> activation_controller \<Rightarrow> activation_controller" where
  "suppressNext sha sessionId s reason ac = (case nonempty sessionId of
     None \<Rightarrow> ac
   | Some sid \<Rightarrow> ac\<lparr>ac_suppressions := (ac_suppressions ac)(sid \<mapsto> (sha s, reason))\<rparr>)"

text \<open>\<^verbatim>\<open>runCommand\<close> marks the session until its operation has settled.\<close>

definition begin_command :: "string \<Rightarrow> activation_controller \<Rightarrow> activation_controller" where
  "begin_command sid ac = ac\<lparr>ac_commands := insert sid (ac_commands ac)\<rparr>"

definition end_command :: "string \<Rightarrow> activation_controller \<Rightarrow> activation_controller" where
  "end_command sid ac = ac\<lparr>ac_commands := ac_commands ac - {sid}\<rparr>"

section \<open>The durable record of an activation\<close>

fun durableWorkflowKind :: "activation_id \<Rightarrow> workflow_kind option" where
  "durableWorkflowKind StartWorkId = Some StartWork"
| "durableWorkflowKind UlwLoopId = Some UlwLoop"
| "durableWorkflowKind _ = None"

text \<open>The index as it was read, \<open>None\<close> when reading it throws.\<close>

definition isActive :: "active_index option \<Rightarrow> activation_id \<Rightarrow> string \<Rightarrow> bool" where
  "isActive index workflow sid = (case durableWorkflowKind workflow of
     None \<Rightarrow> False
   | Some durable \<Rightarrow>
     (case index of
        None \<Rightarrow> True
      | Some i \<Rightarrow> isl (validateActiveIndex i) \<or>
          list_ex (\<lambda>e. ent_workflow e = durable \<and> ent_sessionId e = sid) (idx_entries i)))"

text \<open>
  The file of a record: anything that is not an object of version 1 or 2, or such an object with its
  workflow (absent, one of the workflows, or any other value) and its run id, when that is a text.
\<close>

datatype workflow_field = NoWorkflow | KnownWorkflow activation_id | OtherWorkflow

datatype activation_file = ForeignFile | ActivationFile workflow_field "string option"

definition readDirectiveActivation :: "bool \<Rightarrow> activation_file option \<Rightarrow> (workflow_field \<times> string option) option" where
  "readDirectiveActivation readable slot = (case slot of
     Some (ActivationFile w r) \<Rightarrow>
       (if readable then Some (if w = NoWorkflow then KnownWorkflow Ultrawork else w, r) else None)
   | _ \<Rightarrow> None)"

definition isDirectiveAlreadyActivated ::
    "bool \<Rightarrow> activation_file option \<Rightarrow> activation_id \<Rightarrow> string option \<Rightarrow> bool" where
  "isDirectiveAlreadyActivated readable slot workflow currentRunId =
     (case readDirectiveActivation readable slot of
        None \<Rightarrow> False
      | Some (w, r) \<Rightarrow>
        (if w \<noteq> KnownWorkflow workflow then False
         else if r = currentRunId then True
         else currentRunId = None \<and> r \<noteq> None))"

definition recordDirectiveActivation ::
    "string \<Rightarrow> write_io \<Rightarrow> activation_id \<Rightarrow> string option \<Rightarrow> activation_file option \<Rightarrow> activation_file option" where
  "recordDirectiveActivation sid io workflow runId slot =
     (if \<not> isValidLifecycleId sid then slot
      else fst (atomicReplace io (ActivationFile (KnownWorkflow workflow) runId) slot))"

definition clearDirectiveActivation :: "string \<Rightarrow> bool \<Rightarrow> activation_file option \<Rightarrow> activation_file option" where
  "clearDirectiveActivation sid removed slot = (if isValidLifecycleId sid \<and> removed then None else slot)"

definition currentRunId :: "active_index option \<Rightarrow> string \<Rightarrow> string option" where
  "currentRunId index sid = (case index of
     None \<Rightarrow> None
   | Some i \<Rightarrow> (if isl (validateActiveIndex i) then None
       else map_option ent_runId (List.find (\<lambda>e. ent_sessionId e = sid) (idx_entries i))))"

text \<open>The port over the files of one repository.\<close>

definition transaction_port ::
    "active_index option \<Rightarrow> bool \<Rightarrow> (string \<Rightarrow> activation_file option) \<Rightarrow> activation_port" where
  "transaction_port index readable files = \<lparr>port_isActive = isActive index,
     port_alreadyActivated = (\<lambda>sid workflow.
       isDirectiveAlreadyActivated (readable \<and> isValidLifecycleId sid) (files sid) workflow (currentRunId index sid))\<rparr>"

section \<open>Injection receipts\<close>

text \<open>
  What a context injection reports (\<^verbatim>\<open>src/context/injection-receipt-writer.ts\<close>). The receipt is written to the path of the
  activation record of its session: an object of version 2 without workflow and run id.
\<close>

datatype dropped_section = DroppedRules | DroppedDirective | DroppedCatalog

record injection_receipt =
  ir_sessionId :: string
  ir_timestamp :: string
  ir_budgets :: "nat \<times> nat \<times> nat"
    \<comment> \<open>injection, rules, catalog\<close>
  ir_matched :: "(string \<times> nat) list"
  ir_dropped :: "(string \<times> dropped_section \<times> string) list"
  ir_totals :: "nat \<times> nat \<times> nat"
    \<comment> \<open>rules, catalog, total\<close>

definition counters :: "nat \<times> nat \<times> nat \<Rightarrow> bool" where
  "counters t \<longleftrightarrow> (case t of (a, b, c) \<Rightarrow> counter a \<noteq> None \<and> counter b \<noteq> None \<and> counter c \<noteq> None)"

definition InjectionReceiptSchema :: "injection_receipt \<Rightarrow> bool" where
  "InjectionReceiptSchema r \<longleftrightarrow> ir_sessionId r \<noteq> [] \<and> counters (ir_budgets r) \<and>
     list_all (\<lambda>(name, bytes). name \<noteq> [] \<and> counter bytes \<noteq> None) (ir_matched r) \<and>
     list_all (\<lambda>(i, _, reason). i \<noteq> [] \<and> reason \<noteq> []) (ir_dropped r) \<and> counters (ir_totals r)"

datatype receipt_write = ReceiptWritten | ReceiptSchemaInvalid | ReceiptLockTimeout | ReceiptDegraded | ReceiptDied

text \<open>Whether the lock is acquired and the path is contained, and the writing of the file.\<close>

definition writeInjectionReceipt ::
    "injection_receipt \<Rightarrow> bool \<Rightarrow> bool \<Rightarrow> write_io \<Rightarrow> activation_file option \<Rightarrow> activation_file option \<times> receipt_write" where
  "writeInjectionReceipt r lock inside io slot =
     (if \<not> InjectionReceiptSchema r then (slot, ReceiptSchemaInvalid)
      else if \<not> isValidLifecycleId (ir_sessionId r) then (slot, ReceiptDegraded)
      else if \<not> lock then (slot, ReceiptLockTimeout)
      else if \<not> inside then (slot, ReceiptDegraded)
      else case atomicReplace io (ActivationFile NoWorkflow None) slot of
        (slot', out) \<Rightarrow> (slot', case out of Published \<Rightarrow> ReceiptWritten | WriteKilled \<Rightarrow> ReceiptDied | _ \<Rightarrow> ReceiptDegraded))"

section \<open>Directives\<close>

fun WORKFLOW_SKILL_MAP :: "activation_id \<Rightarrow> string" where
  "WORKFLOW_SKILL_MAP ContributeBugFix = ''lcx-contribute-bug-fix(omp)''"
| "WORKFLOW_SKILL_MAP Doctor = ''lcx-doctor(omp)''"
| "WORKFLOW_SKILL_MAP ReportBug = ''lcx-report-bug(omp)''"
| "WORKFLOW_SKILL_MAP StartWorkId = ''start-work(omp)''"
| "WORKFLOW_SKILL_MAP Teammode = ''teammode(omp)''"
| "WORKFLOW_SKILL_MAP Ultrawork = ''ultrawork(omp)''"
| "WORKFLOW_SKILL_MAP UlwDeliver = ''ulw-deliver(omp)''"
| "WORKFLOW_SKILL_MAP UlwLoopId = ''ulw-loop(omp)''"
| "WORKFLOW_SKILL_MAP UlwPlan = ''ulw-plan(omp)''"
| "WORKFLOW_SKILL_MAP UlwResearch = ''ulw-research(omp)''"

fun activation_name :: "activation_id \<Rightarrow> string" where
  "activation_name ContributeBugFix = ''contribute_bug_fix''"
| "activation_name Doctor = ''doctor''"
| "activation_name ReportBug = ''report_bug''"
| "activation_name StartWorkId = ''start_work''"
| "activation_name Teammode = ''teammode''"
| "activation_name Ultrawork = ''ultrawork''"
| "activation_name UlwDeliver = ''ulw_deliver''"
| "activation_name UlwLoopId = ''ulw_loop''"
| "activation_name UlwPlan = ''ulw_plan''"
| "activation_name UlwResearch = ''ulw_research''"

definition DIRECTIVE_BUDGET_BYTES :: nat where
  "DIRECTIVE_BUDGET_BYTES = 32768"

record directive =
  dir_workflow :: activation_id
  dir_skill :: string
  dir_text :: string
  dir_bytes :: nat

datatype directive_degradation = PathEscapeRejected | SkillFileUnreadable string

text \<open>
  The root is absolute and normalised, so \<^verbatim>\<open>join\<close> and \<^verbatim>\<open>resolve\<close> append. \<open>read\<close> is the file or an error
  code. A cut inside a character leaves a replacement character that is removed.
\<close>

definition resolveDirective ::
    "(string \<Rightarrow> string + string) \<Rightarrow> string \<Rightarrow> activation_id \<Rightarrow> directive_degradation + directive" where
  "resolveDirective read root workflow =
     (let skill = WORKFLOW_SKILL_MAP workflow;
          skillsRoot = root @ ''/skills'';
          resolved = skillsRoot @ ''/'' @ skill @ ''/SKILL.md''
      in if take (length skillsRoot) resolved \<noteq> skillsRoot then Inl PathEscapeRejected
         else case read resolved of
           Inl code \<Rightarrow> Inl (SkillFileUnreadable code)
         | Inr raw \<Rightarrow>
           (let kept = (if DIRECTIVE_BUDGET_BYTES < byteLength raw then utf8_take DIRECTIVE_BUDGET_BYTES raw else raw)
            in Inr \<lparr>dir_workflow = workflow, dir_skill = skill, dir_text = kept, dir_bytes = byteLength kept\<rparr>))"

definition wrapDirective :: "directive \<Rightarrow> string" where
  "wrapDirective d = ''<omp-lazy-directive workflow='' @ [CHR 0x22] @ activation_name (dir_workflow d) @ [CHR 0x22] @
     '' skill='' @ [CHR 0x22] @ dir_skill d @ [CHR 0x22] @ ''>'' @ [CHR 0x0A] @ dir_text d @ [CHR 0x0A] @
     ''</omp-lazy-directive>''"

end
