(* ===== verification/Activation_Properties.thy ===== *)
theory Activation_Properties
  imports Activation Sample_Store
begin

text \<open>
  Correctness of activation: an activation goes back to one trusted input of the session, quoted text
  triggers nothing, a recorded directive is not activated again in its run, and a directive keeps its
  budget.
\<close>

section \<open>Provenance\<close>

text \<open>The calls a session host makes; the port is what the state answers at that time.\<close>

datatype activation_op =
    OpInput string input_source string
  | OpConsume activation_port string string
  | OpSuppress string string suppression_reason
  | OpBegin string
  | OpEnd string

fun activation_step :: "(string \<Rightarrow> string) \<Rightarrow> activation_controller \<Rightarrow> activation_op \<Rightarrow> activation_controller" where
  "activation_step sha ac (OpInput sid source s) = recordInput sha sid source s ac"
| "activation_step sha ac (OpConsume port sid prompt) = fst (consumeBeforeAgentStart sha port sid prompt ac)"
| "activation_step sha ac (OpSuppress sid s reason) = suppressNext sha sid s reason ac"
| "activation_step sha ac (OpBegin sid) = begin_command sid ac"
| "activation_step sha ac (OpEnd sid) = end_command sid ac"

definition after_ops :: "(string \<Rightarrow> string) \<Rightarrow> activation_op list \<Rightarrow> activation_controller" where
  "after_ops sha ops = foldl (activation_step sha) new_controller ops"

text \<open>The operations that record or spend the input of a session.\<close>

fun touches_input :: "string \<Rightarrow> activation_op \<Rightarrow> bool" where
  "touches_input sid (OpInput s _ _) = (nonempty s = Some sid)"
| "touches_input sid (OpConsume _ s _) = False"
| "touches_input sid _ = False"

text \<open>An input that is pending: trusted, matched, and not followed by another input of the session.\<close>

definition recorded_in :: "(string \<Rightarrow> string) \<Rightarrow> activation_op list \<Rightarrow> string \<Rightarrow> pending_token \<Rightarrow> bool" where
  "recorded_in sha ops sid token \<longleftrightarrow> (\<exists>pre s source body mid r. ops = pre @ OpInput s source body # mid \<and>
     nonempty s = Some sid \<and> source \<noteq> Extension \<and> matchActivation body = Some r \<and>
     token = \<lparr>pt_hash = sha body, pt_workflow = reg_workflow r, pt_command = reg_command r\<rparr> \<and>
     list_all (\<lambda>op. \<not> touches_input sid op) mid)"

lemma after_snoc: "after_ops sha (ops @ [op]) = activation_step sha (after_ops sha ops) op"
  by (simp add: after_ops_def)

lemma step_pending:
  assumes "ac_pending (activation_step sha ac op) sid = Some token"
  shows "ac_pending ac sid = Some token \<and> \<not> touches_input sid op \<or>
    (\<exists>s source body r. op = OpInput s source body \<and> nonempty s = Some sid \<and> source \<noteq> Extension \<and>
       matchActivation body = Some r \<and>
       token = \<lparr>pt_hash = sha body, pt_workflow = reg_workflow r, pt_command = reg_command r\<rparr>)"
  using assms
  by (cases op)
    (auto simp: recordInput_def consumeBeforeAgentStart_def suppressNext_def begin_command_def end_command_def Let_def
      split: option.splits if_splits)

lemma recorded_inI:
  "ops = pre @ OpInput s source body # mid \<Longrightarrow> nonempty s = Some sid \<Longrightarrow> source \<noteq> Extension \<Longrightarrow> matchActivation body = Some r \<Longrightarrow>
     token = \<lparr>pt_hash = sha body, pt_workflow = reg_workflow r, pt_command = reg_command r\<rparr> \<Longrightarrow>
     list_all (\<lambda>op. \<not> touches_input sid op) mid \<Longrightarrow> recorded_in sha ops sid token"
  unfolding recorded_in_def by blast

lemma pending_recorded: "ac_pending (after_ops sha ops) sid = Some token \<Longrightarrow> recorded_in sha ops sid token"
proof (induction ops rule: rev_induct)
  case Nil
  then show ?case by (simp add: after_ops_def new_controller_def)
next
  case (snoc op ops)
  from step_pending [OF snoc.prems [unfolded after_snoc]] show ?case
  proof
    assume kept: "ac_pending (after_ops sha ops) sid = Some token \<and> \<not> touches_input sid op"
    then obtain pre s source body mid r where old: "ops = pre @ OpInput s source body # mid"
      "nonempty s = Some sid" "source \<noteq> Extension" "matchActivation body = Some r"
      "token = \<lparr>pt_hash = sha body, pt_workflow = reg_workflow r, pt_command = reg_command r\<rparr>"
      "list_all (\<lambda>op. \<not> touches_input sid op) mid"
      using snoc.IH unfolding recorded_in_def by blast
    have "ops @ [op] = pre @ OpInput s source body # (mid @ [op])" by (simp add: old(1))
    moreover have "list_all (\<lambda>op. \<not> touches_input sid op) (mid @ [op])" using old(6) kept by simp
    ultimately show ?thesis using recorded_inI old(2-5) by metis
  next
    assume "\<exists>s source body r. op = OpInput s source body \<and> nonempty s = Some sid \<and> source \<noteq> Extension \<and>
       matchActivation body = Some r \<and> token = \<lparr>pt_hash = sha body, pt_workflow = reg_workflow r, pt_command = reg_command r\<rparr>"
    then obtain s source body r where new: "op = OpInput s source body" "nonempty s = Some sid" "source \<noteq> Extension"
      "matchActivation body = Some r" "token = \<lparr>pt_hash = sha body, pt_workflow = reg_workflow r, pt_command = reg_command r\<rparr>"
      by blast
    then show ?thesis by (intro recorded_inI [of _ ops s source body "[]" sid r]) simp_all
  qed
qed

lemma no_input_no_pending:
  "ac_pending ac sid = None \<Longrightarrow> list_all (\<lambda>op. \<not> touches_input sid op) ops \<Longrightarrow>
     ac_pending (foldl (activation_step sha) ac ops) sid = None"
proof (induction ops arbitrary: ac)
  case (Cons op ops)
  have "ac_pending (activation_step sha ac op) sid = None"
    using Cons.prems step_pending [of sha ac op sid] by (cases "ac_pending (activation_step sha ac op) sid") auto
  then show ?case using Cons by simp
qed simp

lemma consume_without_token:
  "nonempty s = Some sid \<Longrightarrow> ac_pending ac sid = None \<Longrightarrow> snd (consumeBeforeAgentStart sha port s prompt ac) = Quiet"
  by (simp add: consumeBeforeAgentStart_def Let_def)

lemma activate_cases:
  assumes "consumeBeforeAgentStart sha port session prompt ac = (ac', Activate w cmd)"
  shows "\<exists>sid token. nonempty session = Some sid \<and> ac_pending ac sid = Some token \<and> pt_hash token = sha prompt \<and>
    pt_workflow token = w \<and> pt_command token = cmd \<and> sid \<notin> ac_commands ac \<and>
    map_option fst (ac_suppressions ac sid) \<noteq> Some (sha prompt) \<and> \<not> port_isActive port w sid \<and>
    \<not> port_alreadyActivated port sid w \<and> ac_pending ac' sid = None"
  using assms by (auto simp: consumeBeforeAgentStart_def Let_def split: option.splits if_splits)

text \<open>
  C36. Whatever a session's host calls, an activation answers one input that the user or the RPC client
  gave in that session and that matches the workflow: the prompt has the hash of that input, no later
  input of the session came, no command of the session is running and the workflow is neither active nor
  activated in the run. It answers it once: without a further input every later prompt is quiet.
\<close>

theorem activation_from_trusted_input:
  assumes "consumeBeforeAgentStart sha port session prompt (after_ops sha ops) = (ac', Activate w cmd)"
  shows "\<exists>sid. nonempty session = Some sid \<and>
    recorded_in sha ops sid \<lparr>pt_hash = sha prompt, pt_workflow = w, pt_command = cmd\<rparr> \<and>
    sid \<notin> ac_commands (after_ops sha ops) \<and> \<not> port_isActive port w sid \<and> \<not> port_alreadyActivated port sid w \<and>
    (\<forall>later port' prompt'. list_all (\<lambda>op. \<not> touches_input sid op) later \<longrightarrow>
       snd (consumeBeforeAgentStart sha port' session prompt' (foldl (activation_step sha) ac' later)) = Quiet)"
proof -
  obtain sid token where t: "nonempty session = Some sid" "ac_pending (after_ops sha ops) sid = Some token"
    "pt_hash token = sha prompt" "pt_workflow token = w" "pt_command token = cmd" "sid \<notin> ac_commands (after_ops sha ops)"
    "\<not> port_isActive port w sid" "\<not> port_alreadyActivated port sid w" "ac_pending ac' sid = None"
    using activate_cases [OF assms] by blast
  have "token = \<lparr>pt_hash = sha prompt, pt_workflow = w, pt_command = cmd\<rparr>"
    using t(3-5) by (cases token) simp
  then have "recorded_in sha ops sid \<lparr>pt_hash = sha prompt, pt_workflow = w, pt_command = cmd\<rparr>"
    using pending_recorded [OF t(2)] by simp
  moreover have "\<forall>later port' prompt'. list_all (\<lambda>op. \<not> touches_input sid op) later \<longrightarrow>
       snd (consumeBeforeAgentStart sha port' session prompt' (foldl (activation_step sha) ac' later)) = Quiet"
    using consume_without_token [OF t(1) no_input_no_pending [OF t(9)]] by simp
  ultimately show ?thesis using t by simp
qed

definition quiet_port :: activation_port where
  "quiet_port = \<lparr>port_isActive = (\<lambda>_ _. False), port_alreadyActivated = (\<lambda>_ _. False)\<rparr>"

lemma ulw_activates:
  "snd (consumeBeforeAgentStart (\<lambda>s. s) quiet_port ''s1'' ''run ulw now'' (after_ops (\<lambda>s. s) [OpInput ''s1'' Interactive ''run ulw now''])) =
     Activate Ultrawork ''/omp-lazy-ultrawork(omp)''"
  by code_simp

lemmas ulw_activation_pair = trans [OF surjective_pairing [of "consumeBeforeAgentStart (\<lambda>s. s) quiet_port ''s1'' ''run ulw now''
    (after_ops (\<lambda>s. s) [OpInput ''s1'' Interactive ''run ulw now''])"] arg_cong [OF ulw_activates, of "Pair _"]]

theorem activation_from_trusted_input_witness:
  "\<exists>sid. nonempty ''s1'' = Some sid \<and> recorded_in (\<lambda>s. s) [OpInput ''s1'' Interactive ''run ulw now''] sid
     \<lparr>pt_hash = ''run ulw now'', pt_workflow = Ultrawork, pt_command = ''/omp-lazy-ultrawork(omp)''\<rparr>"
  using activation_from_trusted_input [OF ulw_activation_pair] by blast

section \<open>Quoted text\<close>

lemma strip_quoted_all:
  assumes "quote_mark q" "q \<notin> set t"
  shows "stripQuotedStrings (q # t @ q # rest) = stripQuotedStrings rest"
proof -
  have "dropWhile (\<lambda>d. d \<noteq> q) (t @ q # rest) = q # rest" using assms(2) by (induction t) auto
  then show ?thesis using assms(1) by simp
qed

lemma strip_quoted_prefix:
  "list_all (\<lambda>c. \<not> quote_mark c) pre \<Longrightarrow> stripQuotedStrings (pre @ s) = pre @ stripQuotedStrings s"
  by (induction pre) auto

lemma strip_quoted_plain: "list_all (\<lambda>c. \<not> quote_mark c) s \<Longrightarrow> stripQuotedStrings s = s"
  using strip_quoted_prefix [of s "[]"] by simp

lemma strip_fences_one_line: "list_all (\<lambda>c. \<not> line_end c) s \<Longrightarrow> strip_fences False s = s"
  by (induction s) (auto simp: strip_fences.simps [of False])

lemma fences_one_line: "list_all (\<lambda>c. \<not> line_end c) s \<Longrightarrow> take 3 s \<noteq> fence \<Longrightarrow> stripFencedCodeBlocks s = s"
  by (cases s) (auto simp: stripFencedCodeBlocks_def strip_fences.simps [of True] fenced_rest_def strip_fences_one_line)

text \<open>
  A quoted line triggers nothing: between two quotation marks, backquotes or apostrophes, a text
  without that mark and without a line break names no workflow, whatever trigger words it holds.
\<close>

theorem quoted_line_triggers_nothing:
  assumes "quote_mark q" "q \<notin> set t" "list_all (\<lambda>c. \<not> line_end c) t"
  shows "matchTriggerAllowlist (q # t @ [q]) = None"
proof -
  have "\<not> line_end q" using assms(1) by (auto simp: quote_mark_def line_end_def)
  moreover have "take 3 (q # t @ [q]) \<noteq> fence"
    using assms(2) by (cases t) (auto simp: fence_def numeral_3_eq_3)
  ultimately have "stripFencedCodeBlocks (q # t @ [q]) = q # t @ [q]"
    using assms(3) by (intro fences_one_line) simp_all
  then show ?thesis
    using strip_quoted_all [OF assms(1,2), of "[]"]
    by (simp add: matchTriggerAllowlist_def Let_def trigger_tokens_def single_workflow_def)
qed

theorem quoted_line_triggers_nothing_witness:
  "matchTriggerAllowlist ([CHR 0x22] @ ''run ulw now'' @ [CHR 0x22]) = None \<and> matchTriggerAllowlist ''run ulw now'' \<noteq> None"
proof -
  have "quote_mark (CHR 0x22)" "CHR 0x22 \<notin> set ''run ulw now''" "list_all (\<lambda>c. \<not> line_end c) ''run ulw now''"
    by code_simp+
  from quoted_line_triggers_nothing [OF this] have "matchTriggerAllowlist ([CHR 0x22] @ ''run ulw now'' @ [CHR 0x22]) = None"
    by simp
  moreover have "map_option reg_workflow (matchTriggerAllowlist ''run ulw now'') = Some Ultrawork" by code_simp
  ultimately show ?thesis by force
qed

section \<open>Recorded directives\<close>

text \<open>
  Once the activation of a directive is recorded for a session, its workflow is not activated again
  in that run, whatever the user writes: the answer to the next prompt is quiet while the run is the
  session's run, or while the session has no run in the index.
\<close>

theorem recorded_directive_stays_quiet:
  assumes "isValidLifecycleId sid"
    "fst (atomicReplace io (ActivationFile (KnownWorkflow w) r) (files sid)) = Some (ActivationFile (KnownWorkflow w) r)"
    "currentRunId index sid = r \<or> currentRunId index sid = None" "nonempty session = Some sid"
  shows "snd (consumeBeforeAgentStart sha
      (transaction_port index True (files(sid := recordDirectiveActivation sid io w r (files sid))))
      session prompt ac) \<noteq> Activate w cmd"
  using assms
  by (auto simp: consumeBeforeAgentStart_def Let_def transaction_port_def recordDirectiveActivation_def
      isDirectiveAlreadyActivated_def readDirectiveActivation_def split: option.splits)

definition write_ok :: write_io where
  "write_ok = \<lparr>wi_deadline = True, wi_prepare = StepOk, wi_guard = StepOk, wi_attempts = [(True, RenameOk)]\<rparr>"

theorem recorded_directive_stays_quiet_witness:
  "snd (consumeBeforeAgentStart (\<lambda>s. s) (transaction_port None True
       ((\<lambda>_. None)(''s1'' := recordDirectiveActivation ''s1'' write_ok Ultrawork (Some ''r1'') None)))
     ''s1'' ''run ulw now'' (after_ops (\<lambda>s. s) [OpInput ''s1'' Interactive ''run ulw now''])) \<noteq>
     Activate Ultrawork ''/omp-lazy-ultrawork(omp)''"
proof -
  have "isValidLifecycleId ''s1''" "nonempty ''s1'' = Some ''s1''" by code_simp+
  moreover have "fst (atomicReplace write_ok (ActivationFile (KnownWorkflow Ultrawork) (Some ''r1'')) None) =
      Some (ActivationFile (KnownWorkflow Ultrawork) (Some ''r1''))"
    by (simp add: atomicReplace_def preparedTemp_def write_ok_def)
  moreover have "currentRunId None ''s1'' = None" by (simp add: currentRunId_def)
  ultimately show ?thesis
    using recorded_directive_stays_quiet [of "''s1''" write_ok Ultrawork "Some ''r1''" "\<lambda>_. None" None] by simp
qed

text \<open>
  A receipt of a context injection replaces the record: the activation of a durable workflow is forgotten, and
  the directive of \<^verbatim>\<open>ultrawork\<close> counts as activated in a session that has no run.
\<close>

lemma receipt_replaces_activation:
  assumes "snd (writeInjectionReceipt r lock inside io slot) = ReceiptWritten"
  shows "\<not> isDirectiveAlreadyActivated True (fst (writeInjectionReceipt r lock inside io slot)) StartWorkId run \<and>
    isDirectiveAlreadyActivated True (fst (writeInjectionReceipt r lock inside io slot)) Ultrawork None"
proof -
  obtain slot' out where a: "atomicReplace io (ActivationFile NoWorkflow None) slot = (slot', out)" by fastforce
  have "fst (writeInjectionReceipt r lock inside io slot) = Some (ActivationFile NoWorkflow None)"
    using assms a atomicReplace_atomic [OF a]
    by (auto simp: writeInjectionReceipt_def split: if_splits write_outcome.splits)
  then show ?thesis by (simp add: isDirectiveAlreadyActivated_def readDirectiveActivation_def)
qed

section \<open>Directive texts\<close>

lemma utf8_take_prefix: "utf8_take n s = take (length (utf8_take n s)) s"
  by (induction n s rule: utf8_take.induct) auto

text \<open>
  Whatever the skill file holds, the directive that is injected has at most 32768 bytes, is the file's
  text cut at a character, and is the whole text of a file that fits. It is read from the file of the
  workflow's skill in the skills directory of the plugin and from no other.
\<close>

theorem directive_bounded:
  assumes "resolveDirective read root w = Inr d"
  shows "\<exists>raw. read (root @ ''/skills/'' @ WORKFLOW_SKILL_MAP w @ ''/SKILL.md'') = Inr raw \<and>
    dir_workflow d = w \<and> dir_bytes d = byteLength (dir_text d) \<and> dir_bytes d \<le> 32768 \<and>
    dir_text d = take (length (dir_text d)) raw \<and> (byteLength raw \<le> 32768 \<longrightarrow> dir_text d = raw)"
  using assms
  by (auto simp: resolveDirective_def Let_def DIRECTIVE_BUDGET_BYTES_def utf8_take_bound
      intro: utf8_take_prefix split: if_splits sum.splits)

definition skill_files :: "string \<Rightarrow> string + string" where
  "skill_files path = (if path = ''/ext/skills/start-work(omp)/SKILL.md'' then Inr ''plan first'' else Inl ''ENOENT'')"

theorem directive_bounded_witness:
  "\<exists>d. resolveDirective skill_files ''/ext'' StartWorkId = Inr d \<and> dir_text d = ''plan first'' \<and> dir_bytes d \<le> 32768"
proof -
  let ?d = "\<lparr>dir_workflow = StartWorkId, dir_skill = ''start-work(omp)'', dir_text = ''plan first'', dir_bytes = 10\<rparr>"
  have "resolveDirective skill_files ''/ext'' StartWorkId = Inr ?d" by code_simp
  from directive_bounded [OF this] this show ?thesis by force
qed

end
