(* ===== verification/Migration_Records.thy ===== *)
theory Migration_Records
  imports Team_Lifecycle "HOL-Library.AList"
begin

text \<open>
  Conversion of version 1 records to version 2 (\<^verbatim>\<open>src/state/migration-records.ts\<close>,
  \<^verbatim>\<open>src/state/migration-identities.ts\<close>). A file is the list of its lines, each the JSON value it
  holds; \<^verbatim>\<open>JSON.stringify\<close> writes one line, the write-ahead log has one line for each entry.
\<close>

section \<open>Values\<close>

text \<open>
  The values a line can hold, up to what the schemas of the records still check. The \<open>Lax\<close> values have
  schema version 2, the members that version 1 has, and anything in place of those that only version 2
  has. \<open>OtherObject\<close> is any other object, with its schema version if that is a number; a line that is
  no JSON text is \<open>NotParsed\<close>, other JSON is \<open>NotObject\<close>.
\<close>

datatype lifecycle_json =
    NotParsed
  | NotObject
  | OtherObject "nat option"
  | IndexJson active_index
  | LaxIndex active_index
  | RunJson run
  | LaxRun run
  | EventJson state_event
  | TaskJson task_ledger
  | LaxTask task_ledger
  | AcceptanceJson acceptance_ledger
  | RejectionJson rejection_ledger
  | WalJson acceptance_event
  | TeamJson team_file

type_synonym lifecycle_file = "lifecycle_json list"

definition version_of :: "bool \<Rightarrow> nat" where
  "version_of v2 = (if v2 then 2 else 1)"

fun json_version :: "lifecycle_json \<Rightarrow> nat option" where
  "json_version NotParsed = None"
| "json_version NotObject = None"
| "json_version (OtherObject v) = v"
| "json_version (IndexJson i) = Some (version_of (idx_version i \<noteq> IndexV1))"
| "json_version (LaxIndex _) = Some 2"
| "json_version (RunJson r) = Some (version_of (run_version r \<noteq> RunV1))"
| "json_version (LaxRun _) = Some 2"
| "json_version (EventJson e) = Some (version_of (ev_is_v2 e))"
| "json_version (TaskJson l) = Some (version_of (tl_version l \<noteq> TaskLedgerV1))"
| "json_version (LaxTask _) = Some 2"
| "json_version (AcceptanceJson l) = Some (version_of (al_isV2 l))"
| "json_version (RejectionJson l) = Some (version_of (rl_isV2 l))"
| "json_version (WalJson a) = (if acc_scope a = None then None else Some 2)"
| "json_version (TeamJson (TeamTombstone v2 _)) = Some (version_of v2)"
| "json_version (TeamJson (TeamRecord v2 _)) = Some (version_of v2)"

definition is_object :: "lifecycle_json \<Rightarrow> bool" where
  "is_object v \<longleftrightarrow> v \<noteq> NotParsed \<and> v \<noteq> NotObject"

text \<open>\<^verbatim>\<open>parseRecord\<close> of a whole file: one line with an object.\<close>

definition parseRecord :: "lifecycle_file \<Rightarrow> lifecycle_json option" where
  "parseRecord file = (case file of [v] \<Rightarrow> (if is_object v then Some v else None) | _ \<Rightarrow> None)"

definition schemaVersion :: "lifecycle_json \<Rightarrow> nat option" where
  "schemaVersion v = (case json_version v of Some n \<Rightarrow> (if n = 1 \<or> n = 2 then Some n else None) | None \<Rightarrow> None)"

section \<open>Identities of tasks\<close>

record task_identity =
  ti_runId :: uuid
  ti_taskId :: string
  ti_role :: worker_role
  ti_agentId :: string

definition WorkerRoleSchema :: "string \<Rightarrow> worker_role option" where
  "WorkerRoleSchema s = (if s = ''omp-lazy-worker-low'' then Some WorkerLow
     else if s = ''omp-lazy-worker-medium'' then Some WorkerMedium
     else if s = ''omp-lazy-worker-high'' then Some WorkerHigh else None)"

text \<open>The two maps over the facts; setting a key again keeps its place.\<close>

definition reservation_map :: "task_fact list \<Rightarrow> (string \<times> task_request list) list" where
  "reservation_map fs = foldl (\<lambda>m f. case f of TaskReserved t _ rs \<Rightarrow> AList.update t rs m | _ \<Rightarrow> m) [] fs"

definition binding_map :: "task_fact list \<Rightarrow> (string \<times> identity_binding list) list" where
  "binding_map fs = foldl (\<lambda>m f. case f of TaskIdentitiesBound t bs \<Rightarrow> AList.update t bs m | _ \<Rightarrow> m) [] fs"

definition bound_identity :: "uuid \<Rightarrow> string \<Rightarrow> task_request \<Rightarrow> identity_binding \<Rightarrow> task_identity list" where
  "bound_identity runId t q b =
     (case WorkerRoleSchema (case req_agentType q of None \<Rightarrow> [] | Some a \<Rightarrow> a) of
        None \<Rightarrow> []
      | Some role \<Rightarrow>
        [\<lparr>ti_runId = runId,
          ti_taskId = (case req_requestedName q of None \<Rightarrow> t @ '':'' @ decimal (bind_itemIndex b) | Some n \<Rightarrow> n),
          ti_role = role, ti_agentId = bind_actualAgentId b\<rparr>])"

definition call_identities ::
    "uuid \<Rightarrow> (string \<times> task_request list) list \<Rightarrow> string \<times> identity_binding list \<Rightarrow> task_identity list option" where
  "call_identities runId reservations call = (case map_of reservations (fst call) of
     None \<Rightarrow> None
   | Some requests \<Rightarrow>
     map_option concat (those (map (\<lambda>b. map_option (\<lambda>q. bound_identity runId (fst call) q b)
       (find_last (\<lambda>q. req_itemIndex q = bind_itemIndex b) requests)) (snd call))))"

text \<open>\<open>None\<close> when the value is not a version 1 task ledger or a binding has no reservation.\<close>

definition taskIdentities :: "host_env \<Rightarrow> task_ledger \<Rightarrow> task_identity list option" where
  "taskIdentities E l = (case taskLedgerSchema E l of
     None \<Rightarrow> None
   | Some parsed \<Rightarrow>
     (let facts = map tle_fact (tl_entries parsed)
      in map_option concat
           (those (map (call_identities (tl_runId parsed) (reservation_map facts)) (binding_map facts)))))"

definition as_v1_ledger :: "lifecycle_json \<Rightarrow> task_ledger option" where
  "as_v1_ledger v = (case v of
     TaskJson l \<Rightarrow> Some (l\<lparr>tl_version := TaskLedgerV1\<rparr>) | LaxTask l \<Rightarrow> Some (l\<lparr>tl_version := TaskLedgerV1\<rparr>) | _ \<Rightarrow> None)"

fun identitiesFromTaskFacts :: "host_env \<Rightarrow> (string \<times> lifecycle_file) list \<Rightarrow> task_identity list option" where
  "identitiesFromTaskFacts E [] = Some []"
| "identitiesFromTaskFacts E ((path, file) # items) =
     (if \<not> startsWith path ''task-facts/'' then identitiesFromTaskFacts E items
      else do {
        v \<leftarrow> parseRecord file;
        l \<leftarrow> as_v1_ledger v;
        parsed \<leftarrow> taskIdentities E l;
        map_option (\<lambda>rest. parsed @ rest) (identitiesFromTaskFacts E items) })"

definition identityFor :: "task_identity list \<Rightarrow> uuid \<Rightarrow> string \<Rightarrow> worker_role option \<Rightarrow> task_identity option" where
  "identityFor ids runId agentId role =
     (case filter (\<lambda>i. ti_runId i = runId \<and> ti_agentId i = agentId \<and> (role = None \<or> role = Some (ti_role i))) ids of
        [i] \<Rightarrow> Some i | _ \<Rightarrow> None)"

definition migrated_scope :: "task_identity \<Rightarrow> acceptance_scope" where
  "migrated_scope i = \<lparr>as_taskId = ti_taskId i, as_role = ti_role i, as_semanticAttempt = 1\<rparr>"

section \<open>Records\<close>

datatype record_result = RecCurrent | RecMigrated lifecycle_file | RecInvalid

definition migrateAcceptance :: "host_env \<Rightarrow> task_identity list \<Rightarrow> acceptance_ledger \<Rightarrow> record_result" where
  "migrateAcceptance E ids l =
     (if al_isV2 l then (if acceptanceLedgerSchema E l \<noteq> None then RecCurrent else RecInvalid)
      else case acceptanceLedgerSchema E l of
        None \<Rightarrow> RecInvalid
      | Some parsed \<Rightarrow>
        (case those (map (\<lambda>a. map_option (\<lambda>i. a\<lparr>acc_scope := Some (migrated_scope i)\<rparr>)
             (identityFor ids (acc_runId a) (acc_actualAgentId a) (Some (acc_workerRole a)))) (al_entries parsed)) of
           None \<Rightarrow> RecInvalid
         | Some entries \<Rightarrow> RecMigrated [AcceptanceJson (l\<lparr>al_isV2 := True, al_entries := entries\<rparr>)]))"

text \<open>One entry is counted into the map of the entries by their version 2 keys.\<close>

definition count_rejection ::
    "(rejection_key \<times> rejection_entry) list \<Rightarrow> rejection_entry \<Rightarrow> (rejection_key \<times> rejection_entry) list" where
  "count_rejection m e =
     (let key = rejectionKey (re_scope e) True;
          prior = (case map_of m key of None \<Rightarrow> 0 | Some p \<Rightarrow> re_count p);
          count = min 3 (prior + re_count e)
      in AList.update key (e\<lparr>re_count := count, re_status := (if count = 3 then NeedsParentDecision else RetryAllowed)\<rparr>) m)"

definition migrateRejections :: "host_env \<Rightarrow> task_identity list \<Rightarrow> rejection_ledger \<Rightarrow> record_result" where
  "migrateRejections E ids l =
     (if rl_isV2 l then (if rejectionLedgerSchema E l \<noteq> None then RecCurrent else RecInvalid)
      else case rejectionLedgerSchema E l of
        None \<Rightarrow> RecInvalid
      | Some parsed \<Rightarrow>
        (case those (map (\<lambda>e. map_option (\<lambda>i. e\<lparr>re_scope := (re_scope e)\<lparr>rs_v2 := Some (migrated_scope i)\<rparr>\<rparr>)
             (identityFor ids (rs_runId (re_scope e)) (rs_actualAgentId (re_scope e)) None)) (rl_entries parsed)) of
           None \<Rightarrow> RecInvalid
         | Some converted \<Rightarrow>
           RecMigrated [RejectionJson (l\<lparr>rl_isV2 := True, rl_entries := map snd (foldl count_rejection [] converted)\<rparr>)]))"

definition migrate_line :: "host_env \<Rightarrow> task_identity list \<Rightarrow> lifecycle_json \<Rightarrow> lifecycle_json option" where
  "migrate_line E ids line = (case line of
     WalJson a \<Rightarrow>
       (if acc_scope a \<noteq> None then (if acceptanceEventSchema E True a \<noteq> None then Some line else None)
        else do {
          parsed \<leftarrow> acceptanceEventSchema E False a;
          i \<leftarrow> identityFor ids (acc_runId parsed) (acc_actualAgentId parsed) (Some (acc_workerRole parsed));
          Some (WalJson (parsed\<lparr>acc_scope := Some (migrated_scope i)\<rparr>)) })
   | _ \<Rightarrow> None)"

definition migrateWal :: "host_env \<Rightarrow> task_identity list \<Rightarrow> lifecycle_file \<Rightarrow> record_result" where
  "migrateWal E ids lines = (case those (map (migrate_line E ids) lines) of
     None \<Rightarrow> RecInvalid
   | Some migrated \<Rightarrow> (if list_all (\<lambda>v. json_version v = Some 2) lines then RecCurrent else RecMigrated migrated))"

definition migrateIndex :: "host_env \<Rightarrow> lifecycle_json \<Rightarrow> record_result" where
  "migrateIndex E v = (case v of
     IndexJson i \<Rightarrow>
       (if idx_version i \<noteq> IndexV1 \<and> activeIndexSchema E (i\<lparr>idx_version := IndexV1\<rparr>) \<noteq> None then RecCurrent
        else if activeIndexSchema E i = None then RecInvalid
        else RecMigrated [IndexJson (i\<lparr>idx_version := IndexV2 1\<rparr>)])
   | LaxIndex i \<Rightarrow> (if activeIndexSchema E (i\<lparr>idx_version := IndexV1\<rparr>) \<noteq> None then RecCurrent else RecInvalid)
   | _ \<Rightarrow> RecInvalid)"

definition migrateRun :: "host_env \<Rightarrow> lifecycle_json \<Rightarrow> record_result" where
  "migrateRun E v = (case v of
     RunJson r \<Rightarrow>
       (if run_version r \<noteq> RunV1 \<and> runSchema E (r\<lparr>run_version := RunV1\<rparr>) \<noteq> None then RecCurrent
        else if runSchema E r = None then RecInvalid
        else RecMigrated [RunJson (r\<lparr>run_version := RunV2 None None\<rparr>)])
   | LaxRun r \<Rightarrow> (if runSchema E (r\<lparr>run_version := RunV1\<rparr>) \<noteq> None then RecCurrent else RecInvalid)
   | _ \<Rightarrow> RecInvalid)"

text \<open>The events that need the identity of their task, and the id of that task.\<close>

definition task_scoped :: "mutation_kind \<Rightarrow> bool" where
  "task_scoped k \<longleftrightarrow> k = KPlanReconciled \<or> k = KGoalCycleStarted \<or> k = KCriterionFailureRecorded"

fun ordered_task_id :: "mutation \<Rightarrow> string option" where
  "ordered_task_id (PlanReconciled ts _ _) = (case ts of [] \<Rightarrow> None | t # _ \<Rightarrow> Some t)"
| "ordered_task_id (GoalCycleStarted g) = Some g"
| "ordered_task_id (CriterionFailureRecorded _ c _) = Some c"
| "ordered_task_id _ = None"

definition migrateEvent :: "host_env \<Rightarrow> task_identity list \<Rightarrow> lifecycle_json \<Rightarrow> record_result" where
  "migrateEvent E ids v = (case v of
     EventJson e \<Rightarrow>
       (case stateEventSchema E e of
          None \<Rightarrow> RecInvalid
        | Some event \<Rightarrow>
          (if ev_is_v2 e then RecCurrent
           else let scoped = task_scoped (ev_kind event)
                in if scoped \<and> length (filter (\<lambda>i. ti_runId i = ev_runId event \<and>
                        Some (ti_taskId i) = ordered_task_id (ev_mutation event)) ids) \<noteq> 1
                   then RecInvalid
                   else RecMigrated [EventJson (e\<lparr>ev_version := EventV2 None (if scoped then Some 1 else None) True,
                     ev_expected := ev_expected event\<rparr>)]))
   | _ \<Rightarrow> RecInvalid)"

definition migrateTask :: "host_env \<Rightarrow> lifecycle_json \<Rightarrow> record_result" where
  "migrateTask E v = (case v of
     TaskJson l \<Rightarrow>
       (if taskLedgerSchema E (l\<lparr>tl_version := TaskLedgerV1\<rparr>) = None then RecInvalid
        else if tl_version l \<noteq> TaskLedgerV1 then RecCurrent
        else RecMigrated [TaskJson (l\<lparr>tl_version := TaskLedgerV2 None None None\<rparr>)])
   | LaxTask l \<Rightarrow> (if taskLedgerSchema E (l\<lparr>tl_version := TaskLedgerV1\<rparr>) \<noteq> None then RecCurrent else RecInvalid)
   | _ \<Rightarrow> RecInvalid)"

definition migrateTeam :: "host_env \<Rightarrow> lifecycle_json \<Rightarrow> record_result" where
  "migrateTeam E v = (case v of
     TeamJson (TeamTombstone v2 name) \<Rightarrow>
       (if \<not> TeamNameSchema name then RecInvalid else if v2 then RecCurrent else RecMigrated [TeamJson (TeamTombstone True name)])
   | TeamJson (TeamRecord v2 t) \<Rightarrow>
       (case persistedTeamStateSchema E v2 t of
          None \<Rightarrow> RecInvalid
        | Some _ \<Rightarrow>
          (if v2 then RecCurrent
           else RecMigrated [TeamJson (TeamRecord True
             (with_status (if ts_status t = PersistedActive then PersistedBound else ts_status t) t))]))
   | _ \<Rightarrow> RecInvalid)"

text \<open>
  The records of which only the version is looked at: an object of version 1 becomes the same object
  with version 2.
\<close>

fun with_version2 :: "lifecycle_json \<Rightarrow> lifecycle_json" where
  "with_version2 (IndexJson i) = LaxIndex i"
| "with_version2 (RunJson r) = LaxRun r"
| "with_version2 (TaskJson l) = LaxTask l"
| "with_version2 (TeamJson (TeamTombstone _ name)) = TeamJson (TeamTombstone True name)"
| "with_version2 (TeamJson (TeamRecord _ t)) = TeamJson (TeamRecord True t)"
| "with_version2 _ = OtherObject (Some 2)"

definition migrateVersioned :: "lifecycle_json \<Rightarrow> record_result" where
  "migrateVersioned v = (case schemaVersion v of
     None \<Rightarrow> RecInvalid
   | Some n \<Rightarrow> (if n = 2 then RecCurrent else RecMigrated [with_version2 v]))"

definition endsWith :: "string \<Rightarrow> string \<Rightarrow> bool" where
  "endsWith s p = startsWith (rev s) (rev p)"

definition migrate_value :: "host_env \<Rightarrow> string \<Rightarrow> task_identity list \<Rightarrow> lifecycle_json \<Rightarrow> record_result" where
  "migrate_value E path ids v =
     (if path = ''active.json'' then migrateIndex E v
      else if startsWith path ''runs/'' then migrateRun E v
      else if startsWith path ''events/'' then migrateEvent E ids v
      else if startsWith path ''task-facts/'' then migrateTask E v
      else if startsWith path ''worker-acceptance/'' then
        (case v of AcceptanceJson l \<Rightarrow> migrateAcceptance E ids l | _ \<Rightarrow> RecInvalid)
      else if startsWith path ''worker-rejections/'' then
        (case v of RejectionJson l \<Rightarrow> migrateRejections E ids l | _ \<Rightarrow> RecInvalid)
      else if startsWith path ''teams/'' then migrateTeam E v
      else if startsWith path ''directive-activations/'' \<or> startsWith path ''continuation-counters/'' \<or>
              startsWith path ''model-chain-provenance/'' then migrateVersioned v
      else RecInvalid)"

definition migrateLifecycleRecord ::
    "host_env \<Rightarrow> string \<Rightarrow> lifecycle_file \<Rightarrow> task_identity list \<Rightarrow> record_result" where
  "migrateLifecycleRecord E path body ids =
     (if endsWith path ''.wal.jsonl'' then migrateWal E ids body
      else case parseRecord body of
        None \<Rightarrow> RecInvalid
      | Some v \<Rightarrow> migrate_value E path ids v)"

definition isFutureLifecycleRecord :: "lifecycle_file \<Rightarrow> bool" where
  "isFutureLifecycleRecord file \<longleftrightarrow> list_ex (\<lambda>v. case json_version v of Some n \<Rightarrow> 2 < n | None \<Rightarrow> False) file"

end
