(* ===== verification/Migration_Record_Properties.thy ===== *)
theory Migration_Record_Properties
  imports Migration_Records Sample_State
begin

text \<open>
  Correctness of the conversion of records: what is written is of version 2 and is recognised as
  current, so a migration can be repeated.
\<close>

declare is_object_def [simp]

section \<open>Records of one version\<close>

lemma those_map_SomeD: "those (map f xs) = Some ys \<Longrightarrow> list_all2 (\<lambda>x y. f x = Some y) xs ys"
  by (induction xs arbitrary: ys) (auto split: option.splits)

lemma list_all2_source: "list_all2 P xs ys \<Longrightarrow> y \<in> set ys \<Longrightarrow> \<exists>x. P x y"
  by (auto simp: list_all2_conv_all_nth in_set_conv_nth)

lemma index_schema_as_v1: "activeIndexSchema E i = Some j \<Longrightarrow> \<exists>k. activeIndexSchema E (i\<lparr>idx_version := IndexV1\<rparr>) = Some k"
  by (auto simp: activeIndexSchema_def elim!: bind_SomeE)

lemma run_schema_as_v1: "runSchema E r = Some j \<Longrightarrow> \<exists>k. runSchema E (r\<lparr>run_version := RunV1\<rparr>) = Some k"
  by (auto simp: runSchema_def elim!: bind_SomeE)

lemma migrateIndex_Migrated:
  "migrateIndex E v = RecMigrated file \<longleftrightarrow> (\<exists>i. v = IndexJson i \<and> idx_version i = IndexV1 \<and> activeIndexSchema E i \<noteq> None \<and>
     file = [IndexJson (i\<lparr>idx_version := IndexV2 1\<rparr>)])"
proof (cases v)
  case (IndexJson i)
  then show ?thesis using index_schema_as_v1 [of E i] by (cases "activeIndexSchema E i") (auto simp: migrateIndex_def)
qed (auto simp: migrateIndex_def)

lemma migrateRun_Migrated:
  "migrateRun E v = RecMigrated file \<longleftrightarrow> (\<exists>r. v = RunJson r \<and> run_version r = RunV1 \<and> runSchema E r \<noteq> None \<and>
     file = [RunJson (r\<lparr>run_version := RunV2 None None\<rparr>)])"
proof (cases v)
  case (RunJson r)
  then show ?thesis using run_schema_as_v1 [of E r] by (cases "runSchema E r") (auto simp: migrateRun_def)
qed (auto simp: migrateRun_def)

lemma migrateTask_Migrated:
  "migrateTask E v = RecMigrated file \<longleftrightarrow> (\<exists>l. v = TaskJson l \<and> tl_version l = TaskLedgerV1 \<and>
     taskLedgerSchema E (l\<lparr>tl_version := TaskLedgerV1\<rparr>) \<noteq> None \<and>
     file = [TaskJson (l\<lparr>tl_version := TaskLedgerV2 None None None\<rparr>)])"
  by (cases v) (auto simp: migrateTask_def)

lemma index_v1_idem [simp]: "idx_version i = IndexV1 \<Longrightarrow> i\<lparr>idx_version := IndexV1\<rparr> = i"
  by (cases i) simp

lemma run_v1_idem [simp]: "run_version r = RunV1 \<Longrightarrow> r\<lparr>run_version := RunV1\<rparr> = r"
  by (cases r) simp

lemma migrated_event_version: "eventVersionSchema (EventV2 None (if b then Some 1 else None) True) =
    Some (EventV2 None (if b then Some 1 else None) True)"
  by (simp add: counter_positive_def counter_def max_safe_integer_def nullable_def)

lemma migrateEvent_Migrated:
  assumes "migrateEvent E ids v = RecMigrated file"
  shows "\<exists>e e' g. v = EventJson e \<and> ev_version e = EventV1 \<and> stateEventSchema E e = Some e' \<and>
    (g = None \<or> g = Some 1) \<and>
    file = [EventJson (e\<lparr>ev_version := EventV2 None g True, ev_expected := ev_expected e'\<rparr>)]"
proof (cases v)
  case (EventJson e)
  with assms obtain e' where e': "stateEventSchema E e = Some e'" by (auto simp: migrateEvent_def split: option.splits)
  with assms EventJson have "ev_version e = EventV1"
    by (auto simp: migrateEvent_def ev_is_v2_def split: event_version.splits if_splits)
  with assms EventJson e' show ?thesis
    by (auto simp: migrateEvent_def Let_def ev_is_v2_def split: if_splits)
qed (use assms in \<open>auto simp: migrateEvent_def\<close>)

lemma migrated_event_schema:
  assumes "stateEventSchema E e = Some e'" "g = None \<or> g = Some 1"
  shows "stateEventSchema E (e\<lparr>ev_version := EventV2 None g True, ev_expected := ev_expected e'\<rparr>) \<noteq> None"
proof -
  have "eventVersionSchema (EventV2 None g True) = Some (EventV2 None g True)"
    using assms(2) migrated_event_version [of True] migrated_event_version [of False] by auto
  moreover have "expectedSchema (ev_expected e') = Some (ev_expected e')"
    using assms(1) by (auto simp: stateEventSchema_def elim!: bind_SomeE guard_SomeE intro: expectedSchema_idem split: if_splits)
  ultimately show ?thesis using assms(1)
    by (auto simp: stateEventSchema_def elim!: bind_SomeE guard_SomeE split: if_splits)
qed

lemma current_records:
  "migrateIndex E v = RecMigrated file \<Longrightarrow> \<exists>w. file = [w] \<and> is_object w \<and> migrateIndex E w = RecCurrent"
  "migrateRun E v = RecMigrated file \<Longrightarrow> \<exists>w. file = [w] \<and> is_object w \<and> migrateRun E w = RecCurrent"
  "migrateTask E v = RecMigrated file \<Longrightarrow> \<exists>w. file = [w] \<and> is_object w \<and> migrateTask E w = RecCurrent"
  unfolding migrateIndex_Migrated migrateRun_Migrated migrateTask_Migrated
  by (auto simp: migrateIndex_def migrateRun_def migrateTask_def)

lemma current_event:
  "migrateEvent E ids v = RecMigrated file \<Longrightarrow> \<exists>w. file = [w] \<and> is_object w \<and> migrateEvent E ids' w = RecCurrent"
  using migrateEvent_Migrated migrated_event_schema
  by (fastforce simp: migrateEvent_def ev_is_v2_def split: option.splits)

section \<open>Identities\<close>

definition named :: "task_identity \<Rightarrow> bool" where
  "named i \<longleftrightarrow> nonempty (ti_taskId i) = Some (ti_taskId i)"

lemma update_entry: "x \<in> set (AList.update k v m) \<Longrightarrow> x = (k, v) \<or> x \<in> set m"
  by (induction m) (auto split: if_splits)

lemma reservation_map_fact: "(t, rs) \<in> set (reservation_map fs) \<Longrightarrow> \<exists>n. TaskReserved t n rs \<in> set fs"
proof (induction fs rule: rev_induct)
  case (snoc f fs)
  then show ?case by (auto simp: reservation_map_def dest!: update_entry split: task_fact.splits)
qed (simp add: reservation_map_def)

lemma binding_map_fact: "(t, bs) \<in> set (binding_map fs) \<Longrightarrow> TaskIdentitiesBound t bs \<in> set fs"
proof (induction fs rule: rev_induct)
  case (snoc f fs)
  then show ?case by (auto simp: binding_map_def dest!: update_entry split: task_fact.splits)
qed (simp add: binding_map_def)

lemma numbered_name:
  assumes "js_trim t = t" "t \<noteq> []"
  shows "nonempty (t @ '':'' @ decimal n) = Some (t @ '':'' @ decimal n)"
proof -
  have "decimal n \<noteq> []" by (subst decimal.simps) simp
  moreover from this have "is_digit (last (decimal n))" using decimal_digits [of n] by (simp add: list_all_iff)
  ultimately have "\<not> js_space (last (t @ '':'' @ decimal n))"
    by (auto simp: is_digit_def js_space_def)
  moreover have "\<not> js_space (hd (t @ '':'' @ decimal n))" using assms js_trim_iff [of t] by simp
  ultimately show ?thesis using trim_ends [of "t @ '':'' @ decimal n"] by (simp add: nonempty_eq)
qed

lemma factSchema_fields:
  "factSchema f = Some f \<Longrightarrow> f = TaskReserved t n rs \<Longrightarrow> list_all (\<lambda>q. requestSchema q = Some q) rs \<and> js_trim t = t \<and> t \<noteq> []"
  by (auto simp: array_of_normal runtimeId_def Let_def elim!: bind_SomeE split: if_splits)

lemma request_name: "requestSchema q = Some q \<Longrightarrow> req_requestedName q = Some n \<Longrightarrow> nonempty n = Some n"
  by (cases q) (auto simp: requestSchema_def elim!: bind_SomeE)

lemma bound_identity_named:
  assumes "i \<in> set (bound_identity r t q b)" "requestSchema q = Some q" "js_trim t = t" "t \<noteq> []"
  shows "named i"
  using assms request_name [OF assms(2)] numbered_name [OF assms(3,4)]
  by (auto simp: bound_identity_def named_def split: option.splits)

lemma call_identities_named:
  assumes "call_identities r res call = Some is" "i \<in> set is"
    "\<And>t rs. (t, rs) \<in> set res \<Longrightarrow> list_all (\<lambda>q. requestSchema q = Some q) rs \<and> js_trim t = t \<and> t \<noteq> []"
  shows "named i"
proof -
  obtain rs where rs: "map_of res (fst call) = Some rs" using assms(1) by (auto simp: call_identities_def split: option.splits)
  from assms(3) [OF map_of_SomeD [OF this]] have ok: "list_all (\<lambda>q. requestSchema q = Some q) rs" "js_trim (fst call) = fst call" "fst call \<noteq> []"
    by auto
  from assms(1) rs obtain parts where parts: "list_all2 (\<lambda>b p. map_option (\<lambda>q. bound_identity r (fst call) q b)
       (find_last (\<lambda>q. req_itemIndex q = bind_itemIndex b) rs) = Some p) (snd call) parts" "is = concat parts"
    by (auto simp: call_identities_def dest!: those_map_SomeD)
  from assms(2) parts(2) obtain part where part: "part \<in> set parts" "i \<in> set part" by auto
  from list_all2_source [OF parts(1) part(1)] part(2)
  obtain b q where "find_last (\<lambda>q. req_itemIndex q = bind_itemIndex b) rs = Some q"
    "i \<in> set (bound_identity r (fst call) q b)"
    by (auto split: option.splits)
  then show ?thesis using ok bound_identity_named find_last_SomeD by (fastforce simp: list_all_iff)
qed

lemma ledger_facts:
  "taskLedgerSchema E l = Some p \<Longrightarrow> f \<in> set (map tle_fact (tl_entries p)) \<Longrightarrow> factSchema f = Some f"
proof -
  assume "taskLedgerSchema E l = Some p" "f \<in> set (map tle_fact (tl_entries p))"
  then have "array_of ledgerEntrySchema (tl_entries p) = Some (tl_entries p)"
    using task_ledger_schema.parse_idem [of E l p] by (cases p) (auto simp: taskLedgerSchema_def Let_def elim!: bind_SomeE guard_SomeE)
  then have "\<forall>e \<in> set (tl_entries p). ledgerEntrySchema e = Some e" by (simp add: array_of_normal list_all_iff)
  moreover have "ledgerEntrySchema e = Some e \<Longrightarrow> factSchema (tle_fact e) = Some (tle_fact e)" for e
    by (cases e) (auto simp: ledgerEntrySchema_def elim!: bind_SomeE)
  ultimately show ?thesis using \<open>f \<in> set (map tle_fact (tl_entries p))\<close> by auto
qed

lemma taskIdentities_named: "taskIdentities E l = Some is \<Longrightarrow> i \<in> set is \<Longrightarrow> named i"
proof -
  assume "taskIdentities E l = Some is" "i \<in> set is"
  then obtain p parts where p: "taskLedgerSchema E l = Some p" and
    parts: "list_all2 (\<lambda>c q. call_identities (tl_runId p) (reservation_map (map tle_fact (tl_entries p))) c = Some q)
       (binding_map (map tle_fact (tl_entries p))) parts" "i \<in> set (concat parts)"
    by (auto simp: taskIdentities_def Let_def dest!: those_map_SomeD split: option.splits)
  from parts(2) obtain q where q: "q \<in> set parts" "i \<in> set q" by auto
  from list_all2_source [OF parts(1) q(1)] q(2)
  obtain c where "call_identities (tl_runId p) (reservation_map (map tle_fact (tl_entries p))) c = Some q" "i \<in> set q"
    by auto
  then show ?thesis
    by (rule call_identities_named) (use ledger_facts [OF p] factSchema_fields reservation_map_fact in blast)
qed

lemma identities_named: "identitiesFromTaskFacts E src = Some ids \<Longrightarrow> i \<in> set ids \<Longrightarrow> named i"
proof (induction E src arbitrary: ids rule: identitiesFromTaskFacts.induct)
  case (2 E path body items)
  then show ?case by (auto split: if_splits elim!: bind_SomeE dest: taskIdentities_named)
qed simp

lemma identityFor_in: "identityFor ids r a role = Some i \<Longrightarrow> i \<in> set ids"
proof -
  assume a: "identityFor ids r a role = Some i"
  let ?l = "filter (\<lambda>i. ti_runId i = r \<and> ti_agentId i = a \<and> (role = None \<or> role = Some (ti_role i))) ids"
  have "?l = [i]" using a by (auto simp: identityFor_def split: list.splits)
  then have "i \<in> set ?l" by (metis list.set_intros(1))
  then show ?thesis by simp
qed

section \<open>Ledgers of results\<close>

lemma migrated_scope_schema: "named i \<Longrightarrow> scopeSchema (migrated_scope i) = Some (migrated_scope i)"
  by (simp add: scopeSchema_def migrated_scope_def named_def counter_positive_def counter_def max_safe_integer_def)

lemma scoped_event:
  assumes "acceptanceEventSchema E False a = Some a" "named i"
  shows "acceptanceEventSchema E True (a\<lparr>acc_scope := Some (migrated_scope i)\<rparr>) = Some (a\<lparr>acc_scope := Some (migrated_scope i)\<rparr>)"
  using assms(1) migrated_scope_schema [OF assms(2)]
  by (cases a) (auto simp: acceptanceEventSchema_def Let_def cleanup_binding_ok_def elim!: bind_SomeE guard_SomeE split: if_splits)

lemma scoped_rejection:
  assumes "rejectionEntrySchema E False e = Some e" "named i"
  shows "rejectionEntrySchema E True (e\<lparr>re_scope := (re_scope e)\<lparr>rs_v2 := Some (migrated_scope i)\<rparr>\<rparr>) =
    Some (e\<lparr>re_scope := (re_scope e)\<lparr>rs_v2 := Some (migrated_scope i)\<rparr>\<rparr>)"
  using assms(1) migrated_scope_schema [OF assms(2)]
  by (cases e) (auto simp: rejectionEntrySchema_def rejectionScopeSchema_def elim!: bind_SomeE guard_SomeE split: if_splits)

lemma scoped_events:
  assumes "those (map (\<lambda>a. map_option (\<lambda>i. a\<lparr>acc_scope := Some (migrated_scope i)\<rparr>)
      (identityFor ids (acc_runId a) (acc_actualAgentId a) (Some (acc_workerRole a)))) as) = Some entries"
    "list_all (\<lambda>a. acceptanceEventSchema E False a = Some a) as" "\<forall>i\<in>set ids. named i"
  shows "array_of (acceptanceEventSchema E True) entries = Some entries \<and> map acc_sequence entries = map acc_sequence as \<and>
    map acc_runId entries = map acc_runId as \<and> map acc_idempotencyKey entries = map acc_idempotencyKey as"
  using assms
proof (induction as arbitrary: entries)
  case (Cons a as)
  then obtain i rest where i: "identityFor ids (acc_runId a) (acc_actualAgentId a) (Some (acc_workerRole a)) = Some i"
    "those (map (\<lambda>a. map_option (\<lambda>i. a\<lparr>acc_scope := Some (migrated_scope i)\<rparr>)
      (identityFor ids (acc_runId a) (acc_actualAgentId a) (Some (acc_workerRole a)))) as) = Some rest"
    "entries = a\<lparr>acc_scope := Some (migrated_scope i)\<rparr> # rest"
    by (auto split: option.splits)
  have "named i" using identityFor_in [OF i(1)] Cons.prems(3) by blast
  then show ?case using Cons.IH [OF i(2)] Cons.prems(2,3) i(3) scoped_event [of E a i] by simp
qed simp

lemma order_of_columns:
  assumes "acceptance_order_ok l" "length entries = length (al_entries l)" "map acc_sequence entries = map acc_sequence (al_entries l)"
    "map acc_runId entries = map acc_runId (al_entries l)" "map acc_idempotencyKey entries = map acc_idempotencyKey (al_entries l)"
    "al_runId l' = al_runId l" "al_ledgerRevision l' = al_ledgerRevision l" "al_entries l' = entries"
  shows "acceptance_order_ok l'"
proof -
  have "\<forall>r \<in> set (map acc_runId (al_entries l)). r = al_runId l" using assms(1) by (simp add: acceptance_order_ok_def list_all_iff)
  then have "\<forall>r \<in> set (map acc_runId entries). r = al_runId l" unfolding assms(4) .
  then have "list_all (\<lambda>a. acc_runId a = al_runId l) entries" by (simp add: list_all_iff)
  then show ?thesis using assms by (simp add: acceptance_order_ok_def)
qed

lemma current_acceptance:
  assumes "migrateAcceptance E ids l = RecMigrated body" "\<forall>i\<in>set ids. named i"
    "\<And>p. acceptanceLedgerSchema E l = Some p \<Longrightarrow> acceptance_order_ok p"
  shows "\<exists>m. body = [AcceptanceJson m] \<and> migrateAcceptance E ids' m = RecCurrent"
proof -
  from assms(1) obtain p entries where p: "\<not> al_isV2 l" "acceptanceLedgerSchema E l = Some p"
    "those (map (\<lambda>a. map_option (\<lambda>i. a\<lparr>acc_scope := Some (migrated_scope i)\<rparr>)
      (identityFor ids (acc_runId a) (acc_actualAgentId a) (Some (acc_workerRole a)))) (al_entries p)) = Some entries"
    "body = [AcceptanceJson (l\<lparr>al_isV2 := True, al_entries := entries\<rparr>)]"
    by (auto simp: migrateAcceptance_def split: if_splits option.splits)
  have l: "uuid_schema E (al_runId l) = Some (al_runId p)" "counter (al_ledgerRevision l) = Some (al_ledgerRevision p)"
    "array_of (acceptanceEventSchema E False) (al_entries l) = Some (al_entries p)"
    using p(1,2) by (auto simp: acceptanceLedgerSchema_def Let_def elim!: bind_SomeE guard_SomeE)
  have "list_all (\<lambda>a. acceptanceEventSchema E False a = Some a) (al_entries p)"
    using acceptance_event_schema.array_idem [OF l(3)] by (simp add: array_of_normal)
  from scoped_events [OF p(3) this assms(2)] have e: "array_of (acceptanceEventSchema E True) entries = Some entries"
    "map acc_sequence entries = map acc_sequence (al_entries p)" "map acc_runId entries = map acc_runId (al_entries p)"
    "map acc_idempotencyKey entries = map acc_idempotencyKey (al_entries p)"
    by blast+
  have "length entries = length (al_entries p)" using arg_cong [OF e(2), of length] by simp
  then have "acceptance_order_ok \<lparr>al_isV2 = True, al_runId = al_runId p, al_ledgerRevision = al_ledgerRevision p, al_entries = entries\<rparr>"
    using order_of_columns [OF assms(3) [OF p(2)]] e by simp
  then have "acceptanceLedgerSchema E (l\<lparr>al_isV2 := True, al_entries := entries\<rparr>) \<noteq> None"
    using l e(1) by (simp add: acceptanceLedgerSchema_def)
  then show ?thesis using p(4) by (auto simp: migrateAcceptance_def)
qed

definition counted_ok :: "host_env \<Rightarrow> uuid \<Rightarrow> (rejection_key \<times> rejection_entry) list \<Rightarrow> bool" where
  "counted_ok E r m \<longleftrightarrow> distinct (map fst m) \<and> (\<forall>(k, e) \<in> set m. k = rejectionKey (re_scope e) True \<and>
     rejectionEntrySchema E True e = Some e \<and> rs_runId (re_scope e) = r)"

lemma counted_step:
  assumes "counted_ok E r m" "rejectionEntrySchema E True e = Some e" "rs_runId (re_scope e) = r"
  shows "counted_ok E r (count_rejection m e)"
proof -
  define count where "count = min 3 ((case map_of m (rejectionKey (re_scope e) True) of None \<Rightarrow> 0 | Some p \<Rightarrow> re_count p) + re_count e)"
  define e' where "e' = e\<lparr>re_count := count, re_status := (if count = 3 then NeedsParentDecision else RetryAllowed)\<rparr>"
  have "rejectionScopeSchema E (re_scope e) = Some (re_scope e)" "1 \<le> re_count e" "rs_v2 (re_scope e) \<noteq> None"
    using assms(2) by (cases e; auto simp: rejectionEntrySchema_def elim!: bind_SomeE guard_SomeE)+
  moreover from this have "1 \<le> count" "count \<le> 3" by (auto simp: count_def)
  ultimately have "rejectionEntrySchema E True e' = Some e'" by (cases e) (simp add: rejectionEntrySchema_def e'_def)
  moreover have "re_scope e' = re_scope e" by (simp add: e'_def)
  ultimately have "counted_ok E r (AList.update (rejectionKey (re_scope e) True) e' m)"
    using assms(1,3) unfolding counted_ok_def by (auto simp: distinct_update dest!: update_entry)
  then show ?thesis by (simp add: count_rejection_def Let_def e'_def count_def)
qed

lemma counted_all:
  "counted_ok E r m \<Longrightarrow> list_all (\<lambda>e. rejectionEntrySchema E True e = Some e \<and> rs_runId (re_scope e) = r) es \<Longrightarrow>
     counted_ok E r (foldl count_rejection m es)"
  by (induction es arbitrary: m) (auto intro: counted_step)

lemma counted_identity:
  assumes "counted_ok E r m"
  shows "array_of (rejectionEntrySchema E True) (map snd m) = Some (map snd m)"
    and "list_all (\<lambda>e. rs_runId (re_scope e) = r) (map snd m) \<and> distinct (map (\<lambda>e. rejectionKey (re_scope e) True) (map snd m))"
proof -
  have keys: "map (\<lambda>e. rejectionKey (re_scope e) True) (map snd m) = map fst m"
    using assms by (auto simp: counted_ok_def)
  have "distinct (map (\<lambda>e. rejectionKey (re_scope e) True) (map snd m))"
    using assms unfolding keys by (simp add: counted_ok_def)
  then show "list_all (\<lambda>e. rs_runId (re_scope e) = r) (map snd m) \<and> distinct (map (\<lambda>e. rejectionKey (re_scope e) True) (map snd m))"
    using assms by (auto simp: counted_ok_def list_all_iff)
qed (use assms in \<open>auto simp: counted_ok_def array_of_normal list_all_iff\<close>)

lemma scoped_rejections:
  assumes "those (map (\<lambda>e. map_option (\<lambda>i. e\<lparr>re_scope := (re_scope e)\<lparr>rs_v2 := Some (migrated_scope i)\<rparr>\<rparr>)
      (identityFor ids (rs_runId (re_scope e)) (rs_actualAgentId (re_scope e)) None)) es) = Some converted"
    "list_all (\<lambda>e. rejectionEntrySchema E False e = Some e \<and> rs_runId (re_scope e) = r) es" "\<forall>i\<in>set ids. named i"
  shows "list_all (\<lambda>e. rejectionEntrySchema E True e = Some e \<and> rs_runId (re_scope e) = r) converted"
  using assms
proof (induction es arbitrary: converted)
  case (Cons e es)
  then obtain i rest where i: "identityFor ids (rs_runId (re_scope e)) (rs_actualAgentId (re_scope e)) None = Some i"
    "those (map (\<lambda>e. map_option (\<lambda>i. e\<lparr>re_scope := (re_scope e)\<lparr>rs_v2 := Some (migrated_scope i)\<rparr>\<rparr>)
      (identityFor ids (rs_runId (re_scope e)) (rs_actualAgentId (re_scope e)) None)) es) = Some rest"
    "converted = e\<lparr>re_scope := (re_scope e)\<lparr>rs_v2 := Some (migrated_scope i)\<rparr>\<rparr> # rest"
    by (auto split: option.splits)
  have "named i" using identityFor_in [OF i(1)] Cons.prems(3) by blast
  then show ?case using Cons.IH [OF i(2)] Cons.prems(2,3) i(3) scoped_rejection [of E e i] by simp
qed simp

lemma current_rejections:
  assumes "migrateRejections E ids l = RecMigrated body" "\<forall>i\<in>set ids. named i"
    "\<And>p. rejectionLedgerSchema E l = Some p \<Longrightarrow> list_all (\<lambda>e. rs_runId (re_scope e) = rl_runId p) (rl_entries p)"
  shows "\<exists>m. body = [RejectionJson m] \<and> migrateRejections E ids' m = RecCurrent"
proof -
  from assms(1) obtain p converted where p: "\<not> rl_isV2 l" "rejectionLedgerSchema E l = Some p"
    "those (map (\<lambda>e. map_option (\<lambda>i. e\<lparr>re_scope := (re_scope e)\<lparr>rs_v2 := Some (migrated_scope i)\<rparr>\<rparr>)
      (identityFor ids (rs_runId (re_scope e)) (rs_actualAgentId (re_scope e)) None)) (rl_entries p)) = Some converted"
    "body = [RejectionJson (l\<lparr>rl_isV2 := True, rl_entries := map snd (foldl count_rejection [] converted)\<rparr>)]"
    by (auto simp: migrateRejections_def split: if_splits option.splits)
  have l: "uuid_schema E (rl_runId l) = Some (rl_runId p)"
    "array_of (rejectionEntrySchema E False) (rl_entries l) = Some (rl_entries p)"
    using p(1,2) by (auto simp: rejectionLedgerSchema_def Let_def elim!: bind_SomeE guard_SomeE)
  have "list_all (\<lambda>e. rejectionEntrySchema E False e = Some e \<and> rs_runId (re_scope e) = rl_runId p) (rl_entries p)"
    using rejection_entry_schema.array_idem [OF l(2)] assms(3) [OF p(2)] by (simp add: array_of_normal list_all_iff)
  from scoped_rejections [OF p(3) this assms(2)] have "counted_ok E (rl_runId p) (foldl count_rejection [] converted)"
    by (intro counted_all) (simp_all add: counted_ok_def)
  from counted_identity [OF this] have "rejectionLedgerSchema E (l\<lparr>rl_isV2 := True, rl_entries := map snd (foldl count_rejection [] converted)\<rparr>) \<noteq> None"
    using l(1) by (simp add: rejectionLedgerSchema_def rejection_identity_ok_def)
  then show ?thesis using p(4) by (auto simp: migrateRejections_def)
qed

section \<open>The log and the teams\<close>

lemma migrated_line:
  assumes "migrate_line E ids v = Some w" "\<forall>i\<in>set ids. named i"
  shows "migrate_line E ids' w = Some w \<and> json_version w = Some 2"
proof -
  from assms(1) obtain a where a: "v = WalJson a" by (auto simp: migrate_line_def split: lifecycle_json.splits)
  show ?thesis
  proof (cases "acc_scope a = None")
    case True
    with assms(1) a obtain p i where p: "acceptanceEventSchema E False a = Some p"
      "identityFor ids (acc_runId p) (acc_actualAgentId p) (Some (acc_workerRole p)) = Some i"
      "w = WalJson (p\<lparr>acc_scope := Some (migrated_scope i)\<rparr>)"
      by (auto simp: migrate_line_def elim!: bind_SomeE)
    have "named i" using identityFor_in [OF p(2)] assms(2) by blast
    from scoped_event [OF acceptance_event_schema.parse_idem [OF p(1)] this] p(3) show ?thesis by (simp add: migrate_line_def)
  next
    case False
    then show ?thesis using assms(1) a by (auto simp: migrate_line_def split: if_splits)
  qed
qed

lemma current_wal:
  assumes "migrateWal E ids v = RecMigrated body" "\<forall>i\<in>set ids. named i"
  shows "migrateWal E ids' body = RecCurrent"
proof -
  have "list_all2 (\<lambda>x y. migrate_line E ids x = Some y) v body"
    using assms(1) by (auto simp: migrateWal_def dest: those_map_SomeD split: option.splits if_splits)
  from list_all2_source [OF this] have "\<forall>w\<in>set body. migrate_line E ids' w = Some w \<and> json_version w = Some 2"
    using migrated_line [OF _ assms(2)] by blast
  then have "those (map (migrate_line E ids') body) = Some body" "list_all (\<lambda>v. json_version v = Some 2) body"
    by (induction body) auto
  then show ?thesis by (simp add: migrateWal_def)
qed

lemma bound_team:
  "persistedTeamStateSchema E False t = Some s \<Longrightarrow>
     persistedTeamStateSchema E True (with_status (if ts_status t = PersistedActive then PersistedBound else ts_status t) t) \<noteq> None"
  by (cases "ts_status t") (auto simp: persistedTeamStateSchema_def with_status_def)

lemma current_team:
  assumes "migrateTeam E v = RecMigrated body"
  shows "\<exists>w. body = [w] \<and> is_object w \<and> migrateTeam E w = RecCurrent"
proof (cases v)
  case (TeamJson f)
  show ?thesis
  proof (cases f)
    case (TeamTombstone v2 name)
    then show ?thesis using assms TeamJson by (auto simp: migrateTeam_def split: if_splits)
  next
    case (TeamRecord v2 t)
    define t' where "t' = with_status (if ts_status t = PersistedActive then PersistedBound else ts_status t) t"
    obtain s where s: "\<not> v2" "body = [TeamJson (TeamRecord True t')]" "persistedTeamStateSchema E False t = Some s"
      using assms TeamJson TeamRecord by (auto simp: migrateTeam_def t'_def split: if_splits option.splits)
    from bound_team [OF s(3)] obtain s' where "persistedTeamStateSchema E True t' = Some s'" unfolding t'_def by blast
    then show ?thesis using s(2) by (simp add: migrateTeam_def)
  qed
qed (use assms in \<open>auto simp: migrateTeam_def\<close>)

lemma with_version2_version: "json_version (with_version2 v) = Some 2 \<and> is_object (with_version2 v)"
  by (cases v rule: with_version2.cases) (simp_all add: version_of_def)

lemma current_versioned:
  "migrateVersioned v = RecMigrated body \<Longrightarrow> \<exists>w. body = [w] \<and> is_object w \<and> migrateVersioned w = RecCurrent"
  using with_version2_version [of v] by (auto simp: migrateVersioned_def schemaVersion_def split: option.splits if_splits)

declare is_object_def [simp del]

section \<open>Migration is stable\<close>

text \<open>What the writers of version 1 ledgers of results keep, and the schemas of version 1 do not check.\<close>

definition in_order :: "host_env \<Rightarrow> lifecycle_file \<Rightarrow> bool" where
  "in_order E body \<longleftrightarrow> (\<forall>v \<in> set body. case v of
     AcceptanceJson l \<Rightarrow> (case acceptanceLedgerSchema E l of None \<Rightarrow> True | Some p \<Rightarrow> acceptance_order_ok p)
   | RejectionJson l \<Rightarrow> (case rejectionLedgerSchema E l of None \<Rightarrow> True
       | Some p \<Rightarrow> list_all (\<lambda>e. rs_runId (re_scope e) = rl_runId p) (rl_entries p))
   | _ \<Rightarrow> True)"

lemma migrated_value_current:
  assumes "migrate_value E path ids v = RecMigrated body" "\<forall>i\<in>set ids. named i" "in_order E [v]"
  shows "\<exists>w. body = [w] \<and> is_object w \<and> migrate_value E path ids' w = RecCurrent"
proof -
  have acceptance: ?thesis if "v = AcceptanceJson l" "migrateAcceptance E ids l = RecMigrated body"
    "\<And>m. migrate_value E path ids' (AcceptanceJson m) = migrateAcceptance E ids' m" for l
    using current_acceptance [OF that(2) assms(2)] assms(3) that(1,3) by (fastforce simp: in_order_def is_object_def)
  have rejections: ?thesis if "v = RejectionJson l" "migrateRejections E ids l = RecMigrated body"
    "\<And>m. migrate_value E path ids' (RejectionJson m) = migrateRejections E ids' m" for l
    using current_rejections [OF that(2) assms(2)] assms(3) that(1,3) by (fastforce simp: in_order_def is_object_def)
  consider "path = ''active.json''" "migrateIndex E v = RecMigrated body"
    | "migrateRun E v = RecMigrated body" "\<And>w. migrate_value E path ids' w = migrateRun E w"
    | "migrateEvent E ids v = RecMigrated body" "\<And>w. migrate_value E path ids' w = migrateEvent E ids' w"
    | "migrateTask E v = RecMigrated body" "\<And>w. migrate_value E path ids' w = migrateTask E w"
    | l where "v = AcceptanceJson l" "migrateAcceptance E ids l = RecMigrated body"
        "\<And>m. migrate_value E path ids' (AcceptanceJson m) = migrateAcceptance E ids' m"
    | l where "v = RejectionJson l" "migrateRejections E ids l = RecMigrated body"
        "\<And>m. migrate_value E path ids' (RejectionJson m) = migrateRejections E ids' m"
    | "migrateTeam E v = RecMigrated body" "\<And>w. migrate_value E path ids' w = migrateTeam E w"
    | "migrateVersioned v = RecMigrated body" "\<And>w. migrate_value E path ids' w = migrateVersioned w"
    using assms(1) unfolding migrate_value_def by (simp split: if_splits lifecycle_json.splits)
  then show ?thesis
    by cases (simp_all add: current_records current_event current_team current_versioned acceptance rejections,
      simp add: migrate_value_def current_records)
qed

text \<open>
  C13. What a migration writes for a record is recognised as current, so a further migration of the same
  repository changes nothing: its version 2 schema accepts it, the identities of the tasks it names
  included. For the ledgers of results this needs the order that their writers keep.
\<close>

theorem migrated_record_current:
  assumes "migrateLifecycleRecord E path body ids = RecMigrated body'" "identitiesFromTaskFacts E src = Some ids" "in_order E body"
  shows "migrateLifecycleRecord E path body' ids' = RecCurrent"
proof -
  have ids: "\<forall>i\<in>set ids. named i" using identities_named [OF assms(2)] by blast
  show ?thesis
  proof (cases "endsWith path ''.wal.jsonl''")
    case True
    then show ?thesis using assms(1) current_wal [OF _ ids] by (simp add: migrateLifecycleRecord_def)
  next
    case False
    with assms(1) obtain v where v: "parseRecord body = Some v" by (auto simp: migrateLifecycleRecord_def split: option.splits)
    then have "body = [v]" by (auto simp: parseRecord_def split: list.splits if_splits)
    moreover have "migrate_value E path ids v = RecMigrated body'" using assms(1) v False by (simp add: migrateLifecycleRecord_def)
    ultimately obtain w where "body' = [w]" "is_object w" "migrate_value E path ids' w = RecCurrent"
      using migrated_value_current [OF _ ids] assms(3) by blast
    then show ?thesis using False by (simp add: migrateLifecycleRecord_def parseRecord_def)
  qed
qed

definition legacy_index :: active_index where
  "legacy_index = \<lparr>idx_version = IndexV1, idx_revision = 0, idx_entries = []\<rparr>"

theorem migrated_record_current_witness:
  "migrateLifecycleRecord sample_env ''active.json'' [IndexJson (legacy_index\<lparr>idx_version := IndexV2 1\<rparr>)] [] = RecCurrent"
proof -
  have "migrateLifecycleRecord sample_env ''active.json'' [IndexJson legacy_index] [] =
      RecMigrated [IndexJson (legacy_index\<lparr>idx_version := IndexV2 1\<rparr>)]" by code_simp
  moreover have "in_order sample_env [IndexJson legacy_index]" by (simp add: in_order_def)
  ultimately show ?thesis using migrated_record_current [where src = "[]" and ids = "[]"] by simp
qed

end
