(* ===== verification/Migration.thy ===== *)
theory Migration
  imports Migration_Records Continuation_Budget
begin

text \<open>
  The migration of a repository from version 1 to version 2 (\<^verbatim>\<open>src/state/migration.ts\<close>): a journal with
  phases, a backup of every file, staged conversions, their publication and a commit marker, and the
  recovery from every point at which this can end.

  The code writes one file after the other; each such write is a step here, and a migration is the list of
  its steps. What the host does at a step (\<^verbatim>\<open>atomicReplace\<close>, \<^verbatim>\<open>copyFile\<close>, reading back, death) is an input, and
  a list of inputs that is too short is a process that dies. The \<^verbatim>\<open>crash\<close> callback of the tests throws
  between two steps, which is a throw at the beginning of the next one. SHA-256 and the order of
  \<^verbatim>\<open>localeCompare\<close> are parameters.
\<close>

section \<open>The journal\<close>

datatype migration_phase = PhPrepared | PhBackingUp | PhBackedUp | PhStaged | PhPublishing | PhCommitted

record journal_item =
  ji_path :: string
  ji_sourceHash :: string
  ji_targetHash :: string

record journal =
  jr_phase :: migration_phase
  jr_items :: "journal_item list"
  jr_published :: "string list"

definition JournalSchema :: "journal \<Rightarrow> bool" where
  "JournalSchema j \<longleftrightarrow> jr_items j \<noteq> [] \<and>
     list_all (\<lambda>i. ji_path i \<noteq> [] \<and> hex_string 64 (ji_sourceHash i) \<and> hex_string 64 (ji_targetHash i)) (jr_items j) \<and>
     list_all (\<lambda>p. p \<noteq> []) (jr_published j)"

type_synonym commit_marker = "(string \<times> string) list"

definition CommitMarkerSchema :: "commit_marker \<Rightarrow> bool" where
  "CommitMarkerSchema m \<longleftrightarrow> m \<noteq> [] \<and> list_all (\<lambda>(p, h). p \<noteq> [] \<and> hex_string 64 h) m"

text \<open>The state directory: its files, and what is under \<^verbatim>\<open>migration/\<close>.\<close>

record migration_disk =
  md_live :: "string \<rightharpoonup> lifecycle_file"
  md_backup :: "string \<rightharpoonup> lifecycle_file"
  md_staged :: "string \<rightharpoonup> lifecycle_file"
  md_marker :: "commit_marker file_bytes option"
  md_journal :: "journal file_bytes option"

datatype journal_read = JournalAbsent | JournalInvalid | JournalFound journal

definition readJournal :: "migration_disk \<Rightarrow> journal_read" where
  "readJournal d = (case md_journal d of
     None \<Rightarrow> JournalAbsent
   | Some (Json j) \<Rightarrow>
     (if JournalSchema j \<and> distinct (map ji_path (jr_items j)) \<and>
         list_all (\<lambda>p. p \<in> ji_path ` set (jr_items j)) (jr_published j)
      then JournalFound j else JournalInvalid)
   | Some _ \<Rightarrow> JournalInvalid)"

definition rank :: "string \<Rightarrow> nat" where
  "rank path = (if path = ''active.json'' then 5 else if startsWith path ''teams/'' then 3
     else if startsWith path ''runs/'' \<or> startsWith path ''events/'' then 2 else 1)"

text \<open>The sort of the sources is stable.\<close>

definition ordered :: "(string \<Rightarrow> nat) \<Rightarrow> ('a \<Rightarrow> string) \<Rightarrow> 'a list \<Rightarrow> 'a list" where
  "ordered collate path items = sort_key (\<lambda>i. rank (path i)) (sort_key (\<lambda>i. collate (path i)) items)"

definition verified :: "(lifecycle_file \<Rightarrow> string) \<Rightarrow> lifecycle_file option \<Rightarrow> string \<Rightarrow> bool" where
  "verified sha file expected = (case file of None \<Rightarrow> False | Some f \<Rightarrow> sha f = expected)"

section \<open>Steps\<close>

datatype migration_step =
    WriteJournal journal
  | Backup string string
      \<comment> \<open>path, hash of the source\<close>
  | Stage string lifecycle_file
      \<comment> \<open>path, converted file\<close>
  | Publish string string
      \<comment> \<open>path, hash of the converted file\<close>
  | WriteMarker commit_marker
  | RestoreFile string
  | KeepHistory
  | RemoveJournal

text \<open>
  The host at a step: whether the files that are read can be read, the writing of a file, a copy or
  removal, and what an unfinished copy leaves behind.
\<close>

record migration_io =
  mi_readable :: bool
  mi_write :: write_io
  mi_copy :: step_result
  mi_left :: "lifecycle_file option"

datatype step_end = StepDone | StepThrew | StepRefused | StepDied

fun write_end :: "write_outcome \<Rightarrow> step_end" where
  "write_end Published = StepDone"
| "write_end WriteKilled = StepDied"
| "write_end _ = StepThrew"

fun copy_end :: "step_result \<Rightarrow> step_end" where
  "copy_end StepOk = StepDone"
| "copy_end StepThrows = StepThrew"
| "copy_end StepKilled = StepDied"

text \<open>Reading a file back after it has been written, to verify it.\<close>

definition verify_end :: "bool \<Rightarrow> bool \<Rightarrow> step_end" where
  "verify_end readable ok = (if \<not> readable then StepThrew else if ok then StepDone else StepRefused)"

definition replace_at :: "write_io \<Rightarrow> string \<Rightarrow> 'b \<Rightarrow> (string \<rightharpoonup> 'b) \<Rightarrow> (string \<rightharpoonup> 'b) \<times> step_end" where
  "replace_at io path bytes files = (case atomicReplace io bytes (files path) of
     (slot, out) \<Rightarrow> (files(path := slot), write_end out))"

fun exec_step ::
    "(lifecycle_file \<Rightarrow> string) \<Rightarrow> migration_io \<Rightarrow> migration_step \<Rightarrow> migration_disk \<Rightarrow> migration_disk \<times> step_end" where
  "exec_step sha io (WriteJournal j) d = (case atomicReplace (mi_write io) (Json j) (md_journal d) of
     (slot, out) \<Rightarrow> (d\<lparr>md_journal := slot\<rparr>, write_end out))"
| "exec_step sha io (Backup path h) d = (case md_live d path of
     None \<Rightarrow> (d, StepThrew)
   | Some f \<Rightarrow>
     (if mi_copy io = StepOk
      then (d\<lparr>md_backup := (md_backup d)(path \<mapsto> f)\<rparr>, verify_end (mi_readable io) (sha f = h))
      else (d\<lparr>md_backup := (md_backup d)(path := mi_left io)\<rparr>, copy_end (mi_copy io))))"
| "exec_step sha io (Stage path f) d = (case replace_at (mi_write io) path f (md_staged d) of
     (staged, out) \<Rightarrow> (d\<lparr>md_staged := staged\<rparr>,
       if out = StepDone then verify_end (mi_readable io) (verified sha (staged path) (sha f)) else out))"
| "exec_step sha io (Publish path h) d =
     (if \<not> mi_readable io then (d, StepThrew)
      else case md_staged d path of
        None \<Rightarrow> (d, StepRefused)
      | Some f \<Rightarrow>
        (if sha f \<noteq> h then (d, StepRefused)
         else case replace_at (mi_write io) path f (md_live d) of (live, out) \<Rightarrow> (d\<lparr>md_live := live\<rparr>, out)))"
| "exec_step sha io (WriteMarker m) d = (case atomicReplace (mi_write io) (Json m) (md_marker d) of
     (slot, out) \<Rightarrow> (d\<lparr>md_marker := slot\<rparr>, write_end out))"
| "exec_step sha io (RestoreFile path) d =
     (if \<not> mi_readable io then (d, StepThrew)
      else case md_backup d path of
        None \<Rightarrow> (d, StepThrew)
      | Some f \<Rightarrow> (case replace_at (mi_write io) path f (md_live d) of (live, out) \<Rightarrow> (d\<lparr>md_live := live\<rparr>, out)))"
| "exec_step sha io KeepHistory d = (d, copy_end (mi_copy io))"
| "exec_step sha io RemoveJournal d =
     (if mi_copy io = StepOk then (d\<lparr>md_journal := None\<rparr>, StepDone) else (d, copy_end (mi_copy io)))"

fun run_steps ::
    "(lifecycle_file \<Rightarrow> string) \<Rightarrow> migration_io list \<Rightarrow> migration_step list \<Rightarrow> migration_disk \<Rightarrow>
       migration_disk \<times> migration_io list \<times> step_end" where
  "run_steps sha ios [] d = (d, ios, StepDone)"
| "run_steps sha [] (s # ss) d = (d, [], StepDied)"
| "run_steps sha (io # ios) (s # ss) d = (case exec_step sha io s d of
     (d', end) \<Rightarrow> (if end = StepDone then run_steps sha ios ss d' else (d', ios, end)))"

section \<open>Recovery\<close>

datatype recovery_status = Restored | Finalized | NotNeeded

datatype recovery_answer = Recovered recovery_status | RecoveryRequired | RecoveryThrows | RecoveryDied

text \<open>What a recovery does: it refuses, or takes some steps and then answers.\<close>

type_synonym recovery_plan = "(migration_step list \<times> recovery_status) option"

definition restore :: "(lifecycle_file \<Rightarrow> string) \<Rightarrow> (string \<Rightarrow> nat) \<Rightarrow> migration_disk \<Rightarrow> journal \<Rightarrow> recovery_plan" where
  "restore sha collate d j =
     (if \<not> list_all (\<lambda>i. verified sha (md_backup d (ji_path i)) (ji_sourceHash i)) (jr_items j) then None
      else Some (map (\<lambda>i. RestoreFile (ji_path i)) (ordered collate ji_path (jr_items j)) @ [KeepHistory, RemoveJournal],
             Restored))"

definition discardUnpublishedJournal :: recovery_plan where
  "discardUnpublishedJournal = Some ([KeepHistory, RemoveJournal], Restored)"

text \<open>Whether the marker names every item, and every file of the journal has been published.\<close>

definition publication_complete :: "(lifecycle_file \<Rightarrow> string) \<Rightarrow> migration_disk \<Rightarrow> journal \<Rightarrow> commit_marker \<Rightarrow> bool" where
  "publication_complete sha d j marker \<longleftrightarrow> CommitMarkerSchema marker \<and> length marker = length (jr_items j) \<and>
     list_all (\<lambda>i. verified sha (md_live d (ji_path i)) (ji_targetHash i) \<and>
       map_of (rev marker) (ji_path i) = Some (ji_targetHash i)) (jr_items j)"

definition finalize :: "(lifecycle_file \<Rightarrow> string) \<Rightarrow> (string \<Rightarrow> nat) \<Rightarrow> migration_disk \<Rightarrow> journal \<Rightarrow> recovery_plan" where
  "finalize sha collate d j = (case md_marker d of
     Some (Json marker) \<Rightarrow>
       (if publication_complete sha d j marker
        then Some ([WriteJournal (j\<lparr>jr_phase := PhCommitted\<rparr>)], Finalized) else restore sha collate d j)
   | _ \<Rightarrow> restore sha collate d j)"

fun end_answer :: "recovery_status \<Rightarrow> step_end \<Rightarrow> recovery_answer" where
  "end_answer status StepDone = Recovered status"
| "end_answer status StepThrew = RecoveryThrows"
| "end_answer status StepRefused = RecoveryRequired"
| "end_answer status StepDied = RecoveryDied"

definition run_recovery ::
    "(lifecycle_file \<Rightarrow> string) \<Rightarrow> migration_io list \<Rightarrow> recovery_plan \<Rightarrow> migration_disk \<Rightarrow> migration_disk \<times> recovery_answer" where
  "run_recovery sha ios plan d = (case plan of
     None \<Rightarrow> (d, RecoveryRequired)
   | Some (steps, status) \<Rightarrow> (case run_steps sha ios steps d of (d', _, out) \<Rightarrow> (d', end_answer status out)))"

text \<open>Whether the lock is acquired, whether the files read before the first step can be read, the steps.\<close>

record recovery_io =
  ro_lock :: bool
  ro_readable :: bool
  ro_steps :: "migration_io list"

definition recoverLifecycleMigration ::
    "(lifecycle_file \<Rightarrow> string) \<Rightarrow> (string \<Rightarrow> nat) \<Rightarrow> recovery_io \<Rightarrow> migration_disk \<Rightarrow> migration_disk \<times> recovery_answer" where
  "recoverLifecycleMigration sha collate io d =
     (if \<not> ro_lock io then (d, RecoveryRequired)
      else if \<not> ro_readable io then (d, RecoveryThrows)
      else case readJournal d of
        JournalAbsent \<Rightarrow> (d, Recovered NotNeeded)
      | JournalInvalid \<Rightarrow> (d, RecoveryRequired)
      | JournalFound j \<Rightarrow>
        run_recovery sha (ro_steps io)
          (if jr_phase j = PhPrepared \<or> jr_phase j = PhBackingUp then discardUnpublishedJournal else finalize sha collate d j) d)"

definition lifecycleMigrationRequiresRecovery :: "migration_disk \<Rightarrow> bool" where
  "lifecycleMigrationRequiresRecovery d \<longleftrightarrow> (case readJournal d of
     JournalAbsent \<Rightarrow> False | JournalInvalid \<Rightarrow> True | JournalFound j \<Rightarrow> jr_phase j \<noteq> PhCommitted)"

section \<open>Migration\<close>

text \<open>The paths a migration knows; a file elsewhere stops it.\<close>

definition uuid_name :: "string \<Rightarrow> bool" where
  "uuid_name s \<longleftrightarrow> s \<noteq> [] \<and> list_all (\<lambda>c. is_hex_lower c \<or> c = CHR ''-'') s"

definition between :: "string \<Rightarrow> string \<Rightarrow> (string \<Rightarrow> bool) \<Rightarrow> string \<Rightarrow> bool" where
  "between prefix suffix ok path \<longleftrightarrow> startsWith path prefix \<and> endsWith path suffix \<and>
     length prefix + length suffix \<le> length path \<and>
     ok (take (length path - length prefix - length suffix) (drop (length prefix) path))"

definition event_name :: "string \<Rightarrow> bool" where
  "event_name s \<longleftrightarrow> list_all is_digit (take 16 s) \<and> 16 < length s \<and> s ! 16 = CHR ''-'' \<and> uuid_name (drop 17 s)"

definition isLifecyclePath :: "string \<Rightarrow> bool" where
  "isLifecyclePath path \<longleftrightarrow> path = ''active.json'' \<or> between ''runs/'' ''/run.json'' uuid_name path \<or>
     between ''events/'' ''.json'' event_name path \<or> between ''task-facts/'' ''.json'' uuid_name path \<or>
     between ''worker-acceptance/'' ''.wal.jsonl'' uuid_name path \<or> between ''worker-acceptance/'' ''.json'' uuid_name path \<or>
     between ''worker-rejections/'' ''.json'' uuid_name path \<or>
     between ''teams/'' ''.json'' (\<lambda>s. s \<noteq> [] \<and> list_all (\<lambda>c. is_lower_alnum c \<or> c = CHR ''-'') s) path \<or>
     between ''directive-activations/'' ''.json'' isValidLifecycleId path \<or>
     between ''continuation-counters/'' ''.json'' isValidLifecycleId path \<or>
     between ''model-chain-provenance/'' ''.json'' isValidLifecycleId path"

datatype migration_answer =
    Migrated | AlreadyCurrent | MigrationInterrupted | MigrationRecoveryRequired | UnknownSchemaVersion | MigrationDied

text \<open>A file to migrate: its path, what it holds, what it is converted to.\<close>

type_synonym migration_target = "string \<times> lifecycle_file \<times> lifecycle_file"

definition migration_plan ::
    "host_env \<Rightarrow> string list \<Rightarrow> (string \<rightharpoonup> lifecycle_file) \<Rightarrow> migration_answer + migration_target list" where
  "migration_plan E names live =
     (if names = [] \<or> \<not> list_all isLifecyclePath names then Inl MigrationRecoveryRequired
      else case those (map (\<lambda>p. map_option (Pair p) (live p)) names) of
        None \<Rightarrow> Inl MigrationInterrupted
      | Some source \<Rightarrow>
        (if list_ex (\<lambda>(_, f). isFutureLifecycleRecord f) source then Inl UnknownSchemaVersion
         else case identitiesFromTaskFacts E source of
           None \<Rightarrow> Inl MigrationRecoveryRequired
         | Some ids \<Rightarrow>
           (let results = map (\<lambda>(p, f). migrateLifecycleRecord E p f ids) source
            in if RecInvalid \<in> set results then Inl MigrationRecoveryRequired
               else if list_all (\<lambda>r. r = RecCurrent) results then Inl AlreadyCurrent
               else if RecCurrent \<in> set results then Inl MigrationRecoveryRequired
               else Inr (map (\<lambda>(p, f). (p, f, case migrateLifecycleRecord E p f ids of RecMigrated g \<Rightarrow> g | _ \<Rightarrow> f)) source))))"

definition journal_of :: "(lifecycle_file \<Rightarrow> string) \<Rightarrow> migration_target list \<Rightarrow> journal" where
  "journal_of sha targets = \<lparr>jr_phase = PhPrepared,
     jr_items = map (\<lambda>(p, s, t). \<lparr>ji_path = p, ji_sourceHash = sha s, ji_targetHash = sha t\<rparr>) targets, jr_published = []\<rparr>"

definition in_phase :: "migration_phase \<Rightarrow> journal \<Rightarrow> journal" where
  "in_phase ph j = j\<lparr>jr_phase := ph\<rparr>"

text \<open>Publishing the files one by one, each followed by the journal that names it.\<close>

fun publish_steps :: "(lifecycle_file \<Rightarrow> string) \<Rightarrow> journal \<Rightarrow> migration_target list \<Rightarrow> migration_step list" where
  "publish_steps sha j [] = []"
| "publish_steps sha j ((p, _, t) # ts) =
     (let j' = j\<lparr>jr_published := jr_published j @ [p]\<rparr>
      in [Publish p (sha t), WriteJournal j'] @ publish_steps sha j' ts)"

definition migration_steps :: "(lifecycle_file \<Rightarrow> string) \<Rightarrow> (string \<Rightarrow> nat) \<Rightarrow> migration_target list \<Rightarrow> migration_step list" where
  "migration_steps sha collate targets =
     (let j = journal_of sha targets
      in [WriteJournal j, WriteJournal (in_phase PhBackingUp j)] @
         map (\<lambda>(p, s, _). Backup p (sha s)) targets @
         [WriteJournal (in_phase PhBackedUp j)] @
         map (\<lambda>(p, _, t). Stage p t) targets @
         [WriteJournal (in_phase PhStaged j), WriteJournal (in_phase PhPublishing j)] @
         publish_steps sha (in_phase PhPublishing j) (ordered collate fst targets) @
         [WriteMarker (map (\<lambda>(p, _, t). (p, sha t)) targets),
          WriteJournal (in_phase PhCommitted j\<lparr>jr_published := map fst (ordered collate fst targets)\<rparr>)])"

fun migration_end :: "step_end \<Rightarrow> migration_answer" where
  "migration_end StepDone = Migrated"
| "migration_end StepThrew = MigrationInterrupted"
| "migration_end StepRefused = MigrationRecoveryRequired"
| "migration_end StepDied = MigrationDied"

fun finalized_end :: "recovery_answer \<Rightarrow> migration_answer" where
  "finalized_end (Recovered _) = AlreadyCurrent"
| "finalized_end RecoveryRequired = MigrationRecoveryRequired"
| "finalized_end RecoveryThrows = MigrationInterrupted"
| "finalized_end RecoveryDied = MigrationDied"

text \<open>\<open>names\<close> is what \<^verbatim>\<open>sourceFiles\<close> lists.\<close>

definition migrateLifecycleState ::
    "host_env \<Rightarrow> (lifecycle_file \<Rightarrow> string) \<Rightarrow> (string \<Rightarrow> nat) \<Rightarrow> string list \<Rightarrow> recovery_io \<Rightarrow> migration_disk \<Rightarrow>
       migration_disk \<times> migration_answer" where
  "migrateLifecycleState E sha collate names io d =
     (if \<not> ro_lock io then (d, MigrationRecoveryRequired)
      else if \<not> ro_readable io then (d, MigrationInterrupted)
      else case readJournal d of
        JournalInvalid \<Rightarrow> (d, MigrationRecoveryRequired)
      | JournalFound j \<Rightarrow>
        (if jr_phase j \<noteq> PhCommitted then (d, MigrationRecoveryRequired)
         else case run_recovery sha (ro_steps io) (finalize sha collate d j) d of (d', a) \<Rightarrow> (d', finalized_end a))
      | JournalAbsent \<Rightarrow>
        (case migration_plan E names (md_live d) of
           Inl a \<Rightarrow> (d, a)
         | Inr targets \<Rightarrow>
           (if \<not> JournalSchema (journal_of sha targets) then (d, MigrationInterrupted)
            else case run_steps sha (ro_steps io) (migration_steps sha collate targets) d of
              (d', _, out) \<Rightarrow> (d', migration_end out))))"

section \<open>Preflight\<close>

datatype preflight_error = PfMalformedIndex | PfMigration migration_answer | PfThrows | PfDied

record preflight_io =
  pf_readable :: bool
  pf_recover :: recovery_io
  pf_migrate :: recovery_io
  pf_recover2 :: recovery_io
  pf_retry :: recovery_io

definition index_current :: "lifecycle_file \<Rightarrow> bool" where
  "index_current f \<longleftrightarrow> (case f of [v] \<Rightarrow> json_version v = Some 2 | _ \<Rightarrow> False)"

fun recovery_error :: "recovery_answer \<Rightarrow> preflight_error option" where
  "recovery_error (Recovered _) = None"
| "recovery_error RecoveryRequired = Some (PfMigration MigrationRecoveryRequired)"
| "recovery_error RecoveryThrows = Some PfThrows"
| "recovery_error RecoveryDied = Some PfDied"

fun migration_ok :: "migration_answer \<Rightarrow> bool" where
  "migration_ok Migrated = True"
| "migration_ok AlreadyCurrent = True"
| "migration_ok _ = False"

text \<open>The part after the version has been looked at: migrate, recover when that fails, and migrate again.\<close>

definition migrate_with_retry ::
    "host_env \<Rightarrow> (lifecycle_file \<Rightarrow> string) \<Rightarrow> (string \<Rightarrow> nat) \<Rightarrow> string list \<Rightarrow> preflight_io \<Rightarrow> migration_disk \<Rightarrow>
       migration_disk \<times> preflight_error option" where
  "migrate_with_retry E sha collate names io d =
     (case migrateLifecycleState E sha collate names (pf_migrate io) d of
        (d1, a) \<Rightarrow>
          (if migration_ok a then (d1, None)
           else if a = MigrationDied then (d1, Some PfDied)
           else case recoverLifecycleMigration sha collate (pf_recover2 io) d1 of
             (d2, r) \<Rightarrow>
               (case recovery_error r of
                  Some e \<Rightarrow> (d2, Some e)
                | None \<Rightarrow>
                  (case migrateLifecycleState E sha collate names (pf_retry io) d2 of
                     (d3, b) \<Rightarrow> (d3, if migration_ok b then None else if b = MigrationDied then Some PfDied
                                      else Some (PfMigration b))))))"

definition preflightLifecycle ::
    "host_env \<Rightarrow> (lifecycle_file \<Rightarrow> string) \<Rightarrow> (string \<Rightarrow> nat) \<Rightarrow> string list \<Rightarrow> preflight_io \<Rightarrow> migration_disk \<Rightarrow>
       migration_disk \<times> preflight_error option" where
  "preflightLifecycle E sha collate names io d =
     (if \<not> pf_readable io then (d, Some PfThrows)
      else case md_live d ''active.json'' of
        None \<Rightarrow> (d, None)
      | Some f \<Rightarrow>
        (if length f \<noteq> 1 \<or> NotParsed \<in> set f then (d, Some PfMalformedIndex)
         else if index_current f then
           (if \<not> lifecycleMigrationRequiresRecovery d then (d, None)
            else case recoverLifecycleMigration sha collate (pf_recover io) d of
              (d1, r) \<Rightarrow> (case recovery_error r of
                 Some e \<Rightarrow> (d1, Some e)
               | None \<Rightarrow> migrate_with_retry E sha collate names io d1))
         else migrate_with_retry E sha collate names io d))"

text \<open>
  \<^verbatim>\<open>initializeLifecycle\<close>: a missing index is created under the lock, after a second look. \<open>locked\<close> is the disk at
  that time, another process may have been there.
\<close>

definition fresh_index :: active_index where
  "fresh_index = \<lparr>idx_version = IndexV2 1, idx_revision = 0, idx_entries = []\<rparr>"

definition initialize_locked :: "write_io \<Rightarrow> migration_disk \<Rightarrow> migration_disk \<times> preflight_error option" where
  "initialize_locked io d = (case md_live d ''active.json'' of
     Some _ \<Rightarrow> (d, None)
   | None \<Rightarrow> (case replace_at io ''active.json'' [IndexJson fresh_index] (md_live d) of
       (live, out) \<Rightarrow> (d\<lparr>md_live := live\<rparr>,
         if out = StepDone then None else if out = StepDied then Some PfDied else Some PfThrows)))"

definition initializeLifecycle ::
    "host_env \<Rightarrow> (lifecycle_file \<Rightarrow> string) \<Rightarrow> (string \<Rightarrow> nat) \<Rightarrow> string list \<Rightarrow> preflight_io \<Rightarrow> bool \<Rightarrow> write_io \<Rightarrow>
       migration_disk \<Rightarrow> migration_disk \<Rightarrow> migration_disk \<times> preflight_error option" where
  "initializeLifecycle E sha collate names io lock write d locked = (case md_live d ''active.json'' of
     Some _ \<Rightarrow> preflightLifecycle E sha collate names io d
   | None \<Rightarrow> (if lock then initialize_locked write locked else (locked, Some (PfMigration MigrationRecoveryRequired))))"

end
