(* ===== verification/Migration_Laws.thy ===== *)
theory Migration_Laws
  imports Migration
begin

text \<open>
  The steps of a migration and of a recovery, segment by segment: what each leaves on disk when it is
  done, and what it leaves when it ends early.
\<close>

section \<open>Single steps\<close>

lemma write_end_Done: "write_end out = StepDone \<longleftrightarrow> out = Published"
  by (cases out) auto

lemma copy_end_Done: "copy_end r = StepDone \<longleftrightarrow> r = StepOk"
  by (cases r) auto

lemma replace_at_cases:
  assumes "replace_at io path bytes files = (files', out)"
  shows "(files' = files \<and> out \<noteq> StepDone) \<or> files' = files(path \<mapsto> bytes)"
proof -
  obtain slot res where a: "atomicReplace io bytes (files path) = (slot, res)" by fastforce
  from atomicReplace_atomic [OF a] assms a show ?thesis
    by (auto simp: replace_at_def write_end_Done fun_upd_idem_iff)
qed

lemma write_journal_cases:
  assumes "exec_step sha io (WriteJournal j) d = (d', out)"
  shows "(d' = d \<and> out \<noteq> StepDone) \<or> d' = d\<lparr>md_journal := Some (Json j)\<rparr>"
proof -
  obtain slot res where a: "atomicReplace (mi_write io) (Json j) (md_journal d) = (slot, res)" by fastforce
  from atomicReplace_atomic [OF a] assms a show ?thesis by (cases d) (auto simp: write_end_Done)
qed

lemma write_marker_cases:
  assumes "exec_step sha io (WriteMarker m) d = (d', out)"
  shows "(d' = d \<and> out \<noteq> StepDone) \<or> d' = d\<lparr>md_marker := Some (Json m)\<rparr>"
proof -
  obtain slot res where a: "atomicReplace (mi_write io) (Json m) (md_marker d) = (slot, res)" by fastforce
  from atomicReplace_atomic [OF a] assms a show ?thesis by (cases d) (auto simp: write_end_Done)
qed

lemma backup_cases:
  assumes "exec_step sha io (Backup p h) d = (d', out)"
  shows "d' = d\<lparr>md_backup := md_backup d'\<rparr> \<and> (out = StepDone \<longrightarrow> (\<exists>f. md_live d p = Some f \<and> md_backup d' = (md_backup d)(p \<mapsto> f)))"
  using assms by (cases d) (auto simp: copy_end_Done verify_end_def split: option.splits if_splits)

lemma stage_cases:
  assumes "exec_step sha io (Stage p t) d = (d', out)"
  shows "d' = d\<lparr>md_staged := md_staged d'\<rparr> \<and> (out = StepDone \<longrightarrow> md_staged d' = (md_staged d)(p \<mapsto> t))"
proof -
  obtain staged res where r: "replace_at (mi_write io) p t (md_staged d) = (staged, res)" by fastforce
  from replace_at_cases [OF r] assms r show ?thesis by (cases d) (auto split: if_splits)
qed

lemma publish_cases:
  assumes "exec_step sha io (Publish p h) d = (d', out)"
  shows "(d' = d \<and> out \<noteq> StepDone) \<or> (\<exists>f. md_staged d p = Some f \<and> d' = d\<lparr>md_live := (md_live d)(p \<mapsto> f)\<rparr>)"
proof (cases "md_staged d p")
  case (Some f)
  obtain live res where r: "replace_at (mi_write io) p f (md_live d) = (live, res)" by fastforce
  from replace_at_cases [OF r] assms r Some show ?thesis by (cases d) (auto split: if_splits)
qed (use assms in \<open>auto split: if_splits\<close>)

lemma restore_cases:
  assumes "exec_step sha io (RestoreFile p) d = (d', out)"
  shows "(d' = d \<and> out \<noteq> StepDone) \<or> (\<exists>f. md_backup d p = Some f \<and> d' = d\<lparr>md_live := (md_live d)(p \<mapsto> f)\<rparr>)"
proof (cases "md_backup d p")
  case (Some f)
  obtain live res where r: "replace_at (mi_write io) p f (md_live d) = (live, res)" by fastforce
  from replace_at_cases [OF r] assms r Some show ?thesis by (cases d) (auto split: if_splits)
qed (use assms in \<open>auto split: if_splits\<close>)

declare exec_step.simps [simp del]

section \<open>Sequences of steps\<close>

lemma run_steps_append:
  "run_steps sha ios (as @ bs) d = (case run_steps sha ios as d of
     (d', ios', out) \<Rightarrow> (if out = StepDone then run_steps sha ios' bs d' else (d', ios', out)))"
  by (induction sha ios as d rule: run_steps.induct) (auto split: prod.splits if_splits)

lemma run_steps_through:
  "run_steps sha ios as d = (e, ios1, StepDone) \<Longrightarrow> run_steps sha ios (as @ bs) d = run_steps sha ios1 bs e"
  by (simp add: run_steps_append)

lemma run_steps_keep:
  assumes "run_steps sha ios ss d = (d', ios', out)" "P d"
    "\<And>io s d d' out. s \<in> set ss \<Longrightarrow> P d \<Longrightarrow> exec_step sha io s d = (d', out) \<Longrightarrow> P d'"
  shows "P d'"
  using assms
proof (induction sha ios ss d rule: run_steps.induct)
  case (3 sha io ios s ss d)
  obtain e res where e: "exec_step sha io s d = (e, res)" by fastforce
  have "P e" using 3(4) 3(3) e by (meson list.set_intros(1))
  show ?case
  proof (cases "res = StepDone")
    case True
    then have "run_steps sha ios ss e = (d', ios', out)" using 3(2) e by simp
    from 3(1) [OF e [symmetric] True this \<open>P e\<close>] 3(4) show ?thesis by (meson list.set_intros(2))
  next
    case False
    then show ?thesis using 3(2) e \<open>P e\<close> by simp
  qed
qed auto

text \<open>A sequence that is cut into two parts: the first ends early, or it is done and the second runs.\<close>

lemma run_steps_split:
  assumes "run_steps sha ios (as @ bs) d = (d', ios', out)"
  obtains (early) "run_steps sha ios as d = (d', ios', out)" "out \<noteq> StepDone"
  | (through) e ios1 where "run_steps sha ios as d = (e, ios1, StepDone)" "run_steps sha ios1 bs e = (d', ios', out)"
  using assms by (auto simp: run_steps_append split: prod.splits if_splits)

lemma run_single:
  assumes "run_steps sha ios [s] d = (d', ios', out)"
  obtains (none) "d' = d" "out \<noteq> StepDone" | (step) io where "exec_step sha io s d = (d', out)"
  using assms by (cases ios) (auto split: prod.splits if_splits)

lemma run_done_Cons:
  assumes "run_steps sha ios (s # ss) d = (d', ios', StepDone)"
  obtains io ios1 e where "exec_step sha io s d = (e, StepDone)" "run_steps sha ios1 ss e = (d', ios', StepDone)"
  using assms by (cases ios) (auto split: prod.splits if_splits)

section \<open>The segments of a migration\<close>

lemma backup_segment:
  assumes "run_steps sha ios (map (\<lambda>(p, s, _). Backup p (sha s)) ts) d = (d', ios', out)"
  shows "d' = d\<lparr>md_backup := md_backup d'\<rparr>"
proof -
  let ?P = "\<lambda>x. x = d\<lparr>md_backup := md_backup x\<rparr>"
  have "?P d'"
  proof (rule run_steps_keep [OF assms])
    fix io st x x' res
    assume "st \<in> set (map (\<lambda>(p, s, _). Backup p (sha s)) ts)" "?P x" "exec_step sha io st x = (x', res)"
    moreover from this obtain p h where "st = Backup p h" by auto
    ultimately have "x' = x\<lparr>md_backup := md_backup x'\<rparr>" "?P x" using backup_cases by blast+
    then show "?P x'" by (metis migration_disk.surjective migration_disk.update_convs(2))
  qed simp
  then show ?thesis .
qed

lemma stage_segment:
  assumes "run_steps sha ios (map (\<lambda>(p, _, t). Stage p t) ts) d = (d', ios', out)"
  shows "d' = d\<lparr>md_staged := md_staged d'\<rparr>"
proof -
  let ?P = "\<lambda>x. x = d\<lparr>md_staged := md_staged x\<rparr>"
  have "?P d'"
  proof (rule run_steps_keep [OF assms])
    fix io st x x' res
    assume "st \<in> set (map (\<lambda>(p, _, t). Stage p t) ts)" "?P x" "exec_step sha io st x = (x', res)"
    moreover from this obtain p t where "st = Stage p t" by auto
    ultimately have "x' = x\<lparr>md_staged := md_staged x'\<rparr>" "?P x" using stage_cases by blast+
    then show "?P x'" by (metis migration_disk.surjective migration_disk.update_convs(3))
  qed simp
  then show ?thesis .
qed

lemma backups_done:
  assumes "run_steps sha ios (map (\<lambda>(p, s, _). Backup p (sha s)) ts) d = (d', ios', StepDone)"
    "distinct (map fst ts)" "\<forall>(p, s, t) \<in> set ts. md_live d p = Some s"
  shows "(\<forall>(p, s, t) \<in> set ts. md_backup d' p = Some s) \<and> (\<forall>p. p \<notin> fst ` set ts \<longrightarrow> md_backup d' p = md_backup d p)"
  using assms
proof (induction ts arbitrary: ios d)
  case (Cons x ts)
  obtain p s t where x: "x = (p, s, t)" by (cases x) auto
  with Cons.prems(1) have "run_steps sha ios (Backup p (sha s) # map (\<lambda>(p, s, _). Backup p (sha s)) ts) d = (d', ios', StepDone)"
    by simp
  then obtain io ios1 e where e: "exec_step sha io (Backup p (sha s)) d = (e, StepDone)"
    "run_steps sha ios1 (map (\<lambda>(p, s, _). Backup p (sha s)) ts) e = (d', ios', StepDone)"
    by (rule run_done_Cons)
  from backup_cases [OF e(1)] Cons.prems(3) x
  have b: "e = d\<lparr>md_backup := md_backup e\<rparr>" "md_backup e = (md_backup d)(p \<mapsto> s)" by auto
  have "md_live e = md_live d" by (subst b(1)) simp
  with Cons.IH [OF e(2)] Cons.prems(2,3) x b(2) show ?case by auto
qed auto

lemma stages_done:
  assumes "run_steps sha ios (map (\<lambda>(p, _, t). Stage p t) ts) d = (d', ios', StepDone)" "distinct (map fst ts)"
  shows "(\<forall>(p, s, t) \<in> set ts. md_staged d' p = Some t) \<and> (\<forall>p. p \<notin> fst ` set ts \<longrightarrow> md_staged d' p = md_staged d p)"
  using assms
proof (induction ts arbitrary: ios d)
  case (Cons x ts)
  obtain p s t where x: "x = (p, s, t)" by (cases x) auto
  with Cons.prems(1) have "run_steps sha ios (Stage p t # map (\<lambda>(p, _, t). Stage p t) ts) d = (d', ios', StepDone)"
    by simp
  then obtain io ios1 e where e: "exec_step sha io (Stage p t) d = (e, StepDone)"
    "run_steps sha ios1 (map (\<lambda>(p, _, t). Stage p t) ts) e = (d', ios', StepDone)"
    by (rule run_done_Cons)
  from stage_cases [OF e(1)] have "md_staged e = (md_staged d)(p \<mapsto> t)" by blast
  with Cons.IH [OF e(2)] Cons.prems(2) x show ?case by auto
qed auto

lemma set_ordered [simp]: "set (ordered collate f xs) = set xs"
  by (simp add: ordered_def)

lemma journals_segment:
  assumes "run_steps sha ios (map WriteJournal js) d = (d', ios', out)"
  shows "d' = d\<lparr>md_journal := md_journal d'\<rparr> \<and> (md_journal d' = md_journal d \<or> (\<exists>j \<in> set js. md_journal d' = Some (Json j))) \<and>
    (out = StepDone \<and> js \<noteq> [] \<longrightarrow> md_journal d' = Some (Json (last js)))"
  using assms
proof (induction js arbitrary: ios d)
  case (Cons j js)
  have "run_steps sha ios ([WriteJournal j] @ map WriteJournal js) d = (d', ios', out)" using Cons.prems by simp
  then show ?case
  proof (rule run_steps_split)
    assume a: "run_steps sha ios [WriteJournal j] d = (d', ios', out)" "out \<noteq> StepDone"
    from a(1) have "d' = d \<or> d' = d\<lparr>md_journal := Some (Json j)\<rparr>" by (rule run_single) (use write_journal_cases in blast)+
    then show ?thesis using a(2) by auto
  next
    fix e ios1
    assume a: "run_steps sha ios [WriteJournal j] d = (e, ios1, StepDone)" and b: "run_steps sha ios1 (map WriteJournal js) e = (d', ios', out)"
    from a have e: "e = d\<lparr>md_journal := Some (Json j)\<rparr>" by (rule run_single) (use write_journal_cases in blast)+
    from Cons.IH [OF b] b e show ?thesis by (cases "js = []") auto
  qed
qed simp

end
