(* ===== verification/Migration_Properties.thy ===== *)
theory Migration_Properties
  imports Migration_Laws Migration_Record_Properties
begin

text \<open>
  Correctness of the migration: whatever the host does, and however often the migration and its recovery
  end early, the files are at the end those of version 1 or all of version 2, and a recovery or the next
  preflight that runs through gets there.
\<close>

section \<open>What holds at every point\<close>

definition sources_in :: "migration_target list \<Rightarrow> migration_disk \<Rightarrow> bool" where
  "sources_in targets d \<longleftrightarrow> (\<forall>(p, s, t) \<in> set targets. md_live d p = Some s)"

definition converted_in :: "migration_target list \<Rightarrow> migration_disk \<Rightarrow> bool" where
  "converted_in targets d \<longleftrightarrow> (\<forall>(p, s, t) \<in> set targets. md_live d p = Some t)"

definition either_in :: "migration_target list \<Rightarrow> migration_disk \<Rightarrow> bool" where
  "either_in targets d \<longleftrightarrow> (\<forall>(p, s, t) \<in> set targets. md_live d p = Some s \<or> md_live d p = Some t)"

definition backed_up :: "migration_target list \<Rightarrow> migration_disk \<Rightarrow> bool" where
  "backed_up targets d \<longleftrightarrow> (\<forall>(p, s, t) \<in> set targets. md_backup d p = Some s)"

definition apart_from :: "migration_target list \<Rightarrow> (string \<rightharpoonup> lifecycle_file) \<Rightarrow> migration_disk \<Rightarrow> bool" where
  "apart_from targets live d \<longleftrightarrow> (\<forall>p. p \<notin> fst ` set targets \<longrightarrow> md_live d p = live p)"

definition phase_inv :: "(lifecycle_file \<Rightarrow> string) \<Rightarrow> migration_target list \<Rightarrow> migration_disk \<Rightarrow> migration_phase \<Rightarrow> bool" where
  "phase_inv sha targets d ph \<longleftrightarrow> (case ph of
     PhPrepared \<Rightarrow> sources_in targets d
   | PhBackingUp \<Rightarrow> sources_in targets d
   | PhCommitted \<Rightarrow> converted_in targets d \<and> backed_up targets d \<and>
       (\<exists>m. md_marker d = Some (Json m) \<and> publication_complete sha d (journal_of sha targets) m)
   | _ \<Rightarrow> either_in targets d \<and> backed_up targets d)"

definition journal_inv :: "(lifecycle_file \<Rightarrow> string) \<Rightarrow> migration_target list \<Rightarrow> journal \<Rightarrow> bool" where
  "journal_inv sha targets j \<longleftrightarrow> jr_items j = jr_items (journal_of sha targets) \<and> set (jr_published j) \<subseteq> fst ` set targets"

definition mig_inv ::
    "(lifecycle_file \<Rightarrow> string) \<Rightarrow> migration_target list \<Rightarrow> (string \<rightharpoonup> lifecycle_file) \<Rightarrow> migration_disk \<Rightarrow> bool" where
  "mig_inv sha targets live d \<longleftrightarrow> apart_from targets live d \<and>
     (case md_journal d of
        None \<Rightarrow> sources_in targets d
      | Some (Json j) \<Rightarrow> journal_inv sha targets j \<and> phase_inv sha targets d (jr_phase j)
      | _ \<Rightarrow> False)"

lemma sources_either: "sources_in targets d \<Longrightarrow> either_in targets d"
  by (auto simp: sources_in_def either_in_def)

lemma converted_either: "converted_in targets d \<Longrightarrow> either_in targets d"
  by (auto simp: converted_in_def either_in_def)

lemma complete_same:
  "md_live d' = md_live d \<Longrightarrow> jr_items j' = jr_items j \<Longrightarrow> publication_complete sha d' j' m = publication_complete sha d j m"
  by (simp add: publication_complete_def)

text \<open>The facts about a disk that a step on another part of it keeps.\<close>

lemma in_same [simp]:
  "sources_in targets (d\<lparr>md_journal := x\<rparr>) = sources_in targets d" "converted_in targets (d\<lparr>md_journal := x\<rparr>) = converted_in targets d"
  "either_in targets (d\<lparr>md_journal := x\<rparr>) = either_in targets d" "backed_up targets (d\<lparr>md_journal := x\<rparr>) = backed_up targets d"
  "apart_from targets live (d\<lparr>md_journal := x\<rparr>) = apart_from targets live d"
  "phase_inv sha targets (d\<lparr>md_journal := x\<rparr>) ph = phase_inv sha targets d ph"
  "sources_in targets (d\<lparr>md_backup := b\<rparr>) = sources_in targets d" "either_in targets (d\<lparr>md_backup := b\<rparr>) = either_in targets d"
  "apart_from targets live (d\<lparr>md_backup := b\<rparr>) = apart_from targets live d"
  "sources_in targets (d\<lparr>md_staged := c\<rparr>) = sources_in targets d" "either_in targets (d\<lparr>md_staged := c\<rparr>) = either_in targets d"
  "backed_up targets (d\<lparr>md_staged := c\<rparr>) = backed_up targets d" "apart_from targets live (d\<lparr>md_staged := c\<rparr>) = apart_from targets live d"
  "either_in targets (d\<lparr>md_marker := m\<rparr>) = either_in targets d" "backed_up targets (d\<lparr>md_marker := m\<rparr>) = backed_up targets d"
  "converted_in targets (d\<lparr>md_marker := m\<rparr>) = converted_in targets d"
  "apart_from targets live (d\<lparr>md_marker := m\<rparr>) = apart_from targets live d"
  "backed_up targets (d\<lparr>md_live := l\<rparr>) = backed_up targets d"
  by (simp_all add: sources_in_def converted_in_def either_in_def backed_up_def apart_from_def phase_inv_def publication_complete_def
      split: migration_phase.split)

lemma publication_complete_journal [simp]:
  "publication_complete sha (d\<lparr>md_journal := x\<rparr>) j m = publication_complete sha d j m"
  "publication_complete sha (d\<lparr>md_marker := y\<rparr>) j m = publication_complete sha d j m"
  by (simp_all add: publication_complete_def)

definition publishable :: "migration_target list \<Rightarrow> (string \<rightharpoonup> lifecycle_file) \<Rightarrow> migration_disk \<Rightarrow> bool" where
  "publishable targets live d \<longleftrightarrow> apart_from targets live d \<and> either_in targets d \<and> backed_up targets d"

lemma mig_inv_publishable:
  assumes "publishable targets live d" "md_journal d = Some (Json j)" "journal_inv sha targets j"
    "jr_phase j \<in> {PhBackedUp, PhStaged, PhPublishing}"
  shows "mig_inv sha targets live d"
  using assms by (auto simp: mig_inv_def publishable_def phase_inv_def)

lemma target_unique:
  "distinct (map fst targets) \<Longrightarrow> (p, s, t) \<in> set targets \<Longrightarrow> (p, s', t') \<in> set targets \<Longrightarrow> s' = s \<and> t' = t"
  using eq_key_imp_eq_value [of targets p "(s', t')" "(s, t)"] by simp

text \<open>One file replaced by its source or its conversion; the others are unchanged.\<close>

lemma replace_one:
  assumes "publishable targets live d" "distinct (map fst targets)" "(p, s, t) \<in> set targets" "f = s \<or> f = t"
  shows "publishable targets live (d\<lparr>md_live := (md_live d)(p \<mapsto> f)\<rparr>)"
  unfolding publishable_def
proof (intro conjI)
  have "p \<in> fst ` set targets" using assms(3) by force
  then show "apart_from targets live (d\<lparr>md_live := (md_live d)(p \<mapsto> f)\<rparr>)"
    using assms(1) by (auto simp: publishable_def apart_from_def)
  show "either_in targets (d\<lparr>md_live := (md_live d)(p \<mapsto> f)\<rparr>)"
    unfolding either_in_def
  proof clarify
    fix q s' t'
    assume m: "(q, s', t') \<in> set targets" "md_live (d\<lparr>md_live := (md_live d)(p \<mapsto> f)\<rparr>) q \<noteq> Some t'"
    then show "md_live (d\<lparr>md_live := (md_live d)(p \<mapsto> f)\<rparr>) q = Some s'"
      using target_unique [OF assms(2,3)] assms(1,4) by (cases "q = p") (auto simp: publishable_def either_in_def)
  qed
qed (use assms(1) in \<open>simp add: publishable_def\<close>)

section \<open>A migration keeps it\<close>

lemma publish_step_set:
  "st \<in> set (publish_steps sha j ts) \<Longrightarrow> (\<exists>p s t. (p, s, t) \<in> set ts \<and> st = Publish p (sha t)) \<or>
     (\<exists>ps. set ps \<subseteq> fst ` set ts \<and> st = WriteJournal (j\<lparr>jr_published := jr_published j @ ps\<rparr>))"
proof (induction sha j ts rule: publish_steps.induct)
  case (2 sha j p s t ts)
  then consider "st = Publish p (sha t)" | "st = WriteJournal (j\<lparr>jr_published := jr_published j @ [p]\<rparr>)"
    | "st \<in> set (publish_steps sha (j\<lparr>jr_published := jr_published j @ [p]\<rparr>) ts)"
    by (auto simp: Let_def)
  then show ?case
  proof cases
    case 1
    then show ?thesis by auto
  next
    case 2
    then show ?thesis by (intro disjI2 exI [of _ "[p]"]) simp
  next
    case 3
    from "2.IH" [OF refl 3] show ?thesis
    proof (elim disjE exE conjE)
      fix ps assume "set ps \<subseteq> fst ` set ts" "st = WriteJournal (j\<lparr>jr_published := jr_published j @ [p]\<rparr>
        \<lparr>jr_published := jr_published (j\<lparr>jr_published := jr_published j @ [p]\<rparr>) @ ps\<rparr>)"
      then show ?thesis by (intro disjI2 exI [of _ "p # ps"]) auto
    qed auto
  qed
qed simp

definition publishing :: "(lifecycle_file \<Rightarrow> string) \<Rightarrow> migration_target list \<Rightarrow> (string \<rightharpoonup> lifecycle_file) \<Rightarrow> migration_disk \<Rightarrow> bool" where
  "publishing sha targets live d \<longleftrightarrow> publishable targets live d \<and> (\<forall>(p, s, t) \<in> set targets. md_staged d p = Some t) \<and>
     (\<exists>j. md_journal d = Some (Json j) \<and> journal_inv sha targets j \<and> jr_phase j = PhPublishing)"

lemma publishing_inv: "publishing sha targets live d \<Longrightarrow> mig_inv sha targets live d"
  unfolding publishing_def using mig_inv_publishable by blast

lemma publish_keeps:
  assumes "run_steps sha ios (publish_steps sha j ts) d = (d', ios', out)" "publishing sha targets live d"
    "distinct (map fst targets)" "set ts \<subseteq> set targets" "journal_inv sha targets j" "jr_phase j = PhPublishing"
  shows "publishing sha targets live d'"
  using assms(1,2)
proof (rule run_steps_keep)
  fix io st x x' res
  assume st: "st \<in> set (publish_steps sha j ts)" and x: "publishing sha targets live x" and e: "exec_step sha io st x = (x', res)"
  from publish_step_set [OF st] show "publishing sha targets live x'"
  proof (elim disjE exE conjE)
    fix p s t assume a: "(p, s, t) \<in> set ts" "st = Publish p (sha t)"
    have "(p, s, t) \<in> set targets" using a(1) assms(4) by blast
    then have "md_staged x p = Some t" "publishable targets live (x\<lparr>md_live := (md_live x)(p \<mapsto> t)\<rparr>)"
      using x replace_one [OF _ assms(3)] by (auto simp: publishing_def)
    with publish_cases [OF e [unfolded a(2)]] x show ?thesis by (auto simp: publishing_def)
  next
    fix ps assume a: "set ps \<subseteq> fst ` set ts" "st = WriteJournal (j\<lparr>jr_published := jr_published j @ ps\<rparr>)"
    then have "journal_inv sha targets (j\<lparr>jr_published := jr_published j @ ps\<rparr>)"
      using assms(4,5) by (auto simp: journal_inv_def)
    with write_journal_cases [OF e [unfolded a(2)]] x assms(6) show ?thesis by (auto simp: publishing_def publishable_def)
  qed
qed

lemma publish_done:
  assumes "run_steps sha ios (publish_steps sha j ts) d = (d', ios', StepDone)" "distinct (map fst targets)"
    "set ts \<subseteq> set targets" "\<forall>(p, s, t) \<in> set targets. md_staged d p = Some t"
  shows "(\<forall>(p, s, t) \<in> set ts. md_live d' p = Some t) \<and> (\<forall>(p, s, t) \<in> set targets. md_live d p = Some t \<longrightarrow> md_live d' p = Some t)"
  using assms
proof (induction ts arbitrary: ios d j)
  case (Cons x ts)
  obtain p s t where x: "x = (p, s, t)" by (cases x) auto
  define j1 where "j1 = j\<lparr>jr_published := jr_published j @ [p]\<rparr>"
  have xin: "(p, s, t) \<in> set targets" using Cons.prems(3) x by simp
  have "run_steps sha ios (Publish p (sha t) # WriteJournal j1 # publish_steps sha j1 ts) d = (d', ios', StepDone)"
    using Cons.prems(1) x by (simp add: j1_def Let_def)
  then obtain io io2 e g ios2 where e: "exec_step sha io (Publish p (sha t)) d = (e, StepDone)"
    and g: "exec_step sha io2 (WriteJournal j1) e = (g, StepDone)"
    and r: "run_steps sha ios2 (publish_steps sha j1 ts) g = (d', ios', StepDone)"
    by (elim run_done_Cons)
  have "e = d\<lparr>md_live := (md_live d)(p \<mapsto> t)\<rparr>" using publish_cases [OF e] Cons.prems(4) xin by auto
  then have g: "md_live g = (md_live d)(p \<mapsto> t)" "md_staged g = md_staged d" using write_journal_cases [OF g] by auto
  from Cons.IH [OF r Cons.prems(2)] Cons.prems(3,4) g(2)
  have ih: "\<forall>(q, s', t') \<in> set ts. md_live d' q = Some t'" "\<forall>(q, s', t') \<in> set targets. md_live g q = Some t' \<longrightarrow> md_live d' q = Some t'"
    by simp_all
  have "md_live d' p = Some t" using ih(2) xin g(1) by auto
  moreover have "md_live d' q = Some t'" if "(q, s', t') \<in> set targets" "md_live d q = Some t'" for q s' t'
  proof -
    have "md_live g q = Some t'" using that g(1) target_unique [OF Cons.prems(2) xin] by (cases "q = p") auto
    then show ?thesis using ih(2) that(1) by auto
  qed
  ultimately show ?case using ih(1) x by auto
qed auto

lemma phase_journal_inv [simp]:
  "journal_inv sha targets (journal_of sha targets)" "journal_inv sha targets (in_phase ph j) = journal_inv sha targets j"
  "jr_phase (in_phase ph j) = ph" "jr_phase (journal_of sha targets) = PhPrepared"
  by (simp_all add: journal_inv_def journal_of_def in_phase_def)

lemma in_same_disk:
  "d' = d\<lparr>md_journal := md_journal d'\<rparr> \<Longrightarrow> sources_in targets d' = sources_in targets d \<and> apart_from targets live d' = apart_from targets live d \<and>
     either_in targets d' = either_in targets d \<and> backed_up targets d' = backed_up targets d \<and> md_staged d' = md_staged d \<and> md_live d' = md_live d"
  by (metis in_same(1,3,4,5) migration_disk.select_convs(1,3) migration_disk.surjective migration_disk.update_convs(5))

text \<open>Up to the backups.\<close>

lemma prepare_keeps:
  assumes "run_steps sha ios (map WriteJournal [journal_of sha targets, in_phase PhBackingUp (journal_of sha targets)] @
      map (\<lambda>(p, s, _). Backup p (sha s)) targets) d = (d', ios', out)"
    "md_journal d = None" "sources_in targets d" "apart_from targets live d" "distinct (map fst targets)"
  shows "mig_inv sha targets live d' \<and> (out = StepDone \<longrightarrow> sources_in targets d' \<and> apart_from targets live d' \<and> backed_up targets d' \<and>
    md_journal d' = Some (Json (in_phase PhBackingUp (journal_of sha targets))))"
  using assms(1)
proof (rule run_steps_split)
  assume a: "run_steps sha ios (map WriteJournal [journal_of sha targets, in_phase PhBackingUp (journal_of sha targets)]) d = (d', ios', out)"
    "out \<noteq> StepDone"
  from journals_segment [OF a(1)] in_same_disk [of d' d targets live] assms(2-4) a(2) show ?thesis
    by (auto simp: mig_inv_def phase_inv_def)
next
  fix e ios1
  assume a: "run_steps sha ios (map WriteJournal [journal_of sha targets, in_phase PhBackingUp (journal_of sha targets)]) d = (e, ios1, StepDone)"
    and b: "run_steps sha ios1 (map (\<lambda>(p, s, _). Backup p (sha s)) targets) e = (d', ios', out)"
  from journals_segment [OF a] in_same_disk [of e d targets live] assms(2-4)
  have e: "sources_in targets e" "apart_from targets live e" "md_journal e = Some (Json (in_phase PhBackingUp (journal_of sha targets)))"
    by auto
  have d': "d' = e\<lparr>md_backup := md_backup d'\<rparr>" by (rule backup_segment [OF b])
  have same: "sources_in targets d'" "apart_from targets live d'" "md_journal d' = md_journal e"
    using e by (subst d', simp)+
  have "out = StepDone \<Longrightarrow> backed_up targets d'"
    using backups_done [of sha ios1 targets e d' ios'] b assms(5) e(1) by (auto simp: backed_up_def sources_in_def)
  then show ?thesis using same e(3) by (auto simp: mig_inv_def phase_inv_def)
qed

text \<open>Up to the staged files.\<close>

lemma stage_keeps:
  assumes "run_steps sha ios (map WriteJournal [in_phase PhBackedUp (journal_of sha targets)] @ (map (\<lambda>(p, _, t). Stage p t) targets @
      map WriteJournal [in_phase PhStaged (journal_of sha targets), in_phase PhPublishing (journal_of sha targets)])) d = (d', ios', out)"
    "sources_in targets d" "apart_from targets live d" "backed_up targets d" "distinct (map fst targets)"
    "md_journal d = Some (Json (in_phase PhBackingUp (journal_of sha targets)))"
  shows "mig_inv sha targets live d' \<and> (out = StepDone \<longrightarrow> publishing sha targets live d')"
  using assms(1)
proof (rule run_steps_split)
  assume a: "run_steps sha ios (map WriteJournal [in_phase PhBackedUp (journal_of sha targets)]) d = (d', ios', out)" "out \<noteq> StepDone"
  from journals_segment [OF a(1)] in_same_disk [of d' d targets live] assms(2-6) a(2) show ?thesis
    by (auto simp: mig_inv_def phase_inv_def dest: sources_either)
next
  fix e ios1
  assume a: "run_steps sha ios (map WriteJournal [in_phase PhBackedUp (journal_of sha targets)]) d = (e, ios1, StepDone)"
    and b: "run_steps sha ios1 (map (\<lambda>(p, _, t). Stage p t) targets @
      map WriteJournal [in_phase PhStaged (journal_of sha targets), in_phase PhPublishing (journal_of sha targets)]) e = (d', ios', out)"
  from journals_segment [OF a] in_same_disk [of e d targets live] assms(2-4)
  have e: "publishable targets live e" "md_journal e = Some (Json (in_phase PhBackedUp (journal_of sha targets)))"
    by (auto simp: publishable_def dest: sources_either)
  from b show ?thesis
  proof (rule run_steps_split)
    assume c: "run_steps sha ios1 (map (\<lambda>(p, _, t). Stage p t) targets) e = (d', ios', out)" "out \<noteq> StepDone"
    have d': "d' = e\<lparr>md_staged := md_staged d'\<rparr>" by (rule stage_segment [OF c(1)])
    have "publishable targets live d'" "md_journal d' = md_journal e" using e by (subst d', simp add: publishable_def)+
    then show ?thesis using e(2) c(2) mig_inv_publishable [of targets live d' _ sha] by simp
  next
    fix g ios2
    assume c: "run_steps sha ios1 (map (\<lambda>(p, _, t). Stage p t) targets) e = (g, ios2, StepDone)"
      and r: "run_steps sha ios2 (map WriteJournal [in_phase PhStaged (journal_of sha targets), in_phase PhPublishing (journal_of sha targets)]) g = (d', ios', out)"
    have g: "g = e\<lparr>md_staged := md_staged g\<rparr>" by (rule stage_segment [OF c])
    have "publishable targets live g" "md_journal g = md_journal e" using e by (subst g, simp add: publishable_def)+
    moreover have "\<forall>(p, s, t) \<in> set targets. md_staged g p = Some t" using stages_done [OF c assms(5)] by blast
    ultimately show ?thesis using journals_segment [OF r] in_same_disk [of d' g targets live] e(2) mig_inv_publishable [of targets live d' _ sha]
      by (auto simp: publishing_def publishable_def)
  qed
qed

text \<open>Up to the end.\<close>

definition marker_of :: "(lifecycle_file \<Rightarrow> string) \<Rightarrow> migration_target list \<Rightarrow> commit_marker" where
  "marker_of sha targets = map (\<lambda>(p, _, t). (p, sha t)) targets"

lemma marker_complete:
  assumes "converted_in targets d" "JournalSchema (journal_of sha targets)" "distinct (map fst targets)"
  shows "publication_complete sha d (journal_of sha targets) (marker_of sha targets)"
proof -
  have "map fst (marker_of sha targets) = map fst targets" by (simp add: marker_of_def case_prod_unfold)
  then have d: "distinct (map fst (rev (marker_of sha targets)))" using assms(3) by (simp add: rev_map [symmetric])
  have "map_of (rev (marker_of sha targets)) p = Some (sha t)" if "(p, s, t) \<in> set targets" for p s t
    using that by (intro map_of_is_SomeI [OF d]) (force simp: marker_of_def)
  moreover have "CommitMarkerSchema (marker_of sha targets)"
    using assms(2) by (auto simp: CommitMarkerSchema_def JournalSchema_def journal_of_def marker_of_def list_all_iff)
  ultimately show ?thesis using assms(1)
    by (auto simp: publication_complete_def journal_of_def marker_of_def converted_in_def verified_def list_all_iff)
qed

lemma commit_keeps:
  assumes "run_steps sha ios (publish_steps sha (in_phase PhPublishing (journal_of sha targets)) (ordered collate fst targets) @
      [WriteMarker (marker_of sha targets)] @
      map WriteJournal [in_phase PhCommitted (journal_of sha targets)\<lparr>jr_published := map fst (ordered collate fst targets)\<rparr>]) d = (d', ios', out)"
    "publishing sha targets live d" "distinct (map fst targets)" "JournalSchema (journal_of sha targets)"
  shows "mig_inv sha targets live d' \<and> (out = StepDone \<longrightarrow> converted_in targets d' \<and>
    md_journal d' = Some (Json (in_phase PhCommitted (journal_of sha targets)\<lparr>jr_published := map fst (ordered collate fst targets)\<rparr>)))"
  using assms(1)
proof (rule run_steps_split)
  assume a: "run_steps sha ios (publish_steps sha (in_phase PhPublishing (journal_of sha targets)) (ordered collate fst targets)) d = (d', ios', out)"
    "out \<noteq> StepDone"
  from publish_keeps [OF a(1) assms(2,3)] a(2) show ?thesis using publishing_inv by simp
next
  fix e ios1
  assume a: "run_steps sha ios (publish_steps sha (in_phase PhPublishing (journal_of sha targets)) (ordered collate fst targets)) d = (e, ios1, StepDone)"
    and b: "run_steps sha ios1 ([WriteMarker (marker_of sha targets)] @ map WriteJournal [in_phase PhCommitted (journal_of sha targets)
      \<lparr>jr_published := map fst (ordered collate fst targets)\<rparr>]) e = (d', ios', out)"
  have pe: "publishing sha targets live e" using publish_keeps [OF a assms(2,3)] by simp
  have ce: "converted_in targets e"
    using publish_done [OF a assms(3)] assms(2) by (simp add: publishing_def converted_in_def)
  have pm: "publishing sha targets live (e\<lparr>md_marker := Some (Json (marker_of sha targets))\<rparr>)"
    using pe by (simp add: publishing_def publishable_def)
  from b show ?thesis
  proof (rule run_steps_split)
    assume c: "run_steps sha ios1 [WriteMarker (marker_of sha targets)] e = (d', ios', out)" "out \<noteq> StepDone"
    from c(1) have "d' = e \<or> d' = e\<lparr>md_marker := Some (Json (marker_of sha targets))\<rparr>"
      by (rule run_single) (use write_marker_cases in blast)+
    then show ?thesis using publishing_inv pe pm c(2) by blast
  next
    fix g ios2
    assume c: "run_steps sha ios1 [WriteMarker (marker_of sha targets)] e = (g, ios2, StepDone)"
      and r: "run_steps sha ios2 (map WriteJournal [in_phase PhCommitted (journal_of sha targets)
        \<lparr>jr_published := map fst (ordered collate fst targets)\<rparr>]) g = (d', ios', out)"
    from c have g: "g = e\<lparr>md_marker := Some (Json (marker_of sha targets))\<rparr>"
      by (rule run_single) (use write_marker_cases in blast)+
    let ?com = "in_phase PhCommitted (journal_of sha targets)\<lparr>jr_published := map fst (ordered collate fst targets)\<rparr>"
    have com: "journal_inv sha targets ?com" "jr_phase ?com = PhCommitted" by (auto simp: journal_inv_def in_phase_def)
    have fin: "mig_inv sha targets live (g\<lparr>md_journal := Some (Json ?com)\<rparr>) \<and> converted_in targets (g\<lparr>md_journal := Some (Json ?com)\<rparr>)"
      using pm ce g com marker_complete [OF ce assms(4,3)]
      by (auto simp: mig_inv_def phase_inv_def publishing_def publishable_def)
    from journals_segment [OF r] have "d' = g \<or> d' = g\<lparr>md_journal := Some (Json ?com)\<rparr>" "out = StepDone \<longrightarrow> d' = g\<lparr>md_journal := Some (Json ?com)\<rparr>"
      by (cases d'; cases g; auto)+
    then show ?thesis using fin publishing_inv pm g by auto
  qed
qed

lemma migration_steps_parts:
  "migration_steps sha collate targets =
     (map WriteJournal [journal_of sha targets, in_phase PhBackingUp (journal_of sha targets)] @
       map (\<lambda>(p, s, _). Backup p (sha s)) targets) @
     (map WriteJournal [in_phase PhBackedUp (journal_of sha targets)] @ (map (\<lambda>(p, _, t). Stage p t) targets @
       map WriteJournal [in_phase PhStaged (journal_of sha targets), in_phase PhPublishing (journal_of sha targets)])) @
     (publish_steps sha (in_phase PhPublishing (journal_of sha targets)) (ordered collate fst targets) @
       [WriteMarker (marker_of sha targets)] @
       map WriteJournal [in_phase PhCommitted (journal_of sha targets)\<lparr>jr_published := map fst (ordered collate fst targets)\<rparr>])"
  by (simp add: migration_steps_def marker_of_def Let_def)

lemma steps_keep:
  assumes "run_steps sha ios (migration_steps sha collate targets) d = (d', ios', out)"
    "md_journal d = None" "sources_in targets d" "apart_from targets live d" "distinct (map fst targets)" "JournalSchema (journal_of sha targets)"
  shows "mig_inv sha targets live d' \<and> (out = StepDone \<longrightarrow> converted_in targets d' \<and>
    md_journal d' = Some (Json (in_phase PhCommitted (journal_of sha targets)\<lparr>jr_published := map fst (ordered collate fst targets)\<rparr>)))"
  using assms(1) unfolding migration_steps_parts
proof (rule run_steps_split)
  assume "run_steps sha ios (map WriteJournal [journal_of sha targets, in_phase PhBackingUp (journal_of sha targets)] @
       map (\<lambda>(p, s, _). Backup p (sha s)) targets) d = (d', ios', out)" "out \<noteq> StepDone"
  then show ?thesis using prepare_keeps assms(2-5) by blast
next
  fix e ios1
  assume a: "run_steps sha ios (map WriteJournal [journal_of sha targets, in_phase PhBackingUp (journal_of sha targets)] @
       map (\<lambda>(p, s, _). Backup p (sha s)) targets) d = (e, ios1, StepDone)"
    and b: "run_steps sha ios1 ((map WriteJournal [in_phase PhBackedUp (journal_of sha targets)] @ (map (\<lambda>(p, _, t). Stage p t) targets @
       map WriteJournal [in_phase PhStaged (journal_of sha targets), in_phase PhPublishing (journal_of sha targets)])) @
     (publish_steps sha (in_phase PhPublishing (journal_of sha targets)) (ordered collate fst targets) @
       [WriteMarker (marker_of sha targets)] @
       map WriteJournal [in_phase PhCommitted (journal_of sha targets)\<lparr>jr_published := map fst (ordered collate fst targets)\<rparr>])) e = (d', ios', out)"
  from prepare_keeps [OF a assms(2-5)] have e: "sources_in targets e" "apart_from targets live e" "backed_up targets e"
    "md_journal e = Some (Json (in_phase PhBackingUp (journal_of sha targets)))"
    by auto
  from b show ?thesis
  proof (rule run_steps_split)
    assume "run_steps sha ios1 (map WriteJournal [in_phase PhBackedUp (journal_of sha targets)] @ (map (\<lambda>(p, _, t). Stage p t) targets @
       map WriteJournal [in_phase PhStaged (journal_of sha targets), in_phase PhPublishing (journal_of sha targets)])) e = (d', ios', out)"
      "out \<noteq> StepDone"
    then show ?thesis using stage_keeps [OF _ e(1-3) assms(5) e(4)] by blast
  next
    fix g ios2
    assume c: "run_steps sha ios1 (map WriteJournal [in_phase PhBackedUp (journal_of sha targets)] @ (map (\<lambda>(p, _, t). Stage p t) targets @
       map WriteJournal [in_phase PhStaged (journal_of sha targets), in_phase PhPublishing (journal_of sha targets)])) e = (g, ios2, StepDone)"
      and r: "run_steps sha ios2 (publish_steps sha (in_phase PhPublishing (journal_of sha targets)) (ordered collate fst targets) @
       [WriteMarker (marker_of sha targets)] @
       map WriteJournal [in_phase PhCommitted (journal_of sha targets)\<lparr>jr_published := map fst (ordered collate fst targets)\<rparr>]) g = (d', ios', out)"
    from stage_keeps [OF c e(1-3) assms(5) e(4)] have "publishing sha targets live g" by blast
    from commit_keeps [OF r this assms(5,6)] show ?thesis .
  qed
qed

section \<open>A recovery keeps it\<close>

definition sound_targets :: "(lifecycle_file \<Rightarrow> string) \<Rightarrow> migration_target list \<Rightarrow> bool" where
  "sound_targets sha targets \<longleftrightarrow> distinct (map fst targets) \<and> JournalSchema (journal_of sha targets) \<and>
     (\<forall>(p, s, t) \<in> set targets. sha s \<noteq> sha t)"

lemma items_of: "jr_items (journal_of sha targets) = map (\<lambda>(p, s, t). \<lparr>ji_path = p, ji_sourceHash = sha s, ji_targetHash = sha t\<rparr>) targets"
  by (simp add: journal_of_def)

lemma item_paths: "ji_path ` set (jr_items (journal_of sha targets)) = fst ` set targets"
  "map ji_path (jr_items (journal_of sha targets)) = map fst targets"
  by (auto simp: items_of image_image case_prod_unfold)

lemma inv_readJournal:
  assumes "mig_inv sha targets live d" "sound_targets sha targets"
  shows "(readJournal d = JournalAbsent \<and> md_journal d = None \<and> sources_in targets d) \<or>
    (\<exists>j. readJournal d = JournalFound j \<and> md_journal d = Some (Json j) \<and> journal_inv sha targets j \<and> phase_inv sha targets d (jr_phase j))"
proof (cases "md_journal d")
  case None
  then show ?thesis using assms(1) by (simp add: readJournal_def mig_inv_def)
next
  case (Some b)
  with assms(1) obtain j where j: "b = Json j" "journal_inv sha targets j" "phase_inv sha targets d (jr_phase j)"
    by (auto simp: mig_inv_def split: file_bytes.splits)
  have items: "jr_items j = jr_items (journal_of sha targets)" using j(2) by (simp add: journal_inv_def)
  have "\<forall>p \<in> fst ` set targets. p \<noteq> []"
    using assms(2) by (auto simp: sound_targets_def JournalSchema_def items_of list_all_iff)
  then have "list_all (\<lambda>p. p \<noteq> []) (jr_published j)" using j(2) unfolding journal_inv_def list_all_iff by blast
  then have "JournalSchema j" using assms(2) items by (simp add: sound_targets_def JournalSchema_def)
  moreover have "distinct (map ji_path (jr_items j))" using assms(2) items by (simp add: item_paths sound_targets_def)
  moreover have "list_all (\<lambda>p. p \<in> ji_path ` set (jr_items j)) (jr_published j)"
    using j(2) items by (auto simp: journal_inv_def item_paths list_all_iff)
  ultimately have "readJournal d = JournalFound j" using Some j(1) by (simp add: readJournal_def)
  then show ?thesis using Some j by simp
qed

lemma complete_converted:
  assumes "publication_complete sha d j m" "journal_inv sha targets j" "either_in targets d" "\<forall>(p, s, t) \<in> set targets. sha s \<noteq> sha t"
  shows "converted_in targets d"
proof -
  have "verified sha (md_live d p) (sha t)" if "(p, s, t) \<in> set targets" for p s t
    using assms(1,2) that by (fastforce simp: publication_complete_def journal_inv_def items_of list_all_iff)
  then show ?thesis using assms(3,4) by (fastforce simp: converted_in_def either_in_def verified_def)
qed

lemma complete_items:
  "jr_items j = jr_items j' \<Longrightarrow> publication_complete sha d j m = publication_complete sha d j' m"
  by (simp add: publication_complete_def)

lemma restore_keeps:
  assumes "run_steps sha ios (map (\<lambda>i. RestoreFile (ji_path i)) is) d = (d', ios', out)"
    "publishable targets live d" "distinct (map fst targets)" "\<forall>i \<in> set is. ji_path i \<in> fst ` set targets"
  shows "publishable targets live d' \<and> md_journal d' = md_journal d"
proof -
  let ?P = "\<lambda>x. publishable targets live x \<and> md_journal x = md_journal d"
  have "?P d'"
  proof (rule run_steps_keep [OF assms(1)])
    fix io st x x' res
    assume st: "st \<in> set (map (\<lambda>i. RestoreFile (ji_path i)) is)" and x: "?P x" and e: "exec_step sha io st x = (x', res)"
    from st obtain i where "i \<in> set is" "st = RestoreFile (ji_path i)" by auto
    with assms(4) obtain p s t where p: "st = RestoreFile p" "(p, s, t) \<in> set targets" by fastforce
    then have "md_backup x p = Some s" using x by (auto simp: publishable_def backed_up_def)
    with restore_cases [OF e [unfolded p(1)]] x replace_one [OF _ assms(3) p(2), of live x s] show "?P x'" by auto
  qed (use assms(2) in simp)
  then show ?thesis .
qed

lemma restore_done:
  assumes "run_steps sha ios (map (\<lambda>i. RestoreFile (ji_path i)) is) d = (d', ios', StepDone)"
  shows "md_backup d' = md_backup d \<and> (\<forall>p. md_live d' p = (if p \<in> ji_path ` set is then md_backup d p else md_live d p))"
  using assms
proof (induction "is" arbitrary: ios d)
  case (Cons i "is")
  then have "run_steps sha ios (RestoreFile (ji_path i) # map (\<lambda>i. RestoreFile (ji_path i)) is) d = (d', ios', StepDone)" by simp
  then obtain io ios1 e where e: "exec_step sha io (RestoreFile (ji_path i)) d = (e, StepDone)"
    "run_steps sha ios1 (map (\<lambda>i. RestoreFile (ji_path i)) is) e = (d', ios', StepDone)" by (rule run_done_Cons)
  from restore_cases [OF e(1)] obtain f where f: "md_backup d (ji_path i) = Some f" "e = d\<lparr>md_live := (md_live d)(ji_path i \<mapsto> f)\<rparr>" by auto
  with Cons.IH [OF e(2)] show ?case by auto
qed simp

lemma close_segment:
  assumes "run_steps sha ios [KeepHistory, RemoveJournal] d = (d', ios', out)"
  shows "d' = d \<and> out \<noteq> StepDone \<or> d' = d\<lparr>md_journal := None\<rparr>"
  using assms by (cases ios; cases "tl ios") (auto simp: exec_step.simps copy_end_Done split: prod.splits if_splits)

lemma restored_keeps:
  assumes "run_steps sha ios (map (\<lambda>i. RestoreFile (ji_path i)) (ordered collate ji_path (jr_items j)) @ [KeepHistory, RemoveJournal]) d = (d', ios', out)"
    "mig_inv sha targets live d" "md_journal d = Some (Json j)" "publishable targets live d" "journal_inv sha targets j"
    "jr_phase j \<in> {PhBackedUp, PhStaged, PhPublishing}" "sound_targets sha targets"
  shows "mig_inv sha targets live d' \<and> (out = StepDone \<longrightarrow> md_journal d' = None)"
proof -
  have d: "distinct (map fst targets)" using assms(7) by (simp add: sound_targets_def)
  have paths: "ji_path ` set (ordered collate ji_path (jr_items j)) = fst ` set targets"
    using assms(5) by (simp add: journal_inv_def item_paths)
  then have p: "\<forall>i \<in> set (ordered collate ji_path (jr_items j)). ji_path i \<in> fst ` set targets" by blast
  from assms(1) show ?thesis
  proof (rule run_steps_split)
    assume a: "run_steps sha ios (map (\<lambda>i. RestoreFile (ji_path i)) (ordered collate ji_path (jr_items j))) d = (d', ios', out)" "out \<noteq> StepDone"
    from restore_keeps [OF a(1) assms(4) d p] show ?thesis using mig_inv_publishable assms(3,5,6) a(2) by metis
  next
    fix e ios1
    assume a: "run_steps sha ios (map (\<lambda>i. RestoreFile (ji_path i)) (ordered collate ji_path (jr_items j))) d = (e, ios1, StepDone)"
      and b: "run_steps sha ios1 [KeepHistory, RemoveJournal] e = (d', ios', out)"
    from restore_keeps [OF a assms(4) d p] have e: "publishable targets live e" "md_journal e = Some (Json j)" using assms(3) by auto
    have src: "sources_in targets e"
      unfolding sources_in_def
    proof clarify
      fix q s t assume "(q, s, t) \<in> set targets"
      then show "md_live e q = Some s" using restore_done [OF a] paths assms(4) by (force simp: publishable_def backed_up_def)
    qed
    have "mig_inv sha targets live e" using mig_inv_publishable [OF e assms(5,6)] .
    moreover have "mig_inv sha targets live (e\<lparr>md_journal := None\<rparr>)" using e(1) src by (simp add: mig_inv_def publishable_def)
    ultimately show ?thesis using close_segment [OF b] by auto
  qed
qed

lemma run_recovery_Some:
  "run_recovery sha ios (Some (steps, status)) d = (d', a) \<Longrightarrow>
     \<exists>ios' out. run_steps sha ios steps d = (d', ios', out) \<and> a = end_answer status out"
  by (auto simp: run_recovery_def split: prod.splits)

lemma end_answer_Recovered: "end_answer st out = Recovered st' \<longleftrightarrow> out = StepDone \<and> st' = st"
  by (cases out) auto

definition settled :: "migration_disk \<Rightarrow> bool" where
  "settled d \<longleftrightarrow> \<not> lifecycleMigrationRequiresRecovery d"

lemma commit_again:
  assumes "run_steps sha ios [WriteJournal (j\<lparr>jr_phase := PhCommitted\<rparr>)] d = (d', ios', out)"
    "mig_inv sha targets live d" "journal_inv sha targets j" "apart_from targets live d" "converted_in targets d"
    "backed_up targets d" "md_marker d = Some (Json m)" "publication_complete sha d j m"
  shows "mig_inv sha targets live d' \<and> (out = StepDone \<longrightarrow> md_journal d' = Some (Json (j\<lparr>jr_phase := PhCommitted\<rparr>)))"
proof -
  let ?j = "j\<lparr>jr_phase := PhCommitted\<rparr>"
  have "run_steps sha ios (map WriteJournal [?j]) d = (d', ios', out)" using assms(1) by simp
  from journals_segment [OF this]
  have "d' = d \<or> d' = d\<lparr>md_journal := Some (Json ?j)\<rparr>" "out = StepDone \<longrightarrow> d' = d\<lparr>md_journal := Some (Json ?j)\<rparr>"
    by (cases d'; cases d; auto)+
  moreover have "publication_complete sha d (journal_of sha targets) m"
    using assms(3,8) complete_items [of j "journal_of sha targets" sha d m] by (simp add: journal_inv_def)
  then have "mig_inv sha targets live (d\<lparr>md_journal := Some (Json ?j)\<rparr>)"
    using assms(3-7) by (auto simp: mig_inv_def phase_inv_def journal_inv_def)
  ultimately show ?thesis using assms(2) by auto
qed

lemma finalize_keeps:
  assumes "run_recovery sha ios (finalize sha collate d j) d = (d', a)" "mig_inv sha targets live d" "sound_targets sha targets"
    "md_journal d = Some (Json j)" "jr_phase j \<noteq> PhPrepared" "jr_phase j \<noteq> PhBackingUp"
  shows "mig_inv sha targets live d' \<and> (a = Recovered st \<longrightarrow> md_journal d' = None \<or> (\<exists>j. md_journal d' = Some (Json j) \<and> jr_phase j = PhCommitted))"
proof -
  have j: "journal_inv sha targets j" "phase_inv sha targets d (jr_phase j)" "apart_from targets live d"
    using assms(2,4) by (auto simp: mig_inv_def)
  have either: "either_in targets d" "backed_up targets d"
    using j(2) assms(5,6) by (auto simp: phase_inv_def dest: converted_either split: migration_phase.splits)
  show ?thesis
  proof (cases "\<exists>m. md_marker d = Some (Json m) \<and> publication_complete sha d j m")
    case True
    then obtain m where m: "md_marker d = Some (Json m)" "publication_complete sha d j m" by blast
    with assms(1) have "run_recovery sha ios (Some ([WriteJournal (j\<lparr>jr_phase := PhCommitted\<rparr>)], Finalized)) d = (d', a)"
      by (simp add: finalize_def)
    from run_recovery_Some [OF this] obtain ios' out where r: "run_steps sha ios [WriteJournal (j\<lparr>jr_phase := PhCommitted\<rparr>)] d = (d', ios', out)"
      "a = end_answer Finalized out" by blast
    have "converted_in targets d"
      using complete_converted [OF m(2) j(1) either(1)] assms(3) by (simp add: sound_targets_def)
    from commit_again [OF r(1) assms(2) j(1,3) this either(2) m] r(2) show ?thesis by (auto simp: end_answer_Recovered)
  next
    case False
    have "jr_phase j \<noteq> PhCommitted"
    proof
      assume "jr_phase j = PhCommitted"
      with j(2) obtain m where "md_marker d = Some (Json m)" "publication_complete sha d (journal_of sha targets) m"
        by (auto simp: phase_inv_def)
      then show False using False j(1) complete_items [of j "journal_of sha targets" sha d m] by (auto simp: journal_inv_def)
    qed
    then have ph: "jr_phase j \<in> {PhBackedUp, PhStaged, PhPublishing}" using assms(5,6) by (cases "jr_phase j") auto
    have pub: "publishable targets live d" using either j(3) by (simp add: publishable_def)
    have plan: "finalize sha collate d j = restore sha collate d j"
      using False by (auto simp: finalize_def split: option.split file_bytes.split)
    show ?thesis
    proof (cases "restore sha collate d j")
      case None
      then show ?thesis using assms(1,2) plan by (auto simp: run_recovery_def)
    next
      case (Some q)
      then have q: "q = (map (\<lambda>i. RestoreFile (ji_path i)) (ordered collate ji_path (jr_items j)) @ [KeepHistory, RemoveJournal], Restored)"
        by (auto simp: restore_def split: if_splits)
      have "run_recovery sha ios (Some (map (\<lambda>i. RestoreFile (ji_path i)) (ordered collate ji_path (jr_items j)) @ [KeepHistory, RemoveJournal], Restored)) d = (d', a)"
        using assms(1) plan Some q by simp
      from run_recovery_Some [OF this] obtain ios' out where
        r: "run_steps sha ios (map (\<lambda>i. RestoreFile (ji_path i)) (ordered collate ji_path (jr_items j)) @ [KeepHistory, RemoveJournal]) d = (d', ios', out)"
          "a = end_answer Restored out" by blast
      from restored_keeps [OF r(1) assms(2,4) pub j(1) ph assms(3)] r(2) show ?thesis by (auto simp: end_answer_Recovered)
    qed
  qed
qed

lemma recover_keeps:
  assumes "recoverLifecycleMigration sha collate io d = (d', a)" "mig_inv sha targets live d" "sound_targets sha targets"
  shows "mig_inv sha targets live d' \<and> (a = Recovered st \<longrightarrow> md_journal d' = None \<or> (\<exists>j. md_journal d' = Some (Json j) \<and> jr_phase j = PhCommitted))"
proof (cases "ro_lock io \<and> ro_readable io")
  case True
  from inv_readJournal [OF assms(2,3)] show ?thesis
  proof (elim disjE exE conjE)
    assume "readJournal d = JournalAbsent" "md_journal d = None"
    then show ?thesis using assms(1,2) True by (auto simp: recoverLifecycleMigration_def)
  next
    fix j assume j: "readJournal d = JournalFound j" "md_journal d = Some (Json j)" "journal_inv sha targets j" "phase_inv sha targets d (jr_phase j)"
    show ?thesis
    proof (cases "jr_phase j = PhPrepared \<or> jr_phase j = PhBackingUp")
      case early: True
      with assms(1) j(1) True have "run_recovery sha (ro_steps io) (Some ([KeepHistory, RemoveJournal], Restored)) d = (d', a)"
        by (auto simp: recoverLifecycleMigration_def discardUnpublishedJournal_def)
      from run_recovery_Some [OF this] obtain ios' out where r: "run_steps sha (ro_steps io) [KeepHistory, RemoveJournal] d = (d', ios', out)"
        "a = end_answer Restored out" by blast
      have "mig_inv sha targets live (d\<lparr>md_journal := None\<rparr>)"
        using assms(2) j(4) early by (auto simp: mig_inv_def phase_inv_def)
      then show ?thesis using close_segment [OF r(1)] r(2) assms(2) by (auto simp: end_answer_Recovered)
    next
      case False
      with assms(1) j(1) True have "run_recovery sha (ro_steps io) (finalize sha collate d j) d = (d', a)"
        by (simp add: recoverLifecycleMigration_def)
      from finalize_keeps [OF this assms(2,3) j(2)] False show ?thesis by blast
    qed
  qed
qed (use assms in \<open>auto simp: recoverLifecycleMigration_def split: if_splits\<close>)

lemma settled_inv:
  assumes "mig_inv sha targets live d" "sound_targets sha targets" "settled d"
  shows "(md_journal d = None \<and> sources_in targets d) \<or> converted_in targets d"
  using inv_readJournal [OF assms(1,2)] assms(3)
  by (auto simp: settled_def lifecycleMigrationRequiresRecovery_def phase_inv_def)

lemma inv_either: "mig_inv sha targets live d \<Longrightarrow> either_in targets d \<and> apart_from targets live d"
  by (auto simp: mig_inv_def phase_inv_def dest: sources_either converted_either split: option.splits file_bytes.splits migration_phase.splits)

section \<open>What a migration starts from\<close>

lemma those_pairs:
  "those (map (\<lambda>p. map_option (Pair p) (live p)) names) = Some source \<Longrightarrow>
     map fst source = names \<and> (\<forall>(p, f) \<in> set source. live p = Some f)"
  by (induction names arbitrary: source) (auto split: option.splits)

lemma migration_plan_targets:
  assumes "migration_plan E names live = Inr targets"
  shows "map fst targets = names \<and> (\<forall>(p, s, t) \<in> set targets. live p = Some s)"
proof -
  from assms obtain source ids where "those (map (\<lambda>p. map_option (Pair p) (live p)) names) = Some source"
    "targets = map (\<lambda>(p, f). (p, f, case migrateLifecycleRecord E p f ids of RecMigrated g \<Rightarrow> g | _ \<Rightarrow> f)) source"
    by (auto simp: migration_plan_def Let_def split: if_splits option.splits)
  with those_pairs [OF this(1)] show ?thesis by (auto simp: case_prod_unfold)
qed

definition recover_all :: "(lifecycle_file \<Rightarrow> string) \<Rightarrow> (string \<Rightarrow> nat) \<Rightarrow> recovery_io list \<Rightarrow> migration_disk \<Rightarrow> migration_disk" where
  "recover_all sha collate ios d = foldl (\<lambda>d io. fst (recoverLifecycleMigration sha collate io d)) d ios"

lemma recover_all_keeps: "mig_inv sha targets live d \<Longrightarrow> sound_targets sha targets \<Longrightarrow> mig_inv sha targets live (recover_all sha collate ios d)"
proof (induction ios arbitrary: d)
  case (Cons io ios)
  have "mig_inv sha targets live (fst (recoverLifecycleMigration sha collate io d))"
    using recover_keeps [OF _ Cons.prems] by (metis prod.collapse)
  then show ?case using Cons by (simp add: recover_all_def)
qed (simp add: recover_all_def)

lemma migrate_keeps:
  assumes "md_journal d = None" "migration_plan E names (md_live d) = Inr targets" "distinct names"
    "migrateLifecycleState E sha collate names io d = (d', a)" "\<forall>(p, s, t) \<in> set targets. sha s \<noteq> sha t"
  shows "d' = d \<and> a \<noteq> Migrated \<or> sound_targets sha targets \<and> mig_inv sha targets (md_live d) d' \<and>
    (a = Migrated \<longrightarrow> converted_in targets d' \<and> settled d')"
proof (cases "ro_lock io \<and> ro_readable io \<and> JournalSchema (journal_of sha targets)")
  case True
  have t: "map fst targets = names" "\<forall>(p, s, t) \<in> set targets. md_live d p = Some s" using migration_plan_targets [OF assms(2)] by blast+
  have st: "sound_targets sha targets" using True assms(3,5) t(1) by (simp add: sound_targets_def)
  from assms(1,2,4) True obtain ios' out where r: "run_steps sha (ro_steps io) (migration_steps sha collate targets) d = (d', ios', out)"
    "a = migration_end out"
    by (auto simp: migrateLifecycleState_def readJournal_def split: prod.splits)
  have "sources_in targets d" "apart_from targets (md_live d) d" "distinct (map fst targets)"
    using t assms(3) by (auto simp: sources_in_def apart_from_def)
  from steps_keep [OF r(1) assms(1) this] True have k: "mig_inv sha targets (md_live d) d'"
    "out = StepDone \<longrightarrow> converted_in targets d' \<and>
      md_journal d' = Some (Json (in_phase PhCommitted (journal_of sha targets)\<lparr>jr_published := map fst (ordered collate fst targets)\<rparr>))"
    by blast+
  have "a = Migrated \<longrightarrow> out = StepDone" using r(2) by (cases out) auto
  moreover have "out = StepDone \<longrightarrow> settled d'"
    using k inv_readJournal [OF k(1) st] by (auto simp: settled_def lifecycleMigrationRequiresRecovery_def in_phase_def)
  ultimately show ?thesis using st k by blast
qed (use assms in \<open>auto simp: migrateLifecycleState_def readJournal_def split: if_splits\<close>)

section \<open>All or nothing\<close>

text \<open>
  A repository with an empty index of version 1, and a host on which every step succeeds.
\<close>

definition version_hash :: "lifecycle_file \<Rightarrow> string" where
  "version_hash f = replicate 64 (case f of
     [IndexJson i] \<Rightarrow> (if idx_version i = IndexV1 then CHR ''1'' else if idx_revision i = 0 then CHR ''2'' else CHR ''3'')
   | _ \<Rightarrow> CHR ''0'')"

definition legacy_disk :: migration_disk where
  "legacy_disk = \<lparr>md_live = [''active.json'' \<mapsto> [IndexJson legacy_index]], md_backup = Map.empty, md_staged = Map.empty,
     md_marker = None, md_journal = None\<rparr>"

definition good_io :: "nat \<Rightarrow> recovery_io" where
  "good_io n = \<lparr>ro_lock = True, ro_readable = True, ro_steps = replicate n \<lparr>mi_readable = True,
     mi_write = \<lparr>wi_deadline = True, wi_prepare = StepOk, wi_guard = StepOk, wi_attempts = [(True, RenameOk)]\<rparr>,
     mi_copy = StepOk, mi_left = None\<rparr>\<rparr>"

definition legacy_targets :: "migration_target list" where
  "legacy_targets = [(''active.json'', [IndexJson legacy_index], [IndexJson (legacy_index\<lparr>idx_version := IndexV2 1\<rparr>)])]"

lemma legacy_plan: "migration_plan sample_env [''active.json''] (md_live legacy_disk) = Inr legacy_targets"
  by code_simp

lemma legacy_hashes: "\<forall>(p, s, t) \<in> set legacy_targets. version_hash s \<noteq> version_hash t"
  by code_simp

text \<open>
  C11. A migration is all or nothing. However the host behaves while it runs, it may be cut off or fail at any
  step, and however many recoveries then run, succeed, fail or are cut off: every file holds its source or
  its conversion and every other file is as before; and whenever no recovery is required, the
  files are all as they were or are all converted. SHA-256 only has to tell each file from its
  conversion.
\<close>

theorem migration_all_or_nothing:
  assumes "md_journal d = None" "distinct names" "migration_plan E names (md_live d) = Inr targets"
    "\<forall>(p, s, t) \<in> set targets. sha s \<noteq> sha t"
    "d' = recover_all sha collate ios (fst (migrateLifecycleState E sha collate names io d))"
  shows "either_in targets d' \<and> (\<forall>p. p \<notin> set names \<longrightarrow> md_live d' p = md_live d p) \<and>
    (lifecycleMigrationRequiresRecovery d' \<or> sources_in targets d' \<or> converted_in targets d')"
proof -
  obtain e a where m: "migrateLifecycleState E sha collate names io d = (e, a)" by fastforce
  have t: "map fst targets = names" "\<forall>(p, s, t) \<in> set targets. md_live d p = Some s" using migration_plan_targets [OF assms(3)] by blast+
  have names: "fst ` set targets = set names" using arg_cong [OF t(1), of set] by simp
  from migrate_keeps [OF assms(1,3,2) m assms(4)] show ?thesis
  proof (elim disjE conjE)
    assume "e = d"
    have "recover_all sha collate ios d = d"
      using assms(1) by (induction ios) (auto simp: recover_all_def recoverLifecycleMigration_def readJournal_def)
    then have "d' = d" using assms(5) m \<open>e = d\<close> by simp
    moreover have "sources_in targets d" using t(2) by (simp add: sources_in_def)
    ultimately show ?thesis by (simp add: sources_either)
  next
    assume s: "sound_targets sha targets" "mig_inv sha targets (md_live d) e"
    have "mig_inv sha targets (md_live d) d'" using recover_all_keeps [OF s(2,1)] assms(5) m by simp
    with inv_either [OF this] settled_inv [OF this s(1)] names show ?thesis by (auto simp: settled_def apart_from_def)
  qed
qed

theorem migration_all_or_nothing_witness:
  "either_in legacy_targets (recover_all version_hash length [good_io 3]
     (fst (migrateLifecycleState sample_env version_hash length [''active.json''] (good_io 9) legacy_disk)))"
  using migration_all_or_nothing [OF _ _ legacy_plan legacy_hashes refl, of length "[good_io 3]" "good_io 9"]
  by (simp add: legacy_disk_def)

end
