(* ===== verification/Migration_Progress.thy ===== *)
theory Migration_Progress
  imports Migration_Properties
begin

text \<open>
  Progress of the migration: on a host on which every step succeeds, a migration and a recovery run
  through, and the preflight after an interrupted migration ends with all files converted. A migration
  that runs late undoes what has been committed since; that is shown at the end.
\<close>

section \<open>Steps that succeed\<close>

definition smooth_io :: "migration_io \<Rightarrow> bool" where
  "smooth_io io \<longleftrightarrow> mi_readable io \<and> smooth (mi_write io) \<and> mi_copy io = StepOk"

definition ready :: "(lifecycle_file \<Rightarrow> string) \<Rightarrow> migration_disk \<Rightarrow> migration_step \<Rightarrow> bool" where
  "ready sha d st \<longleftrightarrow> (case st of
     Backup p h \<Rightarrow> \<exists>f. md_live d p = Some f \<and> sha f = h
   | Publish p h \<Rightarrow> \<exists>f. md_staged d p = Some f \<and> sha f = h
   | RestoreFile p \<Rightarrow> md_backup d p \<noteq> None
   | _ \<Rightarrow> True)"

lemma smooth_replace_at: "smooth io \<Longrightarrow> replace_at io p f files = (files(p \<mapsto> f), StepDone)"
  by (simp add: replace_at_def atomicReplace_smooth)

lemma smooth_step: "smooth_io io \<Longrightarrow> ready sha d st \<Longrightarrow> snd (exec_step sha io st d) = StepDone"
  by (cases st)
    (auto simp: smooth_io_def ready_def exec_step.simps smooth_replace_at atomicReplace_smooth verify_end_def verified_def)

lemma smooth_run:
  assumes "Q d" "\<And>st d. st \<in> set ss \<Longrightarrow> Q d \<Longrightarrow> ready sha d st"
    "\<And>io st d d' out. st \<in> set ss \<Longrightarrow> Q d \<Longrightarrow> exec_step sha io st d = (d', out) \<Longrightarrow> Q d'"
    "length ss \<le> length ios" "\<forall>io \<in> set ios. smooth_io io"
  shows "\<exists>d' ios'. run_steps sha ios ss d = (d', ios', StepDone) \<and> length ios' = length ios - length ss \<and> set ios' \<subseteq> set ios"
  using assms
proof (induction ss arbitrary: d ios)
  case (Cons st ss)
  from Cons.prems(4) obtain io rest where ios: "ios = io # rest" by (cases ios) auto
  have "snd (exec_step sha io st d) = StepDone"
    using Cons.prems(1,2,5) ios by (intro smooth_step) auto
  then obtain e where e: "exec_step sha io st d = (e, StepDone)" by (metis prod.collapse)
  have "\<exists>d' ios'. run_steps sha rest ss e = (d', ios', StepDone) \<and> length ios' = length rest - length ss \<and> set ios' \<subseteq> set rest"
  proof (rule Cons.IH)
    show "Q e" using Cons.prems(1,3) e by (meson list.set_intros(1))
    show "ready sha d st" if "st \<in> set ss" "Q d" for st d using Cons.prems(2) that by simp
    show "Q d'" if "st \<in> set ss" "Q d" "exec_step sha io st d = (d', out)" for io st d d' out
      using Cons.prems(3) [OF _ that(2,3)] that(1) by simp
  qed (use Cons.prems(4,5) ios in auto)
  then show ?case using ios e by auto
qed auto

definition smooth_recovery :: "nat \<Rightarrow> recovery_io \<Rightarrow> bool" where
  "smooth_recovery n io \<longleftrightarrow> ro_lock io \<and> ro_readable io \<and> n \<le> length (ro_steps io) \<and> (\<forall>io \<in> set (ro_steps io). smooth_io io)"

section \<open>A recovery that runs through\<close>

lemma length_ordered [simp]: "length (ordered collate f xs) = length xs"
  by (simp add: ordered_def)

lemma restore_runs:
  assumes "backed_up targets d" "journal_inv sha targets j" "length (jr_items j) + 2 \<le> length ios" "\<forall>io \<in> set ios. smooth_io io"
  shows "\<exists>d' ios'. run_steps sha ios (map (\<lambda>i. RestoreFile (ji_path i)) (ordered collate ji_path (jr_items j)) @ [KeepHistory, RemoveJournal]) d =
    (d', ios', StepDone)"
proof -
  have paths: "ji_path ` set (jr_items j) = fst ` set targets" using assms(2) by (simp add: journal_inv_def item_paths)
  have "\<exists>d' ios'. run_steps sha ios (map (\<lambda>i. RestoreFile (ji_path i)) (ordered collate ji_path (jr_items j)) @ [KeepHistory, RemoveJournal]) d =
    (d', ios', StepDone) \<and> length ios' = length ios -
      length (map (\<lambda>i. RestoreFile (ji_path i)) (ordered collate ji_path (jr_items j)) @ [KeepHistory, RemoveJournal]) \<and> set ios' \<subseteq> set ios"
  proof (rule smooth_run [where Q = "backed_up targets"])
    fix st x
    assume "st \<in> set (map (\<lambda>i. RestoreFile (ji_path i)) (ordered collate ji_path (jr_items j)) @ [KeepHistory, RemoveJournal])" "backed_up targets x"
    then show "ready sha x st" using paths by (fastforce simp: ready_def backed_up_def)
  next
    fix io st x x' out
    assume st: "st \<in> set (map (\<lambda>i. RestoreFile (ji_path i)) (ordered collate ji_path (jr_items j)) @ [KeepHistory, RemoveJournal])" "backed_up targets x"
      "exec_step sha io st x = (x', out)"
    from st(1) consider p where "st = RestoreFile p" | "st = KeepHistory" | "st = RemoveJournal" by auto
    then show "backed_up targets x'"
    proof cases
      case 1
      then show ?thesis using restore_cases st(2,3) by fastforce
    next
      case 2
      then show ?thesis using st(2,3) by (simp add: exec_step.simps)
    next
      case 3
      then show ?thesis using st(2,3) by (auto simp: exec_step.simps split: if_splits)
    qed
  qed (use assms in auto)
  then show ?thesis by blast
qed

lemma recovery_runs:
  assumes "mig_inv sha targets live d" "sound_targets sha targets" "smooth_recovery (length targets + 2) io"
  shows "\<exists>st. snd (recoverLifecycleMigration sha collate io d) = Recovered st"
proof -
  have io: "ro_lock io" "ro_readable io" "length targets + 2 \<le> length (ro_steps io)" "\<forall>io \<in> set (ro_steps io). smooth_io io"
    using assms(3) by (auto simp: smooth_recovery_def)
  have close: "\<exists>d' ios'. run_steps sha (ro_steps io) [KeepHistory, RemoveJournal] d = (d', ios', StepDone)"
    using smooth_run [where Q = "\<lambda>_. True" and ss = "[KeepHistory, RemoveJournal]" and ios = "ro_steps io"] io(3,4)
    by (fastforce simp: ready_def)
  from inv_readJournal [OF assms(1,2)] show ?thesis
  proof (elim disjE exE conjE)
    assume "readJournal d = JournalAbsent"
    then show ?thesis using io(1,2) by (simp add: recoverLifecycleMigration_def)
  next
    fix j assume j: "readJournal d = JournalFound j" "journal_inv sha targets j" "phase_inv sha targets d (jr_phase j)"
    show ?thesis
    proof (cases "jr_phase j = PhPrepared \<or> jr_phase j = PhBackingUp")
      case True
      then show ?thesis using j(1) io(1,2) close
        by (auto simp: recoverLifecycleMigration_def discardUnpublishedJournal_def run_recovery_def)
    next
      case False
      then have b: "backed_up targets d" using j(3) by (auto simp: phase_inv_def split: migration_phase.splits)
      have len: "length (jr_items j) = length targets" using j(2) by (simp add: journal_inv_def items_of)
      obtain d' ios' where r: "run_steps sha (ro_steps io) (map (\<lambda>i. RestoreFile (ji_path i)) (ordered collate ji_path (jr_items j)) @
          [KeepHistory, RemoveJournal]) d = (d', ios', StepDone)"
        using restore_runs [OF b j(2), of "ro_steps io" collate] io(3,4) len by auto
      obtain g ios2 where w: "run_steps sha (ro_steps io) [WriteJournal (j\<lparr>jr_phase := PhCommitted\<rparr>)] d = (g, ios2, StepDone)"
        using smooth_run [where Q = "\<lambda>_. True" and ss = "[WriteJournal (j\<lparr>jr_phase := PhCommitted\<rparr>)]" and ios = "ro_steps io"] io(3,4)
        by (fastforce simp: ready_def)
      have "list_all (\<lambda>i. verified sha (md_backup d (ji_path i)) (ji_sourceHash i)) (jr_items j)"
        using b j(2) by (fastforce simp: journal_inv_def items_of list_all_iff backed_up_def verified_def)
      then have "restore sha collate d j = Some (map (\<lambda>i. RestoreFile (ji_path i)) (ordered collate ji_path (jr_items j)) @
          [KeepHistory, RemoveJournal], Restored)"
        by (simp add: restore_def)
      then have "snd (run_recovery sha (ro_steps io) (finalize sha collate d j) d) \<in> {Recovered Restored, Recovered Finalized}"
        using r w by (auto simp: finalize_def run_recovery_def split: option.splits file_bytes.splits)
      then show ?thesis using False j(1) io(1,2) by (auto simp: recoverLifecycleMigration_def)
    qed
  qed
qed

section \<open>A migration that runs through\<close>

lemma publish_steps_length: "length (publish_steps sha j ts) = 2 * length ts"
  by (induction sha j ts rule: publish_steps.induct) (auto simp: Let_def)

text \<open>Up to the staged files the sources stay in place; from then on the staged files do.\<close>

lemma staging_runs:
  assumes "sources_in targets d" "length ss \<le> length ios" "\<forall>io \<in> set ios. smooth_io io"
    "\<And>st. st \<in> set ss \<Longrightarrow> (\<exists>j. st = WriteJournal j) \<or> (\<exists>p s t. (p, s, t) \<in> set targets \<and> (st = Backup p (sha s) \<or> st = Stage p t))"
  shows "\<exists>d' ios'. run_steps sha ios ss d = (d', ios', StepDone) \<and> length ios' = length ios - length ss \<and> set ios' \<subseteq> set ios"
proof (rule smooth_run [where Q = "sources_in targets"])
  fix st x assume "st \<in> set ss" "sources_in targets x"
  then show "ready sha x st" using assms(4) by (fastforce simp: ready_def sources_in_def)
next
  fix io st x x' out
  assume st: "st \<in> set ss" "sources_in targets x" "exec_step sha io st x = (x', out)"
  from assms(4) [OF st(1)] consider j where "st = WriteJournal j" | p h where "st = Backup p h" | p t where "st = Stage p t" by blast
  then have "md_live x' = md_live x"
  proof cases
    case 1
    then show ?thesis using write_journal_cases st(3) by fastforce
  next
    case 2
    then have "x' = x\<lparr>md_backup := md_backup x'\<rparr>" using backup_cases st(3) by blast
    then show ?thesis by (metis migration_disk.select_convs(1) migration_disk.surjective migration_disk.update_convs(2))
  next
    case 3
    then have "x' = x\<lparr>md_staged := md_staged x'\<rparr>" using stage_cases st(3) by blast
    then show ?thesis by (metis migration_disk.select_convs(1) migration_disk.surjective migration_disk.update_convs(3))
  qed
  then show "sources_in targets x'" using st(2) by (simp add: sources_in_def)
qed (use assms in auto)

lemma publishing_runs:
  assumes "\<forall>(p, s, t) \<in> set targets. md_staged (d :: migration_disk) p = Some t" "length ss \<le> length ios" "\<forall>io \<in> set ios. smooth_io io"
    "\<And>st. st \<in> set ss \<Longrightarrow> (\<exists>j. st = WriteJournal j) \<or> (\<exists>m. st = WriteMarker m) \<or> (\<exists>p s t. (p, s, t) \<in> set targets \<and> st = Publish p (sha t))"
  shows "\<exists>d' ios'. run_steps sha ios ss d = (d', ios', StepDone) \<and> length ios' = length ios - length ss \<and> set ios' \<subseteq> set ios"
proof (rule smooth_run [where Q = "\<lambda>x :: migration_disk. \<forall>(p, s, t) \<in> set targets. md_staged x p = Some t"])
  fix st and x :: migration_disk
  assume "st \<in> set ss" "\<forall>(p, s, t) \<in> set targets. md_staged x p = Some t"
  then show "ready sha x st" using assms(4) by (fastforce simp: ready_def)
next
  fix io st out and x x' :: migration_disk
  assume st: "st \<in> set ss" "\<forall>(p, s, t) \<in> set targets. md_staged x p = Some t" "exec_step sha io st x = (x', out)"
  from assms(4) [OF st(1)] consider j where "st = WriteJournal j" | m where "st = WriteMarker m" | p h where "st = Publish p h" by blast
  then have "md_staged x' = md_staged x"
    by cases (use write_journal_cases write_marker_cases publish_cases st(3) in fastforce)+
  then show "\<forall>(p, s, t) \<in> set targets. md_staged x' p = Some t" using st(2) by simp
qed (use assms in auto)

lemma publish_parts:
  "st \<in> set (publish_steps sha j (ordered collate fst targets) @ [WriteMarker m] @ map WriteJournal js) \<Longrightarrow>
     (\<exists>j. st = WriteJournal j) \<or> (\<exists>m. st = WriteMarker m) \<or> (\<exists>p s t. (p, s, t) \<in> set targets \<and> st = Publish p (sha t))"
  using publish_step_set [of st sha j "ordered collate fst targets"] by auto

lemma migration_runs:
  assumes "md_journal d = None" "sources_in targets d" "distinct (map fst targets)"
    "4 * length targets + 7 \<le> length ios" "\<forall>io \<in> set ios. smooth_io io"
  shows "\<exists>d' ios'. run_steps sha ios (migration_steps sha collate targets) d = (d', ios', StepDone)"
proof -
  let ?a = "map WriteJournal [journal_of sha targets, in_phase PhBackingUp (journal_of sha targets)] @
    map (\<lambda>(p, s, _). Backup p (sha s)) targets"
  let ?b = "map WriteJournal [in_phase PhBackedUp (journal_of sha targets)] @ (map (\<lambda>(p, _, t). Stage p t) targets @
    map WriteJournal [in_phase PhStaged (journal_of sha targets), in_phase PhPublishing (journal_of sha targets)])"
  let ?c = "publish_steps sha (in_phase PhPublishing (journal_of sha targets)) (ordered collate fst targets) @
    [WriteMarker (marker_of sha targets)] @
    map WriteJournal [in_phase PhCommitted (journal_of sha targets)\<lparr>jr_published := map fst (ordered collate fst targets)\<rparr>]"
  have parts: "st \<in> set ?a \<Longrightarrow> staging st" "st \<in> set ?b \<Longrightarrow> staging st"
    if "staging = (\<lambda>st. (\<exists>j. st = WriteJournal j) \<or> (\<exists>p s t. (p, s, t) \<in> set targets \<and> (st = Backup p (sha s) \<or> st = Stage p t)))" for st staging
    unfolding that by fastforce+
  have "\<exists>e ios1. run_steps sha ios ?a d = (e, ios1, StepDone) \<and> length ios1 = length ios - length ?a \<and> set ios1 \<subseteq> set ios"
    by (rule staging_runs [OF assms(2) _ assms(5) parts(1) [OF refl]]) (use assms(4) in auto)
  then obtain e ios1 where a: "run_steps sha ios ?a d = (e, ios1, StepDone)" "length ios1 = length ios - length ?a" "set ios1 \<subseteq> set ios"
    by blast
  have "apart_from targets (md_live d) d" by (simp add: apart_from_def)
  from prepare_keeps [OF a(1) assms(1,2) this assms(3)] have e: "sources_in targets e" "apart_from targets (md_live d) e" "backed_up targets e"
    "md_journal e = Some (Json (in_phase PhBackingUp (journal_of sha targets)))" by auto
  have "\<exists>g ios2. run_steps sha ios1 ?b e = (g, ios2, StepDone) \<and> length ios2 = length ios1 - length ?b \<and> set ios2 \<subseteq> set ios1"
    by (rule staging_runs [OF e(1) _ _ parts(2) [OF refl]]) (use assms(4,5) a in auto)
  then obtain g ios2 where b: "run_steps sha ios1 ?b e = (g, ios2, StepDone)" "length ios2 = length ios1 - length ?b" "set ios2 \<subseteq> set ios1"
    by blast
  from stage_keeps [OF b(1) e(1-3) assms(3) e(4)] have "\<forall>(p, s, t) \<in> set targets. md_staged g p = Some t" by (simp add: publishing_def)
  then have "\<exists>d' ios3. run_steps sha ios2 ?c g = (d', ios3, StepDone) \<and> length ios3 = length ios2 - length ?c \<and> set ios3 \<subseteq> set ios2"
  proof (rule publishing_runs)
    show "length ?c \<le> length ios2" using assms(4) a(2) b(2) by (simp add: publish_steps_length)
    show "\<forall>io \<in> set ios2. smooth_io io" using assms(5) a(3) b(3) by blast
  qed (rule publish_parts)
  then show ?thesis
    unfolding migration_steps_parts run_steps_through [OF a(1)] run_steps_through [OF b(1)] by blast
qed

section \<open>The preflight after an interrupted migration\<close>

lemma plan_cong:
  assumes "\<forall>p \<in> set names. live p = live' p"
  shows "migration_plan E names live = migration_plan E names live'"
proof -
  have "map (\<lambda>p. map_option (Pair p) (live p)) names = map (\<lambda>p. map_option (Pair p) (live' p)) names"
    using assms by (intro map_cong) simp_all
  then show ?thesis unfolding migration_plan_def by (rule arg_cong)
qed

lemma plan_schema:
  assumes "migration_plan E names live = Inr targets" "\<forall>f. hex_string 64 (sha f)"
  shows "JournalSchema (journal_of sha targets)"
proof -
  have n: "names \<noteq> []" "list_all isLifecyclePath names" using assms(1) by (auto simp: migration_plan_def split: if_splits)
  have "\<not> isLifecyclePath []" by code_simp
  then have "[] \<notin> set names" using n(2) by (auto simp: list_all_iff)
  moreover have names: "map fst targets = names" using migration_plan_targets [OF assms(1)] by blast
  ultimately have "\<forall>x \<in> set targets. fst x \<noteq> []" by (metis image_eqI list.set_map)
  moreover have "targets \<noteq> []" using names n(1) by auto
  ultimately show ?thesis using assms(2) by (auto simp: JournalSchema_def journal_of_def list_all_iff)
qed

lemma index_target:
  assumes "migration_plan E names live = Inr targets" "(''active.json'', s, t) \<in> set targets"
  shows "length s = 1 \<and> NotParsed \<notin> set s \<and> \<not> index_current s \<and> length t = 1 \<and> NotParsed \<notin> set t"
proof -
  from assms(1) obtain source ids where src: "targets = map (\<lambda>(p, f). (p, f, case migrateLifecycleRecord E p f ids of RecMigrated g \<Rightarrow> g | _ \<Rightarrow> f)) source"
    "RecInvalid \<notin> set (map (\<lambda>(p, f). migrateLifecycleRecord E p f ids) source)"
    "RecCurrent \<notin> set (map (\<lambda>(p, f). migrateLifecycleRecord E p f ids) source)"
    by (auto simp: migration_plan_def Let_def split: if_splits option.splits)
  from src(1) assms(2) have in_src: "(''active.json'', s) \<in> set source" and t: "t = (case migrateLifecycleRecord E ''active.json'' s ids of RecMigrated g \<Rightarrow> g | _ \<Rightarrow> s)"
    by auto
  have "migrateLifecycleRecord E ''active.json'' s ids \<noteq> RecInvalid" "migrateLifecycleRecord E ''active.json'' s ids \<noteq> RecCurrent"
    using in_src src(2,3) by force+
  then have m: "migrateLifecycleRecord E ''active.json'' s ids = RecMigrated t" using t by (cases "migrateLifecycleRecord E ''active.json'' s ids") auto
  have "\<not> endsWith ''active.json'' ''.wal.jsonl''" by code_simp
  with m obtain v where v: "parseRecord s = Some v" "migrateIndex E v = RecMigrated t"
    by (auto simp: migrateLifecycleRecord_def migrate_value_def split: option.splits)
  then have "s = [v]" by (auto simp: parseRecord_def split: list.splits if_splits)
  then show ?thesis using v(2) unfolding migrateIndex_Migrated by (auto simp: index_current_def version_of_def)
qed

lemma smooth_recovery_le: "smooth_recovery n io \<Longrightarrow> m \<le> n \<Longrightarrow> smooth_recovery m io"
  by (auto simp: smooth_recovery_def)

lemma fresh_migration:
  assumes "md_journal x = None" "sources_in targets x" "migration_plan E names (md_live d) = Inr targets" "distinct names"
    "sound_targets sha targets" "\<forall>p \<in> set names. md_live d p \<noteq> None" "smooth_recovery (4 * length targets + 7) io"
  shows "\<exists>y. migrateLifecycleState E sha collate names io x = (y, Migrated) \<and> converted_in targets y \<and> settled y"
proof -
  have t: "map fst targets = names" "\<forall>(p, s, t) \<in> set targets. md_live d p = Some s" using migration_plan_targets [OF assms(3)] by blast+
  have "\<forall>p \<in> set names. md_live x p = md_live d p"
    using t assms(2) by (force simp: sources_in_def)
  from plan_cong [OF this] have plan: "migration_plan E names (md_live x) = Inr targets" using assms(3) by simp
  have sound: "distinct (map fst targets)" "JournalSchema (journal_of sha targets)" "\<forall>(p, s, t) \<in> set targets. sha s \<noteq> sha t"
    using assms(5) by (auto simp: sound_targets_def)
  obtain y ios' where "run_steps sha (ro_steps io) (migration_steps sha collate targets) x = (y, ios', StepDone)"
    using migration_runs [OF assms(1,2) sound(1), of "ro_steps io" sha collate] assms(7) by (auto simp: smooth_recovery_def)
  then have m: "migrateLifecycleState E sha collate names io x = (y, Migrated)"
    using assms(1,7) plan sound(2) by (simp add: migrateLifecycleState_def readJournal_def smooth_recovery_def)
  from migrate_keeps [OF assms(1) plan assms(4) m sound(3)] show ?thesis using m by auto
qed

lemma settled_migration:
  assumes "mig_inv sha targets live x" "sound_targets sha targets" "settled x" "md_journal x \<noteq> None" "smooth_recovery 1 io"
  shows "\<exists>y. migrateLifecycleState E sha collate names io x = (y, AlreadyCurrent) \<and> converted_in targets y \<and> settled y"
proof -
  from inv_readJournal [OF assms(1,2)] assms(4) obtain j where j: "readJournal x = JournalFound j" "md_journal x = Some (Json j)"
    "journal_inv sha targets j" "phase_inv sha targets x (jr_phase j)" by auto
  have ph: "jr_phase j = PhCommitted" using assms(3) j(1) by (auto simp: settled_def lifecycleMigrationRequiresRecovery_def)
  then obtain m where m: "md_marker x = Some (Json m)" "publication_complete sha x (journal_of sha targets) m"
    using j(4) by (auto simp: phase_inv_def)
  have "publication_complete sha x j m" using m(2) j(3) complete_items [of j "journal_of sha targets" sha x m] by (simp add: journal_inv_def)
  then have plan: "finalize sha collate x j = Some ([WriteJournal (j\<lparr>jr_phase := PhCommitted\<rparr>)], Finalized)" using m(1) by (simp add: finalize_def)
  have io: "1 \<le> length (ro_steps io)" "\<forall>io \<in> set (ro_steps io). smooth_io io" using assms(5) by (auto simp: smooth_recovery_def)
  obtain y ios' where r: "run_steps sha (ro_steps io) [WriteJournal (j\<lparr>jr_phase := PhCommitted\<rparr>)] x = (y, ios', StepDone)"
    using smooth_run [where Q = "\<lambda>_. True" and ss = "[WriteJournal (j\<lparr>jr_phase := PhCommitted\<rparr>)]" and ios = "ro_steps io"] io
    by (fastforce simp: ready_def)
  then have "run_recovery sha (ro_steps io) (finalize sha collate x j) x = (y, Recovered Finalized)" using plan by (simp add: run_recovery_def)
  moreover from finalize_keeps [OF this assms(1,2) j(2), where st = Restored] ph have k: "mig_inv sha targets live y" by simp
  moreover from r have "y = x\<lparr>md_journal := Some (Json (j\<lparr>jr_phase := PhCommitted\<rparr>))\<rparr>"
    by (rule run_single) (use write_journal_cases in blast)+
  then have "converted_in targets y" "md_journal y = Some (Json (j\<lparr>jr_phase := PhCommitted\<rparr>))"
    using j(4) ph by (simp_all add: phase_inv_def)
  moreover have "settled y"
    using inv_readJournal [OF k assms(2)] calculation(4) by (auto simp: settled_def lifecycleMigrationRequiresRecovery_def)
  ultimately show ?thesis using assms(5) j(1) ph by (simp add: migrateLifecycleState_def smooth_recovery_def)
qed

lemma recovery_steps: "length (targets :: migration_target list) + 2 \<le> 4 * length targets + 7"
  by simp

lemma retry_finishes:
  assumes "mig_inv sha targets (md_live d) x" "migration_plan E names (md_live d) = Inr targets" "distinct names"
    "sound_targets sha targets" "smooth_recovery (4 * length targets + 7) (pf_migrate io)"
    "smooth_recovery (4 * length targets + 7) (pf_recover2 io)" "smooth_recovery (4 * length targets + 7) (pf_retry io)"
  shows "\<exists>y. migrate_with_retry E sha collate names io x = (y, None) \<and> converted_in targets y \<and> settled y"
proof -
  have once: "\<exists>y a. migrateLifecycleState E sha collate names mio z = (y, a) \<and> migration_ok a \<and> converted_in targets y \<and> settled y"
    if z: "mig_inv sha targets (md_live d) z" "settled z" "smooth_recovery (4 * length targets + 7) mio" for z mio
  proof (cases "md_journal z")
    case None
    then have "sources_in targets z" using z(1) by (simp add: mig_inv_def)
    moreover have "\<forall>p \<in> set names. md_live d p \<noteq> None" using migration_plan_targets [OF assms(2)] by force
    ultimately show ?thesis using fresh_migration [OF None _ assms(2-4) _ z(3)] by fastforce
  next
    case (Some b)
    then show ?thesis using settled_migration [OF z(1) assms(4) z(2)] smooth_recovery_le [OF z(3), of 1] by fastforce
  qed
  show ?thesis
  proof (cases "settled x")
    case True
    then show ?thesis using once [OF assms(1) True assms(5)] by (fastforce simp: migrate_with_retry_def)
  next
    case False
    then obtain j where "readJournal x = JournalFound j" "jr_phase j \<noteq> PhCommitted"
      using inv_readJournal [OF assms(1,4)] by (auto simp: settled_def lifecycleMigrationRequiresRecovery_def)
    then have first: "migrateLifecycleState E sha collate names (pf_migrate io) x = (x, MigrationRecoveryRequired)"
      using assms(5) by (simp add: migrateLifecycleState_def smooth_recovery_def)
    obtain z st where r: "recoverLifecycleMigration sha collate (pf_recover2 io) x = (z, Recovered st)"
      using recovery_runs [OF assms(1,4), of "pf_recover2 io" collate] smooth_recovery_le [OF assms(6), of "length targets + 2"]
      by (metis prod.collapse recovery_steps)
    from recover_keeps [OF r assms(1,4)] have z: "mig_inv sha targets (md_live d) z"
      "md_journal z = None \<or> (\<exists>j. md_journal z = Some (Json j) \<and> jr_phase j = PhCommitted)" by auto
    have "settled z" using inv_readJournal [OF z(1) assms(4)] z(2) by (auto simp: settled_def lifecycleMigrationRequiresRecovery_def)
    from once [OF z(1) this assms(7)] first r show ?thesis by (fastforce simp: migrate_with_retry_def)
  qed
qed

text \<open>
  C12. An interrupted migration is finished by the next preflight that runs through: whatever the migration
  and any number of recoveries have left, a preflight on a host on which every step succeeds throws
  nothing and leaves all files converted, with no recovery required.
\<close>

theorem preflight_finishes_migration:
  assumes "md_journal d = None" "distinct names" "migration_plan E names (md_live d) = Inr targets"
    "\<forall>(p, s, t) \<in> set targets. sha s \<noteq> sha t" "\<forall>f. hex_string 64 (sha f)" "''active.json'' \<in> set names"
    "x = recover_all sha collate ios (fst (migrateLifecycleState E sha collate names mio d))" "pf_readable io"
    "smooth_recovery (4 * length targets + 7) (pf_recover io)" "smooth_recovery (4 * length targets + 7) (pf_migrate io)"
    "smooth_recovery (4 * length targets + 7) (pf_recover2 io)" "smooth_recovery (4 * length targets + 7) (pf_retry io)"
  shows "\<exists>y. preflightLifecycle E sha collate names io x = (y, None) \<and> converted_in targets y \<and>
    \<not> lifecycleMigrationRequiresRecovery y"
proof -
  obtain e a where m: "migrateLifecycleState E sha collate names mio d = (e, a)" by fastforce
  have t: "map fst targets = names" "\<forall>(p, s, t) \<in> set targets. md_live d p = Some s" using migration_plan_targets [OF assms(3)] by blast+
  have sound: "sound_targets sha targets"
    using plan_schema [OF assms(3,5)] assms(2,4) t(1) by (simp add: sound_targets_def)
  have "mig_inv sha targets (md_live d) d" using assms(1) t by (auto simp: mig_inv_def apart_from_def sources_in_def)
  then have "mig_inv sha targets (md_live d) e" using migrate_keeps [OF assms(1,3,2) m assms(4)] by blast
  then have inv: "mig_inv sha targets (md_live d) x" using recover_all_keeps [OF _ sound] assms(7) m by simp
  have retry: "\<exists>y. migrate_with_retry E sha collate names io z = (y, None) \<and> converted_in targets y \<and> settled y"
    if "mig_inv sha targets (md_live d) z" for z
    by (rule retry_finishes [OF that assms(3,2) sound assms(10-12)])
  have "''active.json'' \<in> fst ` set targets" using assms(6) arg_cong [OF t(1), of set] by simp
  then obtain s t where st: "(''active.json'', s, t) \<in> set targets" by auto
  from index_target [OF assms(3) st] have idx: "length s = 1" "NotParsed \<notin> set s" "\<not> index_current s" "length t = 1" "NotParsed \<notin> set t"
    by auto
  from inv_either [OF inv] st obtain f where f: "md_live x ''active.json'' = Some f" "f = s \<or> f = t" by (auto simp: either_in_def)
  from f(2) idx have fw: "length f = 1" "NotParsed \<notin> set f" by auto
  show ?thesis
  proof (cases "index_current f")
    case False
    then have "preflightLifecycle E sha collate names io x = migrate_with_retry E sha collate names io x"
      using f(1) fw assms(8) by (simp add: preflightLifecycle_def)
    then show ?thesis using retry [OF inv] by (simp add: settled_def)
  next
    case current: True
    show ?thesis
    proof (cases "lifecycleMigrationRequiresRecovery x")
      case False
      have "\<not> sources_in targets x"
      proof
        assume "sources_in targets x"
        then have "md_live x ''active.json'' = Some s" using st by (auto simp: sources_in_def)
        then show False using f(1) current idx(3) by simp
      qed
      then have "converted_in targets x" using settled_inv [OF inv sound] False by (simp add: settled_def)
      moreover have "preflightLifecycle E sha collate names io x = (x, None)"
        using False current f(1) fw assms(8) by (simp add: preflightLifecycle_def)
      ultimately show ?thesis using False by simp
    next
      case True
      obtain z r where r: "recoverLifecycleMigration sha collate (pf_recover io) x = (z, Recovered r)"
        using recovery_runs [OF inv sound smooth_recovery_le [OF assms(9) recovery_steps], of collate] by (metis prod.collapse)
      from recover_keeps [OF r inv sound] have "mig_inv sha targets (md_live d) z" by blast
      moreover have "preflightLifecycle E sha collate names io x = migrate_with_retry E sha collate names io z"
        using r True current f(1) fw assms(8) by (simp add: preflightLifecycle_def)
      ultimately show ?thesis using retry by (simp add: settled_def)
    qed
  qed
qed

lemma good_io_smooth: "smooth_recovery n (good_io n)"
  by (auto simp: smooth_recovery_def good_io_def smooth_io_def smooth_def)

definition good_preflight :: preflight_io where
  "good_preflight = \<lparr>pf_readable = True, pf_recover = good_io 11, pf_migrate = good_io 11, pf_recover2 = good_io 11, pf_retry = good_io 11\<rparr>"

theorem preflight_finishes_migration_witness:
  "\<exists>y. preflightLifecycle sample_env version_hash length [''active.json''] good_preflight
     (recover_all version_hash length [good_io 1]
       (fst (migrateLifecycleState sample_env version_hash length [''active.json''] (good_io 8) legacy_disk))) = (y, None) \<and>
     converted_in legacy_targets y \<and> \<not> lifecycleMigrationRequiresRecovery y"
proof -
  have "4 * length legacy_targets + 7 = 11" by (simp add: legacy_targets_def)
  moreover have "\<forall>f. hex_string 64 (version_hash f)"
    by (auto simp: hex_string_def version_hash_def is_hex_lower_def list_all_iff split: list.split lifecycle_json.split)
  ultimately show ?thesis
    using preflight_finishes_migration [OF _ _ legacy_plan legacy_hashes _ _ refl, of good_preflight length "[good_io 1]" "good_io 8"]
      good_io_smooth [of 11] by (simp add: legacy_disk_def good_preflight_def)
qed

section \<open>A migration that runs late\<close>

text \<open>
  \<^verbatim>\<open>migrateLifecycleState\<close> on a journal that is committed compares the files with the hashes of the journal.
  Once a file has changed after the migration, by a commit for instance, it restores the backups of
  version 1 and answers \<^verbatim>\<open>already_current\<close>: a preflight that read the index before another process migrated and
  committed undoes that commit.
\<close>

lemma late_migration_restores:
  assumes "readJournal d = JournalFound j" "jr_phase j = PhCommitted" "md_marker d = Some (Json m)"
    "\<not> publication_complete sha d j m" "journal_inv sha targets j" "backed_up targets d"
    "smooth_recovery (length targets + 2) io"
  shows "\<exists>y. migrateLifecycleState E sha collate names io d = (y, AlreadyCurrent) \<and> sources_in targets y"
proof -
  let ?steps = "map (\<lambda>i. RestoreFile (ji_path i)) (ordered collate ji_path (jr_items j)) @ [KeepHistory, RemoveJournal]"
  have len: "length (jr_items j) = length targets" using assms(5) by (simp add: journal_inv_def items_of)
  obtain y ios' where r: "run_steps sha (ro_steps io) ?steps d = (y, ios', StepDone)"
    using restore_runs [OF assms(6,5), where ios = "ro_steps io" and collate = collate] assms(7) len by (auto simp: smooth_recovery_def)
  have "list_all (\<lambda>i. verified sha (md_backup d (ji_path i)) (ji_sourceHash i)) (jr_items j)"
    using assms(5,6) by (fastforce simp: journal_inv_def items_of list_all_iff backed_up_def verified_def)
  then have "finalize sha collate d j = Some (?steps, Restored)" using assms(3,4) by (simp add: finalize_def restore_def)
  then have m: "migrateLifecycleState E sha collate names io d = (y, AlreadyCurrent)"
    using r assms(1,2,7) by (simp add: migrateLifecycleState_def run_recovery_def smooth_recovery_def)
  from r show ?thesis
  proof (rule run_steps_split)
    fix e ios1
    assume a: "run_steps sha (ro_steps io) (map (\<lambda>i. RestoreFile (ji_path i)) (ordered collate ji_path (jr_items j))) d = (e, ios1, StepDone)"
      and b: "run_steps sha ios1 [KeepHistory, RemoveJournal] e = (y, ios', StepDone)"
    have paths: "ji_path ` set (ordered collate ji_path (jr_items j)) = fst ` set targets" using assms(5) by (simp add: journal_inv_def item_paths)
    have "md_live e p = Some s" if "(p, s, t) \<in> set targets" for p s t
      using restore_done [OF a] paths assms(6) that by (force simp: backed_up_def)
    then have "sources_in targets e" by (auto simp: sources_in_def)
    then have "sources_in targets y" using close_segment [OF b] by auto
    then show ?thesis using m by blast
  qed simp
qed

text \<open>The same on a concrete repository: migrated, changed by a commit, then migrated once more.\<close>

definition later_index :: active_index where
  "later_index = \<lparr>idx_version = IndexV2 1, idx_revision = 1, idx_entries = []\<rparr>"

definition committed_disk :: migration_disk where
  "committed_disk = (let d = fst (migrateLifecycleState sample_env version_hash length [''active.json''] (good_io 11) legacy_disk)
     in d\<lparr>md_live := (md_live d)(''active.json'' \<mapsto> [IndexJson later_index])\<rparr>)"

lemma late_migration_undoes_commit:
  "md_live (fst (migrateLifecycleState sample_env version_hash length [''active.json''] (good_io 11) committed_disk)) ''active.json'' =
     Some [IndexJson legacy_index] \<and>
   snd (migrateLifecycleState sample_env version_hash length [''active.json''] (good_io 11) committed_disk) = AlreadyCurrent"
  by code_simp

section \<open>Files a migration does not know\<close>

text \<open>
  The program also keeps \<^verbatim>\<open>team-reservations/\<close> and \<^verbatim>\<open>approvals/\<close> in the state directory. They are no lifecycle paths, so
  a repository of version 1 with one of them is never migrated: every preflight throws, also one for which every
  step succeeds.
\<close>

lemma unknown_file_blocks_migration:
  assumes "\<not> isLifecyclePath p" "p \<in> set names" "md_journal d = None"
    "md_live d ''active.json'' = Some f" "length f = 1" "NotParsed \<notin> set f" "\<not> index_current f" "pf_readable io"
    "smooth_recovery n (pf_migrate io)" "smooth_recovery n (pf_recover2 io)" "smooth_recovery n (pf_retry io)"
  shows "preflightLifecycle E sha collate names io d = (d, Some (PfMigration MigrationRecoveryRequired))"
proof -
  have "migration_plan E names (md_live d) = Inl MigrationRecoveryRequired"
    using assms(1,2) by (auto simp: migration_plan_def list_all_iff)
  then have m: "migrateLifecycleState E sha collate names mio d = (d, MigrationRecoveryRequired)" if "smooth_recovery n mio" for mio
    using assms(3) that by (simp add: migrateLifecycleState_def readJournal_def smooth_recovery_def)
  moreover have "recoverLifecycleMigration sha collate (pf_recover2 io) d = (d, Recovered NotNeeded)"
    using assms(3,10) by (simp add: recoverLifecycleMigration_def readJournal_def smooth_recovery_def)
  ultimately have "migrate_with_retry E sha collate names io d = (d, Some (PfMigration MigrationRecoveryRequired))"
    using assms(9,11) by (simp add: migrate_with_retry_def)
  then show ?thesis using assms(4-8) by (simp add: preflightLifecycle_def)
qed

lemma program_files_unknown: "\<not> isLifecyclePath ''team-reservations/core.json'' \<and> \<not> isLifecyclePath (''approvals/'' @ replicate 64 (CHR ''a'') @ ''.json'')"
  by code_simp

end
