(* ===== verification/Tool_Input.thy ===== *)
theory Tool_Input
  imports Task_Ledger Task_Packet
begin

text \<open>
  The tool calls the gates look at: the schemas of their inputs
  (\<^verbatim>\<open>src/gates/task-spawn-parser.ts\<close>, \<^verbatim>\<open>src/gates/task-control-parser.ts\<close>), of their results
  (\<^verbatim>\<open>src/observers/*-result-codec.ts\<close>), and the classification of a call
  (\<^verbatim>\<open>src/gates/immutable-tool-authorization.ts\<close>).
\<close>

section \<open>Values and schemas\<close>

text \<open>
  A JSON value with the members of its objects in their order. A number is an integer, or any other finite
  number, of which the schemas use whether it is negative and the key of an input the text it is printed as.
\<close>

datatype js_number = Whole int | OtherNumber bool string
  \<comment> \<open>not negative, printed\<close>

datatype tool_value =
    VNull
  | VBool bool
  | VNumber js_number
  | VText string
  | VArray "tool_value list"
  | VObject "(string \<times> tool_value) list"

fun number_text :: "js_number \<Rightarrow> string" where
  "number_text (Whole i) = (if i < 0 then CHR ''-'' # decimal (nat (- i)) else decimal (nat i))"
| "number_text (OtherNumber _ t) = t"

text \<open>\<^verbatim>\<open>JSON.stringify\<close>\<close>

fun value_text :: "tool_value \<Rightarrow> string" where
  "value_text VNull = ''null''"
| "value_text (VBool b) = (if b then ''true'' else ''false'')"
| "value_text (VNumber n) = number_text n"
| "value_text (VText s) = json_string s"
| "value_text (VArray vs) = ''['' @ join_with '','' (map value_text vs) @ '']''"
| "value_text (VObject kvs) = ''{'' @ join_with '','' (map (\<lambda>(k, v). json_string k @ '':'' @ value_text v) kvs) @ ''}''"

text \<open>
  A schema answers with the parsed value: texts trimmed, the members in the order of the schema. The members of an
  object are its key, whether it may be absent, and its schema.
\<close>

type_synonym value_schema = "tool_value \<Rightarrow> tool_value option"

type_synonym member_schema = "string \<times> bool \<times> value_schema"

definition text_schema :: "(string \<Rightarrow> string option) \<Rightarrow> value_schema" where
  "text_schema p v = (case v of VText s \<Rightarrow> map_option VText (p s) | _ \<Rightarrow> None)"

definition bool_schema :: value_schema where
  "bool_schema v = (case v of VBool _ \<Rightarrow> Some v | _ \<Rightarrow> None)"

fun number_nonnegative :: "js_number \<Rightarrow> bool" where
  "number_nonnegative (Whole i) \<longleftrightarrow> 0 \<le> i"
| "number_nonnegative (OtherNumber b _) \<longleftrightarrow> b"

definition nonnegative_schema :: value_schema where
  "nonnegative_schema v = (case v of VNumber n \<Rightarrow> (if number_nonnegative n then Some v else None) | _ \<Rightarrow> None)"

definition index_schema :: value_schema where
  "index_schema v = (case v of
     VNumber (Whole i) \<Rightarrow> (if 0 \<le> i \<and> counter (nat i) \<noteq> None then Some v else None) | _ \<Rightarrow> None)"

definition literal_schema :: "tool_value \<Rightarrow> value_schema" where
  "literal_schema w v = (if v = w then Some v else None)"

definition enum_schema :: "string list \<Rightarrow> value_schema" where
  "enum_schema names v = (case v of VText s \<Rightarrow> (if s \<in> set names then Some v else None) | _ \<Rightarrow> None)"

definition nullable_schema :: "value_schema \<Rightarrow> value_schema" where
  "nullable_schema p v = (if v = VNull then Some v else p v)"

definition array_schema :: "nat \<Rightarrow> value_schema \<Rightarrow> value_schema" where
  "array_schema least p v = (case v of
     VArray vs \<Rightarrow> (if length vs < least then None else map_option VArray (those (map p vs))) | _ \<Rightarrow> None)"

fun parse_members :: "member_schema list \<Rightarrow> (string \<times> tool_value) list \<Rightarrow> (string \<times> tool_value) list option" where
  "parse_members [] kvs = Some []"
| "parse_members ((k, optional, p) # ms) kvs =
     (case map_of kvs k of
        None \<Rightarrow> (if optional then parse_members ms kvs else None)
      | Some v \<Rightarrow> do { w \<leftarrow> p v; rest \<leftarrow> parse_members ms kvs; Some ((k, w) # rest) })"

definition strict_object :: "member_schema list \<Rightarrow> value_schema" where
  "strict_object ms v = (case v of
     VObject kvs \<Rightarrow>
       (if list_all (\<lambda>(k, _). k \<in> set (map fst ms)) kvs then map_option VObject (parse_members ms kvs) else None)
   | _ \<Rightarrow> None)"

text \<open>\<^verbatim>\<open>passthrough\<close>: other members are kept after those of the schema.\<close>

definition open_object :: "member_schema list \<Rightarrow> value_schema" where
  "open_object ms v = (case v of
     VObject kvs \<Rightarrow> map_option (\<lambda>parsed. VObject (parsed @ filter (\<lambda>(k, _). k \<notin> set (map fst ms)) kvs)) (parse_members ms kvs)
   | _ \<Rightarrow> None)"

text \<open>Members of a parsed object.\<close>

definition member_of :: "string \<Rightarrow> tool_value \<Rightarrow> tool_value option" where
  "member_of k v = (case v of VObject kvs \<Rightarrow> map_of kvs k | _ \<Rightarrow> None)"

definition text_member :: "string \<Rightarrow> tool_value \<Rightarrow> string option" where
  "text_member k v = (case member_of k v of Some (VText s) \<Rightarrow> Some s | _ \<Rightarrow> None)"

definition items_of :: "string \<Rightarrow> tool_value \<Rightarrow> tool_value list" where
  "items_of k v = (case member_of k v of Some (VArray vs) \<Rightarrow> vs | _ \<Rightarrow> [])"

definition texts_of :: "string \<Rightarrow> tool_value \<Rightarrow> string list" where
  "texts_of k v = concat (map (\<lambda>w. case w of VText s \<Rightarrow> [s] | _ \<Rightarrow> []) (items_of k v))"

definition nonempty_text :: value_schema where
  "nonempty_text = text_schema nonempty"

definition id_text :: value_schema where
  "id_text = text_schema runtimeId"

section \<open>Spawning tasks\<close>

definition taskItemSchema :: value_schema where
  "taskItemSchema = strict_object
     [(''name'', True, nonempty_text), (''agent'', True, nonempty_text), (''task'', False, nonempty_text),
      (''isolated'', True, bool_schema)]"

definition flatTaskSchema :: value_schema where
  "flatTaskSchema = taskItemSchema"

definition batchTaskSchema :: value_schema where
  "batchTaskSchema = strict_object
     [(''context'', False, text_schema Some), (''tasks'', False, array_schema 1 taskItemSchema)]"

text \<open>The text of a parsed item that is hashed: its agent, isolation, name and task.\<close>

definition projection_text :: "tool_value \<Rightarrow> string" where
  "projection_text item = value_text (VObject
     [(''agent'', VText (case text_member ''agent'' item of None \<Rightarrow> ''task'' | Some a \<Rightarrow> a)),
      (''isolated'', VBool (member_of ''isolated'' item = Some (VBool True))),
      (''name'', case text_member ''name'' item of None \<Rightarrow> VNull | Some n \<Rightarrow> VText n),
      (''task'', case text_member ''task'' item of None \<Rightarrow> VNull | Some t \<Rightarrow> VText t)])"

definition canonicalTaskProjection :: "tool_value \<Rightarrow> string option" where
  "canonicalTaskProjection v = map_option projection_text (taskItemSchema v)"

definition taskRequest :: "(string \<Rightarrow> string) \<Rightarrow> tool_value \<Rightarrow> nat \<Rightarrow> task_request" where
  "taskRequest sha item i = \<lparr>req_canonicalInputHash = Some (sha (projection_text item)), req_itemIndex = i,
     req_requestedName = text_member ''name'' item, req_agentType = text_member ''agent'' item\<rparr>"

record task_spawn =
  sp_itemCount :: nat
  sp_requests :: "task_request list"

definition parseTaskSpawn :: "(string \<Rightarrow> string) \<Rightarrow> tool_value \<Rightarrow> task_spawn option" where
  "parseTaskSpawn sha v = (case flatTaskSchema v of
     Some item \<Rightarrow> Some \<lparr>sp_itemCount = 1, sp_requests = [taskRequest sha item 0]\<rparr>
   | None \<Rightarrow> (case batchTaskSchema v of
       None \<Rightarrow> None
     | Some batch \<Rightarrow>
       (let tasks = items_of ''tasks'' batch
        in Some \<lparr>sp_itemCount = length tasks,
             sp_requests = map (\<lambda>(item, i). taskRequest sha item i) (zip tasks [0..<length tasks])\<rparr>)))"

section \<open>Controlling jobs and agents\<close>

definition op_is :: "string \<Rightarrow> member_schema" where
  "op_is name = (''op'', False, literal_schema (VText name))"

definition jobListSchema :: value_schema where
  "jobListSchema = strict_object [(''list'', False, literal_schema (VBool True))]"

definition jobDefaultSchema :: value_schema where
  "jobDefaultSchema = strict_object []"

definition jobPollSchema :: value_schema where
  "jobPollSchema = strict_object [(''poll'', False, array_schema 1 id_text)]"

definition jobCancelSchema :: value_schema where
  "jobCancelSchema = strict_object [(''cancel'', False, array_schema 1 id_text)]"

definition hubJobsSchema :: value_schema where
  "hubJobsSchema = strict_object [op_is ''jobs'']"

definition hubWaitSchema :: value_schema where
  "hubWaitSchema = strict_object
     [op_is ''wait'', (''ids'', True, array_schema 1 id_text), (''from'', True, id_text),
      (''timeoutMs'', True, nonnegative_schema)]"

definition hubCancelSchema :: value_schema where
  "hubCancelSchema = strict_object [op_is ''cancel'', (''ids'', False, array_schema 1 id_text)]"

record hub_wait_control =
  hw_inputKey :: string
  hw_jobTargets :: "string list"
  hw_agentTargets :: "string list"

text \<open>The text member as a list of none or one.\<close>

definition target_of :: "string \<Rightarrow> tool_value \<Rightarrow> string list" where
  "target_of k v = (case text_member k v of None \<Rightarrow> [] | Some s \<Rightarrow> [s])"

definition parseHubWaitControl :: "tool_value \<Rightarrow> hub_wait_control option" where
  "parseHubWaitControl v = map_option (\<lambda>w. \<lparr>hw_inputKey = value_text w, hw_jobTargets = texts_of ''ids'' w,
     hw_agentTargets = target_of ''from'' w\<rparr>) (hubWaitSchema v)"

datatype hub_operation = HubJobs | HubWait | HubCancel

definition hubJobOperation :: "tool_value \<Rightarrow> hub_operation option" where
  "hubJobOperation v = (if hubJobsSchema v \<noteq> None then Some HubJobs
     else if hubWaitSchema v \<noteq> None then Some HubWait
     else if hubCancelSchema v \<noteq> None then Some HubCancel else None)"

record job_control =
  jc_control :: task_control
  jc_inputKey :: string
  jc_targets :: "string list"

definition job_parsed :: "task_control \<Rightarrow> (tool_value \<Rightarrow> string list) \<Rightarrow> tool_value \<Rightarrow> job_control" where
  "job_parsed c targets w = \<lparr>jc_control = c, jc_inputKey = value_text w, jc_targets = targets w\<rparr>"

definition parseJobControl :: "tool_value \<Rightarrow> job_control option" where
  "parseJobControl v = (case hubJobsSchema v of
     Some w \<Rightarrow> Some (job_parsed JobSnapshot (\<lambda>_. []) w)
   | None \<Rightarrow> (case parseHubWaitControl v of
       Some hub \<Rightarrow> Some \<lparr>jc_control = JobSnapshot, jc_inputKey = hw_inputKey hub, jc_targets = hw_jobTargets hub\<rparr>
     | None \<Rightarrow> (case hubCancelSchema v of
         Some w \<Rightarrow> Some (job_parsed JobCancel (texts_of ''ids'') w)
       | None \<Rightarrow> (case jobListSchema v of
           Some w \<Rightarrow> Some (job_parsed JobSnapshot (\<lambda>_. []) w)
         | None \<Rightarrow> (case jobDefaultSchema v of
             Some w \<Rightarrow> Some (job_parsed JobSnapshot (\<lambda>_. []) w)
           | None \<Rightarrow> (case jobPollSchema v of
               Some w \<Rightarrow> Some (job_parsed JobSnapshot (texts_of ''poll'') w)
             | None \<Rightarrow> map_option (job_parsed JobCancel (texts_of ''cancel'')) (jobCancelSchema v)))))))"

definition send_members :: "member_schema list" where
  "send_members = [op_is ''send'', (''to'', False, id_text), (''message'', False, nonempty_text),
     (''replyTo'', True, nonempty_text), (''await'', True, bool_schema)]"

definition ircSendSchema :: value_schema where
  "ircSendSchema = strict_object send_members"

definition hubSendSchema :: value_schema where
  "hubSendSchema = strict_object (send_members @ [(''timeoutMs'', True, nonnegative_schema)])"

fun first_schema :: "value_schema list \<Rightarrow> value_schema" where
  "first_schema [] v = None"
| "first_schema (p # ps) v = (case p v of Some w \<Rightarrow> Some w | None \<Rightarrow> first_schema ps v)"

definition list_and_inbox :: "value_schema list" where
  "list_and_inbox = [strict_object [op_is ''list''], strict_object [op_is ''inbox'', (''peek'', True, bool_schema)]]"

definition ircPassiveSchema :: value_schema where
  "ircPassiveSchema = first_schema (list_and_inbox @
     [strict_object [op_is ''wait'', (''from'', True, id_text), (''timeoutMs'', True, nonnegative_schema)]])"

definition hubPassiveSchema :: value_schema where
  "hubPassiveSchema = first_schema list_and_inbox"

definition hubProcessSchema :: value_schema where
  "hubProcessSchema = first_schema
     [open_object [(''op'', False, enum_schema [''start'', ''ps'', ''logs'', ''stop'', ''restart'', ''describe''])],
      open_object [(''op'', False, enum_schema [''send'', ''wait'']), (''name'', False, nonempty_text)]]"

definition isHubProcessControl :: "tool_value \<Rightarrow> bool" where
  "isHubProcessControl v \<longleftrightarrow> hubProcessSchema v \<noteq> None"

record irc_control =
  ic_sends :: bool
  ic_inputKey :: string
  ic_targets :: "string list"

definition irc_parsed :: "bool \<Rightarrow> (tool_value \<Rightarrow> string list) \<Rightarrow> tool_value \<Rightarrow> irc_control" where
  "irc_parsed b targets w = \<lparr>ic_sends = b, ic_inputKey = value_text w, ic_targets = targets w\<rparr>"

definition parseIrcControl :: "tool_value \<Rightarrow> irc_control option" where
  "parseIrcControl v = (case hubSendSchema v of
     Some w \<Rightarrow> Some (irc_parsed True (target_of ''to'') w)
   | None \<Rightarrow> (case hubPassiveSchema v of
       Some w \<Rightarrow> Some (irc_parsed False (\<lambda>_. []) w)
     | None \<Rightarrow> (case parseHubWaitControl v of
         Some hub \<Rightarrow> Some \<lparr>ic_sends = False, ic_inputKey = hw_inputKey hub, ic_targets = hw_agentTargets hub\<rparr>
       | None \<Rightarrow> (case ircSendSchema v of
           Some w \<Rightarrow> Some (irc_parsed True (target_of ''to'') w)
         | None \<Rightarrow> map_option (irc_parsed False
             (\<lambda>w. if member_of ''op'' w = Some (VText ''wait'') then target_of ''from'' w else [])) (ircPassiveSchema v)))))"

section \<open>Classification of a tool call\<close>

datatype controlled_tool = TaskTool | JobTool | IrcTool | HubTool

definition controlledToolName :: "string \<Rightarrow> controlled_tool option" where
  "controlledToolName s = (if s = ''task'' then Some TaskTool else if s = ''job'' then Some JobTool
     else if s = ''irc'' then Some IrcTool else if s = ''hub'' then Some HubTool else None)"

fun malformedReason :: "controlled_tool \<Rightarrow> string" where
  "malformedReason TaskTool = ''omp-lazy: malformed task input''"
| "malformedReason JobTool = ''omp-lazy: malformed job control''"
| "malformedReason IrcTool = ''omp-lazy: malformed IRC control''"
| "malformedReason HubTool = ''omp-lazy: malformed hub control''"

datatype tool_authorization =
    PassThrough
  | Denied string
  | AuthTask string task_spawn
  | AuthJob string job_control
  | AuthIrc string irc_control
  | AuthHubWait string hub_wait_control

definition authorizeImmutableToolCall ::
    "(string \<Rightarrow> string) \<Rightarrow> string \<Rightarrow> string \<Rightarrow> tool_value \<Rightarrow> tool_authorization" where
  "authorizeImmutableToolCall sha toolName callId v = (case controlledToolName toolName of
     None \<Rightarrow> PassThrough
   | Some tool \<Rightarrow> (case runtimeId callId of
       None \<Rightarrow> Denied (malformedReason tool)
     | Some t \<Rightarrow> (case tool of
         TaskTool \<Rightarrow> (case parseTaskSpawn sha v of Some s \<Rightarrow> AuthTask t s | None \<Rightarrow> Denied (malformedReason tool))
       | JobTool \<Rightarrow> (case parseJobControl v of Some c \<Rightarrow> AuthJob t c | None \<Rightarrow> Denied (malformedReason tool))
       | IrcTool \<Rightarrow> (case parseIrcControl v of Some c \<Rightarrow> AuthIrc t c | None \<Rightarrow> Denied (malformedReason tool))
       | HubTool \<Rightarrow>
         (if isHubProcessControl v then PassThrough
          else case parseHubWaitControl v of
            Some c \<Rightarrow> AuthHubWait t c
          | None \<Rightarrow> (case parseJobControl v of
              Some c \<Rightarrow> AuthJob t c
            | None \<Rightarrow> (case parseIrcControl v of Some c \<Rightarrow> AuthIrc t c | None \<Rightarrow> Denied (malformedReason tool)))))))"

end
