(* ===== verification/Tool_Gates.thy ===== *)
theory Tool_Gates
  imports Tool_Input Transaction_Store
begin

text \<open>
  The gates in front of tool calls: transactions on the task ledger of a session's run
  (\<^verbatim>\<open>src/gates/task-sidecar-store.ts\<close>), the guard that reserves and authorises
  (\<^verbatim>\<open>src/gates/task-spawn-guard.ts\<close>), and the dispatcher that resolves the run first
  (\<^verbatim>\<open>src/gates/tool-call-dispatcher.ts\<close>).
\<close>

section \<open>Transactions on the ledger\<close>

text \<open>
  What the host does: whether the lock is acquired, whether the files can be read, the replacement of the
  ledger file, and whether the release of the lock throws.
\<close>

record ledger_io =
  li_lock :: bool
  li_readable :: bool
  li_write :: write_io
  li_released :: bool

datatype 'v ledger_transaction = LedgerScope 'v bool | LedgerNone | LedgerTxConflict | LedgerTxThrows | LedgerTxDied

definition put_ledger :: "disk \<Rightarrow> uuid \<Rightarrow> task_ledger file_bytes option \<Rightarrow> disk" where
  "put_ledger d i slot = d\<lparr>d_taskFacts := (d_taskFacts d)(i := slot)\<rparr>"

definition transact_scope ::
    "host_env \<Rightarrow> write_io \<Rightarrow> (task_run_scope \<Rightarrow> 'v decision) \<Rightarrow> task_run_scope \<Rightarrow> disk \<Rightarrow> disk \<times> 'v ledger_transaction" where
  "transact_scope E io decide s d = (case run_decision E decide s of
     (_, LedgerThrows) \<Rightarrow> (d, LedgerTxThrows)
   | (_, LedgerConflict) \<Rightarrow> (d, LedgerTxConflict)
   | (l, Committed v changed) \<Rightarrow>
     (if \<not> changed then (d, LedgerScope v False)
      else case atomicReplace io (Json l) (d_taskFacts d (run_runId (scope_run s))) of
        (slot, out) \<Rightarrow> (put_ledger d (run_runId (scope_run s)) slot,
          case out of Published \<Rightarrow> LedgerScope v True | WriteKilled \<Rightarrow> LedgerTxDied | _ \<Rightarrow> LedgerTxThrows)))"

definition ledger_transact ::
    "host_env \<Rightarrow> canonical_root \<Rightarrow> ledger_io \<Rightarrow> string \<Rightarrow> (task_run_scope \<Rightarrow> 'v decision) \<Rightarrow> disk \<Rightarrow>
       disk \<times> 'v ledger_transaction" where
  "ledger_transact E root io session decide d =
     (if \<not> li_lock io then (d, LedgerTxConflict)
      else case (if \<not> li_readable io then (d, LedgerTxThrows)
          else case resolveUnlocked E root d session of
            Inl _ \<Rightarrow> (d, LedgerTxThrows)
          | Inr ScopeNone \<Rightarrow> (d, LedgerNone)
          | Inr ScopeConflict \<Rightarrow> (d, LedgerTxConflict)
          | Inr (ScopeFound s) \<Rightarrow> transact_scope E (li_write io) decide s d) of
        (d', r) \<Rightarrow> (d', if r \<noteq> LedgerTxDied \<and> \<not> li_released io then LedgerTxThrows else r))"

section \<open>The spawn policy of a packet\<close>

definition public_agents :: "string list" where
  "public_agents = [''omp-lazy-explorer'', ''omp-lazy-librarian'', ''omp-lazy-metis'', ''omp-lazy-momus'',
     ''omp-lazy-planner'', ''omp-lazy-qa'', ''omp-lazy-researcher'', ''omp-lazy-reviewer'',
     ''omp-lazy-worker-high'', ''omp-lazy-worker-low'', ''omp-lazy-worker-medium'']"

fun TierAgentEligibility :: "task_tier \<Rightarrow> string list" where
  "TierAgentEligibility FAST = [''omp-lazy-explorer'', ''omp-lazy-librarian'', ''omp-lazy-planner'',
     ''omp-lazy-researcher'', ''omp-lazy-worker-low'']"
| "TierAgentEligibility STANDARD = [''omp-lazy-explorer'', ''omp-lazy-librarian'', ''omp-lazy-metis'',
     ''omp-lazy-planner'', ''omp-lazy-qa'', ''omp-lazy-researcher'', ''omp-lazy-reviewer'',
     ''omp-lazy-worker-low'', ''omp-lazy-worker-medium'']"
| "TierAgentEligibility DEEP = public_agents"

record spawn_policy =
  po_packetHash :: string
  po_tier :: task_tier
  po_allowedAgentTypes :: "string list"

definition TaskSpawnPacketPolicySchema :: "spawn_policy \<Rightarrow> bool" where
  "TaskSpawnPacketPolicySchema p \<longleftrightarrow> hash_schema (po_packetHash p) \<noteq> None \<and>
     set (po_allowedAgentTypes p) \<subseteq> set public_agents \<and> po_allowedAgentTypes p \<noteq> [] \<and>
     length (po_allowedAgentTypes p) \<le> 11 \<and> distinct (po_allowedAgentTypes p)"

definition currentTaskSpawnPacketPolicy :: "task_run_scope \<Rightarrow> spawn_policy option" where
  "currentTaskSpawnPacketPolicy s = (case (run_version (scope_run s), tl_version (scope_ledger s)) of
     (RunV2 h _, TaskLedgerV2 (Some lh) (Some tier) _) \<Rightarrow>
       (if h \<noteq> Some lh then None
        else Some \<lparr>po_packetHash = lh, po_tier = tier, po_allowedAgentTypes = TierAgentEligibility tier\<rparr>)
   | _ \<Rightarrow> None)"

section \<open>The guard\<close>

datatype gate_answer = GateAllowed | GateBlocked string | GateThrows | GateDied

record spawn_guard =
  sg_maxFanOut :: nat
  sg_packetPolicy :: "spawn_policy option"

definition eligible_request :: "spawn_policy \<Rightarrow> task_request \<Rightarrow> bool" where
  "eligible_request p q \<longleftrightarrow> (case req_agentType q of
     None \<Rightarrow> False | Some a \<Rightarrow> a \<in> set public_agents \<and> a \<in> set (po_allowedAgentTypes p))"

text \<open>The refusals before the ledger is touched.\<close>

definition policy_refusal :: "spawn_guard \<Rightarrow> task_spawn \<Rightarrow> string option" where
  "policy_refusal g spawn =
     (if max_safe_integer < sg_maxFanOut g \<or> sg_maxFanOut g < 1 then Some ''omp-lazy: invalid fan-out policy''
      else case sg_packetPolicy g of
        None \<Rightarrow> None
      | Some p \<Rightarrow>
        (if \<not> TaskSpawnPacketPolicySchema p then Some ''omp-lazy: invalid packet spawn policy''
         else if list_ex (\<lambda>a. a \<notin> set (TierAgentEligibility (po_tier p))) (po_allowedAgentTypes p)
         then Some ''omp-lazy: tier-ineligible packet agent''
         else if list_ex (\<lambda>q. \<not> eligible_request p q) (sp_requests spawn)
         then Some (''omp-lazy: agent not allowed by packet ('' @ tier_name (po_tier p) @ '' tier; eligible: '' @
           join_with '', '' (sort (po_allowedAgentTypes p)) @ '')'')
         else None))"

fun reserve_answer :: "reserve_status ledger_transaction \<Rightarrow> gate_answer" where
  "reserve_answer (LedgerScope st _) =
     (if st = Limit then GateBlocked ''omp-lazy: fan-out limit exceeded''
      else if st = ReserveFactConflict then GateBlocked ''omp-lazy: reservation conflict'' else GateAllowed)"
| "reserve_answer LedgerTxThrows = GateBlocked ''omp-lazy: task state conflict''"
| "reserve_answer LedgerTxDied = GateDied"
| "reserve_answer _ = GateBlocked ''omp-lazy: reservation conflict''"

definition handleTask ::
    "host_env \<Rightarrow> canonical_root \<Rightarrow> ledger_io \<Rightarrow> spawn_guard \<Rightarrow> string \<Rightarrow> string \<Rightarrow> task_spawn \<Rightarrow> disk \<Rightarrow> disk \<times> gate_answer" where
  "handleTask E root io g session callId spawn d = (case policy_refusal g spawn of
     Some reason \<Rightarrow> (d, GateBlocked reason)
   | None \<Rightarrow> (case ledger_transact E root io session
         (reserve_decision callId (sp_itemCount spawn) (sp_requests spawn) (sg_maxFanOut g)) d of
       (d', r) \<Rightarrow> (d', reserve_answer r)))"

fun job_answer :: "string list \<Rightarrow> authorization_status ledger_transaction \<Rightarrow> gate_answer" where
  "job_answer targets (LedgerScope st _) =
     (if st = Unowned \<or> (st = NoGeneration \<and> targets \<noteq> []) then GateBlocked ''omp-lazy: unowned job'' else GateAllowed)"
| "job_answer targets LedgerTxThrows = GateThrows"
| "job_answer targets LedgerTxDied = GateDied"
| "job_answer targets _ = GateBlocked ''omp-lazy: task state conflict''"

definition handleJob ::
    "host_env \<Rightarrow> canonical_root \<Rightarrow> ledger_io \<Rightarrow> string \<Rightarrow> string \<Rightarrow> job_control \<Rightarrow> disk \<Rightarrow> disk \<times> gate_answer" where
  "handleJob E root io session callId c d =
     (case ledger_transact E root io session (authorize_decision callId (jc_control c) (jc_inputKey c) (jc_targets c)) d of
       (d', r) \<Rightarrow> (d', job_answer (jc_targets c) r))"

fun irc_answer :: "authorization_status ledger_transaction \<Rightarrow> gate_answer" where
  "irc_answer (LedgerScope st _) = (if st = Authorized then GateAllowed else GateBlocked ''omp-lazy: unowned agent'')"
| "irc_answer LedgerTxThrows = GateThrows"
| "irc_answer LedgerTxDied = GateDied"
| "irc_answer _ = GateBlocked ''omp-lazy: unowned agent''"

definition handleIrc ::
    "host_env \<Rightarrow> canonical_root \<Rightarrow> ledger_io \<Rightarrow> string \<Rightarrow> string \<Rightarrow> irc_control \<Rightarrow> disk \<Rightarrow> disk \<times> gate_answer" where
  "handleIrc E root io session callId c d =
     (if \<not> ic_sends c \<and> ic_targets c = [] then (d, GateAllowed)
      else case ledger_transact E root io session
          (authorize_decision callId (if ic_sends c then IrcSend else IrcTarget) (ic_inputKey c) (ic_targets c)) d of
        (d', r) \<Rightarrow> (d', irc_answer r))"

fun hub_answer :: "hub_wait_status ledger_transaction \<Rightarrow> gate_answer" where
  "hub_answer (LedgerScope st _) = (case st of
     HubAuthorized \<Rightarrow> GateAllowed
   | UnownedJob \<Rightarrow> GateBlocked ''omp-lazy: unowned job''
   | UnownedAgent \<Rightarrow> GateBlocked ''omp-lazy: unowned agent''
   | HubNoGeneration \<Rightarrow> GateBlocked ''omp-lazy: task state conflict'')"
| "hub_answer LedgerTxThrows = GateThrows"
| "hub_answer LedgerTxDied = GateDied"
| "hub_answer _ = GateBlocked ''omp-lazy: task state conflict''"

definition handleHubWait ::
    "host_env \<Rightarrow> canonical_root \<Rightarrow> ledger_io \<Rightarrow> string \<Rightarrow> string \<Rightarrow> hub_wait_control \<Rightarrow> disk \<Rightarrow> disk \<times> gate_answer" where
  "handleHubWait E root io session callId c d =
     (case ledger_transact E root io session
        (authorizeHubWait_decision callId (hw_inputKey c) (hw_jobTargets c) (hw_agentTargets c)) d of
       (d', r) \<Rightarrow> (d', hub_answer r))"

text \<open>A call that passes through does not reach the handler.\<close>

fun handleAuthorized ::
    "host_env \<Rightarrow> canonical_root \<Rightarrow> ledger_io \<Rightarrow> spawn_guard \<Rightarrow> string \<Rightarrow> tool_authorization \<Rightarrow> disk \<Rightarrow> disk \<times> gate_answer" where
  "handleAuthorized E root io g session PassThrough d = (d, GateAllowed)"
| "handleAuthorized E root io g session (Denied reason) d = (d, GateBlocked reason)"
| "handleAuthorized E root io g session (AuthTask t spawn) d = handleTask E root io g session t spawn d"
| "handleAuthorized E root io g session (AuthJob t c) d = handleJob E root io session t c d"
| "handleAuthorized E root io g session (AuthIrc t c) d = handleIrc E root io session t c d"
| "handleAuthorized E root io g session (AuthHubWait t c) d = handleHubWait E root io session t c d"

text \<open>
  \<^verbatim>\<open>TaskSpawnGuard.handle\<close>: \<open>d\<close> is the disk the scope is resolved on, \<open>d1\<close> the one the transaction finds. The
  answer of \<^verbatim>\<open>handleAuthorized\<close> is returned without \<^verbatim>\<open>await\<close>: what it throws is not caught here.
\<close>

definition handle_call ::
    "host_env \<Rightarrow> canonical_root \<Rightarrow> (string \<Rightarrow> string) \<Rightarrow> bool \<Rightarrow> ledger_io \<Rightarrow> spawn_guard \<Rightarrow> string \<Rightarrow> string \<Rightarrow> string \<Rightarrow>
       tool_value \<Rightarrow> disk \<Rightarrow> disk \<Rightarrow> disk \<times> gate_answer" where
  "handle_call E root sha readable io g session toolName callId v d d1 =
     (case authorizeImmutableToolCall sha toolName callId v of
        PassThrough \<Rightarrow> (d1, GateAllowed)
      | auth \<Rightarrow>
        (if \<not> readable then (d1, GateBlocked ''omp-lazy: task state conflict'')
         else case resolveUnlocked E root d session of
           Inl _ \<Rightarrow> (d1, GateBlocked ''omp-lazy: task state conflict'')
         | Inr ScopeNone \<Rightarrow> (d1, GateAllowed)
         | Inr ScopeConflict \<Rightarrow> (d1, GateBlocked ''omp-lazy: task state conflict'')
         | Inr (ScopeFound _) \<Rightarrow> handleAuthorized E root io g session auth d1))"

section \<open>The dispatcher\<close>

definition isNonterminal :: "run \<Rightarrow> bool" where
  "isNonterminal r \<longleftrightarrow>
     run_status_of r \<in> {Active, Paused, Stuck, State_Domain.Blocked, NeedsUserDecision, ReviewBlocked}"

datatype current_run_scope = ForeignScope | ConflictScope | CurrentScope run

text \<open>
  Whether the repository is resolved, and whether the preflights of the two reads succeed; the disk is the one they
  leave.
\<close>

definition resolveCurrentRunScope ::
    "host_env \<Rightarrow> canonical_root option \<Rightarrow> bool \<Rightarrow> disk \<Rightarrow> string \<Rightarrow> current_run_scope" where
  "resolveCurrentRunScope E root readable d session = (case root of
     None \<Rightarrow> ForeignScope
   | Some rt \<Rightarrow>
     (if \<not> readable then ConflictScope
      else case readIndex E d of
        Inl _ \<Rightarrow> ConflictScope
      | Inr i \<Rightarrow>
        (if isl (validateActiveIndex i) then ConflictScope
         else case filter (\<lambda>x. ent_sessionId x = session) (idx_entries i) of
           [] \<Rightarrow> ForeignScope
         | [x] \<Rightarrow> (case readRun E rt d (ent_runId x) of
             Inl _ \<Rightarrow> ConflictScope
           | Inr None \<Rightarrow> ConflictScope
           | Inr (Some r) \<Rightarrow> (if \<not> isNonterminal r \<or> \<not> entry_agrees x r then ConflictScope else CurrentScope r))
         | _ \<Rightarrow> ConflictScope)))"

definition same_scope :: "string \<Rightarrow> run \<Rightarrow> run \<Rightarrow> bool" where
  "same_scope session r q \<longleftrightarrow> run_runId q = run_runId r \<and> run_revision q = run_revision r \<and>
     run_transactionRevision q = run_transactionRevision r \<and> own_sessionId (run_owner q) = session \<and>
     own_epoch (run_owner q) = own_epoch (run_owner r)"

text \<open>
  The handler of one call. Other processes may commit between its three looks at the disk: \<open>d\<close> for the run,
  \<open>d1\<close> for the scope of the ledger, \<open>d2\<close> for the transaction. The answer of the guard is returned
  without \<^verbatim>\<open>await\<close> here too.
\<close>

record dispatch_io =
  di_readable :: bool
  di_scopeReadable :: bool
  di_ledger :: ledger_io

definition state_conflict :: gate_answer where
  "state_conflict = GateBlocked ''omp-lazy: active workflow state conflict''"

definition dispatch ::
    "host_env \<Rightarrow> canonical_root option \<Rightarrow> (string \<Rightarrow> string) \<Rightarrow> nat \<Rightarrow> dispatch_io \<Rightarrow> string \<Rightarrow> string \<Rightarrow> string \<Rightarrow> tool_value \<Rightarrow>
       disk \<Rightarrow> disk \<Rightarrow> disk \<Rightarrow> disk \<times> gate_answer" where
  "dispatch E root sha maxFanOut io session toolName callId v d d1 d2 =
     (case authorizeImmutableToolCall sha toolName callId v of
        PassThrough \<Rightarrow> (d2, GateAllowed)
      | auth \<Rightarrow>
        (case (resolveCurrentRunScope E root (di_readable io) d session, root) of
           (CurrentScope r, Some rt) \<Rightarrow>
             (if \<not> di_scopeReadable io then (d2, state_conflict)
              else case resolveUnlocked E rt d1 session of
                Inr (ScopeFound s) \<Rightarrow>
                  (if \<not> same_scope session r (scope_run s) then (d2, state_conflict)
                   else handleAuthorized E rt (di_ledger io)
                     \<lparr>sg_maxFanOut = maxFanOut, sg_packetPolicy = currentTaskSpawnPacketPolicy s\<rparr> session auth d2)
              | _ \<Rightarrow> (d2, state_conflict))
         | (ConflictScope, _) \<Rightarrow> (d2, state_conflict)
         | _ \<Rightarrow> (d2, GateAllowed)))"

end
