(* ===== verification/Tool_Observer.thy ===== *)
theory Tool_Observer
  imports Tool_Gates
begin

text \<open>
  The observer of tool results (\<^verbatim>\<open>src/observers/tool-result-observer.ts\<close>) and the decoders of the results
  (\<^verbatim>\<open>src/observers/task-result-codec.ts\<close>, \<^verbatim>\<open>job-result-codec.ts\<close>, \<^verbatim>\<open>irc-result-codec.ts\<close>): it binds the
  agents a spawned task got, and records what jobs and messages came to.
\<close>

section \<open>Results\<close>

definition any_schema :: value_schema where
  "any_schema v = Some v"

definition progressSchema :: value_schema where
  "progressSchema = open_object [(''index'', False, index_schema), (''id'', False, id_text), (''agent'', False, nonempty_text),
     (''status'', False, enum_schema [''pending'', ''running'', ''completed'', ''failed'', ''aborted''])]"

definition asyncSchema :: value_schema where
  "asyncSchema = open_object [(''state'', False, enum_schema [''running'', ''completed'', ''failed'']),
     (''jobId'', False, id_text), (''type'', False, literal_schema (VText ''task''))]"

definition taskResultSchema :: value_schema where
  "taskResultSchema = open_object [(''projectAgentsDir'', False, nullable_schema (text_schema Some)),
     (''results'', False, array_schema 0 any_schema), (''totalDurationMs'', False, nonnegative_schema),
     (''progress'', True, array_schema 0 progressSchema), (''async'', True, asyncSchema)]"

record task_progress =
  pg_index :: nat
  pg_id :: string

record task_result =
  tr_progress :: "task_progress list option"
  tr_async :: "string option"
    \<comment> \<open>its job\<close>

definition index_member :: "string \<Rightarrow> tool_value \<Rightarrow> nat" where
  "index_member k v = (case member_of k v of Some (VNumber (Whole i)) \<Rightarrow> nat i | _ \<Rightarrow> 0)"

definition id_member_of :: "string \<Rightarrow> tool_value \<Rightarrow> string" where
  "id_member_of k v = (case text_member k v of Some s \<Rightarrow> s | None \<Rightarrow> [])"

definition decodeTaskResult :: "tool_value \<Rightarrow> task_result option" where
  "decodeTaskResult v = map_option (\<lambda>w. \<lparr>
     tr_progress = (if member_of ''progress'' w = None then None
       else Some (map (\<lambda>p. \<lparr>pg_index = index_member ''index'' p, pg_id = id_member_of ''id'' p\<rparr>) (items_of ''progress'' w))),
     tr_async = map_option (id_member_of ''jobId'') (member_of ''async'' w)\<rparr>) (taskResultSchema v)"

definition jobSchema :: value_schema where
  "jobSchema = open_object [(''id'', False, id_text), (''type'', False, enum_schema [''bash'', ''task'']),
     (''status'', False, enum_schema [''running'', ''completed'', ''failed'', ''cancelled'']),
     (''label'', False, text_schema Some), (''durationMs'', False, nonnegative_schema),
     (''resolvedModel'', True, text_schema Some), (''resultText'', True, text_schema Some), (''errorText'', True, text_schema Some)]"

definition cancelledSchema :: value_schema where
  "cancelledSchema = open_object [(''id'', False, id_text),
     (''status'', False, enum_schema [''cancelled'', ''not_found'', ''already_completed''])]"

definition agentSchema :: value_schema where
  "agentSchema = open_object [(''id'', False, id_text), (''parentId'', True, id_text), (''activity'', True, text_schema Some),
     (''ageMs'', False, nonnegative_schema)]"

definition jobResultSchema :: value_schema where
  "jobResultSchema = open_object [(''op'', True, enum_schema [''jobs'', ''wait'', ''cancel'']),
     (''jobs'', False, array_schema 0 jobSchema), (''cancelled'', True, array_schema 0 cancelledSchema),
     (''agents'', True, array_schema 0 agentSchema)]"

definition job_type_named :: "string \<Rightarrow> job_type" where
  "job_type_named s = (if s = ''task'' then TaskJob else BashJob)"

definition job_status_named :: "string \<Rightarrow> job_status" where
  "job_status_named s = (if s = ''running'' then JobRunning else if s = ''completed'' then JobCompleted
     else if s = ''failed'' then JobFailed else JobCancelled)"

definition cancel_status_named :: "string \<Rightarrow> cancel_status" where
  "cancel_status_named s = (if s = ''cancelled'' then CancelCancelled else if s = ''not_found'' then CancelNotFound
     else CancelAlreadyCompleted)"

definition hub_operation_named :: "string \<Rightarrow> hub_operation" where
  "hub_operation_named s = (if s = ''jobs'' then HubJobs else if s = ''wait'' then HubWait else HubCancel)"

record job_result =
  jr_op :: "hub_operation option"
  jr_jobs :: "job_snapshot list"
  jr_cancelled :: "(string \<times> cancel_status) list"

definition decodeJobResult :: "tool_value \<Rightarrow> job_result option" where
  "decodeJobResult v = map_option (\<lambda>w. \<lparr>
     jr_op = map_option hub_operation_named (text_member ''op'' w),
     jr_jobs = map (\<lambda>j. \<lparr>js_id = id_member_of ''id'' j, js_type = job_type_named (id_member_of ''type'' j),
       js_status = job_status_named (id_member_of ''status'' j)\<rparr>) (items_of ''jobs'' w),
     jr_cancelled = map (\<lambda>c. (id_member_of ''id'' c, cancel_status_named (id_member_of ''status'' c))) (items_of ''cancelled'' w)\<rparr>)
     (jobResultSchema v)"

definition ircReceiptSchema :: value_schema where
  "ircReceiptSchema = open_object [(''to'', False, id_text),
     (''outcome'', False, enum_schema [''injected'', ''woken'', ''revived'', ''failed'']), (''error'', True, text_schema Some)]"

definition ircResultSchema :: value_schema where
  "ircResultSchema = open_object [(''op'', False, literal_schema (VText ''send'')), (''from'', True, id_text),
     (''to'', True, text_schema Some), (''receipts'', True, array_schema 0 ircReceiptSchema)]"

definition irc_outcome_named :: "string \<Rightarrow> irc_outcome" where
  "irc_outcome_named s = (if s = ''injected'' then IrcInjected else if s = ''woken'' then IrcWoken
     else if s = ''revived'' then IrcRevived else IrcFailed)"

text \<open>The receipts of a message.\<close>

definition decodeIrcResult :: "tool_value \<Rightarrow> (string \<times> irc_outcome) list option" where
  "decodeIrcResult v = map_option (\<lambda>w. map (\<lambda>r. (id_member_of ''to'' r, irc_outcome_named (id_member_of ''outcome'' r)))
     (items_of ''receipts'' w)) (ircResultSchema v)"

definition filled :: "string \<Rightarrow> string option" where
  "filled s = (if s = [] then None else Some s)"

definition hubWaitResultSchema :: value_schema where
  "hubWaitResultSchema = open_object [(''op'', False, literal_schema (VText ''wait'')),
     (''waited'', False, nullable_schema (open_object [(''id'', False, text_schema filled), (''from'', False, id_text),
       (''to'', False, text_schema filled), (''body'', False, text_schema Some), (''ts'', False, nonnegative_schema),
       (''replyTo'', True, text_schema filled)]))]"

definition isHubWaitMessageResult :: "tool_value \<Rightarrow> bool" where
  "isHubWaitMessageResult v \<longleftrightarrow> hubWaitResultSchema v \<noteq> None"

definition isHubWaitStatusOnlyResult :: "tool_value \<Rightarrow> bool" where
  "isHubWaitStatusOnlyResult v \<longleftrightarrow> (case hubWaitResultSchema v of None \<Rightarrow> False | Some w \<Rightarrow> member_of ''waited'' w = Some VNull)"

section \<open>Observation\<close>

record tool_observation =
  ob_toolName :: string
  ob_toolCallId :: string
  ob_input :: tool_value
  ob_details :: tool_value
  ob_isError :: bool
  ob_sessionId :: string

datatype observed_capability = ObsPending | ObsProven | ObsBlockedCapability

datatype observation = ObsQuiet | ObsRecorded observed_capability | ObsBlocked string | ObsThrows | ObsDied

definition checkTaskSurfaces :: "string list \<Rightarrow> bool" where
  "checkTaskSurfaces tools \<longleftrightarrow> ''task'' \<in> set tools \<and> ''hub'' \<in> set tools"

text \<open>The bindings of a result: its agents in the order of their indices, one for each task reserved.\<close>

definition task_bindings :: "task_result \<Rightarrow> nat \<Rightarrow> identity_binding list option" where
  "task_bindings r n = (case tr_progress r of
     None \<Rightarrow> None
   | Some progress \<Rightarrow>
     (let ordered = sort_key pg_index progress
      in if length progress \<noteq> n \<or> map pg_index ordered \<noteq> [0..<length ordered] \<or> \<not> distinct (map pg_id ordered) then None
         else Some (map (\<lambda>p. \<lparr>bind_itemIndex = pg_index p, bind_actualAgentId = pg_id p,
           bind_actualJobId = (if tr_async r = Some (pg_id p) then tr_async r else None)\<rparr>) ordered)))"

fun bind_answer :: "binding_status ledger_transaction \<Rightarrow> observation" where
  "bind_answer (LedgerScope st _) = (case st of
     BindPending \<Rightarrow> ObsRecorded ObsPending
   | BindBlocked \<Rightarrow> ObsRecorded ObsBlockedCapability
   | MissingReservation \<Rightarrow> ObsBlocked ''identity_mapping_incomplete''
   | BindFactConflict \<Rightarrow> ObsBlocked ''identity commit conflict'')"
| "bind_answer LedgerTxThrows = ObsThrows"
| "bind_answer LedgerTxDied = ObsDied"
| "bind_answer _ = ObsBlocked ''identity commit conflict''"

text \<open>
  \<open>d\<close> is the disk the reservation is read from, without a lock, \<open>d1\<close> the one the transaction finds.
\<close>

record observe_io =
  oi_readable :: bool
  oi_ledger :: ledger_io

definition reservation_of ::
    "host_env \<Rightarrow> canonical_root \<Rightarrow> disk \<Rightarrow> string \<Rightarrow> string \<Rightarrow> store_throw + (string \<times> nat \<times> task_request list) option" where
  "reservation_of E root d session t = (case resolveUnlocked E root d session of
     Inl err \<Rightarrow> Inl err
   | Inr (ScopeFound s) \<Rightarrow> Inr (taskReservation s t)
   | Inr _ \<Rightarrow> Inr None)"

definition observeTask ::
    "host_env \<Rightarrow> canonical_root \<Rightarrow> observe_io \<Rightarrow> tool_observation \<Rightarrow> disk \<Rightarrow> disk \<Rightarrow> disk \<times> observation" where
  "observeTask E root io ob d d1 = (case (runtimeId (ob_toolCallId ob), decodeTaskResult (ob_details ob)) of
     (Some t, Some r) \<Rightarrow>
       (if ob_isError ob then (d1, ObsBlocked ''invalid task result'')
        else if \<not> oi_readable io then (d1, ObsThrows)
        else case reservation_of E root d (ob_sessionId ob) t of
          Inl _ \<Rightarrow> (d1, ObsThrows)
        | Inr None \<Rightarrow> (d1, ObsBlocked ''identity_mapping_incomplete'')
        | Inr (Some (_, n, _)) \<Rightarrow>
          (case task_bindings r n of
             None \<Rightarrow> (d1, ObsBlocked ''identity_mapping_incomplete'')
           | Some bindings \<Rightarrow>
             (case ledger_transact E root (oi_ledger io) (ob_sessionId ob) (bind_decision t bindings (tr_async r \<noteq> None)) d1 of
                (d', out) \<Rightarrow> (d', bind_answer out))))
   | _ \<Rightarrow> (d1, ObsBlocked ''invalid task result''))"

fun receiptResult :: "bool \<Rightarrow> receipt_write_status ledger_transaction \<Rightarrow> observation" where
  "receiptResult proves (LedgerScope st _) = (case st of
     Recorded \<Rightarrow> ObsRecorded (if proves then ObsProven else ObsPending)
   | IdentityMappingIncomplete \<Rightarrow> ObsRecorded ObsBlockedCapability
   | Uncorrelated \<Rightarrow> ObsBlocked ''uncorrelated job result''
   | StaleGeneration \<Rightarrow> ObsBlocked ''stale task generation''
   | ReceiptMissing \<Rightarrow> ObsBlocked ''receipt missing'')"
| "receiptResult proves LedgerTxThrows = ObsThrows"
| "receiptResult proves LedgerTxDied = ObsDied"
| "receiptResult proves _ = ObsBlocked ''task state conflict''"

definition observeJob ::
    "host_env \<Rightarrow> canonical_root \<Rightarrow> ledger_io \<Rightarrow> tool_observation \<Rightarrow> disk \<Rightarrow> disk \<times> observation" where
  "observeJob E root io ob d =
     (case (runtimeId (ob_toolCallId ob), parseJobControl (ob_input ob), decodeJobResult (ob_details ob)) of
        (Some t, Some c, Some r) \<Rightarrow>
          (if ob_isError ob then (d, ObsBlocked ''invalid job result'')
           else case ledger_transact E root io (ob_sessionId ob)
               (if jc_control c = JobCancel then recordCancellation_decision t (jc_inputKey c) (jr_cancelled r)
                else recordJobSnapshot_decision t (jc_inputKey c) (jr_jobs r)) d of
             (d', out) \<Rightarrow> (d', receiptResult (jc_control c = JobSnapshot) out))
      | _ \<Rightarrow> (d, ObsBlocked ''invalid job result''))"

definition observeIrc ::
    "host_env \<Rightarrow> canonical_root \<Rightarrow> ledger_io \<Rightarrow> tool_observation \<Rightarrow> disk \<Rightarrow> disk \<times> observation" where
  "observeIrc E root io ob d =
     (case (runtimeId (ob_toolCallId ob), parseIrcControl (ob_input ob), decodeIrcResult (ob_details ob)) of
        (Some t, Some c, Some receipts) \<Rightarrow>
          (if \<not> ic_sends c \<or> ob_isError ob then (d, ObsBlocked ''invalid IRC receipt'')
           else case ledger_transact E root io (ob_sessionId ob) (recordIrcReceipts_decision t (ic_inputKey c) receipts) d of
             (d', out) \<Rightarrow> (d', receiptResult False out))
      | _ \<Rightarrow> (d, ObsBlocked ''invalid IRC receipt''))"

definition observeHub ::
    "host_env \<Rightarrow> canonical_root \<Rightarrow> ledger_io \<Rightarrow> tool_observation \<Rightarrow> disk \<Rightarrow> disk \<times> observation" where
  "observeHub E root io ob d = (case decodeJobResult (ob_details ob) of
     Some r \<Rightarrow>
       (if hubJobOperation (ob_input ob) = None \<or> jr_op r \<noteq> hubJobOperation (ob_input ob)
        then (d, ObsBlocked ''invalid job result'') else observeJob E root io ob d)
   | None \<Rightarrow>
     (if parseHubWaitControl (ob_input ob) \<noteq> None \<and> isHubWaitMessageResult (ob_details ob) then (d, ObsQuiet)
      else case parseIrcControl (ob_input ob) of
        None \<Rightarrow> (d, ObsQuiet)
      | Some c \<Rightarrow> (if \<not> ic_sends c then (d, ObsQuiet) else observeIrc E root io ob d)))"

text \<open>
  The answers are returned without \<^verbatim>\<open>await\<close>: what they throw is not caught here.
\<close>

definition observe_tool ::
    "host_env \<Rightarrow> canonical_root \<Rightarrow> observe_io \<Rightarrow> tool_observation \<Rightarrow> disk \<Rightarrow> disk \<Rightarrow> disk \<times> observation" where
  "observe_tool E root io ob d d1 =
     (if ob_toolName ob = ''task'' then observeTask E root io ob d d1
      else if ob_toolName ob = ''job'' then observeJob E root (oi_ledger io) ob d1
      else if ob_toolName ob = ''irc'' then observeIrc E root (oi_ledger io) ob d1
      else if ob_toolName ob = ''hub'' then observeHub E root (oi_ledger io) ob d1
      else (d1, ObsQuiet))"

end
