(* ===== verification/Tool_Input_Properties.thy ===== *)
theory Tool_Input_Properties
  imports Tool_Input Packet_Properties
begin

text \<open>
  What the schemas of the tool calls establish: parsed texts are in the normal form of the task ledger, so the gates
  record them as they are; and the text that is hashed for a task determines the task.
\<close>

section \<open>Parsed objects\<close>

lemma parse_members_mem:
  assumes "parse_members ms kvs = Some out" "(k, w) \<in> set out"
  shows "\<exists>b p v. (k, b, p) \<in> set ms \<and> map_of kvs k = Some v \<and> p v = Some w"
  using assms
proof (induction ms arbitrary: out)
  case (Cons m ms)
  obtain k' b p where m: "m = (k', b, p)" by (cases m) auto
  show ?case
  proof (cases "map_of kvs k'")
    case None
    with Cons.prems m have "parse_members ms kvs = Some out" by (simp split: if_splits)
    with Cons.IH [OF this Cons.prems(2)] show ?thesis by auto
  next
    case (Some v)
    with Cons.prems(1) m obtain x rest where x: "p v = Some x" "parse_members ms kvs = Some rest" "out = (k', x) # rest"
      by (auto elim!: bind_SomeE)
    with Cons.prems(2) consider "k = k'" "w = x" | "(k, w) \<in> set rest" by auto
    then show ?thesis
    proof cases
      case 1
      with Some x(1) m show ?thesis by auto
    next
      case 2
      from Cons.IH [OF x(2) this] show ?thesis by auto
    qed
  qed
qed simp

lemma parse_members_required:
  assumes "parse_members ms kvs = Some out" "(k, False, p) \<in> set ms"
  shows "\<exists>w. (k, w) \<in> set out"
  using assms
proof (induction ms arbitrary: out)
  case (Cons m ms)
  obtain k' b q where m: "m = (k', b, q)" by (cases m) auto
  from Cons.prems m obtain rest where "parse_members ms kvs = Some rest" "out = rest \<and> b \<or> (\<exists>x. out = (k', x) # rest)"
    by (auto elim!: bind_SomeE split: option.splits if_splits)
  with Cons.IH [OF this(1)] Cons.prems(2) m show ?case by auto
qed simp

lemma strict_object_parsed:
  assumes "strict_object ms v = Some w"
  obtains kvs out where "v = VObject kvs" "w = VObject out" "parse_members ms kvs = Some out"
  using assms by (auto simp: strict_object_def split: tool_value.splits if_splits)

lemma strict_object_member:
  assumes "strict_object ms v = Some w" "member_of k w = Some x"
  shows "\<exists>b p y. (k, b, p) \<in> set ms \<and> p y = Some x"
  using assms by (auto elim!: strict_object_parsed simp: member_of_def dest!: map_of_SomeD parse_members_mem)

text \<open>A member that only one schema describes.\<close>

lemma member_schema:
  assumes "strict_object ms v = Some w" "member_of k w = Some x" "\<forall>m\<in>set ms. fst m = k \<longrightarrow> snd (snd m) = p"
  shows "\<exists>y. p y = Some x"
  using strict_object_member [OF assms(1,2)] assms(3) by force

lemma text_schema_Some: "text_schema p v = Some w \<longleftrightarrow> (\<exists>s t. v = VText s \<and> w = VText t \<and> p s = Some t)"
  by (auto simp: text_schema_def split: tool_value.splits)

lemma runtimeId_normal: "runtimeId s = Some t \<Longrightarrow> runtimeId t = Some t"
  by (rule runtime_id_schema.parse_idem)

lemma runtimeId_nonempty: "runtimeId t = Some t \<Longrightarrow> nonempty t = Some t"
  by (auto simp: runtimeId_def nonempty_def Let_def split: if_splits)

lemma id_member:
  assumes "strict_object ms v = Some w" "\<forall>m\<in>set ms. fst m = k \<longrightarrow> snd (snd m) = id_text" "t \<in> set (target_of k w)"
  shows "runtimeId t = Some t"
proof -
  from assms(3) have "member_of k w = Some (VText t)"
    by (auto simp: target_of_def text_member_def split: option.splits tool_value.splits)
  from member_schema [OF assms(1) this assms(2)] show ?thesis
    by (auto simp: id_text_def text_schema_Some runtimeId_normal)
qed

lemma ids_member:
  assumes "strict_object ms v = Some w" "\<forall>m\<in>set ms. fst m = k \<longrightarrow> snd (snd m) = array_schema 1 id_text" "t \<in> set (texts_of k w)"
  shows "runtimeId t = Some t"
proof -
  from assms(3) obtain ts where ts: "member_of k w = Some (VArray ts)" "VText t \<in> set ts"
    by (force simp: texts_of_def items_of_def split: option.splits tool_value.splits)
  from member_schema [OF assms(1) this(1) assms(2)] obtain y where "array_schema 1 id_text y = Some (VArray ts)" by blast
  then obtain vs where "those (map id_text vs) = Some ts"
    by (cases y) (auto simp: array_schema_def split: if_splits)
  then have "map id_text vs = map Some ts" by (simp add: those_eq_Some_iff)
  then have "Some (VText t) \<in> id_text ` set vs" using ts(2) by (metis image_eqI list.set_map)
  then show ?thesis by (auto simp: id_text_def text_schema_Some dest!: sym [of "Some _"] runtimeId_normal)
qed

text \<open>A parsed object is printed between braces, so its text is its own trimmed form.\<close>

lemma object_text_normal: "nonempty (value_text (VObject kvs)) = Some (value_text (VObject kvs))"
proof -
  have "js_trim (value_text (VObject kvs)) = value_text (VObject kvs)" by (simp add: js_trim_iff js_space_def)
  then show ?thesis by (simp add: nonempty_def Let_def del: value_text.simps) simp
qed

lemma strict_text_normal: "strict_object ms v = Some w \<Longrightarrow> nonempty (value_text w) = Some (value_text w)"
  by (auto elim!: strict_object_parsed simp only: object_text_normal)

section \<open>The text of a task\<close>

definition item_agent :: "tool_value \<Rightarrow> string" where
  "item_agent item = (case text_member ''agent'' item of None \<Rightarrow> ''task'' | Some a \<Rightarrow> a)"

lemma item_task:
  assumes "taskItemSchema v = Some item"
  obtains t where "text_member ''task'' item = Some t"
proof -
  from assms obtain kvs out where p: "item = VObject out"
    "parse_members [(''name'', True, nonempty_text), (''agent'', True, nonempty_text), (''task'', False, nonempty_text),
      (''isolated'', True, bool_schema)] kvs = Some out"
    by (auto simp: taskItemSchema_def elim!: strict_object_parsed)
  from parse_members_required [OF p(2), of "''task''"] obtain w where "map_of out ''task'' = Some w"
    by (auto dest: weak_map_of_SomeI)
  then have w: "member_of ''task'' item = Some w" by (simp add: p(1) member_of_def)
  from member_schema [OF assms [unfolded taskItemSchema_def] this, of nonempty_text]
  obtain t where "w = VText t" by (auto simp: nonempty_text_def text_schema_Some)
  with w that show thesis by (simp add: text_member_def)
qed

lemma json_string_inj: "json_string s = json_string t \<longleftrightarrow> s = t"
  using json_string_prefix [of s "[]" t "[]"] by simp

lemma name_text_inj:
  "value_text (case n of None \<Rightarrow> VNull | Some x \<Rightarrow> VText x) @ u = value_text (case m of None \<Rightarrow> VNull | Some x \<Rightarrow> VText x) @ v
     \<longleftrightarrow> n = m \<and> u = v"
  by (cases n; cases m) (auto simp: json_string_prefix, auto simp: json_string_def)

text \<open>
  The text that is hashed for a spawned task is the same for two inputs exactly when they name the same agent
  (the agent \<^verbatim>\<open>task\<close> when none is given), ask for isolation alike, and have the same name and the same task, so
  up to a collision of the hash a reservation stands for one task.
\<close>

theorem projection_determines_task:
  assumes "taskItemSchema v = Some item" "taskItemSchema v' = Some item'"
  shows "canonicalTaskProjection v = canonicalTaskProjection v' \<longleftrightarrow>
    item_agent item = item_agent item' \<and>
    (member_of ''isolated'' item = Some (VBool True) \<longleftrightarrow> member_of ''isolated'' item' = Some (VBool True)) \<and>
    text_member ''name'' item = text_member ''name'' item' \<and> text_member ''task'' item = text_member ''task'' item'"
proof -
  obtain t t' where t: "text_member ''task'' item = Some t" "text_member ''task'' item' = Some t'"
    using item_task [OF assms(1)] item_task [OF assms(2)] by metis
  have "canonicalTaskProjection v = canonicalTaskProjection v' \<longleftrightarrow> projection_text item = projection_text item'"
    by (simp add: canonicalTaskProjection_def assms)
  also have "\<dots> \<longleftrightarrow> item_agent item = item_agent item' \<and>
      (member_of ''isolated'' item = Some (VBool True) \<longleftrightarrow> member_of ''isolated'' item' = Some (VBool True)) \<and>
      text_member ''name'' item = text_member ''name'' item' \<and> t = t'"
    by (cases "member_of ''isolated'' item = Some (VBool True)"; cases "member_of ''isolated'' item' = Some (VBool True)")
      (simp_all add: projection_text_def item_agent_def [symmetric] t json_string_prefix name_text_inj json_string_inj)
  finally show ?thesis using t by simp
qed

definition plain_task :: tool_value where
  "plain_task = VObject [(''task'', VText ''fix the parser''), (''name'', VText ''w1'')]"

definition explicit_task :: tool_value where
  "explicit_task = VObject [(''agent'', VText '' task ''), (''task'', VText ''fix the parser''), (''name'', VText ''w1''), (''isolated'', VBool False)]"

theorem projection_determines_task_witness:
  "canonicalTaskProjection plain_task = canonicalTaskProjection explicit_task"
proof -
  have "taskItemSchema plain_task = Some (VObject [(''name'', VText ''w1''), (''task'', VText ''fix the parser'')])"
    "taskItemSchema explicit_task = Some (VObject [(''name'', VText ''w1''), (''agent'', VText ''task''),
      (''task'', VText ''fix the parser''), (''isolated'', VBool False)])"
    by code_simp+
  from projection_determines_task [OF this] show ?thesis by (simp add: item_agent_def text_member_def member_of_def)
qed

end
