(* ===== verification/Gate_Properties.thy ===== *)
theory Gate_Properties
  imports Tool_Gates Tool_Input_Properties Task_Ledger_Properties Sample_Store
begin

text \<open>
  What the gates guarantee: a call they let through has been recorded in the ledger of the session's run and reaches
  only what the run owns, a spawned task has an agent its packet allows, and which failures are thrown at the host
  instead of being answered.
\<close>

section \<open>Parsed controls are normal\<close>

definition normal_control :: "string \<Rightarrow> string list \<Rightarrow> bool" where
  "normal_control key targets \<longleftrightarrow> nonempty key = Some key \<and> (\<forall>t\<in>set targets. runtimeId t = Some t)"

lemma control_fact_normal:
  assumes "normal_control key targets" "runtimeId t = Some t" "0 < g" "g \<le> max_safe_integer"
  shows "factSchema (TaskControlAuthorized t c g key targets) = Some (TaskControlAuthorized t c g key targets)"
proof -
  have "array_of nonempty targets = Some targets"
    using assms(1) by (simp add: array_of_normal list_all_iff normal_control_def runtimeId_nonempty)
  then show ?thesis using assms by (simp add: normal_control_def counter_positive_def counter_def)
qed

lemma strict_control:
  assumes "strict_object ms v = Some w" "\<forall>m\<in>set ms. fst m = k \<longrightarrow> snd (snd m) = id_text"
  shows "normal_control (value_text w) (target_of k w)"
  using strict_text_normal [OF assms(1)] id_member [OF assms] by (simp add: normal_control_def)

lemma strict_controls:
  assumes "strict_object ms v = Some w" "\<forall>m\<in>set ms. fst m = k \<longrightarrow> snd (snd m) = array_schema 1 id_text"
  shows "normal_control (value_text w) (texts_of k w)"
  using strict_text_normal [OF assms(1)] ids_member [OF assms] by (simp add: normal_control_def)

lemma strict_plain: "strict_object ms v = Some w \<Longrightarrow> normal_control (value_text w) []"
  by (simp add: normal_control_def strict_text_normal)

lemma hub_wait_normal:
  assumes "parseHubWaitControl v = Some c"
  shows "normal_control (hw_inputKey c) (hw_jobTargets c)" "normal_control (hw_inputKey c) (hw_agentTargets c)"
proof -
  from assms obtain w where w: "hubWaitSchema v = Some w"
    "c = \<lparr>hw_inputKey = value_text w, hw_jobTargets = texts_of ''ids'' w, hw_agentTargets = target_of ''from'' w\<rparr>"
    by (auto simp: parseHubWaitControl_def)
  show "normal_control (hw_inputKey c) (hw_jobTargets c)" "normal_control (hw_inputKey c) (hw_agentTargets c)"
    using strict_controls [OF w(1) [unfolded hubWaitSchema_def], of "''ids''"]
      strict_control [OF w(1) [unfolded hubWaitSchema_def], of "''from''"] w(2)
    by (simp_all add: op_is_def)
qed

lemmas job_schemas = hubJobsSchema_def hubCancelSchema_def jobListSchema_def jobDefaultSchema_def jobPollSchema_def jobCancelSchema_def

lemma job_normal:
  assumes "parseJobControl v = Some c"
  shows "normal_control (jc_inputKey c) (jc_targets c) \<and> jc_control c \<in> {JobSnapshot, JobCancel}"
proof -
  from assms consider
      w where "hubJobsSchema v = Some w" "c = job_parsed JobSnapshot (\<lambda>_. []) w"
    | h where "parseHubWaitControl v = Some h" "c = \<lparr>jc_control = JobSnapshot, jc_inputKey = hw_inputKey h, jc_targets = hw_jobTargets h\<rparr>"
    | w where "hubCancelSchema v = Some w" "c = job_parsed JobCancel (texts_of ''ids'') w"
    | w where "jobListSchema v = Some w" "c = job_parsed JobSnapshot (\<lambda>_. []) w"
    | w where "jobDefaultSchema v = Some w" "c = job_parsed JobSnapshot (\<lambda>_. []) w"
    | w where "jobPollSchema v = Some w" "c = job_parsed JobSnapshot (texts_of ''poll'') w"
    | w where "jobCancelSchema v = Some w" "c = job_parsed JobCancel (texts_of ''cancel'') w"
    by (auto simp: parseJobControl_def split: option.splits)
  then show ?thesis
    by cases (auto simp: job_schemas job_parsed_def op_is_def hub_wait_normal
        dest: strict_plain strict_controls [where k = "''ids''"] strict_controls [where k = "''poll''"]
          strict_controls [where k = "''cancel''"])
qed

lemma first_schema_Some: "first_schema ps v = Some w \<Longrightarrow> \<exists>p\<in>set ps. p v = Some w"
  by (induction ps) (auto split: option.splits)

lemma irc_normal:
  assumes "parseIrcControl v = Some c"
  shows "normal_control (ic_inputKey c) (ic_targets c)"
proof -
  from assms consider
      w where "hubSendSchema v = Some w" "c = irc_parsed True (target_of ''to'') w"
    | w where "hubPassiveSchema v = Some w" "c = irc_parsed False (\<lambda>_. []) w"
    | h where "parseHubWaitControl v = Some h" "c = \<lparr>ic_sends = False, ic_inputKey = hw_inputKey h, ic_targets = hw_agentTargets h\<rparr>"
    | w where "ircSendSchema v = Some w" "c = irc_parsed True (target_of ''to'') w"
    | w where "ircPassiveSchema v = Some w" "c = irc_parsed False
        (\<lambda>w. if member_of ''op'' w = Some (VText ''wait'') then target_of ''from'' w else []) w"
    by (auto simp: parseIrcControl_def split: option.splits)
  then show ?thesis
  proof cases
    case 1
    then show ?thesis
      using strict_control [of "send_members @ [(''timeoutMs'', True, nonnegative_schema)]" v w "''to''"]
      by (simp add: hubSendSchema_def irc_parsed_def send_members_def op_is_def)
  next
    case 2
    from first_schema_Some [OF this(1) [unfolded hubPassiveSchema_def]] this(2) show ?thesis
      by (auto simp: list_and_inbox_def irc_parsed_def strict_plain)
  next
    case 3
    then show ?thesis using hub_wait_normal(2) by simp
  next
    case 4
    then show ?thesis
      using strict_control [of send_members v w "''to''"] by (simp add: ircSendSchema_def irc_parsed_def send_members_def op_is_def)
  next
    case 5
    from first_schema_Some [OF this(1) [unfolded ircPassiveSchema_def]] obtain ms where ms: "strict_object ms v = Some w"
      "\<forall>m\<in>set ms. fst m = ''from'' \<longrightarrow> snd (snd m) = id_text"
      by (auto simp: list_and_inbox_def op_is_def)
    from strict_control [OF this] strict_plain [OF ms(1)] 5(2) show ?thesis by (simp add: irc_parsed_def)
  qed
qed

section \<open>Parsed tasks are normal\<close>

lemma item_text_normal:
  assumes "taskItemSchema v = Some item" "k \<in> {''name'', ''agent''}" "text_member k item = Some s"
  shows "nonempty s = Some s"
proof -
  have "member_of k item = Some (VText s)" using assms(3) by (auto simp: text_member_def split: option.splits tool_value.splits)
  from member_schema [OF assms(1) [unfolded taskItemSchema_def] this, of nonempty_text] assms(2)
  show ?thesis by (auto simp: nonempty_text_def text_schema_Some intro: nonempty_schema.parse_idem)
qed

lemma request_normal:
  assumes "taskItemSchema v = Some item" "hex_string 64 (sha (projection_text item))" "i \<le> max_safe_integer"
  shows "requestSchema (taskRequest sha item i) = Some (taskRequest sha item i)"
  using assms item_text_normal [OF assms(1), of "''name''"] item_text_normal [OF assms(1), of "''agent''"]
  by (auto simp: requestSchema_def taskRequest_def nullable_def hash_schema_def counter_def split: option.splits)

lemma spawn_shape:
  assumes "parseTaskSpawn sha v = Some sp"
  obtains items where "items \<noteq> []" "\<forall>item\<in>set items. \<exists>u. taskItemSchema u = Some item" "sp_itemCount sp = length items"
    "sp_requests sp = map (\<lambda>(item, i). taskRequest sha item i) (zip items [0..<length items])"
proof (cases "flatTaskSchema v")
  case (Some item)
  with assms show thesis by (intro that [of "[item]"]) (auto simp: parseTaskSpawn_def flatTaskSchema_def)
next
  case None
  with assms obtain b where b: "batchTaskSchema v = Some b" "sp_itemCount sp = length (items_of ''tasks'' b)"
    "sp_requests sp = map (\<lambda>(item, i). taskRequest sha item i) (zip (items_of ''tasks'' b) [0..<length (items_of ''tasks'' b)])"
    by (auto simp: parseTaskSpawn_def Let_def split: option.splits)
  from b(1) obtain kvs out where out: "b = VObject out"
    "parse_members [(''context'', False, text_schema Some), (''tasks'', False, array_schema 1 taskItemSchema)] kvs = Some out"
    by (auto simp: batchTaskSchema_def elim!: strict_object_parsed)
  from parse_members_required [OF out(2), of "''tasks''"] obtain w where w: "member_of ''tasks'' b = Some w"
    by (auto simp: out(1) member_of_def dest: weak_map_of_SomeI)
  from member_schema [OF b(1) [unfolded batchTaskSchema_def] this, of "array_schema 1 taskItemSchema"]
  obtain y where "array_schema 1 taskItemSchema y = Some w" by auto
  then obtain us ts where ts: "w = VArray ts" "us \<noteq> []" "those (map taskItemSchema us) = Some ts"
    by (cases y) (auto simp: array_schema_def split: if_splits)
  then have eq: "map taskItemSchema us = map Some ts" by (simp add: those_eq_Some_iff)
  then have "length us = length ts" by (metis length_map)
  then have "ts \<noteq> []" using ts(2) by auto
  moreover have "\<exists>u. taskItemSchema u = Some item" if "item \<in> set ts" for item
    using eq that by (metis (no_types, lifting) image_iff list.set_map)
  moreover have "items_of ''tasks'' b = ts" using w ts(1) by (simp add: items_of_def)
  ultimately show thesis using b(2,3) that [of ts] by simp
qed

lemma spawn_normal:
  assumes "parseTaskSpawn sha v = Some sp" "\<forall>x. hex_string 64 (sha x)" "sp_itemCount sp \<le> max_safe_integer" "runtimeId t = Some t"
  shows "factSchema (TaskReserved t (sp_itemCount sp) (sp_requests sp)) = Some (TaskReserved t (sp_itemCount sp) (sp_requests sp))"
proof -
  obtain items where items: "items \<noteq> []" "\<forall>item\<in>set items. \<exists>u. taskItemSchema u = Some item" "sp_itemCount sp = length items"
    "sp_requests sp = map (\<lambda>(item, i). taskRequest sha item i) (zip items [0..<length items])"
    using spawn_shape [OF assms(1)] .
  have "requestSchema q = Some q" if q: "q \<in> set (sp_requests sp)" for q
  proof -
    from q obtain item i where qi: "q = taskRequest sha item i" "item \<in> set items" "i < length items"
      by (force simp: items(4) in_set_zip)
    then obtain u where "taskItemSchema u = Some item" using items(2) by blast
    from request_normal [OF this, of sha i] assms(2,3) items(3) qi show ?thesis by simp
  qed
  then have "array_of requestSchema (sp_requests sp) = Some (sp_requests sp)" by (simp add: array_of_normal list_all_iff)
  moreover have "map req_itemIndex (sp_requests sp) = [0..<length items]"
    by (rule nth_equalityI) (simp_all add: items(4) taskRequest_def)
  moreover have "length (sp_requests sp) = length items" "sp_requests sp \<noteq> []" using items(1) by (simp_all add: items(4))
  ultimately show ?thesis using assms(3,4) items(1,3) by (simp add: counter_positive_def counter_def)
qed

section \<open>What a transaction leaves\<close>

lemma novel_facts_covers:
  "novel_facts ordered byKey nov fs = Some res \<Longrightarrow>
     set nov \<subseteq> set res \<and> (\<forall>f\<in>set fs. byKey (taskFactKey f) = Some f \<or> f \<in> set res)"
proof (induction ordered byKey nov fs rule: novel_facts.induct)
  case (2 ordered byKey nov f fs)
  show ?case
  proof (cases "byKey (taskFactKey f)")
    case None
    with "2.prems" have no: "\<not> list_ex (\<lambda>c. taskFactKey c = taskFactKey f) nov" "novel_facts ordered byKey (nov @ [f]) fs = Some res"
      by (auto split: if_splits)
    from "2.IH"(1) [OF None no] show ?thesis by auto
  next
    case (Some old)
    with "2.prems" have "sameFact ordered f f" "old = f" "novel_facts ordered byKey nov fs = Some res"
        by (auto simp: sameFact_def split: if_splits)
    with "2.IH"(2) [OF Some] Some show ?thesis by auto
  qed
qed simp

lemma list_all2_mem: "list_all2 P xs ys \<Longrightarrow> x \<in> set xs \<Longrightarrow> \<exists>y\<in>set ys. P x y"
  by (induction rule: list_all2_induct) auto

lemma owned_existing:
  "facts_by_key (scope_ledger s) (own_sessionId (run_owner (scope_run s))) (own_epoch (run_owner (scope_run s))) k = Some f
     \<Longrightarrow> f \<in> set (taskFacts s)"
  by (auto simp: facts_by_key_def taskFacts_def currentOwnerEntries_def dest!: find_last_SomeD)

lemma owned_appended:
  assumes "ownerSchema (run_owner (scope_run s)) = Some (run_owner (scope_run s))" "appended_to s novel l'"
    "f \<in> set novel" "factSchema f = Some f"
  shows "f \<in> set (taskFacts (s\<lparr>scope_ledger := l'\<rparr>))"
proof -
  let ?o = "run_owner (scope_run s)"
  obtain new where new: "tl_entries l' = tl_entries (scope_ledger s) @ new"
    "list_all2 (\<lambda>x y. ledgerEntrySchema x = Some y) (new_entries (scope_ledger s) novel (own_sessionId ?o) (own_epoch ?o)) new"
    using assms(2) by (auto simp: appended_to_def)
  obtain x where x: "x \<in> set (new_entries (scope_ledger s) novel (own_sessionId ?o) (own_epoch ?o))" "tle_fact x = f"
    "tle_ownerSessionId x = own_sessionId ?o" "tle_ownerEpoch x = own_epoch ?o"
  proof -
    from assms(3) obtain i where "i < length novel" "novel ! i = f" by (auto simp: in_set_conv_nth)
    then have "(f, i) \<in> set (zip novel [0..<length novel])" by (auto simp: in_set_zip)
    then show thesis by (intro that) (force simp: new_entries_def)+
  qed
  from list_all2_mem [OF new(2) x(1)] obtain y where y: "y \<in> set new" "ledgerEntrySchema x = Some y" by blast
  have "nonempty (own_sessionId ?o) = Some (own_sessionId ?o)" using assms(1) by (simp add: ownerSchema_normal_iff)
  with y(2) x assms(4) have "tle_fact y = f" "tle_ownerSessionId y = own_sessionId ?o" "tle_ownerEpoch y = own_epoch ?o"
    by (auto simp: ledgerEntrySchema_def counter_def elim!: bind_SomeE split: if_splits)
  with y(1) new(1) show ?thesis by (force simp: taskFacts_def currentOwnerEntries_def)
qed

lemma resolvedE:
  assumes "resolveUnlocked E root d session = Inr (ScopeFound s)"
  obtains i x r l where "readIndex E d = Inr i" "filter (\<lambda>x. ent_sessionId x = session) (idx_entries i) = [x]"
    "readRun E root d (ent_runId x) = Inr (Some r)" "entry_agrees x r"
    "readLedger E r (d_taskFacts d (run_runId r)) = Inr l"
    "s = \<lparr>scope_indexRevision = idx_revision i, scope_run = r, scope_ledger = l\<rparr>"
proof -
  from assms obtain i where i: "readIndex E d = Inr i" by (cases "readIndex E d") (simp_all add: resolveUnlocked_def)
  with assms obtain x where x: "filter (\<lambda>x. ent_sessionId x = session) (idx_entries i) = [x]"
    by (auto simp: resolveUnlocked_def split: list.splits)
  with i assms obtain r where r: "readRun E root d (ent_runId x) = Inr (Some r)"
    by (auto simp: resolveUnlocked_def split: sum.splits option.splits)
  with i x assms have agrees: "entry_agrees x r" by (auto simp: resolveUnlocked_def split: if_splits)
  with i x r assms obtain l where "readLedger E r (d_taskFacts d (run_runId r)) = Inr l"
    by (cases "readLedger E r (d_taskFacts d (run_runId r))") (auto simp: resolveUnlocked_def)
  with i x r agrees assms show thesis by (intro that) (auto simp: resolveUnlocked_def)
qed

lemma readLedger_normal: "readLedger E r f = Inr l \<Longrightarrow> taskLedgerSchema E l = Some l"
  by (auto simp: readLedger_def split: option.splits file_bytes.splits dest: task_ledger_schema.parse_idem)

lemma resolved_ok:
  assumes "resolveUnlocked E root d session = Inr (ScopeFound s)"
  shows "scope_ok E s"
proof -
  from assms obtain i x r l where r: "readRun E root d (ent_runId x) = Inr (Some r)" "readIndex E d = Inr i"
    "entry_agrees x r" "readLedger E r (d_taskFacts d (run_runId r)) = Inr l"
    "s = \<lparr>scope_indexRevision = idx_revision i, scope_run = r, scope_ledger = l\<rparr>" by (rule resolvedE) blast
  from r(1) obtain b where "decodeRun E root b = Inr r" by (auto simp: readRun_def split: if_splits option.splits sum.splits)
  then have "ownerSchema (run_owner r) = Some (run_owner r)" using decodeRun_schema by (auto simp: runSchema_normal_iff)
  with r(4,5) readLedger_normal show ?thesis by (simp add: scope_ok_def)
qed

text \<open>After the ledger of the run has been replaced, the session's scope is the same with the new ledger.\<close>

lemma resolved_after_put:
  assumes "resolveUnlocked E root d session = Inr (ScopeFound s)" "taskLedgerSchema E l = Some l"
  shows "resolveUnlocked E root (put_ledger d (run_runId (scope_run s)) (Some (Json l))) session =
    Inr (ScopeFound (s\<lparr>scope_ledger := l\<rparr>))"
proof -
  from assms(1) obtain i x r l0 where r: "readIndex E d = Inr i" "filter (\<lambda>x. ent_sessionId x = session) (idx_entries i) = [x]"
    "readRun E root d (ent_runId x) = Inr (Some r)" "entry_agrees x r"
    "s = \<lparr>scope_indexRevision = idx_revision i, scope_run = r, scope_ledger = l0\<rparr>" by (rule resolvedE) blast
  let ?d = "put_ledger d (run_runId (scope_run s)) (Some (Json l))"
  have "readIndex E ?d = readIndex E d" "readRun E root ?d k = readRun E root d k" for k
    by (simp_all add: readIndex_def readRun_def put_ledger_def)
  moreover have "readLedger E r (d_taskFacts ?d (run_runId r)) = Inr l"
    using assms(2) r(5) by (simp add: readLedger_def put_ledger_def)
  ultimately show ?thesis using r by (simp add: resolveUnlocked_def)
qed

text \<open>A transaction with a value: the ledger is as it was, or extended by the facts that were not there yet.\<close>

lemma transaction_appended:
  assumes "ledger_transact E root io session decide d = (d', LedgerScope v b)"
  obtains s s' where "resolveUnlocked E root d session = Inr (ScopeFound s)"
    "resolveUnlocked E root d' session = Inr (ScopeFound s')"
    "(decide s = Return v \<and> s' = s) \<or>
     (\<exists>ordered facts novel. decide s = Append ordered facts v \<and>
       novel_facts ordered (facts_by_key (scope_ledger s) (own_sessionId (run_owner (scope_run s))) (own_epoch (run_owner (scope_run s)))) [] facts =
         Some novel \<and>
       (novel = [] \<and> s' = s \<or> (\<exists>l. s' = s\<lparr>scope_ledger := l\<rparr> \<and> appended_to s novel l)))"
proof -
  from assms obtain s where s: "resolveUnlocked E root d session = Inr (ScopeFound s)"
    and t: "transact_scope E (li_write io) decide s d = (d', LedgerScope v b)"
    by (auto simp: ledger_transact_def split: if_splits sum.splits scope_result.splits prod.splits)
  have ok: "scope_ok E s" by (rule resolved_ok [OF s])
  show thesis
  proof (cases "decide s")
    case (Return w)
    with t have "w = v" "d' = d" by (auto simp: transact_scope_def run_decision_def)
    with Return s show thesis by (intro that [of s s]) auto
  next
    case (Append ordered facts w)
    let ?o = "run_owner (scope_run s)" and ?l = "scope_ledger s"
    from Append t obtain l c where m: "merge E ?l ordered facts (own_sessionId ?o) (own_epoch ?o) = Merged l c" "w = v"
      by (auto simp: transact_scope_def run_decision_def split: merge_result.splits prod.splits if_splits write_outcome.splits)
    then obtain novel where novel: "novel_facts ordered (facts_by_key ?l (own_sessionId ?o) (own_epoch ?o)) [] facts = Some novel"
      by (auto simp: merge_def split: option.splits)
    show thesis
    proof (cases "novel = []")
      case True
      with m novel Append t have "d' = d" by (auto simp: transact_scope_def run_decision_def merge_def split: if_splits)
      then show thesis using s Append m(2) novel True by (intro that [of s s]) auto
    next
      case False
      have r: "run_decision E decide s = (l, Committed v True)"
        using m novel Append False by (auto simp: run_decision_def merge_def split: option.splits if_splits)
      from run_decision_cases [OF ok r] have l: "taskLedgerSchema E l = Some l" by blast
      from r t have d': "d' = put_ledger d (run_runId (scope_run s)) (Some (Json l))"
        using atomicReplace_atomic [of "li_write io" "Json l" "d_taskFacts d (run_runId (scope_run s))"]
        by (auto simp: transact_scope_def split: prod.splits write_outcome.splits)
      have "taskLedgerSchema E (append_facts ?l novel (own_sessionId ?o) (own_epoch ?o)) = Some l"
        using m novel False by (auto simp: merge_def split: option.splits)
      then have app: "appended_to s novel l" by (rule merge_appends [OF ok])
      show thesis using that [OF s] resolved_after_put [OF s l] Append m(2) d' novel app by blast
    qed
  qed
qed

lemma transaction_recorded:
  assumes "ledger_transact E root io session decide d = (d', LedgerScope v b)"
  obtains s s' where "resolveUnlocked E root d session = Inr (ScopeFound s)"
    "resolveUnlocked E root d' session = Inr (ScopeFound s')"
    "(decide s = Return v \<and> s' = s) \<or>
     (\<exists>ordered facts. decide s = Append ordered facts v \<and> (\<forall>f\<in>set facts. factSchema f = Some f \<longrightarrow> f \<in> set (taskFacts s')))"
proof -
  obtain s s' where s: "resolveUnlocked E root d session = Inr (ScopeFound s)" "resolveUnlocked E root d' session = Inr (ScopeFound s')"
    "(decide s = Return v \<and> s' = s) \<or>
     (\<exists>ordered facts novel. decide s = Append ordered facts v \<and>
       novel_facts ordered (facts_by_key (scope_ledger s) (own_sessionId (run_owner (scope_run s))) (own_epoch (run_owner (scope_run s)))) [] facts =
         Some novel \<and>
       (novel = [] \<and> s' = s \<or> (\<exists>l. s' = s\<lparr>scope_ledger := l\<rparr> \<and> appended_to s novel l)))"
    using transaction_appended [OF assms] .
  have owner: "ownerSchema (run_owner (scope_run s)) = Some (run_owner (scope_run s))" using resolved_ok [OF s(1)] by (simp add: scope_ok_def)
  have kept: "f \<in> set (taskFacts (s\<lparr>scope_ledger := l\<rparr>))" if "f \<in> set (taskFacts s)" "appended_to s novel l" for f novel l
    using that by (auto simp: taskFacts_def currentOwnerEntries_def appended_to_def)
  show thesis
    using s(3)
  proof (elim disjE exE conjE)
    fix ordered facts novel
    assume a: "decide s = Append ordered facts v" "novel = []" "s' = s"
      "novel_facts ordered (facts_by_key (scope_ledger s) (own_sessionId (run_owner (scope_run s))) (own_epoch (run_owner (scope_run s)))) [] facts = Some novel"
    show thesis using that [OF s(1,2)] a(1-3) novel_facts_covers [OF a(4)] owned_existing by fastforce
  next
    fix ordered facts novel l
    assume a: "decide s = Append ordered facts v" "s' = s\<lparr>scope_ledger := l\<rparr>" "appended_to s novel l"
      "novel_facts ordered (facts_by_key (scope_ledger s) (own_sessionId (run_owner (scope_run s))) (own_epoch (run_owner (scope_run s)))) [] facts = Some novel"
    have "f \<in> set (taskFacts s')" if "f \<in> set facts" "factSchema f = Some f" for f
      using novel_facts_covers [OF a(4)] that owned_appended [OF owner a(3)] kept [OF owned_existing a(3)] a(2) by blast
    then show thesis using that [OF s(1,2)] a(1) by blast
  qed (use that s in blast)
qed

section \<open>What the guard lets through\<close>

text \<open>A control is recorded under its generation.\<close>

definition recorded_control :: "string \<Rightarrow> task_control \<Rightarrow> string \<Rightarrow> string list \<Rightarrow> task_run_scope \<Rightarrow> task_run_scope \<Rightarrow> bool" where
  "recorded_control t c key targets s s' \<longleftrightarrow> 0 < taskGeneration s \<and>
     TaskControlAuthorized t c (taskGeneration s) key targets \<in> set (taskFacts s')"

text \<open>
  What letting a call through means, with the scope before and after. A snapshot of all jobs needs no worker.
\<close>

fun admitted :: "tool_authorization \<Rightarrow> task_run_scope \<Rightarrow> task_run_scope \<Rightarrow> bool" where
  "admitted PassThrough s s' = False"
| "admitted (Denied _) s s' = False"
| "admitted (AuthTask t sp) s s' \<longleftrightarrow> TaskReserved t (sp_itemCount sp) (sp_requests sp) \<in> set (taskFacts s')"
| "admitted (AuthJob t c) s s' \<longleftrightarrow> (taskGeneration s = 0 \<and> jc_targets c = []) \<or>
     (recorded_control t (jc_control c) (jc_inputKey c) (jc_targets c) s s' \<and>
      set (jc_targets c) \<subseteq> set (owned_jobs (runtimeIdentities s (taskGeneration s))))"
| "admitted (AuthIrc t c) s s' \<longleftrightarrow>
     recorded_control t (if ic_sends c then IrcSend else IrcTarget) (ic_inputKey c) (ic_targets c) s s' \<and>
     set (ic_targets c) \<subseteq> set (owned_agents (runtimeIdentities s (taskGeneration s)))"
| "admitted (AuthHubWait t c) s s' \<longleftrightarrow> recorded_control t JobSnapshot (hw_inputKey c) (hw_jobTargets c) s s' \<and>
     set (hw_jobTargets c) \<subseteq> set (owned_jobs (runtimeIdentities s (taskGeneration s))) \<and>
     set (hw_agentTargets c) \<subseteq> set (owned_agents (runtimeIdentities s (taskGeneration s)))"

lemma generation_bounded:
  assumes "scope_ok E s"
  shows "taskGeneration s \<le> max_safe_integer"
proof (cases "taskGeneration s = 0")
  case False
  then obtain e where e: "find_last (\<lambda>e. starts_generation (tle_fact e)) (currentOwnerEntries s) = Some e"
    "taskGeneration s = tle_sequence e"
    by (auto simp: taskGeneration_def split: option.splits)
  from e(1) have "e \<in> set (tl_entries (scope_ledger s))" by (auto simp: currentOwnerEntries_def dest: find_last_SomeD)
  moreover have "list_all (\<lambda>e. ledgerEntrySchema e = Some e) (tl_entries (scope_ledger s))"
    using assms by (simp add: scope_ok_def taskLedgerSchema_normal_iff)
  ultimately show ?thesis using e(2) by (auto simp: list_all_iff ledgerEntrySchema_normal_iff)
qed simp

lemma authorize_recorded:
  assumes "ledger_transact E root io session (authorize_decision t c key targets) d = (d', LedgerScope v b)"
    "normal_control key targets" "runtimeId t = Some t"
  obtains s s' where "resolveUnlocked E root d session = Inr (ScopeFound s)" "resolveUnlocked E root d' session = Inr (ScopeFound s')"
    "v = Authorized \<longrightarrow> recorded_control t c key targets s s' \<and>
       set targets \<subseteq> set (if c = IrcSend \<or> c = IrcTarget then owned_agents (runtimeIdentities s (taskGeneration s))
         else owned_jobs (runtimeIdentities s (taskGeneration s)))"
    "v = NoGeneration \<longrightarrow> taskGeneration s = 0"
proof -
  obtain s s' where s: "resolveUnlocked E root d session = Inr (ScopeFound s)" "resolveUnlocked E root d' session = Inr (ScopeFound s')"
    "(authorize_decision t c key targets s = Return v \<and> s' = s) \<or> (\<exists>ordered facts. authorize_decision t c key targets s = Append ordered facts v \<and>
       (\<forall>f\<in>set facts. factSchema f = Some f \<longrightarrow> f \<in> set (taskFacts s')))"
    using transaction_recorded [OF assms(1)] .
  note g = generation_bounded [OF resolved_ok [OF s(1)]]
  show thesis
    using s control_fact_normal [OF assms(2,3) _ g, of c]
    by (intro that [OF s(1,2)]) (auto simp: authorize_decision_def Let_def recorded_control_def list_ex_iff split: if_splits)
qed

lemma hub_wait_recorded:
  assumes "ledger_transact E root io session (authorizeHubWait_decision t key jobs agents) d = (d', LedgerScope HubAuthorized b)"
    "normal_control key jobs" "runtimeId t = Some t"
  obtains s s' where "resolveUnlocked E root d session = Inr (ScopeFound s)" "resolveUnlocked E root d' session = Inr (ScopeFound s')"
    "recorded_control t JobSnapshot key jobs s s'" "set jobs \<subseteq> set (owned_jobs (runtimeIdentities s (taskGeneration s)))"
    "set agents \<subseteq> set (owned_agents (runtimeIdentities s (taskGeneration s)))"
proof -
  obtain s s' where s: "resolveUnlocked E root d session = Inr (ScopeFound s)" "resolveUnlocked E root d' session = Inr (ScopeFound s')"
    "(authorizeHubWait_decision t key jobs agents s = Return HubAuthorized \<and> s' = s) \<or>
     (\<exists>ordered facts. authorizeHubWait_decision t key jobs agents s = Append ordered facts HubAuthorized \<and>
       (\<forall>f\<in>set facts. factSchema f = Some f \<longrightarrow> f \<in> set (taskFacts s')))"
    using transaction_recorded [OF assms(1)] .
  note g = generation_bounded [OF resolved_ok [OF s(1)]]
  show thesis
    using s control_fact_normal [OF assms(2,3) _ g, of JobSnapshot]
    by (intro that [OF s(1,2)])
      (auto simp: authorizeHubWait_decision_def Let_def recorded_control_def list_ex_iff split: if_splits)
qed

lemma reserve_recorded:
  assumes "ledger_transact E root io session (reserve_decision t n reqs limit) d = (d', LedgerScope v b)" "v \<in> {Reserved, Replayed}"
    "n \<le> max_safe_integer \<Longrightarrow> factSchema (TaskReserved t n reqs) = Some (TaskReserved t n reqs)"
  obtains s s' where "resolveUnlocked E root d session = Inr (ScopeFound s)" "resolveUnlocked E root d' session = Inr (ScopeFound s')"
    "TaskReserved t n reqs \<in> set (taskFacts s')" "v = Reserved \<longrightarrow> reserved_total s + n \<le> limit"
    "v = Replayed \<longrightarrow> TaskReserved t n reqs \<in> set (taskFacts s)"
proof -
  obtain s s' where s: "resolveUnlocked E root d session = Inr (ScopeFound s)" "resolveUnlocked E root d' session = Inr (ScopeFound s')"
    "(reserve_decision t n reqs limit s = Return v \<and> s' = s) \<or> (\<exists>ordered facts. reserve_decision t n reqs limit s = Append ordered facts v \<and>
       (\<forall>f\<in>set facts. factSchema f = Some f \<longrightarrow> f \<in> set (taskFacts s')))"
    using transaction_recorded [OF assms(1)] .
  have "f \<in> set (taskFacts s)" if "taskReservation s t = Some (t, n, reqs)" "f = TaskReserved t n reqs" for f
    using that by (auto simp: taskReservation_def taskReservations_def dest!: find_SomeD split: task_fact.splits)
  then show thesis using s assms(2,3)
    by (intro that [OF s(1,2)])
      (auto simp: reserve_decision_def Let_def reserved_total_reservations split: option.splits if_splits)
qed

fun quiet_control :: "tool_authorization \<Rightarrow> bool" where
  "quiet_control (AuthIrc _ c) \<longleftrightarrow> \<not> ic_sends c \<and> ic_targets c = []"
| "quiet_control _ \<longleftrightarrow> False"

text \<open>The classification of a call yields values in the normal form of the ledger.\<close>

fun normal_authorization :: "tool_authorization \<Rightarrow> bool" where
  "normal_authorization (AuthTask t sp) \<longleftrightarrow> runtimeId t = Some t \<and> (sp_itemCount sp \<le> max_safe_integer \<longrightarrow>
     factSchema (TaskReserved t (sp_itemCount sp) (sp_requests sp)) = Some (TaskReserved t (sp_itemCount sp) (sp_requests sp)))"
| "normal_authorization (AuthJob t c) \<longleftrightarrow> runtimeId t = Some t \<and> normal_control (jc_inputKey c) (jc_targets c) \<and>
     jc_control c \<in> {JobSnapshot, JobCancel}"
| "normal_authorization (AuthIrc t c) \<longleftrightarrow> runtimeId t = Some t \<and> normal_control (ic_inputKey c) (ic_targets c)"
| "normal_authorization (AuthHubWait t c) \<longleftrightarrow> runtimeId t = Some t \<and> normal_control (hw_inputKey c) (hw_jobTargets c)"
| "normal_authorization _ \<longleftrightarrow> True"

lemma authorization_normal:
  assumes "\<forall>x. hex_string 64 (sha x)"
  shows "normal_authorization (authorizeImmutableToolCall sha tool callId v)"
  using spawn_normal [OF _ assms] job_normal irc_normal hub_wait_normal(1)
  by (auto simp: authorizeImmutableToolCall_def dest: runtimeId_normal split: option.splits controlled_tool.splits)

lemma reserve_allowed: "reserve_answer r = GateAllowed \<Longrightarrow> \<exists>v b. r = LedgerScope v b \<and> v \<in> {Reserved, Replayed}"
proof (cases r)
  case (LedgerScope v b)
  then show "reserve_answer r = GateAllowed \<Longrightarrow> ?thesis" by (cases v) auto
qed auto

lemma job_allowed:
  "job_answer targets r = GateAllowed \<Longrightarrow> \<exists>v b. r = LedgerScope v b \<and> (v = Authorized \<or> (v = NoGeneration \<and> targets = []))"
proof (cases r)
  case (LedgerScope v b)
  then show "job_answer targets r = GateAllowed \<Longrightarrow> ?thesis" by (cases v) (auto split: if_splits)
qed auto

lemma irc_allowed: "irc_answer r = GateAllowed \<Longrightarrow> \<exists>b. r = LedgerScope Authorized b"
  by (cases r) (auto split: if_splits)

lemma hub_allowed: "hub_answer r = GateAllowed \<Longrightarrow> \<exists>b. r = LedgerScope HubAuthorized b"
  by (cases r) (auto split: hub_wait_status.splits)

lemma task_allowed:
  assumes "handleTask E root io g session t sp d = (d', GateAllowed)"
  obtains v b where "policy_refusal g sp = None" "ledger_transact E root io session
    (reserve_decision t (sp_itemCount sp) (sp_requests sp) (sg_maxFanOut g)) d = (d', LedgerScope v b)" "v \<in> {Reserved, Replayed}"
  using assms by (cases "policy_refusal g sp") (auto simp: handleTask_def split: prod.splits dest: reserve_allowed)

lemma handled_admitted:
  assumes "handleAuthorized E root io g session auth d = (d', GateAllowed)" "normal_authorization auth" "auth \<noteq> PassThrough"
  shows "quiet_control auth \<or> (\<exists>s s'. resolveUnlocked E root d session = Inr (ScopeFound s) \<and>
    resolveUnlocked E root d' session = Inr (ScopeFound s') \<and> admitted auth s s')"
proof (cases auth)
  case (AuthTask t sp)
  with assms(1) have "handleTask E root io g session t sp d = (d', GateAllowed)" by simp
  then obtain v b where "ledger_transact E root io session
      (reserve_decision t (sp_itemCount sp) (sp_requests sp) (sg_maxFanOut g)) d = (d', LedgerScope v b)" "v \<in> {Reserved, Replayed}"
    by (rule task_allowed)
  from reserve_recorded [OF this] AuthTask assms(2) show ?thesis by (metis admitted.simps(3) normal_authorization.simps(1))
next
  case (AuthJob t c)
  with assms(1) obtain v b where r: "ledger_transact E root io session
      (authorize_decision t (jc_control c) (jc_inputKey c) (jc_targets c)) d = (d', LedgerScope v b)"
      "v = Authorized \<or> (v = NoGeneration \<and> jc_targets c = [])"
    by (auto simp: handleJob_def split: prod.splits dest!: job_allowed)
  have n: "normal_control (jc_inputKey c) (jc_targets c)" "runtimeId t = Some t" "jc_control c \<noteq> IrcSend" "jc_control c \<noteq> IrcTarget"
    using AuthJob assms(2) by auto
  from authorize_recorded [OF r(1) n(1,2)] r(2) n(3,4) AuthJob show ?thesis by (smt (verit) admitted.simps(4))
next
  case (AuthIrc t c)
  show ?thesis
  proof (cases "\<not> ic_sends c \<and> ic_targets c = []")
    case False
    let ?k = "if ic_sends c then IrcSend else IrcTarget"
    from False AuthIrc assms(1) obtain b where r: "ledger_transact E root io session
        (authorize_decision t ?k (ic_inputKey c) (ic_targets c)) d = (d', LedgerScope Authorized b)"
      by (auto simp: handleIrc_def split: prod.splits if_splits dest!: irc_allowed)
    have n: "normal_control (ic_inputKey c) (ic_targets c)" "runtimeId t = Some t" using AuthIrc assms(2) by auto
    from authorize_recorded [OF r n] AuthIrc show ?thesis by (smt (verit) admitted.simps(5))
  qed (simp add: AuthIrc)
next
  case (AuthHubWait t c)
  with assms(1) obtain b where r: "ledger_transact E root io session
      (authorizeHubWait_decision t (hw_inputKey c) (hw_jobTargets c) (hw_agentTargets c)) d = (d', LedgerScope HubAuthorized b)"
    by (auto simp: handleHubWait_def split: prod.splits dest!: hub_allowed)
  have n: "normal_control (hw_inputKey c) (hw_jobTargets c)" "runtimeId t = Some t" using AuthHubWait assms(2) by auto
  from hub_wait_recorded [OF r n] AuthHubWait show ?thesis by (metis admitted.simps(6))
qed (use assms in simp_all)

lemma dispatched:
  assumes "dispatch E (Some root) sha maxFanOut io session tool callId v d d1 d2 = (d', ans)"
    "authorizeImmutableToolCall sha tool callId v \<noteq> PassThrough" "ans \<noteq> state_conflict"
    "resolveCurrentRunScope E (Some root) (di_readable io) d session \<noteq> ForeignScope"
  obtains s where "resolveUnlocked E root d1 session = Inr (ScopeFound s)"
    "handleAuthorized E root (di_ledger io) \<lparr>sg_maxFanOut = maxFanOut, sg_packetPolicy = currentTaskSpawnPacketPolicy s\<rparr> session
       (authorizeImmutableToolCall sha tool callId v) d2 = (d', ans)"
  using assms
  by (auto simp: dispatch_def split: tool_authorization.splits current_run_scope.splits if_splits sum.splits scope_result.splits)

text \<open>
  C16. The gate lets no call of a session with a current run through unrecorded. When the dispatcher allows a call
  of a controlled tool, then, whatever the host did and whatever other processes committed between its looks at the
  disk, the ledger that is on the disk afterwards holds the reservation of exactly the tasks of the call, or the
  authorization of exactly its targets, and every job or agent it names is one that the run's present owner
  has bound. The exceptions name nothing: listings of messages, and snapshots of all jobs before any worker exists.
\<close>

theorem gate_admits_recorded:
  assumes "dispatch E (Some root) sha maxFanOut io session tool callId v d d1 d2 = (d', GateAllowed)"
    "authorizeImmutableToolCall sha tool callId v = auth" "auth \<noteq> PassThrough"
    "resolveCurrentRunScope E (Some root) (di_readable io) d session \<noteq> ForeignScope" "\<forall>x. hex_string 64 (sha x)"
  shows "quiet_control auth \<or> (\<exists>s s'. resolveUnlocked E root d2 session = Inr (ScopeFound s) \<and>
    resolveUnlocked E root d' session = Inr (ScopeFound s') \<and> admitted auth s s')"
proof -
  have "GateAllowed \<noteq> state_conflict" by (simp add: state_conflict_def)
  from dispatched [OF assms(1) _ this assms(4)] assms(2,3) obtain g where
    "handleAuthorized E root (di_ledger io) g session auth d2 = (d', GateAllowed)" by auto
  from handled_admitted [OF this _ assms(3)] authorization_normal [OF assms(5)] assms(2) show ?thesis by blast
qed

definition gate_sha :: "string \<Rightarrow> string" where
  "gate_sha _ = replicate 64 (CHR ''a'')"

definition gate_disk :: "string option \<Rightarrow> task_ledger \<Rightarrow> disk" where
  "gate_disk packet ledger = (let r = sample_start_run\<lparr>run_version := RunV2 packet (Some sample_commit)\<rparr>
     in fresh_disk\<lparr>d_index := Some (stringify (sample_index [r])), d_runs := (\<lambda>_. None)(run_runId r := Some (stringify r)),
          d_taskFacts := (\<lambda>_. None)(run_runId r := Some (stringify ledger))\<rparr>)"

definition gate_io :: "write_io \<Rightarrow> dispatch_io" where
  "gate_io w = \<lparr>di_readable = True, di_scopeReadable = True,
     di_ledger = \<lparr>li_lock = True, li_readable = True, li_write = w, li_released = True\<rparr>\<rparr>"

definition cancel_input :: tool_value where
  "cancel_input = VObject [(''op'', VText ''cancel''), (''ids'', VArray [VText '' job ''])]"

definition cancel_authorization :: tool_authorization where
  "cancel_authorization = AuthJob ''c9'' \<lparr>jc_control = JobCancel,
     jc_inputKey = value_text (VObject [(''op'', VText ''cancel''), (''ids'', VArray [VText ''job''])]), jc_targets = [''job'']\<rparr>"

abbreviation bound_disk :: disk where
  "bound_disk \<equiv> gate_disk None (scope_ledger bound_scope)"

lemma cancel_authorized: "authorizeImmutableToolCall gate_sha ''hub'' '' c9'' cancel_input = cancel_authorization"
  by code_simp

lemma cancel_current: "resolveCurrentRunScope sample_env (Some sample_root) True bound_disk ''s1'' \<noteq> ForeignScope"
  by code_simp

lemma gate_sha_hex: "\<forall>x. hex_string 64 (gate_sha x)"
proof -
  have "hex_string 64 (replicate 64 (CHR ''a''))" by code_simp
  then show ?thesis by (simp add: gate_sha_def)
qed

theorem gate_admits_recorded_witness:
  "\<exists>s s'. resolveUnlocked sample_env sample_root bound_disk ''s1'' = Inr (ScopeFound s) \<and>
     resolveUnlocked sample_env sample_root (fst (dispatch sample_env (Some sample_root) gate_sha 32 (gate_io smooth_write)
       ''s1'' ''hub'' '' c9'' cancel_input bound_disk bound_disk bound_disk)) ''s1'' = Inr (ScopeFound s') \<and>
     admitted cancel_authorization s s'"
proof -
  let ?r = "dispatch sample_env (Some sample_root) gate_sha 32 (gate_io smooth_write) ''s1'' ''hub'' '' c9'' cancel_input
    bound_disk bound_disk bound_disk"
  have "snd ?r = GateAllowed" by code_simp
  then have r: "?r = (fst ?r, GateAllowed)" by (metis prod.collapse)
  have "cancel_authorization \<noteq> PassThrough" "\<not> quiet_control cancel_authorization" by (simp_all add: cancel_authorization_def)
  with gate_admits_recorded [OF r cancel_authorized] cancel_current gate_sha_hex show ?thesis by (simp add: gate_io_def)
qed

text \<open>
  C17. A spawned task is within its packet. When the dispatcher allows a call that spawns tasks, each of them names an
  agent of the tier of the packet the run's ledger is bound to; and unless the same reservation was there already,
  the tasks reserved by the run's owner stay, with these, within the fan-out limit.
\<close>

theorem spawn_within_policy:
  assumes "dispatch E (Some root) sha maxFanOut io session tool callId v d d1 d2 = (d', GateAllowed)"
    "authorizeImmutableToolCall sha tool callId v = AuthTask t sp"
    "resolveCurrentRunScope E (Some root) (di_readable io) d session \<noteq> ForeignScope" "\<forall>x. hex_string 64 (sha x)"
    "resolveUnlocked E root d1 session = Inr (ScopeFound s1)" "resolveUnlocked E root d2 session = Inr (ScopeFound s)"
  shows "(case currentTaskSpawnPacketPolicy s1 of None \<Rightarrow> True
      | Some p \<Rightarrow> list_all (\<lambda>q. \<exists>a\<in>set (TierAgentEligibility (po_tier p)). req_agentType q = Some a) (sp_requests sp)) \<and>
    (TaskReserved t (sp_itemCount sp) (sp_requests sp) \<in> set (taskFacts s) \<or> reserved_total s + sp_itemCount sp \<le> maxFanOut)"
proof -
  let ?g = "\<lparr>sg_maxFanOut = maxFanOut, sg_packetPolicy = currentTaskSpawnPacketPolicy s1\<rparr>"
  have "GateAllowed \<noteq> state_conflict" by (simp add: state_conflict_def)
  from dispatched [OF assms(1) _ this assms(3)] assms(2,5) have h: "handleTask E root (di_ledger io) ?g session t sp d2 = (d', GateAllowed)"
    by auto
  then obtain v b where none: "policy_refusal ?g sp = None" and r: "ledger_transact E root (di_ledger io) session
      (reserve_decision t (sp_itemCount sp) (sp_requests sp) maxFanOut) d2 = (d', LedgerScope v b)" "v \<in> {Reserved, Replayed}"
    by (rule task_allowed) simp
  have "normal_authorization (AuthTask t sp)" using authorization_normal [OF assms(4)] assms(2) by metis
  then have n: "sp_itemCount sp \<le> max_safe_integer \<Longrightarrow>
      factSchema (TaskReserved t (sp_itemCount sp) (sp_requests sp)) = Some (TaskReserved t (sp_itemCount sp) (sp_requests sp))"
    by (simp del: factSchema.simps)
  from reserve_recorded [OF r n] assms(6) r(2)
  have "TaskReserved t (sp_itemCount sp) (sp_requests sp) \<in> set (taskFacts s) \<or> reserved_total s + sp_itemCount sp \<le> maxFanOut"
    by fastforce
  moreover have "list_all (\<lambda>q. \<exists>a\<in>set (TierAgentEligibility (po_tier p)). req_agentType q = Some a) (sp_requests sp)"
    if "currentTaskSpawnPacketPolicy s1 = Some p" for p
    using none that
    by (auto simp: policy_refusal_def eligible_request_def list_all_iff list_ex_iff split: if_splits option.splits)
  ultimately show ?thesis by (auto split: option.splits)
qed

definition packet_ledger :: task_ledger where
  "packet_ledger = (scope_ledger sample_scope)\<lparr>tl_version := TaskLedgerV2 (Some (gate_sha [])) (Some FAST) None\<rparr>"

definition spawn_input :: tool_value where
  "spawn_input = VObject [(''agent'', VText ''omp-lazy-worker-low''), (''task'', VText ''fix the parser'')]"

definition spawn_parsed :: task_spawn where
  "spawn_parsed = \<lparr>sp_itemCount = 1, sp_requests = [\<lparr>req_canonicalInputHash = Some (gate_sha []), req_itemIndex = 0,
     req_requestedName = None, req_agentType = Some ''omp-lazy-worker-low''\<rparr>]\<rparr>"

definition packet_scope :: task_run_scope where
  "packet_scope = \<lparr>scope_indexRevision = idx_revision (sample_index [sample_start_run]),
     scope_run = sample_start_run\<lparr>run_version := RunV2 (Some (gate_sha [])) (Some sample_commit)\<rparr>, scope_ledger = packet_ledger\<rparr>"

abbreviation packet_disk :: disk where
  "packet_disk \<equiv> gate_disk (Some (gate_sha [])) packet_ledger"

theorem spawn_within_policy_witness:
  "reserved_total packet_scope + 1 \<le> 2 \<and> ''omp-lazy-worker-low'' \<in> set (TierAgentEligibility FAST)"
proof -
  let ?r = "dispatch sample_env (Some sample_root) gate_sha 2 (gate_io smooth_write) ''s1'' ''task'' ''c1'' spawn_input
    packet_disk packet_disk packet_disk"
  have "snd ?r = GateAllowed" by code_simp
  then have r: "?r = (fst ?r, GateAllowed)" by (metis prod.collapse)
  have a: "authorizeImmutableToolCall gate_sha ''task'' ''c1'' spawn_input = AuthTask ''c1'' spawn_parsed" by code_simp
  have c: "resolveCurrentRunScope sample_env (Some sample_root) (di_readable (gate_io smooth_write)) packet_disk ''s1'' \<noteq> ForeignScope"
    by code_simp
  have s: "resolveUnlocked sample_env sample_root packet_disk ''s1'' = Inr (ScopeFound packet_scope)" by code_simp
  have "taskFacts packet_scope = []" by code_simp
  moreover have "currentTaskSpawnPacketPolicy packet_scope = Some \<lparr>po_packetHash = gate_sha [], po_tier = FAST,
      po_allowedAgentTypes = TierAgentEligibility FAST\<rparr>" by code_simp
  ultimately show ?thesis using spawn_within_policy [OF r a c gate_sha_hex s s] by (simp add: spawn_parsed_def)
qed

section \<open>Failures\<close>

text \<open>
  The dispatcher answers the failures of a spawn with a refusal. Those of a control it throws at the host: the promise of the
  guard is returned without \<^verbatim>\<open>await\<close>, outside the reach of the handler around it.
\<close>

lemma handled_throws:
  assumes "handleAuthorized E root io g session auth d = (d', GateThrows)"
  shows "\<exists>t. (\<exists>c. auth = AuthJob t c) \<or> (\<exists>c. auth = AuthIrc t c) \<or> (\<exists>c. auth = AuthHubWait t c)"
proof -
  have "reserve_answer r \<noteq> GateThrows" for r by (cases r) auto
  then show ?thesis using assms by (cases auth) (auto simp: handleTask_def split: option.splits prod.splits)
qed

lemma dispatch_throws_only_for_controls:
  assumes "dispatch E root sha maxFanOut io session tool callId v d d1 d2 = (d', GateThrows)"
  shows "\<exists>t. (\<exists>c. authorizeImmutableToolCall sha tool callId v = AuthJob t c) \<or>
    (\<exists>c. authorizeImmutableToolCall sha tool callId v = AuthIrc t c) \<or>
    (\<exists>c. authorizeImmutableToolCall sha tool callId v = AuthHubWait t c)"
proof -
  from assms obtain rt g where "handleAuthorized E rt (di_ledger io) g session (authorizeImmutableToolCall sha tool callId v) d2 = (d', GateThrows)"
    by (auto simp: dispatch_def state_conflict_def split: tool_authorization.splits current_run_scope.splits option.splits
        if_splits sum.splits scope_result.splits)
  then show ?thesis by (rule handled_throws)
qed

text \<open>A host that fails to replace the ledger: the refusal of a spawn, but a thrown error for a control.\<close>

definition failing_write :: write_io where
  "failing_write = smooth_write\<lparr>wi_attempts := [(True, RenameFatal)]\<rparr>"

lemma spawn_failure_refused:
  "snd (dispatch sample_env (Some sample_root) gate_sha 2 (gate_io failing_write) ''s1'' ''task'' ''c1'' spawn_input
     packet_disk packet_disk packet_disk) = GateBlocked ''omp-lazy: task state conflict''"
  by code_simp

lemma control_failure_escapes:
  "snd (dispatch sample_env (Some sample_root) gate_sha 32 (gate_io failing_write) ''s1'' ''hub'' '' c9'' cancel_input
     bound_disk bound_disk bound_disk) = GateThrows"
  by code_simp

text \<open>
  A message or a wait on the hub that also has a \<^verbatim>\<open>name\<close> counts as the control of a process, and is not looked at further.
\<close>

lemma named_message_passes:
  "authorizeImmutableToolCall sha ''hub'' callId (VObject [(''op'', VText ''send''), (''to'', VText agent),
     (''message'', VText m), (''name'', VText ''x'')]) = PassThrough \<or> runtimeId callId = None"
proof -
  have "isHubProcessControl (VObject [(''op'', VText ''send''), (''to'', VText agent), (''message'', VText m), (''name'', VText ''x'')])"
    by (simp add: isHubProcessControl_def hubProcessSchema_def open_object_def enum_schema_def nonempty_text_def text_schema_def
        nonempty_def js_trim_def js_space_def Let_def)
  then show ?thesis by (auto simp: authorizeImmutableToolCall_def controlledToolName_def split: option.splits)
qed

end
