(* ===== verification/Observer_Properties.thy ===== *)
theory Observer_Properties
  imports Tool_Observer Gate_Properties
begin

text \<open>
  What the observer guarantees: the agents and the job a result reports are, once it is recorded, the ones that the
  gates let the session control.
\<close>

section \<open>Bindings of a result\<close>

lemma open_object_parsed:
  assumes "open_object ms v = Some w"
  obtains kvs out where "v = VObject kvs" "w = VObject (out @ filter (\<lambda>(k, _). k \<notin> set (map fst ms)) kvs)"
    "parse_members ms kvs = Some out"
  using assms by (auto simp: open_object_def split: tool_value.splits)

lemma open_object_member:
  assumes "open_object ms v = Some w" "member_of k w = Some x" "k \<in> fst ` set ms"
    "\<forall>m\<in>set ms. fst m = k \<longrightarrow> snd (snd m) = p"
  shows "\<exists>y. p y = Some x"
proof -
  from assms(1) obtain kvs out where o: "w = VObject (out @ filter (\<lambda>(k, _). k \<notin> set (map fst ms)) kvs)"
    "parse_members ms kvs = Some out" by (auto elim: open_object_parsed)
  then have "(k, x) \<in> set out" using assms(2,3) by (force simp: member_of_def dest!: map_of_SomeD)
  from parse_members_mem [OF o(2) this] assms(4) show ?thesis by force
qed

lemma open_object_required:
  assumes "open_object ms v = Some w" "(k, False, p) \<in> set ms"
  shows "\<exists>x. member_of k w = Some x"
proof -
  from assms(1) obtain kvs out where o: "w = VObject (out @ filter (\<lambda>(k, _). k \<notin> set (map fst ms)) kvs)"
    "parse_members ms kvs = Some out" by (auto elim: open_object_parsed)
  from parse_members_required [OF o(2) assms(2)] obtain x where "map_of out k = Some x" by (auto dest: weak_map_of_SomeI)
  then show ?thesis by (auto simp: o(1) member_of_def map_add_def)
qed

lemma id_member_normal:
  assumes "open_object ms v = Some w" "(k, False, id_text) \<in> set ms" "\<forall>m\<in>set ms. fst m = k \<longrightarrow> snd (snd m) = id_text"
  shows "runtimeId (id_member_of k w) = Some (id_member_of k w)"
proof -
  from open_object_required [OF assms(1,2)] obtain x where x: "member_of k w = Some x" by blast
  have "k \<in> fst ` set ms" using assms(2) by force
  from open_object_member [OF assms(1) x this assms(3)] obtain t where "x = VText t" "runtimeId t = Some t"
    by (auto simp: id_text_def text_schema_Some runtimeId_normal)
  with x show ?thesis by (simp add: id_member_of_def text_member_def)
qed

lemma result_ids_normal:
  assumes "decodeTaskResult v = Some r" "tr_progress r = Some ps" "p \<in> set ps"
  shows "runtimeId (pg_id p) = Some (pg_id p)" "pg_index p \<le> max_safe_integer"
proof -
  from assms obtain w where w: "taskResultSchema v = Some w"
    "ps = map (\<lambda>p. \<lparr>pg_index = index_member ''index'' p, pg_id = id_member_of ''id'' p\<rparr>) (items_of ''progress'' w)"
    by (auto simp: decodeTaskResult_def split: if_splits)
  from assms(3) w(2) obtain q where q: "q \<in> set (items_of ''progress'' w)"
    "p = \<lparr>pg_index = index_member ''index'' q, pg_id = id_member_of ''id'' q\<rparr>" by auto
  then obtain qs where qs: "member_of ''progress'' w = Some (VArray qs)" "q \<in> set qs"
    by (force simp: items_of_def split: option.splits tool_value.splits)
  from open_object_member [OF w(1) [unfolded taskResultSchema_def] qs(1), of "array_schema 0 progressSchema"]
  obtain y where "array_schema 0 progressSchema y = Some (VArray qs)" by auto
  then obtain us where "those (map progressSchema us) = Some qs" by (cases y) (auto simp: array_schema_def)
  then have "map progressSchema us = map Some qs" by (simp add: those_eq_Some_iff)
  then obtain u where u: "progressSchema u = Some q" using qs(2) by (metis (no_types, lifting) image_iff list.set_map)
  show "runtimeId (pg_id p) = Some (pg_id p)"
    using id_member_normal [OF u [unfolded progressSchema_def], of "''id''"] q(2) by simp
  from open_object_required [OF u [unfolded progressSchema_def], of "''index''"] obtain x where x: "member_of ''index'' q = Some x"
    by auto
  from open_object_member [OF u [unfolded progressSchema_def] x, of index_schema] obtain y where "index_schema y = Some x" by auto
  then have "\<exists>i. x = VNumber (Whole i) \<and> 0 \<le> i \<and> nat i \<le> max_safe_integer"
    by (auto simp: index_schema_def counter_def split: tool_value.splits js_number.splits if_splits)
  then show "pg_index p \<le> max_safe_integer" using x q(2) by (auto simp: index_member_def)
qed

lemma task_bindings_shape:
  assumes "task_bindings r n = Some bs"
  obtains ps where "tr_progress r = Some ps" "length ps = n" "length bs = n" "map bind_itemIndex bs = [0..<n]"
    "map bind_actualAgentId bs = map pg_id (sort_key pg_index ps)" "distinct (map bind_actualAgentId bs)"
    "\<forall>b\<in>set bs. \<exists>p\<in>set ps. b = \<lparr>bind_itemIndex = pg_index p, bind_actualAgentId = pg_id p,
       bind_actualJobId = (if tr_async r = Some (pg_id p) then tr_async r else None)\<rparr>"
proof -
  from assms obtain ps where ps: "tr_progress r = Some ps" "length ps = n"
    "map pg_index (sort_key pg_index ps) = [0..<length (sort_key pg_index ps)]" "distinct (map pg_id (sort_key pg_index ps))"
    "bs = map (\<lambda>p. \<lparr>bind_itemIndex = pg_index p, bind_actualAgentId = pg_id p,
       bind_actualJobId = (if tr_async r = Some (pg_id p) then tr_async r else None)\<rparr>) (sort_key pg_index ps)"
    by (auto simp: task_bindings_def Let_def split: option.splits if_splits)
  then show thesis by (intro that [OF ps(1,2)]) (auto simp: comp_def)
qed

lemma bindings_normal:
  assumes "decodeTaskResult v = Some r" "task_bindings r n = Some bs" "bs \<noteq> []" "runtimeId t = Some t"
  shows "factSchema (TaskIdentitiesBound t bs) = Some (TaskIdentitiesBound t bs)"
proof -
  from task_bindings_shape [OF assms(2)] obtain ps where ps: "tr_progress r = Some ps"
    "\<forall>b\<in>set bs. \<exists>p\<in>set ps. b = \<lparr>bind_itemIndex = pg_index p, bind_actualAgentId = pg_id p,
       bind_actualJobId = (if tr_async r = Some (pg_id p) then tr_async r else None)\<rparr>" by metis
  have "bindingSchema b = Some b" if "b \<in> set bs" for b
    using ps(2) that result_ids_normal [OF assms(1) ps(1)]
    by (fastforce simp: bindingSchema_def counter_def nullable_def split: option.splits)
  then have "array_of bindingSchema bs = Some bs" by (simp add: array_of_normal list_all_iff)
  then show ?thesis using assms(3,4) by simp
qed

section \<open>The generation after a binding\<close>

lemma bound_key: "taskFactKey f = taskFactKey (TaskIdentitiesBound t bs) \<Longrightarrow> \<exists>bs'. f = TaskIdentitiesBound t bs'"
  by (cases f) (auto simp: taskFactKey_def)

lemma reserved_key: "taskFactKey (TaskReserved t n reqs) = taskFactKey (TaskReserved t n' reqs')"
  by (simp add: taskFactKey_def)

lemma one_reservation:
  assumes "scope_ok E s" "(t, n, reqs) \<in> set (taskReservations s)" "(t, n', reqs') \<in> set (taskReservations s)"
  shows "n' = n \<and> reqs' = reqs"
proof -
  have "\<exists>e\<in>set (currentOwnerEntries s). tle_fact e = TaskReserved t k rs" if "(t, k, rs) \<in> set (taskReservations s)" for k rs
    using that by (auto simp: taskReservations_def taskFacts_def split: task_fact.splits)
  from this [OF assms(2)] this [OF assms(3)] obtain e e' where e: "e \<in> set (currentOwnerEntries s)" "e' \<in> set (currentOwnerEntries s)"
    "tle_fact e = TaskReserved t n reqs" "tle_fact e' = TaskReserved t n' reqs'" by blast
  then have "ledger_key e = ledger_key e'"
    by (auto simp: currentOwnerEntries_def ledger_key_def e(3,4) reserved_key)
  moreover have "inj_on ledger_key (set (tl_entries (scope_ledger s)))"
    using assms(1) by (simp add: scope_ok_def taskLedgerSchema_normal_iff ledgerIsOrdered_def distinct_map)
  ultimately have "e = e'" using e(1,2) by (auto simp: currentOwnerEntries_def inj_on_def)
  then show ?thesis using e(3,4) by simp
qed

lemma reservation_shape:
  assumes "scope_ok E s" "(t, n, reqs) \<in> set (taskReservations s)"
  shows "n = length reqs" "0 < n"
proof -
  obtain e where e: "e \<in> set (tl_entries (scope_ledger s))" "tle_fact e = TaskReserved t n reqs"
    using assms(2) by (auto simp: taskReservations_def taskFacts_def currentOwnerEntries_def split: task_fact.splits)
  then have "factSchema (TaskReserved t n reqs) = Some (TaskReserved t n reqs)"
    using assms(1) by (auto simp: scope_ok_def taskLedgerSchema_normal_iff list_all_iff ledgerEntrySchema_normal_iff simp del: factSchema.simps)
  then show "n = length reqs" "0 < n"
    by (auto simp: counter_positive_def counter_def elim!: bind_SomeE split: if_splits)
qed

text \<open>The entries a binding appends: the fact itself, and after it at most the observation of the capability.\<close>

lemma bound_entries:
  assumes "scope_ok E s" "appended_to s (TaskIdentitiesBound t bs # rest) l" "\<forall>f\<in>set rest. \<not> starts_generation f"
    "factSchema (TaskIdentitiesBound t bs) = Some (TaskIdentitiesBound t bs)"
  obtains e more where "currentOwnerEntries (s\<lparr>scope_ledger := l\<rparr>) = currentOwnerEntries s @ e # more"
    "tle_fact e = TaskIdentitiesBound t bs" "tle_sequence e = Suc (length (tl_entries (scope_ledger s)))"
    "\<forall>x\<in>set more. \<not> starts_generation (tle_fact x) \<and> (\<forall>u n rs. tle_fact x \<noteq> TaskReserved u n rs)"
proof -
  let ?o = "run_owner (scope_run s)" and ?l = "scope_ledger s"
  have owner: "nonempty (own_sessionId ?o) = Some (own_sessionId ?o)"
    and rev: "tl_ledgerRevision ?l = length (tl_entries ?l)"
    using assms(1) by (simp_all add: scope_ok_def ownerSchema_normal_iff taskLedgerSchema_normal_iff ledgerIsOrdered_def)
  obtain new where new: "tl_entries l = tl_entries ?l @ new"
    "list_all2 (\<lambda>x y. ledgerEntrySchema x = Some y) (new_entries ?l (TaskIdentitiesBound t bs # rest) (own_sessionId ?o) (own_epoch ?o)) new"
    using assms(2) by (auto simp: appended_to_def)
  have fields: "tle_sequence y = tle_sequence x \<and> tle_ownerSessionId y = own_sessionId ?o \<and> tle_ownerEpoch y = own_epoch ?o \<and>
      factSchema (tle_fact x) = Some (tle_fact y)"
    if "ledgerEntrySchema x = Some y" "tle_ownerSessionId x = own_sessionId ?o" "tle_ownerEpoch x = own_epoch ?o" for x y
    using that owner by (auto simp: ledgerEntrySchema_def counter_def counter_positive_def elim!: bind_SomeE split: if_splits)
  have kind: "\<not> starts_generation g" if "factSchema f = Some g" "\<not> starts_generation f" for f g
    using that by (cases f) (auto elim!: bind_SomeE)
  let ?new = "new_entries ?l (TaskIdentitiesBound t bs # rest) (own_sessionId ?o) (own_epoch ?o)"
  have first: "?new = \<lparr>tle_sequence = Suc (length (tl_entries ?l)), tle_ownerSessionId = own_sessionId ?o, tle_ownerEpoch = own_epoch ?o,
      tle_fact = TaskIdentitiesBound t bs\<rparr> # tl ?new"
    by (simp add: new_entries_def rev upt_conv_Cons del: upt_Suc)
  have tail: "tle_ownerSessionId x = own_sessionId ?o \<and> tle_ownerEpoch x = own_epoch ?o \<and> tle_fact x \<in> set rest" if "x \<in> set (tl ?new)" for x
    using that by (auto simp: new_entries_def upt_conv_Cons dest: set_zip_leftD simp del: upt_Suc)
  define e0 where "e0 = \<lparr>tle_sequence = Suc (length (tl_entries ?l)), tle_ownerSessionId = own_sessionId ?o,
    tle_ownerEpoch = own_epoch ?o, tle_fact = TaskIdentitiesBound t bs\<rparr>"
  have "list_all2 (\<lambda>x y. ledgerEntrySchema x = Some y) (e0 # tl ?new) new" using new(2) first by (simp add: e0_def)
  then obtain e more where e: "new = e # more" "list_all2 (\<lambda>x y. ledgerEntrySchema x = Some y) (tl ?new) more"
    "ledgerEntrySchema e0 = Some e" by (auto simp: list_all2_Cons1)
  have fe: "tle_fact e = TaskIdentitiesBound t bs" "tle_sequence e = Suc (length (tl_entries ?l))"
    "tle_ownerSessionId e = own_sessionId ?o" "tle_ownerEpoch e = own_epoch ?o"
    using fields [OF e(3)] assms(4) by (simp_all add: e0_def del: factSchema.simps)
  have more: "tle_ownerSessionId y = own_sessionId ?o \<and> tle_ownerEpoch y = own_epoch ?o \<and> \<not> starts_generation (tle_fact y)"
    if "y \<in> set more" for y
  proof -
    from e(2) have "list_all2 (\<lambda>y x. ledgerEntrySchema x = Some y) more (tl ?new)"
      by (simp add: list_all2_conv_all_nth)
    from list_all2_mem [OF this that] obtain x where "x \<in> set (tl ?new)" "ledgerEntrySchema x = Some y" by blast
    with tail [of x] fields [of x y] kind assms(3) show ?thesis by blast
  qed
  show thesis
  proof (rule that [of e more])
    have "filter (\<lambda>e. tle_ownerSessionId e = own_sessionId ?o \<and> tle_ownerEpoch e = own_epoch ?o) more = more"
      using more by (simp add: filter_id_conv)
    then show "currentOwnerEntries (s\<lparr>scope_ledger := l\<rparr>) = currentOwnerEntries s @ e # more"
      using fe by (simp add: currentOwnerEntries_def new(1) e(1))
    have "starts_generation (TaskReserved u n rs)" for u n rs by simp
    then show "\<forall>x\<in>set more. \<not> starts_generation (tle_fact x) \<and> (\<forall>u n rs. tle_fact x \<noteq> TaskReserved u n rs)"
      using more by metis
  qed (use fe in simp_all)
qed

lemma bound_generation:
  assumes "scope_ok E s" "appended_to s (TaskIdentitiesBound t bs # rest) l" "\<forall>f\<in>set rest. \<not> starts_generation f"
    "factSchema (TaskIdentitiesBound t bs) = Some (TaskIdentitiesBound t bs)" "(t, n, reqs) \<in> set (taskReservations s)"
    "map bind_itemIndex bs = [0..<n]"
  shows "\<exists>ids. runtimeIdentities (s\<lparr>scope_ledger := l\<rparr>) (taskGeneration (s\<lparr>scope_ledger := l\<rparr>)) = ids \<and>
    owned_agents ids = map bind_actualAgentId bs \<and> (\<forall>b\<in>set bs. \<forall>j. bind_actualJobId b = Some j \<longrightarrow> j \<in> set (owned_jobs ids))"
proof -
  let ?s = "s\<lparr>scope_ledger := l\<rparr>" and ?N = "length (tl_entries (scope_ledger s))"
  obtain e more where e: "currentOwnerEntries ?s = currentOwnerEntries s @ e # more"
    "tle_fact e = TaskIdentitiesBound t bs" "tle_sequence e = Suc ?N"
    "\<forall>x\<in>set more. \<not> starts_generation (tle_fact x) \<and> (\<forall>u n rs. tle_fact x \<noteq> TaskReserved u n rs)"
    using bound_entries [OF assms(1-4)] .
  have none: "List.find (\<lambda>e. starts_generation (tle_fact e)) (rev more) = None"
    using e(4) by (simp add: find_None_iff)
  have gen: "taskGeneration ?s = Suc ?N"
    using e(2,3) none by (simp add: taskGeneration_def e(1) find_last_def find_append)
  have old: "tle_sequence x \<le> ?N" if "x \<in> set (currentOwnerEntries s)" for x
  proof -
    have "dense (map tle_sequence (tl_entries (scope_ledger s)))"
      using assms(1) by (simp add: scope_ok_def taskLedgerSchema_normal_iff ledgerIsOrdered_def)
    then have "set (map tle_sequence (tl_entries (scope_ledger s))) \<subseteq> {..?N}" by (auto simp: dense_def simp del: set_map)
    then show ?thesis using that by (auto simp: currentOwnerEntries_def)
  qed
  have find: "List.find (\<lambda>e. tle_sequence e = Suc ?N \<and> (case tle_fact e of TaskIdentitiesBound _ _ \<Rightarrow> True | _ \<Rightarrow> False))
      (currentOwnerEntries ?s) = Some e"
  proof -
    have "List.find (\<lambda>e. tle_sequence e = Suc ?N \<and> (case tle_fact e of TaskIdentitiesBound _ _ \<Rightarrow> True | _ \<Rightarrow> False))
        (currentOwnerEntries s) = None"
      using old by (fastforce simp: find_None_iff)
    then show ?thesis using e(2,3) by (simp add: e(1) find_append)
  qed
  have "concat (map (\<lambda>f. case f of TaskReserved t n rs \<Rightarrow> [(t, n, rs)] | _ \<Rightarrow> []) (map tle_fact more)) = []"
    using e(4) by (auto split: task_fact.splits)
  then have res: "taskReservations ?s = taskReservations s"
    using e(2) by (simp add: taskReservations_def taskFacts_def e(1))
  obtain m rs where last: "find_last (\<lambda>x. fst x = t) (taskReservations s) = Some (t, m, rs)"
    using assms(5) by (cases "find_last (\<lambda>x. fst x = t) (taskReservations s)") (auto simp: find_last_None_iff dest: find_last_SomeD)
  then have "(t, m, rs) \<in> set (taskReservations s)" by (auto dest: find_last_SomeD)
  from one_reservation [OF assms(1,5) this] reservation_shape [OF assms(1,5)] have len: "length rs = n" by simp
  have inside: "bind_itemIndex b < length rs" if "b \<in> set bs" for b
  proof -
    from that have "bind_itemIndex b \<in> set (map bind_itemIndex bs)" by simp
    then show ?thesis using assms(6) len by simp
  qed
  have singles: "concat (map f xs) = map h xs" if "\<And>x. x \<in> set xs \<Longrightarrow> f x = [h x]" for f h and xs :: "identity_binding list"
    using that by (induction xs) auto
  let ?h = "\<lambda>b. \<lparr>ri_toolCallId = t, ri_itemIndex = bind_itemIndex b, ri_requestedName = req_requestedName (rs ! bind_itemIndex b),
      ri_agentType = req_agentType (rs ! bind_itemIndex b), ri_actualAgentId = bind_actualAgentId b,
      ri_actualJobId = (case bind_actualJobId b of Some j \<Rightarrow> Some j
        | None \<Rightarrow> (if bind_actualAgentId b \<in> set (returnedJobs ?s (Suc ?N)) then Some (bind_actualAgentId b) else None))\<rparr>"
  have ids: "runtimeIdentities ?s (Suc ?N) = map ?h bs"
    unfolding runtimeIdentities_def find res
    by (simp add: e(2) last) (rule singles, simp add: inside)
  then show ?thesis by (force simp: gen owned_agents_def owned_jobs_def comp_def)
qed

section \<open>Observed tasks\<close>

lemma observed_task:
  assumes "observeTask E root io ob d d1 = (d', ObsRecorded cap)"
  obtains t r n bs v b where "runtimeId (ob_toolCallId ob) = Some t" "decodeTaskResult (ob_details ob) = Some r"
    "task_bindings r n = Some bs" "v \<in> {BindPending, BindBlocked}"
    "ledger_transact E root (oi_ledger io) (ob_sessionId ob) (bind_decision t bs (tr_async r \<noteq> None)) d1 = (d', LedgerScope v b)"
proof -
  have answer: "\<exists>v b. x = LedgerScope v b \<and> v \<in> {BindPending, BindBlocked}" if "bind_answer x = ObsRecorded cap" for x
    using that by (cases x) (auto split: binding_status.splits)
  from assms obtain t where t: "runtimeId (ob_toolCallId ob) = Some t"
    by (cases "runtimeId (ob_toolCallId ob)") (auto simp: observeTask_def)
  with assms obtain r where r: "decodeTaskResult (ob_details ob) = Some r"
    by (cases "decodeTaskResult (ob_details ob)") (auto simp: observeTask_def)
  with assms t obtain n bs where bs: "task_bindings r n = Some bs"
    "(case ledger_transact E root (oi_ledger io) (ob_sessionId ob) (bind_decision t bs (tr_async r \<noteq> None)) d1 of
       (d', out) \<Rightarrow> (d', bind_answer out)) = (d', ObsRecorded cap)"
    by (auto simp: observeTask_def split: if_splits sum.splits option.splits)
  then show thesis using that [OF t r bs(1)] by (auto split: prod.splits dest!: answer)
qed

lemma fresh_binding:
  assumes "scope_ok E s" "bind_decision t bs async s = Append ordered facts v" "\<forall>bs. TaskIdentitiesBound t bs \<notin> set (taskFacts s)"
    "novel_facts ordered (facts_by_key (scope_ledger s) (own_sessionId (run_owner (scope_run s))) (own_epoch (run_owner (scope_run s)))) [] facts = Some novel"
  shows "\<exists>rest. novel = TaskIdentitiesBound t bs # rest \<and> (\<forall>f\<in>set rest. \<not> starts_generation f)"
proof -
  let ?k = "facts_by_key (scope_ledger s) (own_sessionId (run_owner (scope_run s))) (own_epoch (run_owner (scope_run s)))"
  obtain caps where caps: "facts = TaskIdentitiesBound t bs # caps" "caps = [] \<or> (\<exists>g r. caps = [AsyncCapabilityObserved t g CapBlocked r])"
    using assms(2) by (auto simp: bind_decision_def Let_def split: option.splits if_splits)
  have "?k (taskFactKey (TaskIdentitiesBound t bs)) = None"
  proof (rule ccontr)
    assume "?k (taskFactKey (TaskIdentitiesBound t bs)) \<noteq> None"
    then obtain f where f: "?k (taskFactKey (TaskIdentitiesBound t bs)) = Some f" by blast
    then have "f \<in> set (taskFacts s)" by (rule owned_existing)
    moreover from f have "taskFactKey f = taskFactKey (TaskIdentitiesBound t bs)"
      by (auto simp: facts_by_key_def dest!: find_last_SomeD)
    ultimately show False using bound_key assms(3) by blast
  qed
  with assms(4) caps(1) have "novel_facts ordered ?k [TaskIdentitiesBound t bs] caps = Some novel" by simp
  then show ?thesis using caps(2) by (auto split: option.splits if_splits)
qed

text \<open>
  C18. What a spawned task reports becomes what the session controls. When the observer first records the result of a
  spawn, then, whatever the host did and whatever was committed between its two looks at the disk, the run on the disk
  has a new generation of workers: its agents are exactly those of the result in the order of the reserved tasks, and its job,
  if it has the identity of one of them, is owned.
\<close>

theorem spawned_agents_controllable:
  assumes "observeTask E root io ob d d1 = (d', ObsRecorded cap)" "decodeTaskResult (ob_details ob) = Some r"
    "runtimeId (ob_toolCallId ob) = Some t" "resolveUnlocked E root d1 (ob_sessionId ob) = Inr (ScopeFound s)"
    "\<forall>bs. TaskIdentitiesBound t bs \<notin> set (taskFacts s)"
  shows "\<exists>s' ps. resolveUnlocked E root d' (ob_sessionId ob) = Inr (ScopeFound s') \<and> tr_progress r = Some ps \<and>
    owned_agents (runtimeIdentities s' (taskGeneration s')) = map pg_id (sort_key pg_index ps) \<and>
    (\<forall>j. tr_async r = Some j \<and> j \<in> pg_id ` set ps \<longrightarrow> j \<in> set (owned_jobs (runtimeIdentities s' (taskGeneration s'))))"
proof -
  obtain n bs v b where bs: "task_bindings r n = Some bs" "v \<in> {BindPending, BindBlocked}" and
    tx: "ledger_transact E root (oi_ledger io) (ob_sessionId ob) (bind_decision t bs (tr_async r \<noteq> None)) d1 = (d', LedgerScope v b)"
    using observed_task [OF assms(1)] assms(2,3) by (metis option.inject)
  note ok = resolved_ok [OF assms(4)]
  obtain s' where s': "resolveUnlocked E root d' (ob_sessionId ob) = Inr (ScopeFound s')"
    "(bind_decision t bs (tr_async r \<noteq> None) s = Return v \<and> s' = s) \<or>
     (\<exists>ordered facts novel. bind_decision t bs (tr_async r \<noteq> None) s = Append ordered facts v \<and>
       novel_facts ordered (facts_by_key (scope_ledger s) (own_sessionId (run_owner (scope_run s))) (own_epoch (run_owner (scope_run s)))) [] facts =
         Some novel \<and>
       (novel = [] \<and> s' = s \<or> (\<exists>l. s' = s\<lparr>scope_ledger := l\<rparr> \<and> appended_to s novel l)))"
    by (rule transaction_appended [OF tx]) (use assms(4) in auto)
  have "bind_decision t bs (tr_async r \<noteq> None) s \<noteq> Return v"
  proof
    assume "bind_decision t bs (tr_async r \<noteq> None) s = Return v"
    with bs(2) have "(t, bs) \<in> set (taskIdentityFacts s)"
      by (auto simp: bind_decision_def Let_def split: option.splits if_splits dest!: find_SomeD)
    then show False using assms(5) by (auto simp: taskIdentityFacts_def split: task_fact.splits)
  qed
  with s'(2) obtain ordered facts novel where fn: "bind_decision t bs (tr_async r \<noteq> None) s = Append ordered facts v"
    "novel_facts ordered (facts_by_key (scope_ledger s) (own_sessionId (run_owner (scope_run s))) (own_epoch (run_owner (scope_run s)))) [] facts = Some novel"
    "novel = [] \<and> s' = s \<or> (\<exists>l. s' = s\<lparr>scope_ledger := l\<rparr> \<and> appended_to s novel l)" by blast
  from fresh_binding [OF ok fn(1) assms(5) fn(2)] obtain rest where rest: "novel = TaskIdentitiesBound t bs # rest"
    "\<forall>f\<in>set rest. \<not> starts_generation f" by blast
  with fn(3) obtain l where l: "s' = s\<lparr>scope_ledger := l\<rparr>" "appended_to s (TaskIdentitiesBound t bs # rest) l" by auto
  from fn(1) obtain m reqs where res: "(t, m, reqs) \<in> set (taskReservations s)" "length bs = m"
    by (auto simp: bind_decision_def taskReservation_def split: option.splits if_splits dest!: find_SomeD)
  obtain ps where ps: "tr_progress r = Some ps" "length ps = n" "length bs = n" "map bind_itemIndex bs = [0..<n]"
    "map bind_actualAgentId bs = map pg_id (sort_key pg_index ps)" "distinct (map bind_actualAgentId bs)"
    "\<forall>b\<in>set bs. \<exists>p\<in>set ps. b = \<lparr>bind_itemIndex = pg_index p, bind_actualAgentId = pg_id p,
       bind_actualJobId = (if tr_async r = Some (pg_id p) then tr_async r else None)\<rparr>"
    using task_bindings_shape [OF bs(1)] .
  have "bs \<noteq> []" using reservation_shape(2) [OF ok res(1)] res(2) by auto
  from bindings_normal [OF assms(2) bs(1) this runtimeId_normal [OF assms(3)]]
  have norm: "factSchema (TaskIdentitiesBound t bs) = Some (TaskIdentitiesBound t bs)" .
  have "map bind_itemIndex bs = [0..<m]" using ps(3,4) res(2) by simp
  from bound_generation [OF ok l(2) rest(2) norm res(1) this] l(1)
  have own: "owned_agents (runtimeIdentities s' (taskGeneration s')) = map bind_actualAgentId bs"
    "\<forall>b\<in>set bs. \<forall>j. bind_actualJobId b = Some j \<longrightarrow> j \<in> set (owned_jobs (runtimeIdentities s' (taskGeneration s')))" by auto
  have "j \<in> set (owned_jobs (runtimeIdentities s' (taskGeneration s')))" if "tr_async r = Some j" "j \<in> pg_id ` set ps" for j
  proof -
    from that(2) have "j \<in> bind_actualAgentId ` set bs" using arg_cong [OF ps(5), of set] by simp
    then obtain b where "b \<in> set bs" "bind_actualAgentId b = j" by auto
    moreover from this ps(7) that(1) have "bind_actualJobId b = Some j" by fastforce
    ultimately show ?thesis using own(2) by blast
  qed
  then show ?thesis using s'(1) own(1) ps(1,5) by auto
qed

definition task_details :: tool_value where
  "task_details = VObject [(''projectAgentsDir'', VNull), (''results'', VArray []), (''totalDurationMs'', VNumber (Whole 0)),
     (''progress'', VArray [VObject [(''index'', VNumber (Whole 0)), (''id'', VText ''agent1''), (''agent'', VText ''omp-lazy-worker-low''),
        (''status'', VText ''running'')]]),
     (''async'', VObject [(''state'', VText ''running''), (''jobId'', VText ''agent1''), (''type'', VText ''task'')])]"

definition sample_observation :: tool_observation where
  "sample_observation = \<lparr>ob_toolName = ''task'', ob_toolCallId = ''call'', ob_input = spawn_input, ob_details = task_details,
     ob_isError = False, ob_sessionId = ''s1''\<rparr>"

definition reserved_ledger :: task_ledger where
  "reserved_ledger = (scope_ledger sample_scope)\<lparr>tl_ledgerRevision := 1, tl_entries := [owner_entry 1 (TaskReserved ''call'' 1 sample_requests)]\<rparr>"

definition reserved_scope :: task_run_scope where
  "reserved_scope = \<lparr>scope_indexRevision = idx_revision (sample_index [sample_start_run]),
     scope_run = sample_start_run\<lparr>run_version := RunV2 None (Some sample_commit)\<rparr>, scope_ledger = reserved_ledger\<rparr>"

definition observe_host :: observe_io where
  "observe_host = \<lparr>oi_readable = True, oi_ledger = di_ledger (gate_io smooth_write)\<rparr>"

theorem spawned_agents_controllable_witness:
  "\<exists>s'. resolveUnlocked sample_env sample_root (fst (observeTask sample_env sample_root observe_host sample_observation
       (gate_disk None reserved_ledger) (gate_disk None reserved_ledger))) ''s1'' = Inr (ScopeFound s') \<and>
     ''agent1'' \<in> set (owned_jobs (runtimeIdentities s' (taskGeneration s')))"
proof -
  let ?d = "gate_disk None reserved_ledger"
  let ?r = "observeTask sample_env sample_root observe_host sample_observation ?d ?d"
  have "snd ?r = ObsRecorded ObsPending" by code_simp
  then have r: "?r = (fst ?r, ObsRecorded ObsPending)" by (metis prod.collapse)
  have dec: "decodeTaskResult (ob_details sample_observation) =
      Some \<lparr>tr_progress = Some [\<lparr>pg_index = 0, pg_id = ''agent1''\<rparr>], tr_async = Some ''agent1''\<rparr>"
    "runtimeId (ob_toolCallId sample_observation) = Some ''call''"
    "resolveUnlocked sample_env sample_root ?d (ob_sessionId sample_observation) = Inr (ScopeFound reserved_scope)"
    by code_simp+
  have "taskFacts reserved_scope = [TaskReserved ''call'' 1 sample_requests]" by code_simp
  then have "\<forall>bs. TaskIdentitiesBound ''call'' bs \<notin> set (taskFacts reserved_scope)" by simp
  from spawned_agents_controllable [OF r dec this] show ?thesis by (auto simp: sample_observation_def)
qed

section \<open>Failures\<close>

text \<open>A host that fails to replace the ledger: the handler around the observation does not catch the error.\<close>

lemma observation_failure_escapes:
  "snd (observe_tool sample_env sample_root \<lparr>oi_readable = True, oi_ledger = di_ledger (gate_io failing_write)\<rparr> sample_observation
     (gate_disk None reserved_ledger) (gate_disk None reserved_ledger)) = ObsThrows"
  by code_simp

end
