(* ===== verification/Rules_Assembly.thy ===== *)
theory Rules_Assembly
  imports Activation Task_Packet "HOL-Library.Product_Lexorder"
begin

text \<open>
  The assembly of repository rules (\<^verbatim>\<open>src/context/rules-assembly.ts\<close>): the matching of globs, the order of the rules,
  and the budgets of the sections.
\<close>

section \<open>Globs\<close>

text \<open>
  A position in a text is the suffix that starts there. The loop of \<^verbatim>\<open>segmentMatch\<close> goes on from a position in the pattern and
  one in the segment; \<open>star\<close> is where it goes back to, the positions after the last star and of the segment when it was
  met.
\<close>

definition star_char :: char where
  "star_char = CHR ''*''"

definition stars :: "string \<Rightarrow> nat" where
  "stars p = length (filter (\<lambda>c. c = star_char) p)"

function segment_loop :: "string \<Rightarrow> string \<Rightarrow> (string \<times> string) option \<Rightarrow> bool" where
  "segment_loop p [] star = list_all (\<lambda>c. c = star_char) p"
| "segment_loop p (c # s) star =
     (if p \<noteq> [] \<and> (hd p = CHR ''?'' \<or> hd p = c) then segment_loop (tl p) s star
      else if p \<noteq> [] \<and> hd p = star_char then segment_loop (tl p) (c # s) (Some (tl p, c # s))
      else case star of
        None \<Rightarrow> False
      | Some (p0, s0) \<Rightarrow> segment_loop p0 (tl s0) (Some (p0, tl s0)))"
  by pat_completeness auto

lemma stars_Cons: "stars (c # p) = (if c = star_char then Suc (stars p) else stars p)"
  by (simp add: stars_def)

termination segment_loop
proof (relation "measures [\<lambda>(p, s, star). max (stars p) (case star of None \<Rightarrow> 0 | Some (p0, _) \<Rightarrow> stars p0),
    \<lambda>(p, s, star). case star of None \<Rightarrow> 0 | Some (_, s0) \<Rightarrow> length s0, \<lambda>(p, s, star). length s]", goal_cases)
  case (2 p c s star)
  then show ?case by (cases p) (auto simp: stars_Cons)
next
  case (3 p c s star)
  then show ?case by (cases p) (auto simp: stars_Cons)
next
  case (4 p c s star x p0 s0)
  then show ?case by (cases s0) auto
qed simp

definition segmentMatch :: "string \<Rightarrow> string \<Rightarrow> bool" where
  "segmentMatch pattern segment = segment_loop pattern segment None"

fun globMatchImpl :: "string list \<Rightarrow> string list \<Rightarrow> bool" where
  "globMatchImpl [] ps \<longleftrightarrow> ps = []"
| "globMatchImpl gs [] \<longleftrightarrow> list_all (\<lambda>g. g = ''**'') gs"
| "globMatchImpl (g # gs) (p # ps) \<longleftrightarrow>
     (if g = ''**'' then globMatchImpl gs (p # ps) \<or> globMatchImpl (g # gs) ps
      else segmentMatch g p \<and> globMatchImpl gs ps)"

definition matchGlob :: "string \<Rightarrow> string \<Rightarrow> bool" where
  "matchGlob glob path \<longleftrightarrow>
     globMatchImpl (split_on (CHR ''/'') (forward_slashes glob)) (split_on (CHR ''/'') (forward_slashes path))"

section \<open>Rules\<close>

record rule_unit =
  ru_fileName :: string
  ru_relativePath :: string
  ru_displayPath :: string
  ru_globs :: "string list"
  ru_order :: "int option"
  ru_description :: "string option"
  ru_body :: string
  ru_bytes :: nat

definition literal_chars :: "string \<Rightarrow> nat" where
  "literal_chars glob = length (filter (\<lambda>c. c \<noteq> star_char \<and> c \<noteq> CHR ''?'' \<and> c \<noteq> CHR ''/'') (forward_slashes glob))"

definition globSpecificity :: "string list \<Rightarrow> nat" where
  "globSpecificity globs = foldl max 0 (map literal_chars globs)"

definition filterMatchingRules :: "rule_unit list \<Rightarrow> string list \<Rightarrow> rule_unit list" where
  "filterMatchingRules rules touchedPaths =
     filter (\<lambda>r. list_ex (\<lambda>glob. list_ex (matchGlob glob) touchedPaths) (ru_globs r)) rules"

text \<open>The order of \<^verbatim>\<open>compareRules\<close> as a key: the order number, the specificity downwards, the file name.\<close>

definition rule_key :: "rule_unit \<Rightarrow> int \<times> int \<times> string" where
  "rule_key r = ((case ru_order r of None \<Rightarrow> 0 | Some n \<Rightarrow> n), - int (globSpecificity (ru_globs r)), ru_fileName r)"

definition sortRules :: "rule_unit list \<Rightarrow> rule_unit list" where
  "sortRules rules = sort_key rule_key rules"

definition formatRuleEntry :: "rule_unit \<Rightarrow> string" where
  "formatRuleEntry r = ''['' @ ru_fileName r @ '']'' @ [CHR 0x0A] @ ru_body r"

section \<open>Assembly\<close>

definition INJECTION_BUDGET_BYTES :: nat where
  "INJECTION_BUDGET_BYTES = 65536"

definition RULES_BUDGET_BYTES :: nat where
  "RULES_BUDGET_BYTES = 20480"

definition CATALOG_BUDGET_BYTES :: nat where
  "CATALOG_BUDGET_BYTES = 12288"

record assembly_input =
  ai_rules :: "rule_unit list"
  ai_touchedPaths :: "string list"
  ai_directiveText :: "string option"
  ai_catalogText :: "string option"

type_synonym dropped_unit = "string \<times> dropped_section \<times> string"
type_synonym retained_unit = "string \<times> dropped_section"

record assembly_result =
  ar_assembledRules :: "string option"
  ar_assembledDirective :: "string option"
  ar_assembledCatalog :: "string option"
  ar_totalBytes :: nat
  ar_droppedUnits :: "dropped_unit list"
  ar_retainedUnits :: "retained_unit list"

definition text_bytes :: "string option \<Rightarrow> nat" where
  "text_bytes t = (case t of None \<Rightarrow> 0 | Some s \<Rightarrow> byteLength s)"

text \<open>A section of one text: kept when it fits, dropped entirely otherwise.\<close>

definition whole_section ::
    "string \<Rightarrow> dropped_section \<Rightarrow> string \<Rightarrow> nat \<Rightarrow> string option \<Rightarrow> string option \<times> dropped_unit list \<times> retained_unit list" where
  "whole_section i sec constant cap text = (case text of
     None \<Rightarrow> (None, [], [])
   | Some s \<Rightarrow>
     (if byteLength s \<le> cap then (Some s, [], [(i, sec)])
      else (None, [(i, sec, i @ '' exceeds '' @ constant @ '' ('' @ decimal (byteLength s) @ '' > '' @ decimal cap @ '')'')], [])))"

text \<open>The loop over the rules: the segments, the bytes so far, what is dropped and what is retained.\<close>

fun assemble_rules ::
    "rule_unit list \<Rightarrow> string list \<Rightarrow> nat \<Rightarrow> dropped_unit list \<Rightarrow> retained_unit list \<Rightarrow>
       string list \<times> nat \<times> dropped_unit list \<times> retained_unit list" where
  "assemble_rules [] segments bytes dropped retained = (segments, bytes, dropped, retained)"
| "assemble_rules (r # rs) segments bytes dropped retained =
     (let text = formatRuleEntry r; sep = (if segments \<noteq> [] then 2 else 0); size = bytes + sep + byteLength text
      in if size \<le> RULES_BUDGET_BYTES
         then assemble_rules rs (segments @ [text]) size dropped (retained @ [(ru_fileName r, DroppedRules)])
         else assemble_rules rs segments bytes
           (dropped @ [(ru_fileName r, DroppedRules,
              ''rules budget exceeded (would be '' @ decimal size @ '' > '' @ decimal RULES_BUDGET_BYTES @ '')'')]) retained)"

definition blank_line :: string where
  "blank_line = [CHR 0x0A, CHR 0x0A]"

definition assembleRules :: "assembly_input \<Rightarrow> assembly_result" where
  "assembleRules input =
     (let sorted = sortRules (filterMatchingRules (ai_rules input) (ai_touchedPaths input));
          (directive, droppedD, retainedD) =
            whole_section ''directive'' DroppedDirective ''DIRECTIVE_BUDGET_BYTES'' DIRECTIVE_BUDGET_BYTES (ai_directiveText input);
          (catalog, droppedC, retainedC) =
            whole_section ''catalog'' DroppedCatalog ''CATALOG_BUDGET_BYTES'' CATALOG_BUDGET_BYTES (ai_catalogText input);
          (segments, _, dropped, retained) = assemble_rules sorted [] 0 (droppedD @ droppedC) (retainedD @ retainedC);
          rules = (if segments \<noteq> [] then Some (join_with blank_line segments) else None);
          overflow = INJECTION_BUDGET_BYTES < text_bytes directive + text_bytes catalog + text_bytes rules \<and> rules \<noteq> None;
          dropped' = (if overflow
            then dropped @ map (\<lambda>(i, _). (i, DroppedRules, ''total budget overflow safety''))
              (rev (filter (\<lambda>(_, sec). sec = DroppedRules) retained))
            else dropped);
          retained' = (if overflow then filter (\<lambda>(_, sec). sec \<noteq> DroppedRules) retained else retained);
          rules' = (if overflow then None else rules)
      in \<lparr>ar_assembledRules = rules', ar_assembledDirective = directive, ar_assembledCatalog = catalog,
          ar_totalBytes = text_bytes directive + text_bytes catalog + text_bytes rules',
          ar_droppedUnits = dropped', ar_retainedUnits = retained'\<rparr>)"

end
