(* ===== verification/Rules_Properties.thy ===== *)
theory Rules_Properties
  imports Rules_Assembly Catalog_Compaction
begin

text \<open>
  What the assembly of rules guarantees: the matcher of globs agrees with the declarative meaning of a glob on paths
  without stars, and the assembled sections stay within their budgets.
\<close>

section \<open>The meaning of a glob\<close>

fun segment_spec :: "string \<Rightarrow> string \<Rightarrow> bool" where
  "segment_spec [] s \<longleftrightarrow> s = []"
| "segment_spec (q # p) s \<longleftrightarrow>
     (if q = star_char then \<exists>k \<le> length s. segment_spec p (drop k s)
      else s \<noteq> [] \<and> (q = CHR ''?'' \<or> q = hd s) \<and> segment_spec p (tl s))"

inductive glob_spec :: "string list \<Rightarrow> string list \<Rightarrow> bool" where
  glob_end: "glob_spec [] []"
| glob_segment: "g \<noteq> ''**'' \<Longrightarrow> segment_spec g p \<Longrightarrow> glob_spec gs ps \<Longrightarrow> glob_spec (g # gs) (p # ps)"
| glob_stars: "glob_spec gs ps \<Longrightarrow> glob_spec (''**'' # gs) (qs @ ps)"

inductive_cases glob_nilE: "glob_spec [] ps"
inductive_cases glob_consE: "glob_spec (g # gs) ps"

lemma segment_spec_Nil: "segment_spec p [] \<longleftrightarrow> list_all (\<lambda>c. c = star_char) p"
  by (induction p) auto

lemma segment_spec_star: "segment_spec (star_char # p) s \<longleftrightarrow> (\<exists>u v. s = u @ v \<and> segment_spec p v)"
proof
  assume "segment_spec (star_char # p) s"
  then obtain k where "k \<le> length s" "segment_spec p (drop k s)" by auto
  then show "\<exists>u v. s = u @ v \<and> segment_spec p v" by (metis append_take_drop_id)
next
  assume "\<exists>u v. s = u @ v \<and> segment_spec p v"
  then obtain u v where "s = u @ v" "segment_spec p v" by blast
  then show "segment_spec (star_char # p) s" by (auto intro!: exI [of _ "length u"])
qed

text \<open>A part of a pattern without stars takes as many characters as it has.\<close>

lemma segment_spec_prefix:
  "star_char \<notin> set w \<Longrightarrow> segment_spec (w @ p) s \<Longrightarrow> length w \<le> length s \<and> segment_spec p (drop (length w) s)"
  by (induction w arbitrary: s) (fastforce simp: neq_Nil_conv)+

text \<open>
  What the loop keeps: since the last star was met, a part \<open>w\<close> of the pattern without stars has been matched against as many
  characters.
\<close>

definition back_point :: "string \<Rightarrow> string \<Rightarrow> (string \<times> string) option \<Rightarrow> bool" where
  "back_point p s star \<longleftrightarrow> (case star of
     None \<Rightarrow> True
   | Some (p0, s0) \<Rightarrow> (\<exists>w v. p0 = w @ p \<and> s0 = v @ s \<and> length w = length v \<and> star_char \<notin> set w))"

definition later_match :: "(string \<times> string) option \<Rightarrow> bool" where
  "later_match star \<longleftrightarrow> (case star of
     None \<Rightarrow> False | Some (p0, s0) \<Rightarrow> (\<exists>k. 1 \<le> k \<and> k \<le> length s0 \<and> segment_spec p0 (drop k s0)))"

lemma later_match_tl:
  assumes "s0 \<noteq> []"
  shows "later_match (Some (p0, s0)) \<longleftrightarrow> segment_spec p0 (tl s0) \<or> later_match (Some (p0, tl s0))"
proof
  assume "later_match (Some (p0, s0))"
  then obtain k where k: "1 \<le> k" "k \<le> length s0" "segment_spec p0 (drop k s0)" by (auto simp: later_match_def)
  show "segment_spec p0 (tl s0) \<or> later_match (Some (p0, tl s0))"
  proof (cases "k = 1")
    case True
    then show ?thesis using k(3) by (simp add: drop_Suc)
  next
    case False
    with k have "1 \<le> k - 1" "k - 1 \<le> length (tl s0)" "segment_spec p0 (drop (k - 1) (tl s0))"
      by (auto simp: drop_Suc [symmetric])
    then show ?thesis by (auto simp: later_match_def)
  qed
next
  assume "segment_spec p0 (tl s0) \<or> later_match (Some (p0, tl s0))"
  then show "later_match (Some (p0, s0))"
  proof
    assume "segment_spec p0 (tl s0)"
    then show ?thesis using assms by (auto simp: later_match_def drop_Suc Suc_le_eq intro!: exI [of _ 1])
  next
    assume "later_match (Some (p0, tl s0))"
    then obtain k where "1 \<le> k" "k \<le> length (tl s0)" "segment_spec p0 (drop k (tl s0))" by (auto simp: later_match_def)
    then show ?thesis by (auto simp: later_match_def drop_Suc [symmetric] intro!: exI [of _ "Suc k"])
  qed
qed

text \<open>A match further back is also one from a star met since.\<close>

lemma later_match_star:
  assumes "back_point (star_char # p) s star" "later_match star"
  shows "segment_spec (star_char # p) s"
proof -
  from assms obtain p0 s0 w v k where star: "star = Some (p0, s0)" "p0 = w @ star_char # p" "s0 = v @ s" "length w = length v"
    "star_char \<notin> set w" "segment_spec p0 (drop k s0)"
    by (auto simp: back_point_def later_match_def split: option.splits)
  have "segment_spec (w @ star_char # p) (drop k s0)" using star(2,6) by simp
  from segment_spec_prefix [OF star(5) this]
  have "segment_spec (star_char # p) (drop (length w + k) s0)" by (simp add: add.commute del: segment_spec.simps)
  moreover have "drop (length w + k) s0 = drop k s" by (simp add: star(3,4))
  ultimately show ?thesis unfolding segment_spec_star by (metis append.assoc append_take_drop_id)
qed

lemma segment_loop_spec:
  assumes "star_char \<notin> set s" "back_point p s star" "case star of None \<Rightarrow> True | Some (_, s0) \<Rightarrow> star_char \<notin> set s0"
  shows "segment_loop p s star \<longleftrightarrow> segment_spec p s \<or> later_match star"
  using assms
proof (induction p s star rule: segment_loop.induct)
  case (1 p star)
  have "later_match star \<Longrightarrow> segment_spec p []"
  proof -
    assume "later_match star"
    then obtain p0 s0 w v k where star: "star = Some (p0, s0)" "p0 = w @ p" "s0 = v" "length w = length v"
      "star_char \<notin> set w" "1 \<le> k" "k \<le> length s0" "segment_spec p0 (drop k s0)"
      using "1.prems"(2) by (auto simp: back_point_def later_match_def split: option.splits)
    from segment_spec_prefix [OF star(5)] star(2,8) have "length w \<le> length (drop k s0)" by blast
    then show ?thesis using star(3,4,6,7) by simp
  qed
  then show ?case using segment_spec_Nil by auto
next
  case (2 p c s star)
  have c: "c \<noteq> star_char" "star_char \<notin> set s" using "2.prems"(1) by auto
  have q: "CHR ''?'' \<noteq> star_char" by (simp add: star_char_def)
  consider p' q where "p = q # p'" "q = CHR ''?'' \<or> q = c" | p' where "p = star_char # p'" | "\<not> (p \<noteq> [] \<and> (hd p = CHR ''?'' \<or> hd p = c))" "\<not> (p \<noteq> [] \<and> hd p = star_char)"
    by (cases p) auto
  then show ?case
  proof cases
    case 1
    then have ns: "q \<noteq> star_char" using c q by auto
    then have "back_point p' s star" using "2.prems"(2) 1(1)
      by (fastforce simp: back_point_def split: option.splits intro: exI [of _ "_ @ [q]"] exI [of _ "_ @ [c]"])
    with "2.IH"(1) 1 c(2) "2.prems"(3) have "segment_loop p' s star \<longleftrightarrow> segment_spec p' s \<or> later_match star" by simp
    then show ?thesis using 1 ns by auto
  next
    case 2
    then have no: "\<not> (p \<noteq> [] \<and> (hd p = CHR ''?'' \<or> hd p = c))" using c q by auto
    have bp: "back_point p' (c # s) (Some (p', c # s))" by (simp add: back_point_def)
    have "segment_loop p (c # s) star \<longleftrightarrow> segment_loop p' (c # s) (Some (p', c # s))" using 2 no by auto
    also have "\<dots> \<longleftrightarrow> segment_spec p' (c # s) \<or> later_match (Some (p', c # s))"
      using "2.IH"(2) [OF no] 2 bp "2.prems"(1) by simp
    also have "\<dots> \<longleftrightarrow> segment_spec p (c # s)"
    proof -
      have "(\<exists>k \<le> length (c # s). segment_spec p' (drop k (c # s))) \<longleftrightarrow>
          segment_spec p' (c # s) \<or> (\<exists>k. 1 \<le> k \<and> k \<le> length (c # s) \<and> segment_spec p' (drop k (c # s)))"
        by (metis One_nat_def Suc_leI drop0 gr0I zero_le)
      then show ?thesis by (simp add: 2 later_match_def)
    qed
    also have "\<dots> \<longleftrightarrow> segment_spec p (c # s) \<or> later_match star"
      using later_match_star [of p' "c # s" star] "2.prems"(2) 2 by blast
    finally show ?thesis .
  next
    case 3
    then have no: "\<not> segment_spec p (c # s)" by (cases p) auto
    show ?thesis
    proof (cases star)
      case None
      have "\<not> segment_loop p (c # s) None" using 3 by (subst segment_loop.simps(2)) (simp only: if_False option.case simp_thms)
      then show ?thesis using no by (simp add: None later_match_def)
    next
      case (Some ps)
      obtain p0 s0 where ps: "star = Some (p0, s0)" using Some by (cases ps) auto
      have ne: "s0 \<noteq> []" using "2.prems"(2) by (auto simp: ps back_point_def)
      have bp: "back_point p0 (tl s0) (Some (p0, tl s0))" by (simp add: back_point_def)
      have nostar: "star_char \<notin> set (tl s0)" using "2.prems"(3) ne by (auto simp: ps neq_Nil_conv)
      have "segment_loop p (c # s) star \<longleftrightarrow> segment_loop p0 (tl s0) (Some (p0, tl s0))" unfolding ps using 3 by (subst segment_loop.simps(2)) (simp only: if_False option.case prod.case simp_thms)
      also have "\<dots> \<longleftrightarrow> segment_spec p0 (tl s0) \<or> later_match (Some (p0, tl s0))"
        using "2.IH"(3) [OF 3 ps refl] bp nostar by simp
      finally show ?thesis using later_match_tl [OF ne] ps no by blast
    qed
  qed
qed

lemma segmentMatch_spec: "star_char \<notin> set s \<Longrightarrow> segmentMatch p s \<longleftrightarrow> segment_spec p s"
  by (simp add: segmentMatch_def segment_loop_spec back_point_def later_match_def)

section \<open>Paths\<close>

lemma glob_stars_only: "glob_spec gs [] \<longleftrightarrow> list_all (\<lambda>g. g = ''**'') gs"
proof
  have "glob_spec gs ps \<Longrightarrow> ps = [] \<Longrightarrow> list_all (\<lambda>g. g = ''**'') gs" for ps
    by (induction rule: glob_spec.induct) auto
  then show "glob_spec gs [] \<Longrightarrow> list_all (\<lambda>g. g = ''**'') gs" by simp
next
  show "list_all (\<lambda>g. g = ''**'') gs \<Longrightarrow> glob_spec gs []"
    by (induction gs) (auto intro: glob_end glob_stars [where qs = "[]", simplified])
qed

lemma glob_stars_step: "glob_spec (''**'' # gs) (p # ps) \<longleftrightarrow> glob_spec gs (p # ps) \<or> glob_spec (''**'' # gs) ps"
proof
  assume "glob_spec (''**'' # gs) (p # ps)"
  then obtain qs rs where "p # ps = qs @ rs" "glob_spec gs rs" by (auto elim: glob_consE)
  then show "glob_spec gs (p # ps) \<or> glob_spec (''**'' # gs) ps"
    by (cases qs) (auto intro: glob_stars)
next
  assume "glob_spec gs (p # ps) \<or> glob_spec (''**'' # gs) ps"
  then show "glob_spec (''**'' # gs) (p # ps)"
  proof
    assume "glob_spec (''**'' # gs) ps"
    then obtain qs rs where "ps = qs @ rs" "glob_spec gs rs" by (auto elim: glob_consE)
    then show ?thesis using glob_stars [of gs rs "p # qs"] by simp
  qed (use glob_stars [of gs "p # ps" "[]"] in simp)
qed

lemma globMatchImpl_spec: "\<forall>p\<in>set ps. star_char \<notin> set p \<Longrightarrow> globMatchImpl gs ps \<longleftrightarrow> glob_spec gs ps"
proof (induction gs ps rule: globMatchImpl.induct)
  case (1 ps)
  then show ?case by (auto intro: glob_end elim: glob_nilE)
next
  case (2 g gs)
  then show ?case using glob_stars_only [of "g # gs"] by simp
next
  case (3 g gs p ps)
  show ?case
  proof (cases "g = ''**''")
    case True
    then show ?thesis using 3 glob_stars_step by simp
  next
    case False
    then show ?thesis using 3 segmentMatch_spec [of p g] by (auto elim!: glob_consE intro: glob_segment)
  qed
qed

lemma split_on_chars: "seg \<in> set (split_on c s) \<Longrightarrow> set seg \<subseteq> set s"
  by (induction c s arbitrary: seg rule: split_on.induct) (fastforce split: if_splits list.splits)+

text \<open>
  C37. The matcher of globs does what the documentation says of them: a path without stars matches exactly when its segments can
  be cut so that every \<^verbatim>\<open>**\<close> takes any number of whole segments, and inside a segment every star takes any number of
  characters, every question mark one, and any other character itself.
\<close>

theorem glob_match_iff:
  assumes "star_char \<notin> set path"
  shows "matchGlob glob path \<longleftrightarrow> glob_spec (split_on (CHR ''/'') (forward_slashes glob)) (split_on (CHR ''/'') (forward_slashes path))"
proof -
  have "star_char \<notin> set (forward_slashes path)" using assms by (auto simp: forward_slashes_def star_char_def)
  then show ?thesis by (auto simp: matchGlob_def dest: split_on_chars intro!: globMatchImpl_spec)
qed

theorem glob_match_iff_witness:
  "glob_spec (split_on (CHR ''/'') (forward_slashes ''src/**/*.t?'')) (split_on (CHR ''/'') (forward_slashes ''src/a/b/index.ts''))"
proof -
  have "matchGlob ''src/**/*.t?'' ''src/a/b/index.ts''" "star_char \<notin> set ''src/a/b/index.ts''" by code_simp+
  then show ?thesis using glob_match_iff by blast
qed

text \<open>
  A star of the path is taken for the star of the pattern, which then is no wildcard any more: the glob \<^verbatim>\<open>*\<close> does not match
  the file name \<^verbatim>\<open>*notes\<close>.
\<close>

lemma star_in_name_mismatched: "\<not> matchGlob ''*'' ''*notes'' \<and> segment_spec ''*'' ''*notes''"
proof
  show "\<not> matchGlob ''*'' ''*notes''" by code_simp
  have "segment_spec (star_char # []) ''*notes''" unfolding segment_spec_star by (rule exI [of _ "''*notes''"]) simp
  then show "segment_spec ''*'' ''*notes''" by (simp add: star_char_def)
qed

section \<open>Budgets\<close>

definition rules_text :: "rule_unit list \<Rightarrow> string option" where
  "rules_text kept = (if kept = [] then None else Some (join_with blank_line (map formatRuleEntry kept)))"

lemma rules_text_snoc:
  "text_bytes (rules_text (kept @ [r])) = text_bytes (rules_text kept) + (if kept = [] then 0 else 2) + byteLength (formatRuleEntry r)"
  by (simp add: rules_text_def text_bytes_def join_snoc blank_line_def byteLength_def)

lemma assemble_rules_result:
  assumes "assemble_rules rs (map formatRuleEntry kept0) bytes dropped retained = (segments, amount, dropped', retained')"
    "bytes = text_bytes (rules_text kept0)" "bytes \<le> RULES_BUDGET_BYTES"
  shows "\<exists>kept lost. segments = map formatRuleEntry (kept0 @ kept) \<and> text_bytes (rules_text (kept0 @ kept)) \<le> RULES_BUDGET_BYTES \<and>
    subseq kept rs \<and> mset kept + mset lost = mset rs \<and>
    retained' = retained @ map (\<lambda>r. (ru_fileName r, DroppedRules)) kept \<and>
    map (\<lambda>(i, sec, _). (i, sec)) dropped' = map (\<lambda>(i, sec, _). (i, sec)) dropped @ map (\<lambda>r. (ru_fileName r, DroppedRules)) lost"
  using assms
proof (induction rs arbitrary: kept0 bytes dropped retained)
  case Nil
  then show ?case by (intro exI [of _ "[]"]) simp
next
  case (Cons r rs)
  let ?size = "bytes + (if map formatRuleEntry kept0 \<noteq> [] then 2 else 0) + byteLength (formatRuleEntry r)"
  have bytes: "?size = text_bytes (rules_text (kept0 @ [r]))" using Cons.prems(2) by (simp add: rules_text_snoc)
  show ?case
  proof (cases "?size \<le> RULES_BUDGET_BYTES")
    case True
    have "assemble_rules rs (map formatRuleEntry (kept0 @ [r])) ?size dropped (retained @ [(ru_fileName r, DroppedRules)]) =
        (segments, amount, dropped', retained')" using Cons.prems(1) True by (simp add: Let_def)
    from Cons.IH [OF this bytes True] obtain kept lost where k: "segments = map formatRuleEntry ((kept0 @ [r]) @ kept)"
      "text_bytes (rules_text ((kept0 @ [r]) @ kept)) \<le> RULES_BUDGET_BYTES" "subseq kept rs" "mset kept + mset lost = mset rs"
      "retained' = (retained @ [(ru_fileName r, DroppedRules)]) @ map (\<lambda>r. (ru_fileName r, DroppedRules)) kept"
      "map (\<lambda>(i, sec, _). (i, sec)) dropped' = map (\<lambda>(i, sec, _). (i, sec)) dropped @ map (\<lambda>r. (ru_fileName r, DroppedRules)) lost"
      by blast
    then show ?thesis by (intro exI [of _ "r # kept"] exI [of _ lost]) simp
  next
    case False
    let ?d = "dropped @ [(ru_fileName r, DroppedRules,
      ''rules budget exceeded (would be '' @ decimal ?size @ '' > '' @ decimal RULES_BUDGET_BYTES @ '')'')]"
    have "assemble_rules rs (map formatRuleEntry kept0) bytes ?d retained = (segments, amount, dropped', retained')"
      using Cons.prems(1) False by (simp add: Let_def)
    from Cons.IH [OF this Cons.prems(2,3)] obtain kept lost where k: "segments = map formatRuleEntry (kept0 @ kept)"
      "text_bytes (rules_text (kept0 @ kept)) \<le> RULES_BUDGET_BYTES" "subseq kept rs" "mset kept + mset lost = mset rs"
      "retained' = retained @ map (\<lambda>r. (ru_fileName r, DroppedRules)) kept"
      "map (\<lambda>(i, sec, _). (i, sec)) dropped' = map (\<lambda>(i, sec, _). (i, sec)) ?d @ map (\<lambda>r. (ru_fileName r, DroppedRules)) lost"
      by blast
    then show ?thesis by (intro exI [of _ kept] exI [of _ "r # lost"]) auto
  qed
qed

lemma whole_section_cap: "text_bytes (fst (whole_section i sec k cap text)) \<le> cap"
  by (simp add: whole_section_def text_bytes_def split: option.split)

text \<open>
  C38. Whatever rules, paths, directive and catalog are given, the assembly stays within its budgets: each section within its own,
  all of them within 65536 bytes. A directive or a catalog that fits is kept whole. The rules section is made of whole rules in
  the order of priority, and every rule that matches is either in it or reported as dropped.
\<close>

theorem assembly_within_budget:
  "ar_totalBytes (assembleRules i) \<le> INJECTION_BUDGET_BYTES \<and>
   ar_totalBytes (assembleRules i) = text_bytes (ar_assembledDirective (assembleRules i)) +
     text_bytes (ar_assembledCatalog (assembleRules i)) + text_bytes (ar_assembledRules (assembleRules i)) \<and>
   text_bytes (ar_assembledRules (assembleRules i)) \<le> RULES_BUDGET_BYTES \<and>
   ar_assembledDirective (assembleRules i) =
     (if text_bytes (ai_directiveText i) \<le> DIRECTIVE_BUDGET_BYTES then ai_directiveText i else None) \<and>
   ar_assembledCatalog (assembleRules i) =
     (if text_bytes (ai_catalogText i) \<le> CATALOG_BUDGET_BYTES then ai_catalogText i else None) \<and>
   (\<exists>kept lost. ar_assembledRules (assembleRules i) = rules_text kept \<and>
      subseq kept (sortRules (filterMatchingRules (ai_rules i) (ai_touchedPaths i))) \<and>
      mset kept + mset lost = mset (filterMatchingRules (ai_rules i) (ai_touchedPaths i)) \<and>
      filter (\<lambda>(_, sec). sec = DroppedRules) (ar_retainedUnits (assembleRules i)) = map (\<lambda>r. (ru_fileName r, DroppedRules)) kept \<and>
      filter (\<lambda>(_, sec). sec = DroppedRules) (map (\<lambda>(i, sec, _). (i, sec)) (ar_droppedUnits (assembleRules i))) =
        map (\<lambda>r. (ru_fileName r, DroppedRules)) lost)"
proof -
  let ?sorted = "sortRules (filterMatchingRules (ai_rules i) (ai_touchedPaths i))"
  obtain dir dd rd where dir: "whole_section ''directive'' DroppedDirective ''DIRECTIVE_BUDGET_BYTES'' DIRECTIVE_BUDGET_BYTES
    (ai_directiveText i) = (dir, dd, rd)" by (metis prod.collapse)
  obtain cat dc rc where cat: "whole_section ''catalog'' DroppedCatalog ''CATALOG_BUDGET_BYTES'' CATALOG_BUDGET_BYTES
    (ai_catalogText i) = (cat, dc, rc)" by (metis prod.collapse)
  obtain segments amount dropped retained where loop: "assemble_rules ?sorted [] 0 (dd @ dc) (rd @ rc) = (segments, amount, dropped, retained)"
    by (metis prod.collapse)
  obtain kept lost where k: "segments = map formatRuleEntry kept" "text_bytes (rules_text kept) \<le> RULES_BUDGET_BYTES"
    "subseq kept ?sorted" "mset kept + mset lost = mset ?sorted" "retained = (rd @ rc) @ map (\<lambda>r. (ru_fileName r, DroppedRules)) kept"
    "map (\<lambda>(i, sec, _). (i, sec)) dropped = map (\<lambda>(i, sec, _). (i, sec)) (dd @ dc) @ map (\<lambda>r. (ru_fileName r, DroppedRules)) lost"
  proof -
    have l: "assemble_rules ?sorted (map formatRuleEntry []) 0 (dd @ dc) (rd @ rc) = (segments, amount, dropped, retained)" using loop by simp
    have "0 = text_bytes (rules_text [])" by (simp add: rules_text_def text_bytes_def)
    from assemble_rules_result [OF l this] that show thesis by auto
  qed
  have rules: "(if segments \<noteq> [] then Some (join_with blank_line segments) else None) = rules_text kept"
    by (simp add: rules_text_def k(1))
  have fit: "text_bytes dir + text_bytes cat + text_bytes (rules_text kept) \<le> INJECTION_BUDGET_BYTES"
    using whole_section_cap [of "''directive''" DroppedDirective "''DIRECTIVE_BUDGET_BYTES''" DIRECTIVE_BUDGET_BYTES "ai_directiveText i"]
      whole_section_cap [of "''catalog''" DroppedCatalog "''CATALOG_BUDGET_BYTES''" CATALOG_BUDGET_BYTES "ai_catalogText i"] dir cat k(2)
    by (simp add: INJECTION_BUDGET_BYTES_def DIRECTIVE_BUDGET_BYTES_def CATALOG_BUDGET_BYTES_def RULES_BUDGET_BYTES_def)
  then have result: "assembleRules i = \<lparr>ar_assembledRules = rules_text kept, ar_assembledDirective = dir, ar_assembledCatalog = cat,
      ar_totalBytes = text_bytes dir + text_bytes cat + text_bytes (rules_text kept), ar_droppedUnits = dropped, ar_retainedUnits = retained\<rparr>"
    unfolding assembleRules_def Let_def dir cat case_prod_conv loop rules by simp
  have none: "filter (\<lambda>(_, sec). sec = DroppedRules) (rd @ rc) = []"
    "filter (\<lambda>(_, sec). sec = DroppedRules) (map (\<lambda>(i, sec, _). (i, sec)) (dd @ dc)) = []"
    using dir cat by (auto simp: whole_section_def split: option.splits if_splits)
  have sections: "dir = (if text_bytes (ai_directiveText i) \<le> DIRECTIVE_BUDGET_BYTES then ai_directiveText i else None)"
    "cat = (if text_bytes (ai_catalogText i) \<le> CATALOG_BUDGET_BYTES then ai_catalogText i else None)"
    using dir cat by (auto simp: whole_section_def text_bytes_def split: option.splits if_splits)
  have "mset ?sorted = mset (filterMatchingRules (ai_rules i) (ai_touchedPaths i))" by (simp add: sortRules_def)
  moreover have "filter (\<lambda>(_, sec). sec = DroppedRules) retained = map (\<lambda>r. (ru_fileName r, DroppedRules)) kept"
    using none(1) by (simp add: k(5) filter_id_conv)
  moreover have "filter (\<lambda>(_, sec). sec = DroppedRules) (map (\<lambda>(i, sec, _). (i, sec)) dropped) = map (\<lambda>r. (ru_fileName r, DroppedRules)) lost"
    using none(2) by (simp add: k(6) filter_id_conv)
  ultimately have parts: "ar_assembledRules (assembleRules i) = rules_text kept \<and>
      subseq kept (sortRules (filterMatchingRules (ai_rules i) (ai_touchedPaths i))) \<and>
      mset kept + mset lost = mset (filterMatchingRules (ai_rules i) (ai_touchedPaths i)) \<and>
      filter (\<lambda>(_, sec). sec = DroppedRules) (ar_retainedUnits (assembleRules i)) = map (\<lambda>r. (ru_fileName r, DroppedRules)) kept \<and>
      filter (\<lambda>(_, sec). sec = DroppedRules) (map (\<lambda>(i, sec, _). (i, sec)) (ar_droppedUnits (assembleRules i))) =
        map (\<lambda>r. (ru_fileName r, DroppedRules)) lost"
    using k(3,4) unfolding result by simp
  have sizes: "ar_totalBytes (assembleRules i) \<le> INJECTION_BUDGET_BYTES"
    "ar_totalBytes (assembleRules i) = text_bytes (ar_assembledDirective (assembleRules i)) +
       text_bytes (ar_assembledCatalog (assembleRules i)) + text_bytes (ar_assembledRules (assembleRules i))"
    "text_bytes (ar_assembledRules (assembleRules i)) \<le> RULES_BUDGET_BYTES"
    "ar_assembledDirective (assembleRules i) = dir" "ar_assembledCatalog (assembleRules i) = cat"
    using fit k(2) unfolding result by simp_all
  show ?thesis using sizes parts unfolding sections by blast
qed

text \<open>
  When the cap is hit it is not always the rule of lowest priority that goes: a rule that does not fit is dropped, and a later one
  that fits is kept.
\<close>

definition some_rule :: "string \<Rightarrow> int \<Rightarrow> nat \<Rightarrow> rule_unit" where
  "some_rule name n len = \<lparr>ru_fileName = name, ru_relativePath = name, ru_displayPath = name, ru_globs = [''**''],
     ru_order = Some n, ru_description = None, ru_body = replicate len (CHR ''x''), ru_bytes = len\<rparr>"

lemma first_rule_dropped:
  "assemble_rules [some_rule ''a.md'' 1 20480, some_rule ''b.md'' 2 0] [] 0 [] [] =
     ([formatRuleEntry (some_rule ''b.md'' 2 0)], 7,
      [(''a.md'', DroppedRules, ''rules budget exceeded (would be '' @ decimal 20487 @ '' > '' @ decimal RULES_BUDGET_BYTES @ '')'')],
      [(''b.md'', DroppedRules)])"
proof -
  have "byteLength (replicate n (CHR ''x'')) = n" for n by (induction n) (simp_all add: byteLength_def)
  then have len: "byteLength (formatRuleEntry (some_rule name m n)) = byteLength name + 3 + n" for name m n
    by (simp add: formatRuleEntry_def some_rule_def byteLength_def)
  have "byteLength (formatRuleEntry (some_rule ''a.md'' 1 20480)) = 20487" "byteLength (formatRuleEntry (some_rule ''b.md'' 2 0)) = 7"
    unfolding len by (simp_all add: byteLength_def)
  moreover have "ru_fileName (some_rule name m n) = name" for name m n by (simp add: some_rule_def)
  ultimately show ?thesis by (simp add: Let_def RULES_BUDGET_BYTES_def)
qed

end
