(* ===== verification/Rules_Discovery.thy ===== *)
theory Rules_Discovery
  imports Rules_Assembly "HOL-Library.AList"
begin

text \<open>
  The discovery of repository rules (\<^verbatim>\<open>src/context/rules-discovery.ts\<close>): the frontmatter of a rule, its schema, and
  the loading of the files of the rules directory. Of an error only its code is kept. What the file system answers is
  an input.
\<close>

datatype rule_error =
    RulesRootUnreadable | RulesRootEscaped | RulePathEscaped | RuleLinkRejected | RuleNotRegularFile
  | RuleUnreadable | RuleTooLarge | MalformedRuleFrontmatter

section \<open>Frontmatter\<close>

text \<open>A member of the frontmatter: a text or a list of texts.\<close>

datatype field_value = FieldText string | FieldList "string list"

fun crlf_to_lf :: "string \<Rightarrow> string" where
  "crlf_to_lf [] = []"
| "crlf_to_lf [c] = [c]"
| "crlf_to_lf (c # d # s) =
     (if c = CHR 0x0D \<and> d = CHR 0x0A then CHR 0x0A # crlf_to_lf s else c # crlf_to_lf (d # s))"

definition one_line :: "string \<Rightarrow> bool" where
  "one_line s \<longleftrightarrow> CHR 0x0A \<notin> set s \<and> CHR 0x0D \<notin> set s"

text \<open>\<^verbatim>\<open>/^(["'])(.*)\1$/\<close> on the trimmed text: what is between two equal quotes at its ends.\<close>

definition unquote :: "string \<Rightarrow> string" where
  "unquote value = (let t = js_trim value
     in if 2 \<le> length t \<and> (hd t = CHR 0x22 \<or> hd t = CHR 0x27) \<and> last t = hd t \<and> one_line (butlast (tl t))
        then butlast (tl t) else t)"

text \<open>\<^verbatim>\<open>/^\s*-\s+(.*)$/\<close>\<close>

definition list_item :: "string \<Rightarrow> string option" where
  "list_item line = (case dropWhile js_space line of
     [] \<Rightarrow> None
   | c # r \<Rightarrow>
     (if c = CHR ''-'' \<and> r \<noteq> [] \<and> js_space (hd r) \<and> one_line (dropWhile js_space r)
      then Some (dropWhile js_space r) else None))"

definition key_char :: "char \<Rightarrow> bool" where
  "key_char c \<longleftrightarrow> is_letter c \<or> is_digit c \<or> c = CHR ''_'' \<or> c = CHR ''-''"

text \<open>\<^verbatim>\<open>/^([A-Za-z][A-Za-z0-9_-]*):\s*(.*)$/\<close>\<close>

definition key_value :: "string \<Rightarrow> (string \<times> string) option" where
  "key_value line =
     (let key = takeWhile key_char line; rest = dropWhile key_char line
      in if key \<noteq> [] \<and> is_letter (hd key) \<and> rest \<noteq> [] \<and> hd rest = CHR '':'' \<and> one_line (dropWhile js_space (tl rest))
         then Some (key, dropWhile js_space (tl rest)) else None)"

text \<open>
  \<^verbatim>\<open>JSON.parse\<close> of an inline list, of which only a list of texts is accepted. Each backslash has been doubled before, so two
  backslashes are the only escape that occurs.
\<close>

definition double_backslashes :: "string \<Rightarrow> string" where
  "double_backslashes s = concat (map (\<lambda>c. if c = CHR 0x5C then [c, c] else [c]) s)"

definition json_space :: "char \<Rightarrow> bool" where
  "json_space c \<longleftrightarrow> c = CHR '' '' \<or> c = CHR 0x09 \<or> c = CHR 0x0A \<or> c = CHR 0x0D"

fun string_rest :: "string \<Rightarrow> (string \<times> string) option" where
  "string_rest [] = None"
| "string_rest (c # s) =
     (if c = CHR 0x22 then Some ([], s)
      else if c = CHR 0x5C then
        (case s of d # t \<Rightarrow> (if d = CHR 0x5C then map_option (\<lambda>(x, r). (c # x, r)) (string_rest t) else None) | [] \<Rightarrow> None)
      else if (of_char c :: nat) < 32 then None
      else map_option (\<lambda>(x, r). (c # x, r)) (string_rest s))"

lemma string_rest_shorter: "string_rest s = Some (x, r) \<Longrightarrow> length r < length s"
  by (induction s arbitrary: x r rule: string_rest.induct) (fastforce split: if_splits list.splits)+

function list_items :: "string \<Rightarrow> string list option" where
  "list_items s = (case dropWhile json_space s of
     [] \<Rightarrow> None
   | c # t \<Rightarrow>
     (if c \<noteq> CHR 0x22 then None
      else case string_rest t of
        None \<Rightarrow> None
      | Some (x, r) \<Rightarrow>
        (case dropWhile json_space r of
           [] \<Rightarrow> None
         | d # u \<Rightarrow>
           (if d = CHR '','' then map_option ((#) x) (list_items u)
            else if d = CHR '']'' \<and> list_all json_space u then Some [x] else None))))"
  by pat_completeness auto

termination list_items
proof (relation "measure length", goal_cases)
  case (2 s c t xr x r d u)
  have a: "length (c # t) \<le> length s" using 2(1) by (metis length_dropWhile_le)
  have b: "length (d # u) \<le> length r" using 2(5) by (metis length_dropWhile_le)
  from 2(3,4) have "string_rest t = Some (x, r)" by simp
  from string_rest_shorter [OF this] a b show ?case by simp
qed simp

definition parseInlineList :: "string \<Rightarrow> string list option" where
  "parseInlineList raw = (case dropWhile json_space (double_backslashes raw) of
     [] \<Rightarrow> None
   | c # s \<Rightarrow>
     (if c \<noteq> CHR ''['' then None
      else case dropWhile json_space s of
        [] \<Rightarrow> None
      | d # t \<Rightarrow> (if d = CHR '']'' then (if list_all json_space t then Some [] else None) else list_items s)))"

text \<open>\<^verbatim>\<open>currentKey in members\<close> also finds the members that every object inherits.\<close>

definition inherited_members :: "string list" where
  "inherited_members = [''constructor'', ''hasOwnProperty'', ''isPrototypeOf'', ''propertyIsEnumerable'',
     ''toLocaleString'', ''toString'', ''valueOf'']"

fun frontmatter_fields ::
    "string list \<Rightarrow> string option \<Rightarrow> (string \<times> field_value) list \<Rightarrow> (string \<times> field_value) list option" where
  "frontmatter_fields [] currentKey members = Some members"
| "frontmatter_fields (line # lines) currentKey members =
     (if js_trim line = [] then frontmatter_fields lines currentKey members
      else case list_item line of
        Some item \<Rightarrow>
          (case Option.bind currentKey (map_of members) of
             Some (FieldList values) \<Rightarrow>
               (case currentKey of
                  None \<Rightarrow> None
                | Some k \<Rightarrow> frontmatter_fields lines currentKey (AList.update k (FieldList (values @ [unquote item])) members))
           | _ \<Rightarrow> None)
      | None \<Rightarrow>
        (case key_value line of
           None \<Rightarrow> None
         | Some (k, rest) \<Rightarrow>
           (if k \<in> set (map fst members) \<or> k \<in> set inherited_members then None
            else let raw = js_trim rest
              in if raw = [] then frontmatter_fields lines (Some k) (members @ [(k, FieldList [])])
                 else if hd raw = CHR ''['' then
                   (case parseInlineList raw of
                      None \<Rightarrow> None
                    | Some inline \<Rightarrow> frontmatter_fields lines (Some k) (members @ [(k, FieldList inline)]))
                 else frontmatter_fields lines (Some k) (members @ [(k, FieldText (unquote raw))]))))"

definition is_fence :: "string \<Rightarrow> bool" where
  "is_fence line \<longleftrightarrow> js_trim line = ''---''"

definition splitFrontmatter :: "string \<Rightarrow> ((string \<times> field_value) list \<times> string) option" where
  "splitFrontmatter text = (case split_on (CHR 0x0A) (crlf_to_lf text) of
     [] \<Rightarrow> None
   | first # lines \<Rightarrow>
     (if \<not> is_fence first \<or> \<not> list_ex is_fence lines then None
      else map_option (\<lambda>members. (members, js_trim (join_with [CHR 0x0A] (tl (dropWhile (\<lambda>l. \<not> is_fence l) lines)))))
        (frontmatter_fields (takeWhile (\<lambda>l. \<not> is_fence l) lines) None [])))"

section \<open>The schema of the frontmatter\<close>

record rule_frontmatter =
  rf_globs :: "string list"
  rf_order :: "int option"
  rf_description :: "string option"

definition drive_letter :: "string \<Rightarrow> bool" where
  "drive_letter s \<longleftrightarrow> (case s of c # d # _ \<Rightarrow> is_letter c \<and> d = CHR '':'' | _ \<Rightarrow> False)"

definition relative_pattern :: "host_env \<Rightarrow> string \<Rightarrow> bool" where
  "relative_pattern E glob \<longleftrightarrow> \<not> isAbsolute E glob \<and> take 1 glob \<noteq> ''/'' \<and> \<not> drive_letter glob \<and>
     ''..'' \<notin> set (split_on (CHR ''/'') glob) \<and> CHR 0x00 \<notin> set glob"

definition globSchema :: "host_env \<Rightarrow> string \<Rightarrow> string option" where
  "globSchema E s = (let t = js_trim s; glob = forward_slashes t
     in if t \<noteq> [] \<and> length t \<le> 200 \<and> relative_pattern E glob then Some glob else None)"

text \<open>\<^verbatim>\<open>/^-?\d{1,4}$/\<close>, transformed with \<^verbatim>\<open>Number\<close>\<close>

definition orderSchema :: "string \<Rightarrow> int option" where
  "orderSchema s = (let t = js_trim s; negative = (take 1 t = ''-''); ds = (if negative then tl t else t)
     in if 1 \<le> length ds \<and> length ds \<le> 4 \<and> list_all is_digit ds
        then Some (if negative then - int (number_of ds) else int (number_of ds)) else None)"

definition descriptionSchema :: "string \<Rightarrow> string option" where
  "descriptionSchema s = (let t = js_trim s in if t \<noteq> [] \<and> length t \<le> 500 then Some t else None)"

definition text_field :: "(string \<Rightarrow> 'a option) \<Rightarrow> string \<Rightarrow> (string \<times> field_value) list \<Rightarrow> 'a option option" where
  "text_field p k members = (case map_of members k of
     None \<Rightarrow> Some None
   | Some (FieldText s) \<Rightarrow> map_option Some (p s)
   | Some (FieldList _) \<Rightarrow> None)"

definition RuleFrontmatterSchema :: "host_env \<Rightarrow> (string \<times> field_value) list \<Rightarrow> rule_frontmatter option" where
  "RuleFrontmatterSchema E members =
     (if \<not> set (map fst members) \<subseteq> {''globs'', ''order'', ''description''} then None
      else case map_of members ''globs'' of
        Some (FieldList values) \<Rightarrow> do {
          globs \<leftarrow> array_of (globSchema E) values;
          n \<leftarrow> text_field orderSchema ''order'' members;
          d \<leftarrow> text_field descriptionSchema ''description'' members;
          if 1 \<le> length globs \<and> length globs \<le> 64
          then Some \<lparr>rf_globs = globs, rf_order = n, rf_description = d\<rparr> else None }
      | _ \<Rightarrow> None)"

definition parseRule :: "host_env \<Rightarrow> string \<Rightarrow> string \<Rightarrow> string \<Rightarrow> nat \<Rightarrow> rule_error + rule_unit" where
  "parseRule E fileName displayPath text bytes = (case splitFrontmatter text of
     None \<Rightarrow> Inl MalformedRuleFrontmatter
   | Some (members, body) \<Rightarrow>
     (case RuleFrontmatterSchema E members of
        None \<Rightarrow> Inl MalformedRuleFrontmatter
      | Some f \<Rightarrow> Inr \<lparr>ru_fileName = fileName, ru_relativePath = ''.omo/rules/'' @ fileName, ru_displayPath = displayPath,
          ru_globs = rf_globs f, ru_order = rf_order f, ru_description = rf_description f, ru_body = body, ru_bytes = bytes\<rparr>))"

section \<open>Files\<close>

definition MAX_RULE_BYTES :: nat where
  "MAX_RULE_BYTES = 64 * 1024"

text \<open>What \<^verbatim>\<open>realpath\<close> answers for the repository and for its rules directory.\<close>

datatype root_answer = RootMissing | RootFails | RootPaths string string

definition resolveRulesRoot :: "host_env \<Rightarrow> root_answer \<Rightarrow> rule_error + string option" where
  "resolveRulesRoot E a = (case a of
     RootMissing \<Rightarrow> Inr None
   | RootFails \<Rightarrow> Inl RulesRootUnreadable
   | RootPaths repository rules \<Rightarrow>
     (if \<not> isCanonicalPathContained E (canonicalComparisonPath E repository) (canonicalComparisonPath E rules)
      then Inl RulesRootEscaped else Inr (Some rules)))"

datatype file_entry = LinkEntry | FileEntry nat | OtherEntry

text \<open>
  The answers for one file, \<open>None\<close> when a call fails: the entry, its real path, whether what has been opened is a file and its
  size, the decoded text with its bytes, and whether the file is closed again.
\<close>

record rule_host =
  rh_entry :: "file_entry option"
  rh_real :: "string option"
  rh_opened :: "(bool \<times> nat) option"
  rh_content :: "(string \<times> nat) option"
  rh_closed :: bool

definition loadRule :: "host_env \<Rightarrow> string \<Rightarrow> string \<Rightarrow> rule_host \<Rightarrow> rule_error + rule_unit" where
  "loadRule E rulesReal fileName h = (case rh_entry h of
     None \<Rightarrow> Inl RuleUnreadable
   | Some LinkEntry \<Rightarrow> Inl RuleLinkRejected
   | Some OtherEntry \<Rightarrow> Inl RuleNotRegularFile
   | Some (FileEntry n) \<Rightarrow>
     (if MAX_RULE_BYTES < n then Inl RuleTooLarge
      else case rh_real h of
        None \<Rightarrow> Inl RuleUnreadable
      | Some candidateReal \<Rightarrow>
        (if \<not> isCanonicalPathContained E (canonicalComparisonPath E rulesReal) (canonicalComparisonPath E candidateReal)
         then Inl RulePathEscaped
         else case rh_opened h of
           None \<Rightarrow> Inl RuleUnreadable
         | Some (regular, m) \<Rightarrow>
           (if \<not> rh_closed h \<or> \<not> regular \<or> m \<noteq> n then Inl RuleUnreadable
            else case rh_content h of
              None \<Rightarrow> Inl RuleUnreadable
            | Some (text, bytes) \<Rightarrow> parseRule E fileName candidateReal text bytes))))"

definition rule_name_ends :: "string \<Rightarrow> bool" where
  "rule_name_ends s \<longleftrightarrow> 3 \<le> length s \<and> drop (length s - 3) s = ''.md''"

definition rejectedName :: "host_env \<Rightarrow> string \<Rightarrow> rule_error option" where
  "rejectedName E fileName =
     (let normalized = forward_slashes fileName
      in if normalized \<noteq> fileName \<or> CHR ''/'' \<in> set normalized \<or> normalized = ''.'' \<or> normalized = ''..'' \<or>
            isAbsolute E normalized \<or> drive_letter normalized \<or> CHR 0x00 \<in> set normalized
         then Some RulePathEscaped
         else if rule_name_ends normalized then None else Some RuleNotRegularFile)"

definition readRepositoryRule :: "host_env \<Rightarrow> root_answer \<Rightarrow> string \<Rightarrow> rule_host \<Rightarrow> rule_error + rule_unit" where
  "readRepositoryRule E a fileName h = (case rejectedName E fileName of
     Some err \<Rightarrow> Inl err
   | None \<Rightarrow> (case resolveRulesRoot E a of
       Inl err \<Rightarrow> Inl err
     | Inr None \<Rightarrow> Inl RulesRootUnreadable
     | Inr (Some rulesReal) \<Rightarrow> loadRule E rulesReal fileName h))"

fun discover_files ::
    "host_env \<Rightarrow> string \<Rightarrow> (string \<Rightarrow> rule_host) \<Rightarrow> string list \<Rightarrow> rule_unit list \<times> (string \<times> rule_error) list" where
  "discover_files E rulesReal host [] = ([], [])"
| "discover_files E rulesReal host (fileName # names) =
     (let (rules, rejections) = discover_files E rulesReal host names
      in case rejectedName E fileName of
        Some err \<Rightarrow> (rules, (fileName, err) # rejections)
      | None \<Rightarrow> (case loadRule E rulesReal fileName (host fileName) of
          Inr rule \<Rightarrow> (rule # rules, rejections)
        | Inl err \<Rightarrow> (rules, (fileName, err) # rejections)))"

text \<open>
  \<open>names\<close> is what \<^verbatim>\<open>readdir\<close> lists; where it fails the call throws, the outcome \<open>None\<close>. The reported path of the rules
  directory is left out of the result.
\<close>

definition discoverRepositoryRules ::
    "host_env \<Rightarrow> root_answer \<Rightarrow> string list option \<Rightarrow> (string \<Rightarrow> rule_host) \<Rightarrow>
     (rule_error + rule_unit list \<times> (string \<times> rule_error) list) option" where
  "discoverRepositoryRules E a names host = (case resolveRulesRoot E a of
     Inl err \<Rightarrow> Some (Inl err)
   | Inr None \<Rightarrow> Some (Inr ([], []))
   | Inr (Some rulesReal) \<Rightarrow>
       map_option (\<lambda>ns. Inr (discover_files E rulesReal host (sort (filter rule_name_ends ns)))) names)"

end
