(* ===== verification/Rules_Discovery_Properties.thy ===== *)
theory Rules_Discovery_Properties
  imports Rules_Discovery Sample_State
begin

text \<open>
  What the discovery of repository rules answers: the rules it reports are those that reading each file alone reports,
  and every reported rule is confined to the rules directory and to patterns inside the repository.
\<close>

lemma loadRule_name: "loadRule E rulesReal n h = Inr r \<Longrightarrow> ru_fileName r = n"
  by (auto simp: loadRule_def parseRule_def split: option.splits file_entry.splits if_splits)

lemma discover_files_sound:
  assumes "discover_files E rulesReal host ns = (rules, rejections)" "resolveRulesRoot E a = Inr (Some rulesReal)"
  shows "mset (map ru_fileName rules) + mset (map fst rejections) = mset ns \<and> subseq (map ru_fileName rules) ns \<and>
    (\<forall>r \<in> set rules. readRepositoryRule E a (ru_fileName r) (host (ru_fileName r)) = Inr r) \<and>
    (\<forall>(n, err) \<in> set rejections. readRepositoryRule E a n (host n) = Inl err)"
  using assms(1)
proof (induction ns arbitrary: rules rejections)
  case (Cons n ns)
  obtain rs js where d: "discover_files E rulesReal host ns = (rs, js)" by fastforce
  have read: "readRepositoryRule E a n (host n) = (case rejectedName E n of Some err \<Rightarrow> Inl err | None \<Rightarrow> loadRule E rulesReal n (host n))"
    using assms(2) by (simp add: readRepositoryRule_def split: option.splits)
  show ?case
  proof (cases "readRepositoryRule E a n (host n)")
    case (Inl err)
    with Cons.prems d read have "rules = rs" "rejections = (n, err) # js" by (auto split: option.splits sum.splits)
    then show ?thesis using Cons.IH [OF d] Inl by auto
  next
    case (Inr r)
    with Cons.prems d read have "rules = r # rs" "rejections = js" by (auto split: option.splits sum.splits)
    moreover have "ru_fileName r = n" using Inr read loadRule_name by (auto split: option.splits)
    ultimately show ?thesis using Cons.IH [OF d] Inr by auto
  qed
qed simp

text \<open>
  Discovery reports every \<^verbatim>\<open>.md\<close> name of the rules directory exactly once, as a rule or as a rejection, the rules in the
  order of their names; and each report is the one that reading this file alone gives.
\<close>

theorem discovery_agrees_with_reading:
  assumes "discoverRepositoryRules E (RootPaths repository rulesReal) (Some ns) host = Some (Inr (rules, rejections))"
  shows "mset (map ru_fileName rules) + mset (map fst rejections) = mset (filter rule_name_ends ns) \<and>
    sorted (map ru_fileName rules) \<and>
    (\<forall>r \<in> set rules. readRepositoryRule E (RootPaths repository rulesReal) (ru_fileName r) (host (ru_fileName r)) = Inr r) \<and>
    (\<forall>(n, err) \<in> set rejections. readRepositoryRule E (RootPaths repository rulesReal) n (host n) = Inl err)"
proof -
  from assms have root: "resolveRulesRoot E (RootPaths repository rulesReal) = Inr (Some rulesReal)"
    and d: "discover_files E rulesReal host (sort (filter rule_name_ends ns)) = (rules, rejections)"
    by (auto simp: discoverRepositoryRules_def resolveRulesRoot_def split: if_splits)
  note s = discover_files_sound [OF d root]
  moreover have "sorted (map ru_fileName rules)"
    using s sorted_wrt_subseq [of _ "sort (filter rule_name_ends ns)" "(\<le>)"] by simp
  ultimately show ?thesis by simp
qed

definition sample_rule_host :: "string \<Rightarrow> rule_host" where
  "sample_rule_host body = \<lparr>rh_entry = Some (FileEntry (length body)), rh_real = Some ''/repo/.omo/rules/a.md'',
     rh_opened = Some (True, length body), rh_content = Some (body, length body), rh_closed = True\<rparr>"

definition sample_rule_text :: string where
  "sample_rule_text = concat (map (\<lambda>l. l @ [CHR 0x0A])
     [''---'', ''globs:'', ''  - src/**/*.ts'', ''order: -2'', ''---'', ''Use tabs.''])"

definition sample_rule :: rule_unit where
  "sample_rule = \<lparr>ru_fileName = ''a.md'', ru_relativePath = ''.omo/rules/a.md'', ru_displayPath = ''/repo/.omo/rules/a.md'',
     ru_globs = [''src/**/*.ts''], ru_order = Some (- 2), ru_description = None, ru_body = ''Use tabs.'',
     ru_bytes = length sample_rule_text\<rparr>"

lemma sample_rule_read:
  "readRepositoryRule sample_env (RootPaths ''/repo'' ''/repo/.omo/rules'') ''a.md'' (sample_rule_host sample_rule_text) = Inr sample_rule"
  by code_simp

theorem discovery_agrees_with_reading_witness:
  "sorted (map ru_fileName [sample_rule]) \<and>
   readRepositoryRule sample_env (RootPaths ''/repo'' ''/repo/.omo/rules'') ''b.md'' (sample_rule_host ''none'') = Inl MalformedRuleFrontmatter"
proof -
  define host where "host = (\<lambda>n. sample_rule_host (if n = ''a.md'' then sample_rule_text else ''none''))"
  have "discoverRepositoryRules sample_env (RootPaths ''/repo'' ''/repo/.omo/rules'') (Some [''x.txt'', ''b.md'', ''a.md'']) host =
      Some (Inr ([sample_rule], [(''b.md'', MalformedRuleFrontmatter)]))"
    unfolding host_def by code_simp
  from discovery_agrees_with_reading [OF this] show ?thesis by (simp add: host_def)
qed

lemma globSchema_Some:
  "globSchema E s = Some g \<Longrightarrow> relative_pattern E g \<and> g \<noteq> [] \<and> length g \<le> 200"
  by (auto simp: globSchema_def Let_def forward_slashes_def split: if_splits)

lemma number_of_bound:
  assumes "list_all is_digit ds"
  shows "number_of ds < 10 ^ length ds"
  using assms
proof (induction ds rule: rev_induct)
  case (snoc c ds)
  have "(of_char c :: nat) - 48 \<le> 9" using snoc.prems by (auto simp: is_digit_def)
  then show ?case using snoc by (simp add: number_of_def digit_value_def)
qed (simp add: number_of_def digit_value_def)

lemma orderSchema_Some:
  assumes "orderSchema s = Some k"
  shows "\<bar>k\<bar> \<le> 9999"
proof -
  from assms obtain ds where ds: "list_all is_digit ds" "length ds \<le> 4" "\<bar>k\<bar> = int (number_of ds)"
    by (auto simp: orderSchema_def Let_def split: if_splits)
  have "number_of ds < 10 ^ length ds" by (rule number_of_bound [OF ds(1)])
  also have "\<dots> \<le> 10 ^ 4" using ds(2) by (intro power_increasing) simp_all
  finally show ?thesis using ds(3) by simp
qed

definition confined_patterns :: "host_env \<Rightarrow> string list \<Rightarrow> bool" where
  "confined_patterns E gs \<longleftrightarrow> 1 \<le> length gs \<and> length gs \<le> 64 \<and> (\<forall>g \<in> set gs. relative_pattern E g \<and> g \<noteq> [] \<and> length g \<le> 200)"

lemma RuleFrontmatterSchema_Some:
  assumes "RuleFrontmatterSchema E members = Some f"
  shows "confined_patterns E (rf_globs f) \<and> (\<forall>k. rf_order f = Some k \<longrightarrow> \<bar>k\<bar> \<le> 9999)"
proof -
  from assms obtain vs gs n d where g: "array_of (globSchema E) vs = Some gs" "1 \<le> length gs" "length gs \<le> 64"
    and n: "text_field orderSchema ''order'' members = Some n" and f: "f = \<lparr>rf_globs = gs, rf_order = n, rf_description = d\<rparr>"
    by (auto simp: RuleFrontmatterSchema_def Suc_le_eq split: option.splits field_value.splits if_splits elim!: bind_SomeE)
  from g(1) have "\<forall>g \<in> set gs. relative_pattern E g \<and> g \<noteq> [] \<and> length g \<le> 200"
    unfolding array_of_Some_iff by (induction rule: list_all2_induct) (auto dest: globSchema_Some)
  moreover have "\<forall>k. n = Some k \<longrightarrow> \<bar>k\<bar> \<le> 9999"
    using n by (auto simp: text_field_def dest: orderSchema_Some split: option.splits field_value.splits)
  ultimately show ?thesis using g f by (simp add: confined_patterns_def)
qed

text \<open>
  C39. Whatever the file system answers, a rule that is read has a flat name, comes from the rules directory of the
  repository, and has between 1 and 64 patterns, each relative to the repository.
\<close>

theorem read_rule_confined:
  assumes "readRepositoryRule E a n h = Inr r"
  shows "rule_name_ends n \<and> CHR ''/'' \<notin> set n \<and> CHR 0x5C \<notin> set n \<and>
    (\<exists>repository rulesReal. a = RootPaths repository rulesReal \<and> isCanonicalPathContained E (canonicalComparisonPath E repository) (canonicalComparisonPath E rulesReal) \<and>
       isCanonicalPathContained E (canonicalComparisonPath E rulesReal) (canonicalComparisonPath E (ru_displayPath r))) \<and>
    confined_patterns E (ru_globs r) \<and> (\<forall>k. ru_order r = Some k \<longrightarrow> \<bar>k\<bar> \<le> 9999)"
proof -
  from assms obtain rulesReal where name: "rejectedName E n = None" and root: "resolveRulesRoot E a = Inr (Some rulesReal)"
    and load: "loadRule E rulesReal n h = Inr r"
    by (auto simp: readRepositoryRule_def split: option.splits sum.splits)
  from load obtain candidateReal document bytes where c: "isCanonicalPathContained E (canonicalComparisonPath E rulesReal) (canonicalComparisonPath E candidateReal)"
    and p: "parseRule E n candidateReal document bytes = Inr r"
    by (auto simp: loadRule_def split: option.splits file_entry.splits if_splits)
  from p obtain ms f where f: "RuleFrontmatterSchema E ms = Some f" "ru_globs r = rf_globs f" "ru_order r = rf_order f" "ru_displayPath r = candidateReal"
    by (auto simp: parseRule_def split: option.splits)
  from root obtain repository where "a = RootPaths repository rulesReal" "isCanonicalPathContained E (canonicalComparisonPath E repository) (canonicalComparisonPath E rulesReal)"
    by (auto simp: resolveRulesRoot_def split: root_answer.splits if_splits)
  moreover have "rule_name_ends n \<and> CHR ''/'' \<notin> set n \<and> CHR 0x5C \<notin> set n"
  proof -
    have fixed: "forward_slashes n = n" "CHR ''/'' \<notin> set n" "rule_name_ends n"
      using name by (auto simp: rejectedName_def Let_def split: if_splits)
    have "CHR 0x5C \<notin> set (forward_slashes n)" by (auto simp: forward_slashes_def)
    then show ?thesis using fixed by simp
  qed
  ultimately show ?thesis using c f RuleFrontmatterSchema_Some [OF f(1)] by auto
qed

theorem read_rule_confined_witness:
  "confined_patterns sample_env (ru_globs sample_rule) \<and>
   isCanonicalPathContained sample_env (canonicalComparisonPath sample_env ''/repo/.omo/rules'') (canonicalComparisonPath sample_env (ru_displayPath sample_rule))"
  using read_rule_confined [OF sample_rule_read] by auto

end
