(* ===== verification/Display_Paths.thy ===== *)
theory Display_Paths
  imports Task_Packet
begin

text \<open>
  Lexical containment of display paths (\<^verbatim>\<open>isDisplayPathContained\<close> of \<^verbatim>\<open>src/state/paths.ts\<close>) and the resolution of a path at a
  directory, on POSIX paths.
\<close>

text \<open>\<^verbatim>\<open>join\<close> and \<^verbatim>\<open>resolve\<close> at an absolute directory.\<close>

definition join_path :: "string \<Rightarrow> string list \<Rightarrow> string" where
  "join_path base parts = posix_normalize (join_with ''/'' (base # parts))"

definition resolve_path :: "string \<Rightarrow> string \<Rightarrow> string" where
  "resolve_path base path =
     (let normalized = posix_normalize (if take 1 path = ''/'' then path else base @ ''/'' @ path)
      in if normalized = ''/'' then normalized else strip_trailing_slash normalized)"

text \<open>
  \<^verbatim>\<open>relative\<close> of two absolute paths in normal form begins with \<^verbatim>\<open>..\<close> exactly when the second does not continue the first.
\<close>

definition isDisplayPathContained :: "string \<Rightarrow> string \<Rightarrow> bool" where
  "isDisplayPathContained root candidate \<longleftrightarrow>
     candidate = root \<or> startsWith candidate (if root = ''/'' then root else root @ ''/'')"

end
