(* ===== verification/Model_Roles.thy ===== *)
theory Model_Roles
  imports Worker_Policies Tool_Input Display_Paths
begin

text \<open>
  The resolution of a worker's model (\<^verbatim>\<open>src/workflows/model-role-resolution.ts\<close>): one role or a chain of
  candidates against the models of the catalog, with the record of every attempt; and the optional input of the
  operator that replaces the chains (\<^verbatim>\<open>src/workflows/operator-model-chain-input.ts\<close>).
\<close>

section \<open>Inputs\<close>

text \<open>
  What a property access on an object answers: nothing, its own member, or one of those every object inherits.
\<close>

datatype 'a member_answer = MemberAbsent | OwnMember 'a | InheritedMember

definition object_members :: "string list" where
  "object_members = [''constructor'', ''__defineGetter__'', ''__defineSetter__'', ''hasOwnProperty'', ''__lookupGetter__'',
     ''__lookupSetter__'', ''isPrototypeOf'', ''propertyIsEnumerable'', ''toString'', ''valueOf'', ''__proto__'', ''toLocaleString'']"

definition access :: "(string \<times> 'a) list \<Rightarrow> string \<Rightarrow> 'a member_answer" where
  "access kvs k = (case map_of kvs k of
     Some v \<Rightarrow> OwnMember v
   | None \<Rightarrow> if k \<in> set object_members then InheritedMember else MemberAbsent)"

datatype model_pattern = OnePattern string | ManyPatterns "string list"

definition selector :: "string \<Rightarrow> string option" where
  "selector = bounded_text 512"

fun modelPattern :: "model_pattern \<Rightarrow> model_pattern option" where
  "modelPattern (OnePattern s) = map_option OnePattern (selector s)"
| "modelPattern (ManyPatterns ss) =
     (if 1 \<le> length ss \<and> length ss \<le> 8 then map_option ManyPatterns (array_of selector ss) else None)"

text \<open>The models of the roles, of the catalog, and the providers that are available.\<close>

record resolution_tables =
  rt_smol :: "string option"
  rt_task :: "string option"
  rt_slow :: "string option"
  rt_catalogModels :: "(string \<times> string) list"
  rt_availableProviders :: "string list"

fun role_model :: "resolution_tables \<Rightarrow> model_role \<Rightarrow> string option" where
  "role_model t Smol = rt_smol t"
| "role_model t TaskRole = rt_task t"
| "role_model t Slow = rt_slow t"

record resolution_input =
  rn_agentName :: string
  rn_agentModel :: "model_pattern option"
  rn_agentModelOverrides :: "(string \<times> model_pattern) list"
  rn_tables :: resolution_tables

definition optional_member :: "('a \<Rightarrow> 'b option) \<Rightarrow> 'a option \<Rightarrow> 'b option option" where
  "optional_member p v = (case v of None \<Rightarrow> Some None | Some x \<Rightarrow> map_option Some (p x))"

definition tables_schema :: "resolution_tables \<Rightarrow> resolution_tables option" where
  "tables_schema t = do {
     smol \<leftarrow> optional_member selector (rt_smol t);
     task \<leftarrow> optional_member selector (rt_task t);
     slow \<leftarrow> optional_member selector (rt_slow t);
     models \<leftarrow> array_of (\<lambda>(p, q). do { p' \<leftarrow> selector p; q' \<leftarrow> selector q; Some (p', q') }) (rt_catalogModels t);
     providers \<leftarrow> array_of selector (rt_availableProviders t);
     Some \<lparr>rt_smol = smol, rt_task = task, rt_slow = slow, rt_catalogModels = models, rt_availableProviders = providers\<rparr> }"

definition resolutionInputSchema :: "resolution_input \<Rightarrow> resolution_input option" where
  "resolutionInputSchema i = do {
     agent \<leftarrow> bounded_text 160 (rn_agentName i);
     model \<leftarrow> optional_member modelPattern (rn_agentModel i);
     overrides \<leftarrow> array_of (\<lambda>(k, p). map_option (Pair k) (modelPattern p)) (rn_agentModelOverrides i);
     t \<leftarrow> tables_schema (rn_tables i);
     Some \<lparr>rn_agentName = agent, rn_agentModel = model, rn_agentModelOverrides = overrides, rn_tables = t\<rparr> }"

definition AgentNameDefaultRole :: "(string \<times> string) list" where
  "AgentNameDefaultRole = [(''omp-lazy-worker-low'', ''@smol''), (''omp-lazy-worker-medium'', ''@task''),
     (''omp-lazy-worker-high'', ''@slow''), (''omp-lazy-explorer'', ''@smol''), (''omp-lazy-librarian'', ''@smol''),
     (''omp-lazy-researcher'', ''@task''), (''omp-lazy-planner'', ''@slow''), (''omp-lazy-metis'', ''@slow''),
     (''omp-lazy-momus'', ''@slow''), (''omp-lazy-qa'', ''@task''), (''omp-lazy-reviewer'', ''@slow'')]"

definition resolveAgentDefaultRole :: "string \<Rightarrow> string member_answer" where
  "resolveAgentDefaultRole agentName = access AgentNameDefaultRole agentName"

section \<open>Candidates\<close>

definition pattern_values :: "model_pattern \<Rightarrow> string list" where
  "pattern_values p = (case p of OnePattern s \<Rightarrow> [s] | ManyPatterns ss \<Rightarrow> ss)"

definition patterns :: "model_pattern \<Rightarrow> string list" where
  "patterns p = filter (\<lambda>s. s \<noteq> []) (map js_trim (concat (map (split_on (CHR '','')) (pattern_values p))))"

definition ModelRoleAliasSchema :: "string \<Rightarrow> model_role option" where
  "ModelRoleAliasSchema s = (if s = ''@smol'' then Some Smol else if s = ''@task'' then Some TaskRole
     else if s = ''@slow'' then Some Slow else None)"

fun roleName :: "model_role \<Rightarrow> string" where
  "roleName Smol = ''smol''"
| "roleName TaskRole = ''task''"
| "roleName Slow = ''slow''"

text \<open>The provider and the model of a selector, cut at its first slash.\<close>

definition split_selector :: "string \<Rightarrow> (string \<times> string) option" where
  "split_selector s =
     (let provider = takeWhile (\<lambda>c. c \<noteq> CHR ''/'') s; rest = dropWhile (\<lambda>c. c \<noteq> CHR ''/'') s
      in if provider = [] \<or> length rest \<le> 1 then None else Some (provider, tl rest))"

datatype candidate_outcome = BadAlias | BadSelector | NoProvider | NoModel | FoundModel string string

definition candidate_outcome :: "resolution_tables \<Rightarrow> string \<Rightarrow> candidate_outcome" where
  "candidate_outcome t candidate =
     (let alias = ModelRoleAliasSchema candidate
      in if take 1 candidate = ''@'' \<and> alias = None then BadAlias
         else case (case alias of None \<Rightarrow> Some candidate | Some role \<Rightarrow> role_model t role) of
           None \<Rightarrow> BadSelector
         | Some resolvedSelector \<Rightarrow>
           (case split_selector resolvedSelector of
              None \<Rightarrow> BadSelector
            | Some (provider, model) \<Rightarrow>
              (if provider \<notin> set (rt_availableProviders t) then NoProvider
               else if (provider, model) \<notin> set (rt_catalogModels t) then NoModel else FoundModel provider model)))"

text \<open>\<^verbatim>\<open>candidate.slice(1) || null\<close>\<close>

definition alias_text :: "string \<Rightarrow> string option" where
  "alias_text candidate = (if drop 1 candidate = [] then None else Some (drop 1 candidate))"

section \<open>One role\<close>

datatype resolution_source = UserOverride | AgentDefault

datatype resolution_code = InvalidResolutionInput | InvalidModelRole | ProviderIsUnavailable | ModelIsUnavailable

record role_pass =
  rp_agentName :: string
  rp_source :: resolution_source
  rp_selector :: string
  rp_role :: "model_role option"
  rp_provider :: string
  rp_model :: string

record role_block =
  rk_agentName :: "string option"
  rk_source :: "resolution_source option"
  rk_selector :: "string option"
  rk_role :: "string option"
  rk_code :: resolution_code

datatype role_receipt = RolePass role_pass | RoleBlocked role_block

definition blocked :: "string \<Rightarrow> resolution_source \<Rightarrow> string \<Rightarrow> string option \<Rightarrow> resolution_code \<Rightarrow> role_receipt" where
  "blocked agent source sel role code = RoleBlocked \<lparr>rk_agentName = Some agent, rk_source = Some source, rk_selector = Some sel,
     rk_role = role, rk_code = code\<rparr>"

fun role_loop ::
    "resolution_tables \<Rightarrow> string \<Rightarrow> resolution_source \<Rightarrow> string list \<Rightarrow> role_receipt option \<Rightarrow> role_receipt" where
  "role_loop t agent source [] lastFailure =
     (case lastFailure of Some r \<Rightarrow> r | None \<Rightarrow> blocked agent source [] None InvalidModelRole)"
| "role_loop t agent source (candidate # candidates) lastFailure =
     (let role = map_option roleName (ModelRoleAliasSchema candidate)
      in case candidate_outcome t candidate of
        BadAlias \<Rightarrow> blocked agent source candidate (alias_text candidate) InvalidModelRole
      | BadSelector \<Rightarrow> blocked agent source candidate role InvalidModelRole
      | NoProvider \<Rightarrow> role_loop t agent source candidates (Some (blocked agent source candidate role ProviderIsUnavailable))
      | NoModel \<Rightarrow> role_loop t agent source candidates (Some (blocked agent source candidate role ModelIsUnavailable))
      | FoundModel provider model \<Rightarrow> RolePass \<lparr>rp_agentName = agent, rp_source = source, rp_selector = candidate,
          rp_role = ModelRoleAliasSchema candidate, rp_provider = provider, rp_model = model\<rparr>)"

text \<open>
  \<open>None\<close>: the call throws, since an inherited member is no pattern.
\<close>

definition resolveWorkerModelRole :: "resolution_input \<Rightarrow> role_receipt option" where
  "resolveWorkerModelRole input = (case resolutionInputSchema input of
     None \<Rightarrow> Some (RoleBlocked \<lparr>rk_agentName = None, rk_source = None, rk_selector = None, rk_role = None,
       rk_code = InvalidResolutionInput\<rparr>)
   | Some d \<Rightarrow>
     (case access (rn_agentModelOverrides d) (rn_agentName d) of
        InheritedMember \<Rightarrow> None
      | OwnMember p \<Rightarrow> Some (role_loop (rn_tables d) (rn_agentName d) UserOverride (patterns p) None)
      | MemberAbsent \<Rightarrow>
        (case rn_agentModel d of
           Some p \<Rightarrow> Some (role_loop (rn_tables d) (rn_agentName d) AgentDefault (patterns p) None)
         | None \<Rightarrow>
           (case resolveAgentDefaultRole (rn_agentName d) of
              InheritedMember \<Rightarrow> None
            | OwnMember r \<Rightarrow> Some (role_loop (rn_tables d) (rn_agentName d) AgentDefault (patterns (OnePattern r)) None)
            | MemberAbsent \<Rightarrow> Some (blocked (rn_agentName d) AgentDefault [] None InvalidModelRole)))))"

section \<open>Chains\<close>

definition MAX_CHAIN_LENGTH :: nat where
  "MAX_CHAIN_LENGTH = 8"

datatype attempt_outcome = AttemptResolved | AttemptNoProvider | AttemptNoModel | AttemptInvalid

record provenance_attempt =
  pa_agentName :: string
  pa_attemptIndex :: nat
  pa_selector :: string
  pa_role :: "model_role option"
  pa_outcome :: attempt_outcome

record chain_provenance =
  cv_runId :: string
  cv_agentName :: string
  cv_attempts :: "provenance_attempt list"
  cv_passed :: bool
  cv_resolvedAttemptIndex :: "nat option"

datatype chain_receipt =
    ChainPass role_pass nat "provenance_attempt list"
  | ChainBlocked role_block "provenance_attempt list"

record chain_input =
  ci_agentName :: string
  ci_chain :: "string list"
  ci_agentModelOverrides :: "(string \<times> model_pattern) list"
  ci_tables :: resolution_tables
  ci_runId :: string

definition chain_blocked ::
    "string \<Rightarrow> resolution_source \<Rightarrow> string option \<Rightarrow> string option \<Rightarrow> resolution_code \<Rightarrow> provenance_attempt list \<Rightarrow> chain_receipt" where
  "chain_blocked agent source sel role code attempts = ChainBlocked \<lparr>rk_agentName = Some agent, rk_source = Some source,
     rk_selector = sel, rk_role = role, rk_code = code\<rparr> attempts"

fun chain_loop ::
    "resolution_tables \<Rightarrow> string \<Rightarrow> resolution_source \<Rightarrow> nat \<Rightarrow> string list \<Rightarrow> provenance_attempt list \<Rightarrow> chain_receipt" where
  "chain_loop t agent source i [] attempts =
     chain_blocked agent source (if attempts = [] then None else Some (pa_selector (last attempts)))
       (if attempts = [] then None else map_option roleName (pa_role (last attempts))) ModelIsUnavailable attempts"
| "chain_loop t agent source i (candidate # candidates) attempts =
     (let role = ModelRoleAliasSchema candidate;
          tried = (\<lambda>out. attempts @ [\<lparr>pa_agentName = agent, pa_attemptIndex = i, pa_selector = candidate, pa_role = role, pa_outcome = out\<rparr>])
      in case candidate_outcome t candidate of
        BadAlias \<Rightarrow> chain_blocked agent source (Some candidate) (alias_text candidate) InvalidModelRole (tried AttemptInvalid)
      | BadSelector \<Rightarrow> chain_blocked agent source (Some candidate) (map_option roleName role) InvalidModelRole (tried AttemptInvalid)
      | NoProvider \<Rightarrow> chain_loop t agent source (i + 1) candidates (tried AttemptNoProvider)
      | NoModel \<Rightarrow> chain_loop t agent source (i + 1) candidates (tried AttemptNoModel)
      | FoundModel provider model \<Rightarrow> ChainPass \<lparr>rp_agentName = agent, rp_source = source, rp_selector = candidate,
          rp_role = role, rp_provider = provider, rp_model = model\<rparr> i (tried AttemptResolved))"

definition buildProvenance :: "string \<Rightarrow> string \<Rightarrow> chain_receipt \<Rightarrow> chain_provenance" where
  "buildProvenance runId agent receipt = (case receipt of
     ChainPass _ i attempts \<Rightarrow> \<lparr>cv_runId = runId, cv_agentName = agent, cv_attempts = attempts, cv_passed = True,
       cv_resolvedAttemptIndex = Some i\<rparr>
   | ChainBlocked _ attempts \<Rightarrow> \<lparr>cv_runId = runId, cv_agentName = agent, cv_attempts = attempts, cv_passed = False,
       cv_resolvedAttemptIndex = None\<rparr>)"

text \<open>The source and the chain that is tried: \<open>None\<close> when an inherited member is taken for an override.\<close>

definition effectiveChain :: "chain_input \<Rightarrow> (resolution_source \<times> string list) option" where
  "effectiveChain c = (case access (ci_agentModelOverrides c) (ci_agentName c) of
     InheritedMember \<Rightarrow> None
   | OwnMember p \<Rightarrow> Some (UserOverride, patterns p)
   | MemberAbsent \<Rightarrow> Some (AgentDefault, ci_chain c))"

text \<open>
  \<open>written\<close>: whether the record of provenance could be written; its failure is thrown (\<open>None\<close>). The record is both
  written to its file and returned.
\<close>

definition resolveWorkerModelChain :: "bool \<Rightarrow> chain_input \<Rightarrow> (chain_receipt \<times> chain_provenance option) option" where
  "resolveWorkerModelChain written c =
     (if ci_chain c = [] \<or> MAX_CHAIN_LENGTH < length (ci_chain c)
      then Some (ChainBlocked \<lparr>rk_agentName = Some (ci_agentName c), rk_source = None, rk_selector = None, rk_role = None,
        rk_code = InvalidModelRole\<rparr> [], None)
      else case effectiveChain c of
        None \<Rightarrow> None
      | Some (source, chain) \<Rightarrow>
        (let receipt = chain_loop (ci_tables c) (ci_agentName c) source 0 chain []
         in if written then Some (receipt, Some (buildProvenance (ci_runId c) (ci_agentName c) receipt)) else None))"

section \<open>The operator's input\<close>

definition VALID_AGENT_NAMES :: "string list" where
  "VALID_AGENT_NAMES = [''omp-lazy-worker-low'', ''omp-lazy-worker-medium'', ''omp-lazy-worker-high'', ''omp-lazy-explorer'',
     ''omp-lazy-librarian'', ''omp-lazy-researcher'', ''omp-lazy-planner'', ''omp-lazy-metis'', ''omp-lazy-momus'',
     ''omp-lazy-qa'', ''omp-lazy-reviewer'']"

definition chain_char :: "char \<Rightarrow> bool" where
  "chain_char c \<longleftrightarrow> c \<in> set ''abcdefghijklmnopqrstuvwxyz0123456789._-''"

definition chain_part :: "string \<Rightarrow> bool" where
  "chain_part s \<longleftrightarrow> s \<noteq> [] \<and> length s \<le> 64 \<and> hd s \<in> set ''abcdefghijklmnopqrstuvwxyz'' \<and> list_all chain_char s"

definition CHAIN_ENTRY_PATTERN :: "string \<Rightarrow> bool" where
  "CHAIN_ENTRY_PATTERN s \<longleftrightarrow> s \<in> {''@smol'', ''@task'', ''@slow''} \<or>
     (case split_on (CHR ''/'') s of [p, q] \<Rightarrow> chain_part p \<and> chain_part q | _ \<Rightarrow> False)"

definition chain_entries :: "tool_value \<Rightarrow> string list option" where
  "chain_entries v = (case v of
     VArray vs \<Rightarrow>
       (if 1 \<le> length vs \<and> length vs \<le> 8
        then those (map (\<lambda>w. case w of VText s \<Rightarrow> (if CHAIN_ENTRY_PATTERN s then Some s else None) | _ \<Rightarrow> None) vs) else None)
   | _ \<Rightarrow> None)"

definition chain_overrides :: "tool_value \<Rightarrow> (string \<times> string list) list option" where
  "chain_overrides v = (case v of
     VObject overrides \<Rightarrow> do {
       overrides' \<leftarrow> those (map (\<lambda>(k, w). map_option (Pair k) (chain_entries w)) overrides);
       if set (map fst overrides') \<subseteq> set VALID_AGENT_NAMES then Some overrides' else None }
   | _ \<Rightarrow> None)"

definition modelChainInputSchema :: "tool_value \<Rightarrow> (string \<times> string list) list option" where
  "modelChainInputSchema v = (case v of
     VObject kvs \<Rightarrow>
       (if \<not> set (map fst kvs) \<subseteq> {''schemaVersion'', ''overrides''} \<or> map_of kvs ''schemaVersion'' \<noteq> Some (VNumber (Whole 1)) then None
        else Option.bind (map_of kvs ''overrides'') chain_overrides)
   | _ \<Rightarrow> None)"

datatype chain_input_receipt =
    ChainInputPass "(string \<times> string list) list" | ChainInputAbsent
  | ChainInputInvalid | SchemaIntegrityMismatch | PathOutsideInputs

text \<open>
  What is read: the schema and its sidecar (\<open>None\<close> when reading fails), and the input file, absent, unreadable, no JSON,
  or a JSON value.
\<close>

datatype input_file = InputMissing | InputUnreadable | InputNoJson | InputJson tool_value

record chain_files =
  cf_schema :: "string option"
  cf_sidecar :: "string option"
  cf_input :: input_file

definition validateSchemaIntegrity :: "(string \<Rightarrow> string) \<Rightarrow> chain_files \<Rightarrow> bool" where
  "validateSchemaIntegrity sha h = (case (cf_schema h, cf_sidecar h) of
     (Some schema, Some sidecar) \<Rightarrow> hex_string 64 (js_trim sidecar) \<and> sha schema = js_trim sidecar
   | _ \<Rightarrow> False)"

definition validateInputPath :: "host_env \<Rightarrow> string \<Rightarrow> string \<Rightarrow> bool" where
  "validateInputPath E repositoryRoot inputPath \<longleftrightarrow> \<not> isAbsolute E inputPath \<and>
     isDisplayPathContained (join_path repositoryRoot [''.omo'', ''inputs'']) (resolve_path repositoryRoot inputPath)"

definition readModelChainInput ::
    "host_env \<Rightarrow> (string \<Rightarrow> string) \<Rightarrow> chain_files \<Rightarrow> string \<Rightarrow> string \<Rightarrow> chain_input_receipt" where
  "readModelChainInput E sha h repositoryRoot inputPath =
     (if \<not> validateInputPath E repositoryRoot inputPath then PathOutsideInputs
      else if \<not> validateSchemaIntegrity sha h then SchemaIntegrityMismatch
      else case cf_input h of
        InputMissing \<Rightarrow> ChainInputAbsent
      | InputUnreadable \<Rightarrow> ChainInputInvalid
      | InputNoJson \<Rightarrow> ChainInputInvalid
      | InputJson v \<Rightarrow> (case modelChainInputSchema v of None \<Rightarrow> ChainInputInvalid | Some overrides' \<Rightarrow> ChainInputPass overrides'))"

definition toAgentModelOverrides :: "chain_input_receipt \<Rightarrow> (string \<times> model_pattern) list option" where
  "toAgentModelOverrides r = (case r of ChainInputPass overrides' \<Rightarrow> Some (map (\<lambda>(k, ss). (k, ManyPatterns ss)) overrides') | _ \<Rightarrow> None)"

end
