(* ===== verification/Model_Role_Properties.thy ===== *)
theory Model_Role_Properties
  imports Model_Roles Sample_State
begin

text \<open>
  What the resolution of models guarantees: a chain takes its first candidate that is available, both resolvers take the
  same one, and the chains an operator gives are ones the resolver can use.
\<close>

section \<open>The candidate that is taken\<close>


definition unusable :: "resolution_tables \<Rightarrow> string \<Rightarrow> bool" where
  "unusable t candidate \<longleftrightarrow> candidate_outcome t candidate = BadAlias \<or> candidate_outcome t candidate = BadSelector"









definition sample_tables :: resolution_tables where
  "sample_tables = \<lparr>rt_smol = Some ''acme/small'', rt_task = None, rt_slow = Some ''acme/large'',
     rt_catalogModels = [(''acme'', ''large''), (''other'', ''small'')], rt_availableProviders = [''acme'']\<rparr>"

definition sample_chain :: "string list \<Rightarrow> chain_input" where
  "sample_chain cs = \<lparr>ci_agentName = ''omp-lazy-qa'', ci_chain = cs, ci_agentModelOverrides = [], ci_tables = sample_tables,
     ci_runId = ''r''\<rparr>"

definition sample_pass :: role_pass where
  "sample_pass = \<lparr>rp_agentName = ''omp-lazy-qa'', rp_source = AgentDefault, rp_selector = ''@slow'', rp_role = Some Slow,
     rp_provider = ''acme'', rp_model = ''large''\<rparr>"

lemma sample_chain_run:
  "case resolveWorkerModelChain True (sample_chain [''@smol'', ''acme/medium'', ''@slow'']) of
     Some (ChainPass rp k _, Some _) \<Rightarrow> rp = sample_pass \<and> k = 2 | _ \<Rightarrow> False"
  by code_simp


section \<open>One candidate for both resolvers\<close>

lemma loops_agree:
  assumes "\<forall>q. lastFailure \<noteq> Some (RolePass q)"
  shows "role_loop t agent source candidates lastFailure = RolePass rp \<longleftrightarrow>
    (\<exists>k as. chain_loop t agent source i candidates attempts = ChainPass rp k as)"
  using assms
proof (induction candidates arbitrary: i attempts lastFailure)
  case Nil
  then show ?case by (auto simp: blocked_def chain_blocked_def split: option.splits)
next
  case (Cons candidate candidates)
  have "\<forall>q. Some (blocked agent source candidate role code) \<noteq> Some (RolePass q)" for role code
    by (simp add: blocked_def)
  from Cons.IH [OF this] show ?case
    by (auto simp: Let_def blocked_def chain_blocked_def split: candidate_outcome.splits)
qed

text \<open>
  The two resolvers take the same candidate. For a worker with a configured model, the resolver of single roles passes
  exactly when the resolver of chains passes on the configured candidates, with the same source, selector, role, provider and
  model; an override of the operator, or an inherited member taken for one, has the same effect on both.
\<close>

theorem resolvers_agree:
  assumes "resolutionInputSchema input = Some d" "rn_agentModel d = Some p" "patterns p \<noteq> []" "length (patterns p) \<le> 8"
  shows "resolveWorkerModelRole input = Some (RolePass rp) \<longleftrightarrow>
    (\<exists>k attempts provenance. resolveWorkerModelChain True \<lparr>ci_agentName = rn_agentName d, ci_chain = patterns p,
       ci_agentModelOverrides = rn_agentModelOverrides d, ci_tables = rn_tables d, ci_runId = runId\<rparr> =
       Some (ChainPass rp k attempts, Some provenance))"
  using assms
  by (auto simp: resolveWorkerModelRole_def resolveWorkerModelChain_def effectiveChain_def MAX_CHAIN_LENGTH_def Let_def
      loops_agree [where i = 0 and attempts = "[]"] split: member_answer.splits)

definition sample_resolution :: resolution_input where
  "sample_resolution = \<lparr>rn_agentName = ''omp-lazy-qa'', rn_agentModel = Some (OnePattern ''@smol, acme/medium, @slow''),
     rn_agentModelOverrides = [], rn_tables = sample_tables\<rparr>"

theorem resolvers_agree_witness: "resolveWorkerModelRole sample_resolution = Some (RolePass sample_pass)"
proof -
  have schema: "resolutionInputSchema sample_resolution = Some sample_resolution" by code_simp
  have model: "rn_agentModel sample_resolution = Some (OnePattern ''@smol, acme/medium, @slow'')"
    by (simp add: sample_resolution_def)
  have vals: "patterns (OnePattern ''@smol, acme/medium, @slow'') = [''@smol'', ''acme/medium'', ''@slow'']" by code_simp
  obtain as prov where run: "resolveWorkerModelChain True (sample_chain [''@smol'', ''acme/medium'', ''@slow'']) =
      Some (ChainPass sample_pass 2 as, Some prov)"
    using sample_chain_run by (auto split: option.splits prod.splits chain_receipt.splits)
  have "\<exists>k attempts provenance. resolveWorkerModelChain True \<lparr>ci_agentName = rn_agentName sample_resolution,
      ci_chain = patterns (OnePattern ''@smol, acme/medium, @slow''), ci_agentModelOverrides = rn_agentModelOverrides sample_resolution,
      ci_tables = rn_tables sample_resolution, ci_runId = ''r''\<rparr> = Some (ChainPass sample_pass k attempts, Some provenance)"
    using run unfolding vals by (auto simp: sample_chain_def sample_resolution_def)
  then show ?thesis using resolvers_agree [OF schema model, of sample_pass "''r''"] by (simp add: vals)
qed

text \<open>A worker with the name of an inherited member has no role, and the resolver throws instead of refusing it.\<close>

lemma inherited_name_throws:
  "resolveWorkerModelRole \<lparr>rn_agentName = ''toString'', rn_agentModel = None, rn_agentModelOverrides = [], rn_tables = sample_tables\<rparr> = None"
  by code_simp

section \<open>The operator's chains\<close>

lemma split_on_nonempty: "split_on sep s \<noteq> []"
  by (induction s) (auto split: list.splits)

lemma join_split_on: "join_with [sep] (split_on sep s) = s"
proof (induction s)
  case (Cons c s)
  obtain l ls where "split_on sep s = l # ls" using split_on_nonempty by (metis neq_Nil_conv)
  with Cons show ?case by (cases ls) auto
qed simp

lemma split_on_plain: "sep \<notin> set s \<Longrightarrow> split_on sep s = [s]"
  by (induction s) auto

lemma chain_part_chars: "chain_part s \<Longrightarrow> s \<noteq> [] \<and> list_all chain_char s"
  by (simp add: chain_part_def)

lemma chain_char_plain: "chain_char c \<Longrightarrow> c \<noteq> CHR ''/'' \<and> c \<noteq> CHR '','' \<and> c \<noteq> CHR ''@'' \<and> \<not> js_space c"
  by (auto simp: chain_char_def js_space_def)

lemma CHAIN_ENTRY_PATTERN_cases:
  assumes "CHAIN_ENTRY_PATTERN s"
  obtains (is_alias) role where "ModelRoleAliasSchema s = Some role" "s = CHR ''@'' # roleName role"
  | (is_model) p q where "s = p @ CHR ''/'' # q" "chain_part p" "chain_part q"
proof -
  consider "s \<in> {''@smol'', ''@task'', ''@slow''}" | p q where "split_on (CHR ''/'') s = [p, q]" "chain_part p" "chain_part q"
    using assms by (auto simp: CHAIN_ENTRY_PATTERN_def split: list.splits)
  then show ?thesis
  proof cases
    case 1
    then show ?thesis using is_alias [of Smol] is_alias [of TaskRole] is_alias [of Slow] by (auto simp: ModelRoleAliasSchema_def)
  next
    case (2 p q)
    then have "s = join_with ''/'' [p, q]" by (metis join_split_on)
    then show ?thesis using is_model [of p q] 2 by simp
  qed
qed

lemma chain_entry_plain:
  assumes "CHAIN_ENTRY_PATTERN s"
  shows "s \<noteq> [] \<and> js_trim s = s \<and> split_on (CHR '','') s = [s]"
  using assms
proof (cases rule: CHAIN_ENTRY_PATTERN_cases)
  case (is_alias role)
  moreover have "list_all (\<lambda>r. js_trim (CHR ''@'' # roleName r) = CHR ''@'' # roleName r \<and>
      split_on (CHR '','') (CHR ''@'' # roleName r) = [CHR ''@'' # roleName r]) [Smol, TaskRole, Slow]"
    by code_simp
  ultimately show ?thesis by (cases role) simp_all
next
  case (is_model p q)
  have part: "list_all (\<lambda>c. \<not> js_space c \<and> c \<noteq> CHR '','') r" if "chain_part r" for r
    using chain_part_chars [OF that] chain_char_plain unfolding list_all_iff by blast
  have slash: "\<not> js_space (CHR ''/'') \<and> CHR ''/'' \<noteq> CHR '',''" by code_simp
  have "list_all (\<lambda>c. \<not> js_space c \<and> c \<noteq> CHR '','') s"
    unfolding is_model(1) list_all_append list.pred_inject(2) using part [OF is_model(2)] part [OF is_model(3)] slash by blast
  moreover have "s \<noteq> []" using is_model(1) by simp
  ultimately show ?thesis unfolding list_all_iff using hd_in_set [of s] last_in_set [of s]
    by (blast intro: trim_ends split_on_plain)
qed

lemma chain_entry_usable:
  assumes "CHAIN_ENTRY_PATTERN s" "unusable t s"
  shows "\<exists>role. ModelRoleAliasSchema s = Some role \<and> Option.bind (role_model t role) split_selector = None"
  using assms(1)
proof (cases rule: CHAIN_ENTRY_PATTERN_cases)
  case (is_alias role)
  then show ?thesis using assms(2)
    by (auto simp: unusable_def candidate_outcome_def Let_def split: option.splits if_splits)
next
  case (is_model p q)
  have plain: "\<forall>c \<in> set p. c \<noteq> CHR ''/''" using is_model(2) by (auto simp: list_all_iff dest!: chain_part_chars chain_char_plain)
  have "p \<noteq> []" "q \<noteq> []" using is_model chain_part_chars by blast+
  then have "split_selector s = Some (p, q)" using plain is_model(1)
    by (simp add: split_selector_def takeWhile_append2 dropWhile_append2)
  moreover have "hd s \<noteq> CHR ''@''" using is_model(1,2) \<open>p \<noteq> []\<close>
    by (cases p) (auto dest!: chain_part_chars chain_char_plain)
  then have "take 1 s \<noteq> ''@''" "ModelRoleAliasSchema s = None" by (cases s; auto simp: ModelRoleAliasSchema_def)+
  ultimately show ?thesis using assms(2)
    by (auto simp: unusable_def candidate_outcome_def Let_def split: option.splits if_splits)
qed

lemma chain_entries_Some:
  assumes "chain_entries v = Some chain"
  shows "1 \<le> length chain \<and> length chain \<le> 8 \<and> list_all CHAIN_ENTRY_PATTERN chain"
proof -
  have entries: "those (map f vs) = Some ss \<Longrightarrow> (\<And>w s. f w = Some s \<Longrightarrow> P s) \<Longrightarrow> length ss = length vs \<and> list_all P ss"
    for f :: "tool_value \<Rightarrow> string option" and vs ss P
    by (induction vs arbitrary: ss) (auto split: option.splits)
  show ?thesis using assms
    by (auto simp: chain_entries_def split: tool_value.splits if_splits
        dest!: entries [where P = CHAIN_ENTRY_PATTERN])
qed

lemma modelChainInputSchema_Some:
  assumes "modelChainInputSchema v = Some chains'" "(agent, chain) \<in> set chains'"
  shows "agent \<in> set VALID_AGENT_NAMES \<and> 1 \<le> length chain \<and> length chain \<le> 8 \<and> list_all CHAIN_ENTRY_PATTERN chain"
proof -
  have member: "those (map (\<lambda>(k, w). map_option (Pair k) (chain_entries w)) kvs) = Some cs \<Longrightarrow> (agent, chain) \<in> set cs \<Longrightarrow>
      \<exists>w. chain_entries w = Some chain" for kvs cs
  proof (induction kvs arbitrary: cs)
    case (Cons kw kvs)
    obtain k w where kw: "kw = (k, w)" by fastforce
    from Cons.prems(1) obtain ss rest where "chain_entries w = Some ss" "those (map (\<lambda>(k, w). map_option (Pair k) (chain_entries w)) kvs) = Some rest"
      "cs = (k, ss) # rest" by (auto simp: kw split: option.splits)
    with Cons.IH Cons.prems(2) show ?case by auto
  qed simp
  from assms(1) obtain w where "chain_overrides w = Some chains'"
    by (auto simp only: modelChainInputSchema_def bind_eq_Some_conv split: tool_value.splits if_split_asm)
  then obtain overrides where "those (map (\<lambda>(k, w). map_option (Pair k) (chain_entries w)) overrides) = Some chains'"
    "set (map fst chains') \<subseteq> set VALID_AGENT_NAMES"
    by (auto simp only: chain_overrides_def bind_eq_Some_conv option.inject split: tool_value.splits if_split_asm)
  moreover from this(1) assms(2) obtain w where "chain_entries w = Some chain" using member by blast
  ultimately show ?thesis using chain_entries_Some assms(2) by (metis image_eqI fst_conv list.set_map subsetD)
qed

text \<open>
  C32. An input of the operator is applied whole or not at all. When it is accepted, it was read inside \<^verbatim>\<open>.omo/inputs\<close> and
  under the committed schema, every chain belongs to one of the workers and has between one and eight entries, the resolver
  tries exactly these entries, and none of them is refused as no selector unless it is a role without a model.
\<close>

theorem operator_chain_usable:
  assumes "readModelChainInput E sha h repositoryRoot inputPath = ChainInputPass chains'"
  shows "isDisplayPathContained (join_path repositoryRoot [''.omo'', ''inputs'']) (resolve_path repositoryRoot inputPath) \<and>
    (\<exists>schema. cf_schema h = Some schema \<and> map_option js_trim (cf_sidecar h) = Some (sha schema)) \<and>
    toAgentModelOverrides (readModelChainInput E sha h repositoryRoot inputPath) = Some (map (\<lambda>(k, ss). (k, ManyPatterns ss)) chains') \<and>
    (\<forall>(agent, chain) \<in> set chains'. agent \<in> set VALID_AGENT_NAMES \<and> 1 \<le> length chain \<and> length chain \<le> MAX_CHAIN_LENGTH \<and>
       patterns (ManyPatterns chain) = chain \<and>
       (\<forall>candidate \<in> set chain. unusable t candidate \<longrightarrow> (\<exists>role. ModelRoleAliasSchema candidate = Some role \<and>
          Option.bind (role_model t role) split_selector = None)))"
proof -
  from assms obtain v schema where p: "validateInputPath E repositoryRoot inputPath" "validateSchemaIntegrity sha h"
    "modelChainInputSchema v = Some chains'"
    by (auto simp: readModelChainInput_def split: if_splits input_file.splits option.splits)
  have entries: "patterns (ManyPatterns chain) = chain" if "list_all CHAIN_ENTRY_PATTERN chain" for chain
    using that chain_entry_plain by (induction chain) (auto simp: patterns_def pattern_values_def)
  have "\<forall>(agent, chain) \<in> set chains'. agent \<in> set VALID_AGENT_NAMES \<and> 1 \<le> length chain \<and> length chain \<le> MAX_CHAIN_LENGTH \<and>
       patterns (ManyPatterns chain) = chain \<and>
       (\<forall>candidate \<in> set chain. unusable t candidate \<longrightarrow> (\<exists>role. ModelRoleAliasSchema candidate = Some role \<and>
          Option.bind (role_model t role) split_selector = None))"
    using modelChainInputSchema_Some [OF p(3)] entries chain_entry_usable
    by (fastforce simp: MAX_CHAIN_LENGTH_def list_all_iff)
  moreover have "\<exists>schema. cf_schema h = Some schema \<and> map_option js_trim (cf_sidecar h) = Some (sha schema)"
    using p(2) by (auto simp: validateSchemaIntegrity_def split: option.splits)
  ultimately show ?thesis using p(1) by (simp add: validateInputPath_def assms toAgentModelOverrides_def)
qed

definition operator_input :: tool_value where
  "operator_input = VObject [(''schemaVersion'', VNumber (Whole 1)),
     (''overrides'', VObject [(''omp-lazy-qa'', VArray [VText ''@task'', VText ''acme/large-2.0''])])]"

definition operator_files :: chain_files where
  "operator_files = \<lparr>cf_schema = Some ''schema'', cf_sidecar = Some (replicate 64 (CHR ''0'') @ [CHR 0x0A]),
     cf_input = InputJson operator_input\<rparr>"

lemma operator_input_read:
  "readModelChainInput sample_env (\<lambda>_. replicate 64 (CHR ''0'')) operator_files ''/repo'' ''.omo/inputs/model-chain.v1.json'' =
     ChainInputPass [(''omp-lazy-qa'', [''@task'', ''acme/large-2.0''])]"
  by code_simp

theorem operator_chain_usable_witness:
  "patterns (ManyPatterns [''@task'', ''acme/large-2.0'']) = [''@task'', ''acme/large-2.0''] \<and>
   \<not> unusable sample_tables ''acme/large-2.0''"
proof -
  have "ModelRoleAliasSchema ''acme/large-2.0'' = None" by code_simp
  then show ?thesis using operator_chain_usable [OF operator_input_read, of sample_tables] by auto
qed

text \<open>
  The record of provenance is said never to name a model of a vendor; a chain that names one is recorded as it is.
\<close>

lemma provenance_names_model:
  "case resolveWorkerModelChain True (sample_chain [''acme/large'']) of
     Some (_, Some p) \<Rightarrow> map pa_selector (cv_attempts p) = [''acme/large''] | _ \<Rightarrow> False"
  by code_simp

end
