(* ===== verification/Lcx_Contract.thy ===== *)
theory Lcx_Contract
  imports Task_Packet
begin

text \<open>
  The contract of the compatibility workflows (\<^verbatim>\<open>src/workflows/lcx-contract.ts\<close>): the verdict of the doctor, the draft of a bug
  report, the evidence of a contribution, and the arguments of the Windows adapter. Nothing here writes outside: every result
  of the sources carries \<^verbatim>\<open>externalWrite: "not_run"\<close>, which is left out.
\<close>

section \<open>Workflows\<close>

datatype lcx_workflow = DoctorWorkflow | ReportBugWorkflow | ContributeBugFixWorkflow

text \<open>Alias, canonical command, skill and workflow.\<close>

definition LCX_WORKFLOW_CONTRACTS :: "(string \<times> string \<times> string \<times> lcx_workflow) list" where
  "LCX_WORKFLOW_CONTRACTS =
     [(''/lcx-doctor(omp)'', ''/omp-lazy-doctor(omp)'', ''lcx-doctor(omp)'', DoctorWorkflow),
      (''/lcx-report-bug(omp)'', ''/omp-lazy-report-bug(omp)'', ''lcx-report-bug(omp)'', ReportBugWorkflow),
      (''/lcx-contribute-bug-fix(omp)'', ''/omp-lazy-contribute-bug-fix(omp)'', ''lcx-contribute-bug-fix(omp)'',
         ContributeBugFixWorkflow)]"

datatype lcx_target = OmpLazy | Omp

section \<open>Doctor\<close>

datatype verdict = VerdictPass | VerdictWarn | VerdictFail

record doctor_check =
  dc_id :: string
  dc_verdict :: verdict
  dc_evidence :: string

definition doctor_overall :: "doctor_check list \<Rightarrow> verdict" where
  "doctor_overall checks = (if list_ex (\<lambda>c. dc_verdict c = VerdictFail) checks then VerdictFail
     else if checks = [] \<or> list_ex (\<lambda>c. dc_verdict c = VerdictWarn \<or> js_trim (dc_evidence c) = []) checks then VerdictWarn
     else VerdictPass)"

definition evaluateDoctor :: "doctor_check list \<Rightarrow> bool \<Rightarrow> doctor_check list \<times> verdict" where
  "evaluateDoctor checks deep = (checks, doctor_overall checks)"

section \<open>Bug reports\<close>

record duplicate_report =
  du_id :: string
  du_summary :: string
  du_target :: lcx_target

datatype reproduction = OmpLazyOnly | CleanOmp | AmbiguousReproduction

record report_request =
  rq_authority :: "string option"
    \<comment> \<open>the plan that authorises an external write\<close>
  rq_external :: bool
  rq_duplicates :: "duplicate_report list"
  rq_reproduction :: reproduction
  rq_requestedTarget :: "lcx_target option"
    \<comment> \<open>\<open>None\<close> is \<^verbatim>\<open>auto\<close>\<close>
  rq_summary :: string

datatype report_block =
    ExternalAuthorityRequired | ExternalDeliveryNotSupported | OwnershipAmbiguous | SummaryRequired | ReportTargetMismatch

datatype report_result = ReportDraft lcx_target string | ReportDuplicate lcx_target duplicate_report | ReportBlocked report_block

fun target_name :: "lcx_target \<Rightarrow> string" where
  "target_name OmpLazy = ''omp-lazy''"
| "target_name Omp = ''omp''"

definition report_owner :: "reproduction \<Rightarrow> lcx_target option" where
  "report_owner r = (case r of OmpLazyOnly \<Rightarrow> Some OmpLazy | CleanOmp \<Rightarrow> Some Omp | AmbiguousReproduction \<Rightarrow> None)"

definition normalized_summary :: "string \<Rightarrow> string" where
  "normalized_summary s = map js_lower (js_trim s)"

definition report_body :: "string \<Rightarrow> lcx_target \<Rightarrow> string" where
  "report_body summary owner = ''## Summary'' @ [CHR 0x0A] @ js_trim summary @ [CHR 0x0A, CHR 0x0A] @ ''## Ownership'' @
     [CHR 0x0A] @ ''Target: '' @ target_name owner @ [CHR 0x0A]"

definition prepareBugReport :: "report_request \<Rightarrow> report_result" where
  "prepareBugReport q =
     (if js_trim (rq_summary q) = [] then ReportBlocked SummaryRequired
      else if rq_external q
      then ReportBlocked (if rq_authority q = None then ExternalAuthorityRequired else ExternalDeliveryNotSupported)
      else case report_owner (rq_reproduction q) of
        None \<Rightarrow> ReportBlocked OwnershipAmbiguous
      | Some owner \<Rightarrow>
        (if rq_requestedTarget q \<noteq> None \<and> rq_requestedTarget q \<noteq> Some owner then ReportBlocked ReportTargetMismatch
         else case List.find (\<lambda>c. du_target c = owner \<and> normalized_summary (du_summary c) = normalized_summary (rq_summary q))
             (rq_duplicates q) of
           Some duplicate \<Rightarrow> ReportDuplicate owner duplicate
         | None \<Rightarrow> ReportDraft owner (report_body (rq_summary q) owner)))"

section \<open>Contributions\<close>

datatype contribution_stage = RedStage | GreenStage | SurfaceStage

record stage_evidence =
  sv_exitCode :: int
  sv_stage :: contribution_stage
  sv_surface :: string

record contribution_request =
  cr_bugReference :: string
  cr_completed :: bool
  cr_foreignStateAfter :: string
  cr_foreignStateBefore :: string
  cr_dryRun :: bool
  cr_evidence :: "stage_evidence list"
  cr_ownership :: lcx_target
  cr_target :: lcx_target

datatype contribution_block =
    BugReferenceRequired | CleanupIncomplete | DryRunRequired | EvidenceSequenceInvalid | ForeignStateChanged
  | GreenRequired | RealSurfaceRequired | RedRequired | ContributionTargetMismatch

datatype contribution_result = ContributionReady string lcx_target | ContributionBlocked contribution_block

definition stage_of :: "stage_evidence list \<Rightarrow> contribution_stage \<Rightarrow> stage_evidence option" where
  "stage_of es stage = List.find (\<lambda>e. sv_stage e = stage) es"

definition evaluateContribution :: "contribution_request \<Rightarrow> contribution_result" where
  "evaluateContribution q = (let es = cr_evidence q in
     if \<not> cr_dryRun q then ContributionBlocked DryRunRequired
     else if js_trim (cr_bugReference q) = [] then ContributionBlocked BugReferenceRequired
     else if cr_target q \<noteq> cr_ownership q then ContributionBlocked ContributionTargetMismatch
     else if (case stage_of es RedStage of None \<Rightarrow> True | Some red \<Rightarrow> sv_exitCode red = 0) then ContributionBlocked RedRequired
     else if (case stage_of es GreenStage of None \<Rightarrow> True | Some green \<Rightarrow> sv_exitCode green \<noteq> 0) then ContributionBlocked GreenRequired
     else if (case stage_of es SurfaceStage of None \<Rightarrow> True
         | Some surface \<Rightarrow> sv_exitCode surface \<noteq> 0 \<or> sv_surface surface \<noteq> ''omp-17.0.5'') then ContributionBlocked RealSurfaceRequired
     else if map sv_stage es \<noteq> [RedStage, GreenStage, SurfaceStage] then ContributionBlocked EvidenceSequenceInvalid
     else if \<not> cr_completed q then ContributionBlocked CleanupIncomplete
     else if cr_foreignStateBefore q \<noteq> cr_foreignStateAfter q then ContributionBlocked ForeignStateChanged
     else ContributionReady (js_trim (cr_bugReference q)) (cr_target q))"

section \<open>The Windows adapter\<close>

text \<open>
  \<^verbatim>\<open>win32.isAbsolute\<close> and the root of \<^verbatim>\<open>win32.parse\<close>: a drive with its separator, a share, or the separator a path begins with,
  as it is written.
\<close>

definition win_sep :: "char \<Rightarrow> bool" where
  "win_sep c \<longleftrightarrow> c = CHR ''/'' \<or> c = CHR 0x5C"

definition win_absolute :: "string \<Rightarrow> bool" where
  "win_absolute p \<longleftrightarrow> (case p of
     [] \<Rightarrow> False
   | c # r \<Rightarrow> win_sep c \<or> (is_letter c \<and> take 1 r = '':'' \<and> 2 \<le> length r \<and> win_sep (r ! 1)))"

text \<open>How long the root of a share is after its two separators; 0 when there is none.\<close>

definition share_length :: "string \<Rightarrow> nat" where
  "share_length r =
     (let server = takeWhile (\<lambda>c. \<not> win_sep c) r; r1 = dropWhile (\<lambda>c. \<not> win_sep c) r;
          seps = takeWhile win_sep r1; r2 = dropWhile win_sep r1;
          share = takeWhile (\<lambda>c. \<not> win_sep c) r2; r3 = dropWhile (\<lambda>c. \<not> win_sep c) r2
      in if server = [] \<or> r1 = [] \<or> r2 = [] then 0
         else length server + length seps + length share + (if r3 = [] then 0 else 1))"

definition win_root :: "string \<Rightarrow> string" where
  "win_root p = (case p of
     [] \<Rightarrow> []
   | [c] \<Rightarrow> if win_sep c then p else []
   | c # d # r \<Rightarrow>
     (if win_sep c then (if win_sep d \<and> 0 < share_length r then take (2 + share_length r) p else [c])
      else if is_letter c \<and> d = CHR '':'' then take (if r \<noteq> [] \<and> win_sep (hd r) then 3 else 2) p else []))"

record windows_arguments =
  wn_evidenceRoot :: string
  wn_ompExecutable :: string
  wn_projectRoot :: string

datatype adapter_error = AbsoluteWindowsPathRequired | InvalidArguments

definition bad_windows_path :: "string \<Rightarrow> bool" where
  "bad_windows_path p \<longleftrightarrow> CHR 0x00 \<in> set p \<or> \<not> win_absolute p \<or> win_root p = [CHR 0x5C]"

definition parseLcxWindowsAdapterArguments :: "string list \<Rightarrow> adapter_error + windows_arguments" where
  "parseLcxWindowsAdapterArguments argv = (case argv of
     [a, projectRoot, b, ompExecutable, c, evidenceRoot] \<Rightarrow>
       (if a \<noteq> ''--project-root'' \<or> b \<noteq> ''--omp-exe'' \<or> c \<noteq> ''--evidence-root'' then Inl InvalidArguments
        else if list_ex bad_windows_path [projectRoot, ompExecutable, evidenceRoot] then Inl AbsoluteWindowsPathRequired
        else Inr \<lparr>wn_evidenceRoot = evidenceRoot, wn_ompExecutable = ompExecutable, wn_projectRoot = projectRoot\<rparr>)
   | _ \<Rightarrow> Inl InvalidArguments)"

section \<open>What the contract guarantees\<close>

text \<open>
  A contribution is ready exactly when it is a dry run with a reference, for the owner of the fault, whose evidence is one
  failing run, one passing run and one passing run on the real surface in this order, cleaned up without a trace.
\<close>

theorem contribution_ready_iff:
  "evaluateContribution q = ContributionReady reference target \<longleftrightarrow>
     cr_dryRun q \<and> js_trim (cr_bugReference q) = reference \<and> reference \<noteq> [] \<and> cr_target q = target \<and> cr_ownership q = target \<and>
     (\<exists>red green surface. cr_evidence q = [red, green, surface] \<and> sv_stage red = RedStage \<and> sv_stage green = GreenStage \<and>
        sv_stage surface = SurfaceStage \<and> sv_exitCode red \<noteq> 0 \<and> sv_exitCode green = 0 \<and> sv_exitCode surface = 0 \<and>
        sv_surface surface = ''omp-17.0.5'') \<and>
     cr_completed q \<and> cr_foreignStateBefore q = cr_foreignStateAfter q"
proof (cases "map sv_stage (cr_evidence q) = [RedStage, GreenStage, SurfaceStage]")
  case True
  then obtain red green surface where "cr_evidence q = [red, green, surface]" "sv_stage red = RedStage"
    "sv_stage green = GreenStage" "sv_stage surface = SurfaceStage" by (auto simp: map_eq_Cons_conv)
  then show ?thesis by (auto simp: evaluateContribution_def Let_def stage_of_def)
next
  case False
  then show ?thesis by (auto simp: evaluateContribution_def Let_def)
qed

text \<open>
  No draft and no duplicate leaves the machine or its owner: a report is a draft only for a local delivery with a summary, to
  the owner that the reproduction names, when no known report of that owner has the same summary.
\<close>

theorem report_draft_owned:
  "prepareBugReport q = ReportDraft owner body \<longleftrightarrow>
     js_trim (rq_summary q) \<noteq> [] \<and> \<not> rq_external q \<and> report_owner (rq_reproduction q) = Some owner \<and>
     (rq_requestedTarget q = None \<or> rq_requestedTarget q = Some owner) \<and>
     list_all (\<lambda>c. du_target c = owner \<longrightarrow> normalized_summary (du_summary c) \<noteq> normalized_summary (rq_summary q)) (rq_duplicates q) \<and>
     body = report_body (rq_summary q) owner"
  by (auto simp: prepareBugReport_def find_None_iff find_Some_iff list_all_iff dest: nth_mem split: option.splits)

text \<open>
  Paths that depend on the current drive are refused when they begin with a backslash, and accepted when they begin with a slash.
\<close>

theorem rooted_slash_accepted:
  "\<not> isl (parseLcxWindowsAdapterArguments [''--project-root'', ''/repo'', ''--omp-exe'', ''/omp.exe'', ''--evidence-root'', ''/evidence'']) \<and>
   parseLcxWindowsAdapterArguments [''--project-root'', CHR 0x5C # ''repo'', ''--omp-exe'', CHR 0x5C # ''omp.exe'',
     ''--evidence-root'', CHR 0x5C # ''evidence''] = Inl AbsoluteWindowsPathRequired"
  by code_simp

end
