(* ===== verification/Critic_Receipt.thy ===== *)
theory Critic_Receipt
  imports Acceptance_Ledger Task_Packet Worker_Policies
begin

text \<open>
  The receipt of a critic (\<^verbatim>\<open>src/contracts/critic-receipt.ts\<close>): the schemas of the receipt, of the verifier's evidence and
  of the binding they are compared with, the binding to a compiled packet, and the validation.
\<close>

section \<open>Receipts, evidence and bindings\<close>

record hard_gate =
  hg_id :: string
  hg_passed :: bool

record verifier_authorization =
  va_id :: string
  va_evidenceLogicalId :: string
  va_passed :: bool
  va_provenanceSha256 :: string
  va_contentSha256 :: string

record verifier_evidence =
  ve_actor :: string
  ve_packetHash :: string
  ve_head :: string
  ve_generation :: nat
  ve_authorizations :: "verifier_authorization list"

datatype critic_verdict = Approve | VerdictBlocked

record critic_receipt =
  kr_verdict :: critic_verdict
  kr_actor :: string
  kr_packetHash :: string
  kr_head :: string
  kr_generation :: nat
  kr_receiptId :: string
  kr_hardGates :: "hard_gate list"
  kr_evidenceLogicalIds :: "string list"
  kr_qualityScore :: "quality_score option"

record gate_evidence =
  ge_id :: string
  ge_evidenceLogicalId :: string

record critic_binding =
  kb_actor :: string
  kb_verifierActor :: string
  kb_packetHash :: string
  kb_head :: string
  kb_generation :: nat
  kb_receiptId :: string
  kb_requiredHardGateIds :: "string list"
  kb_requiredEvidenceLogicalIds :: "string list"
  kb_requiredGateEvidence :: "gate_evidence list"

definition criticIdentifier :: "string \<Rightarrow> string option" where
  "criticIdentifier = bounded_text 160"

definition identifiers :: "nat \<Rightarrow> string list \<Rightarrow> string list option" where
  "identifiers least = bounded_array least 32 criticIdentifier"

definition hardGateSchema :: "hard_gate \<Rightarrow> hard_gate option" where
  "hardGateSchema g = map_option (\<lambda>i. \<lparr>hg_id = i, hg_passed = hg_passed g\<rparr>) (criticIdentifier (hg_id g))"

definition verifierAuthorizationSchema :: "verifier_authorization \<Rightarrow> verifier_authorization option" where
  "verifierAuthorizationSchema a = do {
     i \<leftarrow> criticIdentifier (va_id a);
     e \<leftarrow> criticIdentifier (va_evidenceLogicalId a);
     p \<leftarrow> hash_schema (va_provenanceSha256 a);
     c \<leftarrow> hash_schema (va_contentSha256 a);
     Some \<lparr>va_id = i, va_evidenceLogicalId = e, va_passed = va_passed a, va_provenanceSha256 = p, va_contentSha256 = c\<rparr> }"

definition VerifierEvidenceSchema :: "verifier_evidence \<Rightarrow> verifier_evidence option" where
  "VerifierEvidenceSchema v = do {
     a \<leftarrow> criticIdentifier (ve_actor v);
     p \<leftarrow> hash_schema (ve_packetHash v);
     h \<leftarrow> commit_schema (ve_head v);
     g \<leftarrow> counter_positive (ve_generation v);
     as \<leftarrow> bounded_array 1 32 verifierAuthorizationSchema (ve_authorizations v);
     if sortedUniqueStrings (map va_id as)
     then Some \<lparr>ve_actor = a, ve_packetHash = p, ve_head = h, ve_generation = g, ve_authorizations = as\<rparr> else None }"

definition CriticReceiptSchema :: "critic_receipt \<Rightarrow> critic_receipt option" where
  "CriticReceiptSchema r = do {
     a \<leftarrow> criticIdentifier (kr_actor r);
     p \<leftarrow> hash_schema (kr_packetHash r);
     h \<leftarrow> commit_schema (kr_head r);
     g \<leftarrow> counter_positive (kr_generation r);
     i \<leftarrow> criticIdentifier (kr_receiptId r);
     gates \<leftarrow> bounded_array 1 32 hardGateSchema (kr_hardGates r);
     es \<leftarrow> identifiers 0 (kr_evidenceLogicalIds r);
     if (case kr_qualityScore r of None \<Rightarrow> True | Some q \<Rightarrow> QualityScoreSchema q) \<and>
        sortedUniqueStrings (map hg_id gates) \<and> sortedUniqueStrings es
     then Some \<lparr>kr_verdict = kr_verdict r, kr_actor = a, kr_packetHash = p, kr_head = h, kr_generation = g, kr_receiptId = i,
       kr_hardGates = gates, kr_evidenceLogicalIds = es, kr_qualityScore = kr_qualityScore r\<rparr>
     else None }"

definition requiredGateEvidenceSchema :: "gate_evidence \<Rightarrow> gate_evidence option" where
  "requiredGateEvidenceSchema g = do {
     i \<leftarrow> criticIdentifier (ge_id g);
     e \<leftarrow> criticIdentifier (ge_evidenceLogicalId g);
     Some \<lparr>ge_id = i, ge_evidenceLogicalId = e\<rparr> }"

definition binding_refinement :: "critic_binding \<Rightarrow> bool" where
  "binding_refinement b \<longleftrightarrow> kb_verifierActor b \<noteq> kb_actor b \<and>
     sortedUniqueStrings (kb_requiredHardGateIds b) \<and> sortedUniqueStrings (kb_requiredEvidenceLogicalIds b) \<and>
     sortedUniqueStrings (map ge_id (kb_requiredGateEvidence b)) \<and>
     sameStringSet (kb_requiredHardGateIds b) (map ge_id (kb_requiredGateEvidence b)) \<and>
     sameStringSet (kb_requiredEvidenceLogicalIds b) (map ge_evidenceLogicalId (kb_requiredGateEvidence b))"

definition CriticReceiptBindingSchema :: "critic_binding \<Rightarrow> critic_binding option" where
  "CriticReceiptBindingSchema b = do {
     a \<leftarrow> criticIdentifier (kb_actor b);
     v \<leftarrow> criticIdentifier (kb_verifierActor b);
     p \<leftarrow> hash_schema (kb_packetHash b);
     h \<leftarrow> commit_schema (kb_head b);
     g \<leftarrow> counter_positive (kb_generation b);
     i \<leftarrow> criticIdentifier (kb_receiptId b);
     gates \<leftarrow> identifiers 1 (kb_requiredHardGateIds b);
     es \<leftarrow> identifiers 0 (kb_requiredEvidenceLogicalIds b);
     ge \<leftarrow> bounded_array 1 32 requiredGateEvidenceSchema (kb_requiredGateEvidence b);
     let c = \<lparr>kb_actor = a, kb_verifierActor = v, kb_packetHash = p, kb_head = h, kb_generation = g, kb_receiptId = i,
       kb_requiredHardGateIds = gates, kb_requiredEvidenceLogicalIds = es, kb_requiredGateEvidence = ge\<rparr>;
     if binding_refinement c then Some c else None }"

section \<open>Binding to a packet\<close>

record binding_issue =
  is_actor :: string
  is_verifierActor :: string
  is_head :: string
  is_receiptId :: string
  is_packet :: compiled_packet

text \<open>\<open>None\<close> when the binding does not parse and the function throws.\<close>

definition bindCriticReceiptToPacket :: "binding_issue \<Rightarrow> critic_binding option" where
  "bindCriticReceiptToPacket q = (let p = cp_packet (is_packet q) in CriticReceiptBindingSchema
     \<lparr>kb_actor = is_actor q, kb_verifierActor = is_verifierActor q, kb_packetHash = cp_packetHash (is_packet q),
      kb_head = is_head q, kb_generation = tp_generation p, kb_receiptId = is_receiptId q,
      kb_requiredHardGateIds = sortedStrings (map pc_id (tp_criteria p)),
      kb_requiredEvidenceLogicalIds = sortedStrings (map er_logicalId (filter er_required (tp_evidenceRequirements p))),
      kb_requiredGateEvidence = sort_key ge_id
        (map (\<lambda>c. \<lparr>ge_id = pc_id c, ge_evidenceLogicalId = pc_evidenceLogicalId c\<rparr>) (tp_criteria p))\<rparr>)"

section \<open>Validation\<close>

datatype critic_error =
    MalformedCriticReceipt | MalformedVerifierEvidence | WrongCriticActor | WrongVerifierActor | StalePacket | WrongHead
  | WrongGeneration | WrongReceipt | RequiredHardGatesMismatch | RequiredEvidenceMismatch | VerifierAuthorizationsMismatch
  | InconsistentVerifierEvidenceHashes | HardGateFailed | CriticBlocked

text \<open>
  The loop over the authorizations: two of them for the same evidence must have the same hashes.
\<close>

fun consistent_hashes :: "(string \<Rightarrow> (string \<times> string) option) \<Rightarrow> verifier_authorization list \<Rightarrow> bool" where
  "consistent_hashes evidenceHashes [] \<longleftrightarrow> True"
| "consistent_hashes evidenceHashes (a # as) \<longleftrightarrow>
     (case evidenceHashes (va_evidenceLogicalId a) of
        None \<Rightarrow> True
      | Some (provenance, content) \<Rightarrow> provenance = va_provenanceSha256 a \<and> content = va_contentSha256 a) \<and>
     consistent_hashes (evidenceHashes(va_evidenceLogicalId a \<mapsto> (va_provenanceSha256 a, va_contentSha256 a))) as"

text \<open>An authorization and what is required at its index.\<close>

definition authorization_differs :: "gate_evidence list \<Rightarrow> verifier_authorization \<Rightarrow> nat \<Rightarrow> bool" where
  "authorization_differs required a i \<longleftrightarrow> length required \<le> i \<or> va_id a \<noteq> ge_id (required ! i) \<or>
     va_evidenceLogicalId a \<noteq> ge_evidenceLogicalId (required ! i)"

definition authorizations_mismatch :: "critic_binding \<Rightarrow> verifier_authorization list \<Rightarrow> bool" where
  "authorizations_mismatch b as \<longleftrightarrow>
     \<not> sameStringSet (map va_id as) (kb_requiredHardGateIds b) \<or>
     \<not> sameStringSet (map va_evidenceLogicalId as) (kb_requiredEvidenceLogicalIds b) \<or>
     list_ex (\<lambda>(a, i). authorization_differs (kb_requiredGateEvidence b) a i) (zip as [0..<length as])"

definition critic_refusal :: "critic_binding \<Rightarrow> critic_receipt \<Rightarrow> verifier_evidence \<Rightarrow> critic_error option" where
  "critic_refusal b r v =
     (if kr_actor r \<noteq> kb_actor b then Some WrongCriticActor
      else if ve_actor v \<noteq> kb_verifierActor b then Some WrongVerifierActor
      else if kr_packetHash r \<noteq> kb_packetHash b then Some StalePacket
      else if kr_head r \<noteq> kb_head b then Some WrongHead
      else if kr_generation r \<noteq> kb_generation b then Some WrongGeneration
      else if kr_receiptId r \<noteq> kb_receiptId b then Some WrongReceipt
      else if \<not> sameStringSet (map hg_id (kr_hardGates r)) (kb_requiredHardGateIds b) then Some RequiredHardGatesMismatch
      else if \<not> sameStringSet (kr_evidenceLogicalIds r) (kb_requiredEvidenceLogicalIds b) then Some RequiredEvidenceMismatch
      else if ve_packetHash v \<noteq> kb_packetHash b then Some StalePacket
      else if ve_head v \<noteq> kb_head b then Some WrongHead
      else if ve_generation v \<noteq> kb_generation b then Some WrongGeneration
      else if authorizations_mismatch b (ve_authorizations v) then Some VerifierAuthorizationsMismatch
      else if \<not> consistent_hashes (\<lambda>_. None) (ve_authorizations v) then Some InconsistentVerifierEvidenceHashes
      else if list_ex (\<lambda>g. \<not> hg_passed g) (kr_hardGates r) \<or> map_option qs_hardGatePassed (kr_qualityScore r) = Some False
      then Some HardGateFailed
      else if list_ex (\<lambda>a. \<not> va_passed a) (ve_authorizations v) then Some HardGateFailed
      else if kr_verdict r \<noteq> Approve then Some CriticBlocked else None)"

definition validateCriticReceipt :: "critic_binding \<Rightarrow> critic_receipt \<Rightarrow> verifier_evidence \<Rightarrow> critic_error + critic_receipt" where
  "validateCriticReceipt expected receipt evidence =
     (case (CriticReceiptBindingSchema expected, CriticReceiptSchema receipt) of
        (Some b, Some r) \<Rightarrow>
          (case VerifierEvidenceSchema evidence of
             None \<Rightarrow> Inl MalformedVerifierEvidence
           | Some v \<Rightarrow> (case critic_refusal b r v of Some err \<Rightarrow> Inl err | None \<Rightarrow> Inr r))
      | _ \<Rightarrow> Inl MalformedCriticReceipt)"

end
