(* ===== verification/Critic_Properties.thy ===== *)
theory Critic_Properties
  imports Critic_Receipt Packet_Properties
begin

text \<open>
  What an approval of a critic stands for, and that a compiled packet can always be bound.
\<close>

section \<open>Sorted lists as sets\<close>

lemma sameStringSet_iff: "sameStringSet left right \<longleftrightarrow> set left = set right"
proof
  assume a: "sameStringSet left right"
  then have "set left \<subseteq> set right" "card (set left) = card (set right)"
    by (auto simp: sameStringSet_def Let_def list_all_iff length_remdups_card_conv)
  then show "set left = set right" by (simp add: card_subset_eq)
next
  assume "set left = set right"
  then show "sameStringSet left right" by (simp add: sameStringSet_def Let_def list_all_iff length_remdups_card_conv)
qed

lemma sorted_unique_same:
  "sortedUniqueStrings xs \<Longrightarrow> sortedUniqueStrings ys \<Longrightarrow> sameStringSet xs ys \<longleftrightarrow> xs = ys"
  by (metis sameStringSet_iff sortedUniqueStrings_iff strict_sorted_equal)

definition same_hashes :: "verifier_authorization \<Rightarrow> verifier_authorization \<Rightarrow> bool" where
  "same_hashes a b \<longleftrightarrow> (va_evidenceLogicalId a = va_evidenceLogicalId b \<longrightarrow>
     va_provenanceSha256 a = va_provenanceSha256 b \<and> va_contentSha256 a = va_contentSha256 b)"

definition fits :: "(string \<Rightarrow> (string \<times> string) option) \<Rightarrow> verifier_authorization \<Rightarrow> bool" where
  "fits H a \<longleftrightarrow> H (va_evidenceLogicalId a) \<in> {None, Some (va_provenanceSha256 a, va_contentSha256 a)}"

lemma fits_update:
  "fits (H(va_evidenceLogicalId a \<mapsto> (va_provenanceSha256 a, va_contentSha256 a))) b \<longleftrightarrow>
     (if va_evidenceLogicalId b = va_evidenceLogicalId a then same_hashes a b else fits H b)"
  by (auto simp: fits_def same_hashes_def)

lemma fits_same: "fits H a \<Longrightarrow> same_hashes a b \<Longrightarrow> va_evidenceLogicalId b = va_evidenceLogicalId a \<Longrightarrow> fits H b"
  by (auto simp: fits_def same_hashes_def)

lemma consistent_hashes_Cons:
  "consistent_hashes H (a # as) \<longleftrightarrow>
     fits H a \<and> consistent_hashes (H(va_evidenceLogicalId a \<mapsto> (va_provenanceSha256 a, va_contentSha256 a))) as"
  by (auto simp: fits_def split: option.splits)

lemma consistent_hashes_iff:
  "consistent_hashes H as \<longleftrightarrow> (\<forall>a \<in> set as. fits H a) \<and> (\<forall>a \<in> set as. \<forall>b \<in> set as. same_hashes a b)"
proof (induction as arbitrary: H)
  case (Cons a as)
  have refl: "same_hashes c c" for c by (simp add: same_hashes_def)
  have sym: "same_hashes c b \<Longrightarrow> same_hashes b c" for b c by (simp add: same_hashes_def)
  have other: "va_evidenceLogicalId b \<noteq> va_evidenceLogicalId a \<Longrightarrow> same_hashes a b" for b by (simp add: same_hashes_def)
  show ?case unfolding consistent_hashes_Cons Cons.IH fits_update using refl sym other fits_same by (auto split: if_splits)
qed simp

section \<open>Approval\<close>

lemma list_ex_indexed: "list_ex P (zip xs [0..<length xs]) \<longleftrightarrow> (\<exists>i < length xs. P (xs ! i, i))"
  by (auto simp: list_ex_length)

lemma authorizations_listed:
  assumes "sortedUniqueStrings (map va_id as)" "binding_refinement b"
  shows "\<not> authorizations_mismatch b as \<longleftrightarrow>
    map (\<lambda>a. (va_id a, va_evidenceLogicalId a)) as = map (\<lambda>g. (ge_id g, ge_evidenceLogicalId g)) (kb_requiredGateEvidence b)"
    (is "?l \<longleftrightarrow> ?r")
proof
  let ?gs = "kb_requiredGateEvidence b"
  assume l: ?l
  then have "sameStringSet (map va_id as) (map ge_id ?gs)"
    using assms(2) by (auto simp: authorizations_mismatch_def binding_refinement_def sameStringSet_iff)
  then have ids: "map va_id as = map ge_id ?gs"
    using assms sorted_unique_same by (auto simp: binding_refinement_def)
  then have len: "length as = length ?gs" by (metis length_map)
  have "\<not> authorization_differs ?gs (as ! i) i" if "i < length as" for i
    using l that by (auto simp: authorizations_mismatch_def list_ex_indexed)
  then show ?r using len by (auto simp: authorization_differs_def intro!: nth_equalityI)
next
  let ?gs = "kb_requiredGateEvidence b"
  assume r: ?r
  have "map fst (map (\<lambda>a. (va_id a, va_evidenceLogicalId a)) as) = map fst (map (\<lambda>g. (ge_id g, ge_evidenceLogicalId g)) ?gs)"
    "map snd (map (\<lambda>a. (va_id a, va_evidenceLogicalId a)) as) = map snd (map (\<lambda>g. (ge_id g, ge_evidenceLogicalId g)) ?gs)"
    by (simp_all only: r)
  then have ids: "map va_id as = map ge_id ?gs" "map va_evidenceLogicalId as = map ge_evidenceLogicalId ?gs"
    by (simp_all add: comp_def)
  have len: "length as = length ?gs" using r by (metis length_map)
  have "\<not> authorization_differs ?gs (as ! i) i" if "i < length as" for i
    using arg_cong [OF r, of "\<lambda>xs. xs ! i"] len that by (simp add: authorization_differs_def)
  then show ?l using assms(2) ids
    by (auto simp: authorizations_mismatch_def binding_refinement_def sameStringSet_iff list_ex_indexed)
qed

text \<open>
  What a receipt must say: all it names is what is required, every gate has passed, every required gate has its evidence
  authorised by the verifier, and the evidence has one content.
\<close>

definition approves :: "critic_binding \<Rightarrow> critic_receipt \<Rightarrow> verifier_evidence \<Rightarrow> bool" where
  "approves b r v \<longleftrightarrow> kr_verdict r = Approve \<and> kr_actor r = kb_actor b \<and> ve_actor v = kb_verifierActor b \<and>
     kb_actor b \<noteq> kb_verifierActor b \<and>
     kr_packetHash r = kb_packetHash b \<and> ve_packetHash v = kb_packetHash b \<and> kr_head r = kb_head b \<and> ve_head v = kb_head b \<and>
     kr_generation r = kb_generation b \<and> ve_generation v = kb_generation b \<and> kr_receiptId r = kb_receiptId b \<and>
     kr_hardGates r = map (\<lambda>i. \<lparr>hg_id = i, hg_passed = True\<rparr>) (kb_requiredHardGateIds b) \<and>
     kr_evidenceLogicalIds r = kb_requiredEvidenceLogicalIds b \<and>
     map (\<lambda>a. (va_id a, va_evidenceLogicalId a, va_passed a)) (ve_authorizations v) =
       map (\<lambda>g. (ge_id g, ge_evidenceLogicalId g, True)) (kb_requiredGateEvidence b) \<and>
     (\<forall>x \<in> set (ve_authorizations v). \<forall>y \<in> set (ve_authorizations v). same_hashes x y) \<and>
     map_option qs_hardGatePassed (kr_qualityScore r) \<noteq> Some False"

lemma gates_passed:
  "map hg_id gs = ids \<and> list_all hg_passed gs \<longleftrightarrow> gs = map (\<lambda>i. \<lparr>hg_id = i, hg_passed = True\<rparr>) ids" for ids :: "string list"
proof -
  have "list_all hg_passed gs \<longleftrightarrow> gs = map (\<lambda>i. \<lparr>hg_id = i, hg_passed = True\<rparr>) (map hg_id gs)"
  proof (induction gs)
    case (Cons g gs)
    then show ?case by (cases g) auto
  qed simp
  moreover have "map hg_id (map (\<lambda>i. \<lparr>hg_id = i, hg_passed = True\<rparr>) ids) = ids" by (simp add: comp_def)
  ultimately show ?thesis by metis
qed

lemma authorizations_passed:
  "map (\<lambda>a. (va_id a, va_evidenceLogicalId a)) as = map (\<lambda>g. (ge_id g, ge_evidenceLogicalId g)) gs \<and> list_all va_passed as \<longleftrightarrow>
   map (\<lambda>a. (va_id a, va_evidenceLogicalId a, va_passed a)) as = map (\<lambda>g. (ge_id g, ge_evidenceLogicalId g, True)) gs"
  by (induction as arbitrary: gs) (auto simp: map_eq_Cons_conv Cons_eq_map_conv)

lemma critic_refusal_None_iff:
  assumes "binding_refinement b" "sortedUniqueStrings (map hg_id (kr_hardGates r))" "sortedUniqueStrings (kr_evidenceLogicalIds r)"
    "sortedUniqueStrings (map va_id (ve_authorizations v))"
  shows "critic_refusal b r v = None \<longleftrightarrow> approves b r v"
proof -
  have gates: "sameStringSet (map hg_id (kr_hardGates r)) (kb_requiredHardGateIds b) \<longleftrightarrow> map hg_id (kr_hardGates r) = kb_requiredHardGateIds b"
    "sameStringSet (kr_evidenceLogicalIds r) (kb_requiredEvidenceLogicalIds b) \<longleftrightarrow> kr_evidenceLogicalIds r = kb_requiredEvidenceLogicalIds b"
    using assms by (auto intro!: sorted_unique_same simp: binding_refinement_def)
  have hashes: "consistent_hashes (\<lambda>_. None) as \<longleftrightarrow> (\<forall>x \<in> set as. \<forall>y \<in> set as. same_hashes x y)" for as
    by (auto simp: consistent_hashes_iff fits_def)
  have ex: "list_ex (\<lambda>x. \<not> P x) xs \<longleftrightarrow> \<not> list_all P xs" for P and xs :: "'x list"
    by (auto simp: list_ex_iff list_all_iff)
  have actors: "kb_actor b \<noteq> kb_verifierActor b" using assms(1) by (auto simp: binding_refinement_def)
  have "critic_refusal b r v = None \<longleftrightarrow>
     kr_actor r = kb_actor b \<and> ve_actor v = kb_verifierActor b \<and> kr_packetHash r = kb_packetHash b \<and> kr_head r = kb_head b \<and>
     kr_generation r = kb_generation b \<and> kr_receiptId r = kb_receiptId b \<and> map hg_id (kr_hardGates r) = kb_requiredHardGateIds b \<and>
     kr_evidenceLogicalIds r = kb_requiredEvidenceLogicalIds b \<and> ve_packetHash v = kb_packetHash b \<and> ve_head v = kb_head b \<and>
     ve_generation v = kb_generation b \<and> \<not> authorizations_mismatch b (ve_authorizations v) \<and>
     (\<forall>x \<in> set (ve_authorizations v). \<forall>y \<in> set (ve_authorizations v). same_hashes x y) \<and> list_all hg_passed (kr_hardGates r) \<and>
     map_option qs_hardGatePassed (kr_qualityScore r) \<noteq> Some False \<and> list_all va_passed (ve_authorizations v) \<and> kr_verdict r = Approve"
    unfolding critic_refusal_def gates hashes ex by (simp split: if_split)
  then show ?thesis unfolding approves_def authorizations_listed [OF assms(4,1)] gates_passed [symmetric] authorizations_passed [symmetric]
    using actors by blast
qed

lemma parsed_shapes:
  "CriticReceiptBindingSchema x = Some b \<Longrightarrow> binding_refinement b"
  "CriticReceiptSchema y = Some r \<Longrightarrow> sortedUniqueStrings (map hg_id (kr_hardGates r)) \<and> sortedUniqueStrings (kr_evidenceLogicalIds r)"
  "VerifierEvidenceSchema z = Some v \<Longrightarrow> sortedUniqueStrings (map va_id (ve_authorizations v))"
  by (auto simp: CriticReceiptBindingSchema_def CriticReceiptSchema_def VerifierEvidenceSchema_def Let_def
      elim!: bind_SomeE split: if_splits)

text \<open>
  C21. The validation approves exactly the receipts that say what is required, no more and no less: bound to the same packet,
  commit, generation and receipt, from the expected critic, with exactly the required gates all passed, every one of them
  authorised as passed by the verifier, another actor, for exactly its evidence, and the evidence described by one content.
\<close>

theorem critic_approves_iff:
  "validateCriticReceipt expected receipt evidence = Inr r \<longleftrightarrow>
     CriticReceiptSchema receipt = Some r \<and>
     (\<exists>b v. CriticReceiptBindingSchema expected = Some b \<and> VerifierEvidenceSchema evidence = Some v \<and> approves b r v)"
proof -
  have "critic_refusal b q v = None \<longleftrightarrow> approves b q v"
    if "CriticReceiptBindingSchema expected = Some b" "CriticReceiptSchema receipt = Some q" "VerifierEvidenceSchema evidence = Some v" for b q v
    using parsed_shapes(1) [OF that(1)] parsed_shapes(2) [OF that(2)] parsed_shapes(3) [OF that(3)]
    by (intro critic_refusal_None_iff) auto
  then show ?thesis unfolding validateCriticReceipt_def
    by (auto split: option.splits) (metis option.distinct(1) option.inject)+
qed

definition sample_critic_binding :: critic_binding where
  "sample_critic_binding = \<lparr>kb_actor = ''critic'', kb_verifierActor = ''verifier'', kb_packetHash = replicate 64 (CHR ''b''),
     kb_head = replicate 40 (CHR ''a''), kb_generation = 1, kb_receiptId = ''r1'', kb_requiredHardGateIds = [''c'', ''d''],
     kb_requiredEvidenceLogicalIds = [''log''],
     kb_requiredGateEvidence = [\<lparr>ge_id = ''c'', ge_evidenceLogicalId = ''log''\<rparr>, \<lparr>ge_id = ''d'', ge_evidenceLogicalId = ''log''\<rparr>]\<rparr>"

definition sample_critic_receipt :: critic_receipt where
  "sample_critic_receipt = \<lparr>kr_verdict = Approve, kr_actor = ''critic'', kr_packetHash = replicate 64 (CHR ''b''),
     kr_head = replicate 40 (CHR ''a''), kr_generation = 1, kr_receiptId = ''r1'',
     kr_hardGates = [\<lparr>hg_id = ''c'', hg_passed = True\<rparr>, \<lparr>hg_id = ''d'', hg_passed = True\<rparr>],
     kr_evidenceLogicalIds = [''log''], kr_qualityScore = None\<rparr>"

definition sample_authorization :: "string \<Rightarrow> char \<Rightarrow> verifier_authorization" where
  "sample_authorization i c = \<lparr>va_id = i, va_evidenceLogicalId = ''log'', va_passed = True,
     va_provenanceSha256 = replicate 64 (CHR ''0''), va_contentSha256 = replicate 64 c\<rparr>"

definition sample_verifier :: "verifier_authorization list \<Rightarrow> verifier_evidence" where
  "sample_verifier as = \<lparr>ve_actor = ''verifier'', ve_packetHash = replicate 64 (CHR ''b''), ve_head = replicate 40 (CHR ''a''),
     ve_generation = 1, ve_authorizations = as\<rparr>"

text \<open>A receipt that is approved, and evidence whose two authorizations describe it differently.\<close>

lemma sample_validation:
  "validateCriticReceipt sample_critic_binding sample_critic_receipt
     (sample_verifier [sample_authorization ''c'' (CHR ''1''), sample_authorization ''d'' (CHR ''1'')]) = Inr sample_critic_receipt"
  "validateCriticReceipt sample_critic_binding sample_critic_receipt
     (sample_verifier [sample_authorization ''c'' (CHR ''1''), sample_authorization ''d'' (CHR ''2'')]) =
     Inl InconsistentVerifierEvidenceHashes"
  by code_simp+

section \<open>Packets\<close>

lemma bounded_array_normal:
  "bounded_array least most p xs = Some xs \<longleftrightarrow> least \<le> length xs \<and> length xs \<le> most \<and> list_all (\<lambda>x. p x = Some x) xs"
  by (auto simp: bounded_array_def array_of_normal)

lemma packet_schema_parts:
  assumes "TaskPacketSchema E p = Some p"
  shows "1 \<le> length (tp_criteria p) \<and> length (tp_criteria p) \<le> 6 \<and> length (tp_evidenceRequirements p) \<le> 12 \<and>
    list_all (\<lambda>c. packetCriterionSchema c = Some c) (tp_criteria p) \<and>
    list_all (\<lambda>e. evidenceRequirementSchema e = Some e) (tp_evidenceRequirements p) \<and>
    counter_positive (tp_generation p) = Some (tp_generation p) \<and> packet_refinement p"
proof -
  have base: "taskPacketBaseSchema E tag_array p = Some p"
    using assms by (auto simp: TaskPacketSchema_def elim!: bind_SomeE split: if_splits)
  then show ?thesis using TaskPacketSchema_refined [OF assms] unfolding base_schema_iff bounded_array_normal by blast
qed

text \<open>
  C22. A compiled packet can always be bound: for two different actors with plain names the binding requires the criteria of the
  packet as gates, in order, each with its evidence, and exactly the evidence the packet requires.
\<close>

theorem packet_binding_total:
  assumes "compileTaskPacket E sha inp = Inr c" "\<forall>x. hex_string 64 (sha x)" "hex_string 40 (is_head q)" "is_packet q = c"
    "criticIdentifier (is_actor q) = Some (is_actor q)" "criticIdentifier (is_verifierActor q) = Some (is_verifierActor q)"
    "criticIdentifier (is_receiptId q) = Some (is_receiptId q)" "is_actor q \<noteq> is_verifierActor q"
  shows "\<exists>b. bindCriticReceiptToPacket q = Some b \<and> kb_packetHash b = cp_packetHash c \<and>
    set (kb_requiredGateEvidence b) = (\<lambda>x. \<lparr>ge_id = pc_id x, ge_evidenceLogicalId = pc_evidenceLogicalId x\<rparr>) ` set (tp_criteria (cp_packet c)) \<and>
    set (kb_requiredEvidenceLogicalIds b) = er_logicalId ` {e \<in> set (tp_evidenceRequirements (cp_packet c)). er_required e}"
proof -
  let ?p = "cp_packet c" and ?g = "\<lambda>x. \<lparr>ge_id = pc_id x, ge_evidenceLogicalId = pc_evidenceLogicalId x\<rparr>"
  note p = packet_schema_parts [OF compiled_packet_parts(1) [OF assms(1)]]
  define ids es ge where "ids = sortedStrings (map pc_id (tp_criteria ?p))"
    and "es = sortedStrings (map er_logicalId (filter er_required (tp_evidenceRequirements ?p)))"
    and "ge = sort_key ge_id (map ?g (tp_criteria ?p))"
  have crit: "\<forall>x \<in> set (tp_criteria ?p). bounded_text 160 (pc_id x) = Some (pc_id x) \<and>
      bounded_text 160 (pc_evidenceLogicalId x) = Some (pc_evidenceLogicalId x)"
    using p by (auto simp: list_all_iff packetCriterionSchema_def elim!: bind_SomeE)
  have req: "\<forall>x \<in> set (tp_evidenceRequirements ?p). bounded_text 160 (er_logicalId x) = Some (er_logicalId x)"
  proof
    fix x assume "x \<in> set (tp_evidenceRequirements ?p)"
    then have "evidenceRequirementSchema x = Some x" using p by (auto simp: list_all_iff)
    then show "bounded_text 160 (er_logicalId x) = Some (er_logicalId x)"
      by (cases x) (auto simp: evidenceRequirementSchema_def elim!: bind_SomeE)
  qed
  have "criticIdentifier x = bounded_text 160 x" for x by (simp add: criticIdentifier_def)
  note criticIdentifier = this
  have few: "length (filter er_required (tp_evidenceRequirements ?p)) \<le> 32"
    using p by (intro le_trans [OF length_filter_le]) simp
  have parsed: "identifiers 1 ids = Some ids" "identifiers 0 es = Some es" "bounded_array 1 32 requiredGateEvidenceSchema ge = Some ge"
    using p crit req few
    by (auto simp: identifiers_def criticIdentifier_def bounded_array_normal list_all_iff ids_def es_def ge_def sortedStrings_def
        requiredGateEvidenceSchema_def)
  have distinct: "distinct (map pc_id (tp_criteria ?p))" "distinct (map er_logicalId (tp_evidenceRequirements ?p))"
    "set (map pc_evidenceLogicalId (tp_criteria ?p)) = set es"
    using p by (auto simp: packet_refinement_def sameStringSet_iff es_def sortedStrings_def)
  have mapped: "map ge_id ge = ids"
    unfolding ids_def ge_def sortedStrings_def by (rule properties_for_sort [symmetric]) (simp_all add: image_mset.compositionality comp_def)
  have "set (map ge_evidenceLogicalId ge) = set es" using distinct(3) by (simp add: ge_def image_image)
  then have refined: "sortedUniqueStrings ids" "sortedUniqueStrings es" "sameStringSet es (map ge_evidenceLogicalId ge)"
    using distinct(1,2) by (auto simp: sortedUniqueStrings_iff sameStringSet_iff strict_sorted_iff ids_def es_def sortedStrings_def distinct_map_filter)
  have names: "hash_schema (cp_packetHash c) = Some (cp_packetHash c)" "commit_schema (is_head q) = Some (is_head q)"
    using assms(2,3) compiled_packet_parts(8) [OF assms(1)] by (simp_all add: hash_schema_def commit_schema_def)
  let ?b = "\<lparr>kb_actor = is_actor q, kb_verifierActor = is_verifierActor q, kb_packetHash = cp_packetHash c, kb_head = is_head q,
    kb_generation = tp_generation ?p, kb_receiptId = is_receiptId q, kb_requiredHardGateIds = ids,
    kb_requiredEvidenceLogicalIds = es, kb_requiredGateEvidence = ge\<rparr>"
  have "set ids = ge_id ` set ge" unfolding mapped [symmetric] by simp
  then have "CriticReceiptBindingSchema ?b = Some ?b"
    using assms(5-8) p parsed names refined mapped
    by (simp add: CriticReceiptBindingSchema_def binding_refinement_def sameStringSet_iff Let_def)
  then have "bindCriticReceiptToPacket q = Some ?b"
    by (simp add: bindCriticReceiptToPacket_def Let_def assms(4) ids_def es_def ge_def)
  then show ?thesis by (auto simp: ge_def es_def sortedStrings_def image_iff)
qed

definition sample_issue :: binding_issue where
  "sample_issue = \<lparr>is_actor = ''critic'', is_verifierActor = ''verifier'', is_head = replicate 40 (CHR ''a''), is_receiptId = ''r1'',
     is_packet = projr (compileTaskPacket sample_env (\<lambda>_. replicate 64 (CHR ''b'')) sample_input)\<rparr>"

theorem packet_binding_total_witness:
  "\<exists>b. bindCriticReceiptToPacket sample_issue = Some b \<and> kb_requiredEvidenceLogicalIds b \<noteq> []"
proof -
  let ?sha = "\<lambda>_ :: string. replicate 64 (CHR ''b'')"
  have "\<not> isl (compileTaskPacket sample_env ?sha sample_input)" by code_simp
  then have c: "compileTaskPacket sample_env ?sha sample_input = Inr (is_packet sample_issue)"
    by (simp add: sample_issue_def isl_def)
  have names: "hex_string 40 (is_head sample_issue)" "criticIdentifier (is_actor sample_issue) = Some (is_actor sample_issue)"
    "criticIdentifier (is_verifierActor sample_issue) = Some (is_verifierActor sample_issue)"
    "criticIdentifier (is_receiptId sample_issue) = Some (is_receiptId sample_issue)" "is_actor sample_issue \<noteq> is_verifierActor sample_issue"
    by code_simp+
  have "hex_string 64 (?sha x)" for x by code_simp
  then obtain b where b: "bindCriticReceiptToPacket sample_issue = Some b"
    "set (kb_requiredEvidenceLogicalIds b) = er_logicalId ` {e \<in> set (tp_evidenceRequirements (cp_packet (is_packet sample_issue))). er_required e}"
    using packet_binding_total [OF c _ names(1) refl names(2-5)] by blast
  have "map er_logicalId (filter er_required (tp_evidenceRequirements (cp_packet (is_packet sample_issue)))) = [''log'']" by code_simp
  then have "set (kb_requiredEvidenceLogicalIds b) = {''log''}" unfolding b(2) set_filter [symmetric] set_map [symmetric] by simp
  then show ?thesis using b(1) by force
qed

end
