(* ===== verification/Worker_Evidence.thy ===== *)
theory Worker_Evidence
  imports Migration_Records Display_Paths
begin

text \<open>
  The evidence of a worker's result: the schemas of its receipts (\<^verbatim>\<open>src/contracts/evidence-receipt.ts\<close>), the files of the
  bundle and their containment (\<^verbatim>\<open>src/contracts/artifact-containment.ts\<close>), and the commit it is bound to
  (\<^verbatim>\<open>src/contracts/git-evidence-binding.ts\<close>). What the file system and Git answer is an input; so are SHA-256 and the reading
  of a JSON text into typed values.
\<close>

section \<open>Receipts\<close>

record evidence_capture =
  ec_runId :: uuid
  ec_attempt :: nat
  ec_commit :: string

record artifact_claim =
  ac_path :: string
  ac_capture :: evidence_capture

record cleanup_claim =
  cl_resourceId :: string
  cl_receiptPath :: string

datatype resource_kind = ToolKind | ProcessKind | WorktreeKind | ResourceKind

record resource_evidence =
  re_resourceId :: string
  re_kind :: resource_kind

text \<open>\<open>NoCleanup\<close> has the scenario of its declaration; the kinds it declares are the empty tuple.\<close>

datatype cleanup_evidence = LegacyCleanup "cleanup_claim list" | ClaimedCleanup "cleanup_claim list" | NoCleanup string

record worker_output =
  wo_exitCode :: int
  wo_truncated :: bool
  wo_schemaOverridden :: bool
  wo_aborted :: bool
  wo_blocked :: bool

record worker_receipt =
  we_runId :: uuid
  we_attempt :: nat
  we_runRevision :: nat
  we_ownerEpoch :: nat
  we_taskGeneration :: nat
  we_workerRole :: worker_role
  we_actualAgentId :: string
  we_actualJobId :: "string option"
  we_captureCommit :: string
  we_output :: worker_output
  we_artifacts :: "artifact_claim list"
  we_resources :: "resource_evidence list"
  we_cleanup :: cleanup_evidence

record cleanup_receipt =
  cu_runId :: uuid
  cu_attempt :: nat
  cu_actualAgentId :: string
  cu_resourceId :: string
  cu_captureCommit :: string

definition evidence_text :: "string \<Rightarrow> string option" where
  "evidence_text = bounded_text 1024"

definition captureSchema :: "host_env \<Rightarrow> evidence_capture \<Rightarrow> evidence_capture option" where
  "captureSchema E c = do {
     r \<leftarrow> uuid_schema E (ec_runId c);
     n \<leftarrow> counter (ec_attempt c);
     h \<leftarrow> commit_schema (ec_commit c);
     Some \<lparr>ec_runId = r, ec_attempt = n, ec_commit = h\<rparr> }"

definition EvidenceArtifactClaimSchema :: "host_env \<Rightarrow> artifact_claim \<Rightarrow> artifact_claim option" where
  "EvidenceArtifactClaimSchema E a = do {
     p \<leftarrow> evidence_text (ac_path a);
     c \<leftarrow> captureSchema E (ac_capture a);
     Some \<lparr>ac_path = p, ac_capture = c\<rparr> }"

definition CleanupReceiptClaimSchema :: "cleanup_claim \<Rightarrow> cleanup_claim option" where
  "CleanupReceiptClaimSchema c = do {
     r \<leftarrow> evidence_text (cl_resourceId c);
     p \<leftarrow> evidence_text (cl_receiptPath c);
     Some \<lparr>cl_resourceId = r, cl_receiptPath = p\<rparr> }"

definition ResourceEvidenceSchema :: "resource_evidence \<Rightarrow> resource_evidence option" where
  "ResourceEvidenceSchema r = map_option (\<lambda>i. \<lparr>re_resourceId = i, re_kind = re_kind r\<rparr>) (evidence_text (re_resourceId r))"

definition cleanupReceiptClaims :: "cleanup_claim list \<Rightarrow> cleanup_claim list option" where
  "cleanupReceiptClaims = bounded_array 1 32 CleanupReceiptClaimSchema"

fun CleanupEvidenceSchema :: "cleanup_evidence \<Rightarrow> cleanup_evidence option" where
  "CleanupEvidenceSchema (LegacyCleanup claims) = map_option LegacyCleanup (cleanupReceiptClaims claims)"
| "CleanupEvidenceSchema (ClaimedCleanup claims) = map_option ClaimedCleanup (cleanupReceiptClaims claims)"
| "CleanupEvidenceSchema (NoCleanup scenario) = map_option NoCleanup (evidence_text scenario)"

fun cleanupClaimsForEvidence :: "cleanup_evidence \<Rightarrow> cleanup_claim list" where
  "cleanupClaimsForEvidence (LegacyCleanup claims) = claims"
| "cleanupClaimsForEvidence (ClaimedCleanup claims) = claims"
| "cleanupClaimsForEvidence (NoCleanup _) = []"

definition receipt_refinement :: "worker_receipt \<Rightarrow> bool" where
  "receipt_refinement r \<longleftrightarrow>
     distinct (map ac_path (we_artifacts r)) \<and> distinct (map re_resourceId (we_resources r)) \<and>
     distinct (map cl_resourceId (cleanupClaimsForEvidence (we_cleanup r))) \<and>
     distinct (map cl_receiptPath (cleanupClaimsForEvidence (we_cleanup r))) \<and>
     (case we_cleanup r of
        ClaimedCleanup claims \<Rightarrow> length (we_resources r) = length claims \<and>
          list_all (\<lambda>x. re_resourceId x \<in> set (map cl_resourceId claims)) (we_resources r)
      | _ \<Rightarrow> True)"

definition WorkerEvidenceReceiptSchema :: "host_env \<Rightarrow> worker_receipt \<Rightarrow> worker_receipt option" where
  "WorkerEvidenceReceiptSchema E r = do {
     ri \<leftarrow> uuid_schema E (we_runId r);
     at \<leftarrow> counter (we_attempt r);
     rr \<leftarrow> counter (we_runRevision r);
     oe \<leftarrow> counter (we_ownerEpoch r);
     tg \<leftarrow> counter_positive (we_taskGeneration r);
     ag \<leftarrow> runtimeId (we_actualAgentId r);
     jo \<leftarrow> nullable runtimeId (we_actualJobId r);
     cc \<leftarrow> commit_schema (we_captureCommit r);
     as \<leftarrow> bounded_array 1 32 (EvidenceArtifactClaimSchema E) (we_artifacts r);
     rs \<leftarrow> bounded_array 0 32 ResourceEvidenceSchema (we_resources r);
     cu \<leftarrow> CleanupEvidenceSchema (we_cleanup r);
     let q = \<lparr>we_runId = ri, we_attempt = at, we_runRevision = rr, we_ownerEpoch = oe, we_taskGeneration = tg,
       we_workerRole = we_workerRole r, we_actualAgentId = ag, we_actualJobId = jo, we_captureCommit = cc,
       we_output = we_output r, we_artifacts = as, we_resources = rs, we_cleanup = cu\<rparr>;
     if receipt_refinement q then Some q else None }"

definition CleanupReceiptSchema :: "host_env \<Rightarrow> cleanup_receipt \<Rightarrow> cleanup_receipt option" where
  "CleanupReceiptSchema E c = do {
     r \<leftarrow> uuid_schema E (cu_runId c);
     n \<leftarrow> counter (cu_attempt c);
     a \<leftarrow> runtimeId (cu_actualAgentId c);
     i \<leftarrow> evidence_text (cu_resourceId c);
     h \<leftarrow> commit_schema (cu_captureCommit c);
     Some \<lparr>cu_runId = r, cu_attempt = n, cu_actualAgentId = a, cu_resourceId = i, cu_captureCommit = h\<rparr> }"

section \<open>Compact outputs\<close>

text \<open>
  What a worker, a critic and a QA agent report: whether they passed or approved (the other literal is \<^verbatim>\<open>BLOCKED\<close>), the
  identity of the receipt and the hashes of its artifacts.
\<close>

record compact_output =
  co_passed :: bool
  co_receiptId :: string
  co_artifactHashes :: "string list"

record compact_qa_output =
  cq_output :: compact_output
  cq_scenarioIds :: "string list"

definition artifactHashes :: "string list \<Rightarrow> string list option" where
  "artifactHashes hs = do {
     xs \<leftarrow> bounded_array 1 32 hash_schema hs;
     if distinct xs then Some xs else None }"

definition CompactWorkerOutputSchema :: "compact_output \<Rightarrow> compact_output option" where
  "CompactWorkerOutputSchema c = do {
     i \<leftarrow> hash_schema (co_receiptId c);
     hs \<leftarrow> artifactHashes (co_artifactHashes c);
     Some \<lparr>co_passed = co_passed c, co_receiptId = i, co_artifactHashes = hs\<rparr> }"

definition CompactCriticOutputSchema :: "compact_output \<Rightarrow> compact_output option" where
  "CompactCriticOutputSchema c = do {
     i \<leftarrow> hash_schema (co_receiptId c);
     hs \<leftarrow> artifactHashes (co_artifactHashes c);
     Some \<lparr>co_passed = co_passed c, co_receiptId = i, co_artifactHashes = hs\<rparr> }"

definition CompactQaOutputSchema :: "compact_qa_output \<Rightarrow> compact_qa_output option" where
  "CompactQaOutputSchema q = do {
     i \<leftarrow> hash_schema (co_receiptId (cq_output q));
     ss \<leftarrow> bounded_array 1 32 evidence_text (cq_scenarioIds q);
     hs \<leftarrow> artifactHashes (co_artifactHashes (cq_output q));
     Some \<lparr>cq_output = \<lparr>co_passed = co_passed (cq_output q), co_receiptId = i, co_artifactHashes = hs\<rparr>, cq_scenarioIds = ss\<rparr> }"

section \<open>Contained files\<close>

definition MAX_RECEIPT_BYTES :: nat where
  "MAX_RECEIPT_BYTES = 256 * 1024"

definition MAX_ARTIFACT_BYTES :: nat where
  "MAX_ARTIFACT_BYTES = 16 * 1024 * 1024"

definition MAX_BUNDLE_BYTES :: nat where
  "MAX_BUNDLE_BYTES = 64 * 1024 * 1024"

record contained_file =
  cn_displayPath :: string
  cn_relativePath :: string
  cn_size :: nat
  cn_sha256 :: string
  cn_bytes :: string

text \<open>
  What the host answers while one file is read, \<open>None\<close> where a call throws: the real path of the evidence directory, the entry
  (a link, a file, its size), its real path, the opened file (a file, its size, its time), the bytes read, size and time after
  that, and whether it is closed.
\<close>

record evidence_host =
  eh_rootReal :: "string option"
  eh_before :: "(bool \<times> bool \<times> nat) option"
  eh_candidateReal :: "string option"
  eh_opened :: "(bool \<times> nat \<times> nat) option"
  eh_bytes :: "string option"
  eh_after :: "(nat \<times> nat) option"
  eh_closed :: bool

definition evidenceRootPath :: "canonical_root \<Rightarrow> uuid \<Rightarrow> nat \<Rightarrow> string" where
  "evidenceRootPath root runId n = join_path (root_displayPath root)
     [''.omo'', ''omp-lazy'', ''runs'', runId, ''attempts'', decimal n, ''evidence'']"

definition containedFile ::
    "host_env \<Rightarrow> (string \<Rightarrow> string) \<Rightarrow> canonical_root \<Rightarrow> string \<Rightarrow> string \<Rightarrow> nat \<Rightarrow> evidence_host \<Rightarrow> contained_file option" where
  "containedFile E sha repository evidenceRoot advertisedPath maximumBytes h =
     (if \<not> isDisplayPathContained evidenceRoot (resolve_path (root_displayPath repository) advertisedPath) then None
      else do {
        rootReal \<leftarrow> eh_rootReal h;
        (if \<not> isCanonicalPathContained E (root_canonicalPath repository) (canonicalComparisonPath E rootReal) then None
         else do {
           (link, file, n) \<leftarrow> eh_before h;
           (if link \<or> \<not> file \<or> n = 0 \<or> maximumBytes < n then None
            else do {
              candidateReal \<leftarrow> eh_candidateReal h;
              (if \<not> isCanonicalPathContained E (canonicalComparisonPath E rootReal) (canonicalComparisonPath E candidateReal) then None
               else do {
                 (file', m, t) \<leftarrow> eh_opened h;
                 (if \<not> file' \<or> m \<noteq> n \<or> maximumBytes < m then None
                  else do {
                    bytes \<leftarrow> eh_bytes h;
                    (m', t') \<leftarrow> eh_after h;
                    if length bytes \<noteq> m \<or> m' \<noteq> m \<or> t' \<noteq> t \<or> \<not> eh_closed h then None
                    else Some \<lparr>cn_displayPath = candidateReal,
                      cn_relativePath = forward_slashes (drop (length rootReal + 1) candidateReal),
                      cn_size = length bytes, cn_sha256 = sha bytes, cn_bytes = bytes\<rparr> }) }) }) }) })"

section \<open>The bundle\<close>

record evidence_bundle =
  eb_receipt :: worker_receipt
  eb_receiptFile :: contained_file
  eb_artifacts :: "contained_file list"
  eb_cleanupReceipts :: "contained_file list"
  eb_artifactHash :: string

record evidence_env =
  ee_sha :: "string \<Rightarrow> string"
  ee_receipt :: "string \<Rightarrow> worker_receipt file_bytes"
  ee_cleanup :: "string \<Rightarrow> cleanup_receipt file_bytes"

definition decodeReceipt :: "host_env \<Rightarrow> evidence_env \<Rightarrow> string \<Rightarrow> worker_receipt option" where
  "decodeReceipt E ee bytes = (case ee_receipt ee bytes of Json r \<Rightarrow> WorkerEvidenceReceiptSchema E r | _ \<Rightarrow> None)"

definition decodeCleanup :: "host_env \<Rightarrow> evidence_env \<Rightarrow> string \<Rightarrow> cleanup_receipt option" where
  "decodeCleanup E ee bytes = (case ee_cleanup ee bytes of Json r \<Rightarrow> CleanupReceiptSchema E r | _ \<Rightarrow> None)"

definition cleanup_matches :: "worker_receipt \<Rightarrow> cleanup_claim \<Rightarrow> cleanup_receipt \<Rightarrow> bool" where
  "cleanup_matches receipt claim c \<longleftrightarrow> cu_resourceId c = cl_resourceId claim \<and> cu_runId c = we_runId receipt \<and>
     cu_attempt c = we_attempt receipt \<and> cu_actualAgentId c = we_actualAgentId receipt \<and>
     cu_captureCommit c = we_captureCommit receipt"

text \<open>The files are read one after the other; \<open>host k\<close> answers while the \<open>k\<close>-th is read.\<close>

fun read_artifacts ::
    "(nat \<Rightarrow> string \<Rightarrow> contained_file option) \<Rightarrow> nat \<Rightarrow> artifact_claim list \<Rightarrow> contained_file list option" where
  "read_artifacts read k [] = Some []"
| "read_artifacts read k (claim # claims) = do {
     f \<leftarrow> read k (ac_path claim);
     fs \<leftarrow> read_artifacts read (k + 1) claims;
     Some (f # fs) }"

fun read_cleanups ::
    "host_env \<Rightarrow> evidence_env \<Rightarrow> worker_receipt \<Rightarrow> (nat \<Rightarrow> string \<Rightarrow> contained_file option) \<Rightarrow> nat \<Rightarrow> cleanup_claim list \<Rightarrow>
       contained_file list option" where
  "read_cleanups E ee receipt read k [] = Some []"
| "read_cleanups E ee receipt read k (claim # claims) = do {
     f \<leftarrow> read k (cl_receiptPath claim);
     c \<leftarrow> decodeCleanup E ee (cn_bytes f);
     (if \<not> cleanup_matches receipt claim c then None
      else do { fs \<leftarrow> read_cleanups E ee receipt read (k + 1) claims; Some (f # fs) }) }"

definition artifact_hash :: "(string \<Rightarrow> string) \<Rightarrow> contained_file list \<Rightarrow> string" where
  "artifact_hash sha files = sha (join_with nul (map (\<lambda>f. cn_relativePath f @ nul @ cn_sha256 f) files))"

definition validateEvidenceBundle ::
    "host_env \<Rightarrow> evidence_env \<Rightarrow> canonical_root \<Rightarrow> uuid \<Rightarrow> nat \<Rightarrow> (nat \<Rightarrow> evidence_host) \<Rightarrow> string \<Rightarrow> string + evidence_bundle" where
  "validateEvidenceBundle E ee repository runId n host receiptPath =
     (let evidenceRoot = evidenceRootPath repository runId n;
          read = (\<lambda>most k path. containedFile E (ee_sha ee) repository evidenceRoot path most (host k))
      in case read MAX_RECEIPT_BYTES 0 receiptPath of
        None \<Rightarrow> Inl ''invalid_receipt_file''
      | Some receiptFile \<Rightarrow>
        (case decodeReceipt E ee (cn_bytes receiptFile) of
           None \<Rightarrow> Inl ''malformed_receipt''
         | Some receipt \<Rightarrow>
           (if (case we_cleanup receipt of NoCleanup _ \<Rightarrow> we_resources receipt \<noteq> [] | _ \<Rightarrow> False) then Inl ''cleanup_required''
            else case read_artifacts (read MAX_ARTIFACT_BYTES) 1 (we_artifacts receipt) of
              None \<Rightarrow> Inl ''invalid_artifact''
            | Some artifacts \<Rightarrow>
              (case read_cleanups E ee receipt (read MAX_RECEIPT_BYTES) (1 + length artifacts)
                  (cleanupClaimsForEvidence (we_cleanup receipt)) of
                 None \<Rightarrow> Inl ''invalid_cleanup_receipt''
               | Some cleanups \<Rightarrow>
                 (let every = receiptFile # artifacts @ cleanups
                  in if \<not> distinct (map (\<lambda>f. canonicalComparisonPath E (cn_displayPath f)) every) then Inl ''duplicate_evidence_path''
                     else if MAX_BUNDLE_BYTES < sum_list (map cn_size every) then Inl ''evidence_too_large''
                     else Inr \<lparr>eb_receipt = receipt, eb_receiptFile = receiptFile, eb_artifacts = artifacts,
                       eb_cleanupReceipts = cleanups, eb_artifactHash = artifact_hash (ee_sha ee) artifacts\<rparr>)))))"

section \<open>The commit\<close>

text \<open>What \<^verbatim>\<open>git rev-parse\<close> and \<^verbatim>\<open>git status\<close> print, \<open>None\<close> when they fail or throw.\<close>

record git_evidence_host =
  gh_head :: "string option"
  gh_status :: "string option"

definition readGitEvidenceBinding :: "git_evidence_host \<Rightarrow> string + string" where
  "readGitEvidenceBinding h = (case gh_head h of
     None \<Rightarrow> Inl ''git_unavailable''
   | Some out \<Rightarrow>
     (if \<not> hex_string 40 (js_trim out) then Inl ''git_unavailable''
      else case gh_status h of
        None \<Rightarrow> Inl ''git_unavailable''
      | Some status \<Rightarrow> (if js_trim status = [] then Inr (js_trim out) else Inl ''dirty_worktree'')))"

end
