(* ===== verification/Worker_Results.thy ===== *)
theory Worker_Results
  imports Worker_Evidence Tool_Gates
begin

text \<open>
  The acceptance of a worker's result (\<^verbatim>\<open>src/contracts/worker-result-acceptance.ts\<close>): the worker is found among the agents
  the owner has bound, its evidence is validated and compared with the run and the commit, and the result is entered in the
  ledger of acceptances or counted in that of rejections.
\<close>

section \<open>Inputs and results\<close>

datatype parent_decision = AcceptAfterReview | RetryWorker | CancelDispatch

record worker_acceptance_input =
  wa_agentId :: string
  wa_receiptPath :: string
  wa_parentDecision :: "parent_decision option"

definition parent_decision_named :: "string \<Rightarrow> parent_decision" where
  "parent_decision_named s = (if s = ''accept_after_review'' then AcceptAfterReview
     else if s = ''retry_worker'' then RetryWorker else CancelDispatch)"

definition WorkerAcceptanceInputSchema :: "tool_value \<Rightarrow> worker_acceptance_input option" where
  "WorkerAcceptanceInputSchema v = (case strict_object
       [(''agentId'', False, id_text), (''receiptPath'', False, text_schema evidence_text),
        (''parentDecision'', True, enum_schema [''accept_after_review'', ''retry_worker'', ''cancel_dispatch''])] v of
     None \<Rightarrow> None
   | Some w \<Rightarrow> (case (text_member ''agentId'' w, text_member ''receiptPath'' w) of
       (Some a, Some p) \<Rightarrow> Some \<lparr>wa_agentId = a, wa_receiptPath = p,
         wa_parentDecision = map_option parent_decision_named (text_member ''parentDecision'' w)\<rparr>
     | _ \<Rightarrow> None))"

datatype worker_result =
    WorkAccepted string | WorkReplayed string
  | WorkRejected string nat | WorkNeedsParent string nat
  | WorkThrows | WorkDied

record dispatch_scope =
  ds_scope :: task_run_scope
  ds_identity :: runtime_identity
  ds_generation :: nat
  ds_role :: worker_role
  ds_taskId :: string
  ds_input :: worker_acceptance_input

definition run_terminal :: "run \<Rightarrow> bool" where
  "run_terminal r \<longleftrightarrow> (case run_payload r of
     StartPayload _ \<Rightarrow> run_status_of r \<in> {Completed, Cancelled, Failed, Abandoned}
   | UlwPayload _ \<Rightarrow> run_status_of r \<in> {Completed, Cancelled, Failed})"

fun semanticAttempt :: "worker_role \<Rightarrow> nat" where
  "semanticAttempt WorkerLow = 1"
| "semanticAttempt WorkerMedium = 2"
| "semanticAttempt WorkerHigh = 3"

text \<open>The conditions in their order, each with the code that is reported when it is the first that holds.\<close>

definition binding_errors :: "dispatch_scope \<Rightarrow> worker_receipt \<Rightarrow> string \<Rightarrow> (bool \<times> string) list" where
  "binding_errors ds receipt head = (let r = scope_run (ds_scope ds); i = ds_identity ds; out = we_output receipt in
    [(we_runId receipt \<noteq> run_runId r, ''wrong_run''),
     (we_attempt receipt \<noteq> run_progressRevision r, ''wrong_attempt''),
     (we_runRevision receipt \<noteq> run_revision r, ''wrong_revision''),
     (we_ownerEpoch receipt \<noteq> own_epoch (run_owner r), ''owner_epoch_mismatch''),
     (we_taskGeneration receipt \<noteq> ds_generation ds, ''task_scope_mismatch''),
     (we_actualAgentId receipt \<noteq> ri_actualAgentId i, ''wrong_agent_id''),
     (we_actualJobId receipt \<noteq> ri_actualJobId i, ''wrong_job_id''),
     (Some (worker_role_name (we_workerRole receipt)) \<noteq> ri_agentType i, ''wrong_worker_role''),
     (we_captureCommit receipt \<noteq> head, ''wrong_capture_commit''),
     (wo_exitCode out \<noteq> 0, ''nonzero_output''),
     (wo_truncated out, ''truncated_output''),
     (wo_schemaOverridden out, ''schema_overridden_output''),
     (wo_aborted out, ''aborted_output''),
     (wo_blocked out, ''blocked_output''),
     ((case we_cleanup receipt of NoCleanup _ \<Rightarrow> ri_actualJobId i \<noteq> None | _ \<Rightarrow> False), ''cleanup_required''),
     (list_ex (\<lambda>a. ec_runId (ac_capture a) \<noteq> run_runId r \<or> ec_attempt (ac_capture a) \<noteq> run_progressRevision r \<or>
        ec_commit (ac_capture a) \<noteq> head) (we_artifacts receipt), ''stale_artifact_metadata'')])"

definition receiptBindingError :: "dispatch_scope \<Rightarrow> worker_receipt \<Rightarrow> string \<Rightarrow> string option" where
  "receiptBindingError ds receipt head = map_option snd (List.find fst (binding_errors ds receipt head))"

section \<open>Acceptance\<close>

text \<open>
  What the host does in one call: the lock, the working directory, the reading of the state, the signal before and after the
  evidence, Git before and after it, the evidence files, the two ledgers, and the release of the lock.
\<close>

record worker_io =
  wi_lock :: bool
  wi_cwd :: bool
  wi_readable :: bool
  wi_ledgersReadable :: bool
  wi_abortedBefore :: bool
  wi_abortedAfter :: bool
  wi_git :: git_evidence_host
  wi_finalGit :: git_evidence_host
  wi_files :: "nat \<Rightarrow> evidence_host"
  wi_accept :: accept_io
  wi_reject :: write_io
  wi_released :: bool

record worker_env =
  wv_env :: host_env
  wv_root :: canonical_root
  wv_evidence :: evidence_env
  wv_size :: "acceptance_event file_bytes \<Rightarrow> nat"

definition rejection_scope_of :: "dispatch_scope \<Rightarrow> rejection_scope" where
  "rejection_scope_of ds = (let r = scope_run (ds_scope ds) in
     \<lparr>rs_runId = run_runId r, rs_attempt = run_progressRevision r, rs_runRevision = run_revision r,
      rs_ownerEpoch = own_epoch (run_owner r), rs_taskGeneration = ds_generation ds,
      rs_actualAgentId = ri_actualAgentId (ds_identity ds),
      rs_v2 = Some \<lparr>as_taskId = ds_taskId ds, as_role = ds_role ds, as_semanticAttempt = semanticAttempt (ds_role ds)\<rparr>\<rparr>)"

definition put_rejections :: "disk \<Rightarrow> uuid \<Rightarrow> rejection_ledger file_bytes option \<Rightarrow> disk" where
  "put_rejections d i slot = d\<lparr>d_rejections := (d_rejections d)(i := slot)\<rparr>"

definition put_acceptances :: "disk \<Rightarrow> uuid \<Rightarrow> acceptance_files \<Rightarrow> disk" where
  "put_acceptances d i fs = d\<lparr>d_acceptances := (d_acceptances d)(i := fs)\<rparr>"

definition count_result :: "string \<Rightarrow> nat \<Rightarrow> worker_result" where
  "count_result code n = (if n = 3 then WorkNeedsParent code n else WorkRejected code n)"

definition reject_result ::
    "worker_env \<Rightarrow> worker_io \<Rightarrow> dispatch_scope \<Rightarrow> string \<Rightarrow> disk \<Rightarrow> disk \<times> worker_result" where
  "reject_result we io ds code d =
     (let r = scope_run (ds_scope ds); i = run_runId r; s = rejection_scope_of ds
      in case readRejections (wv_env we) i (run_is_v2 r) (d_rejections d i) of
        Inl _ \<Rightarrow> (d, WorkThrows)
      | Inr l \<Rightarrow>
        (if map_option re_count (find_rejection l s) = Some 3 then (d, count_result code 3)
         else case reject (wv_env we) l s of
           Inl _ \<Rightarrow> (d, WorkThrows)
         | Inr (l', n) \<Rightarrow>
           (case atomicReplace (wi_reject io) (stringify l') (d_rejections d i) of
              (slot, out) \<Rightarrow> (put_rejections d i slot,
                case out of Published \<Rightarrow> count_result code n | WriteKilled \<Rightarrow> WorkDied | _ \<Rightarrow> WorkThrows))))"

definition accepted_event :: "dispatch_scope \<Rightarrow> evidence_bundle \<Rightarrow> acceptance_event" where
  "accepted_event ds b = (let receipt = eb_receipt b in
     \<lparr>acc_sequence = 0, acc_idempotencyKey = [], acc_runId = we_runId receipt, acc_attempt = we_attempt receipt,
      acc_runRevision = we_runRevision receipt, acc_ownerSessionId = own_sessionId (run_owner (scope_run (ds_scope ds))),
      acc_ownerEpoch = we_ownerEpoch receipt, acc_taskGeneration = we_taskGeneration receipt,
      acc_workerRole = we_workerRole receipt, acc_actualAgentId = we_actualAgentId receipt,
      acc_actualJobId = we_actualJobId receipt, acc_captureCommit = we_captureCommit receipt,
      acc_receiptPath = cn_relativePath (eb_receiptFile b), acc_receiptHash = [], acc_artifactHash = eb_artifactHash b,
      acc_artifactPaths = map cn_relativePath (eb_artifacts b),
      acc_cleanupReceiptPaths = map cn_relativePath (eb_cleanupReceipts b),
      acc_cleanupStatus = Some (case we_cleanup receipt of NoCleanup _ \<Rightarrow> CleanupNotApplicable | _ \<Rightarrow> CleanupReceipts),
      acc_cleanupScenarioId = (case we_cleanup receipt of NoCleanup scenario \<Rightarrow> Some scenario | _ \<Rightarrow> None),
      acc_acceptedAfterReview = (wa_parentDecision (ds_input ds) = Some AcceptAfterReview),
      acc_scope = Some \<lparr>as_taskId = ds_taskId ds, as_role = ds_role ds, as_semanticAttempt = semanticAttempt (ds_role ds)\<rparr>\<rparr>)"

definition record_acceptance ::
    "worker_env \<Rightarrow> worker_io \<Rightarrow> dispatch_scope \<Rightarrow> evidence_bundle \<Rightarrow> nat \<Rightarrow> disk \<Rightarrow> disk \<times> worker_result" where
  "record_acceptance we io ds b prior d =
     (let r = scope_run (ds_scope ds); i = we_runId (eb_receipt b)
      in case accept (wv_env we) (wv_size we) (run_is_v2 r) (wi_accept io) (d_acceptances d i) (accepted_event ds b)
          (cn_sha256 (eb_receiptFile b)) of
        (fs, out) \<Rightarrow> (put_acceptances d i fs,
          case out of
            AcceptDone DuplicateReceipt \<Rightarrow> WorkRejected ''duplicate_receipt'' prior
          | AcceptDone Accepted \<Rightarrow> WorkAccepted (eb_artifactHash b)
          | AcceptDone AcceptReplayed \<Rightarrow> WorkReplayed (eb_artifactHash b)
          | _ \<Rightarrow> WorkThrows))"

text \<open>The evidence of a dispatch: its bundle, or the code of its rejection.\<close>

definition dispatch_evidence :: "worker_env \<Rightarrow> worker_io \<Rightarrow> dispatch_scope \<Rightarrow> string + evidence_bundle" where
  "dispatch_evidence we io ds =
     (let r = scope_run (ds_scope ds)
      in if wi_abortedBefore io then Inl ''interrupted''
         else case readGitEvidenceBinding (wi_git io) of
           Inl code \<Rightarrow> Inl code
         | Inr head \<Rightarrow>
           (case validateEvidenceBundle (wv_env we) (wv_evidence we) (wv_root we) (run_runId r) (run_progressRevision r)
               (wi_files io) (wa_receiptPath (ds_input ds)) of
              Inl code \<Rightarrow> Inl code
            | Inr b \<Rightarrow>
              (case receiptBindingError ds (eb_receipt b) head of
                 Some code \<Rightarrow> Inl code
               | None \<Rightarrow>
                 (if wi_abortedAfter io then Inl ''interrupted''
                  else case readGitEvidenceBinding (wi_finalGit io) of
                    Inl code \<Rightarrow> Inl code
                  | Inr finalHead \<Rightarrow> (if finalHead \<noteq> head then Inl ''head_changed'' else Inr b)))))"

definition acceptDispatch :: "worker_env \<Rightarrow> worker_io \<Rightarrow> dispatch_scope \<Rightarrow> disk \<Rightarrow> disk \<times> worker_result" where
  "acceptDispatch we io ds d =
     (let r = scope_run (ds_scope ds); i = run_runId r; decision = wa_parentDecision (ds_input ds)
      in if \<not> wi_ledgersReadable io then (d, WorkThrows)
         else case readRejections (wv_env we) i (run_is_v2 r) (d_rejections d i) of
        Inl _ \<Rightarrow> (d, WorkThrows)
      | Inr l \<Rightarrow>
        (let prior = rejectionCount l (rejection_scope_of ds)
         in if decision = Some RetryWorker \<or> decision = Some CancelDispatch
            then (d, count_result ''parent_declined_acceptance'' prior)
            else if prior = 3 \<and> decision \<noteq> Some AcceptAfterReview then (d, WorkNeedsParent ''retry_cap_reached'' 3)
            else case dispatch_evidence we io ds of
              Inl code \<Rightarrow> reject_result we io ds code d
            | Inr b \<Rightarrow> record_acceptance we io ds b prior d))"

text \<open>The worker that is dispatched, or the code of the refusal.\<close>

definition dispatch_of :: "task_run_scope \<Rightarrow> worker_acceptance_input \<Rightarrow> string + dispatch_scope" where
  "dispatch_of s inp =
     (if run_terminal (scope_run s) then Inl ''terminal_run''
      else let generation = taskGeneration s
        in case List.find (\<lambda>i. ri_actualAgentId i = wa_agentId inp) (runtimeIdentities s generation) of
          None \<Rightarrow> Inl ''task_scope_mismatch''
        | Some identity \<Rightarrow>
          (if generation = 0 then Inl ''task_scope_mismatch''
           else case Option.bind (ri_agentType identity) WorkerRoleSchema of
             None \<Rightarrow> Inl ''unowned_worker_role''
           | Some role \<Rightarrow> Inr \<lparr>ds_scope = s, ds_identity = identity, ds_generation = generation, ds_role = role,
               ds_taskId = (case ri_requestedName identity of
                  Some t \<Rightarrow> t | None \<Rightarrow> ri_toolCallId identity @ '':'' @ decimal (ri_itemIndex identity)),
               ds_input = inp\<rparr>))"

definition accept_worker_locked ::
    "worker_env \<Rightarrow> worker_io \<Rightarrow> string \<Rightarrow> worker_acceptance_input \<Rightarrow> disk \<Rightarrow> disk \<times> worker_result" where
  "accept_worker_locked we io session inp d =
     (if \<not> wi_cwd io then (d, WorkRejected ''cwd_mismatch'' 0)
      else if \<not> wi_readable io then (d, WorkThrows)
      else case resolveUnlocked (wv_env we) (wv_root we) d session of
        Inl _ \<Rightarrow> (d, WorkThrows)
      | Inr (ScopeFound s) \<Rightarrow>
        (case dispatch_of s inp of
           Inl code \<Rightarrow> (d, WorkRejected code 0)
         | Inr ds \<Rightarrow> acceptDispatch we io ds d)
      | Inr _ \<Rightarrow> (d, WorkRejected ''current_parent_required'' 0))"

definition accept_worker ::
    "worker_env \<Rightarrow> worker_io \<Rightarrow> string \<Rightarrow> tool_value \<Rightarrow> disk \<Rightarrow> disk \<times> worker_result" where
  "accept_worker we io session v d = (case WorkerAcceptanceInputSchema v of
     None \<Rightarrow> (d, WorkRejected ''malformed_payload'' 0)
   | Some inp \<Rightarrow>
     (if \<not> wi_lock io then (d, WorkRejected ''state_conflict'' 0)
      else case accept_worker_locked we io session inp d of
        (d', r) \<Rightarrow> (d', if r \<noteq> WorkDied \<and> \<not> wi_released io then WorkThrows else r)))"

end
