(* ===== verification/Worker_Result_Properties.thy ===== *)
theory Worker_Result_Properties
  imports Worker_Results Acceptance_Properties Gate_Properties
begin

text \<open>
  What the acceptance of a worker's result guarantees: the entry it leaves in the ledger says what the run, the bound agent
  and Git say, and the run's authority finds it.
\<close>

section \<open>The evidence that is let through\<close>

lemma receiptBindingError_None_iff:
  "receiptBindingError ds receipt head = None \<longleftrightarrow> (\<forall>e \<in> set (binding_errors ds receipt head). \<not> fst e)"
  by (auto simp: receiptBindingError_def find_None_iff)

lemma dispatch_evidence_InrD:
  assumes "dispatch_evidence we io ds = Inr b"
  obtains head where "readGitEvidenceBinding (wi_git io) = Inr head" "readGitEvidenceBinding (wi_finalGit io) = Inr head"
    "validateEvidenceBundle (wv_env we) (wv_evidence we) (wv_root we) (run_runId (scope_run (ds_scope ds)))
       (run_progressRevision (scope_run (ds_scope ds))) (wi_files io) (wa_receiptPath (ds_input ds)) = Inr b"
    "receiptBindingError ds (eb_receipt b) head = None"
  using assms by (auto simp: dispatch_evidence_def Let_def split: if_splits sum.splits option.splits)

lemma dispatch_of_InrD:
  assumes "dispatch_of s inp = Inr ds"
  shows "ds_scope ds = s \<and> ds_input ds = inp \<and> ds_generation ds = taskGeneration s \<and> taskGeneration s \<noteq> 0 \<and>
    \<not> run_terminal (scope_run s) \<and> ds_identity ds \<in> set (runtimeIdentities s (taskGeneration s)) \<and>
    ri_actualAgentId (ds_identity ds) = wa_agentId inp"
  using assms
  by (auto simp: dispatch_of_def Let_def dest!: find_SomeD split: if_splits option.splits)

section \<open>The entry\<close>

text \<open>The entry of an acceptance: that of the run, the generation and the agent of the dispatch.\<close>

definition accepts_dispatch :: "dispatch_scope \<Rightarrow> acceptance_event \<Rightarrow> bool" where
  "accepts_dispatch ds a \<longleftrightarrow> (let r = scope_run (ds_scope ds); i = ds_identity ds in
     acc_runId a = run_runId r \<and> acc_attempt a = run_progressRevision r \<and> acc_runRevision a = run_revision r \<and>
     acc_ownerSessionId a = own_sessionId (run_owner r) \<and> acc_ownerEpoch a = own_epoch (run_owner r) \<and>
     acc_taskGeneration a = ds_generation ds \<and> acc_actualAgentId a = ri_actualAgentId i \<and>
     acc_actualJobId a = ri_actualJobId i \<and> ri_agentType i = Some (worker_role_name (acc_workerRole a)) \<and>
     acc_taskId a = Some (js_trim (ds_taskId ds)) \<and> (acc_acceptedAfterReview a \<longleftrightarrow> wa_parentDecision (ds_input ds) = Some AcceptAfterReview))"

lemma candidate_fields:
  assumes "acceptanceEventSchema E v2 x = Some a"
  shows "acc_runId a = acc_runId x \<and> acc_attempt a = acc_attempt x \<and> acc_runRevision a = acc_runRevision x \<and>
    acc_ownerEpoch a = acc_ownerEpoch x \<and> acc_taskGeneration a = acc_taskGeneration x \<and>
    acc_workerRole a = acc_workerRole x \<and> acc_captureCommit a = acc_captureCommit x \<and>
    acc_artifactHash a = acc_artifactHash x \<and> acc_acceptedAfterReview a = acc_acceptedAfterReview x \<and>
    nonempty (acc_ownerSessionId x) = Some (acc_ownerSessionId a) \<and> runtimeId (acc_actualAgentId x) = Some (acc_actualAgentId a) \<and>
    nullable runtimeId (acc_actualJobId x) = Some (acc_actualJobId a) \<and> nullable scopeSchema (acc_scope x) = Some (acc_scope a)"
proof -
  from assms show ?thesis
    unfolding acceptanceEventSchema_def Let_def counter_def counter_positive_def commit_schema_def hash_schema_def uuid_schema_def
    by (elim bind_SomeE guard_SomeE) (simp split: if_splits)
qed

lemma receipt_agent_normal:
  assumes "validateEvidenceBundle E ee root rid n host path = Inr b"
  shows "runtimeId (we_actualAgentId (eb_receipt b)) = Some (we_actualAgentId (eb_receipt b))"
    "nullable runtimeId (we_actualJobId (eb_receipt b)) = Some (we_actualJobId (eb_receipt b))"
proof -
  from assms obtain bytes where "decodeReceipt E ee bytes = Some (eb_receipt b)"
    by (auto simp: validateEvidenceBundle_def Let_def split: option.splits if_splits)
  then obtain r where "WorkerEvidenceReceiptSchema E r = Some (eb_receipt b)"
    by (auto simp: decodeReceipt_def split: file_bytes.splits)
  then have "\<exists>x. runtimeId x = Some (we_actualAgentId (eb_receipt b))"
    "\<exists>x. nullable runtimeId x = Some (we_actualJobId (eb_receipt b))"
    unfolding WorkerEvidenceReceiptSchema_def Let_def by ((elim bind_SomeE guard_SomeE, simp, blast))+
  then show "runtimeId (we_actualAgentId (eb_receipt b)) = Some (we_actualAgentId (eb_receipt b))"
    "nullable runtimeId (we_actualJobId (eb_receipt b)) = Some (we_actualJobId (eb_receipt b))"
    using runtime_id_schema.parse_idem runtime_id_schema.nullable_idem by blast+
qed

lemma accepted_event_fields:
  assumes "validateEvidenceBundle E ee root rid n host path = Inr b" "receiptBindingError ds (eb_receipt b) head = None"
    and "acceptanceEventSchema E True (acceptance_candidate l (accepted_event ds b) sha) = Some a" "al_isV2 l"
    and "nonempty (own_sessionId (run_owner (scope_run (ds_scope ds)))) = Some (own_sessionId (run_owner (scope_run (ds_scope ds))))"
  shows "accepts_dispatch ds a \<and> acc_captureCommit a = head \<and> acc_artifactHash a = eb_artifactHash b"
proof -
  note bound = assms(2) [unfolded receiptBindingError_None_iff binding_errors_def Let_def]
  have "nullable scopeSchema (acc_scope (accepted_event ds b)) = Some (acc_scope a)"
    using candidate_fields [OF assms(3)] assms(4) by (simp add: acceptance_candidate_def)
  then obtain z where "acc_scope a = Some z" "as_taskId z = js_trim (ds_taskId ds)"
    by (cases "acc_scope a") (auto simp: accepted_event_def Let_def nullable_def scopeSchema_def schema_simps elim!: bind_SomeE)
  then have scope: "acc_taskId a = Some (js_trim (ds_taskId ds))" by (simp add: acc_taskId_def)
  show ?thesis
    using candidate_fields [OF assms(3)] receipt_agent_normal [OF assms(1)] assms(5) bound scope
    by (simp add: accepts_dispatch_def Let_def acceptance_candidate_def accepted_event_def)
qed

lemma accepted_changes:
  assumes "readAcceptance E sz (acc_runId ev) v2 fs = Inr l" "accept E sz v2 io fs ev sha = (fs', AcceptDone Accepted)"
  shows "fs' \<noteq> fs"
  using assms
proof (cases rule: accept_cases)
  case (logged candidate updated wal')
  then have "wal' \<noteq> af_wal fs" by (auto simp: appendAcceptanceWal_def readAcceptanceWal_def Let_def split: sum.splits if_splits)
  moreover from logged(4) have "af_wal fs' = wal'" by auto
  ultimately show ?thesis by blast
qed simp

text \<open>The dispatch of an accepted result.\<close>

lemma accept_worker_acceptedE:
  assumes "accept_worker we io session v d = (d', WorkAccepted h)"
  obtains inp s ds b l where "WorkerAcceptanceInputSchema v = Some inp"
    "resolveUnlocked (wv_env we) (wv_root we) d session = Inr (ScopeFound s)" "dispatch_of s inp = Inr ds"
    "readRejections (wv_env we) (run_runId (scope_run s)) (run_is_v2 (scope_run s)) (d_rejections d (run_runId (scope_run s))) = Inr l"
    "rejectionCount l (rejection_scope_of ds) = 3 \<longrightarrow> wa_parentDecision inp = Some AcceptAfterReview"
    "dispatch_evidence we io ds = Inr b"
    "record_acceptance we io ds b (rejectionCount l (rejection_scope_of ds)) d = (d', WorkAccepted h)"
proof -
  from assms obtain inp where inp: "WorkerAcceptanceInputSchema v = Some inp"
    and locked: "accept_worker_locked we io session inp d = (d', WorkAccepted h)"
    by (auto simp: accept_worker_def split: option.splits if_splits prod.splits)
  from locked obtain s ds where s: "resolveUnlocked (wv_env we) (wv_root we) d session = Inr (ScopeFound s)" "dispatch_of s inp = Inr ds"
    and acc: "acceptDispatch we io ds d = (d', WorkAccepted h)"
    by (auto simp: accept_worker_locked_def split: if_splits sum.splits scope_result.splits)
  note ds = dispatch_of_InrD [OF s(2)]
  from acc obtain l where l: "readRejections (wv_env we) (run_runId (scope_run s)) (run_is_v2 (scope_run s)) (d_rejections d (run_runId (scope_run s))) = Inr l"
    using ds by (auto simp: acceptDispatch_def Let_def split: if_splits sum.splits)
  let ?n = "rejectionCount l (rejection_scope_of ds)"
  have no: "reject_result we io ds code d \<noteq> (d', WorkAccepted h)" for code
    by (auto simp: reject_result_def count_result_def Let_def split: if_splits sum.splits prod.splits write_outcome.splits)
  from acc l ds no obtain b where "?n = 3 \<longrightarrow> wa_parentDecision inp = Some AcceptAfterReview" "dispatch_evidence we io ds = Inr b"
    "record_acceptance we io ds b ?n d = (d', WorkAccepted h)"
    by (auto simp: acceptDispatch_def Let_def count_result_def split: if_splits sum.splits)
  with inp s l show thesis by (intro that)
qed

text \<open>The ledger of a run, as a reader finds it.\<close>

abbreviation read_log :: "worker_env \<Rightarrow> run \<Rightarrow> disk \<Rightarrow> ledger_error + acceptance_ledger" where
  "read_log we r d \<equiv> readAcceptance (wv_env we) (wv_size we) (run_runId r) (run_is_v2 r) (d_acceptances d (run_runId r))"

lemma recorded_acceptance:
  assumes "record_acceptance we io ds b prior d = (d', WorkAccepted h)" "we_runId (eb_receipt b) = run_runId (scope_run (ds_scope ds))"
    and "read_log we (scope_run (ds_scope ds)) d = Inr l" "al_isV2 l"
  obtains a where "acceptanceEventSchema (wv_env we) True (acceptance_candidate l (accepted_event ds b) (cn_sha256 (eb_receiptFile b))) = Some a"
    "read_log we (scope_run (ds_scope ds)) d' = Inr (l\<lparr>al_ledgerRevision := al_ledgerRevision l + 1, al_entries := al_entries l @ [a]\<rparr>)"
    "d' = put_acceptances d (run_runId (scope_run (ds_scope ds))) (d_acceptances d' (run_runId (scope_run (ds_scope ds))))"
    "h = eb_artifactHash b"
proof -
  let ?r = "scope_run (ds_scope ds)" and ?ev = "accepted_event ds b"
  have id: "acc_runId ?ev = run_runId ?r" using assms(2) by (simp add: accepted_event_def Let_def)
  from assms(1,2) obtain fs where acc: "accept (wv_env we) (wv_size we) (run_is_v2 ?r) (wi_accept io) (d_acceptances d (run_runId ?r)) ?ev
      (cn_sha256 (eb_receiptFile b)) = (fs, AcceptDone Accepted)" and d': "d' = put_acceptances d (run_runId ?r) fs" "h = eb_artifactHash b"
    by (auto simp: record_acceptance_def Let_def split: prod.splits accept_outcome.splits accept_status.splits)
  have fs: "fs = d_acceptances d' (run_runId ?r)" by (simp add: d'(1) put_acceptances_def)
  have l: "readAcceptance (wv_env we) (wv_size we) (acc_runId ?ev) (run_is_v2 ?r) (d_acceptances d (run_runId ?r)) = Inr l"
    using assms(3) id by simp
  from accept_recovers [OF l assms(4) acc accepted_changes [OF l acc]] fs d' id show thesis by (metis that)
qed

text \<open>
  C20. An accepted result is bound to the run. When a worker's result is accepted, Git named one clean commit before and after
  the evidence was read, the worker is an agent bound in the current generation of a run that has not ended, and a reader of
  the ledger finds the old entries and one more: of that run, attempt, revision, owner, generation, agent, job, role and commit,
  with the hash that is reported, after a review by the parent if the worker's rejections were used up. Nothing else on the
  disk changes, and while the run expects that commit, the entry is the one its authority reads for the worker's task.
\<close>

theorem worker_acceptance_bound:
  assumes "accept_worker we io session v d = (d', WorkAccepted h)"
    and "resolveUnlocked (wv_env we) (wv_root we) d session = Inr (ScopeFound s)" "read_log we (scope_run s) d = Inr l" "al_isV2 l"
  shows "\<exists>inp ds a. dispatch_of s inp = Inr ds \<and> \<not> run_terminal (scope_run s) \<and>
    ds_identity ds \<in> set (runtimeIdentities s (taskGeneration s)) \<and> accepts_dispatch ds a \<and> acc_artifactHash a = h \<and>
    readGitEvidenceBinding (wi_git io) = Inr (acc_captureCommit a) \<and> readGitEvidenceBinding (wi_finalGit io) = Inr (acc_captureCommit a) \<and>
    (\<forall>n. readRejections (wv_env we) (run_runId (scope_run s)) (run_is_v2 (scope_run s)) (d_rejections d (run_runId (scope_run s))) = Inr n \<longrightarrow>
       rejectionCount n (rejection_scope_of ds) = 3 \<longrightarrow> acc_acceptedAfterReview a) \<and>
    read_log we (scope_run s) d' = Inr (l\<lparr>al_ledgerRevision := al_ledgerRevision l + 1, al_entries := al_entries l @ [a]\<rparr>) \<and>
    d' = put_acceptances d (run_runId (scope_run s)) (d_acceptances d' (run_runId (scope_run s))) \<and>
    (\<forall>auth. readReceiptAuthority (wv_env we) (wv_size we) s (d_acceptances d' (run_runId (scope_run s)))
         (d_rejections d' (run_runId (scope_run s))) = Inr auth \<longrightarrow> matchesRun (scope_run s) a \<longrightarrow>
       currentAcceptance (scope_run s) auth (js_trim (ds_taskId ds)) = Some a)"
proof -
  from assms(1) obtain inp s0 ds b n where w: "resolveUnlocked (wv_env we) (wv_root we) d session = Inr (ScopeFound s0)"
    "dispatch_of s0 inp = Inr ds" "readRejections (wv_env we) (run_runId (scope_run s0)) (run_is_v2 (scope_run s0))
       (d_rejections d (run_runId (scope_run s0))) = Inr n"
    "rejectionCount n (rejection_scope_of ds) = 3 \<longrightarrow> wa_parentDecision inp = Some AcceptAfterReview"
    "dispatch_evidence we io ds = Inr b" "record_acceptance we io ds b (rejectionCount n (rejection_scope_of ds)) d = (d', WorkAccepted h)"
    by (rule accept_worker_acceptedE) blast
  have "s0 = s" using w(1) assms(2) by simp
  note w = w [unfolded this] and ds = dispatch_of_InrD [OF w(2) [unfolded this]]
  obtain head where e: "readGitEvidenceBinding (wi_git io) = Inr head" "readGitEvidenceBinding (wi_finalGit io) = Inr head"
    "validateEvidenceBundle (wv_env we) (wv_evidence we) (wv_root we) (run_runId (scope_run (ds_scope ds)))
       (run_progressRevision (scope_run (ds_scope ds))) (wi_files io) (wa_receiptPath (ds_input ds)) = Inr b"
    "receiptBindingError ds (eb_receipt b) head = None" by (rule dispatch_evidence_InrD [OF w(5)])
  have "we_runId (eb_receipt b) = run_runId (scope_run (ds_scope ds))"
    using e(4) by (simp add: receiptBindingError_None_iff binding_errors_def Let_def)
  from recorded_acceptance [OF w(6) this] assms(3,4) ds obtain a where
    a: "acceptanceEventSchema (wv_env we) True (acceptance_candidate l (accepted_event ds b) (cn_sha256 (eb_receiptFile b))) = Some a"
    and read: "read_log we (scope_run s) d' = Inr (l\<lparr>al_ledgerRevision := al_ledgerRevision l + 1, al_entries := al_entries l @ [a]\<rparr>)"
    and d': "d' = put_acceptances d (run_runId (scope_run s)) (d_acceptances d' (run_runId (scope_run s)))" "h = eb_artifactHash b"
    by metis
  have "ownerSchema (run_owner (scope_run s)) = Some (run_owner (scope_run s))"
    using resolved_ok [OF assms(2)] by (simp add: scope_ok_def)
  then have "nonempty (own_sessionId (run_owner (scope_run (ds_scope ds)))) = Some (own_sessionId (run_owner (scope_run (ds_scope ds))))"
    using ds by (simp add: ownerSchema_normal_iff)
  note fields = accepted_event_fields [OF e(3,4) a assms(4) this]
  have "currentAcceptance (scope_run s) auth (js_trim (ds_taskId ds)) = Some a"
    if "readReceiptAuthority (wv_env we) (wv_size we) s (d_acceptances d' (run_runId (scope_run s)))
      (d_rejections d' (run_runId (scope_run s))) = Inr auth" "matchesRun (scope_run s) a" for auth
  proof -
    from that(1) read have "auth_accepted auth = al_entries l @ [a]" "auth_taskGeneration auth = taskGeneration s"
      by (auto simp: readReceiptAuthority_def Let_def split: sum.splits)
    with that(2) fields ds show ?thesis by (simp add: currentAcceptance_def accepts_dispatch_def Let_def)
  qed
  moreover have "acc_acceptedAfterReview a" if "rejectionCount n (rejection_scope_of ds) = 3"
    using fields w(4) ds that by (simp add: accepts_dispatch_def Let_def)
  ultimately show ?thesis using w(2,3) ds fields read d' e(1,2) by (intro exI [of _ inp] exI [of _ ds] exI [of _ a]) simp
qed

text \<open>A worker that has been bound, its receipt, and a host that finds both the receipt and its artifact.\<close>

definition work_scope :: task_run_scope where
  "work_scope = sample_scope\<lparr>scope_ledger := (scope_ledger sample_scope)\<lparr>tl_ledgerRevision := 2, tl_entries :=
     [owner_entry 1 (TaskReserved ''call'' 1 [\<lparr>req_canonicalInputHash = None, req_itemIndex = 0, req_requestedName = Some ''1'',
        req_agentType = Some ''omp-lazy-worker-low''\<rparr>]),
      owner_entry 2 (TaskIdentitiesBound ''call''
        [\<lparr>bind_itemIndex = 0, bind_actualAgentId = ''agent1'', bind_actualJobId = None\<rparr>])]\<rparr>\<rparr>"

definition work_receipt :: worker_receipt where
  "work_receipt = \<lparr>we_runId = run_runId sample_start_run, we_attempt = 1, we_runRevision = 1, we_ownerEpoch = 1, we_taskGeneration = 2,
     we_workerRole = WorkerLow, we_actualAgentId = ''agent1'', we_actualJobId = None, we_captureCommit = sample_commit,
     we_output = \<lparr>wo_exitCode = 0, wo_truncated = False, wo_schemaOverridden = False, wo_aborted = False, wo_blocked = False\<rparr>,
     we_artifacts = [\<lparr>ac_path = evidenceRootPath sample_root (run_runId sample_start_run) 1 @ ''/log'',
       ac_capture = \<lparr>ec_runId = run_runId sample_start_run, ec_attempt = 1, ec_commit = sample_commit\<rparr>\<rparr>],
     we_resources = [], we_cleanup = NoCleanup ''none''\<rparr>"

definition work_env :: worker_env where
  "work_env = \<lparr>wv_env = sample_env, wv_root = sample_root, wv_evidence = \<lparr>ee_sha = (\<lambda>_. sample_hash),
     ee_receipt = (\<lambda>_. Json work_receipt), ee_cleanup = (\<lambda>_. NotJson)\<rparr>, wv_size = line_size\<rparr>"

definition work_file :: "string \<Rightarrow> evidence_host" where
  "work_file name = (let root = evidenceRootPath sample_root (run_runId sample_start_run) 1 in
     \<lparr>eh_rootReal = Some root, eh_before = Some (False, True, 1), eh_candidateReal = Some (root @ ''/'' @ name),
      eh_opened = Some (True, 1, 7), eh_bytes = Some ''x'', eh_after = Some (1, 7), eh_closed = True\<rparr>)"

definition work_io :: worker_io where
  "work_io = \<lparr>wi_lock = True, wi_cwd = True, wi_readable = True, wi_ledgersReadable = True, wi_abortedBefore = False,
     wi_abortedAfter = False, wi_git = \<lparr>gh_head = Some sample_commit, gh_status = Some []\<rparr>,
     wi_finalGit = \<lparr>gh_head = Some sample_commit, gh_status = Some []\<rparr>,
     wi_files = (\<lambda>k. work_file (if k = 0 then ''receipt.json'' else ''log'')),
     wi_accept = \<lparr>io_deadlineValid = True, io_walPublished = True, io_snapshotPublished = True\<rparr>,
     wi_reject = smooth_write, wi_released = True\<rparr>"

definition work_input :: tool_value where
  "work_input = VObject [(''agentId'', VText ''agent1''),
     (''receiptPath'', VText (evidenceRootPath sample_root (run_runId sample_start_run) 1 @ ''/receipt.json''))]"

abbreviation work_disk :: disk where
  "work_disk \<equiv> gate_disk None (scope_ledger work_scope)"

lemma work_accepted:
  "snd (accept_worker work_env work_io ''s1'' work_input work_disk) = WorkAccepted sample_hash"
  by code_simp

theorem worker_acceptance_bound_witness:
  "\<exists>a. read_log work_env sample_start_run (fst (accept_worker work_env work_io ''s1'' work_input work_disk)) =
     Inr ((empty_acceptance True (run_runId sample_start_run))\<lparr>al_ledgerRevision := 1, al_entries := [a]\<rparr>) \<and>
     acc_captureCommit a = sample_commit"
proof -
  let ?r = "accept_worker work_env work_io ''s1'' work_input work_disk"
  have r: "?r = (fst ?r, WorkAccepted sample_hash)" using work_accepted by (metis prod.collapse)
  have scope: "resolveUnlocked (wv_env work_env) (wv_root work_env) work_disk ''s1'' = Inr (ScopeFound work_scope)"
    "read_log work_env (scope_run work_scope) work_disk = Inr (empty_acceptance True (run_runId sample_start_run))"
    by code_simp+
  have "readGitEvidenceBinding (wi_git work_io) = Inr sample_commit" "al_isV2 (empty_acceptance True (run_runId sample_start_run))"
    "al_ledgerRevision (empty_acceptance True (run_runId sample_start_run)) = 0" "al_entries (empty_acceptance True (run_runId sample_start_run)) = []"
    "scope_run work_scope = sample_start_run"
    by code_simp+
  with worker_acceptance_bound [OF r scope] show ?thesis by auto
qed

end
