(* ===== verification/Spec2Isabelle.thy ===== *)
theory Spec2Isabelle
  imports Transition_Properties Store_Properties Task_Ledger_Properties Acceptance_Properties Lock_Properties Plan_Properties Continuation_Properties Packet_Properties Policy_Properties Team_Properties
    Catalog_Compaction Command_Properties Activation_Properties Migration_Record_Properties Migration_Progress
    Observer_Properties Rules_Properties Rules_Discovery_Properties Model_Role_Properties Lcx_Contract Critic_Properties Worker_Result_Properties
begin

text \<open>
  \<^bold>\<open>The program.\<close> The extension (\<^verbatim>\<open>src/\<close> in the repository, TypeScript) gives a coding agent durable workflows:
  a start-work run follows the checklist of a Markdown plan, a ULW loop pursues goals with criteria. The
  state of a repository lives in files under \<^verbatim>\<open>.omo\<close>: an index of active runs, a snapshot per run, a
  directory of events and sidecar ledgers. A change of state is an event. \<^verbatim>\<open>prepareTransition\<close> decides what
  an event does to a run; the transaction store appends the event, replaces the run and replaces the
  index, in this order and under a lock file, so that a crash leaves at most one unfinished commit, which
  recovery completes. Around this core, gates look at the tool calls of a session before they run and record
  in the task ledger of the run what they let through, observers record what the calls came to, a
  worker's result is accepted into a ledger with a write-ahead log only with evidence, and a coordinator
  continues a run when its session goes idle. Progress of a run (a criterion that passes, a run that
  completes) rests on the entries of these ledgers.

  \<^bold>\<open>How the model follows the code.\<close> One theory models one part, with the names of the source: an object type is a
  record, a discriminated union a datatype, an asynchronous method a function from the state it reads and
  from what the host answers to the new state and the result. A thrown error or a refusal is a
  constructor of the result. A schema (zod) is a function to an option, which trims and checks as the
  schema does; the decoders of files are built on them.

  \<^item> State: \<open>State_Domain\<close> (\<^verbatim>\<open>state/domain.ts\<close>), \<open>State_Codec\<close> and \<open>State_Decode\<close> (\<^verbatim>\<open>state/codec-schemas.ts\<close>,
    \<^verbatim>\<open>codec.ts\<close>, \<^verbatim>\<open>active-index.ts\<close>, \<^verbatim>\<open>paths.ts\<close>), \<open>Display_Paths\<close>.
  \<^item> Transitions: \<open>Workflow_Reducers\<close> (\<^verbatim>\<open>workflows/workflow-control.ts\<close>, \<^verbatim>\<open>ulw-loop-contract.ts\<close>,
    \<^verbatim>\<open>start-work-contract.ts\<close>), \<open>Receipt_Authority\<close>, \<open>State_Transition\<close> (\<^verbatim>\<open>state/state-transition.ts\<close>,
    \<^verbatim>\<open>runtime-progress-transition.ts\<close>, \<^verbatim>\<open>persisted-event.ts\<close>).
  \<^item> The store: \<open>Atomic_Files\<close>, \<open>Event_Store\<close>, \<open>Transaction_Store\<close> (\<^verbatim>\<open>state/atomic-file.ts\<close>, \<^verbatim>\<open>event-store.ts\<close>,
    \<^verbatim>\<open>transaction-store.ts\<close>, \<^verbatim>\<open>recovery.ts\<close>), \<open>Repo_Lock\<close> (\<^verbatim>\<open>repo-lock.ts\<close>).
  \<^item> Migration of version 1 files: \<open>Migration_Records\<close>, \<open>Migration\<close> (\<^verbatim>\<open>state/migration.ts\<close>, \<^verbatim>\<open>migration-records.ts\<close>).
  \<^item> Ledgers: \<open>Task_Ledger\<close> (\<^verbatim>\<open>gates/task-ledger-codec.ts\<close>, \<^verbatim>\<open>task-ledger-view.ts\<close>, \<^verbatim>\<open>task-sidecar-store.ts\<close>,
    \<^verbatim>\<open>task-event-ledger.ts\<close>, \<^verbatim>\<open>task-receipt-writer.ts\<close>), \<open>Acceptance_Ledger\<close>
    (\<^verbatim>\<open>contracts/worker-acceptance-ledger.ts\<close>, \<^verbatim>\<open>worker-acceptance-wal.ts\<close>).
  \<^item> Tool calls: \<open>Tool_Input\<close> and \<open>Tool_Gates\<close> (\<^verbatim>\<open>gates/\<close>), \<open>Tool_Observer\<close> (\<^verbatim>\<open>observers/tool-result-observer.ts\<close> and
    its codecs), \<open>Retrieval_Budget\<close>.
  \<^item> Workers: \<open>Worker_Evidence\<close>, \<open>Worker_Results\<close>, \<open>Critic_Receipt\<close>, \<open>Worker_Policies\<close>, \<open>Model_Roles\<close>, \<open>Lcx_Contract\<close>.
  \<^item> Workflows: \<open>Start_Work_Plan\<close>, \<open>Task_Packet\<close>, \<open>Continuation_Budget\<close> and \<open>Continuation\<close>, \<open>Team_Mode\<close> and
    \<open>Team_Lifecycle\<close>, \<open>Activation\<close>, \<open>Command_Grammar\<close>.
  \<^item> Context: \<open>Catalog_Compaction\<close>, \<open>Rules_Assembly\<close>, \<open>Rules_Discovery\<close>.

  \<open>Omp_Prelude\<close> holds what the sources use of the language, the file contents as a decoder sees them, and the
  interfaces: idempotent schemas and append-only logs, which the event log, the task ledger and the
  acceptance ledger implement. \<open>Sample_State\<close> and \<open>Sample_Store\<close> hold the state on which witnesses are
  evaluated. The theories \<open>\<dots>_Laws\<close> hold lemmas shared by several theories of properties.

  \<^bold>\<open>What is shown.\<close>
  \<^item> \<open>Store_Properties\<close>: every commit ends in one of four stages of the disk, repair completes the two middle ones,
    an unfinished commit blocks the next one, replay changes nothing, the event log only grows.
  \<^item> \<open>Transition_Properties\<close>: the expectations a transition enforces, fencing of former owners, preservation of
    the schema, and the ledger entries without which no criterion passes and no run completes.
  \<^item> \<open>Lock_Properties\<close>: mutual exclusion over interleaved file system calls, and how two clearers of a stale lock
    break it.
  \<^item> \<open>Migration_Record_Properties\<close>, \<open>Migration_Properties\<close>, \<open>Migration_Progress\<close>: converted records are current,
    a migration is all or nothing under every host behaviour, and one undisturbed preflight finishes it.
  \<^item> \<open>Task_Ledger_Properties\<close>, \<open>Acceptance_Properties\<close>: the ledgers stay well formed and only grow, and an
    acceptance is read back after a crash, field by field.
  \<^item> \<open>Tool_Input_Properties\<close>, \<open>Gate_Properties\<close>, \<open>Observer_Properties\<close>: what is let through is recorded, owned
    and within the policy; what a result reports is what the gates then authorise.
  \<^item> \<open>Worker_Result_Properties\<close>, \<open>Critic_Properties\<close>, \<open>Policy_Properties\<close>, \<open>Model_Role_Properties\<close>: what an
    accepted result and an approval stand for, what a session can retrieve, which model a worker gets.
  \<^item> \<open>Continuation_Properties\<close>, \<open>Team_Properties\<close>, \<open>Activation_Properties\<close>, \<open>Plan_Properties\<close>, \<open>Packet_Properties\<close>,
    \<open>Command_Properties\<close>, \<open>Catalog_Compaction\<close>, \<open>Rules_Properties\<close>, \<open>Rules_Discovery_Properties\<close>: the contracts of
    these parts.

  Several lemmas show where the code falls short of what it means to do, on concrete state; they stand next to
  the property they limit (for instance \<open>settling_active_goal_breaks_snapshot\<close>,
  \<open>concurrent_clearing_breaks_exclusion\<close>, \<open>empty_steering_corrupts_log\<close>, \<open>late_migration_undoes_commit\<close>).

  \<^bold>\<open>The host.\<close> No definition needs fuel. A loop of the code that waits for the host (the retries of
  \<^verbatim>\<open>atomicReplace\<close>, the acquisition of the lock) runs over the list of what the host answers at each turn, and a list that is
  used up stands for a process that is still waiting or has died; the lemmas \<open>rename_loop_ends\<close> and
  \<open>acquire_exclusive\<close> say that such a loop returns once the deadline has passed. The other recursions are
  structural or have a measure. Every deadline check, the outcome of every system call and the death of the
  process between two of them are inputs, so a theorem about a commit holds for all of them.

  \<^bold>\<open>Abstractions.\<close>
  \<^item> A file is its parsed JSON value: \<open>NotJson\<close> (no JSON text), \<open>OtherJson\<close> (JSON that no schema here takes) or
    \<open>Json v\<close>; \<^verbatim>\<open>JSON.stringify\<close> is the constructor. Where the code compares the JSON texts of two
    values, the order of the keys matters: values that have been parsed have the order of their schema,
    and for the others a flag of the caller says whether they do (\<open>same_semantics\<close>, \<open>sameFact\<close>).
  \<^item> Characters are those up to U+00FF (Isabelle's \<open>char\<close>); NFC is the identity on them, and the UTF-8
    length of one is 1 or 2. Strings of the sources that hold other characters are outside the model.
  \<^item> Numbers of the persisted state are natural numbers with the bound of safe integers written out where a
    schema has it.
  \<^item> Parameters: SHA-256, the validators of zod for UUIDs and timestamps, whether \<^verbatim>\<open>extend\<close> keeps the refinements of
    a schema, the platform test, \<^verbatim>\<open>realpath\<close>, Git, \<^verbatim>\<open>localeCompare\<close>. Nothing is assumed of them unless a
    property says so.
  \<^item> Paths are POSIX paths except where a definition asks for the platform.
  \<^item> The content of a temporary file that is left behind is arbitrary; one that cannot be removed after a
    publication makes the write throw although it took effect (\<open>RenameThenThrows\<close>).
  \<^item> In \<open>commit\<close> the errors thrown while the lock is acquired or released are left out: the disk is
    the same.

  \<^bold>\<open>Not modelled.\<close> The handlers of the commands (\<^verbatim>\<open>commands/workflow-command-*.ts\<close>, \<^verbatim>\<open>team-reservation-store.ts\<close>), which
    read inputs and build the events that the store commits; the observers that publish a status line and
    count model calls; the registration of hooks and tools with the host application (\<^verbatim>\<open>extension/\<close>, \<^verbatim>\<open>tools/\<close>,
    \<^verbatim>\<open>index.ts\<close>); the evaluation harness (\<^verbatim>\<open>harness-eval/\<close>), the scripts, and the prompt texts (\<^verbatim>\<open>skills/\<close>,
    \<^verbatim>\<open>agents/\<close>). The concurrency between a commit and unlocked readers appears where a reader is modelled: the
    coordinator of continuations reads a disk of its own at each step.
\<close>

end
